(* ===== verification/Prelude.thy ===== *)
theory Prelude
  imports Complex_Main "HOL-Library.AList"
begin

section \<open>Shared vocabulary of the development\<close>

text \<open>
  What every component uses: insertion-ordered dictionaries (Python's \<open>dict\<close>), dynamic
  JSON values (\<open>Any\<close>), the ASCII fragment of Python's string methods, and the record of
  everything a service reads from its environment: the wall clock (\<open>utcnow\<close>), the source
  of fresh identifiers (\<open>new_id\<close>) and the random source of the backoff jitter. The three
  environment sources are oracles indexed by the number of reads made so far, so every read
  of the source is one explicit step of the model. Every service state extends this record.
\<close>

subsection \<open>Theorem collections\<close>

named_theorems frame
  \<comment> \<open>fields that an operation leaves alone\<close>

subsection \<open>Insertion-ordered dictionaries\<close>

type_synonym ('k, 'v) dict = "('k \<times> 'v) list"

abbreviation dget :: "('k, 'v) dict \<Rightarrow> 'k \<Rightarrow> 'v option" where
  "dget d k \<equiv> map_of d k"

abbreviation dput :: "'k \<Rightarrow> 'v \<Rightarrow> ('k, 'v) dict \<Rightarrow> ('k, 'v) dict" where
  "dput k v d \<equiv> AList.update k v d"

abbreviation dpop :: "'k \<Rightarrow> ('k, 'v) dict \<Rightarrow> ('k, 'v) dict" where
  "dpop k d \<equiv> AList.delete k d"

abbreviation dvals :: "('k, 'v) dict \<Rightarrow> 'v list" where
  "dvals d \<equiv> map snd d"

abbreviation dkeys :: "('k, 'v) dict \<Rightarrow> 'k list" where
  "dkeys d \<equiv> map fst d"

lemma dget_dput [simp]: "dget (dput k v d) k' = (if k' = k then Some v else dget d k')"
  by (simp add: update_conv')

lemma dget_dpop [simp]: "dget (dpop k d) k' = (if k' = k then None else dget d k')"
  by (simp add: delete_conv')

lemma dict_distinct_put [simp]: "distinct (dkeys d) \<Longrightarrow> distinct (dkeys (dput k v d))"
  by (rule distinct_update)

lemma dict_distinct_pop [simp]: "distinct (dkeys d) \<Longrightarrow> distinct (dkeys (dpop k d))"
  by (rule distinct_delete)

lemma dict_entry_iff: "distinct (dkeys d) \<Longrightarrow> (k, v) \<in> set d \<longleftrightarrow> dget d k = Some v"
  by simp

lemma dict_valsE:
  assumes "distinct (dkeys d)" and "v \<in> set (dvals d)"
  obtains k where "dget d k = Some v"
  using assms by auto

text \<open>When every value knows its key, the values are distinct, and so are their keys.\<close>

lemma keyed_values:
  assumes "distinct (dkeys d)" and "\<And>k v. dget d k = Some v \<Longrightarrow> key v = k"
  shows "map key (dvals d) = dkeys d" and "distinct (dvals d)" and "inj_on key (set (dvals d))"
proof -
  have "key v = k" if "(k, v) \<in> set d" for k v
    using assms that by simp
  then show eq: "map key (dvals d) = dkeys d" by (auto simp: map_eq_conv)
  have "distinct (map key (dvals d))" unfolding eq by (rule assms(1))
  then show "distinct (dvals d)" and "inj_on key (set (dvals d))" by (simp_all only: distinct_map)
qed

text \<open>Dropping a key keeps the order of the rest, and overwriting a key keeps its place.\<close>

lemma dkeys_dput: "dkeys (dput k v d) = (if k \<in> set (dkeys d) then dkeys d else dkeys d @ [k])"
  by (induction d) auto

lemma dput_new: "k \<notin> set (dkeys d) \<Longrightarrow> dput k v d = d @ [(k, v)]"
  by (induction d) auto

lemma distinct_one: "distinct xs \<Longrightarrow> set xs = {x} \<Longrightarrow> xs = [x]"
proof (cases xs)
  case (Cons y ys)
  assume "distinct xs" "set xs = {x}"
  with Cons show ?thesis by (cases ys) auto
qed simp

subsection \<open>The persistence interface\<close>

text \<open>
  What every persistence port of the repository (run, session, nudge, document, message store)
  promises its service: an entity that was created or saved is read back under its key, no other
  key is affected, and saving stamps the entity without changing its key or its content
  (\<open>core\<close>, everything but the time stamp). The services rest on these laws only.
\<close>

locale entity_store =
  fixes key :: "'v \<Rightarrow> 'k"
    and core :: "'v \<Rightarrow> 'c"
    and lookup :: "'k \<Rightarrow> 's \<Rightarrow> 'v option"
    and create :: "'v \<Rightarrow> 's \<Rightarrow> 's"
    and save :: "'v \<Rightarrow> 's \<Rightarrow> 'v \<times> 's"
  assumes create_lookup: "lookup k (create v s) = (if k = key v then Some v else lookup k s)"
    and save_key: "key (fst (save v s)) = key v"
    and save_core: "core (fst (save v s)) = core v"
    and save_lookup:
      "lookup k (snd (save v s)) = (if k = key v then Some (fst (save v s)) else lookup k s)"
begin

lemma read_your_create: "lookup (key v) (create v s) = Some v"
  by (simp add: create_lookup)

lemma read_your_save: "save v s = (v', s') \<Longrightarrow> lookup (key v) s' = Some v'"
  using save_lookup [of "key v" v s] by simp

lemma save_frame: "save v s = (v', s') \<Longrightarrow> k \<noteq> key v \<Longrightarrow> lookup k s' = lookup k s"
  using save_lookup [of k v s] by simp

lemma saved_key: "save v s = (v', s') \<Longrightarrow> key v' = key v"
  using save_key [of v s] by simp

lemma saved_core: "save v s = (v', s') \<Longrightarrow> core v' = core v"
  using save_core [of v s] by simp

lemma save_keeps_all:
  assumes "\<And>k x. lookup k s = Some x \<Longrightarrow> P (core x)" and "P (core v)"
    and "lookup k (snd (save v s)) = Some x"
  shows "P (core x)"
  using assms by (auto simp: save_lookup save_core split: if_splits)

lemma save_twice:
  "lookup k (snd (save w (snd (save v s)))) =
     (if k = key w then Some (fst (save w (snd (save v s))))
      else if k = key v then Some (fst (save v s)) else lookup k s)"
  by (simp add: save_lookup)

end

subsection \<open>Dynamic values\<close>

datatype json =
    JNull
  | JBool bool
  | JInt int
  | JReal real
  | JStr string
  | JList "json list"
  | JObj "(string \<times> json) list"

type_synonym payload = "(string, json) dict"

text \<open>Python's truth value of a dynamic value.\<close>

fun truthy :: "json \<Rightarrow> bool" where
  "truthy JNull = False"
| "truthy (JBool b) = b"
| "truthy (JInt i) = (i \<noteq> 0)"
| "truthy (JReal r) = (r \<noteq> 0)"
| "truthy (JStr s) = (s \<noteq> [])"
| "truthy (JList xs) = (xs \<noteq> [])"
| "truthy (JObj d) = (d \<noteq> [])"

text \<open>\<open>d.get(k)\<close> on a dictionary: \<open>None\<close> when the key is absent.\<close>

definition jget :: "payload \<Rightarrow> string \<Rightarrow> json" where
  "jget d k = (case dget d k of Some v \<Rightarrow> v | None \<Rightarrow> JNull)"

text \<open>An optional text as a dynamic value.\<close>

definition opt_text :: "string option \<Rightarrow> json" where
  "opt_text o' = (case o' of None \<Rightarrow> JNull | Some t \<Rightarrow> JStr t)"

text \<open>\<open>{**a, **b}\<close>: the later dictionary wins.\<close>

fun merge :: "payload \<Rightarrow> payload \<Rightarrow> payload" where
  "merge a [] = a"
| "merge a ((k, v) # b) = merge (dput k v a) b"

lemma dget_merge:
  assumes "distinct (dkeys b)"
  shows "dget (merge a b) k = (case dget b k of Some v \<Rightarrow> Some v | None \<Rightarrow> dget a k)"
  using assms
proof (induction a b rule: merge.induct)
  case (1 a)
  then show ?case by simp
next
  case (2 a k' v b)
  from "2.prems" have "dget b k' = None" by (simp add: map_of_eq_None_iff)
  with 2 show ?case
    by (auto split: option.splits)
qed

subsection \<open>Strings\<close>

text \<open>
  A Python string is a list of characters. The identities, keys and tokens these functions are
  applied to are ASCII, and the case mapping and the whitespace set are those of ASCII.
\<close>

definition code :: "char \<Rightarrow> nat" where
  "code c = of_char c"

definition is_space :: "char \<Rightarrow> bool" where
  "is_space c = (code c = 32 \<or> (9 \<le> code c \<and> code c \<le> 13) \<or> (28 \<le> code c \<and> code c \<le> 31))"

definition is_digit :: "char \<Rightarrow> bool" where
  "is_digit c = (48 \<le> code c \<and> code c \<le> 57)"

definition is_alpha :: "char \<Rightarrow> bool" where
  "is_alpha c = ((65 \<le> code c \<and> code c \<le> 90) \<or> (97 \<le> code c \<and> code c \<le> 122))"

definition is_alnum :: "char \<Rightarrow> bool" where
  "is_alnum c = (is_alpha c \<or> is_digit c)"

definition lower_char :: "char \<Rightarrow> char" where
  "lower_char c = (if 65 \<le> code c \<and> code c \<le> 90 then char_of (code c + 32) else c)"

definition lower :: "string \<Rightarrow> string" where
  "lower s = map lower_char s"

definition strip :: "string \<Rightarrow> string" where
  "strip s = rev (dropWhile is_space (rev (dropWhile is_space s)))"

text \<open>\<open>sep.join(xs)\<close>.\<close>

fun join :: "string \<Rightarrow> string list \<Rightarrow> string" where
  "join sep [] = []"
| "join sep [x] = x"
| "join sep (x # y # xs) = x @ sep @ join sep (y # xs)"

text \<open>\<open>s.startswith(pre)\<close>, \<open>part in s\<close>, and a text between single quotes.\<close>

definition starts_with :: "string \<Rightarrow> string \<Rightarrow> bool" where
  "starts_with pre s = (take (length pre) s = pre)"

fun contains :: "string \<Rightarrow> string \<Rightarrow> bool" where
  "contains part [] = (part = [])"
| "contains part (c # cs) = (starts_with part (c # cs) \<or> contains part cs)"

definition quoted :: "string \<Rightarrow> string" where
  "quoted s = [CHR 0x27] @ s @ [CHR 0x27]"

abbreviation cr :: char where "cr \<equiv> CHR 0x0D"

abbreviation lf :: char where "lf \<equiv> CHR 0x0A"

abbreviation dquote :: char where "dquote \<equiv> CHR 0x22"

lemma code_lower_char: "code (lower_char c) = (if 65 \<le> code c \<and> code c \<le> 90 then code c + 32 else code c)"
  by (simp add: lower_char_def code_def)

lemma lower_char_idem [simp]: "lower_char (lower_char c) = lower_char c"
  using code_lower_char [of c] by (auto simp: lower_char_def)

lemma lower_idem [simp]: "lower (lower s) = lower s"
  by (simp add: lower_def)

lemma is_space_lower_char [simp]: "is_space (lower_char c) = is_space c"
  by (auto simp: is_space_def code_lower_char)

subsection \<open>The environment of a service\<close>

text \<open>
  \<open>clock\<close> gives the successive readings of \<open>datetime.now(UTC)\<close> in microseconds,
  \<open>entropy\<close> the successive suffixes \<open>new_id\<close> appends to its prefix (48-bit millisecond
  time stamp and random hex digits), \<open>dice\<close> the successive values of \<open>random()\<close>.
\<close>

record base =
  clock :: "nat \<Rightarrow> int"
  ticks :: nat
  entropy :: "nat \<Rightarrow> string"
  minted :: nat
  dice :: "nat \<Rightarrow> real"
  rolled :: nat

definition utcnow :: "'a base_scheme \<Rightarrow> int" where
  "utcnow s = clock s (ticks s)"

definition tick :: "'a base_scheme \<Rightarrow> 'a base_scheme" where
  "tick s = s\<lparr>ticks := Suc (ticks s)\<rparr>"

definition new_id :: "string \<Rightarrow> 'a base_scheme \<Rightarrow> string" where
  "new_id prefix s = prefix @ ''_'' @ entropy s (minted s)"

definition mint :: "'a base_scheme \<Rightarrow> 'a base_scheme" where
  "mint s = s\<lparr>minted := Suc (minted s)\<rparr>"

text \<open>\<open>rng.uniform(a, b)\<close> is \<open>a + (b - a) * random()\<close>.\<close>

definition uniform :: "real \<Rightarrow> real \<Rightarrow> 'a base_scheme \<Rightarrow> real \<times> 'a base_scheme" where
  "uniform a b s = (a + (b - a) * dice s (rolled s), s\<lparr>rolled := Suc (rolled s)\<rparr>)"

text \<open>What \<open>random()\<close> documents: a value of the unit interval.\<close>

definition fair_dice :: "'a base_scheme \<Rightarrow> bool" where
  "fair_dice s = (\<forall>n. 0 \<le> dice s n \<and> dice s n < 1)"

lemma new_id_inj:
  "inj (entropy s) \<Longrightarrow> p @ ''_'' @ entropy s m = p @ ''_'' @ entropy s n \<longleftrightarrow> m = n"
  by (simp add: inj_eq)

lemma tick_simps [simp]:
  "clock (tick s) = clock s" "ticks (tick s) = Suc (ticks s)" "entropy (tick s) = entropy s"
  "minted (tick s) = minted s" "dice (tick s) = dice s" "rolled (tick s) = rolled s"
  "base.more (tick s) = base.more s"
  by (simp_all add: tick_def)

lemma mint_simps [simp]:
  "clock (mint s) = clock s" "ticks (mint s) = ticks s" "entropy (mint s) = entropy s"
  "minted (mint s) = Suc (minted s)" "dice (mint s) = dice s" "rolled (mint s) = rolled s"
  "base.more (mint s) = base.more s"
  by (simp_all add: mint_def)

end
