(* ===== verification/Wf_Types.thy ===== *)
theory Wf_Types
  imports Prelude
begin

section \<open>The data of the workflow runtime\<close>

text \<open>
  Enumerations, errors and records of \<open>app/shared/workflow\<close>: run and session statuses, the
  error hierarchy, the run, session, audit and event records, and the state of the whole
  in-memory runtime (\<open>world\<close>). The compiled LangGraph graph is third-party code: it is a
  record of functions over an abstract checkpointer state \<open>'cp\<close>.
\<close>

subsection \<open>Enumerations\<close>

datatype channel = WHATSAPP | EMAIL

fun channel_value :: "channel \<Rightarrow> string" where
  "channel_value WHATSAPP = ''whatsapp''"
| "channel_value EMAIL = ''email''"

datatype run_status =
    R_PENDING
  | R_RUNNING
  | R_WAITING_FOR_INPUT
  | R_SUSPENDED
  | R_COMPLETED
  | R_FAILED
  | R_TIMED_OUT
  | R_DEAD_LETTERED
  | R_CANCELLED

definition TERMINAL_STATUSES :: "run_status list" where
  "TERMINAL_STATUSES = [R_COMPLETED, R_FAILED, R_DEAD_LETTERED, R_CANCELLED]"

definition RECOVERABLE_STATUSES :: "run_status list" where
  "RECOVERABLE_STATUSES = [R_RUNNING, R_SUSPENDED]"

datatype session_status = S_ACTIVE | S_WAITING | S_COMPLETED | S_EXPIRED | S_CLOSED

datatype wf_event_type =
    RUN_STARTED
  | STEP_COMPLETED
  | RUN_SUSPENDED
  | RUN_RESUMED
  | RUN_COMPLETED
  | RUN_FAILED
  | RUN_RETRIED
  | RUN_TIMED_OUT
  | RUN_RECOVERED
  | RUN_DEAD_LETTERED
  | SESSION_EXPIRED

subsection \<open>Errors\<close>

text \<open>
  The runtime's own errors with the data their messages carry, and the errors of the standard
  library the code distinguishes: \<open>TimeoutErr\<close> is \<open>TimeoutError\<close>, \<open>OverflowErr\<close> the
  \<open>OverflowError\<close> of \<open>float(2 ** n)\<close>, \<open>PyError\<close> any other exception of a node.
\<close>

datatype wf_exn =
    WorkflowNotFoundError string "int option"
  | WorkflowAlreadyRegisteredError string int
  | SessionNotFoundError channel string
  | RunNotFoundError string
  | InvalidTransitionError run_status run_status
  | WorkflowExecutionError string run_status
  | StepTimeoutError real
  | RetryExhaustedError nat wf_exn
  | TimeoutErr
  | OverflowErr
  | PyError string string

text \<open>\<open>exc.__cause__\<close>: only the retry engine raises \<open>from\<close> another exception.\<close>

fun cause :: "wf_exn \<Rightarrow> wf_exn option" where
  "cause (RetryExhaustedError _ e) = Some e"
| "cause _ = None"

fun is_step_timeout :: "wf_exn \<Rightarrow> bool" where
  "is_step_timeout (StepTimeoutError _) = True"
| "is_step_timeout _ = False"

fun is_retry_exhausted :: "wf_exn \<Rightarrow> bool" where
  "is_retry_exhausted (RetryExhaustedError _ _) = True"
| "is_retry_exhausted _ = False"

subsection \<open>Records\<close>

record audit_entry =
  a_entry_id :: string
  a_run_id :: string
  a_at :: int
  a_action :: string
  a_from :: "run_status option"
  a_to :: "run_status option"
  a_detail :: payload

record wf_run =
  r_id :: string
  r_workflow :: string
  r_version :: int
  r_session :: string
  r_thread :: string
  r_channel :: "channel option"
  r_identity :: string
  r_status :: run_status
  r_step :: "string option"
  r_attempts :: int
  r_last_error :: "string option"
  r_interrupts :: "json list"
  r_corr :: "string option"
  r_created_at :: int
  r_updated_at :: int
  r_completed_at :: "int option"
  r_expires_at :: "int option"

record session =
  s_id :: string
  s_channel :: channel
  s_identity :: string
  s_status :: session_status
  s_active_run :: "string option"
  s_active_workflow :: "string option"
  s_active_version :: "int option"
  s_thread :: "string option"
  s_created_at :: int
  s_updated_at :: int
  s_last_activity :: int
  s_expires_at :: "int option"

record wf_event =
  e_id :: string
  e_type :: wf_event_type
  e_at :: int
  e_run :: string
  e_session :: string
  e_workflow :: string
  e_channel :: "channel option"
  e_identity :: string
  e_corr :: "string option"
  e_payload :: payload

text \<open>What \<open>WorkflowContext\<close> stamps on events and hands to nodes.\<close>

record wf_ctx =
  x_run :: string
  x_session :: string
  x_thread :: string
  x_workflow :: string
  x_version :: int
  x_channel :: "channel option"
  x_identity :: string
  x_corr :: "string option"

subsection \<open>The graph engine\<close>

text \<open>
  The initial \<open>WorkflowState\<close>, the three inputs the executor gives \<open>graph.ainvoke\<close>, the
  checkpoint snapshot it reads back, and the value an invocation returns: a dict, a pydantic
  model, or anything else.
\<close>

record init_state =
  i_session :: string
  i_channel :: channel
  i_identity :: string
  i_workflow :: string
  i_last_input :: json
  i_data :: payload

datatype command = C_Init init_state | C_Resume json | C_Continue

record snapshot =
  sn_next :: "string list"
  sn_interrupts :: "json list"
  sn_values :: json

datatype gvalue = G_Dict payload | G_Model payload | G_Other json

record 'cp graph =
  g_elapsed :: "wf_ctx \<Rightarrow> command \<Rightarrow> string \<Rightarrow> 'cp \<Rightarrow> real"
  g_invoke :: "wf_ctx \<Rightarrow> command \<Rightarrow> string \<Rightarrow> 'cp \<Rightarrow> (wf_exn + gvalue) \<times> 'cp"
  g_cancelled :: "wf_ctx \<Rightarrow> command \<Rightarrow> string \<Rightarrow> real \<Rightarrow> 'cp \<Rightarrow> 'cp"
  g_state :: "string \<Rightarrow> 'cp \<Rightarrow> wf_exn + snapshot"

record 'cp wf_def =
  d_name :: string
  d_version :: int
  d_graph :: "'cp graph"

record 'cp compiled =
  c_def :: "'cp wf_def"
  c_graph :: "'cp graph"

subsection \<open>Settings and runtime state\<close>

text \<open>
  \<open>sha256\<close> is the hex digest of \<open>hashlib\<close>, \<open>render\<close> the text
  \<open>f"{type(exc).__name__}: {exc}"\<close>, \<open>show_int\<close> and \<open>show_status\<close> the text an f-string
  inserts: they only produce text.
\<close>

record wf_settings =
  step_timeout :: "real option"
  session_ttl :: int
  retry_max_attempts :: int
  retry_base_delay :: real
  retry_max_delay :: real
  retry_jitter :: bool
  recovery_batch :: nat
  sha256 :: "string \<Rightarrow> string"
  render :: "wf_exn \<Rightarrow> string"
  show_int :: "int \<Rightarrow> string"
  show_status :: "run_status \<Rightarrow> string"

record 'cp world = base +
  defs :: "(string, (int, 'cp wf_def) dict) dict"
  cache :: "(string \<times> int, 'cp compiled) dict"
  sessions :: "(string, session) dict"
  runs :: "(string, wf_run) dict"
  audit :: "(string, audit_entry list) dict"
  events :: "wf_event list"
  cps :: 'cp

text \<open>Reading the environment touches none of the runtime's own state.\<close>

lemma env_frame [frame, simp]:
  "defs (tick s) = defs s" "cache (tick s) = cache s" "sessions (tick s) = sessions s"
  "runs (tick s) = runs s" "audit (tick s) = audit s" "events (tick s) = events s"
  "cps (tick s) = cps s"
  "defs (mint s) = defs s" "cache (mint s) = cache s" "sessions (mint s) = sessions s"
  "runs (mint s) = runs s" "audit (mint s) = audit s" "events (mint s) = events s"
  "cps (mint s) = cps s"
  by (simp_all add: tick_def mint_def)

end
