(* ===== verification/Wf_Utils.thy ===== *)
theory Wf_Utils
  imports Wf_Types
begin

section \<open>Identifiers and backoff\<close>

text \<open>
  \<open>app/shared/workflow/utils.py\<close>: session and thread identifiers and the exponential backoff
  shared by the retry engine, the nudge service, document routing and message dispatch.
\<close>

definition hash_identity :: "wf_settings \<Rightarrow> string \<Rightarrow> string" where
  "hash_identity cfg identity = sha256 cfg (lower (strip identity))"

definition derive_session_id :: "wf_settings \<Rightarrow> channel \<Rightarrow> string \<Rightarrow> string" where
  "derive_session_id cfg channel identity =
     ''sess_'' @ channel_value channel @ ''_'' @ take 24 (hash_identity cfg identity)"

definition derive_thread_id :: "wf_settings \<Rightarrow> string \<Rightarrow> int \<Rightarrow> string \<Rightarrow> string \<Rightarrow> string" where
  "derive_thread_id cfg workflow version session_id run_id =
     workflow @ ''.v'' @ show_int cfg version @ '':'' @ session_id @ '':'' @ run_id"

text \<open>
  \<open>float(2 ** max(0, attempt - 1))\<close> raises \<open>OverflowError\<close> from exponent 1024 on; below
  that the product with a power of two is exact. \<open>draw\<close> is \<open>rng.uniform\<close>.
\<close>

definition compute_backoff ::
  "nat \<Rightarrow> real \<Rightarrow> real \<Rightarrow> bool \<Rightarrow> (real \<Rightarrow> real \<Rightarrow> 's \<Rightarrow> real \<times> 's) \<Rightarrow> 's \<Rightarrow> (wf_exn + real) \<times> 's"
where
  "compute_backoff attempt base_delay max_delay jitter draw s =
     (if 1024 \<le> attempt - 1 then (Inl OverflowErr, s)
      else
        let raw = base_delay * 2 ^ (attempt - 1);
            capped = min raw max_delay
        in if \<not> jitter then (Inr capped, s)
           else let (r, s1) = draw 0 capped s in (Inr r, s1))"

lemma session_id_case_insensitive:
  "lower (strip a) = lower (strip b) \<Longrightarrow> derive_session_id cfg c a = derive_session_id cfg c b"
  by (simp add: derive_session_id_def hash_identity_def)

lemma session_id_channel:
  assumes "derive_session_id cfg c a = derive_session_id cfg c' b"
  shows "c = c'"
  using assms by (cases c; cases c') (auto simp: derive_session_id_def)

lemma compute_backoff_no_overflow:
  "attempt \<le> 1024 \<Longrightarrow> \<exists>d. fst (compute_backoff attempt b m j draw s) = Inr d"
  by (auto simp: compute_backoff_def Let_def split: prod.splits)

lemma compute_backoff_inv:
  assumes "compute_backoff n b m j draw s = (res, s')" and "I s"
    and "\<And>x y s. I s \<Longrightarrow> I (snd (draw x y s))"
  shows "I s'"
proof -
  have "I (snd (draw x y s))" for x y by (rule assms(3) [OF assms(2)])
  then have "draw x y s = (d, t) \<Longrightarrow> I t" for x y d t by (metis snd_conv)
  with assms(1,2) show ?thesis
    by (auto simp: compute_backoff_def Let_def split: if_splits prod.splits)
qed

lemma compute_backoff_uniform_bounds:
  assumes "compute_backoff n b m j uniform s = (Inr d, s')" and "fair_dice s" "0 \<le> b" "0 \<le> m"
  shows "0 \<le> d \<and> d \<le> min (b * 2 ^ (n - 1)) m"
proof -
  let ?c = "min (b * 2 ^ (n - 1)) m"
  have c: "0 \<le> ?c" using assms(3,4) by simp
  have "d = ?c \<or> d = ?c * dice s (rolled s)"
    using assms(1) by (auto simp: compute_backoff_def uniform_def Let_def split: if_splits)
  moreover have "0 \<le> dice s (rolled s)" "dice s (rolled s) \<le> 1"
    using assms(2) by (auto simp: fair_dice_def less_imp_le)
  moreover from this c have "?c * dice s (rolled s) \<le> ?c" by (intro mult_left_le)
  moreover from calculation c have "0 \<le> ?c * dice s (rolled s)" by (intro mult_nonneg_nonneg)
  ultimately show ?thesis using c by (elim disjE) simp_all
qed

end
