(* ===== verification/Wf_Store.thy ===== *)
theory Wf_Store
  imports Wf_Utils
begin

section \<open>Run store, audit log and event bus\<close>

text \<open>
  The in-memory adapters of \<open>app/shared/workflow/persistence.py\<close>, \<open>audit.py\<close> and
  \<open>events.py\<close>. The stores keep deep copies, which is what a functional value is: mutating a
  run the caller holds changes the store only through \<open>save_run\<close>. The in-memory bus catches
  every exception of a subscriber, so for the runtime publishing is appending to the history.
\<close>

subsection \<open>\<open>InMemoryWorkflowRunStore\<close>\<close>

definition create_run :: "wf_run \<Rightarrow> 'cp world \<Rightarrow> 'cp world" where
  "create_run r s = s\<lparr>runs := dput (r_id r) r (runs s)\<rparr>"

definition get_run_or_none :: "string \<Rightarrow> 'cp world \<Rightarrow> wf_run option" where
  "get_run_or_none rid s = dget (runs s) rid"

definition get_run :: "string \<Rightarrow> 'cp world \<Rightarrow> wf_exn + wf_run" where
  "get_run rid s =
     (case get_run_or_none rid s of None \<Rightarrow> Inl (RunNotFoundError rid) | Some r \<Rightarrow> Inr r)"

definition save_run :: "wf_run \<Rightarrow> 'cp world \<Rightarrow> wf_run \<times> 'cp world" where
  "save_run r s =
     (let r' = r\<lparr>r_updated_at := utcnow s\<rparr>
      in (r', (tick s)\<lparr>runs := dput (r_id r') r' (runs s)\<rparr>))"

definition list_by_status :: "run_status list \<Rightarrow> 'cp world \<Rightarrow> wf_run list" where
  "list_by_status statuses s = filter (\<lambda>r. r_status r \<in> set statuses) (dvals (runs s))"

definition list_recoverable :: "nat \<Rightarrow> 'cp world \<Rightarrow> wf_run list" where
  "list_recoverable limit s =
     take limit (sort_key r_updated_at
       (filter (\<lambda>r. r_status r \<in> set RECOVERABLE_STATUSES) (dvals (runs s))))"

definition waiting_expired :: "int \<Rightarrow> wf_run \<Rightarrow> bool" where
  "waiting_expired now r =
     (r_status r = R_WAITING_FOR_INPUT \<and>
      (case r_expires_at r of None \<Rightarrow> False | Some t \<Rightarrow> t \<le> now))"

definition list_waiting_expired :: "int \<Rightarrow> nat \<Rightarrow> 'cp world \<Rightarrow> wf_run list" where
  "list_waiting_expired now limit s =
     take limit (sort_key (\<lambda>r. case r_expires_at r of Some t \<Rightarrow> t | None \<Rightarrow> now)
       (filter (waiting_expired now) (dvals (runs s))))"

definition append_audit :: "audit_entry \<Rightarrow> 'cp world \<Rightarrow> 'cp world" where
  "append_audit e s =
     s\<lparr>audit := dput (a_run_id e)
        ((case dget (audit s) (a_run_id e) of None \<Rightarrow> [] | Some es \<Rightarrow> es) @ [e]) (audit s)\<rparr>"

definition list_audit :: "string \<Rightarrow> 'cp world \<Rightarrow> audit_entry list" where
  "list_audit rid s = (case dget (audit s) rid of None \<Rightarrow> [] | Some es \<Rightarrow> es)"

definition delete_by_session :: "string \<Rightarrow> 'cp world \<Rightarrow> string list \<times> 'cp world" where
  "delete_by_session sid s =
     (let doomed = filter (\<lambda>r. r_session r = sid) (dvals (runs s));
          thread_ids = map r_thread doomed
      in (thread_ids,
          fold (\<lambda>r w. w\<lparr>runs := dpop (r_id r) (runs w), audit := dpop (r_id r) (audit w)\<rparr>) doomed s))"

subsection \<open>\<open>AuditLogger.record\<close>\<close>

definition record_audit ::
  "string \<Rightarrow> string \<Rightarrow> run_status option \<Rightarrow> run_status option \<Rightarrow> payload \<Rightarrow> 'cp world \<Rightarrow> 'cp world"
where
  "record_audit rid action from_status to_status detail s =
     (let e = \<lparr>a_entry_id = new_id ''aud'' s, a_run_id = rid, a_at = utcnow s, a_action = action,
               a_from = from_status, a_to = to_status, a_detail = detail\<rparr>
      in append_audit e (tick (mint s)))"

subsection \<open>\<open>WorkflowContext.emit\<close> and the bus\<close>

definition publish :: "wf_event \<Rightarrow> 'cp world \<Rightarrow> 'cp world" where
  "publish e s = s\<lparr>events := events s @ [e]\<rparr>"

definition emit :: "wf_ctx \<Rightarrow> wf_event_type \<Rightarrow> payload \<Rightarrow> 'cp world \<Rightarrow> 'cp world" where
  "emit ctx ty pl s =
     publish \<lparr>e_id = new_id ''evt'' s, e_type = ty, e_at = utcnow s, e_run = x_run ctx,
              e_session = x_session ctx, e_workflow = x_workflow ctx, e_channel = x_channel ctx,
              e_identity = x_identity ctx, e_corr = x_corr ctx, e_payload = pl\<rparr> (tick (mint s))"

subsection \<open>The adapter keeps the persistence contract\<close>

definition run_core :: "wf_run \<Rightarrow> wf_run" where
  "run_core r = r\<lparr>r_updated_at := 0\<rparr>"

interpretation run_store: entity_store r_id run_core get_run_or_none create_run save_run
  by unfold_locales
    (simp_all add: create_run_def save_run_def get_run_or_none_def run_core_def Let_def)

lemma save_run_simps [simp]:
  "r_id (fst (save_run r s)) = r_id r" "r_status (fst (save_run r s)) = r_status r"
  "r_thread (fst (save_run r s)) = r_thread r" "r_attempts (fst (save_run r s)) = r_attempts r"
  "r_completed_at (fst (save_run r s)) = r_completed_at r"
  "r_session (fst (save_run r s)) = r_session r" "r_channel (fst (save_run r s)) = r_channel r"
  "r_identity (fst (save_run r s)) = r_identity r" "r_step (fst (save_run r s)) = r_step r"
  "r_workflow (fst (save_run r s)) = r_workflow r" "r_version (fst (save_run r s)) = r_version r"
  "r_corr (fst (save_run r s)) = r_corr r" "r_interrupts (fst (save_run r s)) = r_interrupts r"
  "r_last_error (fst (save_run r s)) = r_last_error r"
  "r_expires_at (fst (save_run r s)) = r_expires_at r"
  by (simp_all add: save_run_def Let_def)

lemma save_run_runs [simp]:
  "runs (snd (save_run r s)) = dput (r_id r) (fst (save_run r s)) (runs s)"
  by (simp add: save_run_def Let_def)

lemma save_run_frame [frame, simp]:
  "audit (snd (save_run r s)) = audit s" "sessions (snd (save_run r s)) = sessions s"
  "events (snd (save_run r s)) = events s" "defs (snd (save_run r s)) = defs s"
  "cache (snd (save_run r s)) = cache s" "cps (snd (save_run r s)) = cps s"
  "minted (snd (save_run r s)) = minted s" "entropy (snd (save_run r s)) = entropy s"
  "clock (snd (save_run r s)) = clock s" "dice (snd (save_run r s)) = dice s"
  by (simp_all add: save_run_def Let_def)

lemma record_audit_frame [frame, simp]:
  "runs (record_audit i a f t d s) = runs s" "sessions (record_audit i a f t d s) = sessions s"
  "events (record_audit i a f t d s) = events s" "defs (record_audit i a f t d s) = defs s"
  "cache (record_audit i a f t d s) = cache s" "cps (record_audit i a f t d s) = cps s"
  "minted (record_audit i a f t d s) = Suc (minted s)"
  "entropy (record_audit i a f t d s) = entropy s" "clock (record_audit i a f t d s) = clock s"
  "dice (record_audit i a f t d s) = dice s"
  by (simp_all add: record_audit_def append_audit_def Let_def)

lemma emit_frame [frame, simp]:
  "runs (emit c ty p s) = runs s" "audit (emit c ty p s) = audit s"
  "sessions (emit c ty p s) = sessions s" "defs (emit c ty p s) = defs s"
  "cache (emit c ty p s) = cache s" "cps (emit c ty p s) = cps s"
  "minted (emit c ty p s) = Suc (minted s)" "entropy (emit c ty p s) = entropy s"
  "clock (emit c ty p s) = clock s" "dice (emit c ty p s) = dice s"
  by (simp_all add: emit_def publish_def)

text \<open>Recording appends one entry to the run's own log and leaves the others alone.\<close>

lemma list_audit_record:
  "list_audit rid' (record_audit rid action f t d s) =
     (if rid' = rid
      then list_audit rid s @ [\<lparr>a_entry_id = new_id ''aud'' s, a_run_id = rid, a_at = utcnow s,
             a_action = action, a_from = f, a_to = t, a_detail = d\<rparr>]
      else list_audit rid' s)"
  by (simp add: list_audit_def record_audit_def append_audit_def Let_def)

text \<open>Both sweeps return stored runs of the wanted statuses, oldest first, within the limit.\<close>

lemma set_list_recoverable:
  "r \<in> set (list_recoverable n s) \<Longrightarrow>
     r \<in> set (dvals (runs s)) \<and> r_status r \<in> {R_RUNNING, R_SUSPENDED}"
  by (auto simp: list_recoverable_def RECOVERABLE_STATUSES_def dest: in_set_takeD)

lemma set_list_waiting_expired:
  "r \<in> set (list_waiting_expired now n s) \<Longrightarrow>
     r \<in> set (dvals (runs s)) \<and> waiting_expired now r"
  by (auto simp: list_waiting_expired_def dest: in_set_takeD)

end
