(* ===== verification/Wf_Transitions.thy ===== *)
theory Wf_Transitions
  imports Wf_Store
begin

section \<open>The run lifecycle\<close>

text \<open>
  \<open>app/shared/workflow/transitions.py\<close>: the table of allowed run-status transitions and the
  manager that validates, applies, persists and audits them. A generic \<open>lifecycle\<close> interface
  says what a status machine with sink states guarantees over a whole audit trail.
\<close>

subsection \<open>Legal trails\<close>

text \<open>\<open>chain ok a ts b\<close>: the trail \<open>ts\<close> is a connected path of allowed steps from \<open>a\<close> to \<open>b\<close>.\<close>

fun chain :: "('st \<Rightarrow> 'st \<Rightarrow> bool) \<Rightarrow> 'st \<Rightarrow> ('st \<times> 'st) list \<Rightarrow> 'st \<Rightarrow> bool" where
  "chain ok a [] b = (a = b)"
| "chain ok a ((x, y) # ts) b = (x = a \<and> ok x y \<and> chain ok y ts b)"

lemma chain_append: "chain ok a (ts @ us) c \<longleftrightarrow> (\<exists>b. chain ok a ts b \<and> chain ok b us c)"
  by (induction ok a ts c rule: chain.induct) auto

lemma chain_end: "chain ok a ts b \<Longrightarrow> chain ok a ts c \<Longrightarrow> b = c"
  by (induction ok a ts b rule: chain.induct) auto

lemma chain_snoc: "chain ok a ts b \<Longrightarrow> ok b c \<Longrightarrow> chain ok a (ts @ [(b, c)]) c"
  by (auto simp: chain_append)

locale lifecycle =
  fixes ok :: "'st \<Rightarrow> 'st \<Rightarrow> bool"
    and sinks :: "'st list"
  assumes stay: "ok a a"
    and sink: "a \<in> set sinks \<Longrightarrow> ok a b \<Longrightarrow> b = a"
begin

lemma sink_absorbs:
  "chain ok a ts b \<Longrightarrow> a \<in> set sinks \<Longrightarrow> b = a \<and> set ts \<subseteq> {(a, a)}"
proof (induction ts arbitrary: a)
  case (Cons t ts)
  obtain x y where t: "t = (x, y)" by force
  with Cons.prems sink have "x = a" "y = a" "chain ok a ts b" by auto
  with Cons.IH [of a] Cons.prems(2) t show ?case by auto
qed simp

lemma after_sink:
  assumes "chain ok a (ts @ us) c" and "chain ok a ts b" and "b \<in> set sinks"
  shows "c = b"
proof -
  have unique: "chain ok a ts b' \<Longrightarrow> b' = b" for b'
    using assms(2) by (induction ts arbitrary: a) auto
  from assms(1) obtain b' where "chain ok a ts b'" "chain ok b' us c"
    by (auto simp: chain_append)
  with unique assms(3) show ?thesis using sink_absorbs by blast
qed

end

subsection \<open>The transition table\<close>

fun ALLOWED :: "run_status \<Rightarrow> run_status list" where
  "ALLOWED R_PENDING = [R_RUNNING, R_CANCELLED]"
| "ALLOWED R_RUNNING =
     [R_WAITING_FOR_INPUT, R_SUSPENDED, R_COMPLETED, R_FAILED, R_TIMED_OUT, R_CANCELLED]"
| "ALLOWED R_WAITING_FOR_INPUT = [R_RUNNING, R_TIMED_OUT, R_CANCELLED]"
| "ALLOWED R_SUSPENDED = [R_RUNNING, R_FAILED, R_DEAD_LETTERED, R_CANCELLED]"
| "ALLOWED R_TIMED_OUT = [R_RUNNING, R_DEAD_LETTERED, R_CANCELLED]"
| "ALLOWED R_FAILED = [R_RUNNING, R_DEAD_LETTERED, R_CANCELLED]"
| "ALLOWED R_DEAD_LETTERED = [R_RUNNING]"
| "ALLOWED R_COMPLETED = []"
| "ALLOWED R_CANCELLED = []"

definition is_allowed :: "run_status \<Rightarrow> run_status \<Rightarrow> bool" where
  "is_allowed src dst = (if src = dst then True else dst \<in> set (ALLOWED src))"

interpretation run_lifecycle: lifecycle is_allowed "[R_COMPLETED, R_CANCELLED]"
  by unfold_locales (auto simp: is_allowed_def split: if_splits)

subsection \<open>\<open>TransitionManager.transition\<close>\<close>

definition transition ::
  "wf_settings \<Rightarrow> wf_run \<Rightarrow> run_status \<Rightarrow> string option \<Rightarrow> payload \<Rightarrow> 'cp world \<Rightarrow>
     (wf_exn + wf_run) \<times> 'cp world"
where
  "transition cfg r to action detail s =
     (let src = r_status r in
      if \<not> is_allowed src to then (Inl (InvalidTransitionError src to), s)
      else
        let r1 = r\<lparr>r_status := to, r_updated_at := utcnow s\<rparr>;
            s1 = tick s;
            r2 = (if to \<in> set TERMINAL_STATUSES \<and> r_completed_at r1 = None
                  then r1\<lparr>r_completed_at := Some (r_updated_at r1)\<rparr> else r1);
            (r3, s2) = save_run r2 s1;
            s3 = record_audit (r_id r3)
                   (case action of Some a \<Rightarrow> (if a = [] then ''transition:'' @ show_status cfg src @ ''->'' @ show_status cfg to else a)
                    | None \<Rightarrow> ''transition:'' @ show_status cfg src @ ''->'' @ show_status cfg to)
                   (Some src) (Some to) detail s2
        in (Inr r3, s3))"

lemma transition_cases:
  obtains (illegal) "\<not> is_allowed (r_status r) to"
      "transition cfg r to a d s = (Inl (InvalidTransitionError (r_status r) to), s)"
  | (legal) r' s' where "is_allowed (r_status r) to" "transition cfg r to a d s = (Inr r', s')"
      "r_id r' = r_id r" "r_status r' = to"
  by (cases "is_allowed (r_status r) to") (auto simp: transition_def Let_def split_beta)

end
