(* ===== verification/Wf_Sessions.thy ===== *)
theory Wf_Sessions
  imports Wf_Store
begin

section \<open>Sessions\<close>

text \<open>
  \<open>app/shared/workflow/session.py\<close>: the in-memory session store and the manager that
  resolves, binds and ages the one session of a channel identity. Times are microseconds.
\<close>

subsection \<open>\<open>InMemorySessionStore\<close>\<close>

definition get_session :: "string \<Rightarrow> 'cp world \<Rightarrow> session option" where
  "get_session sid s = dget (sessions s) sid"

definition save_session :: "session \<Rightarrow> 'cp world \<Rightarrow> session \<times> 'cp world" where
  "save_session x s =
     (let x' = x\<lparr>s_updated_at := utcnow s\<rparr>
      in (x', (tick s)\<lparr>sessions := dput (s_id x') x' (sessions s)\<rparr>))"

definition delete_session :: "string \<Rightarrow> 'cp world \<Rightarrow> 'cp world" where
  "delete_session sid s = s\<lparr>sessions := dpop sid (sessions s)\<rparr>"

definition put_session :: "session \<Rightarrow> 'cp world \<Rightarrow> 'cp world" where
  "put_session x s = s\<lparr>sessions := dput (s_id x) x (sessions s)\<rparr>"

definition session_core :: "session \<Rightarrow> session" where
  "session_core x = x\<lparr>s_updated_at := 0\<rparr>"

interpretation session_store: entity_store s_id session_core get_session put_session save_session
  by unfold_locales
    (simp_all add: get_session_def save_session_def put_session_def session_core_def Let_def)

subsection \<open>\<open>SessionManager\<close>\<close>

definition session_expiry :: "wf_settings \<Rightarrow> 'cp world \<Rightarrow> int option \<times> 'cp world" where
  "session_expiry cfg s =
     (if session_ttl cfg \<le> 0 then (None, s)
      else (Some (utcnow s + session_ttl cfg * 1000000), tick s))"

definition session_get :: "wf_settings \<Rightarrow> channel \<Rightarrow> string \<Rightarrow> 'cp world \<Rightarrow> session option" where
  "session_get cfg ch ident s = get_session (derive_session_id cfg ch ident) s"

definition session_resolve :: "wf_settings \<Rightarrow> channel \<Rightarrow> string \<Rightarrow> 'cp world \<Rightarrow> session \<times> 'cp world" where
  "session_resolve cfg ch ident s =
     (let sid = derive_session_id cfg ch ident in
      case get_session sid s of
        Some x \<Rightarrow> (x, s)
      | None \<Rightarrow>
          save_session
            \<lparr>s_id = sid, s_channel = ch, s_identity = ident, s_status = S_ACTIVE,
             s_active_run = None, s_active_workflow = None, s_active_version = None,
             s_thread = None, s_created_at = utcnow s, s_updated_at = utcnow (tick s),
             s_last_activity = utcnow (tick (tick s)), s_expires_at = None\<rparr>
            (tick (tick (tick s))))"

definition bind_run :: "session \<Rightarrow> wf_run \<Rightarrow> 'cp world \<Rightarrow> session \<times> 'cp world" where
  "bind_run x r s =
     save_session
       (x\<lparr>s_active_run := Some (r_id r), s_active_workflow := Some (r_workflow r),
          s_active_version := Some (r_version r), s_thread := Some (r_thread r),
          s_status := S_ACTIVE, s_last_activity := utcnow s\<rparr>) (tick s)"

definition mark_waiting :: "wf_settings \<Rightarrow> session \<Rightarrow> 'cp world \<Rightarrow> session \<times> 'cp world" where
  "mark_waiting cfg x s =
     (let x1 = x\<lparr>s_status := S_WAITING, s_last_activity := utcnow s\<rparr>;
          (e, s1) = session_expiry cfg (tick s)
      in save_session (x1\<lparr>s_expires_at := e\<rparr>) s1)"

definition mark_active :: "session \<Rightarrow> 'cp world \<Rightarrow> session \<times> 'cp world" where
  "mark_active x s =
     save_session (x\<lparr>s_status := S_ACTIVE, s_last_activity := utcnow s\<rparr>) (tick s)"

definition session_complete :: "session \<Rightarrow> 'cp world \<Rightarrow> session \<times> 'cp world" where
  "session_complete x s =
     save_session
       (x\<lparr>s_status := S_COMPLETED, s_last_activity := utcnow s, s_expires_at := None\<rparr>) (tick s)"

definition session_expire :: "session \<Rightarrow> 'cp world \<Rightarrow> session \<times> 'cp world" where
  "session_expire x s = save_session (x\<lparr>s_status := S_EXPIRED\<rparr>) s"

definition session_forget :: "wf_settings \<Rightarrow> channel \<Rightarrow> string \<Rightarrow> 'cp world \<Rightarrow> bool \<times> 'cp world" where
  "session_forget cfg ch ident s =
     (let sid = derive_session_id cfg ch ident;
          existed = (get_session sid s \<noteq> None)
      in (existed, delete_session sid s))"

subsection \<open>Frames\<close>

text \<open>No session operation touches a run, the audit log, the events or the checkpoints.\<close>

definition same_runs :: "'cp world \<Rightarrow> 'cp world \<Rightarrow> bool" where
  "same_runs s t =
     (runs t = runs s \<and> audit t = audit s \<and> events t = events s \<and> cps t = cps s \<and>
      defs t = defs s \<and> cache t = cache s \<and> minted t = minted s \<and> entropy t = entropy s \<and>
      clock t = clock s \<and> dice t = dice s)"

lemma same_runs_refl [simp]: "same_runs s s"
  by (simp add: same_runs_def)

lemma same_runs_trans: "same_runs s t \<Longrightarrow> same_runs t u \<Longrightarrow> same_runs s u"
  by (simp add: same_runs_def)

lemma same_runs_tick [simp]: "same_runs s (tick t) = same_runs s t"
  by (simp add: same_runs_def)

lemma save_session_frame [frame, simp]: "same_runs t (snd (save_session x s)) = same_runs t s"
  by (simp add: save_session_def same_runs_def Let_def)

lemma session_expiry_frame [frame, simp]: "same_runs t (snd (session_expiry cfg s)) = same_runs t s"
  by (simp add: session_expiry_def)

lemma session_ops_frame [frame, simp]:
  "same_runs s (snd (bind_run x r s))"
  "same_runs s (snd (mark_waiting cfg x s))"
  "same_runs s (snd (mark_active x s))"
  "same_runs s (snd (session_complete x s))"
  "same_runs s (snd (session_expire x s))"
  "same_runs s (snd (session_resolve cfg ch i s))"
  "same_runs s (snd (session_forget cfg ch i s))"
  by (auto simp: bind_run_def mark_waiting_def mark_active_def session_complete_def
      session_expire_def session_resolve_def session_forget_def delete_session_def same_runs_def
      Let_def save_session_def session_expiry_def split: option.splits)

text \<open>Reconnecting: whatever was saved for an identity is what the identity resolves to again.\<close>

lemma resolve_existing:
  "session_get cfg ch i s = Some x \<Longrightarrow> session_resolve cfg ch i s = (x, s)"
  by (simp add: session_get_def session_resolve_def Let_def)

lemma resolve_then_get:
  assumes "session_resolve cfg ch i s = (x, s')"
  shows "session_get cfg ch i s' = Some x"
proof (cases "session_get cfg ch i s")
  case None
  with assms show ?thesis
    using session_store.read_your_save [where s' = s' and v' = x]
    by (force simp: session_get_def session_resolve_def Let_def)
next
  case (Some y)
  with assms show ?thesis by (simp add: resolve_existing)
qed

end
