(* ===== verification/Wf_Registry.thy ===== *)
theory Wf_Registry
  imports Wf_Store
begin

section \<open>Definitions, versions and compiled graphs\<close>

text \<open>
  \<open>app/shared/workflow/registry.py\<close> and \<open>loader.py\<close>: definitions are kept per name and
  version, and compiled graphs are cached per (name, version). Compiling a definition yields the
  graph its \<open>build\<close> wires, \<open>d_graph\<close>.
\<close>

subsection \<open>\<open>WorkflowRegistry\<close>\<close>

definition versions_of :: "string \<Rightarrow> 'cp world \<Rightarrow> (int, 'cp wf_def) dict" where
  "versions_of name s = (case dget (defs s) name of None \<Rightarrow> [] | Some vs \<Rightarrow> vs)"

definition registry_register :: "'cp wf_def \<Rightarrow> 'cp world \<Rightarrow> (wf_exn + 'cp wf_def) \<times> 'cp world" where
  "registry_register d s =
     (let versions = versions_of (d_name d) s;
          s1 = s\<lparr>defs := dput (d_name d) versions (defs s)\<rparr>
      in if d_version d \<in> set (dkeys versions)
         then (Inl (WorkflowAlreadyRegisteredError (d_name d) (d_version d)), s1)
         else (Inr d, s\<lparr>defs := dput (d_name d) (dput (d_version d) d versions) (defs s)\<rparr>))"

definition registry_get :: "string \<Rightarrow> int option \<Rightarrow> 'cp world \<Rightarrow> wf_exn + 'cp wf_def" where
  "registry_get name version s =
     (let versions = versions_of name s in
      if versions = [] then Inl (WorkflowNotFoundError name None)
      else
        let v = (case version of None \<Rightarrow> Max (set (dkeys versions)) | Some v \<Rightarrow> v)
        in case dget versions v of
             None \<Rightarrow> Inl (WorkflowNotFoundError name (Some v))
           | Some d \<Rightarrow> Inr d)"

definition latest_version :: "string \<Rightarrow> 'cp world \<Rightarrow> wf_exn + int" where
  "latest_version name s =
     (let versions = versions_of name s in
      if versions = [] then Inl (WorkflowNotFoundError name None)
      else Inr (Max (set (dkeys versions))))"

definition registry_exists :: "string \<Rightarrow> int option \<Rightarrow> 'cp world \<Rightarrow> bool" where
  "registry_exists name version s =
     (let versions = versions_of name s in
      if versions = [] then False
      else case version of None \<Rightarrow> True | Some v \<Rightarrow> v \<in> set (dkeys versions))"

definition list_workflows :: "'cp world \<Rightarrow> (string \<times> int) list" where
  "list_workflows s = concat (map (\<lambda>(n, vs). map (\<lambda>v. (n, v)) (sort (dkeys vs))) (defs s))"

subsection \<open>\<open>WorkflowLoader\<close>\<close>

definition load :: "string \<Rightarrow> int option \<Rightarrow> 'cp world \<Rightarrow> (wf_exn + 'cp compiled) \<times> 'cp world" where
  "load name version s =
     (case registry_get name version s of
        Inl e \<Rightarrow> (Inl e, s)
      | Inr d \<Rightarrow>
          let key = (d_name d, d_version d) in
          case dget (cache s) key of
            Some c \<Rightarrow> (Inr c, s)
          | None \<Rightarrow>
              let c = \<lparr>c_def = d, c_graph = d_graph d\<rparr>
              in (Inr c, s\<lparr>cache := dput key c (cache s)\<rparr>))"

definition invalidate :: "string \<Rightarrow> int option \<Rightarrow> 'cp world \<Rightarrow> 'cp world" where
  "invalidate name version s =
     (case version of
        None \<Rightarrow> s\<lparr>cache := filter (\<lambda>(k, c). fst k \<noteq> name) (cache s)\<rparr>
      | Some v \<Rightarrow> s\<lparr>cache := dpop (name, v) (cache s)\<rparr>)"

subsection \<open>\<open>WorkflowRuntime.register\<close>\<close>

definition runtime_register :: "'cp wf_def \<Rightarrow> 'cp world \<Rightarrow> (wf_exn + 'cp wf_def) \<times> 'cp world" where
  "runtime_register d s =
     (case registry_register d s of
        (Inl e, s1) \<Rightarrow> (Inl e, s1)
      | (Inr x, s1) \<Rightarrow> (Inr x, invalidate (d_name d) (Some (d_version d)) s1))"

subsection \<open>Coherence of registry and cache\<close>

text \<open>
  Every registered definition sits under its own name and version, and every cached graph is the
  compilation of the definition registered under its key.
\<close>

definition registered :: "string \<Rightarrow> int \<Rightarrow> 'cp world \<Rightarrow> 'cp wf_def option" where
  "registered name v s = dget (versions_of name s) v"

definition coherent :: "'cp world \<Rightarrow> bool" where
  "coherent s \<longleftrightarrow>
     (\<forall>n v d. registered n v s = Some d \<longrightarrow> d_name d = n \<and> d_version d = v) \<and>
     (\<forall>n v c. dget (cache s) (n, v) = Some c \<longrightarrow>
        registered n v s = Some (c_def c) \<and> c_graph c = d_graph (c_def c))"

lemma coherentI:
  assumes "\<And>n v d. registered n v s = Some d \<Longrightarrow> d_name d = n \<and> d_version d = v"
    and "\<And>n v c. dget (cache s) (n, v) = Some c \<Longrightarrow>
      registered n v s = Some (c_def c) \<and> c_graph c = d_graph (c_def c)"
  shows "coherent s"
  using assms unfolding coherent_def by blast

lemma coherent_keyD:
  "coherent s \<Longrightarrow> registered n v s = Some d \<Longrightarrow> d_name d = n \<and> d_version d = v"
  unfolding coherent_def by blast

lemma coherent_cacheD:
  "coherent s \<Longrightarrow> dget (cache s) (n, v) = Some c \<Longrightarrow>
     registered n v s = Some (c_def c) \<and> c_graph c = d_graph (c_def c)"
  unfolding coherent_def by blast

lemma registry_get_Some:
  "registry_get n (Some v) s = Inr d \<longleftrightarrow> registered n v s = Some d"
  by (auto simp: registry_get_def registered_def Let_def split: option.splits)

lemma registry_get_latest:
  assumes "registry_get n None s = Inr d"
  obtains v where "latest_version n s = Inr v" "registered n v s = Some d"
  using assms
  by (auto simp: registry_get_def registered_def latest_version_def Let_def
      split: option.splits if_splits)

lemma registry_get_registered:
  assumes "registry_get n v s = Inr d"
  obtains w where "registered n w s = Some d"
  using assms
  by (cases v) (auto simp: registry_get_Some elim: registry_get_latest)

lemma registered_register:
  assumes "registry_register d s = (Inr d', s')"
  shows "d' = d" and "registered n v s' =
    (if n = d_name d \<and> v = d_version d then Some d else registered n v s)"
    and "registered (d_name d) (d_version d) s = None" and "cache s' = cache s"
  using assms
  by (auto simp: registry_register_def registered_def versions_of_def Let_def map_of_eq_None_iff
      split: if_splits)

lemma registered_register_error:
  assumes "registry_register d s = (Inl e, s')"
  shows "registered n v s' = registered n v s" and "cache s' = cache s"
  using assms
  by (auto simp: registry_register_def registered_def versions_of_def Let_def split: if_splits)

lemma coherent_register:
  assumes "coherent s"
  shows "coherent (snd (runtime_register d s))"
proof (cases "registry_register d s")
  case (Pair res s1)
  show ?thesis
  proof (cases res)
    case (Inl e)
    note same = registered_register_error [OF Pair [unfolded Inl]]
    from Pair Inl have "snd (runtime_register d s) = s1" by (simp add: runtime_register_def)
    moreover have "coherent s1"
      by (rule coherentI; unfold same)
        (blast dest: coherent_keyD [OF assms] coherent_cacheD [OF assms])+
    ultimately show ?thesis by simp
  next
    case (Inr d')
    note facts = registered_register [OF Pair [unfolded Inr]]
    let ?s = "invalidate (d_name d) (Some (d_version d)) s1"
    have s: "snd (runtime_register d s) = ?s" using Pair Inr by (simp add: runtime_register_def)
    have reg: "registered n v ?s =
        (if n = d_name d \<and> v = d_version d then Some d else registered n v s)" for n v
      using facts(2) [of n v] by (simp add: invalidate_def registered_def versions_of_def)
    have cache: "dget (cache ?s) (n, v) =
        (if n = d_name d \<and> v = d_version d then None else dget (cache s) (n, v))" for n v
      using facts(4) by (simp add: invalidate_def)
    have "coherent ?s"
      by (rule coherentI; unfold reg cache)
        (auto split: if_splits dest: coherent_keyD [OF assms] coherent_cacheD [OF assms])
    with s show ?thesis by simp
  qed
qed

lemma load_frame [frame]:
  assumes "load n v s = (res, s')"
  shows "runs s' = runs s" "audit s' = audit s" "events s' = events s" "cps s' = cps s"
    "sessions s' = sessions s" "minted s' = minted s" "entropy s' = entropy s"
    "clock s' = clock s" "dice s' = dice s" "defs s' = defs s"
  using assms by (auto simp: load_def Let_def split: sum.splits option.splits)

lemma load_error: "load n v s = (Inl e, s') \<Longrightarrow> s' = s \<and> registry_get n v s = Inl e"
  by (auto simp: load_def Let_def split: sum.splits option.splits)

lemma load_cache:
  assumes "load n v s = (res, s')"
  obtains (same) "cache s' = cache s"
  | (compiled) d where "registry_get n v s = Inr d"
      "cache s' = dput (d_name d, d_version d) \<lparr>c_def = d, c_graph = d_graph d\<rparr> (cache s)"
proof (cases "registry_get n v s")
  case (Inl e)
  with assms same show ?thesis by (simp add: load_def)
next
  case (Inr d)
  show ?thesis
  proof (cases "dget (cache s) (d_name d, d_version d)")
    case None
    with assms Inr compiled show ?thesis by (auto simp: load_def Let_def)
  next
    case (Some c)
    with assms Inr same show ?thesis by (simp add: load_def Let_def)
  qed
qed

lemma coherent_load:
  assumes "coherent s" and "load n v s = (res, s')"
  shows "coherent s'"
proof -
  have reg: "registered n' v' s' = registered n' v' s" for n' v'
    using load_frame(10) [OF assms(2)] by (simp add: registered_def versions_of_def)
  from assms(2) show ?thesis
  proof (cases rule: load_cache)
    case same
    show ?thesis
      by (rule coherentI; unfold reg same)
        (blast dest: coherent_keyD [OF assms(1)] coherent_cacheD [OF assms(1)])+
  next
    case (compiled d)
    from compiled(1) obtain w where "registered n w s = Some d" by (rule registry_get_registered)
    with coherent_keyD [OF assms(1) this] have d: "registered (d_name d) (d_version d) s = Some d"
      by simp
    show ?thesis
    proof (rule coherentI; unfold reg)
      fix n' v' c
      assume "dget (cache s') (n', v') = Some c"
      then have "n' = d_name d \<and> v' = d_version d \<and> c = \<lparr>c_def = d, c_graph = d_graph d\<rparr> \<or>
          dget (cache s) (n', v') = Some c"
        by (simp add: compiled(2) split: if_splits)
      with d coherent_cacheD [OF assms(1)]
      show "registered n' v' s = Some (c_def c) \<and> c_graph c = d_graph (c_def c)" by fastforce
    qed (rule coherent_keyD [OF assms(1)])
  qed
qed

lemma load_returns_registered:
  assumes "coherent s" and "load n v s = (Inr c, s')"
  shows "registry_get n v s = Inr (c_def c) \<and> c_graph c = d_graph (c_def c)"
proof -
  from assms(2) obtain d where d: "registry_get n v s = Inr d"
    by (auto simp: load_def split: sum.splits)
  then obtain w where w: "registered n w s = Some d" by (rule registry_get_registered)
  note key = coherent_keyD [OF assms(1) w]
  have "c_def c = d \<and> c_graph c = d_graph (c_def c)"
  proof (cases "dget (cache s) (n, w)")
    case None
    with assms(2) d key show ?thesis by (auto simp: load_def Let_def)
  next
    case (Some c')
    from coherent_cacheD [OF assms(1) Some] w
    have "c_def c' = d" "c_graph c' = d_graph (c_def c')" by auto
    moreover from Some assms(2) d key have "c = c'" by (simp add: load_def Let_def)
    ultimately show ?thesis by simp
  qed
  with d show ?thesis by simp
qed

end
