(* ===== verification/Wf_Retry.thy ===== *)
theory Wf_Retry
  imports Wf_Store
begin

section \<open>Retry and timeout engines\<close>

text \<open>
  \<open>app/shared/workflow/retry.py\<close> and \<open>timeout.py\<close>. Both engines run code they are given:
  an attempt is a function of the attempt number and a state \<open>'s\<close>, and it may fail.
  \<open>asyncio.sleep\<close> and the random source are injected into the retry engine as in the code.
\<close>

subsection \<open>\<open>RetryPolicy\<close> and \<open>RetryEngine.run\<close>\<close>

record policy =
  p_max_attempts :: int
  p_base_delay :: real
  p_max_delay :: real
  p_jitter :: bool
  p_non_retryable :: "wf_exn \<Rightarrow> bool"

definition is_retryable :: "policy \<Rightarrow> wf_exn \<Rightarrow> bool" where
  "is_retryable pol e = (\<not> p_non_retryable pol e)"

record 's retry_engine =
  re_sleep :: "real \<Rightarrow> 's \<Rightarrow> 's"
  re_uniform :: "real \<Rightarrow> real \<Rightarrow> 's \<Rightarrow> real \<times> 's"

text \<open>
  \<open>retry_loop\<close> is the body of \<open>for attempt in range(attempts)\<close> with \<open>rem\<close> iterations left
  after this one, so \<open>attempt >= attempts - 1\<close> is \<open>rem = 0\<close>.
\<close>

fun retry_loop ::
  "'s retry_engine \<Rightarrow> policy \<Rightarrow> (nat \<Rightarrow> 's \<Rightarrow> (wf_exn + 'a) \<times> 's) \<Rightarrow>
     (nat \<Rightarrow> wf_exn \<Rightarrow> real \<Rightarrow> 's \<Rightarrow> 's) \<Rightarrow> nat \<Rightarrow> nat \<Rightarrow> nat \<Rightarrow> 's \<Rightarrow> (wf_exn + 'a) \<times> 's"
where
  "retry_loop eng pol factory on_retry attempts rem n s =
     (case factory n s of
        (Inr v, s1) \<Rightarrow> (Inr v, s1)
      | (Inl e, s1) \<Rightarrow>
          if \<not> is_retryable pol e then (Inl e, s1)
          else (case rem of
              0 \<Rightarrow> (Inl (RetryExhaustedError attempts e), s1)
            | Suc rem' \<Rightarrow>
                (case compute_backoff (n + 1) (p_base_delay pol) (p_max_delay pol) (p_jitter pol)
                        (re_uniform eng) s1 of
                   (Inl e', s2) \<Rightarrow> (Inl e', s2)
                 | (Inr delay, s2) \<Rightarrow>
                     retry_loop eng pol factory on_retry attempts rem' (n + 1)
                       (re_sleep eng delay (on_retry (n + 1) e delay s2)))))"

declare retry_loop.simps [simp del]

definition retry_run ::
  "'s retry_engine \<Rightarrow> policy \<Rightarrow> (nat \<Rightarrow> 's \<Rightarrow> (wf_exn + 'a) \<times> 's) \<Rightarrow>
     (nat \<Rightarrow> wf_exn \<Rightarrow> real \<Rightarrow> 's \<Rightarrow> 's) \<Rightarrow> 's \<Rightarrow> (wf_exn + 'a) \<times> 's"
where
  "retry_run eng pol factory on_retry s =
     (let attempts = nat (max 1 (p_max_attempts pol))
      in retry_loop eng pol factory on_retry attempts (attempts - 1) 0 s)"

subsection \<open>\<open>TimeoutEngine.run\<close>\<close>

text \<open>
  \<open>asyncio.wait_for\<close> on a coroutine that would take \<open>elapsed\<close> seconds: within the budget its
  outcome is passed on, a \<open>TimeoutError\<close> of its own being taken for an expired budget;
  otherwise it is cancelled.
\<close>

definition timeout_run ::
  "real option \<Rightarrow> real \<Rightarrow> ('s \<Rightarrow> (wf_exn + 'a) \<times> 's) \<Rightarrow> ('s \<Rightarrow> 's) \<Rightarrow> 's \<Rightarrow> (wf_exn + 'a) \<times> 's"
where
  "timeout_run budget elapsed run cancel s =
     (case budget of
        None \<Rightarrow> run s
      | Some t \<Rightarrow>
          if t \<le> 0 then run s
          else if elapsed \<le> t
          then (case run s of
                  (Inl TimeoutErr, s1) \<Rightarrow> (Inl (StepTimeoutError t), s1)
                | res \<Rightarrow> res)
          else (Inl (StepTimeoutError t), cancel s))"

subsection \<open>What a bounded retry guarantees\<close>

text \<open>An invariant of the attempt, the hook, the sleep and the random source is one of the loop.\<close>

lemma retry_loop_inv:
  assumes "retry_loop eng pol factory on_retry k rem n s = (res, s')" and "I s"
    and "\<And>n s. I s \<Longrightarrow> I (snd (factory n s))"
    and "\<And>n e d s. I s \<Longrightarrow> I (on_retry n e d s)"
    and "\<And>d s. I s \<Longrightarrow> I (re_sleep eng d s)"
    and "\<And>x y s. I s \<Longrightarrow> I (snd (re_uniform eng x y s))"
  shows "I s'"
  using assms(1,2)
proof (induction rem arbitrary: n s)
  case 0
  then show ?case
    using assms(3) [of s n]
    by (auto simp: retry_loop.simps [of _ _ _ _ _ 0] split: prod.splits sum.splits if_splits)
next
  case (Suc rem)
  obtain v s1 where f: "factory n s = (v, s1)" by force
  have I1: "I s1" using assms(3) [OF Suc.prems(2), of n] f by simp
  show ?case
  proof (cases v)
    case (Inr x)
    with f Suc.prems I1 show ?thesis by (simp add: retry_loop.simps [of _ _ _ _ _ "Suc rem"])
  next
    case (Inl e)
    obtain d s2 where b: "compute_backoff (n + 1) (p_base_delay pol) (p_max_delay pol)
        (p_jitter pol) (re_uniform eng) s1 = (d, s2)" by force
    have I2: "I s2" by (rule compute_backoff_inv [OF b I1 assms(6)])
    from Suc.prems(1) f Inl b I1 I2 assms(4,5) show ?thesis
      by (auto simp: retry_loop.simps [of _ _ _ _ _ "Suc rem"] intro: Suc.IH
          split: if_splits sum.splits)
  qed
qed

text \<open>
  If every attempt raises a counter by one and nothing else touches it, the counter has grown by
  at least one and by at most the number of attempts.
\<close>

lemma retry_loop_count:
  assumes "retry_loop eng pol factory on_retry k rem n s = (res, s')"
    and "\<And>n s. c (snd (factory n s)) = c s + (1::int)"
    and "\<And>n e d s. c (on_retry n e d s) = c s"
    and "\<And>d s. c (re_sleep eng d s) = c s"
    and "\<And>x y s. c (snd (re_uniform eng x y s)) = c s"
  shows "c s + 1 \<le> c s' \<and> c s' \<le> c s + 1 + int rem"
  using assms(1)
proof (induction rem arbitrary: n s)
  case 0
  then show ?case
    using assms(2) [of n s]
    by (auto simp: retry_loop.simps [of _ _ _ _ _ 0] split: prod.splits sum.splits if_splits)
next
  case (Suc rem)
  obtain v s1 where f: "factory n s = (v, s1)" by force
  have c1: "c s1 = c s + 1" using assms(2) [of n s] f by simp
  show ?case
  proof (cases v)
    case (Inr x)
    with f Suc.prems c1 show ?thesis by (simp add: retry_loop.simps [of _ _ _ _ _ "Suc rem"])
  next
    case (Inl e)
    obtain d s2 where b: "compute_backoff (n + 1) (p_base_delay pol) (p_max_delay pol)
        (p_jitter pol) (re_uniform eng) s1 = (d, s2)" by force
    have c2: "c s2 = c s1"
      by (rule compute_backoff_inv [where I = "\<lambda>s. c s = c s1", OF b]) (simp_all add: assms(5))
    show ?thesis
    proof (cases "is_retryable pol e \<and> (\<exists>x. d = Inr x)")
      case True
      then obtain x where x: "d = Inr x" by blast
      with True Suc.prems f Inl b have "retry_loop eng pol factory on_retry k rem (n + 1)
          (re_sleep eng x (on_retry (n + 1) e x s2)) = (res, s')"
        by (simp add: retry_loop.simps [of _ _ _ _ _ "Suc rem"])
      from Suc.IH [OF this] c1 c2 show ?thesis by (simp add: assms(3,4))
    next
      case False
      with Suc.prems f Inl b c1 c2 show ?thesis
        by (auto simp: retry_loop.simps [of _ _ _ _ _ "Suc rem"] split: if_splits sum.splits)
    qed
  qed
qed

text \<open>
  The outcome of the loop: a value is what some attempt returned; a failure is that of an attempt
  the policy does not retry, the exhaustion of the attempts wrapping the last failure, or an
  overflowing backoff.
\<close>

inductive retry_outcome ::
  "policy \<Rightarrow> (nat \<Rightarrow> 's \<Rightarrow> (wf_exn + 'a) \<times> 's) \<Rightarrow> nat \<Rightarrow> nat \<Rightarrow> (wf_exn + 'a) \<Rightarrow> 's \<Rightarrow> bool"
  for pol factory k
where
  returned: "factory n s = (Inr v, s') \<Longrightarrow> n < N \<Longrightarrow> retry_outcome pol factory k N (Inr v) s'"
| permanent: "factory n s = (Inl e, s') \<Longrightarrow> n < N \<Longrightarrow> \<not> is_retryable pol e \<Longrightarrow>
    retry_outcome pol factory k N (Inl e) s'"
| exhausted: "factory n s = (Inl e, s') \<Longrightarrow> Suc n = N \<Longrightarrow> is_retryable pol e \<Longrightarrow>
    retry_outcome pol factory k N (Inl (RetryExhaustedError k e)) s'"
| overflow: "1024 < N \<Longrightarrow> retry_outcome pol factory k N (Inl OverflowErr) s'"

inductive_cases retry_outcome_errorE: "retry_outcome pol factory k N (Inl e) s'"
inductive_cases retry_outcome_valueE: "retry_outcome pol factory k N (Inr v) s'"

lemma compute_backoff_error:
  "compute_backoff n b m j draw s = (Inl e, s') \<Longrightarrow> e = OverflowErr \<and> 1025 \<le> n"
  by (auto simp: compute_backoff_def Let_def split: if_splits prod.splits)

lemma retry_loop_outcome:
  assumes "retry_loop eng pol factory on_retry k rem n s = (res, s')"
  shows "retry_outcome pol factory k (n + rem + 1) res s'"
  using assms
proof (induction rem arbitrary: n s)
  case 0
  obtain v s1 where f: "factory n s = (v, s1)" by force
  show ?case
  proof (cases v)
    case (Inr x)
    with f 0 retry_outcome.returned [of factory n s x s1 "n + 0 + 1"] show ?thesis
      by (simp add: retry_loop.simps [of _ _ _ _ _ 0])
  next
    case (Inl e)
    with f 0 retry_outcome.permanent [of factory n s e s1 "n + 0 + 1"]
      retry_outcome.exhausted [of factory n s e s1 "n + 0 + 1"] show ?thesis
      by (auto simp: retry_loop.simps [of _ _ _ _ _ 0] split: if_splits)
  qed
next
  case (Suc rem)
  obtain v s1 where f: "factory n s = (v, s1)" by force
  show ?case
  proof (cases v)
    case (Inr x)
    with f Suc.prems retry_outcome.returned [of factory n s x s1 "n + Suc rem + 1"] show ?thesis
      by (simp add: retry_loop.simps [of _ _ _ _ _ "Suc rem"])
  next
    case (Inl e)
    obtain d s2 where b: "compute_backoff (n + 1) (p_base_delay pol) (p_max_delay pol)
        (p_jitter pol) (re_uniform eng) s1 = (d, s2)" by force
    show ?thesis
    proof (cases "is_retryable pol e")
      case False
      with f Inl Suc.prems retry_outcome.permanent [of factory n s e s1 "n + Suc rem + 1"]
      show ?thesis by (simp add: retry_loop.simps [of _ _ _ _ _ "Suc rem"])
    next
      case True
      show ?thesis
      proof (cases d)
        case (Inl e')
        with compute_backoff_error b have "e' = OverflowErr \<and> 1025 \<le> n + 1" by metis
        with True f \<open>v = Inl e\<close> b Inl Suc.prems show ?thesis
          by (auto simp: retry_loop.simps [of _ _ _ _ _ "Suc rem"] intro: retry_outcome.overflow)
      next
        case (Inr x)
        with True f Inl b Suc.prems have "retry_loop eng pol factory on_retry k rem (n + 1)
            (re_sleep eng x (on_retry (n + 1) e x s2)) = (res, s')"
          by (simp add: retry_loop.simps [of _ _ _ _ _ "Suc rem"])
        from Suc.IH [OF this] show ?thesis by simp
      qed
    qed
  qed
qed

lemma retry_run_outcome:
  assumes "retry_run eng pol factory on_retry s = (res, s')"
  shows "retry_outcome pol factory (nat (max 1 (p_max_attempts pol)))
    (nat (max 1 (p_max_attempts pol))) res s'"
proof -
  have "0 + (nat (max 1 (p_max_attempts pol)) - 1) + 1 = nat (max 1 (p_max_attempts pol))" by simp
  with retry_loop_outcome [of eng pol factory on_retry _ _ 0 s res s'] assms show ?thesis
    unfolding retry_run_def Let_def by metis
qed

text \<open>When every attempt fails in the same retryable way, all attempts are used up.\<close>

lemma retry_loop_all_fail:
  assumes "\<And>n x. J x \<Longrightarrow> fst (factory n x) = Inl e \<and> J (snd (factory n x))"
    and "\<And>n d x. J x \<Longrightarrow> J (on_retry n e d x)" "\<And>d x. J x \<Longrightarrow> J (re_sleep eng d x)"
    and "\<And>a b x. J x \<Longrightarrow> J (snd (re_uniform eng a b x))"
    and "is_retryable pol e" "n + rem \<le> 1024" "J s"
    and "\<And>n x. c (snd (factory n x)) = c x + (1::int)" "\<And>n d x. c (on_retry n e d x) = c x"
    and "\<And>d x. c (re_sleep eng d x) = c x" "\<And>a b x. c (snd (re_uniform eng a b x)) = c x"
  shows "\<exists>t. retry_loop eng pol factory on_retry k rem n s = (Inl (RetryExhaustedError k e), t) \<and>
    c t = c s + 1 + int rem"
  using assms(6,7)
proof (induction rem arbitrary: n s)
  case 0
  obtain v s1 where f: "factory n s = (v, s1)" by force
  with assms(1) [OF 0(2), of n] assms(8) [of n s] assms(5) show ?case
    by (simp add: retry_loop.simps [of _ _ _ _ _ 0])
next
  case (Suc rem)
  obtain v s1 where f: "factory n s = (v, s1)" by force
  with assms(1) [OF Suc.prems(2), of n] assms(8) [of n s]
  have v: "v = Inl e" "J s1" "c s1 = c s + 1" by simp_all
  obtain d s2 where b: "compute_backoff (n + 1) (p_base_delay pol) (p_max_delay pol)
      (p_jitter pol) (re_uniform eng) s1 = (d, s2)" by force
  have "\<exists>x. fst (compute_backoff (n + 1) (p_base_delay pol) (p_max_delay pol)
      (p_jitter pol) (re_uniform eng) s1) = Inr x"
    by (rule compute_backoff_no_overflow) (use Suc.prems(1) in simp)
  with b obtain x where x: "d = Inr x" by auto
  have J2: "J s2" by (rule compute_backoff_inv [where I = J, OF b v(2) assms(4)])
  have c2: "c s2 = c s1"
    by (rule compute_backoff_inv [where I = "\<lambda>s. c s = c s1", OF b]) (simp_all add: assms(11))
  let ?s3 = "re_sleep eng x (on_retry (n + 1) e x s2)"
  have "n + 1 + rem \<le> 1024" "J ?s3" using Suc.prems(1) J2 assms(2,3) by simp_all
  from Suc.IH [OF this] obtain t where
    "retry_loop eng pol factory on_retry k rem (n + 1) ?s3 = (Inl (RetryExhaustedError k e), t)"
    "c t = c ?s3 + 1 + int rem" by blast
  with f v b x c2 assms(5,9,10) show ?case
    by (simp add: retry_loop.simps [of _ _ _ _ _ "Suc rem"])
qed

text \<open>An expired budget is always a \<open>StepTimeoutError\<close>; a plain \<open>TimeoutError\<close> never escapes one.\<close>

lemma timeout_run_expired:
  "0 < t \<Longrightarrow> t < elapsed \<Longrightarrow>
     timeout_run (Some t) elapsed run cancel s = (Inl (StepTimeoutError t), cancel s)"
  by (simp add: timeout_run_def)

lemma timeout_run_unbounded:
  "timeout_run None elapsed run cancel s = run s"
  "t \<le> 0 \<Longrightarrow> timeout_run (Some t) elapsed run cancel s = run s"
  by (simp_all add: timeout_run_def)

lemma timeout_run_no_plain_timeout:
  "0 < t \<Longrightarrow> fst (timeout_run (Some t) elapsed run cancel s) \<noteq> Inl TimeoutErr"
  by (auto simp: timeout_run_def split: prod.splits sum.splits wf_exn.splits)

lemma timeout_run_inv:
  assumes "I s" and "I s \<Longrightarrow> I (snd (run s))" and "I s \<Longrightarrow> I (cancel s)"
  shows "I (snd (timeout_run budget elapsed run cancel s))"
  using assms
  by (auto simp: timeout_run_def split: option.splits prod.splits sum.splits wf_exn.splits)

end
