(* ===== verification/Wf_Executor.thy ===== *)
theory Wf_Executor
  imports Wf_Transitions Wf_Sessions Wf_Registry Wf_Retry
begin

section \<open>The executor\<close>

text \<open>
  \<open>app/shared/workflow/executor.py\<close>: starting, resuming and continuing a run, one segment at a
  time. The run object the methods share and mutate is threaded explicitly beside the world; the
  closures \<open>attempt\<close> and \<open>on_retry\<close> of \<open>_drive\<close> are steps on that pair. An exception that
  leaves a method is an \<open>Inl\<close>.
\<close>

subsection \<open>\<open>ExecutionResult\<close>\<close>

record exec_result =
  er_run :: wf_run
  er_status :: run_status
  er_values :: payload
  er_interrupts :: "json list"

definition waiting :: "exec_result \<Rightarrow> bool" where
  "waiting res = (er_status res = R_WAITING_FOR_INPUT)"

definition completed :: "exec_result \<Rightarrow> bool" where
  "completed res = (er_status res = R_COMPLETED)"

definition failed :: "exec_result \<Rightarrow> bool" where
  "failed res = (er_status res \<in> {R_FAILED, R_TIMED_OUT, R_DEAD_LETTERED})"

definition prompt :: "exec_result \<Rightarrow> json option" where
  "prompt res = (if er_interrupts res = [] then None else Some (last (er_interrupts res)))"

subsection \<open>Helpers\<close>

definition build_context :: "wf_run \<Rightarrow> channel option \<Rightarrow> string option \<Rightarrow> wf_ctx" where
  "build_context r io_channel io_identity =
     \<lparr>x_run = r_id r, x_session = r_session r, x_thread = r_thread r, x_workflow = r_workflow r,
      x_version = r_version r,
      x_channel = (case io_channel of Some c \<Rightarrow> Some c | None \<Rightarrow> r_channel r),
      x_identity = (case io_identity of Some i \<Rightarrow> i | None \<Rightarrow> r_identity r),
      x_corr = r_corr r\<rparr>"

definition default_retry_policy :: "wf_settings \<Rightarrow> policy" where
  "default_retry_policy cfg =
     \<lparr>p_max_attempts = retry_max_attempts cfg, p_base_delay = retry_base_delay cfg,
      p_max_delay = retry_max_delay cfg, p_jitter = retry_jitter cfg,
      p_non_retryable = (\<lambda>e. False)\<rparr>"

definition extract_interrupts :: "snapshot \<Rightarrow> json list" where
  "extract_interrupts snap =
     map (\<lambda>v. case v of JObj d \<Rightarrow> JObj d | _ \<Rightarrow> JObj [(''value'', v)]) (sn_interrupts snap)"

fun clean_values :: "gvalue \<Rightarrow> payload" where
  "clean_values (G_Dict d) = filter (\<lambda>(k, v). k \<noteq> ''__interrupt__'') d"
| "clean_values (G_Model d) = d"
| "clean_values (G_Other v) = [(''value'', v)]"

subsection \<open>\<open>_finalize\<close> and \<open>_handle_failure\<close>\<close>

definition fresh_result ::
  "wf_run \<Rightarrow> run_status \<Rightarrow> payload \<Rightarrow> json list \<Rightarrow> 'cp world \<Rightarrow> (wf_exn + exec_result) \<times> 'cp world"
where
  "fresh_result r st vals its s =
     (case get_run (r_id r) s of
        Inl e \<Rightarrow> (Inl e, s)
      | Inr fresh \<Rightarrow>
          (Inr \<lparr>er_run = fresh, er_status = st, er_values = vals, er_interrupts = its\<rparr>, s))"

definition finalize ::
  "wf_settings \<Rightarrow> 'cp compiled \<Rightarrow> wf_run \<Rightarrow> session option \<Rightarrow> wf_ctx \<Rightarrow> gvalue \<Rightarrow> 'cp world \<Rightarrow>
     (wf_exn + exec_result) \<times> 'cp world"
where
  "finalize cfg cw r sess ctx vals s =
     (case g_state (c_graph cw) (r_thread r) (cps s) of
        Inl e \<Rightarrow> (Inl e, s)
      | Inr snap \<Rightarrow>
          let its = extract_interrupts snap;
              next_nodes = sn_next snap;
              r1 = (if next_nodes \<noteq> [] then r\<lparr>r_step := Some (hd next_nodes)\<rparr> else r);
              r2 = r1\<lparr>r_last_error := None\<rparr>;
              st = (if next_nodes = [] then R_COMPLETED
                    else if its \<noteq> [] then R_WAITING_FOR_INPUT else R_SUSPENDED);
              r3 = r2\<lparr>r_interrupts := (if st = R_WAITING_FOR_INPUT then its else [])\<rparr>;
              (r4, s1) = save_run r3 s;
              s2 = emit ctx STEP_COMPLETED [(''next'', JList (map JStr next_nodes))] s1
          in if st = R_COMPLETED then
               (case transition cfg r4 R_COMPLETED (Some ''complete'') [] s2 of
                  (Inl e, s3) \<Rightarrow> (Inl e, s3)
                | (Inr r5, s3) \<Rightarrow>
                    let s4 = (case sess of None \<Rightarrow> s3 | Some x \<Rightarrow> snd (session_complete x s3));
                        s5 = emit ctx RUN_COMPLETED [] s4
                    in fresh_result r5 st (clean_values vals) its s5)
             else if st = R_WAITING_FOR_INPUT then
               (case transition cfg r4 R_WAITING_FOR_INPUT (Some ''await_input'') [] s2 of
                  (Inl e, s3) \<Rightarrow> (Inl e, s3)
                | (Inr r5, s3) \<Rightarrow>
                    let (r6, s4) =
                          (case sess of
                             None \<Rightarrow> (r5, s3)
                           | Some x \<Rightarrow>
                               let (x', s3') = mark_waiting cfg x s3
                               in save_run (r5\<lparr>r_expires_at := s_expires_at x'\<rparr>) s3');
                        s5 = emit ctx RUN_SUSPENDED [(''interrupts'', JList its)] s4
                    in fresh_result r6 st (clean_values vals) its s5)
             else
               (case transition cfg r4 R_SUSPENDED (Some ''suspend'') [] s2 of
                  (Inl e, s3) \<Rightarrow> (Inl e, s3)
                | (Inr r5, s3) \<Rightarrow>
                    let s4 = emit ctx RUN_SUSPENDED [] s3
                    in fresh_result r5 st (clean_values vals) its s4))"

definition is_timeout :: "wf_exn \<Rightarrow> bool" where
  "is_timeout e =
     (is_step_timeout e \<or> (case cause e of None \<Rightarrow> False | Some c \<Rightarrow> is_step_timeout c))"

definition handle_failure ::
  "wf_settings \<Rightarrow> wf_run \<Rightarrow> wf_ctx \<Rightarrow> wf_exn \<Rightarrow> 'cp world \<Rightarrow> (wf_exn + exec_result) \<times> 'cp world"
where
  "handle_failure cfg r ctx e s =
     (let target = (if is_timeout e then R_TIMED_OUT else R_FAILED);
          (r1, s1) = save_run (r\<lparr>r_last_error := Some (render cfg e)\<rparr>) s
      in case transition cfg r1 target (Some ''failure'') [(''error'', opt_text (r_last_error r1))] s1 of
           (Inl e', s2) \<Rightarrow> (Inl e', s2)
         | (Inr r2, s2) \<Rightarrow>
             let s3 = emit ctx (if is_timeout e then RUN_TIMED_OUT else RUN_FAILED)
                        [(''error'', opt_text (r_last_error r2)),
                         (''retryable'', JBool (is_retry_exhausted e))] s2
             in fresh_result r2 target [] [] s3)"

subsection \<open>\<open>_drive\<close>\<close>

text \<open>
  One attempt: count it, pick the command (on a retry the resume value is only sent again while an
  interrupt is pending), and invoke the graph under the step budget. \<open>None\<close> as a resume value is
  \<open>JNull\<close>.
\<close>

definition drive_command ::
  "command \<Rightarrow> json \<Rightarrow> snapshot \<Rightarrow> command"
where
  "drive_command first_input resume_value snap =
     (if sn_interrupts snap \<noteq> [] \<and> resume_value \<noteq> JNull then C_Resume resume_value else C_Continue)"

definition invoke ::
  "wf_settings \<Rightarrow> 'cp graph \<Rightarrow> wf_ctx \<Rightarrow> command \<Rightarrow> string \<Rightarrow> 'cp world \<Rightarrow>
     (wf_exn + gvalue) \<times> 'cp world"
where
  "invoke cfg g ctx cmd thread s =
     timeout_run (step_timeout cfg) (g_elapsed g ctx cmd thread (cps s))
       (\<lambda>s. case g_invoke g ctx cmd thread (cps s) of (v, c) \<Rightarrow> (v, s\<lparr>cps := c\<rparr>))
       (\<lambda>s. s\<lparr>cps := g_cancelled g ctx cmd thread
          (case step_timeout cfg of Some t \<Rightarrow> t | None \<Rightarrow> 0) (cps s)\<rparr>) s"

definition attempt ::
  "wf_settings \<Rightarrow> 'cp graph \<Rightarrow> wf_ctx \<Rightarrow> command \<Rightarrow> json \<Rightarrow> nat \<Rightarrow> wf_run \<times> 'cp world \<Rightarrow>
     (wf_exn + gvalue) \<times> wf_run \<times> 'cp world"
where
  "attempt cfg g ctx first_input resume_value n rs =
     (let (r, s) = rs;
          r1 = r\<lparr>r_attempts := r_attempts r + 1\<rparr>
      in if n = 0 then
           (let (v, s1) = invoke cfg g ctx first_input (r_thread r1) s in (v, r1, s1))
         else
           (case g_state g (r_thread r1) (cps s) of
              Inl e \<Rightarrow> (Inl e, r1, s)
            | Inr snap \<Rightarrow>
                let (v, s1) = invoke cfg g ctx (drive_command first_input resume_value snap)
                                (r_thread r1) s
                in (v, r1, s1)))"

definition on_retry ::
  "wf_settings \<Rightarrow> wf_ctx \<Rightarrow> nat \<Rightarrow> wf_exn \<Rightarrow> real \<Rightarrow> wf_run \<times> 'cp world \<Rightarrow> wf_run \<times> 'cp world"
where
  "on_retry cfg ctx attempt_no e delay rs =
     (let (r, s) = rs;
          (r1, s1) = save_run (r\<lparr>r_last_error := Some (render cfg e)\<rparr>) s
      in (r1, emit ctx RUN_RETRIED
                [(''attempt'', JInt (int attempt_no)), (''delay'', JReal delay),
                 (''error'', opt_text (r_last_error r1))] s1))"

text \<open>The engine the executor holds: sleeping changes nothing, jitter reads the shared random source.\<close>

definition engine :: "(wf_run \<times> 'cp world) retry_engine" where
  "engine =
     \<lparr>re_sleep = (\<lambda>d rs. rs),
      re_uniform = (\<lambda>a b rs. let (x, s1) = uniform a b (snd rs) in (x, (fst rs, s1)))\<rparr>"

definition drive ::
  "wf_settings \<Rightarrow> 'cp compiled \<Rightarrow> wf_run \<Rightarrow> session option \<Rightarrow> wf_ctx \<Rightarrow> command \<Rightarrow> json \<Rightarrow>
     'cp world \<Rightarrow> (wf_exn + exec_result) \<times> 'cp world"
where
  "drive cfg cw r sess ctx first_input resume_value s =
     (case retry_run engine (default_retry_policy cfg)
             (attempt cfg (c_graph cw) ctx first_input resume_value) (on_retry cfg ctx) (r, s) of
        (Inl e, r1, s1) \<Rightarrow> handle_failure cfg r1 ctx e s1
      | (Inr vals, r1, s1) \<Rightarrow> finalize cfg cw r1 sess ctx vals s1)"

subsection \<open>\<open>start\<close>, \<open>resume\<close> and \<open>continue_run\<close>\<close>

definition new_run ::
  "wf_settings \<Rightarrow> 'cp compiled \<Rightarrow> session \<Rightarrow> channel \<Rightarrow> string \<Rightarrow> string option \<Rightarrow> 'cp world \<Rightarrow> wf_run"
where
  "new_run cfg cw x ch ident corr s =
     (let rid = new_id ''run'' s;
          name = d_name (c_def cw);
          version = d_version (c_def cw)
      in \<lparr>r_id = rid, r_workflow = name, r_version = version, r_session = s_id x,
          r_thread = derive_thread_id cfg name version (s_id x) rid, r_channel = Some ch,
          r_identity = ident, r_status = R_PENDING, r_step = None, r_attempts = 0,
          r_last_error = None, r_interrupts = [], r_corr = corr, r_created_at = utcnow s,
          r_updated_at = utcnow (tick s), r_completed_at = None, r_expires_at = None\<rparr>)"

definition start ::
  "wf_settings \<Rightarrow> string \<Rightarrow> channel \<Rightarrow> string \<Rightarrow> json \<Rightarrow> int option \<Rightarrow> string option \<Rightarrow> 'cp world \<Rightarrow>
     (wf_exn + exec_result) \<times> 'cp world"
where
  "start cfg workflow ch ident input version corr s =
     (case load workflow version s of
        (Inl e, s1) \<Rightarrow> (Inl e, s1)
      | (Inr cw, s1) \<Rightarrow>
          let (x, s2) = session_resolve cfg ch ident s1;
              r = new_run cfg cw x ch ident corr s2;
              s3 = create_run r (mint (tick (tick s2)));
              (x1, s4) = bind_run x r s3
          in (case transition cfg r R_RUNNING (Some ''start'') [] s4 of
                (Inl e, s5) \<Rightarrow> (Inl e, s5)
              | (Inr r1, s5) \<Rightarrow>
                  let ctx = build_context r1 None None;
                      s6 = emit ctx RUN_STARTED [(''workflow'', JStr (r_workflow r1))] s5;
                      initial = \<lparr>i_session = s_id x1, i_channel = ch, i_identity = ident,
                                 i_workflow = r_workflow r1, i_last_input = input,
                                 i_data = (case input of JObj d \<Rightarrow> d | _ \<Rightarrow> [])\<rparr>
                  in drive cfg cw r1 (Some x1) ctx (C_Init initial) JNull s6))"

definition resume ::
  "wf_settings \<Rightarrow> channel \<Rightarrow> string \<Rightarrow> json \<Rightarrow> string option \<Rightarrow> channel option \<Rightarrow> string option \<Rightarrow>
     'cp world \<Rightarrow> (wf_exn + exec_result) \<times> 'cp world"
where
  "resume cfg ch ident message corr io_channel io_identity s =
     (case session_get cfg ch ident s of
        None \<Rightarrow> (Inl (SessionNotFoundError ch ident), s)
      | Some x \<Rightarrow>
          (case s_active_run x of
             None \<Rightarrow> (Inl (SessionNotFoundError ch ident), s)
           | Some rid \<Rightarrow>
               if rid = [] then (Inl (SessionNotFoundError ch ident), s)
               else
               (case get_run rid s of
                  Inl e \<Rightarrow> (Inl e, s)
                | Inr r \<Rightarrow>
                    if r_status r \<in> set TERMINAL_STATUSES
                    then (Inl (WorkflowExecutionError (r_id r) (r_status r)), s)
                    else
                      let (r1, s1) =
                            (case corr of
                               None \<Rightarrow> (r, s)
                             | Some c \<Rightarrow> if c = [] then (r, s) else save_run (r\<lparr>r_corr := Some c\<rparr>) s)
                      in (case load (r_workflow r1) (Some (r_version r1)) s1 of
                            (Inl e, s2) \<Rightarrow> (Inl e, s2)
                          | (Inr cw, s2) \<Rightarrow>
                              (case transition cfg r1 R_RUNNING (Some ''resume'') [] s2 of
                                 (Inl e, s3) \<Rightarrow> (Inl e, s3)
                               | (Inr r2, s3) \<Rightarrow>
                                   let (x1, s4) = mark_active x s3;
                                       ctx = build_context r2 io_channel io_identity;
                                       s5 = emit ctx RUN_RESUMED [] s4
                                   in drive cfg cw r2 (Some x1) ctx (C_Resume message) message s5)))))"

definition continue_run ::
  "wf_settings \<Rightarrow> wf_run \<Rightarrow> 'cp world \<Rightarrow> (wf_exn + exec_result) \<times> 'cp world"
where
  "continue_run cfg r s =
     (case load (r_workflow r) (Some (r_version r)) s of
        (Inl e, s1) \<Rightarrow> (Inl e, s1)
      | (Inr cw, s1) \<Rightarrow>
          let (sess, s2) =
                (case r_channel r of
                   None \<Rightarrow> (None, s1)
                 | Some ch \<Rightarrow>
                     (case session_get cfg ch (r_identity r) s1 of
                        Some x \<Rightarrow> (Some x, s1)
                      | None \<Rightarrow>
                          let (x, s1') = session_resolve cfg ch (r_identity r) s1
                          in (Some x, s1')));
              (moved, s3) =
                (if r_status r \<noteq> R_RUNNING then transition cfg r R_RUNNING (Some ''recover'') [] s2
                 else (Inr r, s2))
          in (case moved of
                Inl e \<Rightarrow> (Inl e, s3)
              | Inr r1 \<Rightarrow>
                  let ctx = build_context r1 None None;
                      s4 = emit ctx RUN_RECOVERED [] s3
                  in drive cfg cw r1 sess ctx C_Continue JNull s4))"

end
