(* ===== verification/Wf_Recovery.thy ===== *)
theory Wf_Recovery
  imports Wf_Executor
begin

section \<open>Recovery and the runtime facade\<close>

text \<open>
  \<open>app/shared/workflow/recovery.py\<close> and the pass-throughs of \<open>runtime.py\<close>. The sweeps swallow
  what one run raises and go on with the next.
\<close>

subsection \<open>\<open>RecoveryEngine\<close>\<close>

text \<open>\<open>batch = limit or recovery_batch_size\<close>: zero also means the default.\<close>

fun recover_each ::
  "wf_settings \<Rightarrow> wf_run list \<Rightarrow> 'cp world \<Rightarrow> exec_result list \<times> 'cp world"
where
  "recover_each cfg [] s = ([], s)"
| "recover_each cfg (r # rs) s =
     (case continue_run cfg r s of
        (Inl e, s1) \<Rightarrow> recover_each cfg rs s1
      | (Inr res, s1) \<Rightarrow> let (out, s2) = recover_each cfg rs s1 in (res # out, s2))"

definition recover_pending ::
  "wf_settings \<Rightarrow> nat option \<Rightarrow> 'cp world \<Rightarrow> exec_result list \<times> 'cp world"
where
  "recover_pending cfg limit s =
     (let batch = (case limit of None \<Rightarrow> recovery_batch cfg
                   | Some n \<Rightarrow> if n = 0 then recovery_batch cfg else n)
      in recover_each cfg (list_recoverable batch s) s)"

definition recover_run ::
  "wf_settings \<Rightarrow> string \<Rightarrow> 'cp world \<Rightarrow> (wf_exn + exec_result) \<times> 'cp world"
where
  "recover_run cfg rid s =
     (case get_run rid s of Inl e \<Rightarrow> (Inl e, s) | Inr r \<Rightarrow> continue_run cfg r s)"

definition recovery_emit :: "wf_run \<Rightarrow> wf_event_type \<Rightarrow> payload \<Rightarrow> 'cp world \<Rightarrow> 'cp world" where
  "recovery_emit r ty pl s =
     publish \<lparr>e_id = new_id ''evt'' s, e_type = ty, e_at = utcnow s, e_run = r_id r,
              e_session = r_session r, e_workflow = r_workflow r, e_channel = r_channel r,
              e_identity = r_identity r, e_corr = r_corr r, e_payload = pl\<rparr> (tick (mint s))"

definition time_out_run :: "wf_settings \<Rightarrow> wf_run \<Rightarrow> 'cp world \<Rightarrow> wf_run \<times> 'cp world" where
  "time_out_run cfg r s =
     (case transition cfg r R_TIMED_OUT (Some ''session_timeout'') [] s of
        (Inl e, s1) \<Rightarrow> (r, s1)
      | (Inr r1, s1) \<Rightarrow>
          let s2 = recovery_emit r1 RUN_TIMED_OUT [(''reason'', JStr ''session_lapsed'')] s1;
              s3 = (case r_channel r1 of
                      None \<Rightarrow> s2
                    | Some ch \<Rightarrow>
                        (case session_get cfg ch (r_identity r1) s2 of
                           None \<Rightarrow> s2
                         | Some x \<Rightarrow> snd (session_expire x s2)))
          in (r1, recovery_emit r1 SESSION_EXPIRED [] s3))"

fun sweep_each :: "wf_settings \<Rightarrow> wf_run list \<Rightarrow> 'cp world \<Rightarrow> wf_run list \<times> 'cp world" where
  "sweep_each cfg [] s = ([], s)"
| "sweep_each cfg (r # rs) s =
     (let (r1, s1) = time_out_run cfg r s;
          (out, s2) = sweep_each cfg rs s1
      in (r1 # out, s2))"

definition sweep_timeouts ::
  "wf_settings \<Rightarrow> int option \<Rightarrow> 'cp world \<Rightarrow> wf_run list \<times> 'cp world"
where
  "sweep_timeouts cfg now s =
     (let (t, s1) = (case now of Some t \<Rightarrow> (t, s) | None \<Rightarrow> (utcnow s, tick s))
      in sweep_each cfg (list_waiting_expired t (recovery_batch cfg) s1) s1)"

subsection \<open>\<open>WorkflowRuntime\<close>\<close>

definition revive_failed_run ::
  "wf_settings \<Rightarrow> wf_run \<Rightarrow> 'cp world \<Rightarrow> (wf_exn + wf_run) \<times> 'cp world"
where
  "revive_failed_run cfg r s = transition cfg r R_RUNNING (Some ''revive'') [] s"

text \<open>
  Adapter selection of \<open>build_runtime\<close>: which backend names are accepted; the
  \<open>ValueError\<close> otherwise names the setting and its value.
\<close>

datatype adapter = InMemory | Postgres | Redis

definition build_checkpointer :: "string \<Rightarrow> (string \<times> string) + adapter" where
  "build_checkpointer backend =
     (if backend = ''memory'' then Inr InMemory
      else if backend = ''postgres'' then Inr Postgres
      else Inl (''checkpoint_backend'', backend))"

definition build_event_bus :: "string \<Rightarrow> (string \<times> string) + adapter" where
  "build_event_bus backend =
     (if backend = ''memory'' then Inr InMemory
      else if backend = ''redis'' then Inr Redis
      else Inl (''event_backend'', backend))"

definition build_session_store :: "string \<Rightarrow> (string \<times> string) + adapter" where
  "build_session_store backend =
     (if backend = ''memory'' then Inr InMemory
      else if backend = ''redis'' then Inr Redis
      else Inl (''session_backend'', backend))"

definition build_run_store :: "string \<Rightarrow> adapter" where
  "build_run_store backend = (if backend = ''postgres'' then Postgres else InMemory)"

record wiring =
  w_checkpointer :: adapter
  w_events :: adapter
  w_sessions :: adapter
  w_runs :: adapter

definition build_runtime :: "string \<Rightarrow> string \<Rightarrow> string \<Rightarrow> string \<Rightarrow> (string \<times> string) + wiring" where
  "build_runtime checkpoint_backend event_backend session_backend persistence_backend =
     (case build_checkpointer checkpoint_backend of
        Inl e \<Rightarrow> Inl e
      | Inr c \<Rightarrow>
          (case build_event_bus event_backend of
             Inl e \<Rightarrow> Inl e
           | Inr b \<Rightarrow>
               (case build_session_store session_backend of
                  Inl e \<Rightarrow> Inl e
                | Inr ss \<Rightarrow>
                    Inr \<lparr>w_checkpointer = c, w_events = b, w_sessions = ss,
                         w_runs = build_run_store persistence_backend\<rparr>)))"

end
