(* ===== verification/Wf_Invariant.thy ===== *)
theory Wf_Invariant
  imports Wf_Recovery
begin

section \<open>The invariant of the runtime\<close>

text \<open>
  \<open>consistent\<close> ties the run store to the audit log: the status of every stored run is where its
  audit trail ends, and that trail is a connected path of allowed transitions from \<open>PENDING\<close>.
  Every operation of the executor, the recovery engine and the facade preserves it, and only
  appends to the trails and to the event history (\<open>evolves\<close>).
\<close>

subsection \<open>Audit trails\<close>

definition moves :: "audit_entry list \<Rightarrow> (run_status \<times> run_status) list" where
  "moves es =
     concat (map (\<lambda>e. case (a_from e, a_to e) of (Some f, Some t) \<Rightarrow> [(f, t)] | _ \<Rightarrow> []) es)"

definition trail :: "string \<Rightarrow> 'cp world \<Rightarrow> (run_status \<times> run_status) list" where
  "trail rid s = moves (list_audit rid s)"

lemma moves_append [simp]: "moves (es @ fs) = moves es @ moves fs"
  by (simp add: moves_def)

lemma trail_frame: "audit t = audit s \<Longrightarrow> trail rid t = trail rid s"
  by (simp add: trail_def list_audit_def)

lemma trail_record:
  "trail i (record_audit rid a (Some f) (Some t) d s) =
     (if i = rid then trail i s @ [(f, t)] else trail i s)"
  by (simp add: trail_def list_audit_record moves_def)

lemma trail_simps [simp]:
  "trail i (snd (save_run r s)) = trail i s" "trail i (tick s) = trail i s"
  by (simp_all add: trail_def list_audit_def)

subsection \<open>Consistency\<close>

definition consistent :: "'cp world \<Rightarrow> bool" where
  "consistent s \<longleftrightarrow>
     distinct (dkeys (runs s)) \<and>
     inj (entropy s) \<and>
     (\<forall>rid r. dget (runs s) rid = Some r \<longrightarrow>
        r_id r = rid \<and> chain is_allowed R_PENDING (trail rid s) (r_status r) \<and>
        (\<exists>k < minted s. rid = ''run_'' @ entropy s k)) \<and>
     (\<forall>rid. dget (runs s) rid = None \<longrightarrow> trail rid s = [])"

lemma consistentI:
  assumes "distinct (dkeys (runs s))" "inj (entropy s)"
    and "\<And>rid r. dget (runs s) rid = Some r \<Longrightarrow> r_id r = rid"
    and "\<And>rid r. dget (runs s) rid = Some r \<Longrightarrow>
      chain is_allowed R_PENDING (trail rid s) (r_status r)"
    and "\<And>rid r. dget (runs s) rid = Some r \<Longrightarrow> \<exists>k < minted s. rid = ''run_'' @ entropy s k"
    and "\<And>rid. dget (runs s) rid = None \<Longrightarrow> trail rid s = []"
  shows "consistent s"
  using assms unfolding consistent_def by blast

lemma consistentD:
  assumes "consistent s"
  shows "distinct (dkeys (runs s))" "inj (entropy s)"
    and "dget (runs s) rid = Some r \<Longrightarrow> r_id r = rid"
    and "dget (runs s) rid = Some r \<Longrightarrow> chain is_allowed R_PENDING (trail rid s) (r_status r)"
    and "dget (runs s) rid = Some r \<Longrightarrow> \<exists>k < minted s. rid = ''run_'' @ entropy s k"
    and "dget (runs s) rid = None \<Longrightarrow> trail rid s = []"
  using assms unfolding consistent_def by blast+

lemma stored_run:
  "consistent s \<Longrightarrow> r \<in> set (dvals (runs s)) \<Longrightarrow> dget (runs s) (r_id r) = Some r"
  using consistentD(1,3) dict_valsE by metis

lemma fresh_run_id:
  assumes "consistent s"
  shows "dget (runs s) (new_id ''run'' s) = None"
proof (cases "dget (runs s) (new_id ''run'' s)")
  case (Some r)
  then obtain k where "k < minted s" "new_id ''run'' s = ''run_'' @ entropy s k"
    using consistentD(5) [OF assms] by blast
  then have "entropy s (minted s) = entropy s k" by (simp add: new_id_def)
  with consistentD(2) [OF assms] \<open>k < minted s\<close> show ?thesis by (simp add: inj_eq)
qed

text \<open>The run object in the executor's hands agrees with the stored one on its status.\<close>

definition held :: "wf_run \<Rightarrow> 'cp world \<Rightarrow> bool" where
  "held r s \<longleftrightarrow> (\<exists>r0. dget (runs s) (r_id r) = Some r0 \<and> r_status r0 = r_status r)"

lemma held_stored: "dget (runs s) rid = Some r \<Longrightarrow> consistent s \<Longrightarrow> held r s"
  using consistentD(3) [of s rid r] by (simp add: held_def)

lemma held_frame: "runs t = runs s \<Longrightarrow> held r t = held r s"
  by (simp add: held_def)

lemma held_cong: "r_id r' = r_id r \<Longrightarrow> r_status r' = r_status r \<Longrightarrow> held r' s = held r s"
  by (simp add: held_def)

subsection \<open>Evolution\<close>

definition evolves :: "'cp world \<Rightarrow> 'cp world \<Rightarrow> bool" where
  "evolves s t \<longleftrightarrow>
     consistent t \<and> (coherent s \<longrightarrow> coherent t) \<and> (\<exists>es. events t = events s @ es) \<and>
     (\<forall>rid r. dget (runs s) rid = Some r \<longrightarrow>
        (\<exists>r' us. dget (runs t) rid = Some r' \<and> trail rid t = trail rid s @ us))"

lemma coherent_frame: "defs t = defs s \<Longrightarrow> cache t = cache s \<Longrightarrow> coherent t = coherent s"
  by (simp add: coherent_def registered_def versions_of_def)

lemma evolves_refl: "consistent s \<Longrightarrow> evolves s s"
  by (simp add: evolves_def)

lemma evolves_trans [trans]:
  assumes "evolves s t" and "evolves t u"
  shows "evolves s u"
  unfolding evolves_def
proof (intro conjI allI impI)
  show "consistent u" using assms(2) by (simp add: evolves_def)
  show "coherent u" if "coherent s" using that assms by (simp add: evolves_def)
  from assms show "\<exists>es. events u = events s @ es" by (auto simp: evolves_def)
  fix rid r
  assume "dget (runs s) rid = Some r"
  then obtain r1 us where "dget (runs t) rid = Some r1" "trail rid t = trail rid s @ us"
    using assms(1) unfolding evolves_def by blast
  moreover from this(1) obtain r2 vs where "dget (runs u) rid = Some r2" "trail rid u = trail rid t @ vs"
    using assms(2) unfolding evolves_def by blast
  ultimately show "\<exists>r' us. dget (runs u) rid = Some r' \<and> trail rid u = trail rid s @ us" by simp
qed

lemma evolves_consistent: "evolves s t \<Longrightarrow> consistent t"
  by (simp add: evolves_def)

lemma evolves_frame:
  assumes "consistent s" "runs t = runs s" "audit t = audit s" "entropy t = entropy s"
    and "minted s \<le> minted t" "\<exists>es. events t = events s @ es" "coherent s \<Longrightarrow> coherent t"
  shows "evolves s t"
proof -
  have trail: "trail rid t = trail rid s" for rid by (rule trail_frame [OF assms(3)])
  have "consistent t"
    by (rule consistentI; unfold assms(2,4) trail)
      (use consistentD [OF assms(1)] assms(5) order_less_le_trans in \<open>blast+\<close>)
  then show ?thesis using assms(7) by (simp add: evolves_def trail assms(2,6))
qed

lemma evolves_quiet:
  assumes "consistent s" "runs t = runs s" "audit t = audit s" "entropy t = entropy s"
    and "minted s \<le> minted t" "\<exists>es. events t = events s @ es"
    and "defs t = defs s" "cache t = cache s"
  shows "evolves s t"
  using evolves_frame [OF assms(1-6)] coherent_frame [OF assms(7,8)] by simp

lemma evolves_same_runs: "consistent s \<Longrightarrow> same_runs s t \<Longrightarrow> evolves s t"
  by (rule evolves_quiet) (simp_all add: same_runs_def)

lemma evolves_emit: "consistent s \<Longrightarrow> evolves s (emit c ty p s)"
  by (rule evolves_quiet) (simp_all add: emit_def publish_def)

lemma evolves_tick: "consistent s \<Longrightarrow> evolves s (tick s)"
  by (rule evolves_quiet) simp_all

lemma evolves_cps: "consistent s \<Longrightarrow> evolves s (s\<lparr>cps := c\<rparr>)"
  by (rule evolves_quiet) simp_all

lemma evolves_rolled: "consistent s \<Longrightarrow> evolves s (s\<lparr>rolled := c\<rparr>)"
  by (rule evolves_quiet) simp_all

lemma evolves_load: "consistent s \<Longrightarrow> load n v s = (res, s') \<Longrightarrow> evolves s s'"
  by (rule evolves_frame) (simp_all add: load_frame coherent_load)

lemma evolves_recovery_emit: "consistent s \<Longrightarrow> evolves s (recovery_emit r ty p s)"
  by (rule evolves_quiet) (simp_all add: recovery_emit_def publish_def)

subsection \<open>Saving, moving and creating a run\<close>

lemma evolves_save:
  assumes "consistent s" "held r s"
  shows "evolves s (snd (save_run r s)) \<and> held (fst (save_run r s)) (snd (save_run r s))"
proof -
  let ?t = "snd (save_run r s)"
  obtain r0 where r0: "dget (runs s) (r_id r) = Some r0" "r_status r0 = r_status r"
    using assms(2) by (auto simp: held_def)
  have trail: "trail rid ?t = trail rid s" for rid by (rule trail_frame) simp
  have get: "dget (runs ?t) rid = Some x \<Longrightarrow>
      \<exists>y. dget (runs s) rid = Some y \<and> r_status x = r_status y \<and> r_id x = r_id y" for rid x
    using r0 consistentD(3) [OF assms(1) r0(1)] by (auto split: if_splits)
  have "consistent ?t"
  proof (rule consistentI)
    show "distinct (dkeys (runs ?t))" "inj (entropy ?t)"
      using consistentD(1,2) [OF assms(1)] by simp_all
    show "dget (runs ?t) rid = Some x \<Longrightarrow> r_id x = rid" for rid x
      using get [of rid x] consistentD(3) [OF assms(1)] by fastforce
    show "dget (runs ?t) rid = Some x \<Longrightarrow>
        chain is_allowed R_PENDING (trail rid ?t) (r_status x)" for rid x
      using get [of rid x] consistentD(4) [OF assms(1)] by (fastforce simp: trail)
    show "dget (runs ?t) rid = Some x \<Longrightarrow> \<exists>k<minted ?t. rid = ''run_'' @ entropy ?t k" for rid x
      using get [of rid x] consistentD(5) [OF assms(1)] by fastforce
    show "dget (runs ?t) rid = None \<Longrightarrow> trail rid ?t = []" for rid
      using consistentD(6) [OF assms(1)] by (auto simp: trail split: if_splits)
  qed
  moreover have "coherent ?t = coherent s" by (rule coherent_frame) simp_all
  ultimately show ?thesis by (auto simp: evolves_def trail held_def)
qed

lemma evolves_transition:
  assumes "consistent s" "held r s" "transition cfg r to a d s = (Inr r', t)"
  shows "evolves s t \<and> held r' t"
proof -
  have legal: "is_allowed (r_status r) to"
    using assms(3) by (auto simp: transition_def Let_def split: if_splits)
  obtain r0 where r0: "dget (runs s) (r_id r) = Some r0" "r_status r0 = r_status r"
    using assms(2) by (auto simp: held_def)
  from assms(3) legal have runs: "runs t = dput (r_id r) r' (runs s)"
    and r': "r_id r' = r_id r" "r_status r' = to"
    and env: "entropy t = entropy s" "minted t = Suc (minted s)" "events t = events s"
    by (auto simp: transition_def Let_def split_beta)
  have trail: "trail i t = (if i = r_id r then trail i s @ [(r_status r, to)] else trail i s)" for i
    using assms(3) legal
    by (auto simp: transition_def Let_def split_beta trail_record)
  have get: "dget (runs t) i = (if i = r_id r then Some r' else dget (runs s) i)" for i
    by (simp add: runs)
  have "consistent t"
  proof (rule consistentI, unfold get trail env)
    show "distinct (dkeys (runs t))" "inj (entropy s)"
      using consistentD(1,2) [OF assms(1)] by (simp_all add: runs)
    show "(if i = r_id r then Some r' else dget (runs s) i) = Some x \<Longrightarrow> r_id x = i" for i x
      using consistentD(3) [OF assms(1)] r' by (auto split: if_splits)
    show "(if i = r_id r then Some r' else dget (runs s) i) = Some x \<Longrightarrow>
        chain is_allowed R_PENDING
          (if i = r_id r then trail i s @ [(r_status r, to)] else trail i s) (r_status x)" for i x
      using chain_snoc [OF consistentD(4) [OF assms(1) r0(1)]] r' r0(2) legal
        consistentD(4) [OF assms(1), of i x] by (auto split: if_splits)
    show "(if i = r_id r then Some r' else dget (runs s) i) = Some x \<Longrightarrow>
        \<exists>k<Suc (minted s). i = ''run_'' @ entropy s k" for i x
      using consistentD(5) [OF assms(1) r0(1)] by (cases "i = r_id r")
        (auto intro: less_SucI dest!: consistentD(5) [OF assms(1)])
    show "(if i = r_id r then Some r' else dget (runs s) i) = None \<Longrightarrow>
        (if i = r_id r then trail i s @ [(r_status r, to)] else trail i s) = []" for i
      using consistentD(6) [OF assms(1)] by (auto split: if_splits)
  qed
  moreover have "coherent t = coherent s"
    by (rule coherent_frame) (use assms(3) legal in \<open>auto simp: transition_def Let_def split_beta\<close>)
  ultimately show ?thesis by (auto simp: evolves_def trail held_def env(3) get r')
qed

lemma evolves_transition_error:
  "consistent s \<Longrightarrow> transition cfg r to a d s = (Inl e, t) \<Longrightarrow> evolves s t"
  by (auto simp: transition_def Let_def split_beta evolves_refl split: if_splits)

lemma evolves_create:
  assumes "consistent s" and "r_id r = new_id ''run'' s" and "r_status r = R_PENDING"
    and "runs s' = runs s" "audit s' = audit s" "entropy s' = entropy s"
    and "minted s' = Suc (minted s)" "events s' = events s" "defs s' = defs s" "cache s' = cache s"
  shows "evolves s (create_run r s') \<and> held r (create_run r s')"
proof -
  let ?t = "create_run r s'"
  have trail: "trail i ?t = trail i s" for i by (rule trail_frame) (simp add: create_run_def assms(5))
  have fresh: "dget (runs s) (r_id r) = None" using fresh_run_id [OF assms(1)] assms(2) by simp
  have get: "dget (runs ?t) i = (if i = r_id r then Some r else dget (runs s) i)" for i
    by (simp add: create_run_def assms(4))
  have env: "entropy ?t = entropy s" "minted ?t = Suc (minted s)" "events ?t = events s"
    by (simp_all add: create_run_def assms)
  have "consistent ?t"
  proof (rule consistentI, unfold get trail env)
    show "distinct (dkeys (runs ?t))" "inj (entropy s)"
      using consistentD(1,2) [OF assms(1)] by (simp_all add: create_run_def assms(4))
    show "(if i = r_id r then Some r else dget (runs s) i) = Some x \<Longrightarrow> r_id x = i" for i x
      using consistentD(3) [OF assms(1)] by (auto split: if_splits)
    show "(if i = r_id r then Some r else dget (runs s) i) = Some x \<Longrightarrow>
        chain is_allowed R_PENDING (trail i s) (r_status x)" for i x
      using consistentD(4,6) [OF assms(1)] assms(3) fresh by (auto split: if_splits)
    show "(if i = r_id r then Some r else dget (runs s) i) = Some x \<Longrightarrow>
        \<exists>k<Suc (minted s). i = ''run_'' @ entropy s k" for i x
      using assms(2) by (cases "i = r_id r")
        (auto simp: new_id_def intro: less_SucI dest!: consistentD(5) [OF assms(1)])
    show "(if i = r_id r then Some r else dget (runs s) i) = None \<Longrightarrow> trail i s = []" for i
      using consistentD(6) [OF assms(1)] by (auto split: if_splits)
  qed
  moreover have "coherent ?t = coherent s"
    by (rule coherent_frame) (simp_all add: create_run_def assms)
  ultimately show ?thesis using fresh by (auto simp: evolves_def trail held_def env(3) get)
qed

end
