(* ===== verification/Wf_Safety.thy ===== *)
theory Wf_Safety
  imports Wf_Invariant
begin

section \<open>Every operation of the runtime preserves the invariant\<close>

text \<open>
  Preservation and outcome of the drive loop, of \<open>start\<close>, \<open>resume\<close>, \<open>continue_run\<close>, of the
  recovery sweeps and of the facade, then of all their sequences (\<open>runtime_step\<close>).
\<close>

subsection \<open>Closing a segment\<close>

text \<open>
  What a method of the executor hands back: the stored run, in the reported status, after an
  evolution of the world; the run's status is what closed the segment.
\<close>

definition closes :: "string \<Rightarrow> 'cp world \<Rightarrow> exec_result \<Rightarrow> 'cp world \<Rightarrow> bool" where
  "closes rid s res t \<longleftrightarrow>
     evolves s t \<and> dget (runs t) rid = Some (er_run res) \<and> r_id (er_run res) = rid \<and>
     r_status (er_run res) = er_status res \<and>
     er_status res \<in> {R_COMPLETED, R_WAITING_FOR_INPUT, R_SUSPENDED, R_FAILED, R_TIMED_OUT}"

definition closing_event :: "run_status \<Rightarrow> wf_event_type" where
  "closing_event st =
     (case st of R_COMPLETED \<Rightarrow> RUN_COMPLETED | R_FAILED \<Rightarrow> RUN_FAILED
      | R_TIMED_OUT \<Rightarrow> RUN_TIMED_OUT | _ \<Rightarrow> RUN_SUSPENDED)"

definition announced :: "string \<Rightarrow> run_status \<Rightarrow> 'cp world \<Rightarrow> bool" where
  "announced rid st t \<longleftrightarrow>
     events t \<noteq> [] \<and> e_run (last (events t)) = rid \<and> e_type (last (events t)) = closing_event st"

lemma announced_emit: "x_run c = rid \<Longrightarrow> announced rid st (emit c (closing_event st) p s)"
  by (simp add: announced_def emit_def publish_def)

text \<open>
  A run that was just written is stored exactly as it is in hand. Its \<open>content\<close> is everything
  saving and moving leave alone.
\<close>

definition stored :: "wf_run \<Rightarrow> 'cp world \<Rightarrow> bool" where
  "stored r s \<longleftrightarrow> dget (runs s) (r_id r) = Some r"

definition content :: "wf_run \<Rightarrow> wf_run" where
  "content r = r\<lparr>r_status := R_PENDING, r_updated_at := 0, r_completed_at := None,
     r_expires_at := None\<rparr>"

lemma contentD:
  assumes "content r = content q"
  shows "r_id r = r_id q" "r_thread r = r_thread q" "r_attempts r = r_attempts q"
    "r_last_error r = r_last_error q" "r_interrupts r = r_interrupts q" "r_step r = r_step q"
    "r_session r = r_session q" "r_channel r = r_channel q" "r_identity r = r_identity q"
    "r_corr r = r_corr q" "r_workflow r = r_workflow q" "r_version r = r_version q"
proof -
  have "f (content r) = f (content q)" for f :: "wf_run \<Rightarrow> 'b" using assms by simp
  from this [of r_id] this [of r_thread] this [of r_attempts] this [of r_last_error]
    this [of r_interrupts] this [of r_step] this [of r_session] this [of r_channel]
    this [of r_identity] this [of r_corr] this [of r_workflow] this [of r_version]
  show "r_id r = r_id q" "r_thread r = r_thread q" "r_attempts r = r_attempts q"
    "r_last_error r = r_last_error q" "r_interrupts r = r_interrupts q" "r_step r = r_step q"
    "r_session r = r_session q" "r_channel r = r_channel q" "r_identity r = r_identity q"
    "r_corr r = r_corr q" "r_workflow r = r_workflow q" "r_version r = r_version q"
    by (simp_all add: content_def)
qed

lemma content_save [simp]: "content (fst (save_run r s)) = content r"
  by (simp add: content_def save_run_def Let_def)

lemma stored_held: "stored r s \<Longrightarrow> held r s"
  by (simp add: stored_def held_def)

lemma stored_save: "save_run r s = (r', s') \<Longrightarrow> stored r' s'"
  by (auto simp: stored_def save_run_def Let_def)

lemma fresh_result_stored:
  "stored r s \<Longrightarrow> fresh_result r st vals its s =
     (Inr \<lparr>er_run = r, er_status = st, er_values = vals, er_interrupts = its\<rparr>, s)"
  by (simp add: stored_def fresh_result_def get_run_def get_run_or_none_def)

lemma RUNNING_moves [simp]:
  "is_allowed R_RUNNING R_COMPLETED" "is_allowed R_RUNNING R_WAITING_FOR_INPUT"
  "is_allowed R_RUNNING R_SUSPENDED" "is_allowed R_RUNNING R_FAILED"
  "is_allowed R_RUNNING R_TIMED_OUT"
  by (simp_all add: is_allowed_def)

text \<open>A legal transition of a held run, followed by frame steps and the closing event.\<close>

lemma legal_transition:
  assumes "consistent s" "held r s" "is_allowed (r_status r) to"
  obtains r' t where "transition cfg r to a d s = (Inr r', t)" "evolves s t" "stored r' t"
    "content r' = content r" "r_status r' = to"
    "to \<in> set TERMINAL_STATUSES \<Longrightarrow> r_completed_at r' \<noteq> None"
proof -
  from assms(3) obtain r' t where tr: "transition cfg r to a d s = (Inr r', t)"
    "r_status r' = to" "stored r' t" "content r' = content r"
    "to \<in> set TERMINAL_STATUSES \<Longrightarrow> r_completed_at r' \<noteq> None"
    by (auto simp: transition_def Let_def split_beta stored_def content_def save_run_def)
  with evolves_transition [OF assms(1,2) tr(1)] that show ?thesis by blast
qed

lemma stored_frames [simp]:
  "stored r (emit c ty p s) = stored r s" "stored r (tick s) = stored r s"
  by (simp_all add: stored_def)

lemma held_frames [simp]:
  "held r (emit c ty p s) = held r s" "held r (tick s) = held r s" "held r (mint s) = held r s"
  by (simp_all add: held_def)

lemma close_with_event:
  assumes "evolves s s'" "stored r s'" "r_status r = st" "r_id r = rid" "x_run c = rid"
    and "fresh_result r st vals its (emit c (closing_event st) p s') = (res, t)"
    and "st \<in> {R_COMPLETED, R_WAITING_FOR_INPUT, R_SUSPENDED, R_FAILED, R_TIMED_OUT}"
  shows "\<exists>er. res = Inr er \<and> closes rid s er t \<and> er_status er = st \<and> announced rid st t \<and>
    er_run er = r \<and> er_values er = vals \<and> er_interrupts er = its"
proof -
  let ?s = "emit c (closing_event st) p s'"
  have e: "evolves s ?s"
    using assms(1) evolves_emit [OF evolves_consistent [OF assms(1)]] by (rule evolves_trans)
  from assms(2) have stored: "stored r ?s" by simp
  from fresh_result_stored [OF stored] assms(6)
  have res: "res = Inr \<lparr>er_run = r, er_status = st, er_values = vals, er_interrupts = its\<rparr>" "t = ?s"
    by simp_all
  with e stored assms(3,4,7) announced_emit [OF assms(5), of st p s'] show ?thesis
    by (simp add: closes_def stored_def)
qed

lemma evolves_session:
  assumes "consistent s"
  shows "evolves s (snd (bind_run x r s))" "evolves s (snd (mark_waiting cfg x s))"
    "evolves s (snd (mark_active x s))" "evolves s (snd (session_complete x s))"
    "evolves s (snd (session_expire x s))" "evolves s (snd (session_resolve cfg ch i s))"
    "evolves s (snd (session_forget cfg ch i s))"
  using assms by (simp_all add: evolves_same_runs)

lemma held_session [simp]:
  "held r (snd (bind_run x q s)) = held r s" "held r (snd (mark_waiting cfg x s)) = held r s"
  "held r (snd (mark_active x s)) = held r s" "held r (snd (session_complete x s)) = held r s"
  "held r (snd (session_expire x s)) = held r s"
  "held r (snd (session_resolve cfg ch i s)) = held r s"
  using session_ops_frame [of s] by (simp_all add: held_def same_runs_def)

lemma stored_session [simp]:
  "stored r (snd (mark_waiting cfg x s)) = stored r s"
  "stored r (snd (session_complete x s)) = stored r s"
  using session_ops_frame [of s] by (simp_all add: stored_def same_runs_def)

lemma handle_failure_closes:
  assumes "consistent s" "held r s" "r_status r = R_RUNNING" "x_run ctx = r_id r"
    and "handle_failure cfg r ctx e s = (res, t)"
  shows "\<exists>er. res = Inr er \<and> closes (r_id r) s er t \<and>
    er_status er = (if is_timeout e then R_TIMED_OUT else R_FAILED) \<and>
    announced (r_id r) (er_status er) t \<and>
    content (er_run er) = content (r\<lparr>r_last_error := Some (render cfg e)\<rparr>)"
proof -
  define st where "st = (if is_timeout e then R_TIMED_OUT else R_FAILED)"
  let ?r = "r\<lparr>r_last_error := Some (render cfg e)\<rparr>"
  have "held ?r s" using assms(2) by (simp add: held_cong [of ?r r])
  from evolves_save [OF assms(1) this] obtain r1 s1 where s1: "save_run ?r s = (r1, s1)"
    "evolves s s1" "held r1 s1" by (metis prod.collapse)
  have r1: "content r1 = content ?r" using content_save [of ?r s] s1(1) by simp
  have run: "r_status r1 = R_RUNNING" using save_run_simps(2) [of ?r s] s1(1) assms(3) by simp
  have "is_allowed (r_status r1) st" using run by (simp add: st_def)
  from legal_transition [OF evolves_consistent [OF s1(2)] s1(3) this] obtain r2 s2 where
    tr: "transition cfg r1 st (Some ''failure'') [(''error'', opt_text (r_last_error r1))] s1 =
      (Inr r2, s2)"
    "evolves s1 s2" "stored r2 s2" "content r2 = content r1" "r_status r2 = st" by metis
  have ev: "(if is_timeout e then RUN_TIMED_OUT else RUN_FAILED) = closing_event st"
    by (simp add: st_def closing_event_def)
  have st: "st \<in> {R_COMPLETED, R_WAITING_FOR_INPUT, R_SUSPENDED, R_FAILED, R_TIMED_OUT}"
    by (simp add: st_def)
  from assms(5) s1(1) tr(1) have fr: "fresh_result r2 st [] [] (emit ctx (closing_event st)
      [(''error'', opt_text (r_last_error r2)), (''retryable'', JBool (is_retry_exhausted e))] s2)
      = (res, t)"
    unfolding handle_failure_def Let_def ev by (simp add: st_def [symmetric])
  have "r_id r2 = r_id r" using contentD(1) [of r2 ?r] tr(4) r1 by simp
  from close_with_event [OF evolves_trans [OF s1(2) tr(2)] tr(3,5) this assms(4) fr st] tr(4) r1
  show ?thesis unfolding st_def by auto
qed

definition segment_status :: "snapshot \<Rightarrow> run_status" where
  "segment_status snap =
     (if sn_next snap = [] then R_COMPLETED
      else if sn_interrupts snap \<noteq> [] then R_WAITING_FOR_INPUT else R_SUSPENDED)"

lemma extract_interrupts_Nil [simp]: "extract_interrupts snap = [] \<longleftrightarrow> sn_interrupts snap = []"
  by (simp add: extract_interrupts_def)

definition segment_run :: "snapshot \<Rightarrow> wf_run \<Rightarrow> wf_run" where
  "segment_run snap r =
     (if sn_next snap \<noteq> [] then r\<lparr>r_step := Some (hd (sn_next snap))\<rparr> else r)
       \<lparr>r_last_error := None,
        r_interrupts := (if segment_status snap = R_WAITING_FOR_INPUT
                         then extract_interrupts snap else [])\<rparr>"

lemma segment_run_simps [simp]:
  "r_id (segment_run snap r) = r_id r" "r_status (segment_run snap r) = r_status r"
  "r_attempts (segment_run snap r) = r_attempts r"
  by (simp_all add: segment_run_def)

lemma finalize_closes:
  assumes "consistent s" "held r s" "r_status r = R_RUNNING" "x_run ctx = r_id r"
    and snap: "g_state (c_graph cw) (r_thread r) (cps s) = Inr snap"
    and fin: "finalize cfg cw r sess ctx vals s = (res, t)"
  shows "\<exists>er. res = Inr er \<and> closes (r_id r) s er t \<and> er_status er = segment_status snap \<and>
    announced (r_id r) (er_status er) t \<and> content (er_run er) = content (segment_run snap r) \<and>
    er_values er = clean_values vals \<and> er_interrupts er = extract_interrupts snap"
proof -
  define st where "st = segment_status snap"
  let ?its = "extract_interrupts snap"
  let ?r3 = "segment_run snap r"
  have "held ?r3 s" using assms(2,3) held_cong [of ?r3 r s] by simp
  from evolves_save [OF assms(1) this] obtain r4 s1 where s1: "save_run ?r3 s = (r4, s1)"
    "evolves s s1" "held r4 s1" by (metis prod.collapse)
  let ?s2 = "emit ctx STEP_COMPLETED [(''next'', JList (map JStr (sn_next snap)))] s1"
  have s2: "evolves s ?s2"
    using s1(2) evolves_emit [OF evolves_consistent [OF s1(2)]] by (rule evolves_trans)
  have r4: "content r4 = content ?r3" using content_save [of ?r3 s] s1(1) by simp
  have run: "r_status r4 = R_RUNNING" using save_run_simps(2) [of ?r3 s] s1(1) assms(3) by simp
  have st_cases: "st \<in> {R_COMPLETED, R_WAITING_FOR_INPUT, R_SUSPENDED, R_FAILED, R_TIMED_OUT}"
    by (simp add: st_def segment_status_def)
  have legal: "is_allowed (r_status r4) st" using run by (simp add: st_def segment_status_def)
  have "held r4 ?s2" using s1(3) by simp
  note move = legal_transition [OF evolves_consistent [OF s2] this legal]
  define act where "act = (if st = R_COMPLETED then ''complete''
    else if st = R_WAITING_FOR_INPUT then ''await_input'' else ''suspend'')"
  obtain r5 s3 where tr: "transition cfg r4 st (Some act) [] ?s2 = (Inr r5, s3)"
    "evolves ?s2 s3" "stored r5 s3" "content r5 = content r4" "r_status r5 = st"
    by (rule move) blast
  have s3: "evolves s s3" using s2 tr(2) by (rule evolves_trans)
  note cons = evolves_consistent [OF s3]
  note unfolds = finalize_def Let_def segment_run_def segment_status_def act_def closing_event_def
  have "\<exists>r6 s4 p. evolves s3 s4 \<and> stored r6 s4 \<and> content r6 = content ?r3 \<and> r_status r6 = st \<and>
      fresh_result r6 st (clean_values vals) ?its (emit ctx (closing_event st) p s4) = (res, t)"
  proof -
    consider (ended) "sn_next snap = []"
      | (wait) "sn_next snap \<noteq> []" "sn_interrupts snap \<noteq> []"
      | (yield) "sn_next snap \<noteq> []" "sn_interrupts snap = []" by blast
    then show ?thesis
    proof cases
      case ended
      then have st: "st = R_COMPLETED" by (simp add: st_def segment_status_def)
      let ?s4 = "case sess of None \<Rightarrow> s3 | Some x \<Rightarrow> snd (session_complete x s3)"
      have "evolves s3 ?s4" "stored r5 ?s4"
        using cons tr(3) evolves_session(4) [OF cons] by (simp_all add: evolves_refl split: option.splits)
      moreover have "fresh_result r5 st (clean_values vals) ?its
          (emit ctx (closing_event st) [] ?s4) = (res, t)"
        using fin snap s1(1) tr(1) ended by (simp add: unfolds st)
      ultimately show ?thesis using tr(4,5) r4 by auto
    next
      case wait
      then have st: "st = R_WAITING_FOR_INPUT" by (simp add: st_def segment_status_def)
      show ?thesis
      proof (cases sess)
        case None
        have "fresh_result r5 st (clean_values vals) ?its
            (emit ctx (closing_event st) [(''interrupts'', JList ?its)] s3) = (res, t)"
          using fin snap s1(1) tr(1) wait None by (simp add: unfolds st)
        with tr(3-5) r4 evolves_refl [OF cons] show ?thesis by metis
      next
        case (Some x)
        obtain x' s3' where mw: "mark_waiting cfg x s3 = (x', s3')" by force
        let ?r5 = "r5\<lparr>r_expires_at := s_expires_at x'\<rparr>"
        have e3': "evolves s3 s3'" using evolves_session(2) [OF cons, of cfg x] mw by simp
        have "held r5 s3'"
          using stored_held [OF tr(3)] mw held_session(2) [of r5 cfg x s3] by simp
        then have "held ?r5 s3'" by (simp add: held_cong [of ?r5 r5])
        from evolves_save [OF evolves_consistent [OF e3'] this] obtain r6 s4 where
          s4: "save_run ?r5 s3' = (r6, s4)" "evolves s3' s4" by (metis prod.collapse)
        have "content ?r5 = content r5" by (simp add: content_def)
        then have r6: "content r6 = content ?r3" "r_status r6 = st"
          using content_save [of ?r5 s3'] save_run_simps(2) [of ?r5 s3'] s4(1) tr(4,5) r4
          by simp_all
        have "fresh_result r6 st (clean_values vals) ?its
            (emit ctx (closing_event st) [(''interrupts'', JList ?its)] s4) = (res, t)"
          using fin snap s1(1) tr(1) wait Some mw s4(1) by (simp add: unfolds st)
        with stored_save [OF s4(1)] r6 evolves_trans [OF e3' s4(2)] show ?thesis by blast
      qed
    next
      case yield
      then have st: "st = R_SUSPENDED" by (simp add: st_def segment_status_def)
      have "fresh_result r5 st (clean_values vals) ?its
          (emit ctx (closing_event st) [] s3) = (res, t)"
        using fin snap s1(1) tr(1) yield by (simp add: unfolds st)
      with tr(3-5) r4 evolves_refl [OF cons] show ?thesis by metis
    qed
  qed
  then obtain r6 s4 p where c: "evolves s3 s4" "stored r6 s4" "content r6 = content ?r3"
    "r_status r6 = st"
    "fresh_result r6 st (clean_values vals) ?its (emit ctx (closing_event st) p s4) = (res, t)"
    by blast
  have "r_id r6 = r_id r" using contentD(1) [OF c(3)] by simp
  from close_with_event [OF evolves_trans [OF s3 c(1)] c(2,4) this assms(4) c(5) st_cases] c(3)
  show ?thesis unfolding st_def by auto
qed

end
