(* ===== verification/Wf_Reach.thy ===== *)
theory Wf_Reach
  imports Wf_Safety
begin

section \<open>The drive loop and the sequences of runtime operations\<close>

text \<open>
  Outcome of \<open>_drive\<close>, of the three entry points and of the sweeps, and the step relation of the
  runtime with its reachable states.
\<close>

subsection \<open>The retry loop around a segment\<close>

text \<open>
  What every attempt and every retry hook keep: the world has evolved from where the segment
  began, and the run in hand is still the running run the store knows.
\<close>

definition driving :: "'cp world \<Rightarrow> wf_run \<Rightarrow> wf_run \<times> 'cp world \<Rightarrow> bool" where
  "driving s0 r0 rs \<longleftrightarrow>
     evolves s0 (snd rs) \<and> held (fst rs) (snd rs) \<and> r_status (fst rs) = R_RUNNING \<and>
     r_id (fst rs) = r_id r0 \<and> r_thread (fst rs) = r_thread r0"

lemma invoke_evolves:
  assumes "evolves s0 s" and "invoke cfg g ctx cmd thread s = (v, s1)"
  shows "evolves s0 s1 \<and> runs s1 = runs s"
proof -
  have cps: "evolves s0 (t\<lparr>cps := c\<rparr>) \<and> runs (t\<lparr>cps := c\<rparr>) = runs s"
    if "evolves s0 t \<and> runs t = runs s" for t c
    using that evolves_trans [OF _ evolves_cps [of t c]] evolves_consistent [of s0 t] by simp
  have "evolves s0 (snd (invoke cfg g ctx cmd thread s)) \<and>
      runs (snd (invoke cfg g ctx cmd thread s)) = runs s"
    unfolding invoke_def
    by (rule timeout_run_inv [where I = "\<lambda>t. evolves s0 t \<and> runs t = runs s"])
      (use assms(1) cps in \<open>auto split: prod.splits\<close>)
  with assms(2) show ?thesis by simp
qed

lemma attempt_driving:
  assumes "driving s0 r0 rs"
  shows "driving s0 r0 (snd (attempt cfg g ctx c v n rs))"
proof -
  obtain r s where rs: "rs = (r, s)" by force
  let ?r = "r\<lparr>r_attempts := r_attempts r + 1\<rparr>"
  have I: "driving s0 r0 (?r, t)" if "evolves s0 t \<and> runs t = runs s" for t
    using assms that by (auto simp: driving_def rs held_def)
  have now: "evolves s0 s" using assms by (simp add: driving_def rs)
  note inv = invoke_evolves [OF now, of cfg g ctx _ "r_thread ?r"]
  show ?thesis
  proof (cases "n = 0")
    case True
    obtain x s1 where "invoke cfg g ctx c (r_thread ?r) s = (x, s1)" by force
    with True I [OF inv [OF this]] show ?thesis by (simp add: attempt_def rs)
  next
    case False
    show ?thesis
    proof (cases "g_state g (r_thread ?r) (cps s)")
      case (Inl e)
      with False I [of s] now show ?thesis by (simp add: attempt_def rs)
    next
      case (Inr snap)
      obtain x s1 where "invoke cfg g ctx (drive_command c v snap) (r_thread ?r) s = (x, s1)" by force
      with False Inr I [OF inv [OF this]] show ?thesis by (simp add: attempt_def rs)
    qed
  qed
qed

lemma on_retry_driving:
  assumes "driving s0 r0 rs"
  shows "driving s0 r0 (on_retry cfg ctx n e d rs)"
proof -
  obtain r s where rs: "rs = (r, s)" by force
  let ?r = "r\<lparr>r_last_error := Some (render cfg e)\<rparr>"
  from assms have now: "evolves s0 s" "held ?r s"
    by (simp_all add: driving_def rs held_cong [of ?r r])
  from evolves_save [OF evolves_consistent [OF now(1)] now(2)] obtain r1 s1 where
    s1: "save_run ?r s = (r1, s1)" "evolves s s1" "held r1 s1" by (metis prod.collapse)
  have "r_id r1 = r_id r" "r_status r1 = r_status r" "r_thread r1 = r_thread r"
    using save_run_simps(1,2,3) [of ?r s] s1(1) by simp_all
  with assms s1 evolves_trans [OF evolves_trans [OF now(1) s1(2)]
      evolves_emit [OF evolves_consistent [OF s1(2)]]]
  show ?thesis by (simp add: driving_def on_retry_def rs)
qed

lemma engine_driving:
  "driving s0 r0 rs \<Longrightarrow> driving s0 r0 (re_sleep engine d rs)"
  "driving s0 r0 rs \<Longrightarrow> driving s0 r0 (snd (re_uniform engine a b rs))"
proof -
  show "driving s0 r0 rs \<Longrightarrow> driving s0 r0 (re_sleep engine d rs)" by (simp add: engine_def)
  assume d: "driving s0 r0 rs"
  have "evolves s0 (snd (uniform a b (snd rs)))"
    unfolding uniform_def snd_conv
    by (rule evolves_trans [OF _ evolves_rolled])
      (use d evolves_consistent in \<open>auto simp: driving_def\<close>)
  moreover have "held r (snd (uniform a b (snd rs))) = held r (snd rs)" for r
    by (simp add: held_def uniform_def)
  ultimately show "driving s0 r0 (snd (re_uniform engine a b rs))"
    using d by (simp add: engine_def driving_def split_beta)
qed

definition attempts_bound :: "wf_settings \<Rightarrow> int" where
  "attempts_bound cfg = max 1 (retry_max_attempts cfg)"

lemma drive_loop:
  assumes "consistent s" "held r s" "r_status r = R_RUNNING"
    and "retry_run engine (default_retry_policy cfg) (attempt cfg g ctx c v) (on_retry cfg ctx)
      (r, s) = (res, r1, s1)"
  shows "driving s r (r1, s1)"
    and "r_attempts r + 1 \<le> r_attempts r1 \<and> r_attempts r1 \<le> r_attempts r + attempts_bound cfg"
proof -
  let ?N = "nat (max 1 (retry_max_attempts cfg))"
  from assms(4) have loop: "retry_loop engine (default_retry_policy cfg) (attempt cfg g ctx c v)
      (on_retry cfg ctx) ?N (?N - 1) 0 (r, s) = (res, r1, s1)"
    by (simp add: retry_run_def Let_def default_retry_policy_def)
  show "driving s r (r1, s1)"
    by (rule retry_loop_inv [where I = "driving s r", OF loop])
      (use assms evolves_refl attempt_driving on_retry_driving engine_driving in
        \<open>auto simp: driving_def [of s r "(r, s)"]\<close>)
  have "r_attempts (fst (r, s)) + 1 \<le> r_attempts (fst (r1, s1)) \<and>
      r_attempts (fst (r1, s1)) \<le> r_attempts (fst (r, s)) + 1 + int (?N - 1)"
    by (rule retry_loop_count [where c = "r_attempts \<circ> fst", OF loop, unfolded comp_apply])
      (auto simp: attempt_def on_retry_def engine_def split_beta Let_def split: sum.splits)
  then show "r_attempts r + 1 \<le> r_attempts r1 \<and> r_attempts r1 \<le> r_attempts r + attempts_bound cfg"
    by (auto simp: attempts_bound_def max_def split: if_splits)
qed

subsection \<open>\<open>_drive\<close>\<close>

text \<open>
  A drive that returns closes the segment and announces it. The one way it raises is the
  checkpoint read of \<open>_finalize\<close>: then the run is still stored as running.
\<close>

definition drive_post ::
  "wf_settings \<Rightarrow> 'cp graph \<Rightarrow> wf_run \<Rightarrow> 'cp world \<Rightarrow> (wf_exn + exec_result) \<times> 'cp world \<Rightarrow> bool"
where
  "drive_post cfg g r s out \<longleftrightarrow>
     (case out of
        (Inr er, t) \<Rightarrow>
          closes (r_id r) s er t \<and> announced (r_id r) (er_status er) t \<and>
          r_attempts r + 1 \<le> r_attempts (er_run er) \<and>
          r_attempts (er_run er) \<le> r_attempts r + attempts_bound cfg
      | (Inl e, t) \<Rightarrow>
          evolves s t \<and> g_state g (r_thread r) (cps t) = Inl e \<and>
          (\<exists>r0. dget (runs t) (r_id r) = Some r0 \<and> r_status r0 = R_RUNNING))"

lemma closes_trans: "evolves s t \<Longrightarrow> closes rid t er u \<Longrightarrow> closes rid s er u"
  unfolding closes_def using evolves_trans by blast

lemma drive_post:
  assumes "consistent s" "held r s" "r_status r = R_RUNNING" "x_run ctx = r_id r"
  shows "drive_post cfg (c_graph cw) r s (drive cfg cw r sess ctx c v s)"
proof -
  obtain res r1 s1 where run: "retry_run engine (default_retry_policy cfg)
      (attempt cfg (c_graph cw) ctx c v) (on_retry cfg ctx) (r, s) = (res, r1, s1)"
    by (metis prod.collapse)
  from drive_loop [OF assms(1-3) run]
  have d: "evolves s s1" "held r1 s1" "r_status r1 = R_RUNNING" "r_id r1 = r_id r"
    "r_thread r1 = r_thread r"
    and n: "r_attempts r + 1 \<le> r_attempts r1" "r_attempts r1 \<le> r_attempts r + attempts_bound cfg"
    by (simp_all add: driving_def)
  have ctx: "x_run ctx = r_id r1" using assms(4) d(4) by simp
  note c1 = evolves_consistent [OF d(1)]
  show ?thesis
  proof (cases res)
    case (Inl e)
    obtain out t where hf: "handle_failure cfg r1 ctx e s1 = (out, t)" by force
    from handle_failure_closes [OF c1 d(2,3) ctx hf] obtain er where
      er: "out = Inr er" "closes (r_id r1) s1 er t" "announced (r_id r1) (er_status er) t"
      "content (er_run er) = content (r1\<lparr>r_last_error := Some (render cfg e)\<rparr>)" by blast
    from contentD(3) [OF er(4)] n closes_trans [OF d(1) er(2)] er(1,3) run Inl hf d(4)
    show ?thesis by (simp add: drive_def drive_post_def)
  next
    case (Inr vals)
    show ?thesis
    proof (cases "g_state (c_graph cw) (r_thread r1) (cps s1)")
      case (Inl e)
      then have "finalize cfg cw r1 sess ctx vals s1 = (Inl e, s1)" by (simp add: finalize_def)
      with run Inr Inl d show ?thesis by (auto simp: drive_def drive_post_def held_def)
    next
      case snap: (Inr snap)
      obtain out t where fin: "finalize cfg cw r1 sess ctx vals s1 = (out, t)" by force
      from finalize_closes [OF c1 d(2,3) ctx snap fin] obtain er where
        er: "out = Inr er" "closes (r_id r1) s1 er t" "announced (r_id r1) (er_status er) t"
        "content (er_run er) = content (segment_run snap r1)" by blast
      from contentD(3) [OF er(4)] n closes_trans [OF d(1) er(2)] er(1,3) run Inr fin d(4)
      show ?thesis by (simp add: drive_def drive_post_def)
    qed
  qed
qed

lemma drive_evolves:
  assumes "consistent s" "held r s" "r_status r = R_RUNNING" "x_run ctx = r_id r"
  shows "evolves s (snd (drive cfg cw r sess ctx c v s))"
  using drive_post [OF assms, of cfg cw sess c v]
  by (auto simp: drive_post_def closes_def split: prod.splits sum.splits)

text \<open>
  When every attempt fails with a timed-out step the segment ends in \<open>TIMED_OUT\<close>, having used all
  its attempts.
\<close>

lemma attempt_times_out:
  assumes "step_timeout cfg = Some b" "0 < b"
    and "\<And>ctx cmd th x. b < g_elapsed g ctx cmd th x" "\<And>th x. \<exists>snap. g_state g th x = Inr snap"
  shows "fst (attempt cfg g ctx c v n rs) = Inl (StepTimeoutError b)"
proof -
  have inv: "fst (invoke cfg g ctx cmd th s) = Inl (StepTimeoutError b)" for cmd th s
    using assms(1,2) assms(3) [of ctx cmd th "cps s"] by (simp add: invoke_def timeout_run_expired)
  obtain snap where "g_state g (r_thread (fst rs)) (cps (snd rs)) = Inr snap" using assms(4) by blast
  then show ?thesis
    by (simp add: attempt_def Let_def split_beta inv)
qed

lemma drive_times_out:
  assumes "consistent s" "held r s" "r_status r = R_RUNNING" "x_run ctx = r_id r"
    and "step_timeout cfg = Some b" "0 < b"
    and "\<And>ctx cmd th x. b < g_elapsed (c_graph cw) ctx cmd th x"
    and "\<And>th x. \<exists>snap. g_state (c_graph cw) th x = Inr snap"
    and "retry_max_attempts cfg \<le> 1024"
  shows "\<exists>er t. drive cfg cw r sess ctx c v s = (Inr er, t) \<and> closes (r_id r) s er t \<and>
    er_status er = R_TIMED_OUT \<and> r_attempts (er_run er) = r_attempts r + attempts_bound cfg"
proof -
  let ?N = "nat (max 1 (retry_max_attempts cfg))"
  have "\<exists>t. retry_loop engine (default_retry_policy cfg) (attempt cfg (c_graph cw) ctx c v)
      (on_retry cfg ctx) ?N (?N - 1) 0 (r, s) = (Inl (RetryExhaustedError ?N (StepTimeoutError b)), t) \<and>
      (r_attempts \<circ> fst) t = (r_attempts \<circ> fst) (r, s) + 1 + int (?N - 1)"
    by (rule retry_loop_all_fail [where J = "\<lambda>_. True"])
      (use assms(9) attempt_times_out [OF assms(5-8)] in
        \<open>auto simp: is_retryable_def default_retry_policy_def attempt_def on_retry_def engine_def
          split_beta Let_def split: sum.splits\<close>)
  then obtain r1 s1 where run: "retry_run engine (default_retry_policy cfg)
      (attempt cfg (c_graph cw) ctx c v) (on_retry cfg ctx) (r, s) =
        (Inl (RetryExhaustedError ?N (StepTimeoutError b)), r1, s1)"
    and n: "r_attempts r1 = r_attempts r + attempts_bound cfg"
    by (auto simp: retry_run_def Let_def default_retry_policy_def attempts_bound_def max_def)
  from drive_loop(1) [OF assms(1-3) run]
  have d: "evolves s s1" "held r1 s1" "r_status r1 = R_RUNNING" "r_id r1 = r_id r"
    by (simp_all add: driving_def)
  have ctx: "x_run ctx = r_id r1" using assms(4) d(4) by simp
  let ?e = "RetryExhaustedError ?N (StepTimeoutError b)"
  obtain out t where hf: "handle_failure cfg r1 ctx ?e s1 = (out, t)" by force
  from handle_failure_closes [OF evolves_consistent [OF d(1)] d(2,3) ctx hf] obtain er where
    er: "out = Inr er" "closes (r_id r1) s1 er t" "er_status er = R_TIMED_OUT"
    "content (er_run er) = content (r1\<lparr>r_last_error := Some (render cfg ?e)\<rparr>)"
    by (auto simp: is_timeout_def)
  from contentD(3) [OF er(4)] n closes_trans [OF d(1) er(2)] er(1,3) run hf d(4)
  show ?thesis by (simp add: drive_def)
qed

subsection \<open>The entry points reach the drive loop\<close>

text \<open>What an entry point establishes before it drives: the run is running, stored and in hand.\<close>

definition ready :: "'cp world \<Rightarrow> wf_run \<Rightarrow> wf_ctx \<Rightarrow> 'cp world \<Rightarrow> bool" where
  "ready s r ctx t \<longleftrightarrow>
     evolves s t \<and> held r t \<and> r_status r = R_RUNNING \<and> x_run ctx = r_id r"

lemma ready_drive_post:
  "ready s r ctx t \<Longrightarrow> drive_post cfg (c_graph cw) r t (drive cfg cw r sess ctx c v t)"
  unfolding ready_def by (blast intro: drive_post evolves_consistent)

lemma ready_drive_evolves:
  "ready s r ctx t \<Longrightarrow> evolves s (snd (drive cfg cw r sess ctx c v t))"
  unfolding ready_def by (meson drive_evolves evolves_consistent evolves_trans)

lemma start_drives:
  assumes "consistent s" and "load workflow version s = (Inr cw, s1)"
  obtains r x ctx c s6 where
    "start cfg workflow ch ident input version corr s = drive cfg cw r (Some x) ctx c JNull s6"
    "ready s r ctx s6" "r_id r = new_id ''run'' s" "r_channel r = Some ch" "r_identity r = ident"
    "r_corr r = corr" "r_attempts r = 0" "r_status r = R_RUNNING"
proof -
  have s1: "evolves s s1" by (rule evolves_load [OF assms])
  obtain x s2 where x: "session_resolve cfg ch ident s1 = (x, s2)" by force
  have same: "same_runs s1 s2" using session_ops_frame(6) [of s1 cfg ch ident] x by simp
  have s2: "evolves s s2"
    by (rule evolves_trans [OF s1 evolves_same_runs [OF evolves_consistent [OF s1] same]])
  define r where "r = new_run cfg cw x ch ident corr s2"
  let ?s3 = "create_run r (mint (tick (tick s2)))"
  have id: "r_id r = new_id ''run'' s2" "r_status r = R_PENDING" by (simp_all add: r_def new_run_def Let_def)
  have s3: "evolves s2 ?s3 \<and> held r ?s3"
    by (rule evolves_create [OF evolves_consistent [OF s2] id]) simp_all
  obtain x1 s4 where b: "bind_run x r ?s3 = (x1, s4)" by force
  have s4: "evolves ?s3 s4" "held r s4"
    using evolves_session(1) [OF evolves_consistent, of s2 ?s3 x r] s3 b
      held_session(1) [of r x r ?s3] by simp_all
  have "is_allowed (r_status r) R_RUNNING" using id by (simp add: is_allowed_def)
  from legal_transition [OF evolves_consistent [OF s4(1)] s4(2) this] obtain r1 s5 where
    tr: "transition cfg r R_RUNNING (Some ''start'') [] s4 = (Inr r1, s5)" "evolves s4 s5"
    "stored r1 s5" "content r1 = content r" "r_status r1 = R_RUNNING" by metis
  let ?ctx = "build_context r1 None None"
  let ?s6 = "emit ?ctx RUN_STARTED [(''workflow'', JStr (r_workflow r1))] s5"
  have "evolves s s5" using s2 s3 s4(1) tr(2) evolves_trans by blast
  with evolves_emit [OF evolves_consistent [OF tr(2)]] have "evolves s ?s6"
    by (blast intro: evolves_trans)
  with tr(3,5) have ready: "ready s r1 ?ctx ?s6"
    by (simp add: ready_def stored_held build_context_def)
  have "minted s2 = minted s" "entropy s2 = entropy s"
    using load_frame(6,7) [OF assms(2)] same by (simp_all add: same_runs_def)
  then have nid: "r_id r = new_id ''run'' s" using id by (simp add: new_id_def)
  define c where "c = C_Init \<lparr>i_session = s_id x1, i_channel = ch, i_identity = ident,
    i_workflow = r_workflow r1, i_last_input = input,
    i_data = (case input of JObj d \<Rightarrow> d | _ \<Rightarrow> [])\<rparr>"
  have st: "start cfg workflow ch ident input version corr s =
      drive cfg cw r1 (Some x1) ?ctx c JNull ?s6"
    using assms(2) x b tr(1) by (simp add: start_def r_def [symmetric] c_def Let_def)
  note cont = contentD [OF tr(4)]
  have f: "r_id r1 = new_id ''run'' s" "r_channel r1 = Some ch" "r_identity r1 = ident"
    "r_corr r1 = corr" "r_attempts r1 = 0"
    using cont nid by (simp_all add: r_def new_run_def Let_def)
  show ?thesis by (rule that [OF st ready f tr(5)])
qed

lemma nonterminal_resumes:
  "st \<notin> set TERMINAL_STATUSES \<Longrightarrow> is_allowed st R_RUNNING"
  by (cases st) (simp_all add: TERMINAL_STATUSES_def is_allowed_def)

definition resumable :: "wf_settings \<Rightarrow> channel \<Rightarrow> string \<Rightarrow> wf_run \<Rightarrow> 'cp world \<Rightarrow> bool" where
  "resumable cfg ch ident r s \<longleftrightarrow>
     (\<exists>x. session_get cfg ch ident s = Some x \<and> s_active_run x = Some (r_id r) \<and> r_id r \<noteq> []) \<and>
     dget (runs s) (r_id r) = Some r \<and> r_status r \<notin> set TERMINAL_STATUSES"

lemma load_after_frame:
  assumes "defs t = defs s" "cache t = cache s"
  shows "fst (load n v t) = fst (load n v s)"
proof -
  have "registry_get n v t = registry_get n v s"
    using assms(1) by (simp add: registry_get_def versions_of_def)
  then show ?thesis
    using assms(2) by (simp add: load_def Let_def split: sum.split option.split)
qed

lemma resume_drives:
  assumes "consistent s" and "resumable cfg ch ident r s"
    and "fst (load (r_workflow r) (Some (r_version r)) s) = Inr cw"
  obtains r2 x ctx s5 where
    "resume cfg ch ident message corr ioc ioi s =
       drive cfg cw r2 (Some x) ctx (C_Resume message) message s5"
    "ready s r2 ctx s5" "r_id r2 = r_id r" "r_attempts r2 = r_attempts r"
    "r_thread r2 = r_thread r"
    "x_channel ctx = (case ioc of None \<Rightarrow> r_channel r | Some c \<Rightarrow> Some c)"
    "x_identity ctx = (case ioi of None \<Rightarrow> r_identity r | Some i \<Rightarrow> i)"
proof -
  from assms(2) obtain x where x: "session_get cfg ch ident s = Some x"
    "s_active_run x = Some (r_id r)" "r_id r \<noteq> []" "dget (runs s) (r_id r) = Some r"
    "r_status r \<notin> set TERMINAL_STATUSES" by (auto simp: resumable_def)
  obtain r1 s1 where c: "(case corr of None \<Rightarrow> (r, s)
      | Some c \<Rightarrow> if c = [] then (r, s) else save_run (r\<lparr>r_corr := Some c\<rparr>) s) = (r1, s1)" by force
  have r0: "held r s" using x(4) by (simp add: held_def)
  have h: "held (r\<lparr>r_corr := Some k\<rparr>) s" for k using x(4) by (simp add: held_def)
  have s1: "evolves s s1" "held r1 s1" and same: "defs s1 = defs s" "cache s1 = cache s"
    and f1: "r_id r1 = r_id r" "r_status r1 = r_status r" "r_attempts r1 = r_attempts r"
      "r_workflow r1 = r_workflow r" "r_version r1 = r_version r" "r_thread r1 = r_thread r"
      "r_channel r1 = r_channel r" "r_identity r1 = r_identity r"
  proof -
    consider "r1 = r" "s1 = s" | k where "save_run (r\<lparr>r_corr := Some k\<rparr>) s = (r1, s1)"
    proof (cases corr)
      case None
      with c that(1) show ?thesis by simp
    next
      case (Some k)
      with c that show ?thesis by (cases "k = []") simp_all
    qed
    then have "evolves s s1 \<and> held r1 s1 \<and> defs s1 = defs s \<and> cache s1 = cache s \<and>
      r_id r1 = r_id r \<and> r_status r1 = r_status r \<and> r_attempts r1 = r_attempts r \<and>
      r_workflow r1 = r_workflow r \<and> r_version r1 = r_version r \<and> r_thread r1 = r_thread r \<and>
      r_channel r1 = r_channel r \<and> r_identity r1 = r_identity r"
    proof cases
      case 1
      then show ?thesis using evolves_refl [OF assms(1)] r0 by simp
    next
      case (2 k)
      then have "r1 = fst (save_run (r\<lparr>r_corr := Some k\<rparr>) s)"
        "s1 = snd (save_run (r\<lparr>r_corr := Some k\<rparr>) s)" by simp_all
      then show ?thesis using evolves_save [OF assms(1) h [of k]] by simp
    qed
    then show "evolves s s1" "held r1 s1" "defs s1 = defs s" "cache s1 = cache s"
      "r_id r1 = r_id r" "r_status r1 = r_status r" "r_attempts r1 = r_attempts r"
      "r_workflow r1 = r_workflow r" "r_version r1 = r_version r" "r_thread r1 = r_thread r"
      "r_channel r1 = r_channel r" "r_identity r1 = r_identity r" by simp_all
  qed
  obtain s2 where l: "load (r_workflow r1) (Some (r_version r1)) s1 = (Inr cw, s2)"
    using load_after_frame [OF same, of "r_workflow r" "Some (r_version r)"] assms(3)
    by (metis f1(4,5) prod.collapse)
  have s2: "evolves s1 s2" by (rule evolves_load [OF evolves_consistent [OF s1(1)] l])
  have "held r1 s2" using s1(2) held_frame load_frame(1) [OF l] by blast
  moreover have "is_allowed (r_status r1) R_RUNNING" using f1(2) x(5) nonterminal_resumes by simp
  ultimately obtain r2 s3 where
    tr: "transition cfg r1 R_RUNNING (Some ''resume'') [] s2 = (Inr r2, s3)" "evolves s2 s3"
    "stored r2 s3" "content r2 = content r1" "r_status r2 = R_RUNNING"
    using legal_transition [OF evolves_consistent [OF s2]] by metis
  obtain x1 s4 where m: "mark_active x s3 = (x1, s4)" by force
  have s4: "evolves s3 s4" "held r2 s4"
    using evolves_session(3) [OF evolves_consistent [OF tr(2)], of x] m
      held_session(3) [of r2 x s3] stored_held [OF tr(3)] by simp_all
  let ?ctx = "build_context r2 ioc ioi"
  let ?s5 = "emit ?ctx RUN_RESUMED [] s4"
  have "evolves s s4" using s1(1) s2 tr(2) s4(1) evolves_trans by blast
  with evolves_emit [OF evolves_consistent [OF s4(1)]] have "evolves s ?s5"
    by (blast intro: evolves_trans)
  with s4(2) tr(5) have ready: "ready s r2 ?ctx ?s5" by (simp add: ready_def build_context_def)
  have st: "resume cfg ch ident message corr ioc ioi s =
      drive cfg cw r2 (Some x1) ?ctx (C_Resume message) message ?s5"
    using x l tr(1) m
    by (simp add: resume_def get_run_def get_run_or_none_def c Let_def cong: option.case_cong)
  note cont = contentD [OF tr(4)]
  have f: "r_id r2 = r_id r" "r_attempts r2 = r_attempts r" "r_thread r2 = r_thread r"
    "x_channel ?ctx = (case ioc of None \<Rightarrow> r_channel r | Some c \<Rightarrow> Some c)"
    "x_identity ?ctx = (case ioi of None \<Rightarrow> r_identity r | Some i \<Rightarrow> i)"
    using cont f1 by (simp_all add: build_context_def split: option.split)
  show ?thesis by (rule that [OF st ready f])
qed

lemma continue_drives:
  assumes "consistent s" "held r s" "is_allowed (r_status r) R_RUNNING"
    and "load (r_workflow r) (Some (r_version r)) s = (Inr cw, s1)"
  obtains r1 sess ctx s4 where
    "continue_run cfg r s = drive cfg cw r1 sess ctx C_Continue JNull s4"
    "ready s r1 ctx s4" "r_id r1 = r_id r" "r_attempts r1 = r_attempts r" "r_thread r1 = r_thread r"
proof -
  have s1: "evolves s s1" "held r s1"
    using evolves_load [OF assms(1,4)] held_frame [OF load_frame(1) [OF assms(4)], of r] assms(2)
    by simp_all
  define P where "P = (case r_channel r of None \<Rightarrow> (None, s1)
     | Some ch \<Rightarrow> (case session_get cfg ch (r_identity r) s1 of Some x \<Rightarrow> (Some x, s1)
        | None \<Rightarrow> let (x, s1') = session_resolve cfg ch (r_identity r) s1 in (Some x, s1')))"
  obtain sess s2 where P: "P = (sess, s2)" by force
  then consider "s2 = s1" | ch where "s2 = snd (session_resolve cfg ch (r_identity r) s1)"
    by (auto simp: P_def split_beta split: option.splits)
  then have s2: "evolves s s2 \<and> held r s2"
  proof cases
    case 1
    with s1 show ?thesis by simp
  next
    case (2 ch)
    with s1 evolves_trans [OF s1(1) evolves_session(6) [OF evolves_consistent [OF s1(1)]]]
    show ?thesis by simp
  qed
  have "\<exists>r1 s3. (if r_status r \<noteq> R_RUNNING then transition cfg r R_RUNNING (Some ''recover'') [] s2
      else (Inr r, s2)) = (Inr r1, s3) \<and> evolves s2 s3 \<and> held r1 s3 \<and> r_status r1 = R_RUNNING \<and>
      r_id r1 = r_id r \<and> r_attempts r1 = r_attempts r \<and> r_thread r1 = r_thread r"
  proof (cases "r_status r = R_RUNNING")
    case True
    with s2 evolves_refl [OF evolves_consistent] show ?thesis by auto
  next
    case False
    obtain r1 s3 where "transition cfg r R_RUNNING (Some ''recover'') [] s2 = (Inr r1, s3)"
      "evolves s2 s3" "stored r1 s3" "content r1 = content r" "r_status r1 = R_RUNNING"
      using legal_transition [OF evolves_consistent _ assms(3)] s2 by metis
    with False contentD [of r1 r] stored_held show ?thesis by simp
  qed
  then obtain r1 s3 where m: "(if r_status r \<noteq> R_RUNNING
      then transition cfg r R_RUNNING (Some ''recover'') [] s2 else (Inr r, s2)) = (Inr r1, s3)"
    "evolves s2 s3" "held r1 s3" "r_status r1 = R_RUNNING" "r_id r1 = r_id r"
    "r_attempts r1 = r_attempts r" "r_thread r1 = r_thread r" by blast
  let ?ctx = "build_context r1 None None"
  let ?s4 = "emit ?ctx RUN_RECOVERED [] s3"
  have "evolves s ?s4"
    using s2 m(2) evolves_emit [OF evolves_consistent [OF m(2)]] evolves_trans by blast
  with m(3,4) have ready: "ready s r1 ?ctx ?s4" by (simp add: ready_def build_context_def)
  have st: "continue_run cfg r s = drive cfg cw r1 sess ?ctx C_Continue JNull ?s4"
    unfolding continue_run_def using assms(4) P m(1) by (simp add: P_def [symmetric] Let_def)
  show ?thesis by (rule that [OF st ready m(5-7)])
qed

subsection \<open>Each operation evolves the world\<close>

lemma start_evolves:
  assumes "consistent s"
  shows "evolves s (snd (start cfg workflow ch ident input version corr s))"
proof (cases "load workflow version s")
  case (Pair res s1)
  show ?thesis
  proof (cases res)
    case (Inl e)
    with Pair evolves_load [OF assms Pair] show ?thesis by (simp add: start_def)
  next
    case (Inr cw)
    from start_drives [OF assms Pair [unfolded Inr], of cfg ch ident input corr]
    show ?thesis using ready_drive_evolves by metis
  qed
qed

lemma continue_evolves:
  assumes "consistent s" "held r s"
  shows "evolves s (snd (continue_run cfg r s))"
proof (cases "load (r_workflow r) (Some (r_version r)) s")
  case (Pair res s1)
  show ?thesis
  proof (cases res)
    case (Inl e)
    with Pair evolves_load [OF assms(1) Pair] show ?thesis by (simp add: continue_run_def)
  next
    case (Inr cw)
    show ?thesis
    proof (cases "is_allowed (r_status r) R_RUNNING")
      case True
      from continue_drives [OF assms True Pair [unfolded Inr], of cfg]
      show ?thesis using ready_drive_evolves by metis
    next
      case False
      have s1: "evolves s s1" by (rule evolves_load [OF assms(1) Pair])
      have "is_allowed R_RUNNING R_RUNNING" by (simp add: is_allowed_def)
      with False have ne: "r_status r \<noteq> R_RUNNING" by auto
      have tr: "transition cfg r R_RUNNING a d t = (Inl (InvalidTransitionError (r_status r) R_RUNNING), t)"
        for a d and t :: "'a world" using False by (simp add: transition_def Let_def)
      have "snd (continue_run cfg r s) = s1 \<or>
          (\<exists>ch. snd (continue_run cfg r s) = snd (session_resolve cfg ch (r_identity r) s1))"
        using Pair Inr ne
        by (auto simp: continue_run_def Let_def tr split_beta split: option.split)
      with s1 evolves_trans [OF s1 evolves_session(6) [OF evolves_consistent [OF s1]]]
      show ?thesis by auto
    qed
  qed
qed

lemma resume_evolves:
  assumes "consistent s"
  shows "evolves s (snd (resume cfg ch ident message corr ioc ioi s))"
proof -
  have refl: "evolves s s" by (rule evolves_refl [OF assms])
  consider (no_session) "session_get cfg ch ident s = None"
    | (no_active) x where "session_get cfg ch ident s = Some x"
        "s_active_run x = None \<or> s_active_run x = Some []"
    | (active) x rid where "session_get cfg ch ident s = Some x" "s_active_run x = Some rid" "rid \<noteq> []"
    by (metis option.exhaust)
  then show ?thesis
  proof cases
    case no_session
    with refl show ?thesis by (simp add: resume_def)
  next
    case no_active
    with refl show ?thesis by (auto simp: resume_def)
  next
    case (active x rid)
    show ?thesis
    proof (cases "dget (runs s) rid")
      case None
      with refl active show ?thesis by (simp add: resume_def get_run_def get_run_or_none_def)
    next
      case (Some r)
      have id: "r_id r = rid" by (rule consistentD(3) [OF assms Some])
      show ?thesis
      proof (cases "r_status r \<in> set TERMINAL_STATUSES")
        case True
        with refl active Some show ?thesis by (simp add: resume_def get_run_def get_run_or_none_def)
      next
        case False
        then have r: "resumable cfg ch ident r s" using active Some id by (simp add: resumable_def)
        show ?thesis
        proof (cases "fst (load (r_workflow r) (Some (r_version r)) s)")
          case (Inr cw)
          from resume_drives [OF assms r Inr, of message corr ioc ioi]
          show ?thesis using ready_drive_evolves by metis
        next
          case (Inl e)
          define P where "P = (case corr of None \<Rightarrow> (r, s)
            | Some c \<Rightarrow> if c = [] then (r, s) else save_run (r\<lparr>r_corr := Some c\<rparr>) s)"
          have P: "P = (r, s) \<or> (\<exists>c. P = save_run (r\<lparr>r_corr := Some c\<rparr>) s)"
            by (auto simp: P_def split: option.split)
          have h: "held (r\<lparr>r_corr := Some c\<rparr>) s" for c using Some id by (simp add: held_def)
          have ev: "evolves s (snd P)" using P refl evolves_save [OF assms h] by auto
          have same: "defs (snd P) = defs s" "cache (snd P) = cache s" and
            f: "r_workflow (fst P) = r_workflow r" "r_version (fst P) = r_version r"
            using P by auto
          from load_after_frame [OF same] Inl
          have "fst (load (r_workflow r) (Some (r_version r)) (snd P)) = Inl e" by simp
          then have "load (r_workflow r) (Some (r_version r)) (snd P) = (Inl e, snd P)"
            using load_error by (metis prod.collapse)
          then have "resume cfg ch ident message corr ioc ioi s = (Inl e, snd P)"
            using active Some False f
            by (simp add: resume_def get_run_def get_run_or_none_def P_def [symmetric] split_beta)
          with ev show ?thesis by simp
        qed
      qed
    qed
  qed
qed

subsection \<open>An operation on one run leaves the others alone\<close>

definition only :: "string \<Rightarrow> 'cp world \<Rightarrow> 'cp world \<Rightarrow> bool" where
  "only rid s t \<longleftrightarrow> (\<forall>k. k \<noteq> rid \<longrightarrow> dget (runs t) k = dget (runs s) k)"

lemma only_trans: "only rid s t \<Longrightarrow> only rid t u \<Longrightarrow> only rid s u"
  by (simp add: only_def)

lemma only_runs: "runs t = runs s \<Longrightarrow> only rid s t"
  by (simp add: only_def)

lemma only_held: "only rid s t \<Longrightarrow> r_id r \<noteq> rid \<Longrightarrow> held r t = held r s"
  by (simp add: only_def held_def)

lemma transition_only:
  assumes "transition cfg r to a d s = (res, t)"
  shows "only (r_id r) s t \<and> (\<forall>r'. res = Inr r' \<longrightarrow> r_id r' = r_id r)"
  using assms
  by (auto simp: transition_def Let_def split_beta only_def split: if_splits)

lemma session_runs [simp]:
  "runs (snd (mark_waiting cfg x s)) = runs s" "runs (snd (mark_active x s)) = runs s"
  "runs (snd (session_complete x s)) = runs s" "runs (snd (session_expire x s)) = runs s"
  "runs (snd (session_resolve cfg ch i s)) = runs s" "runs (snd (bind_run x r s)) = runs s"
  using session_ops_frame [of s] by (simp_all add: same_runs_def)

lemma fresh_result_world [simp]: "snd (fresh_result r st vals its s) = s"
  by (simp add: fresh_result_def split: sum.split)

lemma handle_failure_only: "only (r_id r) s (snd (handle_failure cfg r ctx e s))"
proof -
  let ?st = "if is_timeout e then R_TIMED_OUT else R_FAILED"
  obtain r1 s1 where s1: "save_run (r\<lparr>r_last_error := Some (render cfg e)\<rparr>) s = (r1, s1)" by force
  have o1: "only (r_id r) s s1" and id: "r_id r1 = r_id r"
    using s1 by (auto simp: save_run_def Let_def only_def)
  obtain res s2 where tr: "transition cfg r1 ?st (Some ''failure'')
    [(''error'', opt_text (r_last_error r1))] s1 = (res, s2)" by force
  have o2: "only (r_id r) s s2"
    using only_trans [OF o1] transition_only [OF tr] id by simp
  show ?thesis
    using o2 s1 tr
    by (cases res) (simp_all add: handle_failure_def only_def)
qed

lemma finalize_only: "only (r_id r) s (snd (finalize cfg cw r sess ctx vals s))"
proof (cases "g_state (c_graph cw) (r_thread r) (cps s)")
  case (Inl e)
  then show ?thesis by (simp add: finalize_def only_def)
next
  case (Inr snap)
  let ?r3 = "segment_run snap r"
  obtain r4 s1 where s1: "save_run ?r3 s = (r4, s1)" by force
  have o1: "only (r_id r) s s1" and id: "r_id r4 = r_id r"
    using s1 by (auto simp: save_run_def Let_def only_def)
  let ?s2 = "emit ctx STEP_COMPLETED [(''next'', JList (map JStr (sn_next snap)))] s1"
  have o2: "only (r_id r) s s2 \<and> (\<forall>r5. res = Inr r5 \<longrightarrow> r_id r5 = r_id r)"
    if "transition cfg r4 st a [] ?s2 = (res, s2)" for st a res s2
  proof -
    have "only (r_id r4) ?s2 s2" by (rule conjunct1 [OF transition_only [OF that]])
    then have t: "only (r_id r) s1 s2" unfolding id by (simp add: only_def)
    show ?thesis
      using only_trans [OF o1 t] conjunct2 [OF transition_only [OF that], unfolded id] by blast
  qed
  note unfolds = finalize_def Let_def segment_run_def segment_status_def
  consider (ended) "sn_next snap = []"
    | (wait) "sn_next snap \<noteq> []" "sn_interrupts snap \<noteq> []"
    | (yield) "sn_next snap \<noteq> []" "sn_interrupts snap = []" by blast
  then show ?thesis
  proof cases
    case ended
    obtain res s3 where tr: "transition cfg r4 R_COMPLETED (Some ''complete'') [] ?s2 = (res, s3)"
      by force
    from o2 [OF tr] Inr s1 tr ended show ?thesis
      by (cases res) (simp_all add: unfolds only_def split: option.split)
  next
    case wait
    obtain res s3 where
      tr: "transition cfg r4 R_WAITING_FOR_INPUT (Some ''await_input'') [] ?s2 = (res, s3)" by force
    show ?thesis
    proof (cases res)
      case Inl
      with o2 [OF tr] Inr s1 tr wait show ?thesis by (simp add: unfolds only_def)
    next
      case (Inr r5)
      with o2 [OF tr] \<open>g_state _ _ _ = Inr snap\<close> s1 tr wait show ?thesis
        by (cases sess) (simp_all add: unfolds only_def split_beta)
    qed
  next
    case yield
    obtain res s3 where tr: "transition cfg r4 R_SUSPENDED (Some ''suspend'') [] ?s2 = (res, s3)"
      by force
    from o2 [OF tr] Inr s1 tr yield show ?thesis
      by (cases res) (simp_all add: unfolds only_def)
  qed
qed

lemma invoke_runs: "runs (snd (invoke cfg g ctx cmd thread s)) = runs s"
  unfolding invoke_def
  by (rule timeout_run_inv [where I = "\<lambda>t. runs t = runs s"]) (auto split: prod.splits)

lemma attempt_only:
  "r_id (fst (snd (attempt cfg g ctx c v n (r, t)))) = r_id r \<and>
   runs (snd (snd (attempt cfg g ctx c v n (r, t)))) = runs t"
  using invoke_runs [of cfg g ctx _ "r_thread r" t]
  by (simp add: attempt_def Let_def split_beta split: sum.split)

lemma on_retry_only:
  "r_id (fst (on_retry cfg ctx n e d (r, t))) = r_id r \<and>
   only (r_id r) t (snd (on_retry cfg ctx n e d (r, t)))"
  by (simp add: on_retry_def split_beta only_def)

lemma drive_only: "only (r_id r) s (snd (drive cfg cw r sess ctx c v s))"
proof -
  obtain res r1 s1 where run: "retry_run engine (default_retry_policy cfg)
      (attempt cfg (c_graph cw) ctx c v) (on_retry cfg ctx) (r, s) = (res, r1, s1)"
    by (metis prod.collapse)
  let ?I = "\<lambda>rs. r_id (fst rs) = r_id r \<and> only (r_id r) s (snd rs)"
  have "?I (r1, s1)"
  proof (rule retry_loop_inv [where I = ?I, OF run [unfolded retry_run_def Let_def]])
    show "?I (r, s)" by (simp add: only_def)
    show "?I (snd (attempt cfg (c_graph cw) ctx c v n rs))" if "?I rs" for n rs
      using that attempt_only [of cfg "c_graph cw" ctx c v n "fst rs" "snd rs"]
      by (simp add: only_def)
    show "?I (on_retry cfg ctx n e d rs)" if "?I rs" for n e d rs
      using that on_retry_only [of cfg ctx n e d "fst rs" "snd rs"] by (simp add: only_def)
  qed (simp_all add: engine_def uniform_def split_beta only_def)
  then have d: "r_id r1 = r_id r" "only (r_id r) s s1" by simp_all
  show ?thesis
    using run only_trans [OF d(2)] handle_failure_only [of r1 s1] finalize_only [of r1 s1] d(1)
    by (cases res) (simp_all add: drive_def)
qed

lemma continue_only: "only (r_id r) s (snd (continue_run cfg r s))"
proof (cases "load (r_workflow r) (Some (r_version r)) s")
  case (Pair res s1)
  note l = load_frame(1) [OF Pair]
  show ?thesis
  proof (cases res)
    case (Inl e)
    with Pair l show ?thesis by (simp add: continue_run_def only_def)
  next
    case (Inr cw)
    define P where "P = (case r_channel r of None \<Rightarrow> (None, s1)
       | Some ch \<Rightarrow> (case session_get cfg ch (r_identity r) s1 of Some x \<Rightarrow> (Some x, s1)
          | None \<Rightarrow> let (x, s1') = session_resolve cfg ch (r_identity r) s1 in (Some x, s1')))"
    obtain sess s2 where P: "P = (sess, s2)" by force
    then have s2: "runs s2 = runs s"
      using l by (auto simp: P_def split_beta split: option.splits)
    define M where "M = (if r_status r \<noteq> R_RUNNING
      then transition cfg r R_RUNNING (Some ''recover'') [] s2 else (Inr r, s2))"
    obtain moved s3 where M: "M = (moved, s3)" by force
    have m: "only (r_id r) s s3 \<and> (\<forall>r'. moved = Inr r' \<longrightarrow> r_id r' = r_id r)"
    proof (cases "r_status r = R_RUNNING")
      case True
      with M s2 show ?thesis by (auto simp: M_def only_def)
    next
      case False
      with M have tr: "transition cfg r R_RUNNING (Some ''recover'') [] s2 = (moved, s3)"
        by (simp add: M_def)
      have "only (r_id r) s s3"
        by (rule only_trans [OF only_runs [OF s2]]) (rule conjunct1 [OF transition_only [OF tr]])
      with transition_only [OF tr] show ?thesis by blast
    qed
    have eq: "continue_run cfg r s = (case moved of Inl e \<Rightarrow> (Inl e, s3)
        | Inr r1 \<Rightarrow> let ctx = build_context r1 None None; s4 = emit ctx RUN_RECOVERED [] s3
                   in drive cfg cw r1 sess ctx C_Continue JNull s4)"
      unfolding continue_run_def using Pair Inr P M
      by (simp add: P_def [symmetric] M_def [symmetric])
    show ?thesis
    proof (cases moved)
      case (Inl e)
      with eq m show ?thesis by simp
    next
      case (Inr r1)
      with m have "only (r_id r) s s3" "r_id r1 = r_id r" by simp_all
      have "only (r_id r1) s3 (snd (drive cfg cw r1 sess ctx C_Continue JNull
          (emit ctx RUN_RECOVERED [] s3)))" for ctx
        using drive_only [of r1 "emit ctx RUN_RECOVERED [] s3"] by (simp add: only_def)
      note o3 = this
      have "snd (continue_run cfg r s) = snd (drive cfg cw r1 sess (build_context r1 None None)
          C_Continue JNull (emit (build_context r1 None None) RUN_RECOVERED [] s3))"
        using eq Inr by (simp add: Let_def)
      with only_trans [OF \<open>only (r_id r) s s3\<close> o3 [unfolded \<open>r_id r1 = r_id r\<close>]]
      show ?thesis by simp
    qed
  qed
qed

subsection \<open>The sweeps\<close>

lemma recover_each_evolves:
  assumes "consistent s" "\<forall>r \<in> set rs. held r s" "distinct (map r_id rs)"
  shows "evolves s (snd (recover_each cfg rs s))"
  using assms
proof (induction rs arbitrary: s)
  case Nil
  then show ?case by (simp add: evolves_refl)
next
  case (Cons r rs)
  obtain res s1 where c: "continue_run cfg r s = (res, s1)" by force
  have e: "evolves s s1" using continue_evolves [of s r cfg] Cons.prems c by simp
  have o: "only (r_id r) s s1" using continue_only [of r s cfg] c by simp
  have "\<forall>q \<in> set rs. held q s1"
    using Cons.prems(2,3) only_held [OF o] by (auto simp: image_iff)
  with Cons.IH [OF evolves_consistent [OF e]] Cons.prems(3)
  have "evolves s1 (snd (recover_each cfg rs s1))" by simp
  with evolves_trans [OF e] c show ?case by (cases res) (simp_all add: split_beta)
qed

lemma distinct_ids:
  assumes "consistent s" "set rs \<subseteq> set (dvals (runs s))" "distinct rs"
  shows "distinct (map r_id rs)"
proof -
  have "inj_on r_id (set (dvals (runs s)))"
    by (rule inj_onI) (metis stored_run [OF assms(1)] option.inject)
  with assms(2,3) show ?thesis by (meson distinct_map inj_on_subset)
qed

lemma distinct_dvals: "consistent s \<Longrightarrow> distinct (dvals (runs s))"
  by (rule keyed_values(2) [of _ r_id]) (auto dest: consistentD(1,3))

lemma swept_runs:
  assumes "consistent s" and "rs = take n (sort_key f (filter P (dvals (runs s))))"
  shows "\<forall>r \<in> set rs. held r s" "distinct (map r_id rs)"
proof -
  have sub: "set rs \<subseteq> set (dvals (runs s))" using assms(2) by (auto dest: in_set_takeD)
  then show "\<forall>r \<in> set rs. held r s"
    using stored_run [OF assms(1)] unfolding held_def by blast
  have "distinct rs" using distinct_dvals [OF assms(1)] assms(2) by simp
  with distinct_ids [OF assms(1) sub] show "distinct (map r_id rs)" .
qed

lemma recover_pending_evolves:
  "consistent s \<Longrightarrow> evolves s (snd (recover_pending cfg limit s))"
  unfolding recover_pending_def Let_def list_recoverable_def
  by (rule recover_each_evolves) (use swept_runs [OF _ refl] in blast)+

end
