(* ===== verification/Wf_Steps.thy ===== *)
theory Wf_Steps
  imports Wf_Reach
begin

section \<open>The runtime as a transition system\<close>

text \<open>
  The timeout sweep, then the step relation of the runtime: one constructor per public operation
  of \<open>WorkflowRuntime\<close>, \<open>RecoveryEngine\<close> and \<open>SessionManager.forget\<close>. Reachable worlds are
  consistent, and along any sequence of steps trails and events only grow.
\<close>

subsection \<open>The timeout sweep\<close>

lemma time_out_run_post:
  assumes "consistent s" "held r s" "r_status r = R_WAITING_FOR_INPUT"
    and "time_out_run cfg r s = (r1, t)"
  shows "evolves s t" "only (r_id r) s t" "stored r1 t" "r_status r1 = R_TIMED_OUT"
    "r_id r1 = r_id r"
proof -
  have "is_allowed (r_status r) R_TIMED_OUT" using assms(3) by (simp add: is_allowed_def)
  from legal_transition [OF assms(1,2) this] obtain r2 s1 where
    tr: "transition cfg r R_TIMED_OUT (Some ''session_timeout'') [] s = (Inr r2, s1)"
    "evolves s s1" "stored r2 s1" "content r2 = content r" "r_status r2 = R_TIMED_OUT" by metis
  let ?s2 = "recovery_emit r2 RUN_TIMED_OUT [(''reason'', JStr ''session_lapsed'')] s1"
  define s3 where "s3 = (case r_channel r2 of None \<Rightarrow> ?s2
     | Some ch \<Rightarrow> (case session_get cfg ch (r_identity r2) ?s2 of None \<Rightarrow> ?s2
        | Some x \<Rightarrow> snd (session_expire x ?s2)))"
  have out: "r1 = r2" "t = recovery_emit r2 SESSION_EXPIRED [] s3"
    using assms(4) tr(1) unfolding time_out_run_def s3_def Let_def by auto
  have e2: "evolves s ?s2"
    using tr(2) evolves_recovery_emit [OF evolves_consistent [OF tr(2)]] by (rule evolves_trans)
  have s3: "s3 = ?s2 \<or> (\<exists>x. s3 = snd (session_expire x ?s2))"
    by (auto simp: s3_def split: option.split)
  have e3: "evolves s s3"
    using s3 e2 evolves_trans [OF e2 evolves_session(5) [OF evolves_consistent [OF e2]]] by auto
  show "evolves s t"
    unfolding out using e3 evolves_recovery_emit [OF evolves_consistent [OF e3]] by (rule evolves_trans)
  have runs: "runs t = runs s1"
    unfolding out using s3 by (auto simp: recovery_emit_def publish_def)
  have id: "r_id r2 = r_id r" by (rule contentD(1) [OF tr(4)])
  have "only (r_id r) s s1" by (rule conjunct1 [OF transition_only [OF tr(1)]])
  then show "only (r_id r) s t" using runs by (simp add: only_def)
  show "stored r1 t" using tr(3) runs out by (simp add: stored_def)
  show "r_status r1 = R_TIMED_OUT" "r_id r1 = r_id r" using out tr(5) id by simp_all
qed

lemma sweep_each_post:
  assumes "consistent s" "\<forall>r \<in> set rs. held r s \<and> r_status r = R_WAITING_FOR_INPUT"
    "distinct (map r_id rs)" "sweep_each cfg rs s = (out, t)"
  shows "evolves s t \<and> map r_id out = map r_id rs \<and>
    (\<forall>r \<in> set out. stored r t \<and> r_status r = R_TIMED_OUT) \<and>
    (\<forall>k. k \<notin> r_id ` set rs \<longrightarrow> dget (runs t) k = dget (runs s) k)"
  using assms
proof (induction rs arbitrary: s out t)
  case Nil
  then show ?case by (simp add: evolves_refl)
next
  case (Cons r rs)
  obtain r1 s1 where h: "time_out_run cfg r s = (r1, s1)" by force
  have r: "held r s" "r_status r = R_WAITING_FOR_INPUT" using Cons.prems(2) by simp_all
  note p = time_out_run_post [OF Cons.prems(1) r h]
  obtain out' where o: "sweep_each cfg rs s1 = (out', t)" "out = r1 # out'"
    using Cons.prems(4) h by (auto split: prod.splits)
  have "\<forall>q \<in> set rs. held q s1 \<and> r_status q = R_WAITING_FOR_INPUT"
    using Cons.prems(2,3) only_held [OF p(2)] by (auto simp: image_iff)
  from Cons.IH [OF evolves_consistent [OF p(1)] this _ o(1)] Cons.prems(3)
  have ih: "evolves s1 t" "map r_id out' = map r_id rs"
    "\<forall>r \<in> set out'. stored r t \<and> r_status r = R_TIMED_OUT"
    "\<forall>k. k \<notin> r_id ` set rs \<longrightarrow> dget (runs t) k = dget (runs s1) k" by simp_all
  have "r_id r \<notin> r_id ` set rs" using Cons.prems(3) by simp
  with ih(4) p(3,5) have "stored r1 t" by (simp add: stored_def)
  moreover have "\<forall>k. k \<notin> r_id ` set (r # rs) \<longrightarrow> dget (runs t) k = dget (runs s) k"
    using ih(4) p(2) by (simp add: only_def)
  ultimately show ?case
    using evolves_trans [OF p(1) ih(1)] ih(2,3) p(4,5) o(2) by simp
qed

lemma sweep_timeouts_post:
  assumes "consistent s" "sweep_timeouts cfg (Some now) s = (out, t)"
  shows "evolves s t"
    "\<forall>r \<in> set out. stored r t \<and> r_status r = R_TIMED_OUT"
    "\<forall>k r. dget (runs s) k = Some r \<longrightarrow> \<not> waiting_expired now r \<longrightarrow> dget (runs t) k = Some r"
    "map r_id out = map r_id (list_waiting_expired now (recovery_batch cfg) s)"
proof -
  let ?rs = "list_waiting_expired now (recovery_batch cfg) s"
  have each: "sweep_each cfg ?rs s = (out, t)" using assms(2) by (simp add: sweep_timeouts_def)
  have "\<forall>r \<in> set ?rs. held r s" "distinct (map r_id ?rs)"
    unfolding list_waiting_expired_def using swept_runs [OF assms(1) refl] by blast+
  moreover have "\<forall>r \<in> set ?rs. r_status r = R_WAITING_FOR_INPUT"
    using set_list_waiting_expired by (fastforce simp: waiting_expired_def)
  ultimately have p: "evolves s t \<and> map r_id out = map r_id ?rs \<and>
    (\<forall>r \<in> set out. stored r t \<and> r_status r = R_TIMED_OUT) \<and>
    (\<forall>k. k \<notin> r_id ` set ?rs \<longrightarrow> dget (runs t) k = dget (runs s) k)"
    using sweep_each_post [OF assms(1) _ _ each] by blast
  then show "evolves s t" "\<forall>r \<in> set out. stored r t \<and> r_status r = R_TIMED_OUT"
    "map r_id out = map r_id ?rs" by simp_all
  show "\<forall>k r. dget (runs s) k = Some r \<longrightarrow> \<not> waiting_expired now r \<longrightarrow> dget (runs t) k = Some r"
  proof (intro allI impI)
    fix k r
    assume r: "dget (runs s) k = Some r" "\<not> waiting_expired now r"
    have "k \<notin> r_id ` set ?rs"
    proof
      assume "k \<in> r_id ` set ?rs"
      then obtain q where q: "q \<in> set ?rs" "r_id q = k" by blast
      from set_list_waiting_expired [OF q(1)] have "dget (runs s) k = Some q" "waiting_expired now q"
        using stored_run [OF assms(1)] q(2) by blast+
      with r show False by simp
    qed
    with p r(1) show "dget (runs t) k = Some r" by simp
  qed
qed

text \<open>With room in the batch, no lapsed run is left behind.\<close>

lemma sweep_complete:
  assumes "consistent s" "sweep_timeouts cfg (Some now) s = (out, t)"
    and "length (filter (waiting_expired now) (dvals (runs s))) \<le> recovery_batch cfg"
    and "dget (runs s) rid = Some r" "waiting_expired now r"
  shows "\<exists>r'. dget (runs t) rid = Some r' \<and> r_status r' = R_TIMED_OUT"
proof -
  have "r \<in> set (filter (waiting_expired now) (dvals (runs s)))"
    using assms(4,5) map_of_SomeD [of "runs s" rid r] by force
  then have "r \<in> set (list_waiting_expired now (recovery_batch cfg) s)"
    using assms(3) by (simp add: list_waiting_expired_def)
  then have "r_id r \<in> set (map r_id out)"
    unfolding sweep_timeouts_post(4) [OF assms(1,2)] by simp
  then obtain q where "q \<in> set out" "r_id q = r_id r" by auto
  moreover have "r_id r = rid" by (rule consistentD(3) [OF assms(1,4)])
  ultimately show ?thesis
    using sweep_timeouts_post(2) [OF assms(1,2)] by (auto simp: stored_def)
qed

lemma sweep_evolves:
  assumes "consistent s"
  shows "evolves s (snd (sweep_timeouts cfg now s))"
proof -
  have some: "evolves s (snd (sweep_timeouts cfg (Some n) s))" if "consistent s" for n and s :: "'a world"
    by (rule sweep_timeouts_post(1) [OF that]) (rule prod.collapse [symmetric])
  show ?thesis
  proof (cases now)
    case None
    have t: "evolves s (tick s)" by (rule evolves_tick [OF assms])
    have "sweep_timeouts cfg None s = sweep_timeouts cfg (Some (utcnow s)) (tick s)"
      by (simp add: sweep_timeouts_def)
    with None evolves_trans [OF t some [OF evolves_consistent [OF t]]] show ?thesis by simp
  next
    case (Some n)
    with some [OF assms] show ?thesis by simp
  qed
qed

subsection \<open>Crash recovery\<close>

lemma continue_result:
  assumes "consistent s" "held r s" "continue_run cfg r s = (Inr er, t)"
  shows "closes (r_id r) s er t"
proof (cases "load (r_workflow r) (Some (r_version r)) s")
  case (Pair res s1)
  show ?thesis
  proof (cases res)
    case (Inl e)
    with Pair assms(3) show ?thesis by (simp add: continue_run_def)
  next
    case (Inr cw)
    show ?thesis
    proof (cases "is_allowed (r_status r) R_RUNNING")
      case True
      obtain r1 sess ctx s4 where d: "continue_run cfg r s = drive cfg cw r1 sess ctx C_Continue JNull s4"
        "ready s r1 ctx s4" "r_id r1 = r_id r"
        by (rule continue_drives [OF assms(1,2) True Pair [unfolded Inr], of cfg])
      have "drive cfg cw r1 sess ctx C_Continue JNull s4 = (Inr er, t)" using d(1) assms(3) by simp
      with ready_drive_post [OF d(2), of cfg cw sess C_Continue JNull] d(3)
      have "closes (r_id r) s4 er t" by (simp add: drive_post_def)
      with closes_trans d(2) show ?thesis unfolding ready_def by blast
    next
      case False
      then have "r_status r \<noteq> R_RUNNING" by (auto simp: is_allowed_def)
      moreover have "transition cfg r R_RUNNING a d u =
          (Inl (InvalidTransitionError (r_status r) R_RUNNING), u)" for a d and u :: "'a world"
        using False by (simp add: transition_def Let_def)
      ultimately show ?thesis
        using Pair Inr assms(3) by (simp add: continue_run_def Let_def split_beta)
    qed
  qed
qed

lemma recover_each_post:
  assumes "consistent s" "\<forall>r \<in> set rs. held r s" "distinct (map r_id rs)"
    "recover_each cfg rs s = (out, t)"
  shows "(\<forall>er \<in> set out. r_id (er_run er) \<in> r_id ` set rs \<and>
      dget (runs t) (r_id (er_run er)) = Some (er_run er) \<and> r_status (er_run er) = er_status er \<and>
      er_status er \<noteq> R_RUNNING) \<and>
    (\<forall>k. k \<notin> r_id ` set rs \<longrightarrow> dget (runs t) k = dget (runs s) k) \<and> length out \<le> length rs"
  using assms
proof (induction rs arbitrary: s out t)
  case Nil
  then show ?case by simp
next
  case (Cons r rs)
  obtain res s1 where c: "continue_run cfg r s = (res, s1)" by force
  have r: "held r s" using Cons.prems(2) by simp
  have e: "evolves s s1" using continue_evolves [OF Cons.prems(1) r, of cfg] c by simp
  have o: "only (r_id r) s s1" using continue_only [of r s cfg] c by simp
  obtain out' where rec: "recover_each cfg rs s1 = (out', t)"
    and out: "out = (case res of Inl _ \<Rightarrow> out' | Inr er \<Rightarrow> er # out')"
    using Cons.prems(4) c by (cases res) (auto split: prod.splits)
  have "\<forall>q \<in> set rs. held q s1"
    using Cons.prems(2,3) only_held [OF o] by (auto simp: image_iff)
  from Cons.IH [OF evolves_consistent [OF e] this _ rec] Cons.prems(3)
  have ih: "\<forall>er \<in> set out'. r_id (er_run er) \<in> r_id ` set rs \<and>
      dget (runs t) (r_id (er_run er)) = Some (er_run er) \<and> r_status (er_run er) = er_status er \<and>
      er_status er \<noteq> R_RUNNING"
    "\<forall>k. k \<notin> r_id ` set rs \<longrightarrow> dget (runs t) k = dget (runs s1) k" "length out' \<le> length rs"
    by simp_all
  have nr: "r_id r \<notin> r_id ` set rs" using Cons.prems(3) by simp
  have frame: "\<forall>k. k \<notin> r_id ` set (r # rs) \<longrightarrow> dget (runs t) k = dget (runs s) k"
    using ih(2) o by (simp add: only_def)
  show ?case
  proof (cases res)
    case (Inl e)
    with ih(1,3) frame out show ?thesis by auto
  next
    case (Inr er)
    with continue_result [OF Cons.prems(1) r] c have "closes (r_id r) s er s1" by simp
    with ih(2) nr have "dget (runs t) (r_id (er_run er)) = Some (er_run er)"
      "r_id (er_run er) = r_id r" "r_status (er_run er) = er_status er" "er_status er \<noteq> R_RUNNING"
      by (auto simp: closes_def)
    with ih(1,3) frame out Inr show ?thesis by auto
  qed
qed

lemma recover_pending_post:
  assumes "consistent s" "recover_pending cfg limit s = (out, t)"
  shows "(\<forall>er \<in> set out. dget (runs t) (r_id (er_run er)) = Some (er_run er) \<and>
      r_status (er_run er) = er_status er \<and> er_status er \<noteq> R_RUNNING) \<and>
    (\<forall>rid r. dget (runs s) rid = Some r \<and> r_status r \<notin> {R_RUNNING, R_SUSPENDED} \<longrightarrow>
      dget (runs t) rid = Some r) \<and>
    length out \<le> (case limit of None \<Rightarrow> recovery_batch cfg
      | Some n \<Rightarrow> if n = 0 then recovery_batch cfg else n)"
proof -
  let ?b = "case limit of None \<Rightarrow> recovery_batch cfg
      | Some n \<Rightarrow> if n = 0 then recovery_batch cfg else n"
  let ?rs = "list_recoverable ?b s"
  have each: "recover_each cfg ?rs s = (out, t)" using assms(2) by (simp add: recover_pending_def)
  have "\<forall>r \<in> set ?rs. held r s" "distinct (map r_id ?rs)"
    unfolding list_recoverable_def using swept_runs [OF assms(1) refl] by blast+
  note p = recover_each_post [OF assms(1) this each]
  have out_of_reach: "rid \<notin> r_id ` set ?rs"
    if "dget (runs s) rid = Some r" "r_status r \<notin> {R_RUNNING, R_SUSPENDED}" for rid r
  proof
    assume "rid \<in> r_id ` set ?rs"
    then obtain q where q: "q \<in> set ?rs" "r_id q = rid" by blast
    from set_list_recoverable [OF q(1)] have "dget (runs s) rid = Some q"
      "r_status q \<in> {R_RUNNING, R_SUSPENDED}" using stored_run [OF assms(1)] q(2) by blast+
    with that show False by simp
  qed
  have len: "length ?rs \<le> ?b" by (simp add: list_recoverable_def)
  show ?thesis
  proof (intro conjI allI impI)
    show "length out \<le> ?b" using p len by (meson order_trans)
    show "dget (runs t) rid = Some r"
      if "dget (runs s) rid = Some r \<and> r_status r \<notin> {R_RUNNING, R_SUSPENDED}" for rid r
      using p out_of_reach [of rid r] that by simp
  qed (use p in blast)
qed

subsection \<open>Steps\<close>

inductive runtime_step :: "wf_settings \<Rightarrow> 'cp world \<Rightarrow> 'cp world \<Rightarrow> bool" for cfg where
  do_register: "runtime_step cfg s (snd (runtime_register d s))"
| do_start: "runtime_step cfg s (snd (start cfg workflow ch ident input version corr s))"
| do_resume: "runtime_step cfg s (snd (resume cfg ch ident message corr ioc ioi s))"
| do_recover: "runtime_step cfg s (snd (recover_pending cfg limit s))"
| do_recover_run: "runtime_step cfg s (snd (recover_run cfg rid s))"
| do_sweep: "runtime_step cfg s (snd (sweep_timeouts cfg now s))"
| do_revive: "get_run rid s = Inr r \<Longrightarrow> runtime_step cfg s (snd (revive_failed_run cfg r s))"
| do_forget: "runtime_step cfg s (snd (session_forget cfg ch ident s))"

inductive_cases runtime_stepE: "runtime_step cfg s t"

lemma register_evolves:
  assumes "consistent s"
  shows "evolves s (snd (runtime_register d s))"
  by (rule evolves_frame [OF assms])
    (simp_all add: coherent_register, simp_all add: runtime_register_def registry_register_def
      invalidate_def Let_def split: sum.split)

lemma recover_run_evolves:
  assumes "consistent s"
  shows "evolves s (snd (recover_run cfg rid s))"
proof (cases "dget (runs s) rid")
  case None
  with assms show ?thesis
    by (simp add: recover_run_def get_run_def get_run_or_none_def evolves_refl)
next
  case (Some r)
  with continue_evolves [OF assms held_stored [OF Some assms], of cfg] show ?thesis
    by (simp add: recover_run_def get_run_def get_run_or_none_def)
qed

lemma revive_evolves:
  assumes "consistent s" "get_run rid s = Inr r"
  shows "evolves s (snd (revive_failed_run cfg r s))"
proof -
  have "dget (runs s) rid = Some r"
    using assms(2) by (simp add: get_run_def get_run_or_none_def split: option.splits)
  then have h: "held r s" by (rule held_stored [OF _ assms(1)])
  obtain res t where tr: "transition cfg r R_RUNNING (Some ''revive'') [] s = (res, t)" by force
  then show ?thesis
    using evolves_transition [OF assms(1) h] evolves_transition_error [OF assms(1)]
    by (cases res) (auto simp: revive_failed_run_def)
qed

theorem step_evolves:
  assumes "runtime_step cfg s t" and "consistent s"
  shows "evolves s t"
  using assms(1)
proof (cases rule: runtime_step.cases)
  case (do_register d)
  then show ?thesis using register_evolves [OF assms(2)] by simp
next
  case (do_start workflow ch ident input version corr)
  then show ?thesis using start_evolves [OF assms(2)] by simp
next
  case (do_resume ch ident message corr ioc ioi)
  then show ?thesis using resume_evolves [OF assms(2)] by simp
next
  case (do_recover limit)
  then show ?thesis using recover_pending_evolves [OF assms(2)] by simp
next
  case (do_recover_run rid)
  then show ?thesis using recover_run_evolves [OF assms(2)] by simp
next
  case (do_sweep now)
  then show ?thesis using sweep_evolves [OF assms(2)] by simp
next
  case (do_revive rid r)
  then show ?thesis using revive_evolves [OF assms(2)] by simp
next
  case (do_forget ch ident)
  then show ?thesis using evolves_session(7) [OF assms(2)] by simp
qed

subsection \<open>Reachable worlds\<close>

definition booted :: "'cp world \<Rightarrow> bool" where
  "booted s \<longleftrightarrow> runs s = [] \<and> audit s = [] \<and> events s = [] \<and> cache s = [] \<and> defs s = [] \<and>
     inj (entropy s)"

lemma booted_consistent: "booted s \<Longrightarrow> consistent s"
  by (rule consistentI) (simp_all add: booted_def trail_def list_audit_def moves_def)

definition steps :: "wf_settings \<Rightarrow> 'cp world \<Rightarrow> 'cp world \<Rightarrow> bool" where
  "steps cfg = (runtime_step cfg)\<^sup>*\<^sup>*"

lemma steps_evolve:
  assumes "steps cfg s t" and "consistent s"
  shows "evolves s t"
  using assms unfolding steps_def
  by (induction rule: rtranclp_induct)
    (blast intro: evolves_refl evolves_trans step_evolves evolves_consistent)+

end
