(* ===== verification/Wf_Example.thy ===== *)
theory Wf_Example
  imports Wf_Steps
begin

section \<open>A concrete workflow for the witnesses\<close>

text \<open>
  A one-question workflow over a counter checkpoint: the first segment asks for an amount and
  waits on an interrupt, any later segment completes. It instantiates every parameter of the
  model, and the worlds below are what the witnesses of the runtime properties run on.
\<close>

definition ask_graph :: "nat graph" where
  "ask_graph =
     \<lparr>g_elapsed = (\<lambda>ctx cmd th c. 1),
      g_invoke = (\<lambda>ctx cmd th c. (Inr (G_Dict [(''turn'', JInt (int c))]), Suc c)),
      g_cancelled = (\<lambda>ctx cmd th t c. c),
      g_state = (\<lambda>th c. Inr (if c \<le> 1 then \<lparr>sn_next = [''ask''], sn_interrupts = [JStr ''amount?''], sn_values = JNull\<rparr>
                            else \<lparr>sn_next = [], sn_interrupts = [], sn_values = JNull\<rparr>))\<rparr>"

definition ask_def :: "nat wf_def" where
  "ask_def = \<lparr>d_name = ''ask'', d_version = 1, d_graph = ask_graph\<rparr>"

definition demo_settings :: wf_settings where
  "demo_settings =
     \<lparr>step_timeout = None, session_ttl = 60, retry_max_attempts = 3, retry_base_delay = 1 / 2,
      retry_max_delay = 30, retry_jitter = False, recovery_batch = 100, sha256 = (\<lambda>s. s),
      render = (\<lambda>e. ''error''), show_int = (\<lambda>i. ''1''), show_status = (\<lambda>st. ''status'')\<rparr>"

definition empty_world :: "nat world" where
  "empty_world =
     \<lparr>clock = int, ticks = 0, entropy = (\<lambda>n. replicate n CHR ''x''), minted = 0,
      dice = (\<lambda>n. 0), rolled = 0, defs = [], cache = [], sessions = [], runs = [], audit = [],
      events = [], cps = 0\<rparr>"

text \<open>A broken graph, whose every invocation fails with a plain \<open>TimeoutError\<close>.\<close>

definition stuck_graph :: "nat graph" where
  "stuck_graph = ask_graph\<lparr>g_invoke := (\<lambda>ctx cmd th c. (Inl TimeoutErr, c)), g_elapsed := (\<lambda>_ _ _ _. 9)\<rparr>"

definition demo_run :: wf_run where
  "demo_run =
     \<lparr>r_id = ''run_'', r_workflow = ''ask'', r_version = 1, r_session = ''s'', r_thread = ''t'',
      r_channel = Some WHATSAPP, r_identity = ''1'', r_status = R_RUNNING, r_step = None,
      r_attempts = 0, r_last_error = None, r_interrupts = [], r_corr = None, r_created_at = 0,
      r_updated_at = 0, r_completed_at = None, r_expires_at = None\<rparr>"

definition demo_entry :: "run_status \<Rightarrow> run_status \<Rightarrow> audit_entry" where
  "demo_entry f t = \<lparr>a_entry_id = ''aud'', a_run_id = ''run_'', a_at = 0, a_action = ''a'',
     a_from = Some f, a_to = Some t, a_detail = []\<rparr>"

definition demo_session :: session where
  "demo_session =
     \<lparr>s_id = ''sess_whatsapp_1'', s_channel = WHATSAPP, s_identity = ''1'', s_status = S_ACTIVE,
      s_active_run = Some ''run_'', s_active_workflow = Some ''ask'', s_active_version = Some 1,
      s_thread = Some ''t'', s_created_at = 0, s_updated_at = 0, s_last_activity = 0,
      s_expires_at = None\<rparr>"

text \<open>The world with that run in a given status, reached by a given audit trail.\<close>

definition demo_world :: "wf_run \<Rightarrow> audit_entry list \<Rightarrow> nat world" where
  "demo_world r es = empty_world\<lparr>minted := 1, defs := [(''ask'', [(1, ask_def)])],
     sessions := [(''sess_whatsapp_1'', demo_session)], runs := [(''run_'', r)],
     audit := [(''run_'', es)]\<rparr>"

lemma entropy_inj: "inj (\<lambda>n. replicate n CHR ''x'')"
  by (rule injI) (metis length_replicate)

lemma booted_empty: "booted empty_world"
  by (simp add: booted_def empty_world_def entropy_inj)

lemma demo_world_consistent:
  assumes "r_id r = ''run_''" "chain is_allowed R_PENDING (moves es) (r_status r)"
  shows "consistent (demo_world r es)"
  by (rule consistentI)
    (use assms in \<open>auto simp: demo_world_def empty_world_def entropy_inj trail_def list_audit_def
       moves_def split: if_splits\<close>)

lemma demo_waiting_trail:
  "chain is_allowed R_PENDING
     (moves [demo_entry R_PENDING R_RUNNING, demo_entry R_RUNNING R_WAITING_FOR_INPUT])
     R_WAITING_FOR_INPUT"
  "chain is_allowed R_PENDING (moves [demo_entry R_PENDING R_RUNNING]) R_RUNNING"
  by (simp_all add: moves_def demo_entry_def is_allowed_def)

end
