(* ===== verification/Wf_Theorems.thy ===== *)
theory Wf_Theorems
  imports Wf_Example
begin

section \<open>Properties of the workflow runtime\<close>

text \<open>The promises of the runtime over its public operations, each with a concrete witness.\<close>

text \<open>
  C13. In every state the runtime can reach from a boot, each stored run sits under its own id,
  and its audit trail is an unbroken path of transitions the table allows, leading from
  \<open>PENDING\<close> to exactly the status that is stored.
\<close>

theorem runs_are_audited:
  assumes "booted s" "steps cfg s t" "dget (runs t) rid = Some r"
  shows "r_id r = rid \<and> chain is_allowed R_PENDING (trail rid t) (r_status r)"
  using steps_evolve [OF assms(2) booted_consistent [OF assms(1)]] assms(3)
    consistentD(3,4) evolves_consistent by blast

theorem runs_are_audited_witness:
  "\<exists>t r. dget (runs t) ''run_'' = Some r \<and> r_id r = ''run_'' \<and>
     chain is_allowed R_PENDING (trail ''run_'' (t :: nat world)) (r_status r)"
proof -
  let ?s = "snd (runtime_register ask_def empty_world)"
  let ?t = "snd (start demo_settings ''ask'' WHATSAPP ''1'' JNull None None ?s)"
  have steps: "steps demo_settings empty_world ?t"
    unfolding steps_def
    by (rule rtranclp.rtrancl_into_rtrancl [OF r_into_rtranclp]; rule do_register do_start)
  have "dget (runs ?t) ''run_'' \<noteq> None"
  proof -
    have "consistent ?s" using register_evolves [OF booted_consistent [OF booted_empty]]
      by (rule evolves_consistent)
    moreover have "fst (load ''ask'' None ?s) = Inr \<lparr>c_def = ask_def, c_graph = ask_graph\<rparr>"
      by (simp add: load_def Let_def registry_get_def runtime_register_def registry_register_def
          versions_of_def invalidate_def empty_world_def ask_def_def)
    moreover have "new_id ''run'' ?s = ''run_''"
      by (simp add: new_id_def runtime_register_def registry_register_def invalidate_def
          empty_world_def versions_of_def Let_def)
    ultimately obtain r x ctx c s6 where
      d: "?t = snd (drive demo_settings \<lparr>c_def = ask_def, c_graph = ask_graph\<rparr> r x ctx c JNull s6)"
      "ready ?s r ctx s6" "r_id r = ''run_''"
      using start_drives [of ?s "''ask''" None] by (metis prod.collapse)
    from ready_drive_post [OF d(2), of demo_settings "\<lparr>c_def = ask_def, c_graph = ask_graph\<rparr>" x c JNull] d(1,3)
    show ?thesis by (auto simp: drive_post_def closes_def split: prod.splits sum.splits)
  qed
  then show ?thesis using runs_are_audited [OF booted_empty steps, of "''run_''"] by blast
qed

text \<open>
  In a consistent state (every reachable one is), a run that is stored as \<open>COMPLETED\<close> or \<open>CANCELLED\<close> keeps that status through every
  further sequence of runtime operations: resumes, recoveries, revivals and sweeps included.
\<close>

theorem completed_is_final:
  assumes "consistent t" "dget (runs t) rid = Some r"
    and "r_status r \<in> {R_COMPLETED, R_CANCELLED}" "steps cfg t u"
  shows "\<exists>r'. dget (runs u) rid = Some r' \<and> r_status r' = r_status r"
proof -
  have tu: "evolves t u" by (rule steps_evolve [OF assms(4,1)])
  from tu assms(2) obtain r' us where
    u: "dget (runs u) rid = Some r'" "trail rid u = trail rid t @ us"
    unfolding evolves_def by blast
  have "chain is_allowed R_PENDING (trail rid t @ us) (r_status r')"
    using consistentD(4) [OF evolves_consistent [OF tu] u(1)] u(2) by simp
  from run_lifecycle.after_sink [OF this consistentD(4) [OF assms(1,2)]] assms(3) u(1)
  show ?thesis by simp
qed

theorem completed_is_final_witness:
  "\<exists>r'. dget (runs (snd (revive_failed_run demo_settings (demo_run\<lparr>r_status := R_COMPLETED\<rparr>)
        (demo_world (demo_run\<lparr>r_status := R_COMPLETED\<rparr>)
          [demo_entry R_PENDING R_RUNNING, demo_entry R_RUNNING R_COMPLETED])))) ''run_'' = Some r' \<and>
     r_status r' = R_COMPLETED"
proof -
  let ?r = "demo_run\<lparr>r_status := R_COMPLETED\<rparr>"
  let ?s = "demo_world ?r [demo_entry R_PENDING R_RUNNING, demo_entry R_RUNNING R_COMPLETED]"
  have c: "consistent ?s"
    by (rule demo_world_consistent)
      (simp_all add: demo_run_def moves_def demo_entry_def is_allowed_def)
  have g: "get_run ''run_'' ?s = Inr ?r" "dget (runs ?s) ''run_'' = Some ?r"
    by (simp_all add: get_run_def get_run_or_none_def demo_world_def)
  have st: "r_status ?r \<in> {R_COMPLETED, R_CANCELLED}" by simp
  have "steps demo_settings ?s (snd (revive_failed_run demo_settings ?r ?s))"
    unfolding steps_def by (rule r_into_rtranclp) (rule do_revive [OF g(1)])
  from completed_is_final [OF c g(2) st this] show ?thesis by simp
qed

text \<open>
  C14. Resuming the live run of a session never leaves it half-way: either the result reports
  the status that is now stored, announced by the last event of the bus, after at least one and at most
  \<open>max(1, retry_max_attempts)\<close> further attempts; or the checkpoint could not be read back, and
  then the run is stored as \<open>RUNNING\<close>, where crash recovery picks it up.
\<close>

theorem resume_closes_or_recoverable:
  assumes "consistent s" "resumable cfg ch ident r s"
    and "fst (load (r_workflow r) (Some (r_version r)) s) = Inr cw"
    and "resume cfg ch ident message corr ioc ioi s = (out, t)"
  shows "(\<exists>er. out = Inr er \<and> dget (runs t) (r_id r) = Some (er_run er) \<and>
            r_status (er_run er) = er_status er \<and>
            er_status er \<in> {R_COMPLETED, R_WAITING_FOR_INPUT, R_SUSPENDED, R_FAILED, R_TIMED_OUT} \<and>
            announced (r_id r) (er_status er) t \<and>
            r_attempts r < r_attempts (er_run er) \<and>
            r_attempts (er_run er) \<le> r_attempts r + attempts_bound cfg)
       \<or> (\<exists>e r0. out = Inl e \<and> g_state (c_graph cw) (r_thread r) (cps t) = Inl e \<and>
            dget (runs t) (r_id r) = Some r0 \<and> r_status r0 = R_RUNNING)"
proof -
  obtain r2 x ctx s5 where d: "resume cfg ch ident message corr ioc ioi s =
      drive cfg cw r2 (Some x) ctx (C_Resume message) message s5" "ready s r2 ctx s5"
    "r_id r2 = r_id r" "r_attempts r2 = r_attempts r" "r_thread r2 = r_thread r"
    by (rule resume_drives [OF assms(1-3), of message corr ioc ioi])
  from ready_drive_post [OF d(2), of cfg cw "Some x" "C_Resume message" message] assms(4) d
  show ?thesis by (cases out) (auto simp: drive_post_def closes_def)
qed


theorem resume_closes_or_recoverable_witness:
  "\<exists>er t. resume demo_settings WHATSAPP ''1'' (JStr ''500'') None None None
        (demo_world (demo_run\<lparr>r_status := R_WAITING_FOR_INPUT\<rparr>)
          [demo_entry R_PENDING R_RUNNING, demo_entry R_RUNNING R_WAITING_FOR_INPUT]) = (Inr er, t) \<and>
     dget (runs t) ''run_'' = Some (er_run er) \<and> r_status (er_run er) = er_status er"
proof -
  let ?r = "demo_run\<lparr>r_status := R_WAITING_FOR_INPUT\<rparr>"
  let ?s = "demo_world ?r [demo_entry R_PENDING R_RUNNING, demo_entry R_RUNNING R_WAITING_FOR_INPUT]"
  obtain out t where o: "resume demo_settings WHATSAPP ''1'' (JStr ''500'') None None None ?s = (out, t)"
    by force
  have c: "consistent ?s"
    by (rule demo_world_consistent) (simp add: demo_run_def, simp add: demo_waiting_trail)
  have sid: "derive_session_id demo_settings WHATSAPP ''1'' = ''sess_whatsapp_1''"
    by (simp add: derive_session_id_def hash_identity_def demo_settings_def lower_def strip_def
        is_space_def lower_char_def code_def)
  have r: "resumable demo_settings WHATSAPP ''1'' ?r ?s"
    by (simp add: resumable_def session_get_def sid get_session_def demo_world_def
        demo_session_def demo_run_def TERMINAL_STATUSES_def)
  have l: "fst (load (r_workflow ?r) (Some (r_version ?r)) ?s) = Inr \<lparr>c_def = ask_def, c_graph = ask_graph\<rparr>"
    by (simp add: load_def Let_def registry_get_def versions_of_def demo_world_def demo_run_def
        empty_world_def ask_def_def)
  have g: "g_state ask_graph th k \<noteq> Inl e" for th k e by (simp add: ask_graph_def)
  from resume_closes_or_recoverable [OF c r l o] g o show ?thesis
    by (auto simp: demo_run_def)
qed


text \<open>
  \<open>start\<close> of a registered workflow creates one new run under a fresh id, and returns its stored
  state: the run belongs to the requested channel identity and has been attempted, and no other run
  was touched. It raises only when the checkpoint cannot be read back, leaving the run recoverable.
\<close>

theorem start_creates_run:
  assumes "consistent s" "fst (load workflow version s) = Inr cw"
    and "start cfg workflow ch ident input version corr s = (out, t)"
  shows "dget (runs s) (new_id ''run'' s) = None \<and> consistent t \<and>
     (\<exists>r0. dget (runs t) (new_id ''run'' s) = Some r0 \<and>
        (case out of
           Inr er \<Rightarrow> er_run er = r0 \<and> r_status r0 = er_status er \<and>
             announced (new_id ''run'' s) (er_status er) t \<and> 1 \<le> r_attempts r0 \<and>
             r_attempts r0 \<le> attempts_bound cfg
         | Inl e \<Rightarrow> r_status r0 = R_RUNNING))"
proof -
  obtain s1 where l: "load workflow version s = (Inr cw, s1)" using assms(2) by (metis prod.collapse)
  obtain r x ctx c s6 where d: "start cfg workflow ch ident input version corr s =
      drive cfg cw r (Some x) ctx c JNull s6" "ready s r ctx s6" "r_id r = new_id ''run'' s"
    "r_attempts r = 0"
    by (rule start_drives [OF assms(1) l, of cfg ch ident input corr])
  have "consistent t"
    using start_evolves [OF assms(1)] assms(3) by (metis evolves_consistent snd_conv)
  moreover have "drive_post cfg (c_graph cw) r s6 (out, t)"
    using ready_drive_post [OF d(2)] d(1) assms(3) by metis
  ultimately show ?thesis
    using fresh_run_id [OF assms(1)] d(3,4)
    by (cases out) (auto simp: drive_post_def closes_def)
qed

theorem start_creates_run_witness:
  "\<exists>t r0. snd (start demo_settings ''ask'' WHATSAPP ''1'' JNull None None
       (demo_world demo_run [demo_entry R_PENDING R_RUNNING])) = t \<and>
     dget (runs t) ''run_x'' = Some r0"
proof -
  let ?s = "demo_world demo_run [demo_entry R_PENDING R_RUNNING]"
  have c: "consistent ?s"
    by (rule demo_world_consistent) (simp_all add: demo_run_def demo_waiting_trail)
  have l: "fst (load ''ask'' None ?s) = Inr \<lparr>c_def = ask_def, c_graph = ask_graph\<rparr>"
    by (simp add: load_def Let_def registry_get_def versions_of_def demo_world_def
        empty_world_def ask_def_def)
  have "new_id ''run'' ?s = ''run_x''" by (simp add: new_id_def demo_world_def empty_world_def)
  with start_creates_run [OF c l prod.collapse [symmetric], of demo_settings WHATSAPP "''1''" JNull None]
  show ?thesis by auto
qed

text \<open>
  What \<open>resume\<close> refuses it refuses without touching anything: an unknown identity or a
  session with no active run is a \<open>SessionNotFoundError\<close>, an active run that is not stored a
  \<open>RunNotFoundError\<close>, and a run in a terminal status a \<open>WorkflowExecutionError\<close>.
\<close>

theorem resume_refusals:
  "(session_get cfg ch ident s = None \<longrightarrow>
      resume cfg ch ident m corr ioc ioi s = (Inl (SessionNotFoundError ch ident), s)) \<and>
   (\<forall>x. session_get cfg ch ident s = Some x \<longrightarrow>
      (s_active_run x = None \<or> s_active_run x = Some [] \<longrightarrow>
         resume cfg ch ident m corr ioc ioi s = (Inl (SessionNotFoundError ch ident), s)) \<and>
      (\<forall>rid. s_active_run x = Some rid \<and> rid \<noteq> [] \<longrightarrow>
         (dget (runs s) rid = None \<longrightarrow>
            resume cfg ch ident m corr ioc ioi s = (Inl (RunNotFoundError rid), s)) \<and>
         (\<forall>r. dget (runs s) rid = Some r \<and>
               r_status r \<in> {R_COMPLETED, R_FAILED, R_DEAD_LETTERED, R_CANCELLED} \<longrightarrow>
            resume cfg ch ident m corr ioc ioi s =
              (Inl (WorkflowExecutionError (r_id r) (r_status r)), s))))"
  by (auto simp: resume_def get_run_def get_run_or_none_def TERMINAL_STATUSES_def)

theorem resume_refusals_witness:
  "resume demo_settings EMAIL ''x@y.z'' (JStr ''hi'') None None None empty_world =
     (Inl (SessionNotFoundError EMAIL ''x@y.z''), empty_world)"
proof -
  have "session_get demo_settings EMAIL ''x@y.z'' empty_world = None"
    by (simp add: session_get_def get_session_def empty_world_def)
  with resume_refusals [of demo_settings EMAIL "''x@y.z''" empty_world "JStr ''hi''" None None None]
  show ?thesis by blast
qed

text \<open>
  The timeout sweep times out lapsed waiting runs and only those: every run it returns is stored as
  \<open>TIMED_OUT\<close>, every run that has not lapsed is stored unchanged, and when the lapsed
  runs fit the batch none of them is left waiting.
\<close>

theorem sweep_times_out_lapsed:
  assumes "consistent s" "sweep_timeouts cfg (Some now) s = (out, t)"
  shows "(\<forall>r \<in> set out. dget (runs t) (r_id r) = Some r \<and> r_status r = R_TIMED_OUT) \<and>
    (\<forall>rid r. dget (runs s) rid = Some r \<and> \<not> waiting_expired now r \<longrightarrow> dget (runs t) rid = Some r) \<and>
    (length (filter (waiting_expired now) (dvals (runs s))) \<le> recovery_batch cfg \<longrightarrow>
      (\<forall>rid r. dget (runs s) rid = Some r \<and> waiting_expired now r \<longrightarrow>
        (\<exists>r'. dget (runs t) rid = Some r' \<and> r_status r' = R_TIMED_OUT)))"
  using sweep_timeouts_post(2,3) [OF assms] sweep_complete [OF assms]
  unfolding stored_def by blast

definition lapsed_run :: wf_run where
  "lapsed_run = demo_run\<lparr>r_status := R_WAITING_FOR_INPUT, r_expires_at := Some 5\<rparr>"

theorem sweep_times_out_lapsed_witness:
  "\<exists>r'. dget (runs (snd (sweep_timeouts demo_settings (Some 9) (demo_world lapsed_run
        [demo_entry R_PENDING R_RUNNING, demo_entry R_RUNNING R_WAITING_FOR_INPUT])))) ''run_'' = Some r' \<and>
     r_status r' = R_TIMED_OUT"
proof -
  let ?s = "demo_world lapsed_run
    [demo_entry R_PENDING R_RUNNING, demo_entry R_RUNNING R_WAITING_FOR_INPUT]"
  have c: "consistent ?s"
    by (rule demo_world_consistent) (simp_all add: lapsed_run_def demo_run_def demo_waiting_trail)
  have "length (filter (waiting_expired 9) (dvals (runs ?s))) \<le> recovery_batch demo_settings"
    by (simp add: demo_world_def demo_settings_def)
  moreover have "dget (runs ?s) ''run_'' = Some lapsed_run" "waiting_expired 9 lapsed_run"
    by (simp_all add: demo_world_def waiting_expired_def lapsed_run_def)
  ultimately show ?thesis
    using sweep_times_out_lapsed [OF c prod.collapse [symmetric], of demo_settings 9] by blast
qed


text \<open>
  C15. A segment whose every invocation overruns the step budget is cancelled, retried until
  \<open>retry_max_attempts\<close> is used up, and closed: the resumed run is stored as \<open>TIMED_OUT\<close>
  although the error that reaches the executor is the retry engine's. No overrun hangs or raises.
\<close>

theorem overrunning_run_times_out:
  assumes "consistent s" "resumable cfg ch ident r s"
    and "fst (load (r_workflow r) (Some (r_version r)) s) = Inr cw"
    and "step_timeout cfg = Some b" "0 < b" "retry_max_attempts cfg \<le> 1024"
    and "\<And>ctx cmd th x. b < g_elapsed (c_graph cw) ctx cmd th x"
    and "\<And>th x. \<exists>snap. g_state (c_graph cw) th x = Inr snap"
  shows "\<exists>er t. resume cfg ch ident message corr ioc ioi s = (Inr er, t) \<and>
    er_status er = R_TIMED_OUT \<and> dget (runs t) (r_id r) = Some (er_run er) \<and>
    r_status (er_run er) = R_TIMED_OUT \<and> r_attempts (er_run er) = r_attempts r + attempts_bound cfg"
proof -
  obtain r2 x ctx s5 where d: "resume cfg ch ident message corr ioc ioi s =
      drive cfg cw r2 (Some x) ctx (C_Resume message) message s5" "ready s r2 ctx s5"
    "r_id r2 = r_id r" "r_attempts r2 = r_attempts r"
    by (rule resume_drives [OF assms(1-3), of message corr ioc ioi])
  from d(2) have rd: "consistent s5" "held r2 s5" "r_status r2 = R_RUNNING" "x_run ctx = r_id r2"
    by (auto simp: ready_def evolves_consistent)
  from drive_times_out [OF rd assms(4,5,7,8,6), of "Some x" "C_Resume message" message] d
  show ?thesis by (auto simp: closes_def)
qed

definition slow_settings :: wf_settings where
  "slow_settings = demo_settings\<lparr>step_timeout := Some 5\<rparr>"

definition slow_world :: "nat world" where
  "slow_world = (demo_world (demo_run\<lparr>r_status := R_TIMED_OUT\<rparr>)
     [demo_entry R_PENDING R_RUNNING, demo_entry R_RUNNING R_TIMED_OUT])
     \<lparr>defs := [(''ask'', [(1, ask_def\<lparr>d_graph := stuck_graph\<rparr>)])]\<rparr>"

theorem overrunning_run_times_out_witness:
  "\<exists>er t. resume slow_settings WHATSAPP ''1'' (JStr ''500'') None None None slow_world = (Inr er, t) \<and>
     er_status er = R_TIMED_OUT \<and> r_attempts (er_run er) = 3"
proof -
  let ?r = "demo_run\<lparr>r_status := R_TIMED_OUT\<rparr>"
  have "consistent (demo_world ?r [demo_entry R_PENDING R_RUNNING, demo_entry R_RUNNING R_TIMED_OUT])"
    by (rule demo_world_consistent)
      (simp_all add: demo_run_def moves_def demo_entry_def is_allowed_def)
  then have c: "consistent slow_world"
    by (simp add: slow_world_def consistent_def trail_def list_audit_def)
  have sid: "derive_session_id slow_settings WHATSAPP ''1'' = ''sess_whatsapp_1''"
    by (simp add: derive_session_id_def hash_identity_def slow_settings_def demo_settings_def
        lower_def strip_def is_space_def lower_char_def code_def)
  have r: "resumable slow_settings WHATSAPP ''1'' ?r slow_world"
    by (simp add: resumable_def session_get_def sid get_session_def slow_world_def demo_world_def
        demo_session_def demo_run_def TERMINAL_STATUSES_def)
  have l: "fst (load (r_workflow ?r) (Some (r_version ?r)) slow_world) =
      Inr \<lparr>c_def = ask_def\<lparr>d_graph := stuck_graph\<rparr>, c_graph = stuck_graph\<rparr>"
    by (simp add: load_def Let_def registry_get_def versions_of_def slow_world_def demo_world_def
        demo_run_def empty_world_def ask_def_def)
  have "attempts_bound slow_settings = 3"
    by (simp add: attempts_bound_def slow_settings_def demo_settings_def)
  with overrunning_run_times_out [OF c r l, of 5 "JStr ''500''" None None None] show ?thesis
    by (auto simp: slow_settings_def demo_settings_def stuck_graph_def ask_graph_def demo_run_def)
qed

text \<open>
  C16. What the executor does with a finished segment is decided by the checkpoint alone: no next
  node is \<open>COMPLETED\<close>, a next node with a pending interrupt \<open>WAITING_FOR_INPUT\<close>, a next
  node without one \<open>SUSPENDED\<close>. The stored run keeps the first next node as its step, its
  error is cleared, and its pending interrupts are those of the checkpoint exactly when it waits.
\<close>

theorem segment_outcome:
  assumes "consistent s" "held r s" "r_status r = R_RUNNING" "x_run ctx = r_id r"
    and "g_state (c_graph cw) (r_thread r) (cps s) = Inr snap"
    and "finalize cfg cw r sess ctx vals s = (out, t)"
  shows "\<exists>er. out = Inr er \<and> dget (runs t) (r_id r) = Some (er_run er) \<and>
    r_status (er_run er) =
      (if sn_next snap = [] then R_COMPLETED
       else if sn_interrupts snap \<noteq> [] then R_WAITING_FOR_INPUT else R_SUSPENDED) \<and>
    r_step (er_run er) = (if sn_next snap = [] then r_step r else Some (hd (sn_next snap))) \<and>
    r_last_error (er_run er) = None \<and>
    r_interrupts (er_run er) =
      (if r_status (er_run er) = R_WAITING_FOR_INPUT then extract_interrupts snap else []) \<and>
    er_values er = clean_values vals"
proof -
  from finalize_closes [OF assms] obtain er where er: "out = Inr er" "closes (r_id r) s er t"
    "er_status er = segment_status snap" "content (er_run er) = content (segment_run snap r)"
    "er_values er = clean_values vals" by blast
  from contentD(4-6) [OF er(4)] er show ?thesis
    by (auto simp: closes_def segment_status_def segment_run_def)
qed

theorem segment_outcome_witness:
  "\<exists>er t. finalize demo_settings \<lparr>c_def = ask_def, c_graph = ask_graph\<rparr> demo_run None
       (build_context demo_run None None) (G_Other JNull)
       (demo_world demo_run [demo_entry R_PENDING R_RUNNING]) = (Inr er, t) \<and>
     r_status (er_run er) = R_WAITING_FOR_INPUT \<and> r_step (er_run er) = Some ''ask''"
proof -
  let ?s = "demo_world demo_run [demo_entry R_PENDING R_RUNNING]"
  let ?w = "\<lparr>c_def = ask_def, c_graph = ask_graph\<rparr>"
  have c: "consistent ?s"
    by (rule demo_world_consistent) (simp_all add: demo_run_def demo_waiting_trail)
  have h: "held demo_run ?s" by (simp add: held_def demo_world_def demo_run_def)
  have r: "r_status demo_run = R_RUNNING" by (simp add: demo_run_def)
  have x: "x_run (build_context demo_run None None) = r_id demo_run" by (simp add: build_context_def)
  have g: "g_state (c_graph ?w) (r_thread demo_run) (cps ?s) =
      Inr \<lparr>sn_next = [''ask''], sn_interrupts = [JStr ''amount?''], sn_values = JNull\<rparr>"
    by (simp add: ask_graph_def demo_world_def empty_world_def)
  obtain out t where f: "finalize demo_settings ?w demo_run None (build_context demo_run None None)
    (G_Other JNull) ?s = (out, t)" by force
  from segment_outcome [OF c h r x g f] f show ?thesis by auto
qed

text \<open>
  C17. The loader serves what the registry holds: in every reachable state, \<open>load\<close> succeeds
  exactly when the registry resolves the name and version (the latest for none), and returns the
  graph compiled from that very definition, cached or not.
\<close>

theorem loader_is_coherent:
  assumes "booted s" "steps cfg s t"
  shows "\<exists>t'. load name version t =
    ((case registry_get name version t of
        Inl e \<Rightarrow> Inl e
      | Inr d \<Rightarrow> Inr \<lparr>c_def = d, c_graph = d_graph d\<rparr>), t')"
proof -
  have "coherent s" using assms(1) by (simp add: booted_def coherent_def registered_def versions_of_def)
  then have t: "coherent t"
    using steps_evolve [OF assms(2) booted_consistent [OF assms(1)]] by (simp add: evolves_def)
  obtain res t' where l: "load name version t = (res, t')" by force
  show ?thesis
  proof (cases res)
    case (Inl e)
    with load_error [OF l [unfolded Inl]] l show ?thesis by auto
  next
    case (Inr c)
    note load_returns_registered [OF t l [unfolded Inr]]
    with Inr l show ?thesis by (cases c) auto
  qed
qed

theorem loader_is_coherent_witness:
  "\<exists>t'. load ''ask'' None (snd (runtime_register ask_def empty_world)) =
     (Inr \<lparr>c_def = ask_def, c_graph = d_graph ask_def\<rparr>, t')"
proof -
  let ?t = "snd (runtime_register ask_def empty_world)"
  have st: "steps demo_settings empty_world ?t"
    unfolding steps_def by (rule r_into_rtranclp) (rule do_register)
  have "registry_get ''ask'' None ?t = Inr ask_def"
    by (simp add: registry_get_def runtime_register_def registry_register_def
        versions_of_def invalidate_def empty_world_def ask_def_def)
  with loader_is_coherent [OF booted_empty st, of "''ask''" None] show ?thesis by simp
qed


text \<open>
  C18. Crash recovery re-drives at most a batch of runs, returns each as it is stored (and none still
  \<open>RUNNING\<close>), whatever exceptions other runs of the batch raise, and never touches a run
  that was not \<open>RUNNING\<close> or \<open>SUSPENDED\<close>.
\<close>

theorem recovery_is_contained:
  assumes "consistent s" "recover_pending cfg limit s = (out, t)"
  shows "(\<forall>er \<in> set out. dget (runs t) (r_id (er_run er)) = Some (er_run er) \<and>
      r_status (er_run er) = er_status er \<and> er_status er \<noteq> R_RUNNING) \<and>
    (\<forall>rid r. dget (runs s) rid = Some r \<and> r_status r \<notin> {R_RUNNING, R_SUSPENDED} \<longrightarrow>
      dget (runs t) rid = Some r) \<and>
    length out \<le> (case limit of None \<Rightarrow> recovery_batch cfg
      | Some n \<Rightarrow> if n = 0 then recovery_batch cfg else n)"
  by (rule recover_pending_post [OF assms])

theorem recovery_is_contained_witness:
  "dget (runs (snd (recover_pending demo_settings None (demo_world lapsed_run
        [demo_entry R_PENDING R_RUNNING, demo_entry R_RUNNING R_WAITING_FOR_INPUT])))) ''run_'' =
     Some lapsed_run"
proof -
  let ?s = "demo_world lapsed_run
    [demo_entry R_PENDING R_RUNNING, demo_entry R_RUNNING R_WAITING_FOR_INPUT]"
  have c: "consistent ?s"
    by (rule demo_world_consistent) (simp_all add: lapsed_run_def demo_run_def demo_waiting_trail)
  have "dget (runs ?s) ''run_'' = Some lapsed_run" "r_status lapsed_run \<notin> {R_RUNNING, R_SUSPENDED}"
    by (simp_all add: demo_world_def lapsed_run_def)
  with recovery_is_contained [OF c prod.collapse [symmetric], of demo_settings None] show ?thesis
    by blast
qed

text \<open>
  The retry engine runs a factory at most \<open>max(1, max_attempts)\<close> times. A value is what
  the factory returned; an error is either that of an attempt the policy does not retry, or
  \<open>RetryExhaustedError\<close> wrapping the failure of the last allowed attempt. Only a policy
  of more than 1024 attempts can fail otherwise (its backoff overflows a float).
\<close>

theorem retry_engine_outcome:
  assumes "retry_run eng pol factory hook s = (res, t)"
    and "N = nat (max 1 (p_max_attempts pol))"
  shows "(\<exists>v n x. res = Inr v \<and> n < N \<and> factory n x = (Inr v, t))
       \<or> (\<exists>e n x. res = Inl e \<and> n < N \<and> factory n x = (Inl e, t) \<and> p_non_retryable pol e)
       \<or> (\<exists>e x. res = Inl (RetryExhaustedError N e) \<and> factory (N - 1) x = (Inl e, t) \<and>
            \<not> p_non_retryable pol e)
       \<or> (res = Inl OverflowErr \<and> 1024 < N)"
  using retry_run_outcome [OF assms(1)] unfolding assms(2) [symmetric]
proof (cases rule: retry_outcome.cases)
  case (exhausted n x e)
  then have "n = N - 1" by simp
  with exhausted show ?thesis by (auto simp: is_retryable_def)
qed (auto simp: is_retryable_def)

theorem retry_engine_outcome_witness:
  "\<exists>e t. retry_run \<lparr>re_sleep = (\<lambda>d s. s), re_uniform = (\<lambda>a b s. (a, s))\<rparr>
      (default_retry_policy demo_settings)
      (\<lambda>n s. if n = 2 then (Inr ''ok'', s) else (Inl TimeoutErr, Suc s)) (\<lambda>n e d s. s) (0 :: nat) = (e, t) \<and>
    (e = Inr ''ok'' \<or> e = Inl (RetryExhaustedError 3 TimeoutErr))"
proof -
  let ?f = "\<lambda>n s. if n = 2 then (Inr ''ok'' :: wf_exn + string, s) else (Inl TimeoutErr, Suc s)"
  let ?eng = "\<lparr>re_sleep = (\<lambda>d s. s), re_uniform = (\<lambda>a b s. (a, s))\<rparr> :: nat retry_engine"
  obtain e t where run: "retry_run ?eng (default_retry_policy demo_settings) ?f (\<lambda>n e d s. s) 0 = (e, t)"
    by force
  have N: "3 = nat (max 1 (p_max_attempts (default_retry_policy demo_settings)))"
    by (simp add: default_retry_policy_def demo_settings_def)
  from retry_engine_outcome [OF run N] have "e = Inr ''ok'' \<or> e = Inl (RetryExhaustedError 3 TimeoutErr)"
    by (auto simp: default_retry_policy_def split: if_splits)
  with run show ?thesis by blast
qed

text \<open>
  A jittered backoff never exceeds the capped exponential delay and is never negative, for
  any random source with values in the unit interval.
\<close>

theorem backoff_is_bounded:
  assumes "compute_backoff n b m j uniform s = (Inr d, t)" "fair_dice s" "0 \<le> b" "0 \<le> m"
  shows "0 \<le> d \<and> d \<le> m \<and> d \<le> b * 2 ^ (n - 1)"
  using compute_backoff_uniform_bounds [OF assms] by simp

theorem backoff_is_bounded_witness:
  "\<exists>d t. compute_backoff 3 (1 / 2) 30 True uniform (empty_world\<lparr>dice := (\<lambda>n. 3 / 4)\<rparr>) = (Inr d, t) \<and>
     0 \<le> d \<and> d \<le> 2"
proof -
  let ?s = "empty_world\<lparr>dice := (\<lambda>n. 3 / 4)\<rparr>"
  have "\<exists>d. fst (compute_backoff 3 (1 / 2) 30 True uniform ?s) = Inr d"
    by (rule compute_backoff_no_overflow) simp
  then obtain d t where c: "compute_backoff 3 (1 / 2) 30 True uniform ?s = (Inr d, t)"
    by (metis prod.collapse)
  have "fair_dice ?s" by (simp add: fair_dice_def)
  from backoff_is_bounded [OF c this] c show ?thesis by auto
qed

end
