(* ===== verification/I18n.thy ===== *)
theory I18n
  imports Prelude
begin

section \<open>Locales\<close>

text \<open>\<open>app/shared/i18n.py\<close>: the platform's two locales and the lenient parser for their names.\<close>

datatype lang = EN | AR

fun lang_value :: "lang \<Rightarrow> string" where
  "lang_value EN = ''en''"
| "lang_value AR = ''ar''"

definition DEFAULT_LOCALE :: lang where
  "DEFAULT_LOCALE = EN"

definition resolve_locale :: "string option \<Rightarrow> lang \<Rightarrow> lang" where
  "resolve_locale value dflt =
     (case value of
        None \<Rightarrow> dflt
      | Some v \<Rightarrow>
          if v = [] then dflt
          else
            let candidate = take 2 (lower (strip v)) in
            if candidate = ''en'' then EN else if candidate = ''ar'' then AR else dflt)"

lemma resolve_locale_value: "resolve_locale (Some (lang_value l)) d = l"
  by (cases l) (simp_all add: resolve_locale_def lower_def strip_def is_space_def lower_char_def
      code_def Let_def)

end
