(* ===== verification/Nudge.thy ===== *)
theory Nudge
  imports Wf_Utils I18n
begin

section \<open>The nudge service\<close>

text \<open>
  \<open>app/services/nudge\<close>: reminder sequences with one lazily scheduled reminder at a time, the
  worker tick that drains due reminders, suppression, cancellation and escalation. The store,
  the schedule provider, the event bus and the audit log are the in-memory ones; the delivery
  port (\<open>NotificationDispatcher\<close>) is a parameter \<open>dispatch\<close> over its own state.
\<close>

subsection \<open>Enumerations, errors, models\<close>

datatype seq_status = Q_ACTIVE | Q_SUPPRESSED | Q_COMPLETED | Q_ESCALATED | Q_CANCELLED

definition SEQUENCE_TERMINAL :: "seq_status list" where
  "SEQUENCE_TERMINAL = [Q_SUPPRESSED, Q_COMPLETED, Q_ESCALATED, Q_CANCELLED]"

datatype rem_status = M_SCHEDULED | M_RETRYING | M_SENT | M_FAILED | M_SUPPRESSED | M_CANCELLED

definition REMINDER_DUE_STATUSES :: "rem_status list" where
  "REMINDER_DUE_STATUSES = [M_SCHEDULED, M_RETRYING]"

datatype nudge_exn =
    ScheduleNotFoundError string
  | SequenceNotFoundError string
  | BackoffError wf_exn

record nudge_step =
  k_offset :: int
  k_channels :: "channel list"
  k_template :: string
  k_escalate :: bool

record schedule =
  h_reason :: string
  h_steps :: "nudge_step list"
  h_max_attempts :: int

record nudge_seq =
  q_id :: string
  q_reason :: string
  q_targets :: "(channel, string) dict"
  q_target_ref :: "string option"
  q_variables :: payload
  q_locale :: lang
  q_status :: seq_status
  q_step :: nat
  q_base :: int
  q_corr :: "string option"
  q_created :: int
  q_updated :: int

record reminder =
  m_id :: string
  m_seq :: string
  m_step :: nat
  m_at :: int
  m_channels :: "channel list"
  m_template :: string
  m_escalate :: bool
  m_status :: rem_status
  m_attempts :: int
  m_last_error :: "string option"
  m_created :: int
  m_updated :: int
  m_sent_at :: "int option"

datatype nudge_event_type =
    NE_SEQUENCE_STARTED | NE_SEQUENCE_COMPLETED | NE_REMINDER_SCHEDULED | NE_REMINDER_SENT
  | NE_REMINDER_RETRYING | NE_REMINDER_FAILED | NE_SEQUENCE_SUPPRESSED | NE_SEQUENCE_ESCALATED
  | NE_SEQUENCE_CANCELLED

record nudge_event =
  v_id :: string
  v_type :: nudge_event_type
  v_at :: int
  v_seq :: string
  v_rem :: "string option"
  v_reason :: string
  v_target_ref :: "string option"
  v_payload :: payload

record nudge_audit =
  u_id :: string
  u_at :: int
  u_seq :: string
  u_rem :: "string option"
  u_action :: string
  u_detail :: payload

text \<open>
  \<open>NudgeConfig\<close> with the delivery port: \<open>cf_dispatch channel identity template variables locale
  correlation\<close> acts on the port's own state and may fail with the text of its exception.
  \<open>cf_iso\<close> is \<open>datetime.isoformat\<close>.
\<close>

record 'd nudge_config =
  cf_base_delay :: real
  cf_max_delay :: real
  cf_jitter :: bool
  cf_locale :: lang
  cf_iso :: "int \<Rightarrow> string"
  cf_dispatch ::
    "channel \<Rightarrow> string \<Rightarrow> string \<Rightarrow> payload \<Rightarrow> lang \<Rightarrow> string option \<Rightarrow> 'd \<Rightarrow> (string + unit) \<times> 'd"

record 'd nudge_state = base +
  schedules :: "(string, schedule) dict"
  seqs :: "(string, nudge_seq) dict"
  rems :: "(string, reminder) dict"
  nevents :: "nudge_event list"
  naudit :: "nudge_audit list"
  port :: 'd

subsection \<open>\<open>InMemoryNudgeStore\<close>\<close>

definition create_sequence :: "nudge_seq \<Rightarrow> 'd nudge_state \<Rightarrow> 'd nudge_state" where
  "create_sequence q s = s\<lparr>seqs := dput (q_id q) q (seqs s)\<rparr>"

definition get_sequence :: "string \<Rightarrow> 'd nudge_state \<Rightarrow> nudge_seq option" where
  "get_sequence i s = dget (seqs s) i"

definition save_sequence :: "nudge_seq \<Rightarrow> 'd nudge_state \<Rightarrow> nudge_seq \<times> 'd nudge_state" where
  "save_sequence q s =
     (let q' = q\<lparr>q_updated := utcnow s\<rparr>
      in (q', (tick s)\<lparr>seqs := dput (q_id q') q' (seqs s)\<rparr>))"

definition seq_live :: "nudge_seq \<Rightarrow> bool" where
  "seq_live q = (q_status q \<notin> set SEQUENCE_TERMINAL)"

definition find_active_sequence :: "string \<Rightarrow> string \<Rightarrow> 'd nudge_state \<Rightarrow> nudge_seq option" where
  "find_active_sequence reason ref s =
     find (\<lambda>q. q_reason q = reason \<and> q_target_ref q = Some ref \<and> seq_live q) (dvals (seqs s))"

definition list_active_sequences ::
  "string option \<Rightarrow> string option \<Rightarrow> 'd nudge_state \<Rightarrow> nudge_seq list"
where
  "list_active_sequences ref identity s =
     filter (\<lambda>q. seq_live q \<and> (ref = None \<or> q_target_ref q = ref) \<and>
               (case identity of None \<Rightarrow> True | Some i \<Rightarrow> i \<in> set (dvals (q_targets q))))
       (dvals (seqs s))"

definition create_reminder :: "reminder \<Rightarrow> 'd nudge_state \<Rightarrow> 'd nudge_state" where
  "create_reminder m s = s\<lparr>rems := dput (m_id m) m (rems s)\<rparr>"

definition get_reminder :: "string \<Rightarrow> 'd nudge_state \<Rightarrow> reminder option" where
  "get_reminder i s = dget (rems s) i"

definition save_reminder :: "reminder \<Rightarrow> 'd nudge_state \<Rightarrow> reminder \<times> 'd nudge_state" where
  "save_reminder m s =
     (let m' = m\<lparr>m_updated := utcnow s\<rparr>
      in (m', (tick s)\<lparr>rems := dput (m_id m') m' (rems s)\<rparr>))"

definition is_pending :: "reminder \<Rightarrow> bool" where
  "is_pending m = (m_status m \<in> set REMINDER_DUE_STATUSES)"

definition list_due :: "int \<Rightarrow> nat \<Rightarrow> 'd nudge_state \<Rightarrow> reminder list" where
  "list_due now limit s =
     take limit (sort_key m_at (filter (\<lambda>m. is_pending m \<and> m_at m \<le> now) (dvals (rems s))))"

definition list_pending_by_sequence :: "string \<Rightarrow> 'd nudge_state \<Rightarrow> reminder list" where
  "list_pending_by_sequence i s = filter (\<lambda>m. m_seq m = i \<and> is_pending m) (dvals (rems s))"

definition list_by_sequence :: "string \<Rightarrow> 'd nudge_state \<Rightarrow> reminder list" where
  "list_by_sequence i s = sort_key m_step (filter (\<lambda>m. m_seq m = i) (dvals (rems s)))"

definition seq_core :: "nudge_seq \<Rightarrow> nudge_seq" where
  "seq_core q = q\<lparr>q_updated := 0\<rparr>"

definition rem_core :: "reminder \<Rightarrow> reminder" where
  "rem_core m = m\<lparr>m_updated := 0\<rparr>"

interpretation seq_store: entity_store q_id seq_core get_sequence create_sequence save_sequence
  by unfold_locales
    (simp_all add: create_sequence_def save_sequence_def get_sequence_def seq_core_def Let_def)

interpretation rem_store: entity_store m_id rem_core get_reminder create_reminder save_reminder
  by unfold_locales
    (simp_all add: create_reminder_def save_reminder_def get_reminder_def rem_core_def Let_def)

subsection \<open>Schedules, events, audit\<close>

definition add_schedule :: "schedule \<Rightarrow> 'd nudge_state \<Rightarrow> 'd nudge_state" where
  "add_schedule h s = s\<lparr>schedules := dput (h_reason h) h (schedules s)\<rparr>"

definition get_schedule :: "string \<Rightarrow> 'd nudge_state \<Rightarrow> nudge_exn + schedule" where
  "get_schedule reason s =
     (case dget (schedules s) reason of
        None \<Rightarrow> Inl (ScheduleNotFoundError reason) | Some h \<Rightarrow> Inr h)"

definition nemit ::
  "nudge_event_type \<Rightarrow> nudge_seq \<Rightarrow> reminder option \<Rightarrow> payload \<Rightarrow> 'd nudge_state \<Rightarrow> 'd nudge_state"
where
  "nemit ty q m pl s =
     (tick (mint s))\<lparr>nevents := nevents s @
        [\<lparr>v_id = new_id ''nevt'' s, v_type = ty, v_at = utcnow s, v_seq = q_id q,
          v_rem = map_option m_id m, v_reason = q_reason q, v_target_ref = q_target_ref q,
          v_payload = pl\<rparr>]\<rparr>"

definition nrecord ::
  "string \<Rightarrow> string \<Rightarrow> string option \<Rightarrow> payload \<Rightarrow> 'd nudge_state \<Rightarrow> 'd nudge_state"
where
  "nrecord qid action mid detail s =
     (tick (mint s))\<lparr>naudit := naudit s @
        [\<lparr>u_id = new_id ''naud'' s, u_at = utcnow s, u_seq = qid, u_rem = mid, u_action = action,
          u_detail = detail\<rparr>]\<rparr>"

definition list_for_sequence :: "string \<Rightarrow> 'd nudge_state \<Rightarrow> nudge_audit list" where
  "list_for_sequence qid s = filter (\<lambda>e. u_seq e = qid) (naudit s)"

subsection \<open>Scheduling a step\<close>

definition schedule_step ::
  "'d nudge_config \<Rightarrow> nudge_seq \<Rightarrow> schedule \<Rightarrow> nat \<Rightarrow> 'd nudge_state \<Rightarrow> nudge_seq \<times> 'd nudge_state"
where
  "schedule_step cf q h i s =
     (if i \<ge> length (h_steps h) then
        let (q1, s1) = save_sequence (q\<lparr>q_status := Q_COMPLETED\<rparr>) s;
            s2 = nemit NE_SEQUENCE_COMPLETED q1 None [] s1
        in (q1, nrecord (q_id q1) ''sequence_completed'' None [] s2)
      else
        let step = h_steps h ! i;
            m = \<lparr>m_id = new_id ''nrem'' s, m_seq = q_id q, m_step = i,
                 m_at = q_base q + k_offset step * 1000000, m_channels = k_channels step,
                 m_template = k_template step, m_escalate = k_escalate step,
                 m_status = M_SCHEDULED, m_attempts = 0, m_last_error = None,
                 m_created = utcnow s, m_updated = utcnow (tick s), m_sent_at = None\<rparr>;
            s1 = create_reminder m (tick (tick (mint s)));
            (q1, s2) = save_sequence (q\<lparr>q_step := i\<rparr>) s1;
            s3 = nemit NE_REMINDER_SCHEDULED q1 (Some m)
                   [(''scheduled_for'', JStr (cf_iso cf (m_at m)))] s2
        in (q1, nrecord (q_id q1) ''reminder_scheduled'' (Some (m_id m))
                  [(''step'', JInt (int i))] s3))"

definition cancel_pending :: "nudge_seq \<Rightarrow> rem_status \<Rightarrow> 'd nudge_state \<Rightarrow> 'd nudge_state" where
  "cancel_pending q st s =
     fold (\<lambda>m w. snd (save_reminder (m\<lparr>m_status := st\<rparr>) w)) (list_pending_by_sequence (q_id q) s) s"

definition escalate :: "nudge_seq \<Rightarrow> 'd nudge_state \<Rightarrow> 'd nudge_state" where
  "escalate q s =
     (let (q1, s1) = save_sequence (q\<lparr>q_status := Q_ESCALATED\<rparr>) s;
          s2 = cancel_pending q1 M_CANCELLED s1;
          s3 = nemit NE_SEQUENCE_ESCALATED q1 None [] s2
      in nrecord (q_id q1) ''escalated'' None [] s3)"

subsection \<open>Dispatching a reminder\<close>

text \<open>
  \<open>timedelta(seconds=delay)\<close> rounds to the nearest microsecond, ties to even.
\<close>

definition py_round :: "real \<Rightarrow> int" where
  "py_round x =
     (let f = floor x in
      if x - of_int f < 1 / 2 then f
      else if x - of_int f > 1 / 2 then f + 1
      else if even f then f else f + 1)"

text \<open>The channel loop: the texts of the errors, and whether any channel accepted the reminder.\<close>

fun try_channels ::
  "'d nudge_config \<Rightarrow> reminder \<Rightarrow> nudge_seq \<Rightarrow> channel list \<Rightarrow> 'd \<Rightarrow> string list \<times> bool \<times> 'd"
where
  "try_channels cf m q [] d = ([], False, d)"
| "try_channels cf m q (c # cs) d =
     (case dget (q_targets q) c of
        None \<Rightarrow> try_channels cf m q cs d
      | Some ident \<Rightarrow>
          if ident = [] then try_channels cf m q cs d
          else
            (case cf_dispatch cf c ident (m_template m) (q_variables q) (q_locale q) (q_corr q) d of
               (Inl e, d1) \<Rightarrow>
                 let (es, sent, d2) = try_channels cf m q cs d1
                 in ((channel_value c @ '': '' @ e) # es, sent, d2)
             | (Inr u, d1) \<Rightarrow>
                 let (es, sent, d2) = try_channels cf m q cs d1 in (es, True, d2)))"

definition handle_dispatch_failure ::
  "'d nudge_config \<Rightarrow> reminder \<Rightarrow> nudge_seq \<Rightarrow> schedule \<Rightarrow> string list \<Rightarrow> 'd nudge_state \<Rightarrow>
     (nudge_exn + reminder) \<times> 'd nudge_state"
where
  "handle_dispatch_failure cf m q h errors s =
     (let m1 = m\<lparr>m_attempts := m_attempts m + 1, m_last_error := Some (join ''; '' errors)\<rparr> in
      if m_attempts m1 < h_max_attempts h then
        (case compute_backoff (nat (m_attempts m1)) (cf_base_delay cf) (cf_max_delay cf)
                (cf_jitter cf) uniform s of
           (Inl e, s1) \<Rightarrow> (Inl (BackoffError e), s1)
         | (Inr delay, s1) \<Rightarrow>
             let m2 = m1\<lparr>m_status := M_RETRYING,
                         m_at := utcnow s1 + py_round (delay * 1000000)\<rparr>;
                 (m3, s2) = save_reminder m2 (tick s1);
                 s3 = nemit NE_REMINDER_RETRYING q (Some m3)
                        [(''attempt'', JInt (m_attempts m3)), (''delay'', JReal delay)] s2
             in (Inr m3, nrecord (q_id q) ''reminder_retrying'' (Some (m_id m3))
                   [(''attempt'', JInt (m_attempts m3)),
                    (''error'', JStr (join ''; '' errors))] s3))
      else
        let (m2, s1) = save_reminder (m1\<lparr>m_status := M_FAILED\<rparr>) s;
            s2 = nemit NE_REMINDER_FAILED q (Some m2) [] s1;
            s3 = nrecord (q_id q) ''reminder_failed'' (Some (m_id m2))
                   [(''error'', JStr (join ''; '' errors))] s2;
            (q1, s4) = schedule_step cf q h (m_step m2 + 1) s3
        in (Inr m2, s4))"

definition dispatch_reminder ::
  "'d nudge_config \<Rightarrow> reminder \<Rightarrow> nudge_seq \<Rightarrow> schedule \<Rightarrow> 'd nudge_state \<Rightarrow>
     (nudge_exn + reminder) \<times> 'd nudge_state"
where
  "dispatch_reminder cf m q h s =
     (let (errors, sent_any, d1) = try_channels cf m q (m_channels m) (port s);
          s1 = s\<lparr>port := d1\<rparr>
      in if errors \<noteq> [] \<and> \<not> sent_any then handle_dispatch_failure cf m q h errors s1
         else
           let (m1, s2) = save_reminder
                 (m\<lparr>m_status := M_SENT, m_sent_at := Some (utcnow s1), m_last_error := None\<rparr>) (tick s1);
               s3 = nemit NE_REMINDER_SENT q (Some m1) [] s2;
               s4 = nrecord (q_id q) ''reminder_sent'' (Some (m_id m1)) [] s3
           in if m_escalate m1 then (Inr m1, escalate q s4)
              else (Inr m1, snd (schedule_step cf q h (m_step m1 + 1) s4)))"

subsection \<open>Public operations\<close>

definition start_sequence ::
  "'d nudge_config \<Rightarrow> string \<Rightarrow> (channel, string) dict \<Rightarrow> payload \<Rightarrow> string option \<Rightarrow> lang option \<Rightarrow>
     int option \<Rightarrow> string option \<Rightarrow> 'd nudge_state \<Rightarrow> (nudge_exn + nudge_seq) \<times> 'd nudge_state"
where
  "start_sequence cf reason targets variables ref loc base_time corr s =
     (case (case ref of None \<Rightarrow> None | Some t \<Rightarrow> find_active_sequence reason t s) of
        Some existing \<Rightarrow> (Inr existing, s)
      | None \<Rightarrow>
          (case get_schedule reason s of
             Inl e \<Rightarrow> (Inl e, s)
           | Inr h \<Rightarrow>
               let (b, s1) = (case base_time of Some t \<Rightarrow> (t, s) | None \<Rightarrow> (utcnow s, tick s));
                   q = \<lparr>q_id = new_id ''nseq'' s1, q_reason = reason, q_targets = targets,
                        q_target_ref = ref, q_variables = variables,
                        q_locale = (case loc of Some l \<Rightarrow> l | None \<Rightarrow> cf_locale cf),
                        q_status = Q_ACTIVE, q_step = 0, q_base = b, q_corr = corr,
                        q_created = utcnow s1, q_updated = utcnow (tick s1)\<rparr>;
                   s2 = create_sequence q (tick (tick (mint s1)));
                   s3 = nemit NE_SEQUENCE_STARTED q None [] s2;
                   s4 = nrecord (q_id q) ''sequence_started'' None [(''reason'', JStr reason)] s3;
                   (q1, s5) = schedule_step cf q h 0 s4
               in (Inr q1, s5)))"

fun run_each ::
  "'d nudge_config \<Rightarrow> reminder list \<Rightarrow> 'd nudge_state \<Rightarrow> (nudge_exn + reminder list) \<times> 'd nudge_state"
where
  "run_each cf [] s = (Inr [], s)"
| "run_each cf (m # ms) s =
     (case get_sequence (m_seq m) s of
        None \<Rightarrow> run_each cf ms (snd (save_reminder (m\<lparr>m_status := M_SUPPRESSED\<rparr>) s))
      | Some q \<Rightarrow>
          if q_status q \<in> set SEQUENCE_TERMINAL
          then run_each cf ms (snd (save_reminder (m\<lparr>m_status := M_SUPPRESSED\<rparr>) s))
          else
            (case get_schedule (q_reason q) s of
               Inl e \<Rightarrow> (Inl e, s)
             | Inr h \<Rightarrow>
                 (case dispatch_reminder cf m q h s of
                    (Inl e, s1) \<Rightarrow> (Inl e, s1)
                  | (Inr m1, s1) \<Rightarrow>
                      (case run_each cf ms s1 of
                         (Inl e, s2) \<Rightarrow> (Inl e, s2)
                       | (Inr out, s2) \<Rightarrow> (Inr (m1 # out), s2)))))"

definition run_due ::
  "'d nudge_config \<Rightarrow> int option \<Rightarrow> nat \<Rightarrow> 'd nudge_state \<Rightarrow>
     (nudge_exn + reminder list) \<times> 'd nudge_state"
where
  "run_due cf now limit s =
     (let (t, s1) = (case now of Some t \<Rightarrow> (t, s) | None \<Rightarrow> (utcnow s, tick s))
      in run_each cf (list_due t limit s1) s1)"

definition require_sequence :: "string \<Rightarrow> 'd nudge_state \<Rightarrow> nudge_exn + nudge_seq" where
  "require_sequence i s =
     (case get_sequence i s of None \<Rightarrow> Inl (SequenceNotFoundError i) | Some q \<Rightarrow> Inr q)"

definition suppress ::
  "string \<Rightarrow> string \<Rightarrow> 'd nudge_state \<Rightarrow> (nudge_exn + nudge_seq) \<times> 'd nudge_state"
where
  "suppress i reason s =
     (case require_sequence i s of
        Inl e \<Rightarrow> (Inl e, s)
      | Inr q \<Rightarrow>
          if q_status q \<in> set SEQUENCE_TERMINAL then (Inr q, s)
          else
            let (q1, s1) = save_sequence (q\<lparr>q_status := Q_SUPPRESSED\<rparr>) s;
                s2 = cancel_pending q1 M_SUPPRESSED s1;
                s3 = nemit NE_SEQUENCE_SUPPRESSED q1 None [(''reason'', JStr reason)] s2
            in (Inr q1, nrecord i ''suppressed'' None [(''reason'', JStr reason)] s3))"

fun suppress_each ::
  "string option \<Rightarrow> nudge_seq list \<Rightarrow> 'd nudge_state \<Rightarrow>
     (nudge_exn + nudge_seq list) \<times> 'd nudge_state"
where
  "suppress_each reason [] s = (Inr [], s)"
| "suppress_each reason (q # qs) s =
     (if reason \<noteq> None \<and> reason \<noteq> Some (q_reason q) then suppress_each reason qs s
      else
        (case suppress (q_id q) ''completed'' s of
           (Inl e, s1) \<Rightarrow> (Inl e, s1)
         | (Inr q1, s1) \<Rightarrow>
             (case suppress_each reason qs s1 of
                (Inl e, s2) \<Rightarrow> (Inl e, s2)
              | (Inr out, s2) \<Rightarrow> (Inr (q1 # out), s2))))"

definition suppress_matching ::
  "string option \<Rightarrow> string option \<Rightarrow> string option \<Rightarrow> 'd nudge_state \<Rightarrow>
     (nudge_exn + nudge_seq list) \<times> 'd nudge_state"
where
  "suppress_matching ref identity reason s =
     suppress_each reason (list_active_sequences ref identity s) s"

definition cancel :: "string \<Rightarrow> 'd nudge_state \<Rightarrow> (nudge_exn + nudge_seq) \<times> 'd nudge_state" where
  "cancel i s =
     (case require_sequence i s of
        Inl e \<Rightarrow> (Inl e, s)
      | Inr q \<Rightarrow>
          if q_status q \<in> set SEQUENCE_TERMINAL then (Inr q, s)
          else
            let (q1, s1) = save_sequence (q\<lparr>q_status := Q_CANCELLED\<rparr>) s;
                s2 = cancel_pending q1 M_CANCELLED s1;
                s3 = nemit NE_SEQUENCE_CANCELLED q1 None [] s2
            in (Inr q1, nrecord i ''cancelled'' None [] s3))"

end
