(* ===== verification/Nudge_Inv.thy ===== *)
theory Nudge_Inv
  imports Nudge
begin

section \<open>The invariant of the nudge service\<close>

text \<open>
  Lazy scheduling: a live sequence has exactly one pending reminder, the one of its current step,
  no other sequence has any, and a (reason, target) pair has at most one live sequence.
  \<open>nudge_ok (Some i)\<close> is the state between two steps of sequence \<open>i\<close>, when its pending
  reminder is settled and the next one is not yet scheduled.
\<close>

subsection \<open>Pending reminders\<close>

definition pend :: "'d nudge_state \<Rightarrow> string \<Rightarrow> string set" where
  "pend s i = {k. \<exists>m. dget (rems s) k = Some m \<and> m_seq m = i \<and> is_pending m}"

lemma pend_frame: "rems t = rems s \<Longrightarrow> pend t i = pend s i"
  by (simp add: pend_def)

definition issued :: "string \<Rightarrow> string \<Rightarrow> 'd nudge_state \<Rightarrow> bool" where
  "issued p i s \<longleftrightarrow> (\<exists>n < minted s. i = p @ entropy s n)"

lemma issued_frame:
  "entropy t = entropy s \<Longrightarrow> minted s \<le> minted t \<Longrightarrow> issued p i s \<Longrightarrow> issued p i t"
  unfolding issued_def by (metis order_less_le_trans)

lemma issued_fresh: "inj (entropy s) \<Longrightarrow> issued p i s \<Longrightarrow> i \<noteq> p @ entropy s (minted s)"
  unfolding issued_def by (auto simp: inj_eq)

definition tables_ok :: "'d nudge_state \<Rightarrow> bool" where
  "tables_ok s \<longleftrightarrow>
     distinct (dkeys (seqs s)) \<and> distinct (dkeys (rems s)) \<and> inj (entropy s) \<and>
     (\<forall>i q. dget (seqs s) i = Some q \<longrightarrow> q_id q = i \<and> issued ''nseq_'' i s) \<and>
     (\<forall>k m. dget (rems s) k = Some m \<longrightarrow> m_id m = k \<and> issued ''nrem_'' k s)"

definition one_pending :: "'d nudge_state \<Rightarrow> string \<Rightarrow> nudge_seq \<Rightarrow> bool" where
  "one_pending s i q \<longleftrightarrow>
     (\<exists>k m. pend s i = {k} \<and> dget (rems s) k = Some m \<and> m_step m = q_step q)"

definition slot :: "string option \<Rightarrow> 'd nudge_state \<Rightarrow> string \<Rightarrow> bool" where
  "slot e s i \<longleftrightarrow>
     (case dget (seqs s) i of
        None \<Rightarrow> pend s i = {}
      | Some q \<Rightarrow>
          if seq_live q \<and> e \<noteq> Some i
          then one_pending s i q
          else pend s i = {})"

definition single_live :: "'d nudge_state \<Rightarrow> bool" where
  "single_live s \<longleftrightarrow>
     (\<forall>i j q q'. dget (seqs s) i = Some q \<longrightarrow> dget (seqs s) j = Some q' \<longrightarrow> seq_live q \<longrightarrow>
        seq_live q' \<longrightarrow> q_reason q = q_reason q' \<longrightarrow> q_target_ref q = q_target_ref q' \<longrightarrow>
        q_target_ref q \<noteq> None \<longrightarrow> i = j)"

definition nudge_ok :: "string option \<Rightarrow> 'd nudge_state \<Rightarrow> bool" where
  "nudge_ok e s \<longleftrightarrow> tables_ok s \<and> (\<forall>i. slot e s i) \<and> single_live s"

lemma nudge_okI:
  "tables_ok s \<Longrightarrow> (\<And>i. slot e s i) \<Longrightarrow> single_live s \<Longrightarrow> nudge_ok e s"
  by (simp add: nudge_ok_def)

lemma nudge_okD: "nudge_ok e s \<Longrightarrow> tables_ok s" "nudge_ok e s \<Longrightarrow> slot e s i"
  "nudge_ok e s \<Longrightarrow> single_live s"
  by (simp_all add: nudge_ok_def)

lemma seq_key: "tables_ok s \<Longrightarrow> dget (seqs s) i = Some q \<Longrightarrow> q_id q = i"
  by (simp add: tables_ok_def)

lemma rem_key: "tables_ok s \<Longrightarrow> dget (rems s) k = Some m \<Longrightarrow> m_id m = k"
  by (simp add: tables_ok_def)

lemma tables_okD:
  assumes "tables_ok s"
  shows "distinct (dkeys (seqs s))" "distinct (dkeys (rems s))" "inj (entropy s)"
    and "dget (seqs s) i = Some q \<Longrightarrow> q_id q = i \<and> issued ''nseq_'' i s"
    and "dget (rems s) k = Some m \<Longrightarrow> m_id m = k \<and> issued ''nrem_'' k s"
  using assms by (simp_all add: tables_ok_def)

lemma tables_okI:
  assumes "distinct (dkeys (seqs s))" "distinct (dkeys (rems s))" "inj (entropy s)"
    and "\<And>i q. dget (seqs s) i = Some q \<Longrightarrow> q_id q = i \<and> issued ''nseq_'' i s"
    and "\<And>k m. dget (rems s) k = Some m \<Longrightarrow> m_id m = k \<and> issued ''nrem_'' k s"
  shows "tables_ok s"
  using assms by (simp add: tables_ok_def)

lemma fresh_nid:
  assumes "tables_ok s"
  shows "dget (rems s) (new_id ''nrem'' s) = None" "dget (seqs s) (new_id ''nseq'' s) = None"
proof -
  note fr = issued_fresh [OF tables_okD(3) [OF assms]]
  show "dget (rems s) (new_id ''nrem'' s) = None"
    using tables_okD(5) [OF assms] fr [of "''nrem_''"]
    by (cases "dget (rems s) (new_id ''nrem'' s)") (force simp: new_id_def)+
  show "dget (seqs s) (new_id ''nseq'' s) = None"
    using tables_okD(4) [OF assms] fr [of "''nseq_''"]
    by (cases "dget (seqs s) (new_id ''nseq'' s)") (force simp: new_id_def)+
qed

lemma tables_frame:
  assumes "tables_ok s" "seqs t = seqs s" "rems t = rems s" "entropy t = entropy s"
    and "minted s \<le> minted t"
  shows "tables_ok t"
  by (rule tables_okI; unfold assms(2-4))
    (use tables_okD [OF assms(1)] issued_frame [OF assms(4,5)] in blast)+

lemma slot_frame:
  assumes "seqs t = seqs s" "rems t = rems s"
  shows "slot e t i = slot e s i"
  by (simp add: slot_def one_pending_def assms pend_frame [OF assms(2)] split: option.split)

lemma nudge_ok_frame:
  assumes "nudge_ok e s" "seqs t = seqs s" "rems t = rems s" "entropy t = entropy s"
    and "minted s \<le> minted t"
  shows "nudge_ok e t"
proof (rule nudge_okI)
  show "tables_ok t" by (rule tables_frame [OF nudge_okD(1) [OF assms(1)] assms(2-5)])
  show "slot e t i" for i using slot_frame [OF assms(2,3)] nudge_okD(2) [OF assms(1)] by blast
  show "single_live t" using nudge_okD(3) [OF assms(1)] by (simp add: single_live_def assms(2))
qed

text \<open>A pending reminder belongs to a live sequence, whose only one it is.\<close>

lemma pending_owner:
  assumes "nudge_ok None s" "dget (rems s) k = Some m" "is_pending m"
  obtains q where "dget (seqs s) (m_seq m) = Some q" "seq_live q" "pend s (m_seq m) = {k}"
    "m_step m = q_step q"
proof -
  have mem: "k \<in> pend s (m_seq m)" using assms(2,3) by (auto simp: pend_def)
  with nudge_okD(2) [OF assms(1), of "m_seq m"] obtain q where
    q: "dget (seqs s) (m_seq m) = Some q" "seq_live q"
    and one: "one_pending s (m_seq m) q"
    by (auto simp: slot_def split: option.splits if_splits)
  from one [unfolded one_pending_def] mem obtain m' where "pend s (m_seq m) = {k}" "dget (rems s) k = Some m'" "m_step m' = q_step q"
    by auto
  with q assms(2) that show ?thesis by simp
qed

lemma nframes [simp]:
  "seqs (nemit ty q m pl s) = seqs s" "rems (nemit ty q m pl s) = rems s"
  "entropy (nemit ty q m pl s) = entropy s" "minted (nemit ty q m pl s) = Suc (minted s)"
  "seqs (nrecord i a m' pl s) = seqs s" "rems (nrecord i a m' pl s) = rems s"
  "entropy (nrecord i a m' pl s) = entropy s" "minted (nrecord i a m' pl s) = Suc (minted s)"
  "seqs (tick s) = seqs s" "rems (tick s) = rems s" "seqs (mint s) = seqs s" "rems (mint s) = rems s"
  "schedules (tick s) = schedules s" "schedules (mint s) = schedules s"
  "schedules (nemit ty q m pl s) = schedules s" "schedules (nrecord i a m' pl s) = schedules s"
  by (simp_all add: nemit_def nrecord_def tick_def mint_def)

lemma save_seq_simps [simp]:
  "seqs (snd (save_sequence q s)) = dput (q_id q) (fst (save_sequence q s)) (seqs s)"
  "rems (snd (save_sequence q s)) = rems s" "entropy (snd (save_sequence q s)) = entropy s"
  "minted (snd (save_sequence q s)) = minted s" "schedules (snd (save_sequence q s)) = schedules s"
  "q_id (fst (save_sequence q s)) = q_id q" "q_status (fst (save_sequence q s)) = q_status q"
  "q_step (fst (save_sequence q s)) = q_step q" "q_reason (fst (save_sequence q s)) = q_reason q"
  "q_target_ref (fst (save_sequence q s)) = q_target_ref q"
  by (simp_all add: save_sequence_def Let_def)

lemma save_rem_simps [simp]:
  "rems (snd (save_reminder m s)) = dput (m_id m) (fst (save_reminder m s)) (rems s)"
  "seqs (snd (save_reminder m s)) = seqs s" "entropy (snd (save_reminder m s)) = entropy s"
  "minted (snd (save_reminder m s)) = minted s" "schedules (snd (save_reminder m s)) = schedules s"
  "m_id (fst (save_reminder m s)) = m_id m" "m_status (fst (save_reminder m s)) = m_status m"
  "m_step (fst (save_reminder m s)) = m_step m" "m_seq (fst (save_reminder m s)) = m_seq m"
  "m_escalate (fst (save_reminder m s)) = m_escalate m"
  "m_attempts (fst (save_reminder m s)) = m_attempts m" "m_at (fst (save_reminder m s)) = m_at m"
  by (simp_all add: save_reminder_def Let_def)

lemma seq_live_save [simp]: "seq_live (fst (save_sequence q s)) = seq_live q"
  by (simp add: seq_live_def)

lemma is_pending_save [simp]: "is_pending (fst (save_reminder m s)) = is_pending m"
  by (simp add: is_pending_def)

lemma seq_live_iff: "seq_live q \<longleftrightarrow> q_status q = Q_ACTIVE"
  by (cases "q_status q") (simp_all add: seq_live_def SEQUENCE_TERMINAL_def)

lemma is_pending_iff: "is_pending m \<longleftrightarrow> m_status m = M_SCHEDULED \<or> m_status m = M_RETRYING"
  by (cases "m_status m") (simp_all add: is_pending_def REMINDER_DUE_STATUSES_def)

text \<open>Overwriting one reminder, whatever it was.\<close>

lemma pend_put:
  assumes "rems t = dput k m (rems s)" and "\<And>x. dget (rems s) k = Some x \<Longrightarrow> m_seq x = m_seq m"
  shows "pend t i = (if i = m_seq m then (if is_pending m then insert k (pend s i) else pend s i - {k})
                     else pend s i)"
  using assms by (auto simp: pend_def split: if_splits)

subsection \<open>Settling and rescheduling a reminder\<close>

lemma tables_save_rem:
  assumes "tables_ok s" "dget (rems s) (m_id m) = Some m0"
  shows "tables_ok (snd (save_reminder m s))"
proof -
  have i: "issued p i (snd (save_reminder m s)) = issued p i s" for p i by (simp add: issued_def)
  show ?thesis
    by (rule tables_okI, unfold i)
      (use tables_okD [OF assms(1)] assms(2) in \<open>auto split: if_splits\<close>)
qed

lemma settle:
  assumes "nudge_ok None s" "dget (rems s) (m_id m) = Some m0" "m_seq m0 = m_seq m" "is_pending m0"
    and "\<not> is_pending m"
  shows "nudge_ok (Some (m_seq m)) (snd (save_reminder m s))"
proof (rule nudge_okI)
  let ?t = "snd (save_reminder m s)"
  obtain q where q: "dget (seqs s) (m_seq m) = Some q" "pend s (m_seq m) = {m_id m}"
    using pending_owner [OF assms(1,2,4)] assms(3) by metis
  have p: "pend ?t i = (if i = m_seq m then {} else pend s i)" for i
    using pend_put [of ?t "m_id m" "fst (save_reminder m s)" s i] assms(2,3,5) q(2) by auto
  show "tables_ok ?t" by (rule tables_save_rem [OF nudge_okD(1) [OF assms(1)] assms(2)])
  show "single_live ?t" using nudge_okD(3) [OF assms(1)] by (simp add: single_live_def)
  show "slot (Some (m_seq m)) ?t i" for i
  proof (cases "i = m_seq m")
    case True
    with q show ?thesis by (simp add: slot_def p)
  next
    case False
    have "k \<noteq> m_id m" if "pend s i = {k}" for k
    proof
      assume "k = m_id m"
      with that have "m_id m \<in> pend s i" by simp
      with False assms(2,3) show False by (simp add: pend_def)
    qed
    then have one: "one_pending ?t i x" if "one_pending s i x" for x
      using that False unfolding one_pending_def p by fastforce
    from nudge_okD(2) [OF assms(1), of i] False show ?thesis
      by (cases "dget (seqs s) i") (simp_all add: slot_def p one split: if_splits)
  qed
qed

lemma retry_keeps:
  assumes "nudge_ok None s" "dget (rems s) (m_id m) = Some m0" "m_seq m0 = m_seq m" "is_pending m0"
    and "is_pending m" "m_step m = m_step m0"
  shows "nudge_ok None (snd (save_reminder m s))"
proof (rule nudge_okI)
  let ?t = "snd (save_reminder m s)"
  have "m_id m \<in> pend s (m_seq m)" using assms(2-4) by (auto simp: pend_def)
  then have p: "pend ?t i = pend s i" for i
    using pend_put [of ?t "m_id m" "fst (save_reminder m s)" s i] assms(2,3,5) by auto
  show "tables_ok ?t" by (rule tables_save_rem [OF nudge_okD(1) [OF assms(1)] assms(2)])
  show "single_live ?t" using nudge_okD(3) [OF assms(1)] by (simp add: single_live_def)
  have one: "one_pending s i x \<Longrightarrow> one_pending ?t i x" for i x
    using assms(2,6) unfolding one_pending_def p by fastforce
  show "slot None ?t i" for i
    using nudge_okD(2) [OF assms(1), of i]
    by (cases "dget (seqs s) i") (simp_all add: slot_def p one split: if_splits)
qed

subsection \<open>Moving on\<close>

lemma tables_save_seq:
  assumes "tables_ok s" "dget (seqs s) (q_id q) = Some q0"
  shows "tables_ok (snd (save_sequence q s))"
proof -
  have i: "issued p i (snd (save_sequence q s)) = issued p i s" for p i by (simp add: issued_def)
  show ?thesis
    by (rule tables_okI, unfold i)
      (use tables_okD [OF assms(1)] assms(2) in \<open>auto split: if_splits\<close>)
qed

lemma single_save_seq:
  assumes "single_live s" "dget (seqs s) (q_id q) = Some q0"
    and "seq_live q \<Longrightarrow> seq_live q0" "q_reason q = q_reason q0" "q_target_ref q = q_target_ref q0"
  shows "single_live (snd (save_sequence q s))"
  unfolding single_live_def
proof (intro allI impI)
  fix i j a b
  assume a: "dget (seqs (snd (save_sequence q s))) i = Some a" "seq_live a"
    and b: "dget (seqs (snd (save_sequence q s))) j = Some b" "seq_live b"
    and eq: "q_reason a = q_reason b" "q_target_ref a = q_target_ref b" "q_target_ref a \<noteq> None"
  have old: "\<exists>x. dget (seqs s) k = Some x \<and> seq_live x \<and> q_reason x = q_reason c \<and>
      q_target_ref x = q_target_ref c"
    if "dget (seqs (snd (save_sequence q s))) k = Some c" "seq_live c" for k c
    using that assms(2-5) by (auto split: if_splits)
  obtain x y where "dget (seqs s) i = Some x" "seq_live x" "q_reason x = q_reason a"
    "q_target_ref x = q_target_ref a" "dget (seqs s) j = Some y" "seq_live y"
    "q_reason y = q_reason b" "q_target_ref y = q_target_ref b"
    using old [OF a] old [OF b] by blast
  with assms(1) eq show "i = j" unfolding single_live_def by metis
qed

text \<open>Closing a sequence that has no pending reminder.\<close>

lemma close_seq:
  assumes "nudge_ok e s" "dget (seqs s) (q_id q) = Some q0" "pend s (q_id q) = {}"
    and "\<not> seq_live q" "q_reason q = q_reason q0" "q_target_ref q = q_target_ref q0"
    and "e = None \<or> e = Some (q_id q)"
  shows "nudge_ok None (snd (save_sequence q s))"
proof (rule nudge_okI)
  let ?t = "snd (save_sequence q s)"
  have p: "pend ?t i = pend s i" for i by (rule pend_frame) simp
  show "tables_ok ?t" by (rule tables_save_seq [OF nudge_okD(1) [OF assms(1)] assms(2)])
  show "single_live ?t"
    by (rule single_save_seq [OF nudge_okD(3) [OF assms(1)] assms(2)]) (use assms in simp_all)
  have one: "one_pending ?t i x = one_pending s i x" for i x
    by (simp add: one_pending_def p)
  show "slot None ?t i" for i
    using nudge_okD(2) [OF assms(1), of i] assms(3,4,7)
    by (auto simp: slot_def p one split: option.splits if_splits)
qed

subsection \<open>What one operation may write\<close>

text \<open>
  An operation on sequence \<open>i\<close> writes no other sequence, no closed sequence, and no reminder that is
  settled or belongs to another sequence.
\<close>

definition confined :: "string \<Rightarrow> 'd nudge_state \<Rightarrow> 'd nudge_state \<Rightarrow> bool" where
  "confined i s t \<longleftrightarrow>
     (\<forall>j q. dget (seqs s) j = Some q \<and> (j \<noteq> i \<or> \<not> seq_live q) \<longrightarrow> dget (seqs t) j = Some q) \<and>
     (\<forall>k m. dget (rems s) k = Some m \<and> (m_seq m \<noteq> i \<or> \<not> is_pending m) \<longrightarrow>
        dget (rems t) k = Some m) \<and>
     (dget (seqs s) i \<noteq> None \<longrightarrow> dget (seqs t) i \<noteq> None)"

lemma confined_refl [simp]: "confined i s s"
  by (simp add: confined_def)

lemma confined_trans: "confined i s t \<Longrightarrow> confined i t u \<Longrightarrow> confined i s u"
  unfolding confined_def by blast

lemma confined_frame: "seqs t = seqs s \<Longrightarrow> rems t = rems s \<Longrightarrow> confined i s t"
  by (simp add: confined_def)

lemma confined_frame_right:
  assumes "confined i s t" "seqs u = seqs t" "rems u = rems t"
  shows "confined i s u"
  using assms(1) by (simp add: confined_def assms(2,3))

lemma confined_save_rem:
  assumes "dget (rems s) (m_id m) = Some m0" "m_seq m0 = i" "is_pending m0"
  shows "confined i s (snd (save_reminder m s))"
  using assms by (auto simp: confined_def)

lemma confined_save_seq:
  assumes "dget (seqs s) (q_id q) = Some q0" "seq_live q0"
  shows "confined (q_id q) s (snd (save_sequence q s))"
  using assms by (auto simp: confined_def)

subsection \<open>Scheduling the next step\<close>

lemma schedule_step_ok:
  assumes "nudge_ok (Some (q_id q)) s" "dget (seqs s) (q_id q) = Some q0" "seq_live q0" "seq_live q"
    and "q_reason q = q_reason q0" "q_target_ref q = q_target_ref q0"
    and "schedule_step cf q h n s = (q1, t)"
  shows "nudge_ok None t \<and> confined (q_id q) s t \<and> dget (seqs t) (q_id q) = Some q1 \<and>
    (seq_live q1 \<longleftrightarrow> n < length (h_steps h))"
proof (cases "n < length (h_steps h)")
  case False
  let ?q = "q\<lparr>q_status := Q_COMPLETED\<rparr>"
  have dead: "\<not> seq_live ?q" by (simp add: seq_live_iff)
  have p: "pend s (q_id ?q) = {}"
    using nudge_okD(2) [OF assms(1), of "q_id q"] assms(2) by (simp add: slot_def)
  have ok: "nudge_ok None (snd (save_sequence ?q s))"
    by (rule close_seq [OF assms(1) _ p dead]) (use assms in simp_all)
  have w: "confined (q_id q) s (snd (save_sequence ?q s))"
    using confined_save_seq [of s ?q q0] assms(2,3) by simp
  from assms(7) False have t: "q1 = fst (save_sequence ?q s)"
    "t = nrecord (q_id q1) ''sequence_completed'' None []
      (nemit NE_SEQUENCE_COMPLETED q1 None [] (snd (save_sequence ?q s)))"
    by (auto simp: schedule_step_def split_beta)
  have "nudge_ok None t" by (rule nudge_ok_frame [OF ok]) (simp_all add: t(2))
  moreover have "confined (q_id q) s t" by (rule confined_frame_right [OF w]) (simp_all add: t(2))
  ultimately show ?thesis using dead False t by simp
next
  case True
  define m where "m = \<lparr>m_id = new_id ''nrem'' s, m_seq = q_id q, m_step = n,
      m_at = q_base q + k_offset (h_steps h ! n) * 1000000, m_channels = k_channels (h_steps h ! n),
      m_template = k_template (h_steps h ! n), m_escalate = k_escalate (h_steps h ! n),
      m_status = M_SCHEDULED, m_attempts = 0, m_last_error = None,
      m_created = utcnow s, m_updated = utcnow (tick s), m_sent_at = None\<rparr>"
  have mm: "m_id m = new_id ''nrem'' s"
    "m_at m = q_base q + k_offset (h_steps h ! n) * 1000000" by (simp_all add: m_def)
  let ?s1 = "create_reminder m (tick (tick (mint s)))"
  let ?q = "q\<lparr>q_step := n\<rparr>"
  define w where "w = snd (save_sequence ?q ?s1)"
  from assms(7) True have t: "q1 = fst (save_sequence ?q ?s1)"
    "t = nrecord (q_id q1) ''reminder_scheduled'' (Some (m_id m)) [(''step'', JInt (int n))]
      (nemit NE_REMINDER_SCHEDULED q1 (Some m) [(''scheduled_for'', JStr (cf_iso cf (m_at m)))] w)"
    by (auto simp: schedule_step_def split_beta Let_def m_def [symmetric] w_def [symmetric] mm)
  note T = nudge_okD(1) [OF assms(1)]
  have fresh: "dget (rems s) (m_id m) = None" using fresh_nid(1) [OF T] by (simp add: m_def)
  have m: "m_seq m = q_id q" "is_pending m" "m_step m = n" "m_id m = new_id ''nrem'' s"
    by (simp_all add: m_def is_pending_iff)
  have r1: "rems ?s1 = dput (m_id m) m (rems s)" "seqs ?s1 = seqs s" "entropy ?s1 = entropy s"
    "minted ?s1 = Suc (minted s)" by (simp_all add: create_reminder_def)
  have lives: "seq_live ?q" using assms(4) by (simp add: seq_live_def)
  have p: "pend w i = (if i = q_id q then {m_id m} else pend s i)" for i
  proof -
    have "pend s (q_id q) = {}"
      using nudge_okD(2) [OF assms(1), of "q_id q"] assms(2) by (simp add: slot_def)
    moreover have "pend w i = pend ?s1 i" by (rule pend_frame) (simp add: w_def)
    ultimately show ?thesis using pend_put [of ?s1 "m_id m" m s i] fresh m(1,2) r1(1) by simp
  qed
  have s2: "seqs w = dput (q_id q) q1 (seqs s)" "rems w = dput (m_id m) m (rems s)"
    "entropy w = entropy s" "minted w = Suc (minted s)"
    using r1 t(1) by (simp_all add: w_def)
  have q1: "q_id q1 = q_id q" "seq_live q1" "q_step q1 = n" using t(1) lives by simp_all
  have iss: "issued x i w" if "issued x i s" for x i
    by (rule issued_frame [OF s2(3) _ that]) (unfold s2(4), simp)
  have "nudge_ok None w"
  proof (rule nudge_okI)
    have "issued ''nrem_'' (m_id m) w"
      unfolding issued_def s2 using m(4) by (auto simp: new_id_def)
    then show "tables_ok w"
      using tables_okD [OF T] iss q1(1) assms(2)
      by (intro tables_okI) (auto simp: s2 split: if_splits)
    show "single_live w"
      unfolding w_def
      by (rule single_save_seq [of ?s1 ?q q0])
        (use assms(2-6) nudge_okD(3) [OF assms(1)] r1(2) lives in \<open>simp_all add: single_live_def\<close>)
    show "slot None w i" for i
    proof (cases "i = q_id q")
      case True
      then have "one_pending w i q1"
        unfolding one_pending_def using m(3) q1(3) by (simp add: p s2)
      with True q1(2) show ?thesis by (simp add: slot_def s2)
    next
      case False
      have one: "one_pending w i x" if "one_pending s i x" for x
        using that False fresh unfolding one_pending_def p s2 by fastforce
      from nudge_okD(2) [OF assms(1), of i] False show ?thesis
        by (cases "dget (seqs s) i") (simp_all add: slot_def p s2 one split: if_splits)
    qed
  qed
  then have "nudge_ok None t" by (rule nudge_ok_frame) (simp_all add: t(2))
  moreover have "confined (q_id q) s w"
    using assms(2,3) fresh unfolding confined_def s2 by auto
  then have "confined (q_id q) s t" by (rule confined_frame_right) (simp_all add: t(2))
  moreover have "dget (seqs t) (q_id q) = Some q1" by (simp add: t(2) s2)
  ultimately show ?thesis using q1(2) True by simp
qed

subsection \<open>Closing a sequence with its pending reminder\<close>

lemma cancel_pending_simps [simp]:
  "seqs (cancel_pending q st s) = seqs s" "entropy (cancel_pending q st s) = entropy s"
  "minted (cancel_pending q st s) = minted s" "schedules (cancel_pending q st s) = schedules s"
proof -
  have "seqs (fold (\<lambda>m w. snd (save_reminder (m\<lparr>m_status := st\<rparr>) w)) ms w) = seqs w \<and>
    entropy (fold (\<lambda>m w. snd (save_reminder (m\<lparr>m_status := st\<rparr>) w)) ms w) = entropy w \<and>
    minted (fold (\<lambda>m w. snd (save_reminder (m\<lparr>m_status := st\<rparr>) w)) ms w) = minted w \<and>
    schedules (fold (\<lambda>m w. snd (save_reminder (m\<lparr>m_status := st\<rparr>) w)) ms w) = schedules w"
    for ms and w :: "'a nudge_state" by (induction ms arbitrary: w) simp_all
  then show "seqs (cancel_pending q st s) = seqs s" "entropy (cancel_pending q st s) = entropy s"
    "minted (cancel_pending q st s) = minted s" "schedules (cancel_pending q st s) = schedules s"
    by (simp_all add: cancel_pending_def)
qed

lemma rem_vals_iff:
  assumes "tables_ok s"
  shows "x \<in> set (dvals (rems s)) \<longleftrightarrow> dget (rems s) (m_id x) = Some x"
proof
  assume "x \<in> set (dvals (rems s))"
  then obtain k where k: "dget (rems s) k = Some x"
    by (rule dict_valsE [OF tables_okD(2) [OF assms]])
  with rem_key [OF assms k] show "dget (rems s) (m_id x) = Some x" by simp
next
  assume "dget (rems s) (m_id x) = Some x"
  then have "(m_id x, x) \<in> set (rems s)" by (rule map_of_SomeD)
  then show "x \<in> set (dvals (rems s))" by force
qed

lemma pending_list_iff:
  assumes "tables_ok s"
  shows "x \<in> set (list_pending_by_sequence i s) \<longleftrightarrow>
    dget (rems s) (m_id x) = Some x \<and> m_seq x = i \<and> is_pending x"
  using rem_vals_iff [OF assms, of x] by (auto simp: list_pending_by_sequence_def)

lemma pending_list_empty:
  assumes "tables_ok s" "pend s i = {}"
  shows "list_pending_by_sequence i s = []"
proof (rule ccontr)
  assume "list_pending_by_sequence i s \<noteq> []"
  then obtain x where "x \<in> set (list_pending_by_sequence i s)" by fastforce
  with pending_list_iff [OF assms(1)] have "m_id x \<in> pend s i" unfolding pend_def by blast
  with assms(2) show False by simp
qed

lemma pending_list_one:
  assumes "tables_ok s" "pend s i = {k}"
  shows "\<exists>m. list_pending_by_sequence i s = [m] \<and> dget (rems s) k = Some m \<and> m_seq m = i \<and> m_id m = k"
proof -
  let ?l = "list_pending_by_sequence i s"
  note vals = pending_list_iff [OF assms(1), of _ i]
  from assms(2) obtain m where m: "dget (rems s) k = Some m" "m_seq m = i" "is_pending m"
    by (auto simp: pend_def)
  have id: "m_id m = k" by (rule rem_key [OF assms(1) m(1)])
  have eq: "x = m" if "x \<in> set ?l" for x
  proof -
    from that vals have x: "dget (rems s) (m_id x) = Some x" "m_seq x = i" "is_pending x" by simp_all
    then have "m_id x \<in> pend s i" by (auto simp: pend_def)
    with assms(2) x(1) m(1) show ?thesis by simp
  qed
  have mem: "m \<in> set ?l" using vals m id by simp
  have "distinct ?l"
    using keyed_values(2) [OF tables_okD(2) [OF assms(1)], of m_id, OF rem_key [OF assms(1)]]
    by (simp add: list_pending_by_sequence_def)
  moreover have "set ?l = {m}" using eq mem by blast
  ultimately have "?l = [m]" by (rule distinct_one)
  with m id show ?thesis by blast
qed

text \<open>Terminate: save the sequence in a terminal status, then settle what is pending.\<close>

lemma terminate:
  assumes "nudge_ok e s" "e = None \<or> e = Some (q_id q)" "dget (seqs s) (q_id q) = Some q0" "seq_live q0"
    and "\<not> seq_live q" "q_reason q = q_reason q0" "q_target_ref q = q_target_ref q0"
    and "st = M_SUPPRESSED \<or> st = M_CANCELLED" "save_sequence q s = (q1, s1)"
  shows "nudge_ok None (cancel_pending q1 st s1) \<and> confined (q_id q) s (cancel_pending q1 st s1)"
proof -
  have s1: "s1 = snd (save_sequence q s)" "q1 = fst (save_sequence q s)" using assms(9) by simp_all
  have id: "q_id q1 = q_id q" by (simp add: s1)
  have seqs1: "seqs s1 = dput (q_id q) q1 (seqs s)" and rems1: "rems s1 = rems s"
    and dead1: "seq_live q1 = seq_live q" by (simp_all add: s1)
  have c1: "confined (q_id q) s s1"
    unfolding s1 by (rule confined_save_seq [OF assms(3,4)])
  show ?thesis
  proof (cases "e = Some (q_id q)")
    case True
    have p: "pend s (q_id q) = {}"
      using nudge_okD(2) [OF assms(1), of "q_id q"] assms(3) True by (simp add: slot_def)
    have ok: "nudge_ok None s1"
      unfolding s1 by (rule close_seq [OF assms(1,3) p assms(5-7)]) (use True in simp)
    have "pend s1 (q_id q) = {}" using p pend_frame [of s1 s] by (simp add: s1)
    from pending_list_empty [OF nudge_okD(1) [OF ok] this] id
    have "list_pending_by_sequence (q_id q1) s1 = []" by simp
    then have "cancel_pending q1 st s1 = s1" by (simp add: cancel_pending_def)
    with ok c1 show ?thesis by simp
  next
    case False
    with assms(2) have e: "e = None" by simp
    from nudge_okD(2) [OF assms(1), of "q_id q"] assms(3,4) e obtain k where
      k: "pend s (q_id q) = {k}" by (auto simp: slot_def one_pending_def)
    have T1: "tables_ok s1"
      unfolding s1 by (rule tables_save_seq [OF nudge_okD(1) [OF assms(1)] assms(3)])
    have p1: "pend s1 i = pend s i" for i by (rule pend_frame) (simp add: s1)
    from pending_list_one [OF T1, of "q_id q" k] k p1 obtain m where
      m: "list_pending_by_sequence (q_id q) s1 = [m]" "dget (rems s1) k = Some m"
        "m_seq m = q_id q" "m_id m = k" by auto
    let ?m = "m\<lparr>m_status := st\<rparr>"
    let ?t = "snd (save_reminder ?m s1)"
    have t: "cancel_pending q1 st s1 = ?t" using m(1) id by (simp add: cancel_pending_def)
    have dead: "\<not> is_pending ?m" using assms(8) by (auto simp: is_pending_iff)
    have "k \<in> pend s1 (q_id q)" using k p1 by simp
    then have mp: "is_pending m" using m(2) by (simp add: pend_def)
    have m2: "dget (rems s1) (m_id ?m) = Some m" using m by simp
    have p: "pend ?t i = (if i = q_id q then {} else pend s i)" for i
      using pend_put [of ?t "m_id ?m" "fst (save_reminder ?m s1)" s1 i] m dead k p1 by auto
    have "nudge_ok None ?t"
    proof (rule nudge_okI)
      show "tables_ok ?t" by (rule tables_save_rem [OF T1 m2])
      have "single_live s1"
        unfolding s1 by (rule single_save_seq [OF nudge_okD(3) [OF assms(1)] assms(3)])
          (use assms in simp_all)
      then show "single_live ?t" by (simp add: single_live_def)
      show "slot None ?t i" for i
      proof (cases "i = q_id q")
        case True
        then show ?thesis using assms(5) by (simp add: slot_def p seqs1 dead1)
      next
        case False
        have "k' \<noteq> k" if "pend s i = {k'}" for k'
        proof
          assume "k' = k"
          with that have "k \<in> pend s i" by simp
          with m False show False by (simp add: pend_def s1)
        qed
        then have one: "one_pending ?t i x" if "one_pending s i x" for x
          using that False m(4) unfolding one_pending_def p by (fastforce simp: rems1)
        from nudge_okD(2) [OF assms(1), of i] False e show ?thesis
          by (cases "dget (seqs s) i") (simp_all add: slot_def p seqs1 one split: if_splits)
      qed
    qed
    moreover have "confined (q_id q) s1 ?t" by (rule confined_save_rem [OF m2 m(3) mp])
    then have "confined (q_id q) s ?t" by (rule confined_trans [OF c1])
    ultimately show ?thesis using t by simp
  qed
qed

end
