(* ===== verification/Nudge_Steps.thy ===== *)
theory Nudge_Steps
  imports Nudge_Inv
begin

section \<open>Every nudge operation keeps the invariant\<close>

text \<open>
  Dispatch, the worker tick, starting, suppressing and cancelling preserve \<open>nudge_ok\<close>, whatever
  the delivery port does; the step relation of the service collects them.
\<close>

subsection \<open>Dispatching\<close>

lemma dispatch_reminder_ok:
  fixes s t :: "'d nudge_state"
  assumes ok: "nudge_ok None s" and m: "dget (rems s) (m_id m) = Some m" "is_pending m"
    and q: "dget (seqs s) (m_seq m) = Some q"
    and run: "dispatch_reminder cf m q h s = (res, t)"
  shows "nudge_ok None t \<and> confined (m_seq m) s t \<and> schedules t = schedules s"
proof -
  have id: "q_id q = m_seq m" by (rule seq_key [OF nudge_okD(1) [OF ok] q])
  have live: "seq_live q" using pending_owner [OF ok m] q by (metis option.inject)
  obtain errors sent d1 where tc: "try_channels cf m q (m_channels m) (port s) = (errors, sent, d1)"
    by (metis prod.collapse)
  let ?s1 = "s\<lparr>port := d1\<rparr>"
  have ok1: "nudge_ok None ?s1" by (rule nudge_ok_frame [OF ok]) simp_all
  have m1: "dget (rems ?s1) (m_id m) = Some m" "dget (seqs ?s1) (m_seq m) = Some q"
    using m(1) q by simp_all
  have c1: "confined (m_seq m) s ?s1" by (rule confined_frame) simp_all
  have moved: "nudge_ok None u \<and> confined (m_seq m) s u \<and> dget (seqs w) (m_seq m) = Some q"
    if w: "nudge_ok (Some (m_seq m)) w" "confined (m_seq m) s w" "dget (seqs w) (m_seq m) = Some q"
      and u: "schedule_step cf q h n w = (q1, u)" for w u :: "'d nudge_state" and n q1
  proof -
    from schedule_step_ok [of q w q, OF _ _ live live refl refl u] w id
    have "nudge_ok None u \<and> confined (m_seq m) w u" by simp
    with w(2,3) show ?thesis using confined_trans by blast
  qed
  have settled: "nudge_ok (Some (m_seq m)) w \<and> confined (m_seq m) s w \<and> dget (seqs w) (m_seq m) = Some q"
    if y: "m_id y = m_id m" "m_seq y = m_seq m" "\<not> is_pending y"
      and v: "seqs v = seqs s" "rems v = rems s" "entropy v = entropy s" "minted s \<le> minted v"
      and w: "seqs w = seqs (snd (save_reminder y v))" "rems w = rems (snd (save_reminder y v))"
        "entropy w = entropy v" "minted v \<le> minted w" for y and v w :: "'d nudge_state"
  proof -
    have okv: "nudge_ok None v" by (rule nudge_ok_frame [OF ok v])
    have mv: "dget (rems v) (m_id y) = Some m" using m(1) v(2) y(1) by simp
    have "nudge_ok (Some (m_seq y)) (snd (save_reminder y v))"
      by (rule settle [OF okv mv _ m(2) y(3)]) (simp add: y(2))
    then have "nudge_ok (Some (m_seq m)) w"
      unfolding y(2) by (rule nudge_ok_frame) (simp_all add: w)
    moreover have "confined (m_seq m) v (snd (save_reminder y v))"
      by (rule confined_save_rem [OF mv refl m(2)])
    then have "confined (m_seq m) s (snd (save_reminder y v))"
      by (simp add: confined_def v)
    then have "confined (m_seq m) s w" by (rule confined_frame_right) (simp_all add: w)
    moreover have "dget (seqs w) (m_seq m) = Some q" using q by (simp add: w v)
    ultimately show ?thesis by simp
  qed
  show ?thesis
  proof (cases "errors \<noteq> [] \<and> \<not> sent")
    case True
    then have hf: "handle_dispatch_failure cf m q h errors ?s1 = (res, t)"
      using run tc by (simp add: dispatch_reminder_def)
    let ?m = "m\<lparr>m_attempts := m_attempts m + 1, m_last_error := Some (join ''; '' errors)\<rparr>"
    show ?thesis
    proof (cases "m_attempts ?m < h_max_attempts h")
      case True
      obtain d s2 where b: "compute_backoff (nat (m_attempts ?m)) (cf_base_delay cf) (cf_max_delay cf)
          (cf_jitter cf) uniform ?s1 = (d, s2)" by force
      have s2: "seqs s2 = seqs s \<and> rems s2 = rems s \<and> entropy s2 = entropy s \<and>
          minted s2 = minted s \<and> schedules s2 = schedules s"
        by (rule compute_backoff_inv [OF b]) (simp_all add: uniform_def)
      show ?thesis
      proof (cases d)
        case (Inl e)
        with hf True b have "t = s2" by (simp add: handle_dispatch_failure_def Let_def)
        with s2 nudge_ok_frame [OF ok, of s2] show ?thesis by (simp add: confined_frame)
      next
        case (Inr delay)
        let ?y = "?m\<lparr>m_status := M_RETRYING, m_at := utcnow s2 + py_round (delay * 1000000)\<rparr>"
        have ok2: "nudge_ok None (tick s2)" by (rule nudge_ok_frame [OF ok]) (simp_all add: s2)
        have y: "dget (rems (tick s2)) (m_id ?y) = Some m" using m(1) s2 by simp
        have py: "is_pending ?y" by (simp add: is_pending_iff)
        have "nudge_ok None (snd (save_reminder ?y (tick s2)))"
          by (rule retry_keeps [OF ok2 y _ m(2) py]) simp_all
        moreover have "confined (m_seq m) (tick s2) (snd (save_reminder ?y (tick s2)))"
          by (rule confined_save_rem [OF y refl m(2)])
        then have "confined (m_seq m) s (snd (save_reminder ?y (tick s2)))"
          by (simp add: confined_def s2)
        moreover obtain n p a l where "t = nrecord n p a l (nemit NE_REMINDER_RETRYING q
            (Some (fst (save_reminder ?y (tick s2))))
            [(''attempt'', JInt (m_attempts (fst (save_reminder ?y (tick s2))))), (''delay'', JReal delay)]
            (snd (save_reminder ?y (tick s2))))"
          using hf True b Inr by (auto simp: handle_dispatch_failure_def Let_def split_beta)
        ultimately show ?thesis
          by (auto intro: nudge_ok_frame confined_frame_right simp: s2)
      qed
    next
      case False
      let ?y = "?m\<lparr>m_status := M_FAILED\<rparr>"
      let ?m2 = "fst (save_reminder ?y ?s1)"
      let ?w = "nrecord (q_id q) ''reminder_failed'' (Some (m_id ?m2))
        [(''error'', JStr (join ''; '' errors))]
        (nemit NE_REMINDER_FAILED q (Some ?m2) [] (snd (save_reminder ?y ?s1)))"
      have "\<not> is_pending ?y" by (simp add: is_pending_iff)
      then have w: "nudge_ok (Some (m_seq m)) ?w \<and> confined (m_seq m) s ?w \<and>
          dget (seqs ?w) (m_seq m) = Some q"
        by (intro settled [of ?y ?s1]) simp_all
      obtain q1 u where u: "schedule_step cf q h (m_step ?m2 + 1) ?w = (q1, u)" by force
      have "t = u" using hf False u by (simp add: handle_dispatch_failure_def Let_def split_beta)
      moreover have "schedules u = schedules ?w"
        using u by (auto simp: schedule_step_def Let_def split_beta create_reminder_def split: if_splits)
      ultimately show ?thesis using moved [of ?w, OF _ _ _ u] w by simp
    qed
  next
    case False
    let ?y = "m\<lparr>m_status := M_SENT, m_sent_at := Some (utcnow ?s1), m_last_error := None\<rparr>"
    let ?m1 = "fst (save_reminder ?y (tick ?s1))"
    let ?w = "nrecord (q_id q) ''reminder_sent'' (Some (m_id ?m1)) []
      (nemit NE_REMINDER_SENT q (Some ?m1) [] (snd (save_reminder ?y (tick ?s1))))"
    have "\<not> is_pending ?y" by (simp add: is_pending_iff)
    then have w: "nudge_ok (Some (m_seq m)) ?w \<and> confined (m_seq m) s ?w \<and>
        dget (seqs ?w) (m_seq m) = Some q"
      by (intro settled [of ?y "tick ?s1"]) simp_all
    have sch: "schedules ?w = schedules s" by simp
    show ?thesis
    proof (cases "m_escalate m")
      case True
      let ?q = "q\<lparr>q_status := Q_ESCALATED\<rparr>"
      obtain q1 s3 where sv: "save_sequence ?q ?w = (q1, s3)" by force
      have "nudge_ok None (cancel_pending q1 M_CANCELLED s3) \<and>
          confined (q_id ?q) ?w (cancel_pending q1 M_CANCELLED s3)"
        by (rule terminate [of "Some (m_seq m)" ?w ?q q, OF _ _ _ live _ _ _ _ sv])
          (use w id in \<open>simp_all add: seq_live_iff\<close>)
      moreover have t: "t = nrecord (q_id q1) ''escalated'' None []
          (nemit NE_SEQUENCE_ESCALATED q1 None [] (cancel_pending q1 M_CANCELLED s3))"
        using run tc False True sv save_seq_simps(6) [of ?q ?w]
        by (auto simp: dispatch_reminder_def Let_def split_beta escalate_def)
      moreover have "schedules s3 = schedules ?w" using sv by (metis save_seq_simps(5) snd_conv)
      ultimately have okc: "nudge_ok None (cancel_pending q1 M_CANCELLED s3)"
        and cc: "confined (m_seq m) ?w (cancel_pending q1 M_CANCELLED s3)"
        and s3: "schedules s3 = schedules ?w" using id by simp_all
      have "nudge_ok None t" by (rule nudge_ok_frame [OF okc]) (simp_all add: t)
      moreover have "confined (m_seq m) s (cancel_pending q1 M_CANCELLED s3)"
        by (rule confined_trans [OF _ cc]) (use w in blast)
      then have "confined (m_seq m) s t" by (rule confined_frame_right) (simp_all add: t)
      ultimately show ?thesis using s3 sch by (simp add: t)
    next
      case False
      obtain q1 u where u: "schedule_step cf q h (m_step ?m1 + 1) ?w = (q1, u)" by force
      have "t = u" using run tc \<open>\<not> (errors \<noteq> [] \<and> \<not> sent)\<close> False u
        by (simp add: dispatch_reminder_def Let_def split_beta)
      moreover have "schedules u = schedules ?w"
        using u by (auto simp: schedule_step_def Let_def split_beta create_reminder_def split: if_splits)
      ultimately show ?thesis using moved [of ?w, OF _ _ _ u] w sch by simp
    qed
  qed
qed

subsection \<open>The worker tick\<close>

lemma run_each_ok:
  fixes s t :: "'d nudge_state"
  assumes "nudge_ok None s" "\<forall>m \<in> set ms. dget (rems s) (m_id m) = Some m \<and> is_pending m"
    and "distinct (map m_id ms)" "run_each cf ms s = (res, t)"
  shows "nudge_ok None t \<and>
    (\<forall>i q. dget (seqs s) i = Some q \<and> \<not> seq_live q \<longrightarrow> dget (seqs t) i = Some q) \<and>
    (\<forall>k m. dget (rems s) k = Some m \<and> \<not> is_pending m \<longrightarrow> dget (rems t) k = Some m)"
  using assms
proof (induction ms arbitrary: s res t)
  case Nil
  then show ?case by auto
next
  case (Cons m ms)
  have m: "dget (rems s) (m_id m) = Some m" "is_pending m" using Cons.prems(2) by simp_all
  obtain q where q: "dget (seqs s) (m_seq m) = Some q" "seq_live q" "pend s (m_seq m) = {m_id m}"
    by (rule pending_owner [OF Cons.prems(1) m])
  show ?case
  proof (cases "get_schedule (q_reason q) s")
    case (Inl e)
    with Cons.prems(1,4) q show ?thesis by (auto simp: get_sequence_def seq_live_def)
  next
    case (Inr h)
    obtain r1 s1 where d: "dispatch_reminder cf m q h s = (r1, s1)" by force
    from dispatch_reminder_ok [OF Cons.prems(1) m q(1) d]
    have s1: "nudge_ok None s1" "confined (m_seq m) s s1" by simp_all
    have keep: "\<forall>i q. dget (seqs s) i = Some q \<and> \<not> seq_live q \<longrightarrow> dget (seqs s1) i = Some q"
      "\<forall>k m. dget (rems s) k = Some m \<and> \<not> is_pending m \<longrightarrow> dget (rems s1) k = Some m"
      using s1(2) by (simp_all add: confined_def)
    show ?thesis
    proof (cases r1)
      case (Inl e)
      with Cons.prems(4) q d Inr have "t = s1" by (simp add: get_sequence_def seq_live_def)
      with s1(1) keep show ?thesis by simp
    next
      case m1: (Inr m1)
      obtain r2 s2 where rest: "run_each cf ms s1 = (r2, s2)" by force
      have t: "t = s2"
        using Cons.prems(4) q d Inr m1 rest by (cases r2) (simp_all add: get_sequence_def seq_live_def)
      have "\<forall>x \<in> set ms. dget (rems s1) (m_id x) = Some x \<and> is_pending x"
      proof
        fix x
        assume x: "x \<in> set ms"
        then have px: "dget (rems s) (m_id x) = Some x" "is_pending x" using Cons.prems(2) by simp_all
        have "m_seq x \<noteq> m_seq m"
        proof
          assume "m_seq x = m_seq m"
          with px have "m_id x \<in> pend s (m_seq m)" by (auto simp: pend_def)
          with q(3) x Cons.prems(3) show False by (auto simp: image_iff)
        qed
        with px s1(2) show "dget (rems s1) (m_id x) = Some x \<and> is_pending x"
          unfolding confined_def by blast
      qed
      from Cons.IH [OF s1(1) this _ rest] Cons.prems(3)
      have "nudge_ok None s2"
        "\<forall>i q. dget (seqs s1) i = Some q \<and> \<not> seq_live q \<longrightarrow> dget (seqs s2) i = Some q"
        "\<forall>k m. dget (rems s1) k = Some m \<and> \<not> is_pending m \<longrightarrow> dget (rems s2) k = Some m" by auto
      with keep t show ?thesis by blast
    qed
  qed
qed

lemma list_due_ok:
  assumes "nudge_ok None s"
  shows "\<forall>m \<in> set (list_due now n s). dget (rems s) (m_id m) = Some m \<and> is_pending m"
    "distinct (map m_id (list_due now n s))"
proof -
  note T = nudge_okD(1) [OF assms]
  have sub: "m \<in> set (dvals (rems s)) \<and> is_pending m" if "m \<in> set (list_due now n s)" for m
    using that by (auto simp: list_due_def dest: in_set_takeD)
  then show "\<forall>m \<in> set (list_due now n s). dget (rems s) (m_id m) = Some m \<and> is_pending m"
    using rem_vals_iff [OF T] by blast
  note kv = keyed_values [OF tables_okD(2) [OF T], of m_id, OF rem_key [OF T]]
  have "inj_on m_id (set (dvals (rems s)))" by (rule kv(3))
  moreover have "distinct (list_due now n s)" using kv(2) by (simp add: list_due_def)
  ultimately show "distinct (map m_id (list_due now n s))"
    using sub by (meson distinct_map inj_on_subset subsetI)
qed

text \<open>
  What every operation of the service guarantees besides the invariant: closed sequences and
  settled reminders are never written again.
\<close>

definition settled_kept :: "'d nudge_state \<Rightarrow> 'd nudge_state \<Rightarrow> bool" where
  "settled_kept s t \<longleftrightarrow>
     (\<forall>i q. dget (seqs s) i = Some q \<and> \<not> seq_live q \<longrightarrow> dget (seqs t) i = Some q) \<and>
     (\<forall>k m. dget (rems s) k = Some m \<and> \<not> is_pending m \<longrightarrow> dget (rems t) k = Some m)"

lemma settled_kept_refl [simp]: "settled_kept s s"
  by (simp add: settled_kept_def)

lemma settled_kept_trans: "settled_kept s t \<Longrightarrow> settled_kept t u \<Longrightarrow> settled_kept s u"
  unfolding settled_kept_def by blast

lemma confined_settled: "confined i s t \<Longrightarrow> settled_kept s t"
  by (simp add: confined_def settled_kept_def)

lemma run_due_ok:
  assumes "nudge_ok None s" "run_due cf now n s = (res, t)"
  shows "nudge_ok None t \<and> settled_kept s t"
proof -
  obtain tm s1 where n: "(case now of Some t \<Rightarrow> (t, s) | None \<Rightarrow> (utcnow s, tick s)) = (tm, s1)" by force
  then have s1: "nudge_ok None s1" "seqs s1 = seqs s" "rems s1 = rems s"
    using nudge_ok_frame [OF assms(1), of "tick s"] assms(1) by (auto split: option.splits)
  have "run_each cf (list_due tm n s1) s1 = (res, t)" using assms(2) n by (simp add: run_due_def)
  from run_each_ok [OF s1(1) list_due_ok [OF s1(1)] this] show ?thesis
    by (simp add: settled_kept_def s1(2,3))
qed

subsection \<open>Starting\<close>

lemma find_active_None:
  assumes "tables_ok s" "find_active_sequence reason ref s = None"
    and "dget (seqs s) i = Some q" "seq_live q" "q_reason q = reason"
  shows "q_target_ref q \<noteq> Some ref"
proof -
  have "q \<in> set (dvals (seqs s))" using map_of_SomeD [OF assms(3)] by force
  with assms(2,4,5) show ?thesis by (auto simp: find_active_sequence_def find_None_iff)
qed

lemma start_sequence_ok:
  fixes s t :: "'d nudge_state"
  assumes ok: "nudge_ok None s"
    and run: "start_sequence cf reason targets vars ref loc base corr s = (res, t)"
  shows "nudge_ok None t \<and> settled_kept s t"
proof (cases "case ref of None \<Rightarrow> None | Some x \<Rightarrow> find_active_sequence reason x s")
  case (Some q)
  with ok run show ?thesis by (simp add: start_sequence_def)
next
  case None
  show ?thesis
  proof (cases "get_schedule reason s")
    case (Inl e)
    with None ok run show ?thesis by (simp add: start_sequence_def)
  next
    case (Inr h)
    obtain b s1 where n: "(case base of Some t \<Rightarrow> (t, s) | None \<Rightarrow> (utcnow s, tick s)) = (b, s1)" by force
    then have s1: "nudge_ok None s1" "seqs s1 = seqs s" "rems s1 = rems s"
      using nudge_ok_frame [OF ok, of "tick s"] ok by (auto split: option.splits)
    define q where "q = \<lparr>q_id = new_id ''nseq'' s1, q_reason = reason, q_targets = targets,
        q_target_ref = ref, q_variables = vars,
        q_locale = (case loc of Some l \<Rightarrow> l | None \<Rightarrow> cf_locale cf),
        q_status = Q_ACTIVE, q_step = 0, q_base = b, q_corr = corr,
        q_created = utcnow s1, q_updated = utcnow (tick s1)\<rparr>"
    have qq: "q_id q = new_id ''nseq'' s1" "seq_live q" "q_reason q = reason" "q_target_ref q = ref"
      by (simp_all add: q_def seq_live_iff)
    define w where "w = nrecord (q_id q) ''sequence_started'' None [(''reason'', JStr reason)]
      (nemit NE_SEQUENCE_STARTED q None [] (create_sequence q (tick (tick (mint s1)))))"
    have w: "seqs w = dput (q_id q) q (seqs s1)" "rems w = rems s1" "entropy w = entropy s1"
      "minted s1 < minted w" by (simp_all add: w_def create_sequence_def)
    obtain q1 u where u: "schedule_step cf q h 0 w = (q1, u)" by force
    have t: "t = u"
      using run None Inr n u qq(1)
      by (auto simp: start_sequence_def Let_def q_def [symmetric] w_def)
    note T = nudge_okD(1) [OF s1(1)]
    have fresh: "dget (seqs s1) (q_id q) = None" using fresh_nid(2) [OF T] qq(1) by simp
    have p: "pend w i = pend s1 i" for i by (rule pend_frame [OF w(2)])
    have iss: "issued x i w" if "issued x i s1" for x i
      by (rule issued_frame [OF w(3) _ that]) (use w(4) in simp)
    have "issued ''nseq_'' (q_id q) w"
      unfolding issued_def w(3) using w(4) qq(1) by (auto simp: new_id_def)
    then have tw: "tables_ok w"
      using tables_okD [OF T] iss by (intro tables_okI) (auto simp: w(1-3) split: if_splits)
    have new: "q_target_ref x \<noteq> ref" if "dget (seqs s1) i = Some x" "seq_live x"
        "q_reason x = reason" "ref \<noteq> None" for i x
      using that None find_active_None [of s reason _ i x] nudge_okD(1) [OF ok] s1(2)
      by (auto split: option.splits)
    have "single_live w"
      unfolding single_live_def
    proof (intro allI impI)
      fix i j a c
      assume "dget (seqs w) i = Some a" "dget (seqs w) j = Some c" "seq_live a" "seq_live c"
        "q_reason a = q_reason c" "q_target_ref a = q_target_ref c" "q_target_ref a \<noteq> None"
      with new qq(3,4) nudge_okD(3) [OF s1(1)] show "i = j"
        unfolding w(1) single_live_def by (metis dget_dput option.inject)
    qed
    moreover have "slot (Some (q_id q)) w i" for i
    proof (cases "i = q_id q")
      case True
      have "pend s1 (q_id q) = {}"
        using nudge_okD(2) [OF s1(1), of "q_id q"] fresh by (simp add: slot_def)
      with True show ?thesis by (simp add: slot_def p w(1))
    next
      case False
      have "one_pending w i x = one_pending s1 i x" for x by (simp add: one_pending_def p w(2))
      with False nudge_okD(2) [OF s1(1), of i] show ?thesis
        by (cases "dget (seqs s1) i") (auto simp: slot_def p w(1))
    qed
    ultimately have okw: "nudge_ok (Some (q_id q)) w" using tw by (intro nudge_okI)
    have "dget (seqs w) (q_id q) = Some q" by (simp add: w(1))
    from schedule_step_ok [OF okw this qq(2,2) refl refl u]
    have "nudge_ok None u" "confined (q_id q) w u" by simp_all
    moreover have "settled_kept s w"
      using fresh by (auto simp: settled_kept_def w(1,2) s1(2,3) [symmetric])
    ultimately show ?thesis
      using t confined_settled settled_kept_trans by blast
  qed
qed

subsection \<open>Suppressing and cancelling\<close>

lemma terminate_op:
  assumes ok: "nudge_ok None s" and q: "dget (seqs s) i = Some q" "seq_live q"
    and dead: "st' \<noteq> Q_ACTIVE" and st: "st = M_SUPPRESSED \<or> st = M_CANCELLED"
    and sv: "save_sequence (q\<lparr>q_status := st'\<rparr>) s = (q1, s1)"
    and t: "seqs t = seqs (cancel_pending q1 st s1)" "rems t = rems (cancel_pending q1 st s1)"
      "entropy t = entropy s" "minted s \<le> minted t"
  shows "nudge_ok None t \<and> settled_kept s t \<and> dget (seqs t) i = Some q1 \<and> pend t i = {}"
proof -
  have id: "q_id q = i" by (rule seq_key [OF nudge_okD(1) [OF ok] q(1)])
  have s1: "q1 = fst (save_sequence (q\<lparr>q_status := st'\<rparr>) s)"
    "s1 = snd (save_sequence (q\<lparr>q_status := st'\<rparr>) s)" using sv by simp_all
  have "nudge_ok None (cancel_pending q1 st s1) \<and>
      confined (q_id (q\<lparr>q_status := st'\<rparr>)) s (cancel_pending q1 st s1)"
    by (rule terminate [OF ok _ _ q(2) _ _ _ st sv])
      (use q id dead in \<open>simp_all add: seq_live_iff\<close>)
  then have c: "nudge_ok None (cancel_pending q1 st s1)" "confined i s (cancel_pending q1 st s1)"
    using id by simp_all
  have okt: "nudge_ok None t"
    by (rule nudge_ok_frame [OF c(1)]) (use t in \<open>simp_all add: s1\<close>)
  have kept: "settled_kept s t"
    by (rule confined_settled) (rule confined_frame_right [OF c(2) t(1,2)])
  have stored: "dget (seqs t) i = Some q1" using t(1) id by (simp add: s1)
  moreover have "\<not> seq_live q1" using dead by (simp add: s1 seq_live_iff)
  ultimately have "pend t i = {}" using nudge_okD(2) [OF okt, of i] by (simp add: slot_def)
  with okt kept stored show ?thesis by simp
qed

text \<open>The two operations differ in the statuses they write only.\<close>

lemma suppress_ok:
  assumes "nudge_ok None s" "suppress i reason s = (res, t)"
  shows "nudge_ok None t \<and> settled_kept s t \<and>
    (case res of Inl e \<Rightarrow> t = s \<and> dget (seqs s) i = None
     | Inr q \<Rightarrow> dget (seqs t) i = Some q \<and> \<not> seq_live q \<and> pend t i = {})"
proof (cases "dget (seqs s) i")
  case None
  with assms show ?thesis by (auto simp: suppress_def require_sequence_def get_sequence_def)
next
  case (Some q)
  show ?thesis
  proof (cases "seq_live q")
    case False
    with assms Some nudge_okD(2) [OF assms(1), of i] show ?thesis
      by (auto simp: suppress_def require_sequence_def get_sequence_def seq_live_def slot_def)
  next
    case True
    obtain q1 s1 where sv: "save_sequence (q\<lparr>q_status := Q_SUPPRESSED\<rparr>) s = (q1, s1)" by force
    have t: "res = Inr q1" "t = nrecord i ''suppressed'' None [(''reason'', JStr reason)]
        (nemit NE_SEQUENCE_SUPPRESSED q1 None [(''reason'', JStr reason)]
          (cancel_pending q1 M_SUPPRESSED s1))"
      using assms(2) Some True sv
      by (simp_all add: suppress_def require_sequence_def get_sequence_def seq_live_def)
    have s1: "entropy s1 = entropy s" "minted s1 = minted s"
      using sv by (metis save_seq_simps(3,4) snd_conv)+
    have dead: "\<not> seq_live q1" using sv save_seq_simps(7) [of "q\<lparr>q_status := Q_SUPPRESSED\<rparr>" s]
      by (simp add: seq_live_iff)
    have "nudge_ok None t \<and> settled_kept s t \<and> dget (seqs t) i = Some q1 \<and> pend t i = {}"
      by (rule terminate_op [OF assms(1) Some True _ _ sv]) (simp_all add: t(2) s1)
    with t(1) dead show ?thesis by simp
  qed
qed

lemma cancel_ok:
  assumes "nudge_ok None s" "cancel i s = (res, t)"
  shows "nudge_ok None t \<and> settled_kept s t"
proof (cases "dget (seqs s) i")
  case None
  with assms show ?thesis by (auto simp: cancel_def require_sequence_def get_sequence_def)
next
  case (Some q)
  show ?thesis
  proof (cases "seq_live q")
    case False
    with assms Some show ?thesis
      by (auto simp: cancel_def require_sequence_def get_sequence_def seq_live_def)
  next
    case True
    obtain q1 s1 where sv: "save_sequence (q\<lparr>q_status := Q_CANCELLED\<rparr>) s = (q1, s1)" by force
    have t: "t = nrecord i ''cancelled'' None [] (nemit NE_SEQUENCE_CANCELLED q1 None []
          (cancel_pending q1 M_CANCELLED s1))"
      using assms(2) Some True sv
      by (simp add: cancel_def require_sequence_def get_sequence_def seq_live_def)
    have s1: "entropy s1 = entropy s" "minted s1 = minted s"
      using sv by (metis save_seq_simps(3,4) snd_conv)+
    have "nudge_ok None t \<and> settled_kept s t \<and> dget (seqs t) i = Some q1 \<and> pend t i = {}"
      by (rule terminate_op [OF assms(1) Some True _ _ sv]) (simp_all add: t s1)
    then show ?thesis by simp
  qed
qed

lemma suppress_each_ok:
  assumes "nudge_ok None s" "suppress_each reason qs s = (res, t)"
  shows "nudge_ok None t \<and> settled_kept s t"
  using assms
proof (induction qs arbitrary: s res t)
  case Nil
  then show ?case by simp
next
  case (Cons q qs)
  show ?case
  proof (cases "reason \<noteq> None \<and> reason \<noteq> Some (q_reason q)")
    case True
    with Cons show ?thesis by simp
  next
    case False
    obtain r1 s1 where sp: "suppress (q_id q) ''completed'' s = (r1, s1)" by force
    from suppress_ok [OF Cons.prems(1) sp] have s1: "nudge_ok None s1" "settled_kept s s1" by simp_all
    obtain r2 s2 where rest: "suppress_each reason qs s1 = (r2, s2)" by force
    from Cons.IH [OF s1(1) rest] settled_kept_trans [OF s1(2), of s2]
    have s2: "nudge_ok None s2 \<and> settled_kept s s2" by simp
    from Cons.prems(2) False sp rest have "t = s1 \<or> t = s2"
      by (cases r1; cases r2) auto
    with s1 s2 show ?thesis by blast
  qed
qed

subsection \<open>The service as a transition system\<close>

inductive nudge_step :: "'d nudge_config \<Rightarrow> 'd nudge_state \<Rightarrow> 'd nudge_state \<Rightarrow> bool" for cf where
  n_schedule: "nudge_step cf s (add_schedule h s)"
| n_start: "nudge_step cf s (snd (start_sequence cf reason targets vars ref loc base corr s))"
| n_run_due: "nudge_step cf s (snd (run_due cf now limit s))"
| n_suppress: "nudge_step cf s (snd (suppress i reason s))"
| n_suppress_matching: "nudge_step cf s (snd (suppress_matching ref ident reason s))"
| n_cancel: "nudge_step cf s (snd (cancel i s))"

lemma nudge_step_ok:
  assumes "nudge_step cf s t" "nudge_ok None s"
  shows "nudge_ok None t \<and> settled_kept s t"
  using assms(1)
proof (cases rule: nudge_step.cases)
  case (n_schedule h)
  then show ?thesis
    using nudge_ok_frame [OF assms(2), of t] by (simp add: add_schedule_def settled_kept_def)
next
  case (n_start reason targets vars ref loc base corr)
  then show ?thesis using start_sequence_ok [OF assms(2) prod.collapse [symmetric]] by simp
next
  case (n_run_due now limit)
  then show ?thesis using run_due_ok [OF assms(2) prod.collapse [symmetric]] by simp
next
  case (n_suppress i reason)
  then show ?thesis using suppress_ok [OF assms(2) prod.collapse [symmetric]] by simp
next
  case (n_suppress_matching ref ident reason)
  then show ?thesis
    unfolding suppress_matching_def
    using suppress_each_ok [OF assms(2) prod.collapse [symmetric]] by simp
next
  case (n_cancel i)
  then show ?thesis using cancel_ok [OF assms(2) prod.collapse [symmetric]] by simp
qed

definition nudge_steps :: "'d nudge_config \<Rightarrow> 'd nudge_state \<Rightarrow> 'd nudge_state \<Rightarrow> bool" where
  "nudge_steps cf = (nudge_step cf)\<^sup>*\<^sup>*"

definition nudge_boot :: "'d nudge_state \<Rightarrow> bool" where
  "nudge_boot s \<longleftrightarrow> seqs s = [] \<and> rems s = [] \<and> inj (entropy s)"

lemma nudge_boot_ok: "nudge_boot s \<Longrightarrow> nudge_ok None s"
  by (simp add: nudge_boot_def nudge_ok_def tables_ok_def slot_def pend_def single_live_def)

lemma nudge_steps_ok:
  assumes "nudge_steps cf s t" "nudge_ok None s"
  shows "nudge_ok None t \<and> settled_kept s t"
  using assms(1) unfolding nudge_steps_def
proof (induction rule: rtranclp_induct)
  case base
  then show ?case using assms(2) by simp
next
  case (step t u)
  then show ?case using nudge_step_ok settled_kept_trans by blast
qed

subsection \<open>The outcome of one dispatch\<close>

text \<open>The reminder of step \<open>n\<close>: due at the offset of the step, on its channels, with its template.\<close>

definition step_reminder :: "nudge_seq \<Rightarrow> schedule \<Rightarrow> nat \<Rightarrow> reminder \<Rightarrow> bool" where
  "step_reminder q h n r \<longleftrightarrow>
     m_seq r = q_id q \<and> m_step r = n \<and> m_status r = M_SCHEDULED \<and> m_attempts r = 0 \<and>
     m_at r = q_base q + k_offset (h_steps h ! n) * 1000000 \<and>
     m_channels r = k_channels (h_steps h ! n) \<and> m_template r = k_template (h_steps h ! n) \<and>
     m_escalate r = k_escalate (h_steps h ! n)"

lemma schedule_step_effect:
  assumes "schedule_step cf q h n w = (q1, u)" "inj (entropy w)" "issued ''nrem_'' k w"
  shows "dget (rems u) k = dget (rems w) k" "dget (seqs u) (q_id q) = Some q1"
    "q_status q1 = (if n < length (h_steps h) then q_status q else Q_COMPLETED)"
    "n < length (h_steps h) \<Longrightarrow> q_step q1 = n"
    "n < length (h_steps h) \<Longrightarrow> \<exists>r. dget (rems u) (m_id r) = Some r \<and> step_reminder q h n r"
proof -
  have "k \<noteq> new_id ''nrem'' w"
    using issued_fresh [OF assms(2,3)] by (simp add: new_id_def)
  with assms(1) show "dget (rems u) k = dget (rems w) k" "dget (seqs u) (q_id q) = Some q1"
    "q_status q1 = (if n < length (h_steps h) then q_status q else Q_COMPLETED)"
    "n < length (h_steps h) \<Longrightarrow> q_step q1 = n"
    by (auto simp: schedule_step_def Let_def split_beta create_reminder_def split: if_splits)
  show "\<exists>r. dget (rems u) (m_id r) = Some r \<and> step_reminder q h n r" if "n < length (h_steps h)"
  proof -
    let ?r = "\<lparr>m_id = new_id ''nrem'' w, m_seq = q_id q, m_step = n,
        m_at = q_base q + k_offset (h_steps h ! n) * 1000000, m_channels = k_channels (h_steps h ! n),
        m_template = k_template (h_steps h ! n), m_escalate = k_escalate (h_steps h ! n),
        m_status = M_SCHEDULED, m_attempts = 0, m_last_error = None,
        m_created = utcnow w, m_updated = utcnow (tick w), m_sent_at = None\<rparr>"
    from assms(1) that have "dget (rems u) (m_id ?r) = Some ?r"
      by (auto simp: schedule_step_def Let_def split_beta create_reminder_def)
    moreover have "step_reminder q h n ?r" by (simp add: step_reminder_def)
    ultimately show ?thesis by blast
  qed
qed

text \<open>
  The contact points a reminder can reach, the delivery port's answer to each of them in turn, and the
  case that it was asked and refused every time.
\<close>

definition contacts :: "reminder \<Rightarrow> nudge_seq \<Rightarrow> (channel \<times> string) list" where
  "contacts m q =
     filter (\<lambda>(c, ident). ident \<noteq> [])
       (map (\<lambda>c. (c, case dget (q_targets q) c of Some ident \<Rightarrow> ident | None \<Rightarrow> [])) (m_channels m))"

fun port_answers ::
  "'d nudge_config \<Rightarrow> reminder \<Rightarrow> nudge_seq \<Rightarrow> (channel \<times> string) list \<Rightarrow> 'd \<Rightarrow> (string + unit) list"
where
  "port_answers cf m q [] d = []"
| "port_answers cf m q ((c, ident) # ps) d =
     (let (r, d1) = cf_dispatch cf c ident (m_template m) (q_variables q) (q_locale q) (q_corr q) d
      in r # port_answers cf m q ps d1)"

definition undelivered :: "'d nudge_config \<Rightarrow> reminder \<Rightarrow> nudge_seq \<Rightarrow> 'd \<Rightarrow> bool" where
  "undelivered cf m q d \<longleftrightarrow> contacts m q \<noteq> [] \<and> list_all isl (port_answers cf m q (contacts m q) d)"

lemma port_answers_Nil: "port_answers cf m q ps d = [] \<longleftrightarrow> ps = []"
  by (cases ps) (auto simp: split_beta)

lemma try_channels_contacts:
  assumes "try_channels cf m q cs d = (errors, sent, d1)"
    and "ps = filter (\<lambda>(c, ident). ident \<noteq> [])
           (map (\<lambda>c. (c, case dget (q_targets q) c of Some ident \<Rightarrow> ident | None \<Rightarrow> [])) cs)"
  shows "(errors \<noteq> [] \<longleftrightarrow> list_ex isl (port_answers cf m q ps d)) \<and>
    (sent \<longleftrightarrow> \<not> list_all isl (port_answers cf m q ps d))"
  using assms
  by (induction cs arbitrary: ps d errors sent d1)
    (auto split: option.splits if_splits prod.splits sum.splits)

lemma undelivered_iff:
  assumes "try_channels cf m q (m_channels m) d = (errors, sent, d1)"
  shows "undelivered cf m q d \<longleftrightarrow> errors \<noteq> [] \<and> \<not> sent"
proof -
  let ?rs = "port_answers cf m q (contacts m q) d"
  have "list_all isl ?rs \<Longrightarrow> contacts m q \<noteq> [] \<longleftrightarrow> list_ex isl ?rs"
    using port_answers_Nil [of cf m q "contacts m q" d] by (cases ?rs) auto
  with try_channels_contacts [OF assms, of "contacts m q"] show ?thesis
    by (auto simp: undelivered_def contacts_def)
qed

definition next_status :: "schedule \<Rightarrow> reminder \<Rightarrow> rem_status \<Rightarrow> seq_status" where
  "next_status h m st =
     (if st = M_RETRYING then Q_ACTIVE
      else if st = M_SENT \<and> m_escalate m then Q_ESCALATED
      else if m_step m + 1 < length (h_steps h) then Q_ACTIVE else Q_COMPLETED)"

lemma dispatch_outcome:
  fixes s t :: "'d nudge_state"
  assumes ok: "nudge_ok None s" and m: "dget (rems s) (m_id m) = Some m" "is_pending m"
    and q: "dget (seqs s) (m_seq m) = Some q"
    and run: "dispatch_reminder cf m q h s = (Inr m', t)"
  shows "dget (rems t) (m_id m) = Some m' \<and>
    m_status m' = (if \<not> undelivered cf m q (port s) then M_SENT
      else if m_attempts m + 1 < h_max_attempts h then M_RETRYING else M_FAILED) \<and>
    m_attempts m' = (if undelivered cf m q (port s) then m_attempts m + 1 else m_attempts m) \<and>
    m_seq m' = m_seq m \<and> m_step m' = m_step m \<and>
    (\<exists>q'. dget (seqs t) (m_seq m) = Some q' \<and> q_status q' = next_status h m (m_status m') \<and>
       (m_status m' \<noteq> M_RETRYING \<and> q_status q' = Q_ACTIVE \<longrightarrow>
          q_step q' = m_step m + 1 \<and>
          (\<exists>r. dget (rems t) (m_id r) = Some r \<and> step_reminder q h (m_step m + 1) r)))"
proof -
  note T = nudge_okD(1) [OF ok]
  have id: "q_id q = m_seq m" by (rule seq_key [OF T q])
  have act: "q_status q = Q_ACTIVE" using pending_owner [OF ok m] q by (metis option.inject seq_live_iff)
  have iss: "issued ''nrem_'' (m_id m) w" if "entropy w = entropy s" "minted s \<le> minted w"
    for w :: "'d nudge_state"
    using issued_frame [OF that] tables_okD(5) [OF T m(1)] by blast
  obtain errors sent d1 where tc: "try_channels cf m q (m_channels m) (port s) = (errors, sent, d1)"
    by (metis prod.collapse)
  then have und: "undelivered cf m q (port s) \<longleftrightarrow> errors \<noteq> [] \<and> \<not> sent" by (rule undelivered_iff)
  let ?s1 = "s\<lparr>port := d1\<rparr>"
  have inj: "inj (entropy s)" by (rule tables_okD(3) [OF T])
  show ?thesis
  proof (cases "errors \<noteq> [] \<and> \<not> sent")
    case True
    then have hf: "handle_dispatch_failure cf m q h errors ?s1 = (Inr m', t)"
      using run tc by (simp add: dispatch_reminder_def)
    let ?m = "m\<lparr>m_attempts := m_attempts m + 1, m_last_error := Some (join ''; '' errors)\<rparr>"
    show ?thesis
    proof (cases "m_attempts ?m < h_max_attempts h")
      case retry: True
      obtain d s2 where b: "compute_backoff (nat (m_attempts ?m)) (cf_base_delay cf) (cf_max_delay cf)
          (cf_jitter cf) uniform ?s1 = (d, s2)" by force
      have s2: "seqs s2 = seqs s \<and> rems s2 = rems s"
        by (rule compute_backoff_inv [OF b]) (simp_all add: uniform_def)
      from hf retry b obtain delay where d: "d = Inr delay"
        by (cases d) (simp_all add: handle_dispatch_failure_def Let_def)
      let ?y = "?m\<lparr>m_status := M_RETRYING, m_at := utcnow s2 + py_round (delay * 1000000)\<rparr>"
      have "m' = fst (save_reminder ?y (tick s2))" "rems t = dput (m_id m) m' (rems s)" "seqs t = seqs s"
        using hf retry b d s2 by (auto simp: handle_dispatch_failure_def Let_def split_beta)
      with True und retry q act show ?thesis by (simp add: next_status_def)
    next
      case fail: False
      let ?y = "?m\<lparr>m_status := M_FAILED\<rparr>"
      let ?w = "nrecord (q_id q) ''reminder_failed'' (Some (m_id m))
        [(''error'', JStr (join ''; '' errors))]
        (nemit NE_REMINDER_FAILED q (Some (fst (save_reminder ?y ?s1))) [] (snd (save_reminder ?y ?s1)))"
      obtain q1 u where u: "schedule_step cf q h (m_step m + 1) ?w = (q1, u)" by force
      have e: "m' = fst (save_reminder ?y ?s1)" "t = u"
        using hf fail u by (auto simp: handle_dispatch_failure_def Let_def split_beta)
      from schedule_step_effect [OF u, of "m_id m"] inj iss [of ?w] e id act True und fail
      show ?thesis by (simp add: next_status_def)
    qed
  next
    case False
    let ?y = "m\<lparr>m_status := M_SENT, m_sent_at := Some (utcnow ?s1), m_last_error := None\<rparr>"
    let ?v = "snd (save_reminder ?y (tick ?s1))"
    let ?w = "nrecord (q_id q) ''reminder_sent'' (Some (m_id m)) []
      (nemit NE_REMINDER_SENT q (Some (fst (save_reminder ?y (tick ?s1)))) [] ?v)"
    have m': "m' = fst (save_reminder ?y (tick ?s1))"
      using run tc False by (auto simp: dispatch_reminder_def Let_def split_beta split: if_splits)
    show ?thesis
    proof (cases "m_escalate m")
      case True
      let ?q = "q\<lparr>q_status := Q_ESCALATED\<rparr>"
      obtain q1 s3 where sv: "save_sequence ?q ?w = (q1, s3)" by force
      have s3: "q1 = fst (save_sequence ?q ?w)" "s3 = snd (save_sequence ?q ?w)" using sv by simp_all
      have t: "seqs t = seqs s3" "rems t = rems (cancel_pending q1 M_CANCELLED s3)"
        using run tc False True sv
        by (auto simp: dispatch_reminder_def Let_def split_beta escalate_def)
      have "m_id m \<notin> pend s3 i" for i
      proof -
        have "\<not> is_pending ?y" by (simp add: is_pending_iff)
        then show ?thesis by (simp add: pend_def s3)
      qed
      have "\<forall>x \<in> set (list_pending_by_sequence (q_id q1) s3). m_id x \<noteq> m_id m"
      proof
        fix x
        assume "x \<in> set (list_pending_by_sequence (q_id q1) s3)"
        have ts3: "tables_ok s3"
        proof -
          have y: "dget (rems (tick ?s1)) (m_id ?y) = Some m" using m(1) by simp
          have "tables_ok (tick ?s1)" by (rule tables_frame [OF T]) simp_all
          from tables_save_rem [OF this y] have "tables_ok ?w" by (rule tables_frame) simp_all
          then show ?thesis unfolding s3 by (rule tables_save_seq) (use q id in simp)
        qed
        from \<open>x \<in> _\<close> have "m_id x \<in> pend s3 (m_seq x)"
          unfolding pending_list_iff [OF ts3] by (auto simp: pend_def)
        with \<open>\<And>i. m_id m \<notin> pend s3 i\<close> show "m_id x \<noteq> m_id m" by metis
      qed
      then have "dget (rems (cancel_pending q1 M_CANCELLED s3)) (m_id m) = dget (rems s3) (m_id m)"
        unfolding cancel_pending_def
      proof -
        have "(\<forall>x \<in> set xs. m_id x \<noteq> m_id m) \<Longrightarrow>
          dget (rems (fold (\<lambda>m w. snd (save_reminder (m\<lparr>m_status := M_CANCELLED\<rparr>) w)) xs w)) (m_id m) =
          dget (rems w) (m_id m)" for xs and w :: "'d nudge_state"
          by (induction xs arbitrary: w) auto
        then show "\<forall>x\<in>set (list_pending_by_sequence (q_id q1) s3). m_id x \<noteq> m_id m \<Longrightarrow>
          dget (rems (fold (\<lambda>m w. snd (save_reminder (m\<lparr>m_status := M_CANCELLED\<rparr>) w))
             (list_pending_by_sequence (q_id q1) s3) s3)) (m_id m) = dget (rems s3) (m_id m)" .
      qed
      then have "dget (rems t) (m_id m) = Some m'" by (simp add: t(2) s3 m')
      moreover have "dget (seqs t) (m_seq m) = Some q1" using id by (simp add: t(1) s3)
      ultimately show ?thesis
        using False und True by (simp add: m' next_status_def s3)
    next
      case esc: False
      obtain q1 u where u: "schedule_step cf q h (m_step m + 1) ?w = (q1, u)" by force
      have e: "t = u" using run tc False esc u
        by (auto simp: dispatch_reminder_def Let_def split_beta)
      from schedule_step_effect [OF u, of "m_id m"] inj iss [of ?w] e id act False und esc m'
      show ?thesis by (simp add: next_status_def)
    qed
  qed
qed

end
