(* ===== verification/Nudge_Theorems.thy ===== *)
theory Nudge_Theorems
  imports Nudge_Steps
begin

section \<open>Properties of the nudge service\<close>

text \<open>
  What the reminder engine promises over any sequence of its operations and any behaviour of the
  delivery port, and two places where it does less than its documentation says.
\<close>

text \<open>A concrete service for the witnesses: one schedule of two steps and a port that always fails.\<close>

definition demo_schedule :: schedule where
  "demo_schedule =
     \<lparr>h_reason = ''docs'', h_steps =
        [\<lparr>k_offset = 60, k_channels = [WHATSAPP], k_template = ''t1'', k_escalate = False\<rparr>,
         \<lparr>k_offset = 120, k_channels = [WHATSAPP, EMAIL], k_template = ''t2'', k_escalate = True\<rparr>],
      h_max_attempts = 2\<rparr>"

definition demo_nudge_config :: "nat nudge_config" where
  "demo_nudge_config =
     \<lparr>cf_base_delay = 30, cf_max_delay = 3600, cf_jitter = False, cf_locale = EN,
      cf_iso = (\<lambda>t. ''t''), cf_dispatch = (\<lambda>c i tk v l corr d. (Inl ''down'', Suc d))\<rparr>"

definition empty_nudge :: "nat nudge_state" where
  "empty_nudge =
     \<lparr>clock = (\<lambda>n. int n * 1000000), ticks = 0, entropy = (\<lambda>n. replicate n CHR ''x''), minted = 0,
      dice = (\<lambda>n. 0), rolled = 0, schedules = [(''docs'', demo_schedule)], seqs = [], rems = [],
      nevents = [], naudit = [], port = 0\<rparr>"

definition demo_started :: "nat nudge_state" where
  "demo_started = snd (start_sequence demo_nudge_config ''docs'' [(WHATSAPP, ''1'')] [] (Some ''app1'')
     None (Some 0) None empty_nudge)"

lemma nudge_boot_empty: "nudge_boot empty_nudge"
proof -
  have "inj (\<lambda>n. replicate n CHR ''x'')" by (rule injI) (metis length_replicate)
  then show ?thesis by (simp add: nudge_boot_def empty_nudge_def)
qed

lemma demo_started_steps: "nudge_steps demo_nudge_config empty_nudge demo_started"
  unfolding nudge_steps_def demo_started_def by (rule r_into_rtranclp) (rule n_start)

lemma demo_started_ok: "nudge_ok None demo_started"
  using nudge_steps_ok [OF demo_started_steps nudge_boot_ok [OF nudge_boot_empty]] by simp

lemma demo_started_contents:
  "map (\<lambda>(i, q). (i, q_status q, q_step q)) (seqs demo_started) = [(''nseq_'', Q_ACTIVE, 0)]"
  "map (\<lambda>(k, m). (k, m_seq m, m_at m)) (rems demo_started) = [(''nrem_xxx'', ''nseq_'', 60000000)]"
  "map (\<lambda>(k, m). m_status m) (rems demo_started) = [M_SCHEDULED]"
  "map (\<lambda>(i, q). (q_reason q, q_target_ref q)) (seqs demo_started) = [(''docs'', Some ''app1'')]"
  by (simp_all add: demo_started_def start_sequence_def find_active_sequence_def get_schedule_def
      empty_nudge_def demo_schedule_def schedule_step_def create_sequence_def create_reminder_def
      save_sequence_def nemit_def nrecord_def new_id_def utcnow_def tick_def mint_def Let_def)

text \<open>
  C19. Lazy scheduling. Whatever operations ran since boot, an active sequence has exactly one
  pending reminder, which is the one of its current step; a sequence that is suppressed, completed,
  escalated or cancelled has none; and no reminder is pending without a stored sequence.
\<close>

theorem one_pending_reminder:
  assumes "nudge_boot s" "nudge_steps cf s t"
  shows "(\<forall>i q. dget (seqs t) i = Some q \<longrightarrow>
      (if q_status q = Q_ACTIVE
       then \<exists>k m. pend t i = {k} \<and> dget (rems t) k = Some m \<and> m_step m = q_step q
       else pend t i = {})) \<and>
    (\<forall>k m. dget (rems t) k = Some m \<and> m_status m \<in> {M_SCHEDULED, M_RETRYING} \<longrightarrow>
      (\<exists>q. dget (seqs t) (m_seq m) = Some q \<and> q_status q = Q_ACTIVE))"
proof (intro conjI allI impI)
  have ok: "nudge_ok None t" using nudge_steps_ok [OF assms(2) nudge_boot_ok [OF assms(1)]] by simp
  show "if q_status q = Q_ACTIVE
       then \<exists>k m. pend t i = {k} \<and> dget (rems t) k = Some m \<and> m_step m = q_step q
       else pend t i = {}" if "dget (seqs t) i = Some q" for i q
    using nudge_okD(2) [OF ok, of i] that
    by (cases "q_status q = Q_ACTIVE") (simp_all add: slot_def one_pending_def seq_live_iff)
  show "\<exists>q. dget (seqs t) (m_seq m) = Some q \<and> q_status q = Q_ACTIVE"
    if m: "dget (rems t) k = Some m \<and> m_status m \<in> {M_SCHEDULED, M_RETRYING}" for k m
  proof -
    have "dget (rems t) k = Some m" "is_pending m" using m by (auto simp: is_pending_iff)
    from pending_owner [OF ok this] show ?thesis by (metis seq_live_iff)
  qed
qed

theorem one_pending_reminder_witness:
  "\<exists>k m. pend demo_started ''nseq_'' = {k} \<and> dget (rems demo_started) k = Some m \<and> m_step m = 0"
proof -
  from demo_started_contents(1) obtain q where
    "seqs demo_started = [(''nseq_'', q)]" "q_status q = Q_ACTIVE" "q_step q = 0" by auto
  with conjunct1 [OF one_pending_reminder [OF nudge_boot_empty demo_started_steps],
      rule_format, of "''nseq_''" q] show ?thesis by simp
qed

text \<open>
  Closed is closed. Once a sequence has left \<open>ACTIVE\<close>, or a reminder has been sent, failed,
  suppressed or cancelled, no later operation writes its record again: nothing is reopened and
  nothing is sent twice.
\<close>

theorem settled_stays_settled:
  assumes "nudge_ok None s" "nudge_steps cf s t"
  shows "(\<forall>i q. dget (seqs s) i = Some q \<and> q_status q \<noteq> Q_ACTIVE \<longrightarrow> dget (seqs t) i = Some q) \<and>
    (\<forall>k m. dget (rems s) k = Some m \<and> m_status m \<notin> {M_SCHEDULED, M_RETRYING} \<longrightarrow>
      dget (rems t) k = Some m)"
  using nudge_steps_ok [OF assms(2,1)] by (simp add: settled_kept_def seq_live_iff is_pending_iff)

theorem settled_stays_settled_witness:
  "let s = snd (suppress ''nseq_'' ''paid'' demo_started)
   in \<exists>q. dget (seqs s) ''nseq_'' = Some q \<and> q_status q = Q_SUPPRESSED \<and>
        dget (seqs (snd (run_due demo_nudge_config None 100 s))) ''nseq_'' = Some q"
proof -
  let ?s = "snd (suppress ''nseq_'' ''paid'' demo_started)"
  from demo_started_contents(1) obtain q0 where
    q0: "seqs demo_started = [(''nseq_'', q0)]" "q_status q0 = Q_ACTIVE" by auto
  have "q_id q0 = ''nseq_''"
    using seq_key [OF nudge_okD(1) [OF demo_started_ok], of "''nseq_''" q0] q0 by simp
  then obtain q where q: "dget (seqs ?s) ''nseq_'' = Some q" "q_status q = Q_SUPPRESSED"
    using q0 by (auto simp: suppress_def require_sequence_def get_sequence_def SEQUENCE_TERMINAL_def
        split_beta)
  have ok: "nudge_ok None ?s" using suppress_ok [OF demo_started_ok prod.collapse [symmetric]] by simp
  have "nudge_steps demo_nudge_config ?s (snd (run_due demo_nudge_config None 100 ?s))"
    unfolding nudge_steps_def by (rule r_into_rtranclp) (rule n_run_due)
  from settled_stays_settled [OF ok this] q show ?thesis unfolding Let_def by auto
qed

text \<open>
  C20. No duplicate campaigns. Whatever operations ran since boot, at most one active sequence exists per
  reason and target, and starting a second one returns the first without any effect.
\<close>

theorem one_campaign_per_target:
  assumes "nudge_boot b" "nudge_steps cf b s" "dget (seqs s) i = Some q" "q_status q = Q_ACTIVE"
    and "q_target_ref q = Some ref"
  shows "start_sequence cf (q_reason q) targets vars (Some ref) loc base corr s = (Inr q, s) \<and>
    (\<forall>j p. dget (seqs s) j = Some p \<and> q_status p = Q_ACTIVE \<and> q_reason p = q_reason q \<and>
       q_target_ref p = Some ref \<longrightarrow> j = i)"
proof -
  have ok: "nudge_ok None s" using nudge_steps_ok [OF assms(2) nudge_boot_ok [OF assms(1)]] by simp
  let ?P = "\<lambda>p. q_reason p = q_reason q \<and> q_target_ref p = Some ref \<and> seq_live p"
  have uniq: "j = i" if "dget (seqs s) j = Some p" "?P p" for j p
    using nudge_okD(3) [OF ok] assms(3-5) that
    unfolding single_live_def by (metis seq_live_iff option.distinct(1))
  have "q \<in> set (dvals (seqs s))" using map_of_SomeD [OF assms(3)] by force
  moreover have "?P q" using assms(4,5) by (simp add: seq_live_iff)
  ultimately have "find ?P (dvals (seqs s)) \<noteq> None" by (auto simp: find_None_iff)
  then obtain p where p: "find ?P (dvals (seqs s)) = Some p" by blast
  then have "?P p" "p \<in> set (dvals (seqs s))" by (auto simp: find_Some_iff)
  moreover from this(2) obtain j where "dget (seqs s) j = Some p"
    by (rule dict_valsE [OF tables_okD(1) [OF nudge_okD(1) [OF ok]]])
  ultimately have "p = q" using uniq assms(3) by force
  with p have "find_active_sequence (q_reason q) ref s = Some q"
    by (simp add: find_active_sequence_def)
  then have "start_sequence cf (q_reason q) targets vars (Some ref) loc base corr s = (Inr q, s)"
    by (simp add: start_sequence_def)
  with uniq show ?thesis by (auto simp: seq_live_iff)
qed

theorem one_campaign_per_target_witness:
  "\<exists>q. start_sequence demo_nudge_config ''docs'' [(EMAIL, ''a@b'')] [] (Some ''app1'') None None None
      demo_started = (Inr q, demo_started)"
proof -
  obtain q where q: "seqs demo_started = [(''nseq_'', q)]" "q_status q = Q_ACTIVE"
    using demo_started_contents(1) by auto
  note r = demo_started_contents(4)
  have "dget (seqs demo_started) ''nseq_'' = Some q" "q_target_ref q = Some ''app1''"
    using q r by auto
  from one_campaign_per_target [OF nudge_boot_empty demo_started_steps this(1) q(2) this(2)] q r show ?thesis by auto
qed

text \<open>
  Suppression is effective: it fails exactly on an unknown sequence and then changes nothing;
  otherwise the stored sequence it returns is closed and has no pending reminder, so the next tick
  finds nothing of it to send.
\<close>

theorem suppress_is_effective:
  assumes "nudge_ok None s" "suppress i reason s = (res, t)"
  shows "(res = Inl (SequenceNotFoundError i) \<and> dget (seqs s) i = None \<and> t = s) \<or>
    (\<exists>q. res = Inr q \<and> dget (seqs t) i = Some q \<and> q_status q \<noteq> Q_ACTIVE \<and>
       (\<forall>now n. \<forall>m \<in> set (list_due now n t). m_seq m \<noteq> i))"
proof (cases res)
  case (Inl e)
  with suppress_ok [OF assms] assms(2) show ?thesis
    by (auto simp: suppress_def require_sequence_def get_sequence_def split: if_splits prod.splits)
next
  case (Inr q)
  with suppress_ok [OF assms] have q: "dget (seqs t) i = Some q" "\<not> seq_live q" "pend t i = {}"
    "nudge_ok None t" by simp_all
  have "m_seq m \<noteq> i" if "m \<in> set (list_due now n t)" for now n m
  proof
    assume "m_seq m = i"
    with list_due_ok(1) [OF q(4)] that have "m_id m \<in> pend t i" by (auto simp: pend_def)
    with q(3) show False by simp
  qed
  with Inr q show ?thesis by (auto simp: seq_live_iff)
qed

theorem suppress_is_effective_witness:
  "fst (suppress ''nope'' ''r'' demo_started) = Inl (SequenceNotFoundError ''nope'')"
proof -
  have "dget (seqs demo_started) ''nope'' = None" using demo_started_contents(1) by auto
  then have "fst (suppress ''nope'' ''r'' demo_started) \<noteq> Inr q" for q
    by (simp add: suppress_def require_sequence_def get_sequence_def)
  with suppress_is_effective [OF demo_started_ok prod.collapse [symmetric], of "''nope''" "''r''"]
  show ?thesis by auto
qed


text \<open>
  C21. Every dispatch moves the reminder and its sequence on. When the sequence has a contact point on some
  channel and the port refuses all of them, the reminder is retried while attempts remain and fails
  after; otherwise it is sent. A retried reminder stays the pending one of its step. Otherwise the sequence
  escalates (when the step says so and the reminder was sent), or its next step is scheduled: a new
  reminder, the only pending one, due at the offset of that step, on its channels, with its template; or,
  after the last step, the sequence completes. A closed sequence has no pending reminder.
\<close>

theorem dispatch_moves_on:
  assumes "nudge_boot b" "nudge_steps cf b s" "dget (rems s) (m_id m) = Some m"
    and "m_status m \<in> {M_SCHEDULED, M_RETRYING}" "dget (seqs s) (m_seq m) = Some q"
    and "dispatch_reminder cf m q h s = (Inr m', t)"
  shows "dget (rems t) (m_id m) = Some m' \<and>
    m_status m' = (if \<not> undelivered cf m q (port s) then M_SENT
      else if m_attempts m + 1 < h_max_attempts h then M_RETRYING else M_FAILED) \<and>
    m_attempts m' = (if undelivered cf m q (port s) then m_attempts m + 1 else m_attempts m) \<and>
    (\<exists>q'. dget (seqs t) (m_seq m) = Some q' \<and>
       (if m_status m' = M_RETRYING
        then q_status q' = Q_ACTIVE \<and> pend t (m_seq m) = {m_id m} \<and> m_step m' = m_step m
        else if m_status m' = M_SENT \<and> m_escalate m
        then q_status q' = Q_ESCALATED \<and> pend t (m_seq m) = {}
        else if m_step m + 1 < length (h_steps h)
        then q_status q' = Q_ACTIVE \<and> q_step q' = m_step m + 1 \<and>
          (\<exists>r. pend t (m_seq m) = {m_id r} \<and> dget (rems t) (m_id r) = Some r \<and>
             m_status r = M_SCHEDULED \<and> m_attempts r = 0 \<and> m_step r = m_step m + 1 \<and>
             m_at r = q_base q + k_offset (h_steps h ! (m_step m + 1)) * 1000000 \<and>
             m_channels r = k_channels (h_steps h ! (m_step m + 1)) \<and>
             m_template r = k_template (h_steps h ! (m_step m + 1)))
        else q_status q' = Q_COMPLETED \<and> pend t (m_seq m) = {}))"
proof -
  have ok: "nudge_ok None s" using nudge_steps_ok [OF assms(2) nudge_boot_ok [OF assms(1)]] by simp
  have pm: "is_pending m" using assms(4) by (auto simp: is_pending_iff)
  have okt: "nudge_ok None t" using dispatch_reminder_ok [OF ok assms(3) pm assms(5,6)] by simp
  have id: "q_id q = m_seq m" by (rule seq_key [OF nudge_okD(1) [OF ok] assms(5)])
  from dispatch_outcome [OF ok assms(3) pm assms(5,6)] obtain q' where
    m': "dget (rems t) (m_id m) = Some m'" "m_seq m' = m_seq m" "m_step m' = m_step m"
    and st: "m_status m' = (if \<not> undelivered cf m q (port s) then M_SENT
      else if m_attempts m + 1 < h_max_attempts h then M_RETRYING else M_FAILED)"
      "m_attempts m' = (if undelivered cf m q (port s) then m_attempts m + 1 else m_attempts m)"
    and q': "dget (seqs t) (m_seq m) = Some q'" "q_status q' = next_status h m (m_status m')"
    and nx: "m_status m' \<noteq> M_RETRYING \<and> q_status q' = Q_ACTIVE \<longrightarrow> q_step q' = m_step m + 1 \<and>
       (\<exists>r. dget (rems t) (m_id r) = Some r \<and> step_reminder q h (m_step m + 1) r)"
    by blast
  have closed: "pend t (m_seq m) = {}" if "q_status q' \<noteq> Q_ACTIVE"
    using nudge_okD(2) [OF okt, of "m_seq m"] q'(1) that by (simp add: slot_def seq_live_iff)
  have only: "pend t (m_seq m) = {m_id r}"
    if r: "q_status q' = Q_ACTIVE" "dget (rems t) (m_id r) = Some r" "m_seq r = m_seq m" "is_pending r" for r
  proof -
    obtain k where "pend t (m_seq m) = {k}"
      using nudge_okD(2) [OF okt, of "m_seq m"] q'(1) r(1)
      by (auto simp: slot_def seq_live_iff one_pending_def)
    moreover have "m_id r \<in> pend t (m_seq m)" using r by (auto simp: pend_def)
    ultimately show ?thesis by simp
  qed
  have mid: "m_id m' = m_id m" by (rule rem_key [OF nudge_okD(1) [OF okt] m'(1)])
  note only_m' = only [of m', unfolded mid, OF _ m'(1,2)]
  show ?thesis
    using m' st q' nx closed only only_m' id
    by (intro conjI exI [of _ q']) (auto simp: next_status_def step_reminder_def is_pending_iff)
qed

theorem dispatch_moves_on_witness:
  "\<exists>m q m' t. dget (rems demo_started) ''nrem_xxx'' = Some m \<and>
     dispatch_reminder demo_nudge_config m q demo_schedule demo_started = (Inr m', t) \<and>
     dget (rems t) ''nrem_xxx'' = Some m' \<and> m_status m' = M_RETRYING \<and> m_attempts m' = 1"
proof -
  obtain m where m: "rems demo_started = [(''nrem_xxx'', m)]" "m_seq m = ''nseq_''"
    using demo_started_contents(2) by auto
  obtain q where q: "seqs demo_started = [(''nseq_'', q)]" using demo_started_contents(1) by auto
  have rest: "map (\<lambda>(k, m). (m_id m, m_status m, m_attempts m, m_channels m)) (rems demo_started) =
      [(''nrem_xxx'', M_SCHEDULED, 0, [WHATSAPP])]"
    "map (\<lambda>(i, q). q_targets q) (seqs demo_started) = [[(WHATSAPP, ''1'')]]"
    by (simp_all add: demo_started_def start_sequence_def find_active_sequence_def get_schedule_def
      empty_nudge_def demo_schedule_def schedule_step_def create_sequence_def create_reminder_def
      save_sequence_def nemit_def nrecord_def new_id_def tick_def mint_def Let_def)
  have f: "m_id m = ''nrem_xxx''" "m_status m \<in> {M_SCHEDULED, M_RETRYING}" "m_attempts m = 0"
    "m_channels m = [WHATSAPP]" "q_targets q = [(WHATSAPP, ''1'')]" using rest m(1) q by auto
  have d: "dget (rems demo_started) (m_id m) = Some m" "dget (seqs demo_started) (m_seq m) = Some q"
    using m q f(1) by simp_all
  have und: "undelivered demo_nudge_config m q (port demo_started)"
    by (simp add: undelivered_def contacts_def f demo_nudge_config_def)
  have "\<exists>x. fst (dispatch_reminder demo_nudge_config m q demo_schedule demo_started) = Inr x"
    by (simp add: dispatch_reminder_def handle_dispatch_failure_def compute_backoff_def f
        demo_nudge_config_def demo_schedule_def Let_def split_beta)
  then obtain m' t where
    r: "dispatch_reminder demo_nudge_config m q demo_schedule demo_started = (Inr m', t)"
    by (metis prod.collapse)
  from dispatch_moves_on [OF nudge_boot_empty demo_started_steps d(1) f(2) d(2) r] und f(1,3) m(1) r show ?thesis
    by (auto simp: demo_schedule_def)
qed

text \<open>
  The worker tick is not isolated: when the oldest due reminder belongs to a reason whose schedule
  is gone from the CMS, the tick raises and no reminder behind it is dispatched, on this tick and on any
  later one that starts from the same queue.
\<close>

theorem missing_schedule_stops_tick:
  assumes "nudge_ok None s" "list_due now n s = m # ms"
    and "dget (seqs s) (m_seq m) = Some q" "dget (schedules s) (q_reason q) = None"
  shows "run_due cf (Some now) n s = (Inl (ScheduleNotFoundError (q_reason q)), s)"
proof -
  have "dget (rems s) (m_id m) = Some m" "is_pending m"
    using list_due_ok(1) [OF assms(1), of now n] assms(2) by simp_all
  then have "seq_live q" using pending_owner [OF assms(1)] assms(3) by (metis option.inject)
  with assms(2-4) show ?thesis
    by (simp add: run_due_def get_sequence_def seq_live_def get_schedule_def)
qed

definition unscheduled :: "nat nudge_state" where
  "unscheduled = demo_started\<lparr>schedules := []\<rparr>"

theorem missing_schedule_stops_tick_witness:
  "\<exists>r. run_due demo_nudge_config (Some 60000000) 100 unscheduled =
     (Inl (ScheduleNotFoundError r), unscheduled)"
proof -
  obtain m where m: "rems demo_started = [(''nrem_xxx'', m)]" "m_seq m = ''nseq_''" "m_at m = 60000000"
    using demo_started_contents(2) by auto
  obtain q where q: "seqs demo_started = [(''nseq_'', q)]" "q_status q = Q_ACTIVE"
    using demo_started_contents(1) by auto
  have ok: "nudge_ok None unscheduled"
    by (rule nudge_ok_frame [OF demo_started_ok]) (simp_all add: unscheduled_def)
  have "is_pending m" using demo_started_contents(3) m(1) by (simp add: is_pending_iff)
  then have l: "list_due 60000000 100 unscheduled = [m]"
    using m by (simp add: list_due_def unscheduled_def)
  have "dget (seqs unscheduled) (m_seq m) = Some q" "dget (schedules unscheduled) (q_reason q) = None"
    using m q by (simp_all add: unscheduled_def)
  from missing_schedule_stops_tick [OF ok l this] show ?thesis by blast
qed

text \<open>
  A reminder for which the sequence has no contact point on any of its channels is recorded and
  announced as sent although nothing was handed to the delivery port.
\<close>

theorem no_contact_counts_as_sent:
  assumes "\<forall>c \<in> set (m_channels m). dget (q_targets q) c = None \<or> dget (q_targets q) c = Some []"
    and "dispatch_reminder cf m q h s = (res, t)"
  shows "port t = port s \<and> (\<exists>m'. res = Inr m' \<and> m_id m' = m_id m \<and> m_status m' = M_SENT \<and>
    (\<exists>e \<in> set (nevents t). v_type e = NE_REMINDER_SENT \<and> v_rem e = Some (m_id m)))"
proof -
  have "try_channels cf m q cs d = ([], False, d)"
    if "\<forall>c \<in> set cs. dget (q_targets q) c = None \<or> dget (q_targets q) c = Some []" for cs d
    using that by (induction cs) auto
  then have tc: "try_channels cf m q (m_channels m) (port s) = ([], False, port s)" using assms(1) by blast
  let ?y = "m\<lparr>m_status := M_SENT, m_sent_at := Some (utcnow s), m_last_error := None\<rparr>"
  have pe: "port (nemit ty q mo pl x) = port x" "port (nrecord i a mi pl x) = port x"
    "port (tick x) = port x" "port (mint x) = port x" "port (snd (save_sequence q x)) = port x"
    "port (snd (save_reminder mm x)) = port x" "port (create_reminder mm x) = port x"
    "nevents (nrecord i a mi pl x) = nevents x" "nevents (snd (save_sequence q x)) = nevents x"
    "nevents (snd (save_reminder mm x)) = nevents x" "nevents (create_reminder mm x) = nevents x"
    "nevents (tick x) = nevents x" "nevents (mint x) = nevents x"
    "set (nevents x) \<subseteq> set (nevents (nemit ty q mo pl x))"
    for ty q mm mo pl i a mi and x :: "'a nudge_state"
    by (auto simp: nemit_def nrecord_def tick_def mint_def save_sequence_def save_reminder_def
        create_reminder_def Let_def)
  have cp: "port (cancel_pending q' st x) = port x \<and> nevents (cancel_pending q' st x) = nevents x"
    for q' st and x :: "'a nudge_state"
  proof -
    have "port (fold (\<lambda>m w. snd (save_reminder (m\<lparr>m_status := st\<rparr>) w)) ms w) = port w \<and>
      nevents (fold (\<lambda>m w. snd (save_reminder (m\<lparr>m_status := st\<rparr>) w)) ms w) = nevents w"
      for ms and w :: "'a nudge_state" by (induction ms arbitrary: w) (simp_all add: pe)
    then show ?thesis by (simp add: cancel_pending_def)
  qed
  let ?w = "nrecord (q_id q) ''reminder_sent'' (Some (m_id m)) [] (nemit NE_REMINDER_SENT q
    (Some (fst (save_reminder ?y (tick s)))) [] (snd (save_reminder ?y (tick s))))"
  have w: "port ?w = port s"
    "\<exists>e \<in> set (nevents ?w). v_type e = NE_REMINDER_SENT \<and> v_rem e = Some (m_id m)"
    by (simp_all add: pe) (auto simp: nemit_def)
  have later: "port x = port ?w \<and> set (nevents ?w) \<subseteq> set (nevents x)"
    if "x = escalate q ?w \<or> x = snd (schedule_step cf q h (m_step m + 1) ?w)" for x
    using that
    by (elim disjE)
      (simp_all add: escalate_def schedule_step_def Let_def split_beta pe cp, auto simp: nemit_def pe cp)
  have "res = Inr (fst (save_reminder ?y (tick s)))"
    "t = escalate q ?w \<or> t = snd (schedule_step cf q h (m_step m + 1) ?w)"
    using assms(2) tc by (auto simp: dispatch_reminder_def Let_def split_beta split: if_splits)
  with later [of t] w show ?thesis by auto
qed


theorem no_contact_counts_as_sent_witness:
  "\<exists>m'. fst (dispatch_reminder demo_nudge_config
       \<lparr>m_id = ''r'', m_seq = ''q'', m_step = 0, m_at = 0, m_channels = [EMAIL], m_template = ''t'',
        m_escalate = False, m_status = M_SCHEDULED, m_attempts = 0, m_last_error = None,
        m_created = 0, m_updated = 0, m_sent_at = None\<rparr>
       \<lparr>q_id = ''q'', q_reason = ''docs'', q_targets = [(WHATSAPP, ''1'')], q_target_ref = None,
        q_variables = [], q_locale = EN, q_status = Q_ACTIVE, q_step = 0, q_base = 0, q_corr = None,
        q_created = 0, q_updated = 0\<rparr> demo_schedule empty_nudge) = Inr m' \<and> m_status m' = M_SENT"
  (is "\<exists>m'. fst (dispatch_reminder _ ?m ?q _ _) = _ \<and> _")
proof -
  have "\<forall>c \<in> set (m_channels ?m). dget (q_targets ?q) c = None \<or> dget (q_targets ?q) c = Some []"
    by simp
  from no_contact_counts_as_sent [OF this prod.collapse [symmetric]] show ?thesis by blast
qed

end
