(* ===== verification/Dispatcher.thy ===== *)
theory Dispatcher
  imports Wf_Steps
begin

section \<open>The onboarding dispatcher\<close>

text \<open>
  \<open>app/services/workflow/dispatcher.py\<close>, \<open>webhook_dedupe.py\<close> and the campaign, status and
  reset endpoints of \<open>main.py\<close>: how an inbound message or a backend webhook becomes one call of
  the runtime. The registration lookup and the messenger are the ports \<open>dp_identity\<close> and
  \<open>dp_messenger\<close> (\<open>None\<close> when not wired); the seen-ids set is the in-memory dedupe.
  Log calls are left out.
\<close>

subsection \<open>Identities and events\<close>

definition canon_whatsapp_identity :: "string \<Rightarrow> string" where
  "canon_whatsapp_identity identity =
     (if identity = [] then identity
      else
        let digits = filter is_digit identity in
        if digits = [] then identity
        else if length digits = 8 then ''+'' @ ''974'' @ digits
        else ''+'' @ digits)"

definition canon_event_identity :: "channel \<Rightarrow> string \<Rightarrow> string" where
  "canon_event_identity ch identity =
     (if ch \<noteq> WHATSAPP \<or> identity = [] then identity
      else
        let digits = filter is_digit identity in
        if digits = [] then identity
        else if length digits = 8 then ''+'' @ ''974'' @ digits
        else ''+'' @ digits)"

definition DEFAULT_WORKFLOW :: string where
  "DEFAULT_WORKFLOW = ''onboarding''"

definition REVIVABLE_TERMINAL_STATUSES :: "run_status list" where
  "REVIVABLE_TERMINAL_STATUSES = [R_FAILED, R_TIMED_OUT]"

definition PHASE1A_BACKEND_EVENTS :: "string list" where
  "PHASE1A_BACKEND_EVENTS =
     [''eligibility.updated'', ''documents.completed'', ''prequalification.completed'',
      ''prequalification.rejected'', ''madad_score.ready'', ''payment.completed'',
      ''qualified.waived'', ''offers.available'', ''offer.accepted'', ''offer.selected'',
      ''credit_line.activated'']"

definition PHASE1B_BACKEND_EVENTS :: "string list" where
  "PHASE1B_BACKEND_EVENTS =
     [''transaction.disbursed'', ''repayment.received'', ''repayment.partially_paid'',
      ''repayment.closed'', ''repayment.due_soon'', ''repayment.overdue'']"

definition ALL_BACKEND_EVENTS :: "string list" where
  "ALL_BACKEND_EVENTS = PHASE1A_BACKEND_EVENTS @ PHASE1B_BACKEND_EVENTS"

definition EVENT_TO_JOURNEY_STATUS :: "(string, string) dict" where
  "EVENT_TO_JOURNEY_STATUS =
     [(''eligibility.updated'', ''PRE_QUALIFIED''), (''documents.completed'', ''PRE_QUALIFIED''),
      (''prequalification.completed'', ''PRE_QUALIFIED''), (''madad_score.ready'', ''QUALIFIED''),
      (''offers.available'', ''ACCEPTED''), (''offer.accepted'', ''OFFER_ACCEPTED''),
      (''offer.selected'', ''OFFER_ACCEPTED''), (''credit_line.activated'', ''ACTIVATED'')]"

definition translate_backend_event :: "string \<Rightarrow> payload \<Rightarrow> payload" where
  "translate_backend_event et pl =
     (let base = [(''last_status_source'', JStr ''webhook'')] in
      if et = ''prequalification.rejected'' then
        merge (merge [(''type'', JStr ''status_update''), (''event'', JStr et),
                      (''prequalification_rejected'', JBool True)] base) pl
      else if et = ''payment.completed'' \<or> et = ''qualified.waived'' then
        merge (merge [(''type'', JStr ''payment''), (''paid'', JBool True),
                      (''event'', JStr et)] base) pl
      else if et \<in> set PHASE1B_BACKEND_EVENTS then
        merge (merge [(''type'', JStr ''phase1b_event''), (''event'', JStr et)] base) pl
      else
        let base' = (case dget EVENT_TO_JOURNEY_STATUS et of
                       None \<Rightarrow> base | Some st \<Rightarrow> dput ''journey_status'' (JStr st) base)
        in merge (merge [(''type'', JStr ''status_update''), (''event'', JStr et)] base') pl)"

subsection \<open>Per-identity locks\<close>

text \<open>
  The LRU table of \<open>_identity_lock\<close>: locks are numbered as they are created, the front of the list
  is the oldest entry.
\<close>

type_synonym lock_key = "channel \<times> string"

record lock_table =
  l_entries :: "(lock_key \<times> nat) list"
  l_next :: nat
  l_max :: nat

definition identity_lock :: "lock_key \<Rightarrow> lock_table \<Rightarrow> nat \<times> lock_table" where
  "identity_lock key t =
     (case map_of (l_entries t) key of
        None \<Rightarrow>
          let es = l_entries t @ [(key, l_next t)]
          in (l_next t, t\<lparr>l_entries := drop (length es - l_max t) es, l_next := Suc (l_next t)\<rparr>)
      | Some lock \<Rightarrow>
          (lock, t\<lparr>l_entries := dpop key (l_entries t) @ [(key, lock)]\<rparr>))"

subsection \<open>State and ports\<close>

text \<open>What the dispatcher sends through the messenger: one of its two fixed texts with its label.\<close>

datatype notice = Destination_ack string | Switch_ping string

record ('cp, 'm) dispatch_env =
  dp_settings :: wf_settings
  dp_workflow :: string
  dp_allowed :: "string list"
  dp_identity :: "(string \<Rightarrow> channel \<Rightarrow> 'm \<Rightarrow> (string + json) \<times> 'm) option"
  dp_messenger :: "(channel \<Rightarrow> string \<Rightarrow> notice \<Rightarrow> 'm \<Rightarrow> (string + unit) \<times> 'm) option"
  dp_str :: "json \<Rightarrow> string"
  dp_delete_thread :: "string \<Rightarrow> 'cp \<Rightarrow> bool \<times> 'cp"

record ('cp, 'm) platform =
  pf_world :: "'cp world"
  pf_seen :: "string list"
  pf_ports :: 'm

datatype dispatch_exn = UnknownEventTypeError string | RuntimeError wf_exn

fun lift_result :: "(wf_exn + exec_result) \<Rightarrow> (dispatch_exn + exec_result option)" where
  "lift_result (Inl e) = Inl (RuntimeError e)"
| "lift_result (Inr r) = Inr (Some r)"

text \<open>\<open>InMemoryWebhookDedupe.claim\<close>.\<close>

definition claim :: "string \<Rightarrow> ('cp, 'm) platform \<Rightarrow> bool \<times> ('cp, 'm) platform" where
  "claim event_id p =
     (if event_id \<in> set (pf_seen p) then (False, p)
      else (True, p\<lparr>pf_seen := event_id # pf_seen p\<rparr>))"

definition runtime_resume ::
  "('cp, 'm) dispatch_env \<Rightarrow> channel \<Rightarrow> string \<Rightarrow> json \<Rightarrow> channel option \<Rightarrow> string option \<Rightarrow>
     ('cp, 'm) platform \<Rightarrow> (wf_exn + exec_result) \<times> ('cp, 'm) platform"
where
  "runtime_resume env ch ident msg ioc ioi p =
     (let (r, w) = resume (dp_settings env) ch ident msg None ioc ioi (pf_world p)
      in (r, p\<lparr>pf_world := w\<rparr>))"

definition runtime_start ::
  "('cp, 'm) dispatch_env \<Rightarrow> string \<Rightarrow> channel \<Rightarrow> string \<Rightarrow> json \<Rightarrow> ('cp, 'm) platform \<Rightarrow>
     (wf_exn + exec_result) \<times> ('cp, 'm) platform"
where
  "runtime_start env workflow ch ident input p =
     (let (r, w) = start (dp_settings env) workflow ch ident input None None (pf_world p)
      in (r, p\<lparr>pf_world := w\<rparr>))"

definition runtime_revive ::
  "('cp, 'm) dispatch_env \<Rightarrow> wf_run \<Rightarrow> ('cp, 'm) platform \<Rightarrow> (wf_exn + wf_run) \<times> ('cp, 'm) platform"
where
  "runtime_revive env r p =
     (let (x, w) = revive_failed_run (dp_settings env) r (pf_world p) in (x, p\<lparr>pf_world := w\<rparr>))"

subsection \<open>Cross-channel resolution and notices\<close>

definition text_of :: "('cp, 'm) dispatch_env \<Rightarrow> json \<Rightarrow> string" where
  "text_of env j = (case j of JStr s \<Rightarrow> s | _ \<Rightarrow> dp_str env j)"

text \<open>The run the other channel's session points at, when it is live.\<close>

definition live_run_at ::
  "('cp, 'm) dispatch_env \<Rightarrow> channel \<Rightarrow> string \<Rightarrow> 'cp world \<Rightarrow> bool"
where
  "live_run_at env ch ident w =
     (case session_get (dp_settings env) ch ident w of
        None \<Rightarrow> False
      | Some x \<Rightarrow>
          (case s_active_run x of
             None \<Rightarrow> False
           | Some rid \<Rightarrow>
               rid \<noteq> [] \<and>
               (case get_run_or_none rid w of
                  None \<Rightarrow> False | Some r \<Rightarrow> r_status r \<notin> set TERMINAL_STATUSES)))"

definition resolve_canonical_run ::
  "('cp, 'm) dispatch_env \<Rightarrow> channel \<Rightarrow> string \<Rightarrow> ('cp, 'm) platform \<Rightarrow>
     (channel \<times> string) option \<times> ('cp, 'm) platform"
where
  "resolve_canonical_run env ch ident p =
     (case dp_identity env of
        None \<Rightarrow> (None, p)
      | Some check_registration \<Rightarrow>
          (case check_registration ident ch (pf_ports p) of
             (Inl e, m) \<Rightarrow> (None, p\<lparr>pf_ports := m\<rparr>)
           | (Inr reg, m) \<Rightarrow>
               let p1 = p\<lparr>pf_ports := m\<rparr> in
               (case reg of
                  JObj d \<Rightarrow>
                    if \<not> truthy (jget d ''registered'') then (None, p1)
                    else
                      let other = (case ch of
                            EMAIL \<Rightarrow>
                              (if truthy (jget d ''phoneNumber'')
                               then Some (WHATSAPP, canon_whatsapp_identity (text_of env (jget d ''phoneNumber'')))
                               else None)
                          | WHATSAPP \<Rightarrow>
                              (if truthy (jget d ''email'')
                               then Some (EMAIL, text_of env (jget d ''email'')) else None))
                      in (case other of
                            None \<Rightarrow> (None, p1)
                          | Some (oc, oi) \<Rightarrow>
                              if oc = ch \<and> oi = ident then (None, p1)
                              else if live_run_at env oc oi (pf_world p1) then (Some (oc, oi), p1)
                              else (None, p1))
                | _ \<Rightarrow> (None, p1))))"

definition maybe_destination_ack ::
  "('cp, 'm) dispatch_env \<Rightarrow> channel \<Rightarrow> channel \<Rightarrow> string \<Rightarrow> ('cp, 'm) platform \<Rightarrow> ('cp, 'm) platform"
where
  "maybe_destination_ack env home_ch in_ch in_ident p =
     (case dp_messenger env of
        None \<Rightarrow> p
      | Some send \<Rightarrow>
          let (fresh, p1) = claim (''dest_ack:'' @ channel_value in_ch @ '':'' @ in_ident @ '':'' @
                                     channel_value home_ch) p in
          if \<not> fresh then p1
          else
            let origin = (if home_ch = WHATSAPP then ''WhatsApp'' else ''email'');
                (r, m) = send in_ch in_ident (Destination_ack origin) (pf_ports p1)
            in p1\<lparr>pf_ports := m\<rparr>)"

definition maybe_switch_ping ::
  "('cp, 'm) dispatch_env \<Rightarrow> channel \<Rightarrow> string \<Rightarrow> channel \<Rightarrow> ('cp, 'm) platform \<Rightarrow> ('cp, 'm) platform"
where
  "maybe_switch_ping env home_ch home_ident in_ch p =
     (case dp_messenger env of
        None \<Rightarrow> p
      | Some send \<Rightarrow>
          let (fresh, p1) = claim (''switch_ping:'' @ channel_value home_ch @ '':'' @ home_ident @ '':'' @
                                     channel_value in_ch) p in
          if \<not> fresh then p1
          else
            let other = (if in_ch = EMAIL then ''email'' else ''WhatsApp'');
                (r, m) = send home_ch home_ident (Switch_ping other) (pf_ports p1)
            in p1\<lparr>pf_ports := m\<rparr>)"

subsection \<open>Dispatching\<close>

definition wants_upload :: "exec_result \<Rightarrow> bool" where
  "wants_upload res =
     (waiting res \<and>
      (case prompt res of
         Some (JObj d) \<Rightarrow> jget d ''waiting_for'' = JStr ''upload''
       | _ \<Rightarrow> False))"

text \<open>The fresh start at the end of \<open>_dispatch_locked\<close>, with its one document replay.\<close>

definition fresh_start ::
  "('cp, 'm) dispatch_env \<Rightarrow> channel \<Rightarrow> string \<Rightarrow> payload \<Rightarrow> ('cp, 'm) platform \<Rightarrow>
     (wf_exn + exec_result) \<times> ('cp, 'm) platform"
where
  "fresh_start env ch ident pl p =
     (case runtime_start env (dp_workflow env) ch ident (JObj pl) p of
        (Inl e, p1) \<Rightarrow> (Inl e, p1)
      | (Inr res, p1) \<Rightarrow>
          if truthy (jget pl ''attachments'') \<and> wants_upload res
          then runtime_resume env ch ident (JObj pl) None None p1
          else (Inr res, p1))"

definition cross_or_start ::
  "('cp, 'm) dispatch_env \<Rightarrow> channel \<Rightarrow> string \<Rightarrow> payload \<Rightarrow> ('cp, 'm) platform \<Rightarrow>
     (wf_exn + exec_result) \<times> ('cp, 'm) platform"
where
  "cross_or_start env ch ident pl p =
     (case resolve_canonical_run env ch ident p of
        (None, p1) \<Rightarrow> fresh_start env ch ident pl p1
      | (Some (cc, ci), p1) \<Rightarrow>
          let p2 = maybe_destination_ack env cc ch ident p1 in
          (case runtime_resume env cc ci (JObj pl) (Some ch) (Some ident) p2 of
             (Inl e, p3) \<Rightarrow> fresh_start env ch ident pl p3
           | (Inr res, p3) \<Rightarrow> (Inr res, maybe_switch_ping env cc ci ch p3)))"

definition dispatch_locked ::
  "('cp, 'm) dispatch_env \<Rightarrow> channel \<Rightarrow> string \<Rightarrow> payload \<Rightarrow> ('cp, 'm) platform \<Rightarrow>
     (wf_exn + exec_result) \<times> ('cp, 'm) platform"
where
  "dispatch_locked env ch ident pl p =
     (let active = (case session_get (dp_settings env) ch ident (pf_world p) of
                      None \<Rightarrow> None
                    | Some x \<Rightarrow>
                        (case s_active_run x of
                           None \<Rightarrow> None
                         | Some rid \<Rightarrow> if rid = [] then None else get_run_or_none rid (pf_world p)))
      in case active of
           None \<Rightarrow> cross_or_start env ch ident pl p
         | Some r \<Rightarrow>
             if r_status r \<notin> set TERMINAL_STATUSES
             then runtime_resume env ch ident (JObj pl) None None p
             else if r_status r \<in> set REVIVABLE_TERMINAL_STATUSES
             then
               (case runtime_revive env r p of
                  (Inl e, p1) \<Rightarrow> cross_or_start env ch ident pl p1
                | (Inr r1, p1) \<Rightarrow>
                    (case runtime_resume env ch ident (JObj pl) None None p1 of
                       (Inl e, p2) \<Rightarrow> cross_or_start env ch ident pl p2
                     | (Inr res, p2) \<Rightarrow> (Inr res, p2)))
             else cross_or_start env ch ident pl p)"

definition dispatch ::
  "('cp, 'm) dispatch_env \<Rightarrow> channel \<Rightarrow> string \<Rightarrow> payload \<Rightarrow> string option \<Rightarrow> ('cp, 'm) platform \<Rightarrow>
     (dispatch_exn + exec_result option) \<times> ('cp, 'm) platform"
where
  "dispatch env ch ident pl message_id p =
     (let (fresh, p1) = (case message_id of
                           None \<Rightarrow> (True, p) | Some mid \<Rightarrow> claim (''inbound:'' @ mid) p)
      in if \<not> fresh then (Inr None, p1)
         else let (r, p2) = dispatch_locked env ch ident pl p1 in (lift_result r, p2))"

text \<open>\<open>on_inbound\<close> takes a stored message, \<open>inbound\<close> the fields of a normalised request.\<close>

definition on_inbound ::
  "('cp, 'm) dispatch_env \<Rightarrow> channel \<Rightarrow> string \<Rightarrow> string option \<Rightarrow> (string \<times> string option) list \<Rightarrow>
     string option \<Rightarrow> ('cp, 'm) platform \<Rightarrow>
     (dispatch_exn + exec_result option) \<times> ('cp, 'm) platform"
where
  "on_inbound env ch ident text attachments message_id p =
     dispatch env ch ident
       [(''text'', opt_text text),
        (''attachments'', JList (map (\<lambda>(f, ref). JObj [(''filename'', JStr f),
                                                        (''provider_ref'', opt_text ref)]) attachments)),
        (''message_id'', opt_text message_id)] message_id p"

definition inbound ::
  "('cp, 'm) dispatch_env \<Rightarrow> channel \<Rightarrow> string \<Rightarrow> string option \<Rightarrow> json list option \<Rightarrow> payload \<Rightarrow>
     string option \<Rightarrow> ('cp, 'm) platform \<Rightarrow>
     (dispatch_exn + exec_result option) \<times> ('cp, 'm) platform"
where
  "inbound env ch ident text attachments data message_id p =
     dispatch env ch ident
       (merge [(''text'', opt_text text),
               (''attachments'', JList (case attachments of None \<Rightarrow> [] | Some xs \<Rightarrow> xs))] data)
       message_id p"

definition resume_external ::
  "('cp, 'm) dispatch_env \<Rightarrow> channel \<Rightarrow> string \<Rightarrow> payload \<Rightarrow> ('cp, 'm) platform \<Rightarrow>
     (wf_exn + exec_result) \<times> ('cp, 'm) platform"
where
  "resume_external env ch ident pl p = runtime_resume env ch ident (JObj pl) None None p"

definition on_backend_event ::
  "('cp, 'm) dispatch_env \<Rightarrow> string \<Rightarrow> string option \<Rightarrow> channel \<Rightarrow> string \<Rightarrow> payload \<Rightarrow>
     ('cp, 'm) platform \<Rightarrow> (dispatch_exn + exec_result option) \<times> ('cp, 'm) platform"
where
  "on_backend_event env et event_id ch ident pl p =
     (if et \<notin> set (dp_allowed env) then (Inl (UnknownEventTypeError et), p)
      else
        let (fresh, p1) = (case event_id of None \<Rightarrow> (True, p) | Some i \<Rightarrow> claim i p) in
        if \<not> fresh then (Inr None, p1)
        else
          let (r, p2) = resume_external env ch ident (translate_backend_event et pl) p1
          in (lift_result r, p2))"

subsection \<open>Endpoints over the run store\<close>

definition in_flight :: "channel \<Rightarrow> string \<Rightarrow> 'cp world \<Rightarrow> wf_run list" where
  "in_flight ch ident w =
     filter (\<lambda>r. r_channel r = Some ch \<and> r_identity r = ident)
       (list_by_status [R_WAITING_FOR_INPUT, R_RUNNING, R_PENDING] w)"

text \<open>The first of the runs with the latest \<open>updated_at\<close> (a stable descending sort).\<close>

definition find_active_run :: "channel \<Rightarrow> string \<Rightarrow> 'cp world \<Rightarrow> wf_run option" where
  "find_active_run ch ident w =
     (case sort_key (\<lambda>r. - r_updated_at r) (in_flight ch ident w) of [] \<Rightarrow> None | r # _ \<Rightarrow> Some r)"

definition cancel_active_runs_for :: "channel \<Rightarrow> string \<Rightarrow> 'cp world \<Rightarrow> string list \<times> 'cp world" where
  "cancel_active_runs_for ch ident w =
     (let doomed = in_flight ch ident w
      in (map r_id doomed,
          fold (\<lambda>r v. snd (save_run (r\<lparr>r_status := R_CANCELLED\<rparr>) v)) doomed w))"

text \<open>\<open>start_campaign\<close> and its broadcast twin: an existing run, or the result of a fresh start.\<close>

definition start_campaign ::
  "('cp, 'm) dispatch_env \<Rightarrow> channel \<Rightarrow> string \<Rightarrow> string \<Rightarrow> ('cp, 'm) platform \<Rightarrow>
     (wf_exn + (wf_run + exec_result)) \<times> ('cp, 'm) platform"
where
  "start_campaign env ch ident loc p =
     (let (claimed, p1) = claim (''campaign_start:'' @ channel_value ch @ '':'' @ ident) p;
          existing = (if claimed then None else find_active_run ch ident (pf_world p1))
      in case existing of
           Some r \<Rightarrow> (Inr (Inl r), p1)
         | None \<Rightarrow>
             let (cancelled, w) = cancel_active_runs_for ch ident (pf_world p1);
                 (r, p2) = runtime_start env ''onboarding'' ch ident
                   (JObj [(''trigger'', JStr ''campaign''), (''locale'', JStr loc)])
                   (p1\<lparr>pf_world := w\<rparr>)
             in (case r of Inl e \<Rightarrow> (Inl e, p2) | Inr res \<Rightarrow> (Inr (Inr res), p2)))"

text \<open>\<open>saver.adelete_thread\<close> is a port that may fail; the endpoint counts its successes.\<close>

fun delete_threads ::
  "(string \<Rightarrow> 'cp \<Rightarrow> bool \<times> 'cp) \<Rightarrow> string list \<Rightarrow> 'cp \<Rightarrow> nat \<times> 'cp"
where
  "delete_threads del [] c = (0, c)"
| "delete_threads del (t # ts) c =
     (let (ok, c1) = del t c; (n, c2) = delete_threads del ts c1
      in (if ok then Suc n else n, c2))"

definition forget_endpoint ::
  "('cp, 'm) dispatch_env \<Rightarrow> channel \<Rightarrow> string \<Rightarrow> ('cp, 'm) platform \<Rightarrow>
     (bool \<times> nat \<times> string list) \<times> ('cp, 'm) platform"
where
  "forget_endpoint env ch ident p =
     (let (threads, w) = delete_by_session (derive_session_id (dp_settings env) ch ident) (pf_world p);
          (cleared, c) = delete_threads (dp_delete_thread env) threads (cps w);
          (existed, w1) = session_forget (dp_settings env) ch ident (w\<lparr>cps := c\<rparr>)
      in ((existed, cleared, threads), p\<lparr>pf_world := w1\<rparr>))"

definition status_endpoint ::
  "('cp, 'm) dispatch_env \<Rightarrow> channel \<Rightarrow> string \<Rightarrow> ('cp, 'm) platform \<Rightarrow> wf_exn + wf_run"
where
  "status_endpoint env ch ident p =
     (case session_get (dp_settings env) ch ident (pf_world p) of
        None \<Rightarrow> Inl (SessionNotFoundError ch ident)
      | Some x \<Rightarrow>
          (case s_active_run x of
             None \<Rightarrow> Inl (SessionNotFoundError ch ident)
           | Some rid \<Rightarrow>
               if rid = [] then Inl (SessionNotFoundError ch ident) else get_run rid (pf_world p)))"

end
