(* ===== verification/Poller.thy ===== *)
theory Poller
  imports Dispatcher
begin

section \<open>The status poller\<close>

text \<open>
  \<open>app/workers/status_poller.py\<close>: one beat tick over the waiting runs. Times and durations are
  microseconds. \<open>pl_parse_iso\<close> is \<open>datetime.fromisoformat\<close>: \<open>None\<close> when it raises
  \<open>ValueError\<close>, else the instant (a naive one read as UTC) and whether it carries a time zone; mixing a naive and an
  aware time raises \<open>TypeError\<close> as in Python.
\<close>

definition POLLABLE_STEPS :: "string list" where
  "POLLABLE_STEPS = [''journey_wait_await'', ''lender_wait_await'', ''payment_await'']"

definition DOCS_UPLOAD_STEP :: string where
  "DOCS_UPLOAD_STEP = ''documents_upload_loop_await''"

definition DOCS_SETTLE_QUIET :: int where "DOCS_SETTLE_QUIET = 8 * 1000000"
definition CADENCE_OFFER :: int where "CADENCE_OFFER = 60 * 1000000"
definition CADENCE_FAST :: int where "CADENCE_FAST = 5 * 60 * 1000000"
definition CADENCE_MEDIUM :: int where "CADENCE_MEDIUM = 15 * 60 * 1000000"
definition CADENCE_SLOW :: int where "CADENCE_SLOW = 3600 * 1000000"

definition cadence_for :: "json \<Rightarrow> int" where
  "cadence_for status =
     (if status = JStr ''PRE_QUALIFIED'' \<or> status = JStr ''QUALIFIED'' then CADENCE_MEDIUM
      else if status = JStr ''ELIGIBLE'' then CADENCE_FAST
      else if status = JStr ''ACCEPTED'' \<or> status = JStr ''OFFER_ACCEPTED'' then CADENCE_OFFER
      else CADENCE_SLOW)"

definition poll_due :: "int option \<Rightarrow> json \<Rightarrow> int \<Rightarrow> int \<Rightarrow> bool" where
  "poll_due last_polled_at last_status_source now cadence =
     (case last_polled_at of
        None \<Rightarrow> True
      | Some t \<Rightarrow>
          let elapsed = now - t in
          if elapsed < cadence then False
          else if last_status_source = JStr ''webhook'' \<and> elapsed < cadence * 2 then False
          else True)"

record poller_stats =
  st_polled :: nat
  st_skipped_step :: nat
  st_skipped_cadence :: nat
  st_failed :: nat

definition no_stats :: poller_stats where
  "no_stats = \<lparr>st_polled = 0, st_skipped_step = 0, st_skipped_cadence = 0, st_failed = 0\<rparr>"

record poll_env =
  pl_parse_iso :: "string \<Rightarrow> (int \<times> bool) option"

text \<open>\<open>_read_state\<close>: the checkpoint's values when they are a dict; loading and reading may raise.\<close>

definition read_state ::
  "wf_run \<Rightarrow> 'cp world \<Rightarrow> (wf_exn + payload option) \<times> 'cp world"
where
  "read_state r w =
     (case load (r_workflow r) (Some (r_version r)) w of
        (Inl e, w1) \<Rightarrow> (Inl e, w1)
      | (Inr cw, w1) \<Rightarrow>
          (case g_state (c_graph cw) (r_thread r) (cps w1) of
             Inl e \<Rightarrow> (Inl e, w1)
           | Inr snap \<Rightarrow> (Inr (case sn_values snap of JObj d \<Rightarrow> Some d | _ \<Rightarrow> None), w1)))"

text \<open>
  \<open>len(x or [])\<close>: a number has no length.
\<close>

fun py_len :: "json \<Rightarrow> wf_exn + nat" where
  "py_len (JList xs) = Inr (length xs)"
| "py_len (JStr s) = Inr (length s)"
| "py_len (JObj d) = Inr (length d)"
| "py_len JNull = Inr 0"
| "py_len (JBool b) = (if b then Inl (PyError ''TypeError'' ''len'') else Inr 0)"
| "py_len (JInt i) = (if i \<noteq> 0 then Inl (PyError ''TypeError'' ''len'') else Inr 0)"
| "py_len (JReal x) = (if x \<noteq> 0 then Inl (PyError ''TypeError'' ''len'') else Inr 0)"

text \<open>
  The last-upload time of the settle sweep: text is parsed (a naive time is taken as UTC), nothing stays
  nothing, and any other value has no \<open>tzinfo\<close>.
\<close>

definition last_upload_of :: "poll_env \<Rightarrow> json \<Rightarrow> wf_exn + int option" where
  "last_upload_of pe raw =
     (case raw of
        JStr s \<Rightarrow> Inr (map_option fst (pl_parse_iso pe s))
      | JNull \<Rightarrow> Inr None
      | _ \<Rightarrow> Inl (PyError ''AttributeError'' ''tzinfo''))"

definition maybe_settle_docs ::
  "('cp, 'm) dispatch_env \<Rightarrow> poll_env \<Rightarrow> wf_run \<Rightarrow> int \<Rightarrow> ('cp, 'm) platform \<Rightarrow>
     (wf_exn + bool) \<times> ('cp, 'm) platform"
where
  "maybe_settle_docs env pe r now p =
     (case r_channel r of
        None \<Rightarrow> (Inr False, p)
      | Some ch \<Rightarrow>
          if r_identity r = [] then (Inr False, p)
          else
            (case read_state r (pf_world p) of
               (Inl e, w) \<Rightarrow> (Inl e, p\<lparr>pf_world := w\<rparr>)
             | (Inr None, w) \<Rightarrow> (Inr False, p\<lparr>pf_world := w\<rparr>)
             | (Inr (Some d), w) \<Rightarrow>
                 let p1 = p\<lparr>pf_world := w\<rparr> in
                 if d = [] then (Inr False, p1)
                 else
                   (case last_upload_of pe (jget d ''docs_last_upload_at'') of
                      Inl e \<Rightarrow> (Inl e, p1)
                    | Inr last_upload \<Rightarrow>
                        (case py_len (jget d ''missing_documents'') of
                           Inl e \<Rightarrow> (Inl e, p1)
                         | Inr missing \<Rightarrow>
                             if missing = 0 then (Inr False, p1)
                             else if \<not> truthy (jget d ''docs_acked'') then (Inr False, p1)
                             else if truthy (jget d ''docs_settle_prompted'') then (Inr False, p1)
                             else if (case last_upload of None \<Rightarrow> True
                                      | Some t \<Rightarrow> now - t < DOCS_SETTLE_QUIET) then (Inr False, p1)
                             else
                               let key = ''docs:settle:'' @ r_identity r @ '':'' @ r_id r @ '':'' @
                                         text_of env (jget d ''docs_last_upload_at'');
                                   (first_runner, p2) = claim key p1
                               in if \<not> first_runner then (Inr False, p2)
                                  else
                                    (case resume_external env ch (r_identity r)
                                            [(''type'', JStr ''docs_settle'')] p2 of
                                       (Inl e, p3) \<Rightarrow> (Inl e, p3)
                                     | (Inr res, p3) \<Rightarrow> (Inr True, p3))))))"

text \<open>
  The polling branch for one run at a pollable step. \<open>Inl\<close> is the exception the tick counts
  as failed.
\<close>

datatype poll_outcome = Polled | Skipped_step | Skipped_cadence | Poll_failed

definition last_polled_of :: "poll_env \<Rightarrow> json \<Rightarrow> wf_exn + int option" where
  "last_polled_of pe raw =
     (case raw of
        JStr s \<Rightarrow>
          (case pl_parse_iso pe s of
             None \<Rightarrow> Inr None
           | Some (t, aware) \<Rightarrow>
               if aware then Inr (Some t) else Inl (PyError ''TypeError'' ''offset-naive''))
      | JNull \<Rightarrow> Inr None
      | _ \<Rightarrow> Inl (PyError ''TypeError'' ''unsupported operand''))"

definition cancel_orphan :: "wf_run \<Rightarrow> 'cp world \<Rightarrow> 'cp world" where
  "cancel_orphan r w = snd (save_run (r\<lparr>r_status := R_CANCELLED\<rparr>) w)"

definition poll_run ::
  "('cp, 'm) dispatch_env \<Rightarrow> poll_env \<Rightarrow> wf_run \<Rightarrow> int \<Rightarrow> ('cp, 'm) platform \<Rightarrow>
     poll_outcome \<times> ('cp, 'm) platform"
where
  "poll_run env pe r now p =
     (case read_state r (pf_world p) of
        (Inl e, w) \<Rightarrow> (Poll_failed, p\<lparr>pf_world := w\<rparr>)
      | (Inr None, w) \<Rightarrow> (Poll_failed, p\<lparr>pf_world := w\<rparr>)
      | (Inr (Some d), w) \<Rightarrow>
          let p1 = p\<lparr>pf_world := w\<rparr> in
          (case last_polled_of pe (jget d ''last_polled_at'') of
             Inl e \<Rightarrow> (Poll_failed, p1)
           | Inr last_polled \<Rightarrow>
               if \<not> poll_due last_polled (jget d ''last_status_source'') now
                      (cadence_for (jget d ''journey_status''))
               then (Skipped_cadence, p1)
               else
                 (case r_channel r of
                    None \<Rightarrow> (Poll_failed, p1)
                  | Some ch \<Rightarrow>
                      if r_identity r = [] then (Poll_failed, p1)
                      else if (case session_get (dp_settings env) ch (r_identity r) w of
                                 None \<Rightarrow> True
                               | Some x \<Rightarrow> s_active_run x \<noteq> Some (r_id r))
                      then (Skipped_step, p1\<lparr>pf_world := cancel_orphan r w\<rparr>)
                      else
                        (case resume_external env ch (r_identity r)
                                [(''type'', JStr ''status_update''),
                                 (''last_status_source'', JStr ''poll'')] p1 of
                           (Inl e, p2) \<Rightarrow> (Poll_failed, p2)
                         | (Inr res, p2) \<Rightarrow> (Polled, p2)))))"

fun count_outcome :: "poll_outcome \<Rightarrow> poller_stats \<Rightarrow> poller_stats" where
  "count_outcome Polled st = st\<lparr>st_polled := st_polled st + 1\<rparr>"
| "count_outcome Skipped_step st = st\<lparr>st_skipped_step := st_skipped_step st + 1\<rparr>"
| "count_outcome Skipped_cadence st = st\<lparr>st_skipped_cadence := st_skipped_cadence st + 1\<rparr>"
| "count_outcome Poll_failed st = st\<lparr>st_failed := st_failed st + 1\<rparr>"

definition poll_one ::
  "('cp, 'm) dispatch_env \<Rightarrow> poll_env \<Rightarrow> wf_run \<Rightarrow> int \<Rightarrow> poller_stats \<Rightarrow> ('cp, 'm) platform \<Rightarrow>
     poller_stats \<times> ('cp, 'm) platform"
where
  "poll_one env pe r now st p =
     (if r_step r = Some DOCS_UPLOAD_STEP then
        (case maybe_settle_docs env pe r now p of
           (Inl e, p1) \<Rightarrow> (count_outcome Poll_failed st, p1)
         | (Inr True, p1) \<Rightarrow> (count_outcome Polled st, p1)
         | (Inr False, p1) \<Rightarrow> (st, p1))
      else if (case r_step r of None \<Rightarrow> True | Some x \<Rightarrow> x \<notin> set POLLABLE_STEPS)
      then (count_outcome Skipped_step st, p)
      else let (o', p1) = poll_run env pe r now p in (count_outcome o' st, p1))"

fun poll_each ::
  "('cp, 'm) dispatch_env \<Rightarrow> poll_env \<Rightarrow> int \<Rightarrow> wf_run list \<Rightarrow> poller_stats \<Rightarrow> ('cp, 'm) platform \<Rightarrow>
     poller_stats \<times> ('cp, 'm) platform"
where
  "poll_each env pe now [] st p = (st, p)"
| "poll_each env pe now (r # rs) st p =
     (let (st1, p1) = poll_one env pe r now st p in poll_each env pe now rs st1 p1)"

definition run_status_poller ::
  "('cp, 'm) dispatch_env \<Rightarrow> poll_env \<Rightarrow> int option \<Rightarrow> ('cp, 'm) platform \<Rightarrow>
     poller_stats \<times> ('cp, 'm) platform"
where
  "run_status_poller env pe now p =
     (let (t, p1) = (case now of
            Some t \<Rightarrow> (t, p)
          | None \<Rightarrow> (utcnow (pf_world p), p\<lparr>pf_world := tick (pf_world p)\<rparr>))
      in poll_each env pe t (list_by_status [R_WAITING_FOR_INPUT] (pf_world p1)) no_stats p1)"

end
