(* ===== verification/Dispatch_Props.thy ===== *)
theory Dispatch_Props
  imports Poller
begin

section \<open>Lemmas on the dispatcher and the poller\<close>

text \<open>
  Every dispatcher operation lets the world evolve as the runtime does and only adds to the
  seen-ids set; the direct status writes of the poller and of the campaign endpoint do not.
\<close>

subsection \<open>Evolution of the platform\<close>

definition pf_evolves :: "('cp, 'm) platform \<Rightarrow> ('cp, 'm) platform \<Rightarrow> bool" where
  "pf_evolves p q \<longleftrightarrow> evolves (pf_world p) (pf_world q) \<and> set (pf_seen p) \<subseteq> set (pf_seen q)"

lemma pf_evolves_refl: "consistent (pf_world p) \<Longrightarrow> pf_evolves p p"
  by (simp add: pf_evolves_def evolves_refl)

lemma pf_evolves_trans: "pf_evolves p q \<Longrightarrow> pf_evolves q r \<Longrightarrow> pf_evolves p r"
  unfolding pf_evolves_def using evolves_trans by blast

lemma pf_evolves_consistent: "pf_evolves p q \<Longrightarrow> consistent (pf_world q)"
  unfolding pf_evolves_def using evolves_consistent by blast

lemma claim_seen: "claim i p = (ok, q) \<Longrightarrow>
    pf_world q = pf_world p \<and> i \<in> set (pf_seen q) \<and> set (pf_seen p) \<subseteq> set (pf_seen q) \<and>
    (ok \<longleftrightarrow> i \<notin> set (pf_seen p)) \<and> (\<not> ok \<longrightarrow> q = p)"
  by (auto simp: claim_def split: if_splits)

lemma claim_world: "claim i p = (ok, q) \<Longrightarrow> pf_world q = pf_world p"
  by (simp add: claim_seen)

lemma claim_evolves: "consistent (pf_world p) \<Longrightarrow> pf_evolves p (snd (claim i p))"
  using claim_seen [OF prod.collapse [symmetric], of i p]
  by (auto simp: pf_evolves_def evolves_refl)

lemma claim_evolves_pair: "consistent (pf_world p) \<Longrightarrow> claim i p = (ok, q) \<Longrightarrow> pf_evolves p q"
  by (metis claim_evolves snd_conv)

lemma runtime_evolves:
  assumes "consistent (pf_world p)"
  shows "pf_evolves p (snd (runtime_resume env ch i m ioc ioi p))"
    "pf_evolves p (snd (runtime_start env w ch i input p))"
  using resume_evolves [OF assms, of "dp_settings env" ch i m None ioc ioi]
    start_evolves [OF assms, of "dp_settings env" w ch i input None None]
  by (simp_all add: runtime_resume_def runtime_start_def pf_evolves_def split_beta)

lemma runtime_revive_evolves:
  assumes "consistent (pf_world p)" "dget (runs (pf_world p)) rid = Some r"
  shows "pf_evolves p (snd (runtime_revive env r p))"
  using revive_evolves [OF assms(1), of rid r "dp_settings env"] assms(2)
  by (simp add: runtime_revive_def pf_evolves_def split_beta get_run_def get_run_or_none_def)

lemma resolve_world:
  "pf_world (snd (resolve_canonical_run env ch i p)) = pf_world p"
  "pf_seen (snd (resolve_canonical_run env ch i p)) = pf_seen p"
proof -
  have twin: "snd (case other of None \<Rightarrow> (None, q)
      | Some (oc, oi) \<Rightarrow> if A oc oi then (None, q) else if B oc oi then (Some (oc, oi), q) else (None, q)) = q"
    for other :: "(channel \<times> string) option" and A B and q :: "('a, 'b) platform"
    by (cases other) auto
  have "\<exists>m. snd (resolve_canonical_run env ch i p) = p\<lparr>pf_ports := m\<rparr> \<or>
      snd (resolve_canonical_run env ch i p) = p"
    unfolding resolve_canonical_run_def Let_def
    by (cases "dp_identity env") (simp_all add: twin split: prod.split sum.split json.split, blast)
  then show "pf_world (snd (resolve_canonical_run env ch i p)) = pf_world p"
    "pf_seen (snd (resolve_canonical_run env ch i p)) = pf_seen p" by auto
qed

lemma notices_evolve:
  assumes "consistent (pf_world p)"
  shows "pf_evolves p (maybe_destination_ack env hc ic ii p)"
    "pf_evolves p (maybe_switch_ping env hc hi ic p)"
proof -
  have eq: "pf_evolves p (q\<lparr>pf_ports := m\<rparr>) = pf_evolves p q" for q m
    by (simp add: pf_evolves_def)
  show "pf_evolves p (maybe_destination_ack env hc ic ii p)"
    "pf_evolves p (maybe_switch_ping env hc hi ic p)"
    using claim_evolves [OF assms] pf_evolves_refl [OF assms]
    by (auto simp: maybe_destination_ack_def maybe_switch_ping_def Let_def split_beta eq
        split: option.split)
qed

lemma fresh_start_evolves:
  assumes "consistent (pf_world p)"
  shows "pf_evolves p (snd (fresh_start env ch i pl p))"
proof (cases "runtime_start env (dp_workflow env) ch i (JObj pl) p")
  case (Pair res p1)
  have p1: "pf_evolves p p1" using runtime_evolves(2) [OF assms] Pair by (metis snd_conv)
  from pf_evolves_trans [OF p1 runtime_evolves(1) [OF pf_evolves_consistent [OF p1]]]
  show ?thesis using Pair p1 by (cases res) (simp_all add: fresh_start_def)
qed

lemma cross_or_start_evolves:
  assumes "consistent (pf_world p)"
  shows "pf_evolves p (snd (cross_or_start env ch i pl p))"
proof -
  obtain c p1 where r: "resolve_canonical_run env ch i p = (c, p1)" by force
  have p1: "pf_evolves p p1"
    using resolve_world [of env ch i p] r pf_evolves_refl [OF assms] by (simp add: pf_evolves_def)
  note c1 = pf_evolves_consistent [OF p1]
  show ?thesis
  proof (cases c)
    case None
    with r pf_evolves_trans [OF p1 fresh_start_evolves [OF c1]] show ?thesis
      by (simp add: cross_or_start_def)
  next
    case (Some x)
    obtain cc ci where x: "x = (cc, ci)" by force
    let ?p2 = "maybe_destination_ack env cc ch i p1"
    have p2: "pf_evolves p ?p2" using pf_evolves_trans [OF p1 notices_evolve(1) [OF c1]] .
    obtain res p3 where rr: "runtime_resume env cc ci (JObj pl) (Some ch) (Some i) ?p2 = (res, p3)"
      by force
    have p3: "pf_evolves p p3"
      using pf_evolves_trans [OF p2 runtime_evolves(1) [OF pf_evolves_consistent [OF p2]]] rr
      by (metis snd_conv)
    note c3 = pf_evolves_consistent [OF p3]
    show ?thesis
      using r Some x rr pf_evolves_trans [OF p3 fresh_start_evolves [OF c3]]
        pf_evolves_trans [OF p3 notices_evolve(2) [OF c3]]
      by (cases res) (simp_all add: cross_or_start_def Let_def)
  qed
qed

lemma dispatch_locked_evolves:
  assumes "consistent (pf_world p)"
  shows "pf_evolves p (snd (dispatch_locked env ch i pl p))"
proof -
  define active where "active = (case session_get (dp_settings env) ch i (pf_world p) of
      None \<Rightarrow> None
    | Some x \<Rightarrow> (case s_active_run x of None \<Rightarrow> None
        | Some rid \<Rightarrow> if rid = [] then None else get_run_or_none rid (pf_world p)))"
  note unf = dispatch_locked_def active_def [symmetric] Let_def
  show ?thesis
  proof (cases active)
    case None
    with cross_or_start_evolves [OF assms] show ?thesis by (simp add: unf)
  next
    case (Some r)
    then obtain rid where rid: "dget (runs (pf_world p)) rid = Some r"
      by (auto simp: active_def get_run_or_none_def split: option.splits if_splits)
    obtain res1 p1 where rv: "runtime_revive env r p = (res1, p1)" by force
    have p1: "pf_evolves p p1" using runtime_revive_evolves [OF assms rid] rv by (metis snd_conv)
    note c1 = pf_evolves_consistent [OF p1]
    obtain res2 p2 where rs: "runtime_resume env ch i (JObj pl) None None p1 = (res2, p2)" by force
    have p2: "pf_evolves p p2"
      using pf_evolves_trans [OF p1 runtime_evolves(1) [OF c1]] rs by (metis snd_conv)
    show ?thesis
      using Some runtime_evolves(1) [OF assms] cross_or_start_evolves [OF assms] rv rs p2
        pf_evolves_trans [OF p1 cross_or_start_evolves [OF c1]]
        pf_evolves_trans [OF p2 cross_or_start_evolves [OF pf_evolves_consistent [OF p2]]]
      by (cases res1; cases res2) (simp_all add: unf)
  qed
qed

lemma dispatch_evolves:
  assumes "consistent (pf_world p)"
  shows "pf_evolves p (snd (dispatch env ch i pl mid p))"
proof -
  obtain ok p1 where c: "(case mid of None \<Rightarrow> (True, p) | Some m \<Rightarrow> claim (''inbound:'' @ m) p) = (ok, p1)"
    by force
  have p1: "pf_evolves p p1"
    using c pf_evolves_refl [OF assms] claim_evolves_pair [OF assms]
    by (cases mid) auto
  from pf_evolves_trans [OF p1 dispatch_locked_evolves [OF pf_evolves_consistent [OF p1]]] p1
  show ?thesis by (simp add: dispatch_def c split_beta)
qed

lemma backend_event_evolves:
  assumes "consistent (pf_world p)"
  shows "pf_evolves p (snd (on_backend_event env et eid ch i pl p))"
proof -
  obtain ok p1 where c: "(case eid of None \<Rightarrow> (True, p) | Some m \<Rightarrow> claim m p) = (ok, p1)"
    by force
  have p1: "pf_evolves p p1"
    using c pf_evolves_refl [OF assms] claim_evolves_pair [OF assms]
    by (cases eid) auto
  from pf_evolves_trans [OF p1 runtime_evolves(1) [OF pf_evolves_consistent [OF p1]]] p1
    pf_evolves_refl [OF assms]
  show ?thesis by (simp add: on_backend_event_def c split_beta resume_external_def)
qed

subsection \<open>Seen ids only grow\<close>

lemma runtime_seen:
  "pf_seen (snd (runtime_resume env ch i m ioc ioi p)) = pf_seen p"
  "pf_seen (snd (runtime_start env w ch i input p)) = pf_seen p"
  by (simp_all add: runtime_resume_def runtime_start_def split_beta)

text \<open>
  Steps of the deployed platform, the bypassing endpoints included.
\<close>

inductive platform_step ::
  "('cp, 'm) dispatch_env \<Rightarrow> poll_env \<Rightarrow> ('cp, 'm) platform \<Rightarrow> ('cp, 'm) platform \<Rightarrow> bool"
  for env pe
where
  p_inbound: "platform_step env pe p (snd (dispatch env ch i pl mid p))"
| p_event: "platform_step env pe p (snd (on_backend_event env et eid ch i pl p))"
| p_campaign: "platform_step env pe p (snd (start_campaign env ch i loc p))"
| p_poll: "platform_step env pe p (snd (run_status_poller env pe now p))"
| p_forget: "platform_step env pe p (snd (forget_endpoint env ch i p))"
| p_runtime: "runtime_step (dp_settings env) (pf_world p) w \<Longrightarrow> platform_step env pe p (p\<lparr>pf_world := w\<rparr>)"

definition platform_steps ::
  "('cp, 'm) dispatch_env \<Rightarrow> poll_env \<Rightarrow> ('cp, 'm) platform \<Rightarrow> ('cp, 'm) platform \<Rightarrow> bool"
where
  "platform_steps env pe = (platform_step env pe)\<^sup>*\<^sup>*"

definition seen_le :: "('cp, 'm) platform \<Rightarrow> ('cp, 'm) platform \<Rightarrow> bool" where
  "seen_le p q \<longleftrightarrow> set (pf_seen p) \<subseteq> set (pf_seen q)"

lemma seen_le_refl [simp]: "seen_le p p"
  by (simp add: seen_le_def)

lemma seen_le_trans: "seen_le p q \<Longrightarrow> seen_le q r \<Longrightarrow> seen_le p r"
  by (auto simp: seen_le_def)

lemma seen_le_world [simp]:
  "seen_le p (q\<lparr>pf_world := w\<rparr>) = seen_le p q" "seen_le p (q\<lparr>pf_ports := m\<rparr>) = seen_le p q"
  "seen_le (p\<lparr>pf_world := w\<rparr>) q = seen_le p q"
  by (simp_all add: seen_le_def)

lemma claim_le: "claim i p = (ok, q) \<Longrightarrow> seen_le p q"
  using claim_seen [of i p ok q] by (simp add: seen_le_def)

lemma runtime_le [simp]:
  "seen_le q (snd (runtime_resume env ch i m ioc ioi p)) = seen_le q p"
  "seen_le q (snd (runtime_start env w ch i input p)) = seen_le q p"
  "seen_le q (snd (runtime_revive env r p)) = seen_le q p"
  "seen_le q (snd (resolve_canonical_run env ch i p)) = seen_le q p"
  by (simp_all add: seen_le_def runtime_seen resolve_world runtime_revive_def split_beta)

lemma notices_le [simp]:
  "seen_le p (maybe_destination_ack env hc ic ii p)" "seen_le p (maybe_switch_ping env hc hi ic p)"
  by (auto simp: maybe_destination_ack_def maybe_switch_ping_def Let_def split_beta
      split: option.split intro: claim_le [OF prod.collapse [symmetric]])

lemma fresh_start_le [simp]: "seen_le p (snd (fresh_start env ch i pl p))"
proof -
  obtain res p1 where r: "runtime_start env (dp_workflow env) ch i (JObj pl) p = (res, p1)" by force
  then have "seen_le p p1"
    using runtime_le(2) [of p env "dp_workflow env" ch i "JObj pl" p] by simp
  then show ?thesis by (cases res) (simp_all add: fresh_start_def r)
qed

lemma cross_le: "seen_le p (snd (cross_or_start env ch i pl p))"
proof -
  obtain c p1 where r: "resolve_canonical_run env ch i p = (c, p1)" by force
  then have p1: "seen_le p p1" using runtime_le(4) [of p env ch i p] by simp
  show ?thesis
  proof (cases c)
    case None
    with r seen_le_trans [OF p1 fresh_start_le [of p1 env ch i pl]] show ?thesis by (simp add: cross_or_start_def)
  next
    case (Some x)
    obtain cc ci where x: "x = (cc, ci)" by force
    let ?p2 = "maybe_destination_ack env cc ch i p1"
    obtain res p3 where rr: "runtime_resume env cc ci (JObj pl) (Some ch) (Some i) ?p2 = (res, p3)"
      by force
    then have "seen_le ?p2 p3" using runtime_le(1) [of ?p2 env cc ci "JObj pl" "Some ch" "Some i" ?p2] by simp
    then have p3: "seen_le p p3" using seen_le_trans [OF p1] notices_le(1) seen_le_trans by blast
    show ?thesis
      using r Some x rr seen_le_trans [OF p3 fresh_start_le [of p3 env ch i pl]]
        seen_le_trans [OF p3 notices_le(2) [of p3 env cc ci ch]]
      by (cases res) (simp_all add: cross_or_start_def Let_def)
  qed
qed

lemma dispatch_locked_le: "seen_le p (snd (dispatch_locked env ch i pl p))"
proof -
  define active where "active = (case session_get (dp_settings env) ch i (pf_world p) of
      None \<Rightarrow> None
    | Some x \<Rightarrow> (case s_active_run x of None \<Rightarrow> None
        | Some rid \<Rightarrow> if rid = [] then None else get_run_or_none rid (pf_world p)))"
  note unf = dispatch_locked_def active_def [symmetric] Let_def
  show ?thesis
  proof (cases active)
    case None
    with cross_le [of p env ch i pl] show ?thesis by (simp add: unf)
  next
    case (Some r)
    obtain res1 p1 where rv: "runtime_revive env r p = (res1, p1)" by force
    then have p1: "seen_le p p1" using runtime_le(3) [of p env r p] by simp
    obtain res2 p2 where rs: "runtime_resume env ch i (JObj pl) None None p1 = (res2, p2)" by force
    then have p2: "seen_le p p2"
      using runtime_le(1) [of p env ch i "JObj pl" None None p1] p1 by simp
    show ?thesis
      using Some cross_le [of p env ch i pl] rv rs p2
        seen_le_trans [OF p1 cross_le [of p1 env ch i pl]]
        seen_le_trans [OF p2 cross_le [of p2 env ch i pl]]
      by (cases res1; cases res2) (simp_all add: unf)
  qed
qed

lemma dispatch_le: "seen_le p (snd (dispatch env ch i pl mid p))"
proof -
  obtain ok p1 where c: "(case mid of None \<Rightarrow> (True, p) | Some m \<Rightarrow> claim (''inbound:'' @ m) p) = (ok, p1)"
    by force
  then have "seen_le p p1" by (cases mid) (auto intro: claim_le)
  with seen_le_trans [OF this dispatch_locked_le] show ?thesis by (simp add: dispatch_def c split_beta)
qed

lemma event_le: "seen_le p (snd (on_backend_event env et eid ch i pl p))"
proof -
  obtain ok p1 where c: "(case eid of None \<Rightarrow> (True, p) | Some m \<Rightarrow> claim m p) = (ok, p1)" by force
  then have "seen_le p p1" by (cases eid) (auto intro: claim_le)
  then show ?thesis by (simp add: on_backend_event_def c split_beta resume_external_def)
qed

lemma campaign_le: "seen_le p (snd (start_campaign env ch i loc p))"
proof -
  define key where "key = ''campaign_start:'' @ channel_value ch @ '':'' @ i"
  define input where "input = JObj [(''trigger'', JStr ''campaign''), (''locale'', JStr loc)]"
  obtain ok p1 where c: "claim key p = (ok, p1)" by force
  obtain cs w where k: "cancel_active_runs_for ch i (pf_world p1) = (cs, w)" by force
  obtain res p2 where r: "runtime_start env ''onboarding'' ch i input (p1\<lparr>pf_world := w\<rparr>) = (res, p2)"
    by force
  have "seen_le p1 p2"
    using runtime_le(2) [of p1 env "''onboarding''" ch i input "p1\<lparr>pf_world := w\<rparr>"] r by simp
  with claim_le [OF c] seen_le_trans have "seen_le p p1" "seen_le p p2" by blast+
  then show ?thesis
    unfolding start_campaign_def key_def [symmetric] input_def [symmetric]
    by (cases res) (simp_all add: c k r split: option.split)
qed

lemma settle_le: "seen_le p (snd (maybe_settle_docs env pe r now p))"
proof -
  have key: "seen_le p (snd (let (first_runner, p2) = claim key (p\<lparr>pf_world := w\<rparr>)
      in if \<not> first_runner then (Inr False, p2)
         else (case resume_external env ch i pl p2 of
            (Inl e, p3) \<Rightarrow> (Inl e, p3) | (Inr res, p3) \<Rightarrow> (Inr True, p3))))"
    for key w ch i pl
  proof -
    obtain ok p2 where c: "claim key (p\<lparr>pf_world := w\<rparr>) = (ok, p2)" by force
    then have p2: "seen_le p p2" using claim_le [OF c] by simp
    obtain res p3 where r: "resume_external env ch i pl p2 = (res, p3)" by force
    then have "seen_le p p3"
      using p2 runtime_le(1) [of p env ch i "JObj pl" None None p2] by (simp add: resume_external_def)
    with p2 show ?thesis by (cases res) (simp_all add: c r)
  qed
  show ?thesis
    unfolding maybe_settle_docs_def
    using key by (auto simp: Let_def split: option.split prod.split sum.split)
qed

lemma poll_run_le: "seen_le p (snd (poll_run env pe r now p))"
  unfolding poll_run_def
  by (auto simp: Let_def resume_external_def runtime_resume_def
      split: option.split prod.split sum.split)

lemma poll_one_le: "seen_le p (snd (poll_one env pe r now st p))"
  using settle_le [of p env pe r now] poll_run_le [of p env pe r now]
  by (auto simp: poll_one_def split_beta split: sum.split bool.split prod.split)

lemma poll_each_le: "seen_le p (snd (poll_each env pe now rs st p))"
proof (induction rs arbitrary: st p)
  case (Cons r rs)
  obtain st1 p1 where "poll_one env pe r now st p = (st1, p1)" by force
  with seen_le_trans [OF _ Cons.IH [of p1 st1]] poll_one_le [of p env pe r now st] show ?case by simp
qed simp

lemma poller_le: "seen_le p (snd (run_status_poller env pe now p))"
  using poll_each_le [of p env pe _ _ no_stats]
    poll_each_le [of "p\<lparr>pf_world := tick (pf_world p)\<rparr>" env pe _ _ no_stats]
  by (simp add: run_status_poller_def split: option.split)

lemma platform_steps_le:
  assumes "platform_steps env pe p q"
  shows "seen_le p q"
  using assms unfolding platform_steps_def
proof (induction rule: rtranclp_induct)
  case (step q r)
  have "seen_le q r"
    using step.hyps(2)
    by (cases rule: platform_step.cases)
      (auto simp: dispatch_le event_le campaign_le poller_le forget_endpoint_def split_beta Let_def)
  with step.IH show ?case by (rule seen_le_trans)
qed simp

subsection \<open>Resuming and reviving a session's own run\<close>

lemma resume_only:
  assumes "session_get cfg ch ident s = Some x" "s_active_run x = Some rid" "rid \<noteq> []"
    and "dget (runs s) rid = Some r" "r_id r = rid" "r_status r \<notin> set TERMINAL_STATUSES"
  shows "only rid s (snd (resume cfg ch ident m None ioc ioi s))"
proof -
  obtain res s1 where l: "load (r_workflow r) (Some (r_version r)) s = (res, s1)" by force
  have o1: "only rid s s1" by (rule only_runs [OF load_frame(1) [OF l]])
  have g: "get_run rid s = Inr r" using assms(4) by (simp add: get_run_def get_run_or_none_def)
  show ?thesis
  proof (cases res)
    case (Inl e)
    with assms(1-3,6) g l o1 show ?thesis by (simp add: resume_def)
  next
    case (Inr cw)
    obtain mv s2 where tr: "transition cfg r R_RUNNING (Some ''resume'') [] s1 = (mv, s2)" by force
    have o2: "only rid s s2" using only_trans [OF o1] transition_only [OF tr] assms(5) by blast
    show ?thesis
    proof (cases mv)
      case (Inl e)
      with assms(1-3,6) g l Inr tr o2 show ?thesis by (simp add: resume_def)
    next
      case (Inr r2)
      have id: "r_id r2 = rid" using transition_only [OF tr] Inr assms(5) by simp
      obtain x1 s3 where k: "mark_active x s2 = (x1, s3)" by force
      let ?c = "build_context r2 ioc ioi"
      have r3: "runs (emit ?c RUN_RESUMED [] s3) = runs s2" using session_runs(2) [of x s2] k by simp
      have "only rid s2 (snd (drive cfg cw r2 (Some x1) ?c (C_Resume m) m (emit ?c RUN_RESUMED [] s3)))"
        using drive_only [of r2 "emit ?c RUN_RESUMED [] s3"] r3 id by (simp add: only_def)
      from only_trans [OF o2 this] assms(1-3,6) g l \<open>res = Inr cw\<close> tr Inr k show ?thesis
        by (simp add: resume_def Let_def)
    qed
  qed
qed

lemma only_domain:
  assumes "evolves s t" "only rid s t" "dget (runs s) rid = Some r"
  shows "set (dkeys (runs t)) = set (dkeys (runs s))"
proof -
  have "dget (runs t) rid \<noteq> None" using assms(1,3) unfolding evolves_def by blast
  then have "dom (dget (runs t)) = dom (dget (runs s))"
    using assms(2,3) by (auto simp: only_def dom_def)
  then show ?thesis by (simp add: dom_map_of_conv_image_fst)
qed

lemma transition_others:
  "sessions (snd (transition cfg r to a d s)) = sessions s"
  "defs (snd (transition cfg r to a d s)) = defs s"
  "cache (snd (transition cfg r to a d s)) = cache s"
  by (simp_all add: transition_def Let_def split_beta save_run_def record_audit_def append_audit_def)

lemma revived_resumable:
  assumes "consistent s" "session_get cfg ch ident s = Some x" "s_active_run x = Some rid" "rid \<noteq> []"
    and "dget (runs s) rid = Some r" "r_status r \<in> set REVIVABLE_TERMINAL_STATUSES"
  obtains r1 t where "revive_failed_run cfg r s = (Inr r1, t)" "evolves s t" "only rid s t"
    "resumable cfg ch ident r1 t" "r_id r1 = rid" "r_attempts r1 = r_attempts r"
    "r_thread r1 = r_thread r"
    "fst (load (r_workflow r1) (Some (r_version r1)) t) = fst (load (r_workflow r) (Some (r_version r)) s)"
proof -
  have id: "r_id r = rid" by (rule consistentD(3) [OF assms(1,5)])
  have "is_allowed (r_status r) R_RUNNING"
    using assms(6) by (auto simp: REVIVABLE_TERMINAL_STATUSES_def is_allowed_def)
  from legal_transition [OF assms(1) held_stored [OF assms(5,1)] this] obtain r1 t where
    tr: "transition cfg r R_RUNNING (Some ''revive'') [] s = (Inr r1, t)" "evolves s t" "stored r1 t"
      "content r1 = content r" "r_status r1 = R_RUNNING" by metis
  note f = contentD [OF tr(4)]
  have others: "sessions t = sessions s" "defs t = defs s" "cache t = cache s"
    using transition_others [of cfg r R_RUNNING "Some ''revive''" "[]" s] tr(1) by simp_all
  have "session_get cfg ch ident t = Some x"
    using assms(2) others(1) by (simp add: session_get_def get_session_def)
  then have rs: "resumable cfg ch ident r1 t"
    using assms(3,4) tr(3,5) f(1) id by (simp add: resumable_def stored_def TERMINAL_STATUSES_def)
  have rv: "revive_failed_run cfg r s = (Inr r1, t)" using tr(1) by (simp add: revive_failed_run_def)
  have o1: "only rid s t" using transition_only [OF tr(1)] id by simp
  have i1: "r_id r1 = rid" "r_attempts r1 = r_attempts r" "r_thread r1 = r_thread r"
    "r_workflow r1 = r_workflow r" "r_version r1 = r_version r"
    using f id by simp_all
  then have l: "fst (load (r_workflow r1) (Some (r_version r1)) t) =
      fst (load (r_workflow r) (Some (r_version r)) s)"
    using load_after_frame [OF others(2,3)] by simp
  show ?thesis by (rule that [OF rv tr(2) o1 rs i1(1-3) l])
qed

subsection \<open>The lock table\<close>

text \<open>
  \<open>lock_kept key n S t\<close>: the lock \<open>n\<close> of \<open>key\<close> is still in the table and exactly the identities
  of \<open>S\<close> were used more recently; otherwise the key is out and a later use gets a fresh number.
\<close>

definition lock_kept :: "lock_key \<Rightarrow> nat \<Rightarrow> lock_key set \<Rightarrow> lock_table \<Rightarrow> bool" where
  "lock_kept key n S t \<longleftrightarrow>
     (\<exists>as bs. l_entries t = as @ (key, n) # bs \<and> distinct (dkeys (l_entries t)) \<and>
        set (dkeys bs) = S \<and> length (l_entries t) \<le> l_max t \<and> n < l_next t)"

definition lock_lost :: "lock_key \<Rightarrow> nat \<Rightarrow> lock_table \<Rightarrow> bool" where
  "lock_lost key n t \<longleftrightarrow> map_of (l_entries t) key = None \<and> n < l_next t"

definition touch :: "lock_key list \<Rightarrow> lock_table \<Rightarrow> lock_table" where
  "touch ks t = fold (\<lambda>k u. snd (identity_lock k u)) ks t"

lemma dpop_append: "dpop k (as @ bs) = dpop k as @ dpop k bs"
  by (simp add: AList.delete_eq)

lemma dkeys_dpop: "dkeys (dpop k d) = filter (\<lambda>k'. k' \<noteq> k) (dkeys d)"
  by (induction d) auto

lemma lock_step_max [simp]: "l_max (snd (identity_lock k t)) = l_max t"
  by (simp add: identity_lock_def Let_def split: option.split)

lemma lock_lost_step: "lock_lost key n t \<Longrightarrow> k \<noteq> key \<Longrightarrow> lock_lost key n (snd (identity_lock k t))"
proof -
  assume l: "lock_lost key n t" "k \<noteq> key"
  then have k: "key \<notin> set (dkeys (l_entries t))" by (simp add: lock_lost_def map_of_eq_None_iff)
  then have "key \<notin> set (dkeys (drop m (l_entries t @ [(k, x)])))" for m x
    using l(2) by (auto dest!: in_set_dropD)
  moreover have "key \<notin> set (dkeys (dpop k (l_entries t) @ [(k, x)]))" for x
    using k l(2) by (auto simp: AList.delete_eq)
  ultimately show ?thesis
    using l(1) by (simp add: lock_lost_def identity_lock_def map_of_eq_None_iff Let_def
        del: drop_append split: option.split)
qed

lemma lock_kept_step:
  assumes "lock_kept key n S t" "k \<noteq> key" "0 < l_max t"
  shows "if card (insert k S) < l_max t then lock_kept key n (insert k S) (snd (identity_lock k t))
    else lock_lost key n (snd (identity_lock k t))"
proof -
  from assms(1) obtain as bs where e: "l_entries t = as @ (key, n) # bs"
    "distinct (dkeys (l_entries t))" "set (dkeys bs) = S" "length (l_entries t) \<le> l_max t" "n < l_next t"
    by (auto simp: lock_kept_def)
  have db: "distinct (dkeys bs)" "key \<notin> S" using e(1-3) by auto
  have cS: "card S = length bs" using distinct_card [OF db(1)] e(3) by simp
  show ?thesis
  proof (cases "map_of (l_entries t) k")
    case (Some x)
    let ?t = "snd (identity_lock k t)"
    have t0: "l_entries ?t = dpop k (l_entries t) @ [(k, x)]" "l_next ?t = l_next t"
      using Some by (simp_all add: identity_lock_def)
    have t: "l_entries ?t = dpop k as @ (key, n) # (dpop k bs @ [(k, x)])" "l_next ?t = l_next t"
      unfolding t0 e(1) using assms(2) by (simp_all add: dpop_append)
    have kin: "k \<in> set (dkeys (l_entries t))"
      using map_of_SomeD [OF Some] by (metis fst_conv image_eqI set_map)
    have dk: "distinct (dkeys (l_entries ?t))"
      using e(2) assms(2) unfolding t(1) e(1) by (auto simp: dkeys_dpop)
    have Sk: "set (dkeys (dpop k bs @ [(k, x)])) = insert k S"
      unfolding e(3) [symmetric] by (auto simp: dkeys_dpop)
    have "set (dkeys (l_entries ?t)) = set (dkeys (l_entries t))"
      using assms(2) kin unfolding t(1) e(1) by (auto simp: dkeys_dpop)
    then have len: "length (l_entries ?t) = length (l_entries t)"
      using distinct_card [OF dk] distinct_card [OF e(2)] by simp
    have "card (insert k S) < l_max t"
    proof (cases "k \<in> S")
      case True
      then show ?thesis using cS e(1,4) by (simp add: insert_absorb)
    next
      case False
      with kin e(1,3) assms(2) have "k \<in> set (dkeys as)" by auto
      then have "as \<noteq> []" by auto
      then have "0 < length as" by simp
      moreover have "finite S" unfolding e(3) [symmetric] by simp
      with False have "card (insert k S) = Suc (length bs)" using cS by simp
      ultimately show ?thesis using e(1,4) by (cases as) simp_all
    qed
    moreover have "lock_kept key n (insert k S) ?t"
      unfolding lock_kept_def
      by (intro exI conjI, rule t(1), rule dk, rule Sk) (use t(2) len e(4,5) in simp_all)
    ultimately show ?thesis by simp
  next
    case None
    let ?t = "snd (identity_lock k t)"
    let ?es = "l_entries t @ [(k, l_next t)]"
    let ?d = "length ?es - l_max t"
    have kout: "k \<notin> set (dkeys (l_entries t))" using None by (simp add: map_of_eq_None_iff)
    have t: "l_entries ?t = drop ?d ?es" "l_next ?t = Suc (l_next t)"
      using None by (simp_all add: identity_lock_def)
    have kS: "k \<notin> S" using kout e(1,3) by auto
    have card: "card (insert k S) = Suc (length bs)"
      using kS cS e(3) by (metis List.finite_set card_insert_disjoint)
    have d1: "?d \<le> 1" using e(4) by simp
    have dist: "distinct (dkeys ?es)" using e(2) kout by simp
    have dk: "distinct (dkeys (l_entries ?t))"
      unfolding t(1) drop_map [symmetric] using dist by (rule distinct_drop)
    show ?thesis
    proof (cases "card (insert k S) < l_max t")
      case True
      have le: "?d \<le> length as" using True card d1 e(1,4) by (cases as) auto
      have "l_entries ?t = drop ?d as @ (key, n) # (bs @ [(k, l_next t)])"
        unfolding t(1) e(1) using le e(1) by simp
      moreover have "length (l_entries ?t) \<le> l_max t" using t(1) by simp
      ultimately have "lock_kept key n (insert k S) ?t"
        unfolding lock_kept_def
        by (intro exI [where x = "drop ?d as"] exI [where x = "bs @ [(k, l_next t)]"])
          (use dk t(2) e(3,5) in simp)
      with True show ?thesis by simp
    next
      case False
      then have as: "as = []" using card e(1,4) by (cases as) simp_all
      moreover have "?d = 1" using False card e(1,4) as by simp
      ultimately have as: "as = []" "?d = 1" .
      have "l_entries ?t = bs @ [(k, l_next t)]" unfolding t(1) as(2) using e(1) as(1) by simp
      then have "lock_lost key n ?t"
        using db(2) e(3,5) assms(2) t(2) by (simp add: lock_lost_def map_of_eq_None_iff)
      with False show ?thesis by simp
    qed
  qed
qed

lemma touch_lost: "lock_lost key n t \<Longrightarrow> key \<notin> set ks \<Longrightarrow> lock_lost key n (touch ks t)"
proof (induction ks arbitrary: t)
  case (Cons k ks)
  then have "lock_lost key n (snd (identity_lock k t))" using lock_lost_step [of key n t k] by auto
  with Cons show ?case by (simp add: touch_def)
qed (simp add: touch_def)

lemma touch_kept:
  assumes "lock_kept key n S t" "key \<notin> set ks" "0 < l_max t" "finite S" "card S < l_max t"
  shows "if card (S \<union> set ks) < l_max t then lock_kept key n (S \<union> set ks) (touch ks t)
    else lock_lost key n (touch ks t)"
  using assms
proof (induction ks arbitrary: S t)
  case (Cons k ks)
  let ?t = "snd (identity_lock k t)"
  have tt: "touch (k # ks) t = touch ks ?t" by (simp add: touch_def)
  have "k \<noteq> key" using Cons.prems(2) by auto
  note st = lock_kept_step [OF Cons.prems(1) this Cons.prems(3)]
  have un: "S \<union> set (k # ks) = insert k S \<union> set ks" by simp
  show ?case
  proof (cases "card (insert k S) < l_max t")
    case True
    then have "lock_kept key n (insert k S) ?t" using st by simp
    from Cons.IH [OF this] Cons.prems True show ?thesis unfolding tt un by simp
  next
    case False
    then have "lock_lost key n ?t" using st by simp
    from touch_lost [OF this, of ks] Cons.prems(2) have "lock_lost key n (touch ks ?t)" by simp
    moreover have "card (insert k S) \<le> card (insert k S \<union> set ks)"
      by (rule card_mono) (use Cons.prems(4) in auto)
    ultimately show ?thesis using False unfolding tt un by simp
  qed
qed (simp add: touch_def)

subsection \<open>Webhook payloads\<close>

lemma payment_event:
  assumes "et \<in> {''payment.completed'', ''qualified.waived''}"
  shows "et \<notin> set PHASE1B_BACKEND_EVENTS" "dget EVENT_TO_JOURNEY_STATUS et = None"
    "et \<noteq> ''prequalification.rejected''"
  using assms unfolding PHASE1B_BACKEND_EVENTS_def EVENT_TO_JOURNEY_STATUS_def
  by (elim insertE emptyE; simp)+

lemma invoice_event:
  assumes "et \<in> set PHASE1B_BACKEND_EVENTS"
  shows "dget EVENT_TO_JOURNEY_STATUS et = None" "et \<noteq> ''prequalification.rejected''"
    "et \<notin> {''payment.completed'', ''qualified.waived''}"
  using assms unfolding PHASE1B_BACKEND_EVENTS_def EVENT_TO_JOURNEY_STATUS_def list.set
  by (elim insertE emptyE; simp)+

lemma rejection_event:
  "''prequalification.rejected'' \<notin> set PHASE1B_BACKEND_EVENTS"
  "dget EVENT_TO_JOURNEY_STATUS ''prequalification.rejected'' = None"
  by (simp_all add: PHASE1B_BACKEND_EVENTS_def EVENT_TO_JOURNEY_STATUS_def)

definition event_base :: "string \<Rightarrow> string \<Rightarrow> json option" where
  "event_base et k =
     (if k = ''type'' then Some (JStr
        (if et \<in> set PHASE1B_BACKEND_EVENTS then ''phase1b_event''
         else if et \<in> {''payment.completed'', ''qualified.waived''} then ''payment''
         else ''status_update''))
      else if k = ''event'' then Some (JStr et)
      else if k = ''last_status_source'' then Some (JStr ''webhook'')
      else if k = ''paid'' \<and> et \<in> {''payment.completed'', ''qualified.waived''} then Some (JBool True)
      else if k = ''journey_status'' then map_option JStr (dget EVENT_TO_JOURNEY_STATUS et)
      else if k = ''prequalification_rejected'' \<and> et = ''prequalification.rejected'' then Some (JBool True)
      else None)"

lemma translate_base:
  obtains b where "translate_backend_event et pl = merge b pl" "dget b = event_base et"
proof -
  consider (rej) "et = ''prequalification.rejected''"
    | (pay) "et \<in> {''payment.completed'', ''qualified.waived''}"
    | (later) "et \<in> set PHASE1B_BACKEND_EVENTS"
    | (status) "et \<noteq> ''prequalification.rejected''" "et \<notin> {''payment.completed'', ''qualified.waived''}"
        "et \<notin> set PHASE1B_BACKEND_EVENTS" by blast
  then show ?thesis
  proof cases
    case rej
    show ?thesis
      by (rule that, simp add: translate_backend_event_def rej)
        (rule ext, simp add: event_base_def rej rejection_event)
  next
    case pay
    note c = payment_event [OF pay]
    from pay have p: "et = ''payment.completed'' \<or> et = ''qualified.waived''" by simp
    show ?thesis
      by (rule that, simp only: translate_backend_event_def c p Let_def if_False if_True)
        (rule ext, use p c in \<open>simp add: event_base_def\<close>)
  next
    case later
    note c = invoice_event [OF later]
    have p: "et \<noteq> ''payment.completed''" "et \<noteq> ''qualified.waived''"
      using c(3) by simp_all
    show ?thesis
      by (rule that, simp only: translate_backend_event_def c p later Let_def if_False if_True simp_thms)
        (rule ext, use p c later in \<open>simp add: event_base_def\<close>)
  next
    case status
    then have p: "et \<noteq> ''payment.completed''" "et \<noteq> ''qualified.waived''" by simp_all
    show ?thesis
      by (rule that, simp only: translate_backend_event_def status p Let_def if_False simp_thms)
        (rule ext, use p status in \<open>simp add: event_base_def split: option.split\<close>)
  qed
qed

subsection \<open>Campaign starts\<close>

lemma start_only: "only (new_id ''run'' s) s (snd (start cfg wn ch i input v corr s))"
proof -
  obtain res s1 where l: "load wn v s = (res, s1)" by force
  note lf = load_frame [OF l]
  show ?thesis
  proof (cases res)
    case (Inl e)
    with l lf(1) show ?thesis by (simp add: start_def only_def)
  next
    case (Inr cw)
    obtain x s2 where x: "session_resolve cfg ch i s1 = (x, s2)" by force
    have same: "same_runs s1 s2" using session_ops_frame(6) [of s1 cfg ch i] x by simp
    define r where "r = new_run cfg cw x ch i corr s2"
    define s3 where "s3 = create_run r (mint (tick (tick s2)))"
    have id: "r_id r = new_id ''run'' s"
      using same lf(6,7) by (simp add: r_def new_run_def Let_def new_id_def same_runs_def)
    obtain x1 s4 where b: "bind_run x r s3 = (x1, s4)" by force
    have "runs s4 = runs s3" using session_runs(6) [of x r s3] b by simp
    then have o4: "only (r_id r) s s4"
      using same lf(1) by (simp add: s3_def create_run_def only_def same_runs_def)
    obtain mv s5 where tr: "transition cfg r R_RUNNING (Some ''start'') [] s4 = (mv, s5)" by force
    have o5: "only (r_id r) s s5" using only_trans [OF o4] transition_only [OF tr] by blast
    have eq: "start cfg wn ch i input v corr s = (case mv of Inl e \<Rightarrow> (Inl e, s5)
        | Inr r1 \<Rightarrow>
            let ctx = build_context r1 None None;
                s6 = emit ctx RUN_STARTED [(''workflow'', JStr (r_workflow r1))] s5;
                initial = \<lparr>i_session = s_id x1, i_channel = ch, i_identity = i,
                           i_workflow = r_workflow r1, i_last_input = input,
                           i_data = (case input of JObj d \<Rightarrow> d | _ \<Rightarrow> [])\<rparr>
            in drive cfg cw r1 (Some x1) ctx (C_Init initial) JNull s6)"
      using l Inr x b tr by (simp add: start_def r_def [symmetric] s3_def [symmetric] Let_def)
    show ?thesis
    proof (cases mv)
      case (Inl e)
      with eq o5 id show ?thesis by simp
    next
      case (Inr r1)
      have "r_id r1 = r_id r" using transition_only [OF tr] Inr by simp
      then have "only (r_id r) s5 (snd (drive cfg cw r1 y ctx c u (emit d RUN_STARTED pl s5)))"
        for y ctx c u d pl
        using drive_only [of r1 "emit d RUN_STARTED pl s5"] by (simp add: only_def)
      from only_trans [OF o5 this] eq Inr id show ?thesis by (simp add: Let_def)
    qed
  qed
qed

lemma cancelled_runs:
  "(if k \<in> r_id ` set ds
    then \<exists>r'. dget (runs (fold (\<lambda>r v. snd (save_run (r\<lparr>r_status := R_CANCELLED\<rparr>) v)) ds w)) k = Some r' \<and>
      r_status r' = R_CANCELLED
    else dget (runs (fold (\<lambda>r v. snd (save_run (r\<lparr>r_status := R_CANCELLED\<rparr>) v)) ds w)) k = dget (runs w) k)"
  by (induction ds rule: rev_induct) (auto simp: save_run_def Let_def)

lemma cancelled_ids:
  "minted (fold (\<lambda>r v. snd (save_run (r\<lparr>r_status := R_CANCELLED\<rparr>) v)) ds w) = minted w"
  "entropy (fold (\<lambda>r v. snd (save_run (r\<lparr>r_status := R_CANCELLED\<rparr>) v)) ds w) = entropy w"
  by (induction ds arbitrary: w) (simp_all add: save_run_def Let_def)

lemma in_flight_iff:
  "r \<in> set (in_flight ch i w) \<longleftrightarrow> r \<in> set (dvals (runs w)) \<and> r_channel r = Some ch \<and>
     r_identity r = i \<and> r_status r \<in> {R_WAITING_FOR_INPUT, R_RUNNING, R_PENDING}"
  by (auto simp: in_flight_def list_by_status_def)

lemma find_active_latest:
  assumes "find_active_run ch i w = Some r"
  shows "r \<in> set (in_flight ch i w)"
    "r' \<in> set (in_flight ch i w) \<Longrightarrow> r_updated_at r' \<le> r_updated_at r"
proof -
  let ?xs = "sort_key (\<lambda>r. - r_updated_at r) (in_flight ch i w)"
  from assms obtain rs where xs: "?xs = r # rs" by (auto simp: find_active_run_def split: list.splits)
  have set: "set ?xs = set (in_flight ch i w)" by simp
  then show "r \<in> set (in_flight ch i w)" using xs by (metis list.set_intros(1))
  have "sorted (map (\<lambda>r. - r_updated_at r) (r # rs))" using xs sorted_sort_key by metis
  moreover assume "r' \<in> set (in_flight ch i w)"
  with set xs have "r' \<in> set (r # rs)" by metis
  ultimately show "r_updated_at r' \<le> r_updated_at r" by auto
qed

text \<open>Driving a segment never touches the registry.\<close>

lemma session_defs [simp]:
  "defs (snd (mark_waiting cfg x s)) = defs s" "defs (snd (mark_active x s)) = defs s"
  "defs (snd (session_complete x s)) = defs s"
  using session_ops_frame [of s] by (simp_all add: same_runs_def)

lemma save_defs [simp]: "defs (snd (save_run r s)) = defs s"
  by (simp add: save_run_def Let_def)

lemma emit_defs [simp]: "defs (emit c ty pl s) = defs s"
  by (simp add: emit_def publish_def)

lemma handle_failure_defs: "defs (snd (handle_failure cfg r ctx e s)) = defs s"
  by (simp add: handle_failure_def Let_def split_beta transition_others split: sum.split)

lemma finalize_defs: "defs (snd (finalize cfg cw r sess ctx vals s)) = defs s"
  by (simp add: finalize_def Let_def split_beta transition_others split: sum.split option.split)

lemma invoke_defs: "defs (snd (invoke cfg g ctx cmd th s)) = defs s"
  unfolding invoke_def
  by (rule timeout_run_inv [where I = "\<lambda>t. defs t = defs s"]) (auto split: prod.splits)

lemma drive_defs: "defs (snd (drive cfg cw r sess ctx c v s)) = defs s"
proof -
  obtain res r1 s1 where run: "retry_run engine (default_retry_policy cfg)
      (attempt cfg (c_graph cw) ctx c v) (on_retry cfg ctx) (r, s) = (res, r1, s1)"
    by (metis prod.collapse)
  let ?I = "\<lambda>rs. defs (snd rs) = defs s"
  have "?I (r1, s1)"
  proof (rule retry_loop_inv [where I = ?I, OF run [unfolded retry_run_def Let_def]])
    show "?I (snd (attempt cfg (c_graph cw) ctx c v n rs))" if "?I rs" for n rs
      using that invoke_defs [of cfg "c_graph cw" ctx _ "r_thread (fst rs)" "snd rs"]
      by (simp add: attempt_def Let_def split_beta split: sum.split)
    show "?I (on_retry cfg ctx n e d rs)" if "?I rs" for n e d rs
      using that by (simp add: on_retry_def split_beta)
  qed (simp_all add: engine_def uniform_def split_beta)
  then show ?thesis
    using run handle_failure_defs [of cfg r1 ctx _ s1] finalize_defs [of cfg cw r1 sess ctx _ s1]
    by (cases res) (simp_all add: drive_def)
qed

lemma load_defs [simp]: "defs (snd (load n v s)) = defs s"
  using load_frame(10) [OF prod.collapse [symmetric], of n v s] .

lemma resume_defs: "defs (snd (resume cfg ch i m None ioc ioi s)) = defs s"
  by (simp add: resume_def Let_def split_beta drive_defs transition_others
      split: option.split sum.split)

lemma resume_returns:
  assumes "consistent s" "resumable cfg ch i r s"
    and "fst (load (r_workflow r) (Some (r_version r)) s) = Inr cw"
    and "\<And>th c. \<exists>snap. g_state (c_graph cw) th c = Inr snap"
  shows "\<exists>er t. resume cfg ch i m corr ioc ioi s = (Inr er, t)"
proof -
  obtain r2 x ctx s5 where d: "resume cfg ch i m corr ioc ioi s =
      drive cfg cw r2 (Some x) ctx (C_Resume m) m s5" "ready s r2 ctx s5"
    by (rule resume_drives [OF assms(1-3), of m corr ioc ioi])
  obtain res t where rt: "resume cfg ch i m corr ioc ioi s = (res, t)" by force
  with ready_drive_post [OF d(2), of cfg cw "Some x" "C_Resume m" m] d(1) assms(4)
  show ?thesis by (cases res) (auto simp: drive_post_def, metis sum.distinct(1))
qed

end
