(* ===== verification/Dispatch_Theorems.thy ===== *)
theory Dispatch_Theorems
  imports Dispatch_Props Wf_Example
begin

section \<open>Properties of the dispatcher and the poller\<close>

text \<open>
  What inbound messages, backend webhooks, campaign starts and poller ticks may do to the runs of
  an identity, and where the code bypasses the lifecycle the runtime maintains.
\<close>

definition demo_env :: "(nat, nat) dispatch_env" where
  "demo_env =
     \<lparr>dp_settings = demo_settings, dp_workflow = ''ask'', dp_allowed = ALL_BACKEND_EVENTS,
      dp_identity = None, dp_messenger = None, dp_str = (\<lambda>j. ''v''),
      dp_delete_thread = (\<lambda>t c. (True, c))\<rparr>"

definition demo_poll :: poll_env where
  "demo_poll = \<lparr>pl_parse_iso = (\<lambda>s. Some (0, True))\<rparr>"

definition demo_platform :: "nat world \<Rightarrow> (nat, nat) platform" where
  "demo_platform w = \<lparr>pf_world = w, pf_seen = [], pf_ports = 0\<rparr>"

text \<open>
  At most once per message. Whatever the platform did since, a message id that was dispatched
  once is dropped: the second delivery, on any channel and with any payload, returns nothing and
  changes nothing.
\<close>

theorem redelivered_message_is_dropped:
  assumes "platform_steps env pe (snd (dispatch env ch i pl (Some m) p)) q"
  shows "dispatch env ch' i' pl' (Some m) q = (Inr None, q)"
proof -
  obtain ok p1 where c: "claim (''inbound:'' @ m) p = (ok, p1)" by force
  have i1: "''inbound:'' @ m \<in> set (pf_seen p1)" using claim_seen [OF c] by blast
  have "seen_le p1 (snd (dispatch env ch i pl (Some m) p))"
    unfolding dispatch_def option.case c
    using dispatch_locked_le [of p1 env ch i pl] by (simp add: split_beta)
  with platform_steps_le [OF assms] i1 have "''inbound:'' @ m \<in> set (pf_seen q)"
    unfolding seen_le_def by blast
  then have "claim (''inbound:'' @ m) q = (False, q)" by (simp add: claim_def)
  then show ?thesis unfolding dispatch_def option.case by simp
qed

theorem redelivered_message_is_dropped_witness:
  "let q = snd (dispatch demo_env WHATSAPP ''1'' [] (Some ''m1'') (demo_platform empty_world))
   in dispatch demo_env EMAIL ''a@b'' [] (Some ''m1'') q = (Inr None, q)"
  unfolding Let_def
  by (rule redelivered_message_is_dropped [where pe = demo_poll])
    (unfold platform_steps_def, rule rtranclp.rtrancl_refl)



text \<open>
  C23. Inbound on a live run. When the session's run is not terminal, a new message resumes that
  run and no other: no run is created or lost, every other run is untouched, and no message id of
  the past is forgotten.
\<close>

theorem inbound_stays_on_live_run:
  assumes "consistent (pf_world p)"
    and "session_get (dp_settings env) ch i (pf_world p) = Some x" "s_active_run x = Some rid" "rid \<noteq> []"
    and "dget (runs (pf_world p)) rid = Some r" "r_status r \<notin> set TERMINAL_STATUSES"
    and "dispatch env ch i pl mid p = (out, q)"
  shows "set (dkeys (runs (pf_world q))) = set (dkeys (runs (pf_world p))) \<and>
    (\<forall>k. k \<noteq> rid \<longrightarrow> dget (runs (pf_world q)) k = dget (runs (pf_world p)) k) \<and>
    consistent (pf_world q) \<and> set (pf_seen p) \<subseteq> set (pf_seen q)"
proof -
  obtain ok p1 where c: "(case mid of None \<Rightarrow> (True, p) | Some m \<Rightarrow> claim (''inbound:'' @ m) p) = (ok, p1)"
    by force
  have w: "pf_world p1 = pf_world p"
    using c by (cases mid) (auto dest: claim_world)
  have id: "r_id r = rid" by (rule consistentD(3) [OF assms(1,5)])
  have act: "session_get (dp_settings env) ch i (pf_world p1) = Some x"
    "get_run_or_none rid (pf_world p1) = Some r"
    using assms(2,5) w by (simp_all add: get_run_or_none_def)
  let ?res = "resume (dp_settings env) ch i (JObj pl) None None None (pf_world p)"
  have dl: "pf_world (snd (dispatch_locked env ch i pl p1)) = snd ?res"
    using act assms(3,4,6) w by (simp add: dispatch_locked_def runtime_resume_def split_beta)
  have q: "pf_world q = pf_world p \<or> pf_world q = snd ?res"
    using assms(7) c dl w by (auto simp: dispatch_def split_beta split: if_splits)
  have ev: "evolves (pf_world p) (snd ?res)" by (rule resume_evolves [OF assms(1)])
  have on: "only rid (pf_world p) (snd ?res)" by (rule resume_only [OF assms(2-5) id assms(6)])
  have "seen_le p q" using dispatch_le [of p env ch i pl mid] assms(7) by simp
  moreover have "consistent (pf_world q)"
    using dispatch_evolves [OF assms(1), of env ch i pl mid] assms(7)
    by (auto simp: pf_evolves_def dest: evolves_consistent)
  moreover from q have "set (dkeys (runs (pf_world q))) = set (dkeys (runs (pf_world p)))"
    by (elim disjE) (simp_all only: only_domain [OF ev on assms(5)])
  moreover from q have "\<forall>k. k \<noteq> rid \<longrightarrow> dget (runs (pf_world q)) k = dget (runs (pf_world p)) k"
    by (elim disjE) (use on in \<open>simp_all add: only_def\<close>)
  ultimately show ?thesis unfolding seen_le_def by blast
qed

definition waiting_world :: "nat world" where
  "waiting_world = demo_world (demo_run\<lparr>r_status := R_WAITING_FOR_INPUT\<rparr>)
     [demo_entry R_PENDING R_RUNNING, demo_entry R_RUNNING R_WAITING_FOR_INPUT]"

lemma waiting_world_facts:
  "consistent waiting_world"
  "session_get demo_settings WHATSAPP ''1'' waiting_world = Some demo_session"
  "dget (runs waiting_world) ''run_'' = Some (demo_run\<lparr>r_status := R_WAITING_FOR_INPUT\<rparr>)"
  "s_active_run demo_session = Some ''run_''"
  unfolding waiting_world_def
  by (rule demo_world_consistent, simp add: demo_run_def, simp add: demo_waiting_trail,
    simp_all add: session_get_def get_session_def derive_session_id_def hash_identity_def
      demo_settings_def demo_world_def demo_session_def lower_def strip_def is_space_def
      lower_char_def code_def)

theorem inbound_stays_on_live_run_witness:
  "dkeys (runs (pf_world (snd (dispatch demo_env WHATSAPP ''1'' [(''text'', JStr ''500'')] (Some ''m'')
     (demo_platform waiting_world))))) = [''run_'']"
proof -
  obtain out q where d: "dispatch demo_env WHATSAPP ''1'' [(''text'', JStr ''500'')] (Some ''m'')
     (demo_platform waiting_world) = (out, q)" by force
  have k: "set (dkeys (runs waiting_world)) = {''run_''}" by (simp add: waiting_world_def demo_world_def)
  have "set (dkeys (runs (pf_world q))) = {''run_''} \<and> consistent (pf_world q)"
    using inbound_stays_on_live_run [of "demo_platform waiting_world" demo_env WHATSAPP "''1''"
        demo_session "''run_''", OF _ _ _ _ _ _ d] waiting_world_facts k
    by (simp add: demo_platform_def demo_env_def demo_run_def TERMINAL_STATUSES_def)
  with distinct_one [of "dkeys (runs (pf_world q))" "''run_''"] consistentD(1) [of "pf_world q"] d
  show ?thesis by simp
qed

text \<open>
  C24. A failed run is revived in place. When the session's run is \<open>FAILED\<close> (a timed-out run
  is not terminal and is resumed as it is), its workflow is registered and its checkpoint can be read, the next message
  drives that same run again: the result is the stored run under the same id, with more attempts,
  and no second run appears.
\<close>

theorem failed_run_is_revived:
  assumes "consistent (pf_world p)"
    and "session_get (dp_settings env) ch i (pf_world p) = Some x" "s_active_run x = Some rid" "rid \<noteq> []"
    and "dget (runs (pf_world p)) rid = Some r" "r_status r = R_FAILED"
    and "fst (load (r_workflow r) (Some (r_version r)) (pf_world p)) = Inr cw"
    and "\<And>th c. \<exists>snap. g_state (c_graph cw) th c = Inr snap"
  shows "\<exists>er q. dispatch env ch i pl None p = (Inr (Some er), q) \<and>
    dget (runs (pf_world q)) rid = Some (er_run er) \<and> r_status (er_run er) = er_status er \<and>
    r_attempts r < r_attempts (er_run er) \<and>
    set (dkeys (runs (pf_world q))) = set (dkeys (runs (pf_world p)))"
proof -
  let ?cfg = "dp_settings env"
  have rv: "r_status r \<in> set REVIVABLE_TERMINAL_STATUSES" "r_status r \<in> set TERMINAL_STATUSES"
    using assms(6) by (auto simp: REVIVABLE_TERMINAL_STATUSES_def TERMINAL_STATUSES_def)
  obtain r1 t where t: "revive_failed_run ?cfg r (pf_world p) = (Inr r1, t)" "evolves (pf_world p) t"
    "only rid (pf_world p) t" "resumable ?cfg ch i r1 t" "r_id r1 = rid" "r_attempts r1 = r_attempts r"
    "fst (load (r_workflow r1) (Some (r_version r1)) t) = Inr cw"
    using revived_resumable [OF assms(1-5) rv(1)] assms(7) by metis
  obtain r2 y ctx s5 where d: "resume ?cfg ch i (JObj pl) None None None t =
      drive ?cfg cw r2 (Some y) ctx (C_Resume (JObj pl)) (JObj pl) s5" "ready t r2 ctx s5"
    "r_id r2 = r_id r1" "r_attempts r2 = r_attempts r1"
    by (rule resume_drives [OF evolves_consistent [OF t(2)] t(4,7), of "JObj pl" None None None])
  obtain res u where u: "resume ?cfg ch i (JObj pl) None None None t = (res, u)" by force
  have post: "drive_post ?cfg (c_graph cw) r2 s5 (res, u)"
    using ready_drive_post [OF d(2), of ?cfg cw "Some y" "C_Resume (JObj pl)" "JObj pl"] d(1) u by simp
  with assms(8) obtain er where er: "res = Inr er" "closes rid s5 er u"
    "r_attempts r + 1 \<le> r_attempts (er_run er)"
    using d(3,4) t(5,6) by (cases res) (auto simp: drive_post_def, metis sum.distinct(1))
  from t(4) obtain y' where y': "session_get ?cfg ch i t = Some y'" "s_active_run y' = Some rid"
    "dget (runs t) rid = Some r1" "r_status r1 \<notin> set TERMINAL_STATUSES"
    using t(5) by (auto simp: resumable_def)
  have "only rid t u" using resume_only [OF y'(1,2) assms(4) y'(3) t(5) y'(4), of "JObj pl" None None] u by simp
  with t(3) have on: "only rid (pf_world p) u" by (rule only_trans)
  have ev: "evolves (pf_world p) u"
    using evolves_trans [OF t(2) resume_evolves [OF evolves_consistent [OF t(2)],
        of ?cfg ch i "JObj pl" None None None]] u by simp
  have "dispatch env ch i pl None p = (Inr (Some er), p\<lparr>pf_world := u\<rparr>)"
    using assms(2-5) rv t(1) u er(1)
    by (simp add: dispatch_def dispatch_locked_def get_run_or_none_def runtime_revive_def
        runtime_resume_def)
  with er(2,3) only_domain [OF ev on assms(5)] show ?thesis by (auto simp: closes_def)
qed

definition failed_world :: "nat world" where
  "failed_world = demo_world (demo_run\<lparr>r_status := R_FAILED\<rparr>)
     [demo_entry R_PENDING R_RUNNING, demo_entry R_RUNNING R_FAILED]"

theorem failed_run_is_revived_witness:
  "\<exists>er q. dispatch demo_env WHATSAPP ''1'' [(''text'', JStr ''500'')] None (demo_platform failed_world)
     = (Inr (Some er), q) \<and> set (dkeys (runs (pf_world q))) = {''run_''} \<and> 0 < r_attempts (er_run er)"
proof -
  let ?r = "demo_run\<lparr>r_status := R_FAILED\<rparr>"
  have c: "consistent failed_world"
    unfolding failed_world_def
    by (rule demo_world_consistent) (simp_all add: demo_run_def moves_def demo_entry_def is_allowed_def)
  have "session_get demo_settings WHATSAPP ''1'' failed_world = Some demo_session"
    using waiting_world_facts(2)
    by (simp add: session_get_def get_session_def failed_world_def waiting_world_def demo_world_def)
  moreover have "dget (runs failed_world) ''run_'' = Some ?r" "set (dkeys (runs failed_world)) = {''run_''}"
    by (simp_all add: failed_world_def demo_world_def)
  moreover have "fst (load (r_workflow ?r) (Some (r_version ?r)) failed_world) =
      Inr \<lparr>c_def = ask_def, c_graph = ask_graph\<rparr>"
    by (simp add: load_def Let_def registry_get_def versions_of_def failed_world_def demo_world_def
        demo_run_def empty_world_def ask_def_def)
  moreover have "\<exists>snap. g_state (c_graph \<lparr>c_def = ask_def, c_graph = ask_graph\<rparr>) th k = Inr snap" for th k
    by (simp add: ask_graph_def)
  ultimately have "\<exists>er q. dispatch demo_env WHATSAPP ''1'' [(''text'', JStr ''500'')] None
      (demo_platform failed_world) = (Inr (Some er), q) \<and>
      dget (runs (pf_world q)) ''run_'' = Some (er_run er) \<and> r_status (er_run er) = er_status er \<and>
      r_attempts ?r < r_attempts (er_run er) \<and> set (dkeys (runs (pf_world q))) = {''run_''}"
    using failed_run_is_revived [of "demo_platform failed_world" demo_env WHATSAPP "''1''" demo_session
        "''run_''" ?r "\<lparr>c_def = ask_def, c_graph = ask_graph\<rparr>" "[(''text'', JStr ''500'')]"]
      c waiting_world_facts(4) by (simp add: demo_platform_def demo_env_def)
  then show ?thesis by (auto simp: demo_run_def)
qed

text \<open>A lock that has just been handed out is kept.\<close>

lemma handed_out_kept:
  assumes "distinct (dkeys (l_entries t))" "length (l_entries t) \<le> l_max t"
    and "\<forall>n \<in> set (dvals (l_entries t)). n < l_next t" "0 < l_max t"
    and "identity_lock key t = (lock, t1)"
  shows "lock_kept key lock {} t1"
proof -
  have m: "l_max t1 = l_max t" using lock_step_max [of key t] assms(5) by simp
  show ?thesis
  proof (cases "map_of (l_entries t) key")
    case None
    let ?es = "l_entries t @ [(key, l_next t)]"
    let ?d = "length ?es - l_max t"
    have t1: "l_entries t1 = drop ?d ?es" "l_next t1 = Suc (l_next t)" "lock = l_next t"
      using assms(5) None by (auto simp: identity_lock_def Let_def)
    have "distinct (dkeys ?es)" using assms(1) None by (simp add: map_of_eq_None_iff)
    then have dk: "distinct (dkeys (l_entries t1))"
      unfolding t1(1) drop_map [symmetric] by (rule distinct_drop)
    have "?d \<le> length (l_entries t)" using assms(2,4) by (cases "l_entries t") auto
    then have e1: "l_entries t1 = drop ?d (l_entries t) @ (key, lock) # []" using t1(1,3) by simp
    have "length (l_entries t1) \<le> l_max t1" using t1(1) m by simp
    with e1 dk t1(2,3) show ?thesis
      unfolding lock_kept_def by (intro exI [where x = "drop ?d (l_entries t)"] exI [where x = "[]"]) simp
  next
    case (Some x)
    have t1: "l_entries t1 = dpop key (l_entries t) @ (key, x) # []" "l_next t1 = l_next t" "lock = x"
      using assms(5) Some by (auto simp: identity_lock_def)
    have kx: "(key, x) \<in> set (l_entries t)" by (rule map_of_SomeD [OF Some])
    have dk: "distinct (dkeys (l_entries t1))" using assms(1) by (simp add: t1(1) dkeys_dpop)
    have "set (dkeys (l_entries t1)) = set (dkeys (l_entries t))"
      using kx unfolding t1(1) by (force simp: dkeys_dpop)
    then have len: "length (l_entries t1) = length (l_entries t)"
      using distinct_card [OF dk] distinct_card [OF assms(1)] by simp
    have "lock < l_next t1" using assms(3) kx t1(2,3) by force
    with dk len m assms(2) t1(1,3) show ?thesis
      unfolding lock_kept_def
      by (intro exI [where x = "dpop key (l_entries t)"] exI [where x = "[]"]) simp
  qed
qed

text \<open>
  C26. The lock table forgets locks that are held. After an identity took its lock, the same identity
  is handed the same lock exactly as long as fewer than \<open>_locks_max\<close> other identities
  used the table since; from then on it gets a fresh one, whether or not the old lock is still held.
\<close>

theorem lock_survives_iff_few_others:
  assumes "distinct (dkeys (l_entries t))" "length (l_entries t) \<le> l_max t"
    and "\<forall>n \<in> set (dvals (l_entries t)). n < l_next t" "0 < l_max t"
    and "identity_lock key t = (lock, t1)" "key \<notin> set ks"
  shows "fst (identity_lock key (touch ks t1)) = lock \<longleftrightarrow> card (set ks) < l_max t"
proof -
  have m: "l_max t1 = l_max t" using lock_step_max [of key t] assms(5) by simp
  from touch_kept [OF handed_out_kept [OF assms(1-5)] assms(6)] assms(4)
  have cases: "if card (set ks) < l_max t then lock_kept key lock (set ks) (touch ks t1)
    else lock_lost key lock (touch ks t1)" unfolding m Un_empty_left by simp
  show ?thesis
  proof (cases "card (set ks) < l_max t")
    case True
    with cases obtain as bs where e: "l_entries (touch ks t1) = as @ (key, lock) # bs"
      "distinct (dkeys (l_entries (touch ks t1)))" by (auto simp: lock_kept_def)
    from e(1) have "(key, lock) \<in> set (l_entries (touch ks t1))" by simp
    then have "map_of (l_entries (touch ks t1)) key = Some lock" by (rule map_of_is_SomeI [OF e(2)])
    with True show ?thesis by (simp add: identity_lock_def)
  next
    case False
    with cases show ?thesis by (simp add: lock_lost_def identity_lock_def)
  qed
qed

theorem lock_survives_iff_few_others_witness:
  "let t = \<lparr>l_entries = [], l_next = 0, l_max = 2\<rparr>;
       t1 = snd (identity_lock (WHATSAPP, ''1'') t)
   in fst (identity_lock (WHATSAPP, ''1'') (touch [(EMAIL, ''a''), (EMAIL, ''b'')] t1)) \<noteq> 0"
proof -
  let ?t = "\<lparr>l_entries = [], l_next = 0, l_max = 2\<rparr>"
  have "identity_lock (WHATSAPP, ''1'') ?t = (0, snd (identity_lock (WHATSAPP, ''1'') ?t))"
    by (simp add: identity_lock_def)
  from lock_survives_iff_few_others [OF _ _ _ _ this, of "[(EMAIL, ''a''), (EMAIL, ''b'')]"]
  show ?thesis by (simp add: Let_def)
qed

text \<open>
  What a webhook tells the workflow. Each event is one kind of message: an invoice-phase event,
  a payment, or a status update; \<open>paid\<close>, the journey status and the rejection flag are
  present exactly for the events that imply them. The payload of the event is merged last, so any
  key it carries, \<open>type\<close> and \<open>paid\<close> included, replaces the derived one.
\<close>

theorem webhook_translation:
  assumes "distinct (dkeys pl)"
  shows "dget (translate_backend_event et pl) k =
    (case dget pl k of Some v \<Rightarrow> Some v
     | None \<Rightarrow>
        if k = ''type'' then Some (JStr
          (if et \<in> set PHASE1B_BACKEND_EVENTS then ''phase1b_event''
           else if et \<in> {''payment.completed'', ''qualified.waived''} then ''payment''
           else ''status_update''))
        else if k = ''event'' then Some (JStr et)
        else if k = ''last_status_source'' then Some (JStr ''webhook'')
        else if k = ''paid'' \<and> et \<in> {''payment.completed'', ''qualified.waived''} then Some (JBool True)
        else if k = ''journey_status'' then map_option JStr (dget EVENT_TO_JOURNEY_STATUS et)
        else if k = ''prequalification_rejected'' \<and> et = ''prequalification.rejected'' then Some (JBool True)
        else None)"
proof -
  obtain b where "translate_backend_event et pl = merge b pl" "dget b = event_base et"
    by (rule translate_base)
  then show ?thesis by (simp only: dget_merge [OF assms] event_base_def)
qed

theorem webhook_translation_witness:
  "dget (translate_backend_event ''payment.completed'' [(''paid'', JBool False)]) ''paid'' =
     Some (JBool False) \<and>
   dget (translate_backend_event ''madad_score.ready'' []) ''journey_status'' = Some (JStr ''QUALIFIED'')"
  using webhook_translation [of "[(''paid'', JBool False)]" "''payment.completed''" "''paid''"]
    webhook_translation [of "[]" "''madad_score.ready''" "''journey_status''"]
  by (simp add: EVENT_TO_JOURNEY_STATUS_def)

text \<open>After the cancellation no run of the identity is in flight.\<close>

lemma cancelled_none_left:
  assumes "distinct (dkeys (runs w))" and "\<And>k r. dget (runs w) k = Some r \<Longrightarrow> r_id r = k"
    and "dget (runs (fold (\<lambda>r v. snd (save_run (r\<lparr>r_status := R_CANCELLED\<rparr>) v)) (in_flight ch i w) w)) k = Some r"
    and "r_channel r = Some ch" "r_identity r = i" "r_status r \<in> {R_WAITING_FOR_INPUT, R_RUNNING, R_PENDING}"
  shows False
proof (cases "k \<in> r_id ` set (in_flight ch i w)")
  case True
  with cancelled_runs [of k "in_flight ch i w" w] assms(3,6) show False by auto
next
  case out: False
  with cancelled_runs [of k "in_flight ch i w" w] assms(3)
  have kp: "dget (runs w) k = Some r" by simp
  then have "r \<in> set (dvals (runs w))" using map_of_SomeD by force
  with assms(4-6) have "r \<in> set (in_flight ch i w)" by (simp add: in_flight_iff)
  with assms(2) [OF kp] out show False by blast
qed

text \<open>
  C25. One campaign run per identity. A campaign start either returns the most recently updated
  run that is in flight for the channel and identity, leaving everything as it is, or cancels all
  of them first: afterwards no run but the one it started is in flight for that identity.
\<close>

theorem campaign_leaves_one_run:
  assumes "distinct (dkeys (runs (pf_world p)))"
    and "\<And>k r. dget (runs (pf_world p)) k = Some r \<Longrightarrow> r_id r = k"
    and "start_campaign env ch i loc p = (out, q)"
  shows "(\<exists>r. out = Inr (Inl r) \<and> q = p \<and> r \<in> set (in_flight ch i (pf_world p)) \<and>
      (\<forall>r' \<in> set (in_flight ch i (pf_world p)). r_updated_at r' \<le> r_updated_at r)) \<or>
    (\<forall>k r. dget (runs (pf_world q)) k = Some r \<and> r_channel r = Some ch \<and> r_identity r = i \<and>
      r_status r \<in> {R_WAITING_FOR_INPUT, R_RUNNING, R_PENDING} \<longrightarrow> k = new_id ''run'' (pf_world p))"
proof -
  define lk where "lk = ''campaign_start:'' @ channel_value ch @ '':'' @ i"
  define input where "input = JObj [(''trigger'', JStr ''campaign''), (''locale'', JStr loc)]"
  note unf = assms(3) [unfolded start_campaign_def lk_def [symmetric] input_def [symmetric]]
  obtain ok p1 where c: "claim lk p = (ok, p1)" by force
  have p1: "pf_world p1 = pf_world p" "\<not> ok \<Longrightarrow> p1 = p" using claim_seen [OF c] by auto
  show ?thesis
  proof (cases "\<not> ok \<and> (\<exists>r. find_active_run ch i (pf_world p) = Some r)")
    case True
    then obtain r where r: "find_active_run ch i (pf_world p) = Some r" by blast
    with unf c True p1 have "out = Inr (Inl r)" "q = p" by auto
    with find_active_latest [OF r] show ?thesis by blast
  next
    case False
    define ds where "ds = in_flight ch i (pf_world p)"
    define w where "w = fold (\<lambda>r v. snd (save_run (r\<lparr>r_status := R_CANCELLED\<rparr>) v)) ds (pf_world p)"
    let ?st = "start (dp_settings env) ''onboarding'' ch i input None None w"
    have "pf_world q = snd ?st"
      using unf c False p1
      by (auto simp: cancel_active_runs_for_def runtime_start_def w_def ds_def split_beta Let_def
          split: option.splits sum.splits if_splits)
    moreover have "new_id ''run'' w = new_id ''run'' (pf_world p)"
      by (simp add: new_id_def w_def cancelled_ids)
    ultimately have other: "dget (runs (pf_world q)) k = dget (runs w) k"
      if "k \<noteq> new_id ''run'' (pf_world p)" for k
      using start_only [of w "dp_settings env" "''onboarding''" ch i input None None] that
      by (simp add: only_def)
    have "k = new_id ''run'' (pf_world p)"
      if r: "dget (runs (pf_world q)) k = Some r" "r_channel r = Some ch" "r_identity r = i"
        "r_status r \<in> {R_WAITING_FOR_INPUT, R_RUNNING, R_PENDING}" for k r
      using cancelled_none_left [OF assms(1,2), of ch i k r, folded ds_def, folded w_def] other r by metis
    then show ?thesis by blast
  qed
qed

theorem campaign_leaves_one_run_witness:
  "{k. \<exists>r. dget (runs (pf_world (snd (start_campaign demo_env WHATSAPP ''1'' ''en''
      (demo_platform waiting_world))))) k = Some r \<and> r_channel r = Some WHATSAPP \<and> r_identity r = ''1'' \<and>
    r_status r = R_WAITING_FOR_INPUT} \<subseteq> {''run_x''}"
proof -
  obtain out q where c: "start_campaign demo_env WHATSAPP ''1'' ''en'' (demo_platform waiting_world) = (out, q)"
    by force
  have keys: "distinct (dkeys (runs (pf_world (demo_platform waiting_world))))"
    "\<And>k r. dget (runs (pf_world (demo_platform waiting_world))) k = Some r \<Longrightarrow> r_id r = k"
    using consistentD(1,3) [OF waiting_world_facts(1)] by (simp_all add: demo_platform_def)
  have "fst (claim lk (demo_platform waiting_world))" for lk
    by (simp add: claim_def demo_platform_def)
  then have "out \<noteq> Inr (Inl r)" for r
    using c by (auto simp: start_campaign_def Let_def split_beta split: sum.splits)
  moreover have "new_id ''run'' (pf_world (demo_platform waiting_world)) = ''run_x''"
    by (simp add: new_id_def demo_platform_def waiting_world_def demo_world_def empty_world_def)
  ultimately show ?thesis using campaign_leaves_one_run [OF keys c] c by auto
qed

end
