(* ===== verification/Poller_Theorems.thy ===== *)
theory Poller_Theorems
  imports Dispatch_Theorems
begin

section \<open>Properties of the status poller\<close>

text \<open>
  When a waiting run is due, what a tick may do to it, and how it writes run statuses outside the
  lifecycle.
\<close>

text \<open>
  Cadence. A run that was polled before is polled again exactly when its cadence has passed,
  twice the cadence when the last status came from a webhook; every cadence lies between one minute
  and one hour, so no run waits longer than two hours for a poll.
\<close>

theorem poll_due_iff_cadence_passed:
  "(poll_due (Some t) src now (cadence_for st) \<longleftrightarrow>
      (if src = JStr ''webhook'' then 2 else 1) * cadence_for st \<le> now - t) \<and>
   poll_due None src now (cadence_for st) \<and>
   60 * 1000000 \<le> cadence_for st \<and> cadence_for st \<le> 3600 * 1000000"
proof -
  have b: "60 * 1000000 \<le> cadence_for st \<and> cadence_for st \<le> 3600 * 1000000"
    by (simp add: cadence_for_def CADENCE_OFFER_def CADENCE_FAST_def CADENCE_MEDIUM_def CADENCE_SLOW_def)
  then show ?thesis by (auto simp: poll_due_def Let_def)
qed

lemma read_state_seen:
  "read_state r w = (res, w') \<Longrightarrow> runs w' = runs w \<and> audit w' = audit w \<and> sessions w' = sessions w"
  by (auto simp: read_state_def split: prod.splits sum.splits dest: load_frame)

text \<open>The claim a settle prompt makes, and when the sweep gets to it.\<close>

definition settle_key ::
  "('cp, 'm) dispatch_env \<Rightarrow> wf_run \<Rightarrow> payload \<Rightarrow> string"
where
  "settle_key env r d = ''docs:settle:'' @ r_identity r @ '':'' @ r_id r @ '':'' @
     text_of env (jget d ''docs_last_upload_at'')"

lemma settle_fired:
  assumes "maybe_settle_docs env pe r now p = (Inr True, q)"
  obtains d w where "read_state r (pf_world p) = (Inr (Some d), w)" "settle_key env r d \<in> set (pf_seen q)"
proof -
  from assms obtain ch where ch: "r_channel r = Some ch" by (auto simp: maybe_settle_docs_def split: option.splits)
  from assms ch have ne: "r_identity r \<noteq> []" by (auto simp: maybe_settle_docs_def)
  obtain res w where rd: "read_state r (pf_world p) = (res, w)" by force
  from assms ch ne rd obtain d where d: "res = Inr (Some d)"
    by (cases res) (auto simp: maybe_settle_docs_def split: option.splits)
  obtain ok p2 where c: "claim (settle_key env r d) (p\<lparr>pf_world := w\<rparr>) = (ok, p2)" by force
  obtain rr p3 where rs: "resume_external env ch (r_identity r) [(''type'', JStr ''docs_settle'')] p2 = (rr, p3)"
    by force
  from assms ch ne rd d c rs have "q = p3"
    unfolding maybe_settle_docs_def settle_key_def [symmetric]
    by (auto simp: Let_def split: if_splits sum.splits option.splits)
  moreover have "seen_le p2 p3"
    using rs runtime_le(1) [of p2 env ch "r_identity r" "JObj [(''type'', JStr ''docs_settle'')]" None None p2]
    by (simp add: resume_external_def)
  ultimately show ?thesis using claim_seen [OF c] that rd d unfolding seen_le_def by blast
qed

lemma settle_blocked:
  assumes "read_state r (pf_world p) = (Inr (Some d), w)" "settle_key env r d \<in> set (pf_seen p)"
  shows "fst (maybe_settle_docs env pe r now p) \<noteq> Inr True \<and>
    runs (pf_world (snd (maybe_settle_docs env pe r now p))) = runs (pf_world p)"
proof -
  have c: "claim (settle_key env r d) (p\<lparr>pf_world := w\<rparr>) = (False, p\<lparr>pf_world := w\<rparr>)"
    using assms(2) by (simp add: claim_def)
  have w: "runs w = runs (pf_world p)" using read_state_seen [OF assms(1)] by simp
  show ?thesis
    unfolding maybe_settle_docs_def settle_key_def [symmetric]
    using assms(1) c w by (auto simp: Let_def split: option.split sum.split)
qed

text \<open>
  One settle prompt per quiet window. After the sweep resumed a run for its upload window,
  no later sweep resumes that run for the same window, whatever the platform did in between and
  whatever the run's checkpoint says about having been prompted; the runs stay as they are.
\<close>

theorem settle_prompts_once:
  assumes "maybe_settle_docs env pe r now p = (Inr True, p1)"
    and "platform_steps env pe p1 q"
    and "read_state r (pf_world p) = (Inr (Some d), w)" "read_state r' (pf_world q) = (Inr (Some d'), w')"
    and "r_id r' = r_id r" "r_identity r' = r_identity r"
    and "jget d' ''docs_last_upload_at'' = jget d ''docs_last_upload_at''"
  shows "fst (maybe_settle_docs env pe r' now' q) \<noteq> Inr True \<and>
    runs (pf_world (snd (maybe_settle_docs env pe r' now' q))) = runs (pf_world q)"
proof -
  have "settle_key env r d \<in> set (pf_seen p1)"
    using settle_fired [OF assms(1)] assms(3) by (metis Inr_inject option.inject prod.inject)
  then have "settle_key env r' d' \<in> set (pf_seen q)"
    using platform_steps_le [OF assms(2)] assms(5-7) unfolding seen_le_def settle_key_def by auto
  with assms(4) show ?thesis by (rule settle_blocked)
qed

text \<open>A workflow parked on its document upload, with one document still missing.\<close>

definition upload_values :: payload where
  "upload_values =
     [(''missing_documents'', JList [JStr ''cr'']), (''docs_acked'', JBool True),
      (''docs_last_upload_at'', JStr ''t0'')]"

definition upload_graph :: "nat graph" where
  "upload_graph = ask_graph\<lparr>g_state := (\<lambda>th c. Inr
     \<lparr>sn_next = [''ask''], sn_interrupts = [], sn_values = JObj upload_values\<rparr>)\<rparr>"

definition upload_world :: "nat world" where
  "upload_world = waiting_world\<lparr>defs := [(''ask'', [(1, ask_def\<lparr>d_graph := upload_graph\<rparr>)])]\<rparr>"

definition upload_workflow :: "nat compiled" where
  "upload_workflow = \<lparr>c_def = ask_def\<lparr>d_graph := upload_graph\<rparr>, c_graph = upload_graph\<rparr>"

definition upload_run :: wf_run where
  "upload_run = demo_run\<lparr>r_status := R_WAITING_FOR_INPUT\<rparr>"

lemma upload_loads:
  assumes "defs w = defs upload_world" "coherent w"
  shows "\<exists>s. load (r_workflow upload_run) (Some (r_version upload_run)) w = (Inr upload_workflow, s)"
proof -
  have g: "registry_get ''ask'' (Some 1) w = Inr (ask_def\<lparr>d_graph := upload_graph\<rparr>)"
    using assms(1) by (simp add: registry_get_def versions_of_def upload_world_def waiting_world_def
        demo_world_def empty_world_def)
  have v: "r_workflow upload_run = ''ask''" "r_version upload_run = 1"
    by (simp_all add: upload_run_def demo_run_def)
  obtain res s where l: "load ''ask'' (Some 1) w = (res, s)" by force
  show ?thesis
  proof (cases res)
    case (Inl e)
    with load_error [OF l [unfolded Inl]] g show ?thesis by simp
  next
    case (Inr c)
    from load_returns_registered [OF assms(2) l [unfolded Inr]] g have "c = upload_workflow"
      by (cases c) (simp add: upload_workflow_def)
    with l Inr v show ?thesis by simp
  qed
qed

lemma upload_world_ok: "consistent upload_world" "coherent upload_world"
proof -
  show c: "coherent upload_world"
    by (rule coherentI)
      (auto simp: registered_def versions_of_def upload_world_def waiting_world_def demo_world_def
        empty_world_def ask_def_def split: if_splits)
  show "consistent upload_world"
    by (rule evolves_consistent, rule evolves_frame [OF waiting_world_facts(1)])
      (simp_all add: upload_world_def c [unfolded upload_world_def])
qed

lemma upload_reads:
  "\<exists>w. read_state upload_run upload_world = (Inr (Some upload_values), w) \<and>
     evolves upload_world w \<and> defs w = defs upload_world \<and> sessions w = sessions upload_world \<and>
     runs w = runs upload_world"
proof -
  obtain w where l: "load (r_workflow upload_run) (Some (r_version upload_run)) upload_world =
    (Inr upload_workflow, w)" using upload_loads [OF refl upload_world_ok(2)] by blast
  with evolves_load [OF upload_world_ok(1) l] load_frame [OF l] show ?thesis
    by (simp add: read_state_def upload_workflow_def upload_graph_def)
qed

lemma upload_world_fires:
  "\<exists>q. maybe_settle_docs demo_env demo_poll upload_run 9000000 (demo_platform upload_world) = (Inr True, q) \<and>
     defs (pf_world q) = defs upload_world \<and> evolves upload_world (pf_world q)"
proof -
  obtain w where w: "read_state upload_run upload_world = (Inr (Some upload_values), w)"
    "evolves upload_world w" "defs w = defs upload_world" "sessions w = sessions upload_world"
    "runs w = runs upload_world" using upload_reads by blast
  have "coherent w" using w(2) upload_world_ok(2) by (simp add: evolves_def)
  then obtain s where "load (r_workflow upload_run) (Some (r_version upload_run)) w = (Inr upload_workflow, s)"
    using upload_loads [OF w(3)] by blast
  moreover have "session_get demo_settings WHATSAPP ''1'' w = Some demo_session"
    using waiting_world_facts(2) w(4) by (simp add: session_get_def get_session_def upload_world_def)
  then have "resumable demo_settings WHATSAPP ''1'' upload_run w"
    using w(5) waiting_world_facts(4)
    by (simp add: resumable_def upload_world_def waiting_world_def demo_world_def upload_run_def
        demo_run_def TERMINAL_STATUSES_def)
  moreover have "\<exists>snap. g_state (c_graph upload_workflow) th c = Inr snap" for th c
    by (simp add: upload_workflow_def upload_graph_def)
  ultimately obtain er t where rs: "resume demo_settings WHATSAPP ''1'' (JObj [(''type'', JStr ''docs_settle'')])
      None None None w = (Inr er, t)"
    using resume_returns [OF evolves_consistent [OF w(2)], of demo_settings WHATSAPP "''1''" upload_run]
    by (metis fst_conv)
  have r: "r_channel upload_run = Some WHATSAPP" "r_identity upload_run = ''1''"
    by (simp_all add: upload_run_def demo_run_def)
  have v: "jget upload_values ''docs_last_upload_at'' = JStr ''t0''"
    "jget upload_values ''missing_documents'' = JList [JStr ''cr'']"
    "jget upload_values ''docs_acked'' = JBool True"
    "jget upload_values ''docs_settle_prompted'' = JNull" "upload_values \<noteq> []"
    by (simp_all add: upload_values_def jget_def)
  have "claim k (demo_platform upload_world\<lparr>pf_world := w\<rparr>) =
      (True, demo_platform upload_world\<lparr>pf_world := w, pf_seen := [k]\<rparr>)" for k
    by (simp add: claim_def demo_platform_def)
  then have "maybe_settle_docs demo_env demo_poll upload_run 9000000 (demo_platform upload_world) =
      (Inr True, demo_platform upload_world\<lparr>pf_world := t, pf_seen := [settle_key demo_env upload_run upload_values]\<rparr>)"
    using w(1) rs r v
    by (simp add: maybe_settle_docs_def demo_platform_def last_upload_of_def demo_poll_def
        DOCS_SETTLE_QUIET_def resume_external_def runtime_resume_def demo_env_def settle_key_def)
  moreover have "defs t = defs upload_world" "evolves w t"
    using resume_defs [of demo_settings WHATSAPP "''1''" "JObj [(''type'', JStr ''docs_settle'')]" None None w]
      resume_evolves [OF evolves_consistent [OF w(2)],
        of demo_settings WHATSAPP "''1''" "JObj [(''type'', JStr ''docs_settle'')]" None None None] rs w(3)
    by simp_all
  ultimately show ?thesis using evolves_trans [OF w(2)] by force
qed

theorem settle_prompts_once_witness:
  "\<exists>q. maybe_settle_docs demo_env demo_poll upload_run 9000000 (demo_platform upload_world) = (Inr True, q) \<and>
     fst (maybe_settle_docs demo_env demo_poll upload_run 99000000 q) \<noteq> Inr True"
proof -
  obtain q where q: "maybe_settle_docs demo_env demo_poll upload_run 9000000 (demo_platform upload_world) =
      (Inr True, q)" "defs (pf_world q) = defs upload_world" "evolves upload_world (pf_world q)"
    using upload_world_fires by blast
  have "coherent (pf_world q)" using q(3) upload_world_ok(2) by (simp add: evolves_def)
  then obtain s where "load (r_workflow upload_run) (Some (r_version upload_run)) (pf_world q) =
      (Inr upload_workflow, s)" using upload_loads [OF q(2)] by blast
  then have r2: "read_state upload_run (pf_world q) = (Inr (Some upload_values), s)"
    by (simp add: read_state_def upload_workflow_def upload_graph_def)
  obtain w where r1: "read_state upload_run (pf_world (demo_platform upload_world)) =
      (Inr (Some upload_values), w)" using upload_reads by (auto simp: demo_platform_def)
  have "platform_steps demo_env demo_poll q q" by (simp add: platform_steps_def)
  from settle_prompts_once [OF q(1) this r1 r2 refl refl refl] q(1) show ?thesis by blast
qed

text \<open>
  Orphans leave the lifecycle. A due run its session no longer points at is stored as
  \<open>CANCELLED\<close> by the poller directly: its audit trail still ends in
  \<open>WAITING_FOR_INPUT\<close>, it has no completion time, no event is published, and the state no
  longer satisfies the audit invariant that every runtime operation keeps.
\<close>

theorem orphan_cancel_is_unaudited:
  assumes "consistent (pf_world p)" "dget (runs (pf_world p)) (r_id r) = Some r"
    and "r_status r = R_WAITING_FOR_INPUT" "r_step r = Some step" "step \<in> set POLLABLE_STEPS"
    and "read_state r (pf_world p) = (Inr (Some d), w)"
    and "last_polled_of pe (jget d ''last_polled_at'') = Inr lp"
    and "poll_due lp (jget d ''last_status_source'') now (cadence_for (jget d ''journey_status''))"
    and "r_channel r = Some ch" "r_identity r \<noteq> []"
    and "\<And>x. session_get (dp_settings env) ch (r_identity r) (pf_world p) = Some x \<Longrightarrow>
      s_active_run x \<noteq> Some (r_id r)"
    and "poll_one env pe r now st p = (st', q)"
  shows "\<exists>r'. dget (runs (pf_world q)) (r_id r) = Some r' \<and> r_status r' = R_CANCELLED \<and>
    r_completed_at r' = r_completed_at r \<and> trail (r_id r) (pf_world q) = trail (r_id r) (pf_world p) \<and>
    chain is_allowed R_PENDING (trail (r_id r) (pf_world q)) R_WAITING_FOR_INPUT \<and>
    \<not> consistent (pf_world q) \<and> st' = count_outcome Skipped_step st"
proof -
  note w = read_state_seen [OF assms(6)]
  have "session_get (dp_settings env) ch (r_identity r) w =
      session_get (dp_settings env) ch (r_identity r) (pf_world p)"
    using w by (simp add: session_get_def get_session_def)
  then have orphan: "(case session_get (dp_settings env) ch (r_identity r) w of None \<Rightarrow> True
      | Some x \<Rightarrow> s_active_run x \<noteq> Some (r_id r))"
    using assms(11) by (simp split: option.split)
  have steps: "step \<noteq> DOCS_UPLOAD_STEP"
    using assms(5) by (auto simp: POLLABLE_STEPS_def DOCS_UPLOAD_STEP_def)
  have pr: "poll_run env pe r now p = (Skipped_step, p\<lparr>pf_world := cancel_orphan r w\<rparr>)"
    using assms(6-10) orphan by (simp add: poll_run_def)
  then have q: "pf_world q = cancel_orphan r w" "st' = count_outcome Skipped_step st"
    using assms(4,5,12) steps by (auto simp: poll_one_def)
  let ?r = "r\<lparr>r_status := R_CANCELLED, r_updated_at := utcnow w\<rparr>"
  have s: "dget (runs (pf_world q)) (r_id r) = Some ?r"
    by (simp add: q cancel_orphan_def save_run_def Let_def)
  have t: "trail (r_id r) (pf_world q) = trail (r_id r) (pf_world p)"
    unfolding q cancel_orphan_def using trail_frame [of w "pf_world p"] w by simp
  have c: "chain is_allowed R_PENDING (trail (r_id r) (pf_world q)) R_WAITING_FOR_INPUT"
    using consistentD(4) [OF assms(1,2)] assms(3) t by simp
  have "\<not> consistent (pf_world q)"
  proof
    assume "consistent (pf_world q)"
    from consistentD(4) [OF this s] chain_end [OF c] show False by force
  qed
  with s t c q(2) show ?thesis by auto
qed

definition orphan_run :: wf_run where
  "orphan_run = upload_run\<lparr>r_step := Some ''payment_await'', r_identity := ''2''\<rparr>"

definition orphan_world :: "nat world" where
  "orphan_world = upload_world\<lparr>runs := [(''run_'', orphan_run)]\<rparr>"

theorem orphan_cancel_is_unaudited_witness:
  "\<exists>r'. dget (runs (pf_world (snd (poll_one demo_env demo_poll orphan_run 0 no_stats
      (demo_platform orphan_world))))) ''run_'' = Some r' \<and> r_status r' = R_CANCELLED \<and>
    r_completed_at r' = None"
proof -
  obtain st q where po: "poll_one demo_env demo_poll orphan_run 0 no_stats (demo_platform orphan_world) = (st, q)"
    by force
  have f: "r_id orphan_run = ''run_''" "r_status orphan_run = R_WAITING_FOR_INPUT"
    "r_step orphan_run = Some ''payment_await''" "r_channel orphan_run = Some WHATSAPP"
    "r_identity orphan_run = ''2''" "r_completed_at orphan_run = None"
    "r_workflow orphan_run = r_workflow upload_run" "r_version orphan_run = r_version upload_run"
    by (simp_all add: orphan_run_def upload_run_def demo_run_def)
  have co: "coherent orphan_world"
    using upload_world_ok(2) coherent_frame [of orphan_world upload_world] by (simp add: orphan_world_def)
  let ?es = "[demo_entry R_PENDING R_RUNNING, demo_entry R_RUNNING R_WAITING_FOR_INPUT]"
  have "consistent (demo_world orphan_run ?es)"
    by (rule demo_world_consistent) (use f demo_waiting_trail in simp_all)
  then have c: "consistent orphan_world"
    by (rule evolves_consistent [OF evolves_frame])
      (use co in \<open>simp_all add: orphan_world_def upload_world_def waiting_world_def demo_world_def\<close>)
  have "defs orphan_world = defs upload_world" by (simp add: orphan_world_def)
  then obtain s where "load (r_workflow upload_run) (Some (r_version upload_run)) orphan_world = (Inr upload_workflow, s)"
    using upload_loads co by blast
  then have rd: "read_state orphan_run orphan_world = (Inr (Some upload_values), s)"
    using f by (simp add: read_state_def upload_workflow_def upload_graph_def)
  have lp: "last_polled_of demo_poll (jget upload_values ''last_polled_at'') = Inr None"
    by (simp add: jget_def upload_values_def last_polled_of_def)
  have no: "session_get demo_settings WHATSAPP ''2'' orphan_world = None"
    by (simp add: session_get_def get_session_def derive_session_id_def hash_identity_def demo_settings_def
        orphan_world_def upload_world_def waiting_world_def demo_world_def lower_def strip_def is_space_def
        lower_char_def code_def)
  have "\<exists>r'. dget (runs (pf_world q)) (r_id orphan_run) = Some r' \<and> r_status r' = R_CANCELLED \<and>
    r_completed_at r' = r_completed_at orphan_run"
    using orphan_cancel_is_unaudited [of "demo_platform orphan_world" orphan_run "''payment_await''"
        upload_values s demo_poll None 0 WHATSAPP demo_env no_stats st q] c f rd lp no po
    by (auto simp: demo_platform_def demo_env_def orphan_world_def POLLABLE_STEPS_def poll_due_def)
  with f po show ?thesis by simp
qed

definition total :: "poller_stats \<Rightarrow> nat" where
  "total st = st_polled st + st_skipped_step st + st_skipped_cadence st + st_failed st"

lemma total_count [simp]: "total (count_outcome o' st) = Suc (total st)"
  by (cases o') (simp_all add: total_def)

lemma poll_one_total:
  assumes "poll_one env pe r now st p = (st', q)"
  shows "total st \<le> total st' \<and> total st' \<le> Suc (total st) \<and>
    (r_step r \<noteq> Some DOCS_UPLOAD_STEP \<longrightarrow> total st' = Suc (total st))"
  using assms
  by (auto simp: poll_one_def split_beta simp del: count_outcome.simps
      split: if_splits prod.splits sum.splits bool.splits)

lemma poll_each_total:
  assumes "poll_each env pe now rs st p = (st', q)"
  shows "total st + length (filter (\<lambda>r. r_step r \<noteq> Some DOCS_UPLOAD_STEP) rs) \<le> total st' \<and>
    total st' \<le> total st + length rs"
  using assms
proof (induction rs arbitrary: st p)
  case (Cons r rs)
  obtain st1 p1 where o: "poll_one env pe r now st p = (st1, p1)" by force
  with Cons.prems have "poll_each env pe now rs st1 p1 = (st', q)" by simp
  from Cons.IH [OF this] poll_one_total [OF o] show ?case by auto
qed simp

text \<open>
  A tick accounts for every run. The four counters never exceed the number of waiting
  runs, and every waiting run outside the upload step is counted exactly once, however many
  of the polls fail.
\<close>

theorem tick_counts_every_run:
  assumes "run_status_poller env pe now p = (st, q)"
    and "waiting_runs = list_by_status [R_WAITING_FOR_INPUT] (pf_world p)"
  shows "length (filter (\<lambda>r. r_step r \<noteq> Some DOCS_UPLOAD_STEP) waiting_runs) \<le>
      st_polled st + st_skipped_step st + st_skipped_cadence st + st_failed st \<and>
    st_polled st + st_skipped_step st + st_skipped_cadence st + st_failed st \<le> length waiting_runs"
proof -
  have l: "list_by_status xs (tick w) = list_by_status xs w" for xs and w :: "'c world"
    by (simp add: list_by_status_def)
  obtain t p1 where "poll_each env pe t waiting_runs no_stats p1 = (st, q)"
    using assms by (cases now) (auto simp: run_status_poller_def l)
  from poll_each_total [OF this] show ?thesis by (simp add: total_def no_stats_def)
qed

theorem tick_counts_every_run_witness:
  "\<exists>st q. run_status_poller demo_env demo_poll (Some 0) (demo_platform orphan_world) = (st, q) \<and>
     st_polled st + st_skipped_step st + st_skipped_cadence st + st_failed st = 1"
proof -
  obtain st q where t: "run_status_poller demo_env demo_poll (Some 0) (demo_platform orphan_world) = (st, q)"
    by force
  have "list_by_status [R_WAITING_FOR_INPUT] (pf_world (demo_platform orphan_world)) = [orphan_run]"
    by (simp add: list_by_status_def demo_platform_def orphan_world_def orphan_run_def upload_run_def demo_run_def)
  moreover have "r_step orphan_run \<noteq> Some DOCS_UPLOAD_STEP"
    by (simp add: orphan_run_def DOCS_UPLOAD_STEP_def)
  ultimately show ?thesis using tick_counts_every_run [OF t refl] t by auto
qed

end
