(* ===== verification/Documents.thy ===== *)
theory Documents
  imports Wf_Utils "HOL-Library.List_Lexorder" "HOL-Library.Char_ord"
begin

section \<open>The document service\<close>

text \<open>
  \<open>app/services/document\<close>: ingesting a document or a ZIP archive, routing it to the extraction
  gateway with inline retries, the checklist, and the invoice review CSV. Stores, checklist
  provider, event bus and audit log are the in-memory ones. The gateway is a port over its own
  state that may raise \<open>MadadDocumentError\<close> or any other exception; the ZIP reader of the
  standard library is a port that opens an archive into its entries.
\<close>

subsection \<open>Enumerations, errors, models\<close>

datatype doc_source = D_WHATSAPP | D_EMAIL | D_ZIP | D_UPLOAD | D_API

datatype doc_kind = K_ONBOARDING | K_INVOICE

datatype doc_status = D_RECEIVED | D_COMPLETED | D_REJECTED | D_FAILED

definition DOC_TERMINAL :: "doc_status list" where
  "DOC_TERMINAL = [D_COMPLETED, D_REJECTED, D_FAILED]"

datatype doc_exn =
    DocumentNotFoundError string
  | BatchNotFoundError string
  | ZipExtractionError
  | ArchiveReadError string
  | DocBackoffError wf_exn
  | GatewayException string

text \<open>What the gateway raises: the retried error with its text, or anything else.\<close>

datatype gateway_exn = MadadDocumentError string | OtherGatewayError string

record doc_batch =
  b_id :: string
  b_app :: "string option"
  b_kind :: doc_kind
  b_checklist :: "string option"
  b_source :: doc_source
  b_count :: nat
  b_corr :: "string option"
  b_created :: int
  b_updated :: int

record doc_record =
  o_id :: string
  o_app :: "string option"
  o_batch :: "string option"
  o_kind :: doc_kind
  o_source :: doc_source
  o_filename :: string
  o_provider_ref :: "string option"
  o_status :: doc_status
  o_type :: "string option"
  o_valid :: "bool option"
  o_errors :: "string list"
  o_ref :: "string option"
  o_attempts :: nat
  o_last_error :: "string option"
  o_corr :: "string option"
  o_created :: int
  o_updated :: int

record madad_result =
  mr_type :: "string option"
  mr_valid :: bool
  mr_errors :: "string list"
  mr_ref :: "string option"

datatype doc_event_type =
    DE_RECEIVED | DE_REJECTED | DE_COMPLETED | DE_FAILED | DE_RETRYING | DE_ZIP_EXTRACTED
  | DE_CHECKLIST_UPDATED

record doc_event =
  de_id :: string
  de_type :: doc_event_type
  de_at :: int
  de_doc :: "string option"
  de_batch :: "string option"
  de_app :: "string option"
  de_payload :: payload

record doc_audit =
  da_id :: string
  da_at :: int
  da_doc :: "string option"
  da_batch :: "string option"
  da_action :: string
  da_detail :: payload

record required_doc =
  rq_code :: string
  rq_required :: bool

record checklist_status =
  cs_checklist :: string
  cs_received :: "string list"
  cs_validated :: "string list"
  cs_missing :: "string list"
  cs_rejected :: "string list"

definition complete :: "checklist_status \<Rightarrow> bool" where
  "complete c = (cs_missing c = [])"

text \<open>An entry of an open archive: is it a directory, its name, and what reading it yields.\<close>

record 'b zip_info =
  z_dir :: bool
  z_name :: string
  z_read :: "string + 'b"

text \<open>
  \<open>DocumentConfig\<close> with the ports: \<open>dc_process application filename kind provider_ref content\<close>
  is \<open>MadadDocumentGateway.process_document\<close>, \<open>dc_zip\<close> opens an archive (\<open>None\<close> for
  \<open>BadZipFile\<close>), \<open>dc_error\<close> renders the error text, \<open>dc_str\<close> is \<open>str\<close> of a value.
\<close>

record ('b, 'g) doc_config =
  dc_max_attempts :: int
  dc_base_delay :: real
  dc_max_delay :: real
  dc_jitter :: bool
  dc_process :: "string option \<Rightarrow> string \<Rightarrow> doc_kind \<Rightarrow> string option \<Rightarrow> 'b option \<Rightarrow> 'g \<Rightarrow>
    (gateway_exn + madad_result) \<times> 'g"
  dc_zip :: "'b \<Rightarrow> 'b zip_info list option"
  dc_str :: "json \<Rightarrow> string"

record 'g doc_state = base +
  docs :: "(string, doc_record) dict"
  batches :: "(string, doc_batch) dict"
  checklists :: "(string, required_doc list) dict"
  devents :: "doc_event list"
  daudit :: "doc_audit list"
  gateway :: 'g

subsection \<open>The in-memory stores\<close>

definition create_doc :: "doc_record \<Rightarrow> 'g doc_state \<Rightarrow> 'g doc_state" where
  "create_doc d s = s\<lparr>docs := dput (o_id d) d (docs s)\<rparr>"

definition get_doc :: "string \<Rightarrow> 'g doc_state \<Rightarrow> doc_record option" where
  "get_doc i s = dget (docs s) i"

definition save_doc :: "doc_record \<Rightarrow> 'g doc_state \<Rightarrow> doc_record \<times> 'g doc_state" where
  "save_doc d s =
     (let d' = d\<lparr>o_updated := utcnow s\<rparr>
      in (d', (tick s)\<lparr>docs := dput (o_id d') d' (docs s)\<rparr>))"

definition list_by_batch :: "string \<Rightarrow> 'g doc_state \<Rightarrow> doc_record list" where
  "list_by_batch i s = sort_key o_created (filter (\<lambda>d. o_batch d = Some i) (dvals (docs s)))"

definition list_by_application :: "string \<Rightarrow> 'g doc_state \<Rightarrow> doc_record list" where
  "list_by_application a s = sort_key o_created (filter (\<lambda>d. o_app d = Some a) (dvals (docs s)))"

definition create_batch :: "doc_batch \<Rightarrow> 'g doc_state \<Rightarrow> 'g doc_state" where
  "create_batch b s = s\<lparr>batches := dput (b_id b) b (batches s)\<rparr>"

definition get_batch :: "string \<Rightarrow> 'g doc_state \<Rightarrow> doc_batch option" where
  "get_batch i s = dget (batches s) i"

definition save_batch :: "doc_batch \<Rightarrow> 'g doc_state \<Rightarrow> doc_batch \<times> 'g doc_state" where
  "save_batch b s =
     (let b' = b\<lparr>b_updated := utcnow s\<rparr>
      in (b', (tick s)\<lparr>batches := dput (b_id b') b' (batches s)\<rparr>))"

definition doc_core :: "doc_record \<Rightarrow> doc_record" where
  "doc_core d = d\<lparr>o_updated := 0\<rparr>"

definition batch_core :: "doc_batch \<Rightarrow> doc_batch" where
  "batch_core b = b\<lparr>b_updated := 0\<rparr>"

interpretation doc_store: entity_store o_id doc_core get_doc create_doc save_doc
  by unfold_locales (simp_all add: create_doc_def save_doc_def get_doc_def doc_core_def Let_def)

interpretation batch_store: entity_store b_id batch_core get_batch create_batch save_batch
  by unfold_locales (simp_all add: create_batch_def save_batch_def get_batch_def batch_core_def Let_def)

subsection \<open>Events, audit, checklists\<close>

definition demit ::
  "doc_event_type \<Rightarrow> doc_record option \<Rightarrow> string option \<Rightarrow> payload \<Rightarrow> 'g doc_state \<Rightarrow> 'g doc_state"
where
  "demit ty d bid pl s =
     (tick (mint s))\<lparr>devents := devents s @
        [\<lparr>de_id = new_id ''devt'' s, de_type = ty, de_at = utcnow s, de_doc = map_option o_id d,
          de_batch = (case bid of
                        Some b \<Rightarrow> if b = [] then (case d of None \<Rightarrow> None | Some x \<Rightarrow> o_batch x) else Some b
                      | None \<Rightarrow> (case d of None \<Rightarrow> None | Some x \<Rightarrow> o_batch x)),
          de_app = (case d of None \<Rightarrow> None | Some x \<Rightarrow> o_app x), de_payload = pl\<rparr>]\<rparr>"

definition drecord ::
  "string \<Rightarrow> string option \<Rightarrow> string option \<Rightarrow> payload \<Rightarrow> 'g doc_state \<Rightarrow> 'g doc_state"
where
  "drecord action did bid detail s =
     (tick (mint s))\<lparr>daudit := daudit s @
        [\<lparr>da_id = new_id ''daud'' s, da_at = utcnow s, da_doc = did, da_batch = bid,
          da_action = action, da_detail = detail\<rparr>]\<rparr>"

definition list_for_document :: "string \<Rightarrow> 'g doc_state \<Rightarrow> doc_audit list" where
  "list_for_document i s = filter (\<lambda>e. da_doc e = Some i) (daudit s)"

definition add_checklist :: "string \<Rightarrow> string list \<Rightarrow> 'g doc_state \<Rightarrow> 'g doc_state" where
  "add_checklist c codes s =
     s\<lparr>checklists := dput c (map (\<lambda>x. \<lparr>rq_code = x, rq_required = True\<rparr>) codes) (checklists s)\<rparr>"

definition get_required :: "string \<Rightarrow> 'g doc_state \<Rightarrow> required_doc list" where
  "get_required c s = (case dget (checklists s) c of None \<Rightarrow> [] | Some rs \<Rightarrow> rs)"

definition norm_code :: "string option \<Rightarrow> string" where
  "norm_code c = filter is_alnum (lower (case c of None \<Rightarrow> [] | Some x \<Rightarrow> x))"

text \<open>The non-empty document types of the documents that satisfy a test, without repetition.\<close>

definition types_of :: "(doc_record \<Rightarrow> bool) \<Rightarrow> doc_record list \<Rightarrow> string list" where
  "types_of P ds =
     remdups (concat (map (\<lambda>d. case o_type d of
        None \<Rightarrow> [] | Some t \<Rightarrow> if t \<noteq> [] \<and> P d then [t] else []) ds))"

definition checklist_of :: "string \<Rightarrow> required_doc list \<Rightarrow> doc_record list \<Rightarrow> checklist_status" where
  "checklist_of checklist required documents =
     (let validated = types_of (\<lambda>d. o_status d = D_COMPLETED) documents;
          received = types_of (\<lambda>d. True) documents;
          rejected = types_of (\<lambda>d. o_status d = D_REJECTED) documents;
          validated_norm = map (\<lambda>t. norm_code (Some t)) validated;
          missing = map rq_code
            (filter (\<lambda>r. rq_required r \<and> norm_code (Some (rq_code r)) \<notin> set validated_norm) required);
          required_count = length (filter rq_required required);
          uploaded = filter (\<lambda>d. o_status d \<notin> {D_REJECTED, D_FAILED}) documents;
          missing' = (if missing \<noteq> [] \<and> required_count \<noteq> 0 \<and> required_count \<le> length uploaded
                      then [] else missing)
      in \<lparr>cs_checklist = checklist, cs_received = sort received, cs_validated = sort validated,
          cs_missing = missing', cs_rejected = sort rejected\<rparr>)"

definition checklist_status_op ::
  "string \<Rightarrow> string option \<Rightarrow> string option \<Rightarrow> 'g doc_state \<Rightarrow> checklist_status"
where
  "checklist_status_op checklist app bid s =
     checklist_of checklist (get_required checklist s)
       (case bid of
          Some b \<Rightarrow> list_by_batch b s
        | None \<Rightarrow> (case app of Some a \<Rightarrow> list_by_application a s | None \<Rightarrow> []))"

subsection \<open>Routing\<close>

definition refresh_checklist :: "doc_record \<Rightarrow> 'g doc_state \<Rightarrow> 'g doc_state" where
  "refresh_checklist d s =
     (let batch = (case o_batch d of
                     None \<Rightarrow> None | Some b \<Rightarrow> if b = [] then None else get_batch b s);
          checklist = (case batch of None \<Rightarrow> None | Some b \<Rightarrow> b_checklist b)
      in case checklist of
           None \<Rightarrow> s
         | Some c \<Rightarrow>
             let st = checklist_status_op c (o_app d) (o_batch d) s
             in demit DE_CHECKLIST_UPDATED (Some d) (o_batch d)
                  [(''missing'', JList (map JStr (cs_missing st))), (''complete'', JBool (complete st))] s)"

text \<open>
  The attempt loop: \<open>n\<close> attempts are left after this one. The document object is threaded
  through; the store holds its last saved copy.
\<close>

fun route ::
  "('b, 'g) doc_config \<Rightarrow> 'b option \<Rightarrow> nat \<Rightarrow> doc_record \<Rightarrow> 'g doc_state \<Rightarrow> (doc_exn + unit) \<times> 'g doc_state"
where
  "route cf content n d s =
     (let d1 = d\<lparr>o_attempts := o_attempts d + 1\<rparr>;
          (r, g1) = dc_process cf (o_app d1) (o_filename d1) (o_kind d1) (o_provider_ref d1) content (gateway s);
          s1 = s\<lparr>gateway := g1\<rparr>
      in case r of
           Inl (OtherGatewayError e) \<Rightarrow> (Inl (GatewayException e), s1)
         | Inl (MadadDocumentError e) \<Rightarrow>
             let d2 = d1\<lparr>o_last_error := Some (''MadadDocumentError: '' @ e)\<rparr> in
             (case n of
                Suc m \<Rightarrow>
                  (case compute_backoff (o_attempts d2) (dc_base_delay cf) (dc_max_delay cf) (dc_jitter cf)
                          uniform s1 of
                     (Inl ex, s2) \<Rightarrow> (Inl (DocBackoffError ex), s2)
                   | (Inr delay, s2) \<Rightarrow>
                       let (d3, s3) = save_doc d2 s2;
                           s4 = demit DE_RETRYING (Some d3) None [(''attempt'', JInt (int (o_attempts d3)))] s3
                       in route cf content m d3 s4)
              | 0 \<Rightarrow>
                  let (d3, s2) = save_doc (d2\<lparr>o_status := D_FAILED\<rparr>) s1;
                      s3 = demit DE_FAILED (Some d3) None [] s2
                  in (Inr (), drecord ''failed'' (Some (o_id d3)) None
                                [(''error'', JStr (''MadadDocumentError: '' @ e))] s3))
         | Inr res \<Rightarrow>
             let d2 = d1\<lparr>o_type := mr_type res, o_valid := Some (mr_valid res), o_errors := mr_errors res,
                         o_ref := mr_ref res, o_last_error := None\<rparr>
             in if mr_valid res then
                  let (d3, s2) = save_doc (d2\<lparr>o_status := D_COMPLETED\<rparr>) s1;
                      s3 = demit DE_COMPLETED (Some d3) None
                             [(''document_type'', opt_text (mr_type res)), (''madad_ref'', opt_text (mr_ref res))] s2;
                      s4 = drecord ''completed'' (Some (o_id d3)) None
                             [(''document_type'', opt_text (mr_type res))] s3
                  in (Inr (), refresh_checklist d3 s4)
                else
                  let (d3, s2) = save_doc (d2\<lparr>o_status := D_REJECTED\<rparr>) s1;
                      s3 = demit DE_REJECTED (Some d3) None [(''errors'', JList (map JStr (mr_errors res)))] s2;
                      s4 = drecord ''rejected'' (Some (o_id d3)) None
                             [(''errors'', JList (map JStr (mr_errors res)))] s3
                  in (Inr (), refresh_checklist d3 s4))"

declare route.simps [simp del]

definition route_to_madad ::
  "('b, 'g) doc_config \<Rightarrow> doc_record \<Rightarrow> 'b option \<Rightarrow> 'g doc_state \<Rightarrow> (doc_exn + unit) \<times> 'g doc_state"
where
  "route_to_madad cf d content s = route cf content (nat (max 1 (dc_max_attempts cf)) - 1) d s"

definition require_document :: "string \<Rightarrow> 'g doc_state \<Rightarrow> doc_exn + doc_record" where
  "require_document i s = (case get_doc i s of None \<Rightarrow> Inl (DocumentNotFoundError i) | Some d \<Rightarrow> Inr d)"

definition require_batch :: "string \<Rightarrow> 'g doc_state \<Rightarrow> doc_exn + doc_batch" where
  "require_batch i s = (case get_batch i s of None \<Rightarrow> Inl (BatchNotFoundError i) | Some b \<Rightarrow> Inr b)"

subsection \<open>Ingestion\<close>

definition new_doc ::
  "string \<Rightarrow> string option \<Rightarrow> doc_kind \<Rightarrow> doc_source \<Rightarrow> string option \<Rightarrow> string option \<Rightarrow> string option \<Rightarrow>
     'g doc_state \<Rightarrow> doc_record"
where
  "new_doc filename app kind source provider_ref bid corr s =
     \<lparr>o_id = new_id ''doc'' s, o_app = app, o_batch = bid, o_kind = kind, o_source = source,
      o_filename = filename, o_provider_ref = provider_ref, o_status = D_RECEIVED, o_type = None,
      o_valid = None, o_errors = [], o_ref = None, o_attempts = 0, o_last_error = None, o_corr = corr,
      o_created = utcnow s, o_updated = utcnow (tick s)\<rparr>"

definition ingest_document ::
  "('b, 'g) doc_config \<Rightarrow> string \<Rightarrow> string option \<Rightarrow> doc_kind \<Rightarrow> doc_source \<Rightarrow> string option \<Rightarrow>
     'b option \<Rightarrow> string option \<Rightarrow> string option \<Rightarrow> 'g doc_state \<Rightarrow> (doc_exn + doc_record) \<times> 'g doc_state"
where
  "ingest_document cf filename app kind source provider_ref content bid corr s =
     (let d = new_doc filename app kind source provider_ref bid corr s;
          s1 = create_doc d (tick (tick (mint s)));
          s2 = demit DE_RECEIVED (Some d) None [] s1;
          s3 = drecord ''received'' (Some (o_id d)) None [(''filename'', JStr filename)] s2
      in case route_to_madad cf d content s3 of
           (Inl e, s4) \<Rightarrow> (Inl e, s4)
         | (Inr u, s4) \<Rightarrow> (require_document (o_id d) s4, s4))"

text \<open>\<open>name.rsplit('/', 1)[-1]\<close>.\<close>

definition base_name :: "string \<Rightarrow> string" where
  "base_name name = rev (takeWhile (\<lambda>c. c \<noteq> CHR ''/'') (rev name))"

definition skipped_entry :: "'b zip_info \<Rightarrow> bool" where
  "skipped_entry i =
     (z_dir i \<or> starts_with ''__MACOSX/'' (z_name i) \<or> starts_with ''.'' (z_name i) \<or>
      starts_with ''.'' (base_name (z_name i)) \<or> base_name (z_name i) = [])"

fun read_entries :: "'b zip_info list \<Rightarrow> doc_exn + (string \<times> 'b) list" where
  "read_entries [] = Inr []"
| "read_entries (i # is) =
     (if skipped_entry i then read_entries is
      else
        (case z_read i of
           Inl e \<Rightarrow> Inl (ArchiveReadError e)
         | Inr content \<Rightarrow>
             (case read_entries is of
                Inl e \<Rightarrow> Inl e
              | Inr es \<Rightarrow> Inr ((base_name (z_name i), content) # es))))"

definition extract_zip :: "('b, 'g) doc_config \<Rightarrow> 'b \<Rightarrow> doc_exn + (string \<times> 'b) list" where
  "extract_zip cf content =
     (case dc_zip cf content of None \<Rightarrow> Inl ZipExtractionError | Some infos \<Rightarrow> read_entries infos)"

fun ingest_entries ::
  "('b, 'g) doc_config \<Rightarrow> string option \<Rightarrow> doc_kind \<Rightarrow> string \<Rightarrow> string option \<Rightarrow>
     (string \<times> 'b) list \<Rightarrow> 'g doc_state \<Rightarrow> (doc_exn + unit) \<times> 'g doc_state"
where
  "ingest_entries cf app kind bid corr [] s = (Inr (), s)"
| "ingest_entries cf app kind bid corr ((name, content) # es) s =
     (case ingest_document cf name app kind D_ZIP None (Some content) (Some bid) corr s of
        (Inl e, s1) \<Rightarrow> (Inl e, s1)
      | (Inr d, s1) \<Rightarrow> ingest_entries cf app kind bid corr es s1)"

definition ingest_zip ::
  "('b, 'g) doc_config \<Rightarrow> string \<Rightarrow> 'b \<Rightarrow> string option \<Rightarrow> doc_kind \<Rightarrow> doc_source \<Rightarrow> string option \<Rightarrow>
     string option \<Rightarrow> 'g doc_state \<Rightarrow> (doc_exn + doc_batch) \<times> 'g doc_state"
where
  "ingest_zip cf filename content app kind source checklist corr s =
     (let b = \<lparr>b_id = new_id ''dbatch'' s, b_app = app, b_kind = kind, b_checklist = checklist,
               b_source = source, b_count = 0, b_corr = corr, b_created = utcnow s,
               b_updated = utcnow (tick s)\<rparr>;
          s1 = create_batch b (tick (tick (mint s)))
      in case extract_zip cf content of
           Inl e \<Rightarrow> (Inl e, s1)
         | Inr entries \<Rightarrow>
             let s2 = demit DE_ZIP_EXTRACTED None (Some (b_id b))
                        [(''count'', JInt (int (length entries))), (''filename'', JStr filename)] s1;
                 s3 = drecord ''zip_extracted'' None (Some (b_id b))
                        [(''count'', JInt (int (length entries)))] s2
             in (case ingest_entries cf app kind (b_id b) corr entries s3 of
                   (Inl e, s4) \<Rightarrow> (Inl e, s4)
                 | (Inr u, s4) \<Rightarrow>
                     let (b1, s5) = save_batch (b\<lparr>b_count := length entries\<rparr>) s4
                     in (require_batch (b_id b1) s5, s5)))"

subsection \<open>The invoice review CSV\<close>

text \<open>
  \<open>csv.writer\<close> with its default dialect: a field is quoted when it contains the delimiter, the
  quote or a line break, quotes inside it are doubled, and a row ends with CR LF. The
  result is encoded by the caller; here it stays text.
\<close>

definition INVOICE_CSV_COLUMNS :: "string list" where
  "INVOICE_CSV_COLUMNS =
     [''Row'', ''Invoice No.'', ''Date'', ''Due Date'', ''Customer'', ''Amount QAR'', ''Flag'']"

definition csv_special :: "char \<Rightarrow> bool" where
  "csv_special c = (c = CHR '','' \<or> c = dquote \<or> c = cr \<or> c = lf)"

fun csv_escape :: "string \<Rightarrow> string" where
  "csv_escape [] = []"
| "csv_escape (c # cs) = (if c = dquote then dquote # dquote # csv_escape cs else c # csv_escape cs)"

definition csv_field :: "string \<Rightarrow> string" where
  "csv_field f =
     (if list_ex csv_special f then dquote # csv_escape f @ [dquote] else f)"

definition csv_row :: "string list \<Rightarrow> string" where
  "csv_row fs = join '','' (map csv_field fs) @ [cr, lf]"

definition csv_value :: "('b, 'g) doc_config \<Rightarrow> json \<Rightarrow> string" where
  "csv_value cf v = (case v of JStr s \<Rightarrow> s | JNull \<Rightarrow> [] | _ \<Rightarrow> dc_str cf v)"

definition invoice_fields :: "('b, 'g) doc_config \<Rightarrow> nat \<Rightarrow> payload \<Rightarrow> string list" where
  "invoice_fields cf index fs =
     csv_value cf (JInt (int index)) #
     map (\<lambda>k. csv_value cf (case dget fs k of None \<Rightarrow> JStr [] | Some v \<Rightarrow> v))
       [''invoice_no'', ''date'', ''due_date'', ''customer'', ''amount'', ''flag'']"

definition generate_invoice_csv :: "('b, 'g) doc_config \<Rightarrow> payload list \<Rightarrow> string" where
  "generate_invoice_csv cf rows =
     csv_row INVOICE_CSV_COLUMNS @
     concat (map (\<lambda>(i, fs). csv_row (invoice_fields cf i fs)) (zip [1..<Suc (length rows)] rows))"

end
