(* ===== verification/Broadcast_Csv.thy ===== *)
theory Broadcast_Csv
  imports Prelude "HOL-Library.List_Lexorder" "HOL-Library.Char_ord"
begin

section \<open>Reading an uploaded CSV file\<close>

text \<open>
  \<open>parse_csv\<close> of \<open>app/services/workflow/broadcast.py\<close>: the decoding of the bytes, \<open>csv.DictReader\<close>
  with its default dialect over the lines of a \<open>StringIO\<close>, the normalisation of phone numbers and the
  checks of each row. A text is the list of its UTF-8 bytes; white space, digits and case are those of
  ASCII. The field size limit of the \<open>csv\<close> module is not modelled.
\<close>

subsection \<open>Decoding\<close>

definition cont_byte :: "nat \<Rightarrow> bool" where
  "cont_byte b = (128 \<le> b \<and> b \<le> 191)"

text \<open>Well-formed UTF-8: no overlong form, no surrogate, nothing above U+10FFFF.\<close>

fun valid_utf8 :: "nat list \<Rightarrow> bool" where
  "valid_utf8 [] = True"
| "valid_utf8 (a # bs) =
     (if a < 128 then valid_utf8 bs
      else if 194 \<le> a \<and> a \<le> 223 then
        (case bs of b # bs' \<Rightarrow> cont_byte b \<and> valid_utf8 bs' | [] \<Rightarrow> False)
      else if 224 \<le> a \<and> a \<le> 239 then
        (case bs of
           b # c # bs' \<Rightarrow>
             cont_byte b \<and> cont_byte c \<and> (a = 224 \<longrightarrow> 160 \<le> b) \<and> (a = 237 \<longrightarrow> b \<le> 159) \<and> valid_utf8 bs'
         | _ \<Rightarrow> False)
      else if 240 \<le> a \<and> a \<le> 244 then
        (case bs of
           b # c # d # bs' \<Rightarrow>
             cont_byte b \<and> cont_byte c \<and> cont_byte d \<and> (a = 240 \<longrightarrow> 144 \<le> b) \<and> (a = 244 \<longrightarrow> b \<le> 143) \<and>
             valid_utf8 bs'
         | _ \<Rightarrow> False)
      else False)"

definition utf8_bom :: string where
  "utf8_bom = [CHR 0xEF, CHR 0xBB, CHR 0xBF]"

text \<open>\<open>utf-8-sig\<close> drops one leading mark; the second decoding fails whenever the first does.\<close>

definition decode_upload :: "string \<Rightarrow> string option" where
  "decode_upload raw =
     (if valid_utf8 (map code raw)
      then Some (if starts_with utf8_bom raw then drop 3 raw else raw) else None)"

subsection \<open>The \<open>csv\<close> reader\<close>

text \<open>The lines of a \<open>StringIO\<close>: they end after each line feed, and keep it.\<close>

fun split_lines :: "string \<Rightarrow> string list" where
  "split_lines [] = []"
| "split_lines (c # cs) =
     (if c = lf then [lf] # split_lines cs
      else (case split_lines cs of [] \<Rightarrow> [[c]] | l # ls \<Rightarrow> (c # l) # ls))"

datatype csv_state = Start_record | Start_field | In_field | In_quoted | Quote_in_quoted | Eat_crnl

type_synonym csv_parser = "csv_state \<times> string \<times> string list"

definition NEWLINE_ERROR :: string where
  "NEWLINE_ERROR = ''new-line character seen in unquoted field''"

text \<open>The parser on one character, \<open>None\<close> being the end of a line.\<close>

definition end_field :: "char option \<Rightarrow> string \<Rightarrow> string list \<Rightarrow> csv_parser" where
  "end_field c f fs = ((if c = None then Start_record else Eat_crnl), [], fs @ [f])"

definition is_eol :: "char option \<Rightarrow> bool" where
  "is_eol c = (c = None \<or> c = Some lf \<or> c = Some cr)"

definition start_field :: "char option \<Rightarrow> string \<Rightarrow> string list \<Rightarrow> csv_parser" where
  "start_field c f fs =
     (if is_eol c then end_field c f fs
      else if c = Some dquote then (In_quoted, f, fs)
      else if c = Some CHR '','' then (Start_field, [], fs @ [f])
      else (In_field, f @ [the c], fs))"

fun csv_char :: "char option \<Rightarrow> csv_parser \<Rightarrow> string + csv_parser" where
  "csv_char c (Start_record, f, fs) =
     (if c = None then Inr (Start_record, f, fs)
      else if is_eol c then Inr (Eat_crnl, f, fs)
      else Inr (start_field c f fs))"
| "csv_char c (Start_field, f, fs) = Inr (start_field c f fs)"
| "csv_char c (In_field, f, fs) =
     (if is_eol c then Inr (end_field c f fs)
      else if c = Some CHR '','' then Inr (Start_field, [], fs @ [f])
      else Inr (In_field, f @ [the c], fs))"
| "csv_char c (In_quoted, f, fs) =
     (case c of
        None \<Rightarrow> Inr (In_quoted, f, fs)
      | Some ch \<Rightarrow> if ch = dquote then Inr (Quote_in_quoted, f, fs) else Inr (In_quoted, f @ [ch], fs))"
| "csv_char c (Quote_in_quoted, f, fs) =
     (if c = Some dquote then Inr (In_quoted, f @ [dquote], fs)
      else if c = Some CHR '','' then Inr (Start_field, [], fs @ [f])
      else if is_eol c then Inr (end_field c f fs)
      else Inr (In_field, f @ [the c], fs))"
| "csv_char c (Eat_crnl, f, fs) =
     (if c = None then Inr (Start_record, f, fs)
      else if is_eol c then Inr (Eat_crnl, f, fs)
      else Inl NEWLINE_ERROR)"

fun csv_chars :: "char option list \<Rightarrow> csv_parser \<Rightarrow> string + csv_parser" where
  "csv_chars [] p = Inr p"
| "csv_chars (c # cs) p = (case csv_char c p of Inl e \<Rightarrow> Inl e | Inr p' \<Rightarrow> csv_chars cs p')"

definition csv_line :: "string \<Rightarrow> csv_parser \<Rightarrow> string + csv_parser" where
  "csv_line l p = csv_chars (map Some l @ [None]) p"

text \<open>\<open>next(reader)\<close>: the next record with the lines left, \<open>None\<close> at the end.\<close>

fun csv_next :: "csv_parser \<Rightarrow> string list \<Rightarrow> string + (string list \<times> string list) option" where
  "csv_next (st, f, fs) [] =
     Inr (if f \<noteq> [] \<or> st = In_quoted then Some (fs @ [f], []) else None)"
| "csv_next p (l # ls) =
     (case csv_line l p of
        Inl e \<Rightarrow> Inl e
      | Inr (st, f, fs) \<Rightarrow>
          if st = Start_record then Inr (Some (fs, ls)) else csv_next (st, f, fs) ls)"

definition new_parser :: csv_parser where
  "new_parser = (Start_record, [], [])"

lemma csv_next_shorter:
  "csv_next p ls = Inr (Some (r, ls')) \<Longrightarrow> ls \<noteq> [] \<Longrightarrow> length ls' < length ls"
proof (induction ls arbitrary: p)
  case (Cons l ls)
  then show ?case
    by (cases "ls = []") (force split: sum.splits prod.splits if_splits)+
qed simp

lemma csv_next_start: "csv_next new_parser ls = Inr (Some (r, ls')) \<Longrightarrow> length ls' < length ls"
  using csv_next_shorter [of new_parser ls r ls'] by (cases ls) (auto simp: new_parser_def)

text \<open>All records that are left. \<open>csv_next\<close> consumes a line for each, so this ends.\<close>

function csv_records :: "string list \<Rightarrow> string + string list list" where
  "csv_records ls =
     (case csv_next new_parser ls of
        Inl e \<Rightarrow> Inl e
      | Inr None \<Rightarrow> Inr []
      | Inr (Some (r, ls')) \<Rightarrow> (case csv_records ls' of Inl e \<Rightarrow> Inl e | Inr rs \<Rightarrow> Inr (r # rs)))"
  by pat_completeness auto
termination by (relation "measure length") (auto dest: csv_next_start)

declare csv_records.simps [simp del]

text \<open>
  A row of \<open>DictReader\<close>: the header fields with the values of the record, \<open>None\<close> for those it lacks.
  Surplus values go under the key \<open>None\<close>, which the caller drops, and are left out here.
\<close>

definition dict_row :: "string list \<Rightarrow> string list \<Rightarrow> (string, string option) dict" where
  "dict_row names r =
     foldl (\<lambda>d kv. dput (fst kv) (snd kv) d) []
       (zip names (map Some r) @ map (\<lambda>k. (k, None)) (drop (length r) names))"

subsection \<open>Phone numbers\<close>

definition phone_junk :: "char \<Rightarrow> bool" where
  "phone_junk c = (is_space c \<or> c \<in> {CHR ''-'', CHR ''('', CHR '')'', CHR ''.''})"

text \<open>\<open>^\+?[1-9]\d{5,14}$\<close> on a text without line feed.\<close>

definition e164_match :: "string \<Rightarrow> bool" where
  "e164_match s =
     (case (case s of c # cs \<Rightarrow> if c = CHR ''+'' then cs else s | [] \<Rightarrow> s) of
        [] \<Rightarrow> False
      | d # ds \<Rightarrow> is_digit d \<and> d \<noteq> CHR ''0'' \<and> list_all is_digit ds \<and> 5 \<le> length ds \<and> length ds \<le> 14)"

definition normalize_phone :: "string \<Rightarrow> string option" where
  "normalize_phone raw =
     (let s = strip (filter (\<lambda>c. \<not> phone_junk c) raw) in
      if s = [] then None
      else
        let s' = (if starts_with ''+'' s then s else ''+'' @ dropWhile (\<lambda>c. c = CHR ''0'') s)
        in if e164_match s' then Some s' else None)"

subsection \<open>\<open>parse_csv\<close>\<close>

record bc_row =
  br_number :: nat
  br_raw :: string
  br_phone :: "string option"
  br_locale :: string
  br_name :: "string option"
  br_tags :: "string list"
  br_valid :: bool
  br_error :: "string option"

datatype fatal_error =
    Not_utf8
  | Empty_csv
  | Missing_phone_column "string list"
  | Too_many_rows nat
  | No_data_rows

definition MAX_ROWS_PER_BATCH :: nat where
  "MAX_ROWS_PER_BATCH = 5000"

fun split_at :: "char \<Rightarrow> string \<Rightarrow> string list" where
  "split_at d [] = [[]]"
| "split_at d (c # cs) =
     (if c = d then [] # split_at d cs
      else (case split_at d cs of [] \<Rightarrow> [[c]] | x # xs \<Rightarrow> (c # x) # xs))"

definition norm_row :: "(string, string option) dict \<Rightarrow> (string, string) dict" where
  "norm_row raw =
     foldl (\<lambda>d kv. case snd kv of None \<Rightarrow> d | Some v \<Rightarrow> dput (lower (strip (fst kv))) (strip v) d) [] raw"

text \<open>\<open>norm.get(k) or ""\<close>.\<close>

definition cell :: "(string, string) dict \<Rightarrow> string \<Rightarrow> string" where
  "cell d k = (case dget d k of None \<Rightarrow> [] | Some v \<Rightarrow> v)"

definition parse_row :: "nat \<Rightarrow> (string, string) dict \<Rightarrow> bc_row" where
  "parse_row idx cells =
     (let raw = cell cells ''phone'';
          loc = (if cell cells ''locale'' = [] then ''en'' else lower (cell cells ''locale''));
          ph = (if raw = [] then None else normalize_phone raw);
          err = (if loc \<noteq> ''en'' \<and> loc \<noteq> ''ar'' then Some (''unsupported locale '' @ quoted loc)
                 else if raw = [] then Some ''phone is empty''
                 else if ph = None then Some ''phone is not a valid E.164 number'' else None)
      in \<lparr>br_number = idx, br_raw = raw, br_phone = ph, br_locale = loc,
          br_name = (if cell cells ''name'' = [] then None else Some (cell cells ''name'')),
          br_tags = filter (\<lambda>t. t \<noteq> []) (map strip (split_at CHR '','' (cell cells ''tags''))),
          br_valid = (err = None), br_error = err\<rparr>)"

text \<open>
  The rows and the fatal errors, or an exception of the \<open>csv\<close> module, which nothing catches. The rows
  after the last one accepted are read too, to count them.
\<close>

definition parse_csv :: "string \<Rightarrow> string + (bc_row list \<times> fatal_error list)" where
  "parse_csv raw =
     (case decode_upload raw of
        None \<Rightarrow> Inr ([], [Not_utf8])
      | Some text \<Rightarrow>
          (case csv_next new_parser (split_lines text) of
             Inl e \<Rightarrow> Inl e
           | Inr None \<Rightarrow> Inr ([], [Empty_csv])
           | Inr (Some (names, ls)) \<Rightarrow>
               let headers = map (\<lambda>h. lower (strip h)) (filter (\<lambda>h. h \<noteq> []) names) in
               if ''phone'' \<notin> set headers then Inr ([], [Missing_phone_column (sort (remdups headers))])
               else
                 (case csv_records ls of
                    Inl e \<Rightarrow> Inl e
                  | Inr recs \<Rightarrow>
                      let rs = filter (\<lambda>r. r \<noteq> []) recs;
                          kept = take MAX_ROWS_PER_BATCH rs;
                          rows = map (\<lambda>(i, r). parse_row i (norm_row (dict_row names r)))
                                   (zip [2..<2 + length kept] kept);
                          fatal = (if MAX_ROWS_PER_BATCH < length rs
                                   then [Too_many_rows (length rs - MAX_ROWS_PER_BATCH)]
                                   else if rows = [] then [No_data_rows] else [])
                      in Inr (rows, fatal))))"

end
