(* ===== verification/Documents_Theorems.thy ===== *)
theory Documents_Theorems
  imports Documents Broadcast_Csv
begin

section \<open>Properties of the document service\<close>

subsection \<open>Routing\<close>

text \<open>What the store holds of a document once routing is over.\<close>

definition settled_doc :: "int \<Rightarrow> doc_record \<Rightarrow> bool" where
  "settled_doc bound d \<longleftrightarrow>
     o_status d \<in> set DOC_TERMINAL \<and> 1 \<le> o_attempts d \<and> int (o_attempts d) \<le> bound \<and>
     (o_status d = D_COMPLETED \<longleftrightarrow> o_valid d = Some True) \<and>
     (o_status d = D_FAILED \<longrightarrow> int (o_attempts d) = bound \<and> o_last_error d \<noteq> None)"

lemma demit_simps [simp]:
  "docs (demit ty x b pl s) = docs s" "batches (demit ty x b pl s) = batches s"
  by (simp_all add: demit_def tick_def mint_def)

lemma drecord_simps [simp]:
  "docs (drecord a i b dt s) = docs s" "batches (drecord a i b dt s) = batches s"
  by (simp_all add: drecord_def tick_def mint_def)

lemma refresh_simps [simp]:
  "docs (refresh_checklist d s) = docs s" "batches (refresh_checklist d s) = batches s"
  by (simp_all add: refresh_checklist_def Let_def split: option.split)

lemma save_doc_simps [simp]:
  "docs (snd (save_doc d s)) = dput (o_id d) (fst (save_doc d s)) (docs s)"
  "batches (snd (save_doc d s)) = batches s" "fst (save_doc d s) = d\<lparr>o_updated := utcnow s\<rparr>"
  by (simp_all add: save_doc_def Let_def tick_def)

lemma backoff_docs:
  assumes "compute_backoff n b m j uniform s = (r, t)"
  shows "docs t = docs s \<and> batches t = batches s"
  by (rule compute_backoff_inv [OF assms]) (simp_all add: uniform_def)

text \<open>One turn of the attempt loop.\<close>

lemma route_cases:
  assumes "route cf content n d s = (out, t)"
  obtains (crash) e where "out = Inl (GatewayException e)" "docs t = docs s" "batches t = batches s"
      "fst (dc_process cf (o_app d) (o_filename d) (o_kind d) (o_provider_ref d) content (gateway s)) =
         Inl (OtherGatewayError e)"
  | (overflow) e u where "out = Inl (DocBackoffError e)" "docs t = docs s" "batches t = batches s"
      "compute_backoff (Suc (o_attempts d)) (dc_base_delay cf) (dc_max_delay cf) (dc_jitter cf) uniform u =
         (Inl e, t)" "0 < n"
  | (retry) m d3 u where "n = Suc m" "route cf content m d3 u = (out, t)"
      "docs u = dput (o_id d) d3 (docs s)" "batches u = batches s" "o_id d3 = o_id d"
      "o_attempts d3 = Suc (o_attempts d)" "o_valid d3 = o_valid d"
  | (failed) d3 where "n = 0" "out = Inr ()" "docs t = dput (o_id d) d3 (docs s)" "batches t = batches s"
      "o_id d3 = o_id d" "o_attempts d3 = Suc (o_attempts d)" "o_valid d3 = o_valid d"
      "o_status d3 = D_FAILED" "o_last_error d3 \<noteq> None"
  | (answered) d3 v where "out = Inr ()" "docs t = dput (o_id d) d3 (docs s)" "batches t = batches s"
      "o_id d3 = o_id d" "o_attempts d3 = Suc (o_attempts d)" "o_valid d3 = Some v"
      "o_status d3 = (if v then D_COMPLETED else D_REJECTED)"
proof -
  let ?d1 = "d\<lparr>o_attempts := o_attempts d + 1\<rparr>"
  obtain r g where g: "dc_process cf (o_app d) (o_filename d) (o_kind d) (o_provider_ref d) content
    (gateway s) = (r, g)" by force
  note out = assms [unfolded route.simps [of cf content n d s]]
  show ?thesis
  proof (cases r)
    case (Inr res)
    let ?doc = "?d1\<lparr>o_type := mr_type res, o_valid := Some (mr_valid res), o_errors := mr_errors res,
      o_ref := mr_ref res, o_last_error := None,
      o_status := (if mr_valid res then D_COMPLETED else D_REJECTED),
      o_updated := utcnow (s\<lparr>gateway := g\<rparr>)\<rparr>"
    show ?thesis
      by (rule answered [of ?doc "mr_valid res"])
        (use out g Inr in \<open>auto simp: Let_def split_beta split: if_splits\<close>)
  next
    case (Inl e)
    show ?thesis
    proof (cases e)
      case (OtherGatewayError x)
      with Inl out g show ?thesis by (auto simp: Let_def intro: crash)
    next
      case (MadadDocumentError x)
      let ?d2 = "?d1\<lparr>o_last_error := Some (''MadadDocumentError: '' @ x)\<rparr>"
      show ?thesis
      proof (cases n)
        case 0
        show ?thesis
          by (rule failed [of "?d2\<lparr>o_status := D_FAILED, o_updated := utcnow (s\<lparr>gateway := g\<rparr>)\<rparr>"])
            (use Inl MadadDocumentError out g 0 in \<open>auto simp: Let_def split_beta\<close>)
      next
        case (Suc m)
        obtain rb s2 where b: "compute_backoff (Suc (o_attempts d)) (dc_base_delay cf) (dc_max_delay cf)
          (dc_jitter cf) uniform (s\<lparr>gateway := g\<rparr>) = (rb, s2)" by force
        note bd = backoff_docs [OF b]
        show ?thesis
        proof (cases rb)
          case (Inl ex)
          with \<open>r = Inl e\<close> MadadDocumentError Suc out g b have "out = Inl (DocBackoffError ex)" "t = s2"
            by (simp_all add: Let_def)
          with overflow [of ex "s\<lparr>gateway := g\<rparr>"] bd b Inl Suc show ?thesis by simp
        next
          case (Inr delay)
          obtain d3 s3 where sv: "save_doc ?d2 s2 = (d3, s3)" by force
          from \<open>r = Inl e\<close> MadadDocumentError Suc out g b Inr sv
          have "route cf content m d3
              (demit DE_RETRYING (Some d3) None [(''attempt'', JInt (int (o_attempts d3)))] s3) = (out, t)"
            by (simp add: Let_def)
          moreover have "o_id d3 = o_id d" "docs s3 = dput (o_id d) d3 (docs s)" "batches s3 = batches s"
            "o_attempts d3 = Suc (o_attempts d)" "o_valid d3 = o_valid d"
            using sv save_doc_simps [of ?d2 s2] bd by auto
          ultimately show ?thesis using retry [OF Suc] by simp
        qed
      qed
    qed
  qed
qed

lemma route_frame:
  assumes "route cf content n d s = (out, t)"
  shows "batches t = batches s \<and> (\<forall>k. k \<noteq> o_id d \<longrightarrow> dget (docs t) k = dget (docs s) k)"
  using assms
proof (induction n arbitrary: d s)
  case 0
  then show ?case by (cases rule: route_cases) auto
next
  case (Suc n)
  from Suc.prems show ?case
  proof (cases rule: route_cases)
    case (retry m d3 u)
    with Suc.IH [of d3 u] show ?thesis by auto
  qed auto
qed

lemma route_settles:
  assumes "route cf content n d s = (out, t)"
    and "\<And>a f k pr c g e. fst (dc_process cf a f k pr c g) \<noteq> Inl (OtherGatewayError e)"
    and "o_attempts d + n \<le> 1023" "o_valid d = None"
  shows "out = Inr () \<and> (\<exists>d'. dget (docs t) (o_id d) = Some d' \<and> o_id d' = o_id d \<and>
    settled_doc (int (o_attempts d + n + 1)) d')"
  using assms
proof (induction n arbitrary: d s)
  case 0
  from 0(1) show ?case
  proof (cases rule: route_cases)
    case (answered d3 v)
    then show ?thesis by (cases v) (simp_all add: settled_doc_def DOC_TERMINAL_def)
  qed (use 0(2-) in \<open>auto simp: settled_doc_def DOC_TERMINAL_def\<close>)
next
  case (Suc n)
  from Suc.prems(1) show ?case
  proof (cases rule: route_cases)
    case (overflow e u)
    with Suc.prems(3) compute_backoff_no_overflow [of "Suc (o_attempts d)" "dc_base_delay cf"
        "dc_max_delay cf" "dc_jitter cf" uniform u] show ?thesis by simp
  next
    case (retry m d3 u)
    with Suc.IH [of d3 u] Suc.prems(2-) show ?thesis by simp
  next
    case (answered d3 v)
    with Suc.prems(3) show ?thesis by (cases v) (simp_all add: settled_doc_def DOC_TERMINAL_def)
  qed (use Suc.prems(2-) in auto)
qed

text \<open>A concrete service: a gateway that fails a number of times, then accepts.\<close>

definition demo_docs :: "(unit, nat) doc_config" where
  "demo_docs =
     \<lparr>dc_max_attempts = 3, dc_base_delay = 1, dc_max_delay = 30, dc_jitter = False,
      dc_process = (\<lambda>a f k p c g. if g = 0
        then (Inr \<lparr>mr_type = Some ''cr'', mr_valid = True, mr_errors = [], mr_ref = Some ''r''\<rparr>, 0)
        else (Inl (MadadDocumentError ''down''), g - 1)),
      dc_zip = (\<lambda>b. Some [\<lparr>z_dir = True, z_name = ''d/'', z_read = Inr ()\<rparr>,
        \<lparr>z_dir = False, z_name = ''d/cr.pdf'', z_read = Inr ()\<rparr>,
        \<lparr>z_dir = False, z_name = ''d/.x'', z_read = Inl ''bad''\<rparr>]),
      dc_str = (\<lambda>v. ''1'')\<rparr>"

definition doc_world :: "nat \<Rightarrow> nat doc_state" where
  "doc_world n =
     \<lparr>clock = int, ticks = 0, entropy = (\<lambda>n. replicate n CHR ''x''), minted = 0, dice = (\<lambda>n. 0),
      rolled = 0, docs = [], batches = [], checklists = [], devents = [], daudit = [], gateway = n\<rparr>"

text \<open>
  C27. Every document is settled. When the gateway fails only in the way the service retries,
  ingesting a document returns it as it is stored, in a terminal status, after at least one and at
  most \<open>max(1, max_attempts)\<close> calls; it is \<open>COMPLETED\<close> exactly when the gateway called it
  valid and \<open>FAILED\<close> only after all attempts. No other document and no batch is touched.
\<close>

theorem ingest_settles_document:
  assumes "ingest_document cf fname app kind source pref content bid corr s = (out, t)"
    and "\<And>a f k pr c g e. fst (dc_process cf a f k pr c g) \<noteq> Inl (OtherGatewayError e)"
    and "dc_max_attempts cf \<le> 1024"
  shows "\<exists>d. out = Inr d \<and> o_id d = new_id ''doc'' s \<and> dget (docs t) (o_id d) = Some d \<and>
    o_status d \<in> {D_COMPLETED, D_REJECTED, D_FAILED} \<and>
    1 \<le> o_attempts d \<and> int (o_attempts d) \<le> max 1 (dc_max_attempts cf) \<and>
    (o_status d = D_COMPLETED \<longleftrightarrow> o_valid d = Some True) \<and>
    (o_status d = D_FAILED \<longrightarrow> int (o_attempts d) = max 1 (dc_max_attempts cf)) \<and>
    batches t = batches s \<and> (\<forall>k. k \<noteq> o_id d \<longrightarrow> dget (docs t) k = dget (docs s) k)"
proof -
  define d where "d = new_doc fname app kind source pref bid corr s"
  define s3 where "s3 = drecord ''received'' (Some (o_id d)) None [(''filename'', JStr fname)]
    (demit DE_RECEIVED (Some d) None [] (create_doc d (tick (tick (mint s)))))"
  let ?N = "nat (max 1 (dc_max_attempts cf)) - 1"
  have d0: "o_attempts d = 0" "o_valid d = None" "o_id d = new_id ''doc'' s"
    by (simp_all add: d_def new_doc_def)
  obtain u t' where r: "route cf content ?N d s3 = (u, t')" by force
  have "o_attempts d + ?N \<le> 1023" using assms(3) d0 by simp
  from route_settles [OF r assms(2) this d0(2)] obtain d' where
    d': "u = Inr ()" "dget (docs t') (o_id d) = Some d'" "o_id d' = o_id d"
    "settled_doc (int (o_attempts d + ?N + 1)) d'" by blast
  have out: "out = Inr d'" "t = t'"
    using assms(1) r d'(1,2)
    by (simp_all add: ingest_document_def d_def [symmetric] s3_def [symmetric] Let_def
        route_to_madad_def require_document_def get_doc_def)
  have "int (o_attempts d + ?N + 1) = max 1 (dc_max_attempts cf)" using d0 by simp
  note st = d'(4) [unfolded this]
  have s3: "docs s3 = dput (o_id d) d (docs s)" "batches s3 = batches s"
    by (simp_all add: s3_def create_doc_def tick_def mint_def)
  from route_frame [OF r] s3 have "batches t = batches s"
    "\<forall>k. k \<noteq> o_id d \<longrightarrow> dget (docs t) k = dget (docs s) k" using out by simp_all
  with st out d' d0 show ?thesis by (simp add: settled_doc_def DOC_TERMINAL_def)
qed

theorem ingest_settles_document_witness:
  "\<exists>d t. ingest_document demo_docs ''a.pdf'' None K_ONBOARDING D_UPLOAD None None None None (doc_world 5) = (Inr d, t) \<and>
     int (o_attempts d) \<le> 3 \<and> o_status d \<noteq> D_RECEIVED"
proof -
  obtain out t where i: "ingest_document demo_docs ''a.pdf'' None K_ONBOARDING D_UPLOAD None None None None
    (doc_world 5) = (out, t)" by force
  have "fst (dc_process demo_docs a f k pr c g) \<noteq> Inl (OtherGatewayError e)" for a f k pr c g e
    by (simp add: demo_docs_def)
  moreover have "dc_max_attempts demo_docs = 3" by (simp add: demo_docs_def)
  ultimately show ?thesis using ingest_settles_document [OF i] i by auto
qed

subsection \<open>Checklists\<close>

lemma types_of_iff:
  "t \<in> set (types_of P ds) \<longleftrightarrow> (\<exists>d \<in> set ds. o_type d = Some t \<and> t \<noteq> [] \<and> P d)"
  by (force simp: types_of_def split: option.splits if_splits)

lemma length_types_of: "length (types_of P ds) \<le> length (filter P ds)"
proof -
  have "length (concat (map (\<lambda>d. case o_type d of
        None \<Rightarrow> [] | Some t \<Rightarrow> if t \<noteq> [] \<and> P d then [t] else []) ds)) \<le> length (filter P ds)"
    by (induction ds) (auto split: option.split)
  then show ?thesis unfolding types_of_def by (rule order_trans [OF length_remdups_leq])
qed

lemma length_filter_mono: "(\<And>x. P x \<Longrightarrow> Q x) \<Longrightarrow> length (filter P xs) \<le> length (filter Q xs)"
  by (induction xs) (auto intro: le_SucI)

text \<open>
  C28. When a checklist is complete. A checklist is complete exactly when every required code has
  a completed document of the same normalised type, or at least as many documents as required codes
  came in that were not rejected or failed. If the required codes differ once normalised, it is
  never complete on fewer such documents than required codes.
\<close>

theorem checklist_completion:
  defines "uploads ds \<equiv> length (filter (\<lambda>d. o_status d \<noteq> D_REJECTED \<and> o_status d \<noteq> D_FAILED) ds)"
    and "needed rs \<equiv> length (filter rq_required rs)"
  shows "(complete (checklist_of c rs ds) \<longleftrightarrow>
      (\<forall>r \<in> set rs. rq_required r \<longrightarrow> (\<exists>d \<in> set ds. \<exists>t. o_status d = D_COMPLETED \<and> o_type d = Some t \<and>
         t \<noteq> [] \<and> norm_code (Some t) = norm_code (Some (rq_code r)))) \<or>
      needed rs \<le> uploads ds) \<and>
    (distinct (map (\<lambda>r. norm_code (Some (rq_code r))) (filter rq_required rs)) \<longrightarrow>
      complete (checklist_of c rs ds) \<longrightarrow> needed rs \<le> uploads ds)"
proof -
  let ?val = "types_of (\<lambda>d. o_status d = D_COMPLETED) ds"
  let ?vn = "set (map (\<lambda>t. norm_code (Some t)) ?val)"
  let ?rn = "\<lambda>r. norm_code (Some (rq_code r))"
  have up: "uploads ds = length (filter (\<lambda>d. o_status d \<notin> {D_REJECTED, D_FAILED}) ds)"
    by (simp add: uploads_def)
  have miss: "(filter (\<lambda>r. rq_required r \<and> ?rn r \<notin> ?vn) rs = []) \<longleftrightarrow>
      (\<forall>r \<in> set rs. rq_required r \<longrightarrow> ?rn r \<in> ?vn)" by (auto simp: filter_empty_conv)
  have zero: "needed rs = 0 \<Longrightarrow> \<forall>r \<in> set rs. rq_required r \<longrightarrow> ?rn r \<in> ?vn"
    by (auto simp: needed_def filter_empty_conv)
  have compl: "complete (checklist_of c rs ds) \<longleftrightarrow>
      (\<forall>r \<in> set rs. rq_required r \<longrightarrow> ?rn r \<in> ?vn) \<or> needed rs \<le> uploads ds"
    unfolding complete_def checklist_of_def Let_def up needed_def using miss zero
    by (auto simp: needed_def filter_empty_conv)
  have vn: "n \<in> ?vn \<longleftrightarrow> (\<exists>d \<in> set ds. \<exists>t. o_status d = D_COMPLETED \<and> o_type d = Some t \<and>
      t \<noteq> [] \<and> norm_code (Some t) = n)" for n
  proof -
    have "n \<in> ?vn \<longleftrightarrow> (\<exists>t. t \<in> set ?val \<and> norm_code (Some t) = n)" by auto
    then show ?thesis unfolding types_of_iff by blast
  qed
  have "needed rs \<le> uploads ds"
    if dist: "distinct (map ?rn (filter rq_required rs))" and c: "complete (checklist_of c rs ds)"
  proof (rule ccontr)
    assume not: "\<not> needed rs \<le> uploads ds"
    then have "set (map ?rn (filter rq_required rs)) \<subseteq> ?vn" using c compl by auto
    then have "card (set (map ?rn (filter rq_required rs))) \<le> card ?vn" by (rule card_mono [rotated]) simp
    also have "\<dots> \<le> length (map (\<lambda>t. norm_code (Some t)) ?val)" by (rule card_length)
    also have "\<dots> \<le> length (filter (\<lambda>d. o_status d = D_COMPLETED) ds)" using length_types_of by simp
    also have "\<dots> \<le> uploads ds" unfolding uploads_def by (rule length_filter_mono) simp
    finally show False using not distinct_card [OF dist] by (simp add: needed_def)
  qed
  then show ?thesis unfolding compl vn by blast
qed

theorem checklist_completion_witness:
  "\<not> complete (checklist_of ''c'' [\<lparr>rq_code = ''cr'', rq_required = True\<rparr>, \<lparr>rq_code = ''aoa'', rq_required = True\<rparr>]
     [new_doc ''f'' None K_ONBOARDING D_UPLOAD None None None (doc_world 0)
        \<lparr>o_status := D_COMPLETED, o_type := Some ''cr''\<rparr>])"
proof -
  let ?rs = "[\<lparr>rq_code = ''cr'', rq_required = True\<rparr>, \<lparr>rq_code = ''aoa'', rq_required = True\<rparr>]"
  let ?ds = "[new_doc ''f'' None K_ONBOARDING D_UPLOAD None None None (doc_world 0)
        \<lparr>o_status := D_COMPLETED, o_type := Some ''cr''\<rparr>]"
  have "distinct (map (\<lambda>r. norm_code (Some (rq_code r))) (filter rq_required ?rs))"
    by (simp add: norm_code_def lower_def lower_char_def is_alnum_def is_alpha_def is_digit_def code_def)
  then show ?thesis using checklist_completion [of "''c''" ?rs ?ds] by auto
qed

text \<open>Two required codes of the same normal form are met by one document.\<close>

lemma one_upload_meets_two_codes:
  "complete (checklist_of ''c'' [\<lparr>rq_code = ''aoa'', rq_required = True\<rparr>, \<lparr>rq_code = ''a-o-a'', rq_required = True\<rparr>]
     [new_doc ''f'' None K_ONBOARDING D_UPLOAD None None None (doc_world 0)
        \<lparr>o_status := D_COMPLETED, o_type := Some ''aoa''\<rparr>])"
  by (simp add: complete_def checklist_of_def types_of_def new_doc_def norm_code_def lower_def
      lower_char_def is_alnum_def is_alpha_def is_digit_def code_def Let_def)

subsection \<open>Archives\<close>

lemma read_entries_spec:
  "read_entries infos = Inr es \<Longrightarrow>
     map fst es = map (\<lambda>i. base_name (z_name i)) (filter (\<lambda>i. \<not> skipped_entry i) infos) \<and>
     map (\<lambda>e. Inr (snd e)) es = map z_read (filter (\<lambda>i. \<not> skipped_entry i) infos)"
  by (induction infos arbitrary: es) (auto split: if_splits sum.splits)

lemma base_name_plain: "CHR ''/'' \<notin> set (base_name n)"
  by (auto simp: base_name_def dest: set_takeWhileD)

text \<open>
  What an archive contributes. Extraction returns, in archive order, exactly the entries that
  are neither directories nor hidden or system files, each under the last component of its path:
  no name it ingests is empty, contains a slash or starts with a dot.
\<close>

theorem zip_entries_are_plain_files:
  assumes "extract_zip cf content = Inr es" "dc_zip cf content = Some infos"
  shows "map fst es = map (\<lambda>i. base_name (z_name i)) (filter (\<lambda>i. \<not> skipped_entry i) infos) \<and>
    map (\<lambda>e. Inr (snd e)) es = map z_read (filter (\<lambda>i. \<not> skipped_entry i) infos) \<and>
    (\<forall>n \<in> fst ` set es. n \<noteq> [] \<and> CHR ''/'' \<notin> set n \<and> hd n \<noteq> CHR ''.'')"
proof -
  from assms have r: "read_entries infos = Inr es" by (simp add: extract_zip_def)
  have "n \<noteq> [] \<and> CHR ''/'' \<notin> set n \<and> hd n \<noteq> CHR ''.''" if n: "n \<in> set (map fst es)" for n
  proof -
    from n obtain i where i: "n = base_name (z_name i)" "\<not> skipped_entry i" "i \<in> set infos"
      unfolding conjunct1 [OF read_entries_spec [OF r]] set_map set_filter by auto
    then have "n \<noteq> []" "\<not> starts_with ''.'' n" by (auto simp: skipped_entry_def)
    moreover from this have "hd n \<noteq> CHR ''.''" by (cases n) (simp_all add: starts_with_def)
    ultimately show ?thesis using base_name_plain i(1) by simp
  qed
  then have "\<forall>n \<in> fst ` set es. n \<noteq> [] \<and> CHR ''/'' \<notin> set n \<and> hd n \<noteq> CHR ''.''"
    unfolding set_map by blast
  with read_entries_spec [OF r] show ?thesis by blast
qed

theorem zip_entries_are_plain_files_witness:
  "\<exists>es. extract_zip demo_docs () = Inr es \<and> map fst es = [''cr.pdf'']"
proof -
  let ?infos = "[\<lparr>z_dir = True, z_name = ''d/'', z_read = Inr ()\<rparr>,
    \<lparr>z_dir = False, z_name = ''d/cr.pdf'', z_read = Inr ()\<rparr>,
    \<lparr>z_dir = False, z_name = ''d/.x'', z_read = Inl ''bad''\<rparr>]"
  have i: "dc_zip demo_docs () = Some ?infos" by (simp add: demo_docs_def)
  have sk: "filter (\<lambda>i. \<not> skipped_entry i) ?infos = [\<lparr>z_dir = False, z_name = ''d/cr.pdf'', z_read = Inr ()\<rparr>]"
    by (simp add: demo_docs_def skipped_entry_def starts_with_def base_name_def)
  obtain es where e: "extract_zip demo_docs () = Inr es"
    using i by (auto simp: demo_docs_def extract_zip_def skipped_entry_def starts_with_def base_name_def)
  from zip_entries_are_plain_files [OF e i] sk e show ?thesis by (simp add: base_name_def)
qed

subsection \<open>The review CSV can be read back\<close>

text \<open>
  What Python's reader makes of a text that \<open>csv.writer\<close> wrote, a character at a time: a character that ends no
  line feeds the parser, a line feed inside quotes is data, and one behind a field ends the record.
\<close>

lemma split_lines_Nil: "split_lines cs = [] \<longleftrightarrow> cs = []"
  by (cases cs) (auto split: list.split)

lemma feed_char:
  assumes "csv_char (Some c) p = Inr p'" "c \<noteq> lf" "cs \<noteq> []"
  shows "csv_next p (split_lines (c # cs)) = csv_next p' (split_lines cs)"
proof -
  obtain l ls where "split_lines cs = l # ls" using assms(3) split_lines_Nil by (cases "split_lines cs") auto
  with assms show ?thesis by (cases p; cases p') (simp add: csv_line_def)
qed

lemma feed_quoted_lf:
  "csv_next (In_quoted, f, fs) (split_lines (lf # cs)) = csv_next (In_quoted, f @ [lf], fs) (split_lines cs)"
  by (simp add: csv_line_def)

lemma feed_record_end:
  "csv_next (Eat_crnl, f, fs) (split_lines (lf # cs)) = Inr (Some (fs, split_lines cs))"
  by (simp add: csv_line_def is_eol_def)

lemma feed_plain:
  assumes "\<not> list_ex csv_special g" "rest \<noteq> []"
  shows "csv_next (In_field, f, fs) (split_lines (g @ rest)) = csv_next (In_field, f @ g, fs) (split_lines rest)"
  using assms(1)
proof (induction g arbitrary: f)
  case (Cons c g)
  then have "csv_char (Some c) (In_field, f, fs) = Inr (In_field, f @ [c], fs)" "c \<noteq> lf"
    by (simp_all add: csv_special_def is_eol_def)
  from feed_char [OF this, of "g @ rest"] Cons assms(2) show ?case by simp
qed simp

lemma feed_escaped:
  assumes "rest \<noteq> []"
  shows "csv_next (In_quoted, f, fs) (split_lines (csv_escape g @ dquote # rest)) =
    csv_next (Quote_in_quoted, f @ g, fs) (split_lines rest)"
proof (induction g arbitrary: f)
  case Nil
  have "csv_char (Some dquote) (In_quoted, f, fs) = Inr (Quote_in_quoted, f, fs)" "dquote \<noteq> lf" by simp_all
  from feed_char [OF this assms] show ?case by simp
next
  case (Cons c g)
  let ?more = "csv_escape g @ dquote # rest"
  show ?case
  proof (cases "c = dquote")
    case True
    have "csv_char (Some dquote) (In_quoted, f, fs) = Inr (Quote_in_quoted, f, fs)"
      "csv_char (Some dquote) (Quote_in_quoted, f, fs) = Inr (In_quoted, f @ [dquote], fs)" "dquote \<noteq> lf"
      by simp_all
    from feed_char [OF this(1,3), of "dquote # ?more"] feed_char [OF this(2,3), of ?more]
      Cons.IH [of "f @ [dquote]"] True show ?thesis by simp
  next
    case plain: False
    show ?thesis
    proof (cases "c = lf")
      case True
      from feed_quoted_lf [of f fs ?more] Cons.IH [of "f @ [lf]"] plain True show ?thesis by simp
    next
      case False
      have "csv_char (Some c) (In_quoted, f, fs) = Inr (In_quoted, f @ [c], fs)" using plain by simp
      from feed_char [OF this False, of ?more] Cons.IH [of "f @ [c]"] plain show ?thesis by simp
    qed
  qed
qed

text \<open>A written field followed by a comma, and one followed by the end of its row.\<close>

lemma feed_field:
  assumes "st = Start_field \<or> st = Start_record" "rest \<noteq> []"
  shows "\<exists>st'. csv_next (st, [], fs) (split_lines (csv_field g @ rest)) = csv_next (st', g, fs) (split_lines rest) \<and>
    st' \<in> {In_field, Quote_in_quoted} \<union> (if g = [] then {st} else {})"
proof (cases "list_ex csv_special g")
  case True
  have "csv_char (Some dquote) (st, [], fs) = Inr (In_quoted, [], fs)" "dquote \<noteq> lf"
    using assms(1) by (auto simp: start_field_def is_eol_def)
  from feed_char [OF this, of "csv_escape g @ dquote # rest"] feed_escaped [OF assms(2), of "[]" fs g] True
  show ?thesis by (intro exI [of _ Quote_in_quoted]) (simp add: csv_field_def)
next
  case plain: False
  show ?thesis
  proof (cases g)
    case (Cons c cs)
    with plain have "csv_char (Some c) (st, [], fs) = Inr (In_field, [c], fs)" "c \<noteq> lf"
      "\<not> list_ex csv_special cs"
      using assms(1) by (auto simp: start_field_def is_eol_def csv_special_def)
    from feed_char [OF this(1,2), of "cs @ rest"] feed_plain [OF this(3) assms(2), of "[c]" fs] Cons plain assms(2)
    show ?thesis by (intro exI [of _ In_field]) (simp add: csv_field_def)
  qed (auto simp: csv_field_def)
qed

lemma feed_comma:
  assumes "st = Start_field \<or> st = Start_record" "rest \<noteq> []"
  shows "csv_next (st, [], fs) (split_lines (csv_field g @ CHR '','' # rest)) =
    csv_next (Start_field, [], fs @ [g]) (split_lines rest)"
proof -
  obtain st' where st': "csv_next (st, [], fs) (split_lines (csv_field g @ CHR '','' # rest)) =
      csv_next (st', g, fs) (split_lines (CHR '','' # rest))"
    "st' \<in> {In_field, Quote_in_quoted} \<union> (if g = [] then {st} else {})"
    using feed_field [OF assms(1), of "CHR '','' # rest" fs g] by blast
  have "csv_char (Some CHR '','') (st', g, fs) = Inr (Start_field, [], fs @ [g])" "CHR '','' \<noteq> lf"
    using st'(2) assms(1) by (auto simp: start_field_def is_eol_def split: if_splits)
  from feed_char [OF this assms(2)] st'(1) show ?thesis by simp
qed

lemma feed_last:
  "csv_next (Start_field, [], fs) (split_lines (csv_field g @ cr # lf # rest)) =
    Inr (Some (fs @ [g], split_lines rest))"
proof -
  obtain st' where st': "csv_next (Start_field, [], fs) (split_lines (csv_field g @ cr # lf # rest)) =
      csv_next (st', g, fs) (split_lines (cr # lf # rest))"
    "st' \<in> {In_field, Quote_in_quoted} \<union> (if g = [] then {Start_field} else {})"
    using feed_field [of Start_field "cr # lf # rest" fs g] by blast
  have "csv_char (Some cr) (st', g, fs) = Inr (Eat_crnl, [], fs @ [g])" "cr \<noteq> lf"
    using st'(2) by (auto simp: start_field_def end_field_def is_eol_def split: if_splits)
  from feed_char [OF this, of "lf # rest"] feed_record_end [of "[]" "fs @ [g]" rest] st'(1) show ?thesis by simp
qed

lemma feed_row:
  assumes "st = Start_field \<or> st = Start_record \<and> 1 < length gs" "gs \<noteq> []"
  shows "csv_next (st, [], fs) (split_lines (csv_row gs @ rest)) = Inr (Some (fs @ gs, split_lines rest))"
  using assms
proof (induction gs arbitrary: st fs)
  case (Cons g gs)
  show ?case
  proof (cases gs)
    case Nil
    with Cons.prems feed_last [of fs g rest] show ?thesis by (simp add: csv_row_def)
  next
    case (Cons h hs)
    have eq: "csv_row (g # gs) @ rest = csv_field g @ CHR '','' # (csv_row gs @ rest)"
      using Cons by (simp add: csv_row_def)
    from feed_comma [of st "csv_row gs @ rest" fs g] Cons.IH [of Start_field "fs @ [g]"] Cons.prems Cons
    show ?thesis unfolding eq by (auto simp: csv_row_def)
  qed
qed simp

lemma read_rows:
  assumes "list_all (\<lambda>r. 1 < length r) rs"
  shows "csv_records (split_lines (concat (map csv_row rs))) = Inr rs"
  using assms
proof (induction rs)
  case Nil
  show ?case by (simp add: csv_records.simps [of "[]"] new_parser_def)
next
  case (Cons r rs)
  have "r \<noteq> []" using Cons.prems by auto
  with feed_row [of Start_record r "[]" "concat (map csv_row rs)"] Cons show ?case
    by (subst csv_records.simps) (simp add: new_parser_def)
qed

text \<open>One value of an invoice as the file shows it: nothing when the field is missing.\<close>

definition shown :: "('b, 'g) doc_config \<Rightarrow> payload \<Rightarrow> string \<Rightarrow> string" where
  "shown cf fs k = (case dget fs k of None \<Rightarrow> [] | Some v \<Rightarrow> csv_value cf v)"

text \<open>
  The review file survives a round trip. Python's own reader makes of the generated CSV the header with the seven
  columns and one row per invoice, numbered from one, with the value of each column's field exactly as it
  was rendered, whatever commas, quotes and line breaks the values contain.
\<close>

theorem invoice_csv_roundtrip:
  "csv_records (split_lines (generate_invoice_csv cf rows)) =
     Inr ([''Row'', ''Invoice No.'', ''Date'', ''Due Date'', ''Customer'', ''Amount QAR'', ''Flag''] #
          map (\<lambda>i. [dc_str cf (JInt (int i + 1)), shown cf (rows ! i) ''invoice_no'',
                    shown cf (rows ! i) ''date'', shown cf (rows ! i) ''due_date'',
                    shown cf (rows ! i) ''customer'', shown cf (rows ! i) ''amount'',
                    shown cf (rows ! i) ''flag''])
            [0..<length rows])"
proof -
  let ?rs = "map (\<lambda>(i, fs). invoice_fields cf i fs) (zip [1..<Suc (length rows)] rows)"
  have "csv_records (split_lines (concat (map csv_row (INVOICE_CSV_COLUMNS # ?rs)))) = Inr (INVOICE_CSV_COLUMNS # ?rs)"
    by (rule read_rows) (auto simp: list_all_iff INVOICE_CSV_COLUMNS_def invoice_fields_def)
  moreover have "generate_invoice_csv cf rows = concat (map csv_row (INVOICE_CSV_COLUMNS # ?rs))"
    by (simp add: generate_invoice_csv_def comp_def split_def)
  moreover have "?rs = map (\<lambda>i. invoice_fields cf (Suc i) (rows ! i)) [0..<length rows]"
    by (rule nth_equalityI) (simp_all del: upt_Suc)
  ultimately show ?thesis
    by (simp add: INVOICE_CSV_COLUMNS_def invoice_fields_def shown_def csv_value_def add.commute
        split: option.split cong: option.case_cong)
qed

end
