(* ===== verification/Communication.thy ===== *)
theory Communication
  imports Wf_Transitions I18n "HOL-Library.List_Lexorder" "HOL-Library.Char_ord"
begin

section \<open>The communication service\<close>

text \<open>
  \<open>app/services/communication\<close>: templates, inbound ingestion, outbound sending with retries,
  delivery callbacks, conversation threads. Stores, template provider, event bus and audit log are
  the in-memory ones; the channel gateway and the conversation dispatcher are ports over one
  state.
\<close>

subsection \<open>Enumerations, errors, models\<close>

datatype direction = INBOUND | OUTBOUND

datatype msg_type = T_TEXT | T_TEMPLATE | T_MEDIA | T_SYSTEM

fun msg_type_value :: "msg_type \<Rightarrow> string" where
  "msg_type_value T_TEXT = ''text''"
| "msg_type_value T_TEMPLATE = ''template''"
| "msg_type_value T_MEDIA = ''media''"
| "msg_type_value T_SYSTEM = ''system''"

datatype msg_status = C_RECEIVED | C_QUEUED | C_SENDING | C_SENT | C_DELIVERED | C_READ | C_FAILED

fun msg_status_value :: "msg_status \<Rightarrow> string" where
  "msg_status_value C_RECEIVED = ''received''"
| "msg_status_value C_QUEUED = ''queued''"
| "msg_status_value C_SENDING = ''sending''"
| "msg_status_value C_SENT = ''sent''"
| "msg_status_value C_DELIVERED = ''delivered''"
| "msg_status_value C_READ = ''read''"
| "msg_status_value C_FAILED = ''failed''"

fun MSG_TRANSITIONS :: "msg_status \<Rightarrow> msg_status list" where
  "MSG_TRANSITIONS C_QUEUED = [C_SENDING, C_FAILED]"
| "MSG_TRANSITIONS C_SENDING = [C_SENT, C_FAILED]"
| "MSG_TRANSITIONS C_SENT = [C_DELIVERED, C_READ, C_FAILED]"
| "MSG_TRANSITIONS C_DELIVERED = [C_READ]"
| "MSG_TRANSITIONS C_READ = []"
| "MSG_TRANSITIONS C_FAILED = [C_QUEUED]"
| "MSG_TRANSITIONS C_RECEIVED = []"

definition can_transition :: "msg_status \<Rightarrow> msg_status \<Rightarrow> bool" where
  "can_transition src dst = (if src = dst then True else dst \<in> set (MSG_TRANSITIONS src))"

interpretation msg_lifecycle: lifecycle can_transition "[C_READ, C_RECEIVED]"
  by unfold_locales (auto simp: can_transition_def split: if_splits)

datatype comm_exn =
    TemplateNotFoundError string lang
  | MissingTemplateVariableError "string list"
  | MessageNotFoundError "string option" "string option"
  | InvalidMessageStatusError msg_status msg_status
  | CommBackoffError wf_exn
  | OtherChannelError string
  | HandoffError string

text \<open>What the gateway raises: the retried error with its text, or anything else.\<close>

datatype channel_exn = GatewayError string | UnexpectedError string

record attachment =
  t_id :: string
  t_filename :: string
  t_content_type :: "string option"
  t_size :: "int option"
  t_direction :: direction
  t_provider_ref :: "string option"
  t_metadata :: payload

record attachment_dto =
  td_filename :: string
  td_content_type :: "string option"
  td_size :: "int option"
  td_provider_ref :: "string option"
  td_metadata :: payload

record conversation =
  n_id :: string
  n_channel :: channel
  n_identity :: string
  n_session :: "string option"
  n_locale :: lang
  n_open :: bool
  n_thread_ref :: "string option"
  n_subject :: "string option"
  n_count :: int
  n_last_at :: "int option"
  n_created :: int
  n_updated :: int

record message =
  g_id :: string
  g_conv :: string
  g_channel :: channel
  g_identity :: string
  g_direction :: direction
  g_type :: msg_type
  g_status :: msg_status
  g_locale :: lang
  g_text :: "string option"
  g_template :: "string option"
  g_variables :: payload
  g_attachments :: "attachment list"
  g_provider_id :: "string option"
  g_in_reply_to :: "string option"
  g_session :: "string option"
  g_corr :: "string option"
  g_attempts :: int
  g_last_error :: "string option"
  g_created :: int
  g_updated :: int
  g_sent_at :: "int option"
  g_delivered_at :: "int option"
  g_read_at :: "int option"
  g_metadata :: payload

record inbound_dto =
  di_channel :: channel
  di_identity :: string
  di_text :: "string option"
  di_type :: msg_type
  di_attachments :: "attachment_dto list"
  di_provider_id :: "string option"
  di_in_reply_to :: "string option"
  di_locale :: "lang option"
  di_subject :: "string option"
  di_thread_ref :: "string option"
  di_corr :: "string option"
  di_raw :: payload

record outbound_request =
  ro_channel :: channel
  ro_identity :: string
  ro_text :: "string option"
  ro_template :: "string option"
  ro_variables :: payload
  ro_attachments :: "attachment_dto list"
  ro_locale :: "lang option"
  ro_in_reply_to :: "string option"
  ro_corr :: "string option"
  ro_metadata :: payload

definition truthy_text :: "string option \<Rightarrow> bool" where
  "truthy_text t = (case t of None \<Rightarrow> False | Some x \<Rightarrow> x \<noteq> [])"

definition exactly_one_body :: "outbound_request \<Rightarrow> bool" where
  "exactly_one_body r = (truthy_text (ro_text r) \<noteq> truthy_text (ro_template r))"

record delivery_update =
  du_status :: msg_status
  du_provider_id :: "string option"
  du_message_id :: "string option"
  du_error :: "string option"

definition need_an_id :: "delivery_update \<Rightarrow> bool" where
  "need_an_id u = (truthy_text (du_provider_id u) \<or> truthy_text (du_message_id u))"

datatype comm_event_type =
    CE_RECEIVED | CE_QUEUED | CE_SENT | CE_DELIVERED | CE_READ | CE_FAILED | CE_RETRYING
  | CE_ATTACHMENT_RECEIVED | CE_CONVERSATION_OPENED

record comm_event =
  ce_id :: string
  ce_type :: comm_event_type
  ce_at :: int
  ce_conv :: string
  ce_msg :: "string option"
  ce_channel :: channel
  ce_identity :: string
  ce_corr :: "string option"
  ce_payload :: payload

record comm_audit =
  ca_id :: string
  ca_at :: int
  ca_conv :: string
  ca_msg :: "string option"
  ca_action :: string
  ca_detail :: payload

record dispatch_result =
  dr_accepted :: bool
  dr_provider_id :: "string option"

record template =
  tp_body :: string
  tp_subject :: "string option"

text \<open>
  \<open>CommunicationConfig\<close> with the renderer's settings and the ports: \<open>cm_send\<close> is
  \<open>CommunicationGateway.send\<close>, \<open>cm_handoff\<close> the wired dispatcher's \<open>on_inbound\<close>,
  \<open>cm_str\<close> is \<open>str\<close> of a value.
\<close>

record 'g comm_config =
  cm_max_attempts :: int
  cm_base_delay :: real
  cm_max_delay :: real
  cm_jitter :: bool
  cm_locale :: lang
  cm_renderer_locale :: lang
  cm_strict :: bool
  cm_str :: "json \<Rightarrow> string"
  cm_send :: "message \<Rightarrow> 'g \<Rightarrow> (channel_exn + dispatch_result) \<times> 'g"
  cm_handoff :: "(message \<Rightarrow> 'g \<Rightarrow> (string + unit) \<times> 'g) option"

record 'g comm_state = base +
  convs :: "(string, conversation) dict"
  open_convs :: "(channel \<times> string, string) dict"
  msgs :: "(string, message) dict"
  by_provider :: "(string, string) dict"
  templates :: "(string \<times> lang, template) dict"
  cevents :: "comm_event list"
  caudit :: "comm_audit list"
  chan :: 'g

subsection \<open>Templates\<close>

text \<open>
  The placeholder pattern: two opening braces, spaces, an identifier, spaces, two closing braces.
  \<open>match_var s\<close> is the identifier and the rest when \<open>s\<close> begins with a placeholder.
\<close>

definition ident_start :: "char \<Rightarrow> bool" where
  "ident_start c = (is_alpha c \<or> c = CHR ''_'')"

definition ident_char :: "char \<Rightarrow> bool" where
  "ident_char c = (is_alnum c \<or> c = CHR ''_'')"

definition match_var :: "string \<Rightarrow> (string \<times> string) option" where
  "match_var s =
     (if take 2 s \<noteq> ''{{'' then None
      else
        let s1 = dropWhile is_space (drop 2 s);
            name = takeWhile ident_char s1;
            s2 = dropWhile is_space (dropWhile ident_char s1)
        in if name \<noteq> [] \<and> ident_start (hd name) \<and> take 2 s2 = ''}}'' then Some (name, drop 2 s2)
           else None)"

lemma match_var_shorter: "match_var s = Some (name, rest) \<Longrightarrow> length rest < length s"
proof -
  assume "match_var s = Some (name, rest)"
  then have t: "take 2 s = ''{{''"
    and r: "rest = drop 2 (dropWhile is_space (dropWhile ident_char (dropWhile is_space (drop 2 s))))"
    by (auto simp: match_var_def Let_def split: if_splits)
  from t have "s \<noteq> []" by auto
  have "length rest \<le> length (drop 2 s)"
    unfolding r
    using length_dropWhile_le [of is_space "dropWhile ident_char (dropWhile is_space (drop 2 s))"]
      length_dropWhile_le [of ident_char "dropWhile is_space (drop 2 s)"]
      length_dropWhile_le [of is_space "drop 2 s"] by simp
  with \<open>s \<noteq> []\<close> show ?thesis by (cases s) auto
qed

text \<open>The substitution pass: the new text and the names that had no value, in order.\<close>

function subst_vars :: "(json \<Rightarrow> string) \<Rightarrow> payload \<Rightarrow> string \<Rightarrow> string \<times> string list" where
  "subst_vars str variables s =
     (case match_var s of
        Some (name, rest) \<Rightarrow>
          let (out, missing) = subst_vars str variables rest in
          (case dget variables name of
             Some v \<Rightarrow> (str v @ out, missing)
           | None \<Rightarrow> (take (length s - length rest) s @ out, name # missing))
      | None \<Rightarrow>
          (case s of
             [] \<Rightarrow> ([], [])
           | c # cs \<Rightarrow> let (out, missing) = subst_vars str variables cs in (c # out, missing)))"
  by pat_completeness auto

termination
  by (relation "measure (\<lambda>(str, v, s). length s)") (auto simp: match_var_shorter)

definition render_text ::
  "(json \<Rightarrow> string) \<Rightarrow> string \<Rightarrow> payload \<Rightarrow> bool \<Rightarrow> comm_exn + string"
where
  "render_text str body variables strict =
     (let (out, missing) = subst_vars str variables body in
      if strict \<and> missing \<noteq> [] then Inl (MissingTemplateVariableError (sort (remdups missing)))
      else Inr out)"

declare subst_vars.simps [simp del]

definition str_of :: "'g comm_config \<Rightarrow> json \<Rightarrow> string" where
  "str_of cf v = (case v of JStr x \<Rightarrow> x | _ \<Rightarrow> cm_str cf v)"

definition add_template :: "string \<Rightarrow> lang \<Rightarrow> string \<Rightarrow> 'g comm_state \<Rightarrow> 'g comm_state" where
  "add_template key l body s =
     s\<lparr>templates := dput (key, l) \<lparr>tp_body = body, tp_subject = None\<rparr> (templates s)\<rparr>"

definition render_with_subject ::
  "'g comm_config \<Rightarrow> string \<Rightarrow> payload \<Rightarrow> lang option \<Rightarrow> 'g comm_state \<Rightarrow>
     comm_exn + string \<times> string option"
where
  "render_with_subject cf key variables l s =
     (let requested = (case l of Some x \<Rightarrow> x | None \<Rightarrow> cm_renderer_locale cf);
          first_try = dget (templates s) (key, requested);
          found = (if first_try = None \<and> requested \<noteq> cm_renderer_locale cf
                   then dget (templates s) (key, cm_renderer_locale cf) else first_try)
      in case found of
           None \<Rightarrow> Inl (TemplateNotFoundError key requested)
         | Some tp \<Rightarrow>
             (case render_text (str_of cf) (tp_body tp) variables (cm_strict cf) of
                Inl e \<Rightarrow> Inl e
              | Inr body \<Rightarrow>
                  if truthy_text (tp_subject tp) then
                    (case render_text (str_of cf) (the (tp_subject tp)) variables False of
                       Inl e \<Rightarrow> Inl e | Inr subject \<Rightarrow> Inr (body, Some subject))
                  else Inr (body, None)))"

subsection \<open>The in-memory stores\<close>

definition get_conv :: "string \<Rightarrow> 'g comm_state \<Rightarrow> conversation option" where
  "get_conv i s = dget (convs s) i"

definition find_open :: "channel \<Rightarrow> string \<Rightarrow> 'g comm_state \<Rightarrow> conversation option" where
  "find_open ch ident s =
     (case dget (open_convs s) (ch, ident) of None \<Rightarrow> None | Some i \<Rightarrow> dget (convs s) i)"

definition save_conv :: "conversation \<Rightarrow> 'g comm_state \<Rightarrow> conversation \<times> 'g comm_state" where
  "save_conv c s =
     (let c' = c\<lparr>n_updated := utcnow s\<rparr>;
          key = (n_channel c', n_identity c');
          s1 = (tick s)\<lparr>convs := dput (n_id c') c' (convs s)\<rparr>
      in (c', if n_open c' then s1\<lparr>open_convs := dput key (n_id c') (open_convs s)\<rparr>
              else if dget (open_convs s) key = Some (n_id c')
              then s1\<lparr>open_convs := dpop key (open_convs s)\<rparr> else s1))"

definition index_provider :: "message \<Rightarrow> (string, string) dict \<Rightarrow> (string, string) dict" where
  "index_provider m d =
     (case g_provider_id m of
        None \<Rightarrow> d | Some p \<Rightarrow> if p = [] then d else dput p (g_id m) d)"

definition create_msg :: "message \<Rightarrow> 'g comm_state \<Rightarrow> 'g comm_state" where
  "create_msg m s =
     s\<lparr>msgs := dput (g_id m) m (msgs s), by_provider := index_provider m (by_provider s)\<rparr>"

definition get_msg :: "string \<Rightarrow> 'g comm_state \<Rightarrow> message option" where
  "get_msg i s = dget (msgs s) i"

definition get_by_provider_id :: "string \<Rightarrow> 'g comm_state \<Rightarrow> message option" where
  "get_by_provider_id p s =
     (case dget (by_provider s) p of None \<Rightarrow> None | Some i \<Rightarrow> dget (msgs s) i)"

definition save_msg :: "message \<Rightarrow> 'g comm_state \<Rightarrow> message \<times> 'g comm_state" where
  "save_msg m s =
     (let m' = m\<lparr>g_updated := utcnow s\<rparr>
      in (m', (tick s)\<lparr>msgs := dput (g_id m') m' (msgs s),
                       by_provider := index_provider m' (by_provider s)\<rparr>))"

definition list_by_conversation :: "string \<Rightarrow> 'g comm_state \<Rightarrow> message list" where
  "list_by_conversation i s = sort_key g_created (filter (\<lambda>m. g_conv m = i) (dvals (msgs s)))"

definition list_failed :: "nat \<Rightarrow> 'g comm_state \<Rightarrow> message list" where
  "list_failed limit s =
     take limit (sort_key g_updated (filter (\<lambda>m. g_status m = C_FAILED) (dvals (msgs s))))"

definition msg_core :: "message \<Rightarrow> message" where
  "msg_core m = m\<lparr>g_updated := 0\<rparr>"

interpretation msg_store: entity_store g_id msg_core get_msg create_msg save_msg
  by unfold_locales (simp_all add: create_msg_def save_msg_def get_msg_def msg_core_def Let_def)

definition cemit ::
  "comm_event_type \<Rightarrow> conversation \<Rightarrow> message option \<Rightarrow> payload \<Rightarrow> 'g comm_state \<Rightarrow> 'g comm_state"
where
  "cemit ty c m pl s =
     (tick (mint s))\<lparr>cevents := cevents s @
        [\<lparr>ce_id = new_id ''cevt'' s, ce_type = ty, ce_at = utcnow s, ce_conv = n_id c,
          ce_msg = map_option g_id m, ce_channel = n_channel c, ce_identity = n_identity c,
          ce_corr = (case m of None \<Rightarrow> None | Some x \<Rightarrow> g_corr x), ce_payload = pl\<rparr>]\<rparr>"

definition crecord ::
  "string \<Rightarrow> string \<Rightarrow> string option \<Rightarrow> payload \<Rightarrow> 'g comm_state \<Rightarrow> 'g comm_state"
where
  "crecord cid action mid detail s =
     (tick (mint s))\<lparr>caudit := caudit s @
        [\<lparr>ca_id = new_id ''caud'' s, ca_at = utcnow s, ca_conv = cid, ca_msg = mid,
          ca_action = action, ca_detail = detail\<rparr>]\<rparr>"

definition list_for_conversation :: "string \<Rightarrow> 'g comm_state \<Rightarrow> comm_audit list" where
  "list_for_conversation i s = filter (\<lambda>e. ca_conv e = i) (caudit s)"

subsection \<open>Conversations and attachments\<close>

definition resolve_conversation ::
  "'g comm_config \<Rightarrow> channel \<Rightarrow> string \<Rightarrow> lang option \<Rightarrow> string option \<Rightarrow> string option \<Rightarrow>
     'g comm_state \<Rightarrow> conversation \<times> 'g comm_state"
where
  "resolve_conversation cf ch ident l subject thread_ref s =
     (case find_open ch ident s of
        Some c \<Rightarrow> (c, s)
      | None \<Rightarrow>
          let c = \<lparr>n_id = new_id ''conv'' s, n_channel = ch, n_identity = ident, n_session = None,
                   n_locale = (case l of Some x \<Rightarrow> x | None \<Rightarrow> cm_locale cf), n_open = True,
                   n_thread_ref = thread_ref, n_subject = subject, n_count = 0, n_last_at = None,
                   n_created = utcnow s, n_updated = utcnow (tick s)\<rparr>;
              (c1, s1) = save_conv c (tick (tick (mint s)));
              s2 = cemit CE_CONVERSATION_OPENED c1 None [] s1
          in (c1, crecord (n_id c1) ''conversation_opened'' None [] s2))"

definition touch_conversation ::
  "conversation \<Rightarrow> lang option \<Rightarrow> 'g comm_state \<Rightarrow> conversation \<times> 'g comm_state"
where
  "touch_conversation c l s =
     (let c1 = c\<lparr>n_count := n_count c + 1, n_last_at := Some (utcnow s)\<rparr>;
          c2 = (case l of None \<Rightarrow> c1 | Some x \<Rightarrow> c1\<lparr>n_locale := x\<rparr>)
      in save_conv c2 (tick s))"

fun to_attachments ::
  "direction \<Rightarrow> attachment_dto list \<Rightarrow> 'g comm_state \<Rightarrow> attachment list \<times> 'g comm_state"
where
  "to_attachments dir [] s = ([], s)"
| "to_attachments dir (a # as) s =
     (let x = \<lparr>t_id = new_id ''att'' s, t_filename = td_filename a, t_content_type = td_content_type a,
               t_size = td_size a, t_direction = dir, t_provider_ref = td_provider_ref a,
               t_metadata = td_metadata a\<rparr>;
          (xs, s1) = to_attachments dir as (mint s)
      in (x # xs, s1))"

subsection \<open>Inbound\<close>

fun emit_attachments ::
  "conversation \<Rightarrow> message \<Rightarrow> attachment list \<Rightarrow> 'g comm_state \<Rightarrow> 'g comm_state"
where
  "emit_attachments c m [] s = s"
| "emit_attachments c m (a # as) s =
     emit_attachments c m as
       (cemit CE_ATTACHMENT_RECEIVED c (Some m)
          [(''attachment_id'', JStr (t_id a)), (''filename'', JStr (t_filename a))] s)"

definition store_inbound ::
  "'g comm_config \<Rightarrow> inbound_dto \<Rightarrow> 'g comm_state \<Rightarrow> message \<times> 'g comm_state"
where
  "store_inbound cf dto s =
     (let (c, s1) = resolve_conversation cf (di_channel dto) (di_identity dto) (di_locale dto)
                      (di_subject dto) (di_thread_ref dto) s;
          l = (case di_locale dto of Some x \<Rightarrow> x | None \<Rightarrow> n_locale c);
          (atts, s2) = to_attachments INBOUND (di_attachments dto) s1;
          ty = (if atts \<noteq> [] \<and> di_type dto = T_TEXT \<and> \<not> truthy_text (di_text dto) then T_MEDIA
                else di_type dto);
          m = \<lparr>g_id = new_id ''msg'' s2, g_conv = n_id c, g_channel = di_channel dto,
               g_identity = di_identity dto, g_direction = INBOUND, g_type = ty,
               g_status = C_RECEIVED, g_locale = l, g_text = di_text dto, g_template = None,
               g_variables = [], g_attachments = atts, g_provider_id = di_provider_id dto,
               g_in_reply_to = di_in_reply_to dto, g_session = n_session c, g_corr = di_corr dto,
               g_attempts = 0, g_last_error = None, g_created = utcnow s2,
               g_updated = utcnow (tick s2), g_sent_at = None, g_delivered_at = None,
               g_read_at = None,
               g_metadata = (if di_raw dto \<noteq> [] then [(''raw'', JObj (di_raw dto))] else [])\<rparr>;
          s3 = create_msg m (tick (tick (mint s2)));
          (c1, s4) = touch_conversation c (di_locale dto) s3;
          s5 = cemit CE_RECEIVED c1 (Some m) [] s4;
          s6 = emit_attachments c1 m atts s5
      in (m, crecord (n_id c1) ''inbound_received'' (Some (g_id m))
               [(''type'', JStr (msg_type_value ty)), (''attachments'', JInt (int (length atts)))] s6))"

definition ingest_inbound ::
  "'g comm_config \<Rightarrow> inbound_dto \<Rightarrow> 'g comm_state \<Rightarrow> (comm_exn + message) \<times> 'g comm_state"
where
  "ingest_inbound cf dto s =
     (let existing = (case di_provider_id dto of
                        None \<Rightarrow> None | Some p \<Rightarrow> if p = [] then None else get_by_provider_id p s)
      in case existing of
           Some m \<Rightarrow> (Inr m, s)
         | None \<Rightarrow>
             let (m, s1) = store_inbound cf dto s in
             (case cm_handoff cf of
                None \<Rightarrow> (Inr m, s1)
              | Some on_inbound \<Rightarrow>
                  (case on_inbound m (chan s1) of
                     (Inl e, d) \<Rightarrow> (Inl (HandoffError e), s1\<lparr>chan := d\<rparr>)
                   | (Inr u, d) \<Rightarrow> (Inr m, s1\<lparr>chan := d\<rparr>))))"

subsection \<open>Outbound\<close>

definition msg_transition ::
  "message \<Rightarrow> msg_status \<Rightarrow> 'g comm_state \<Rightarrow> (comm_exn + message) \<times> 'g comm_state"
where
  "msg_transition m st s =
     (if \<not> can_transition (g_status m) st then (Inl (InvalidMessageStatusError (g_status m) st), s)
      else (Inr (m\<lparr>g_status := st, g_updated := utcnow s\<rparr>), tick s))"

text \<open>The messages's metadata with what the service adds for email: subject and thread.\<close>

definition merged_metadata ::
  "outbound_request \<Rightarrow> string option \<Rightarrow> conversation \<Rightarrow> payload"
where
  "merged_metadata r subject c =
     (let md = ro_metadata r;
          md1 = (if truthy_text subject \<and> dget md ''subject'' = None
                 then dput ''subject'' (opt_text subject) md else md)
      in if ro_channel r = EMAIL \<and> truthy_text (n_thread_ref c) \<and> dget md1 ''in_reply_to'' = None
         then dput ''in_reply_to'' (opt_text (n_thread_ref c)) md1 else md1)"

text \<open>After a successful call of the gateway.\<close>

definition mark_sent ::
  "message \<Rightarrow> conversation \<Rightarrow> dispatch_result \<Rightarrow> 'g comm_state \<Rightarrow> (comm_exn + unit) \<times> 'g comm_state"
where
  "mark_sent m c res s =
     (let m1 = m\<lparr>g_provider_id := dr_provider_id res, g_last_error := None, g_sent_at := Some (utcnow s)\<rparr>
      in case msg_transition m1 C_SENT (tick s) of
           (Inl e, s1) \<Rightarrow> (Inl e, s1)
         | (Inr m2, s1) \<Rightarrow>
             let (m3, s2) = save_msg m2 s1;
                 (c1, s3) = (if g_channel m3 = EMAIL \<and> truthy_text (dr_provider_id res)
                             then save_conv (c\<lparr>n_thread_ref := dr_provider_id res\<rparr>) s2 else (c, s2));
                 s4 = cemit CE_SENT c1 (Some m3) [] s3
             in (Inr (), crecord (n_id c1) ''sent'' (Some (g_id m3))
                           [(''provider_message_id'', opt_text (g_provider_id m3))] s4))"

definition mark_failed ::
  "message \<Rightarrow> conversation \<Rightarrow> 'g comm_state \<Rightarrow> (comm_exn + unit) \<times> 'g comm_state"
where
  "mark_failed m c s =
     (case msg_transition m C_FAILED s of
        (Inl e, s1) \<Rightarrow> (Inl e, s1)
      | (Inr m1, s1) \<Rightarrow>
          let (m2, s2) = save_msg m1 s1;
              info = [(''error'', opt_text (g_last_error m2)), (''attempts'', JInt (g_attempts m2))];
              s3 = cemit CE_FAILED c (Some m2) info s2
          in (Inr (), crecord (n_id c) ''failed'' (Some (g_id m2)) info s3))"

text \<open>
  The attempt loop of \<open>_dispatch_with_retry\<close>: \<open>i\<close> counts the attempts made, \<open>n\<close> those left after
  this one.
\<close>

fun attempts_loop ::
  "'g comm_config \<Rightarrow> conversation \<Rightarrow> nat \<Rightarrow> nat \<Rightarrow> message \<Rightarrow> 'g comm_state \<Rightarrow>
     (comm_exn + unit) \<times> 'g comm_state"
where
  "attempts_loop cf c n i m s =
     (let m1 = m\<lparr>g_attempts := g_attempts m + 1\<rparr>;
          (r, d) = cm_send cf m1 (chan s);
          s1 = s\<lparr>chan := d\<rparr>
      in case r of
           Inl (UnexpectedError e) \<Rightarrow> (Inl (OtherChannelError e), s1)
         | Inr res \<Rightarrow> mark_sent m1 c res s1
         | Inl (GatewayError e) \<Rightarrow>
             let (m2, s2) = save_msg (m1\<lparr>g_last_error := Some e\<rparr>) s1 in
             (case n of
                0 \<Rightarrow> mark_failed m2 c s2
              | Suc k \<Rightarrow>
                  (case compute_backoff (i + 1) (cm_base_delay cf) (cm_max_delay cf) (cm_jitter cf)
                          uniform s2 of
                     (Inl ex, s3) \<Rightarrow> (Inl (CommBackoffError ex), s3)
                   | (Inr delay, s3) \<Rightarrow>
                       let s4 = cemit CE_RETRYING c (Some m2)
                                  [(''attempt'', JInt (int i + 1)), (''delay'', JReal delay),
                                   (''error'', JStr e)] s3;
                           s5 = crecord (n_id c) ''retrying'' (Some (g_id m2))
                                  [(''attempt'', JInt (int i + 1)), (''error'', JStr e)] s4
                       in attempts_loop cf c k (i + 1) m2 s5)))"

declare attempts_loop.simps [simp del]

definition dispatch_with_retry ::
  "'g comm_config \<Rightarrow> message \<Rightarrow> conversation \<Rightarrow> 'g comm_state \<Rightarrow> (comm_exn + unit) \<times> 'g comm_state"
where
  "dispatch_with_retry cf m c s =
     (case msg_transition m C_SENDING s of
        (Inl e, s1) \<Rightarrow> (Inl e, s1)
      | (Inr m1, s1) \<Rightarrow>
          let (m2, s2) = save_msg m1 s1
          in attempts_loop cf c (nat (max 1 (cm_max_attempts cf)) - 1) 0 m2 s2)"

text \<open>The queued message of \<open>send\<close>, persisted and announced; \<open>Inl\<close> when its template fails.\<close>

definition enqueue ::
  "'g comm_config \<Rightarrow> outbound_request \<Rightarrow> 'g comm_state \<Rightarrow>
     (comm_exn + message \<times> conversation) \<times> 'g comm_state"
where
  "enqueue cf r s =
     (let (c, s1) = resolve_conversation cf (ro_channel r) (ro_identity r) None None None s;
          l = (case ro_locale r of Some x \<Rightarrow> x | None \<Rightarrow> n_locale c);
          content = (if truthy_text (ro_template r)
                     then (case render_with_subject cf (the (ro_template r)) (ro_variables r) (Some l) s1 of
                             Inl e \<Rightarrow> Inl e
                           | Inr (body, subject) \<Rightarrow> Inr (Some body, subject, T_TEMPLATE))
                     else Inr (ro_text r, None,
                               if ro_attachments r \<noteq> [] then T_MEDIA else T_TEXT))
      in case content of
           Inl e \<Rightarrow> (Inl e, s1)
         | Inr (text, subject, ty) \<Rightarrow>
             let (atts, s2) = to_attachments OUTBOUND (ro_attachments r) s1;
                 m = \<lparr>g_id = new_id ''msg'' s2, g_conv = n_id c, g_channel = ro_channel r,
                      g_identity = ro_identity r, g_direction = OUTBOUND, g_type = ty,
                      g_status = C_QUEUED, g_locale = l, g_text = text, g_template = ro_template r,
                      g_variables = ro_variables r, g_attachments = atts, g_provider_id = None,
                      g_in_reply_to = ro_in_reply_to r, g_session = n_session c, g_corr = ro_corr r,
                      g_attempts = 0, g_last_error = None, g_created = utcnow s2,
                      g_updated = utcnow (tick s2), g_sent_at = None, g_delivered_at = None,
                      g_read_at = None, g_metadata = merged_metadata r subject c\<rparr>;
                 s3 = create_msg m (tick (tick (mint s2)));
                 (c1, s4) = touch_conversation c None s3;
                 s5 = cemit CE_QUEUED c1 (Some m) [] s4;
                 s6 = crecord (n_id c1) ''queued'' (Some (g_id m))
                        [(''type'', JStr (msg_type_value ty)), (''template'', opt_text (ro_template r))] s5
             in (Inr (m, c1), s6))"

definition send ::
  "'g comm_config \<Rightarrow> outbound_request \<Rightarrow> 'g comm_state \<Rightarrow> (comm_exn + message) \<times> 'g comm_state"
where
  "send cf r s =
     (case enqueue cf r s of
        (Inl e, s1) \<Rightarrow> (Inl e, s1)
      | (Inr (m, c), s1) \<Rightarrow>
          (case dispatch_with_retry cf m c s1 of
             (Inl e, s2) \<Rightarrow> (Inl e, s2)
           | (Inr u, s2) \<Rightarrow>
               (Inr (case get_msg (g_id m) s2 of Some x \<Rightarrow> x | None \<Rightarrow> m), s2)))"

subsection \<open>Delivery callbacks\<close>

definition find_message :: "delivery_update \<Rightarrow> 'g comm_state \<Rightarrow> comm_exn + message" where
  "find_message u s =
     (case (if truthy_text (du_message_id u) then get_msg (the (du_message_id u)) s
            else get_by_provider_id (the (du_provider_id u)) s) of
        None \<Rightarrow> Inl (MessageNotFoundError (du_message_id u) (du_provider_id u))
      | Some m \<Rightarrow> Inr m)"

fun STATUS_EVENT :: "msg_status \<Rightarrow> comm_event_type option" where
  "STATUS_EVENT C_SENT = Some CE_SENT"
| "STATUS_EVENT C_DELIVERED = Some CE_DELIVERED"
| "STATUS_EVENT C_READ = Some CE_READ"
| "STATUS_EVENT C_FAILED = Some CE_FAILED"
| "STATUS_EVENT C_RECEIVED = None"
| "STATUS_EVENT C_QUEUED = None"
| "STATUS_EVENT C_SENDING = None"

definition update_delivery_status ::
  "delivery_update \<Rightarrow> 'g comm_state \<Rightarrow> (comm_exn + message) \<times> 'g comm_state"
where
  "update_delivery_status u s =
     (case find_message u s of
        Inl e \<Rightarrow> (Inl e, s)
      | Inr m \<Rightarrow>
          (case msg_transition m (du_status u) s of
             (Inl e, s1) \<Rightarrow> (Inl e, s1)
           | (Inr m1, s1) \<Rightarrow>
               let now = utcnow s1;
                   m2 = (if du_status u = C_DELIVERED then m1\<lparr>g_delivered_at := Some now\<rparr>
                         else if du_status u = C_READ then m1\<lparr>g_read_at := Some now\<rparr>
                         else if du_status u = C_FAILED then m1\<lparr>g_last_error := du_error u\<rparr>
                         else m1);
                   (m3, s2) = save_msg m2 (tick s1)
               in (Inr m3,
                   case get_conv (g_conv m) s of
                     None \<Rightarrow> s2
                   | Some c \<Rightarrow>
                       let s3 = (case STATUS_EVENT (du_status u) of
                                   None \<Rightarrow> s2 | Some ty \<Rightarrow> cemit ty c (Some m3) [] s2)
                       in crecord (n_id c) (''delivery:'' @ msg_status_value (du_status u)) (Some (g_id m3))
                            (if truthy_text (du_error u) then [(''error'', opt_text (du_error u))] else [])
                            s3)))"

end
