(* ===== verification/Comm_Inv.thy ===== *)
theory Comm_Inv
  imports Communication
begin

section \<open>How the message store evolves\<close>

text \<open>
  Frames of the operations, the invariant of the message store (ids are minted, the provider index
  never dangles) and the relation every operation keeps: messages are never lost, their statuses
  follow the lifecycle, known provider ids stay known.
\<close>

subsection \<open>Frames\<close>

lemma comm_fresh_simps [simp]:
  "msgs (tick s) = msgs s" "by_provider (tick s) = by_provider s" "chan (tick s) = chan s"
  "msgs (mint s) = msgs s" "by_provider (mint s) = by_provider s" "chan (mint s) = chan s"
  by (simp_all add: tick_def mint_def)

text \<open>\<open>same_msgs s t\<close>: \<open>t\<close> has the message store of \<open>s\<close>; ids may have been minted meanwhile.\<close>

definition same_msgs :: "'g comm_state \<Rightarrow> 'g comm_state \<Rightarrow> bool" where
  "same_msgs s t \<longleftrightarrow> msgs t = msgs s \<and> by_provider t = by_provider s \<and> entropy t = entropy s \<and>
     minted s \<le> minted t"

lemma same_msgs_refl [simp]: "same_msgs s s"
  by (simp add: same_msgs_def)

lemma same_msgs_trans: "same_msgs s t \<Longrightarrow> same_msgs t u \<Longrightarrow> same_msgs s u"
  by (simp add: same_msgs_def)

lemma same_msgs_simps [simp]:
  "same_msgs s (tick t) = same_msgs s t" "same_msgs s t \<Longrightarrow> same_msgs s (mint t)"
  "same_msgs s (t\<lparr>chan := d\<rparr>) = same_msgs s t"
  by (simp_all add: same_msgs_def tick_def mint_def)

lemma cemit_frame [simp]: "same_msgs s t \<Longrightarrow> same_msgs s (cemit ty c m pl t)"
  by (simp add: same_msgs_def cemit_def tick_def mint_def)

lemma crecord_frame [simp]: "same_msgs s t \<Longrightarrow> same_msgs s (crecord c a m d t)"
  by (simp add: same_msgs_def crecord_def tick_def mint_def)

lemma save_conv_frame [simp]: "same_msgs s t \<Longrightarrow> same_msgs s (snd (save_conv c t))"
  by (simp add: save_conv_def Let_def same_msgs_def tick_def)

lemma touch_frame [simp]: "same_msgs s t \<Longrightarrow> same_msgs s (snd (touch_conversation c l t))"
  by (simp add: touch_conversation_def Let_def)

lemma attachments_frame [simp]: "same_msgs s t \<Longrightarrow> same_msgs s (snd (to_attachments dir as t))"
  by (induction as arbitrary: t) (simp_all add: Let_def split_beta)

lemma emit_attachments_frame [simp]: "same_msgs s t \<Longrightarrow> same_msgs s (emit_attachments c m as t)"
  by (induction as arbitrary: t) simp_all

lemma resolve_frame [simp]:
  "same_msgs s t \<Longrightarrow> same_msgs s (snd (resolve_conversation cf ch i l sj tr t))"
  by (simp add: resolve_conversation_def Let_def split_beta split: option.split)

lemma transition_frame [simp]: "same_msgs s t \<Longrightarrow> same_msgs s (snd (msg_transition m st t))"
  by (simp add: msg_transition_def)

lemma backoff_frame: "compute_backoff n b m j uniform s = (r, t) \<Longrightarrow> same_msgs s t"
  by (rule compute_backoff_inv [where I = "same_msgs s"], assumption, rule same_msgs_refl)
    (unfold uniform_def snd_conv, simp add: same_msgs_def)

subsection \<open>The store invariant and its evolution\<close>

definition msgs_ok :: "'g comm_state \<Rightarrow> bool" where
  "msgs_ok s \<longleftrightarrow> inj (entropy s) \<and>
     (\<forall>p i. dget (by_provider s) p = Some i \<longrightarrow> get_msg i s \<noteq> None) \<and>
     (\<forall>i m. get_msg i s = Some m \<longrightarrow> g_id m = i \<and> (\<exists>n<minted s. i = ''msg_'' @ entropy s n))"

definition follows :: "msg_status \<Rightarrow> msg_status \<Rightarrow> bool" where
  "follows = can_transition\<^sup>*\<^sup>*"

definition comm_evolves :: "'g comm_state \<Rightarrow> 'g comm_state \<Rightarrow> bool" where
  "comm_evolves s t \<longleftrightarrow> (msgs_ok s \<longrightarrow> msgs_ok t \<and>
     (\<forall>p. dget (by_provider s) p \<noteq> None \<longrightarrow> dget (by_provider t) p \<noteq> None) \<and>
     (\<forall>i m. get_msg i s = Some m \<longrightarrow>
        (\<exists>m'. get_msg i t = Some m' \<and> g_direction m' = g_direction m \<and> follows (g_status m) (g_status m'))))"

lemma follows_refl [simp]: "follows a a"
  by (simp add: follows_def)

lemma follows_trans: "follows a b \<Longrightarrow> follows b c \<Longrightarrow> follows a c"
  by (simp add: follows_def)

lemma follows_step: "follows a b \<Longrightarrow> can_transition b c \<Longrightarrow> follows a c"
  by (simp add: follows_def)

text \<open>A sink of the lifecycle only leads to itself.\<close>

lemma follows_sink: "follows a b \<Longrightarrow> a \<in> {C_READ, C_RECEIVED} \<Longrightarrow> b = a"
  unfolding follows_def by (induction rule: rtranclp_induct) (auto simp: can_transition_def split: if_splits)

lemma comm_evolves_refl [simp]: "comm_evolves s s"
  by (auto simp: comm_evolves_def)

lemma comm_evolves_trans: "comm_evolves s t \<Longrightarrow> comm_evolves t u \<Longrightarrow> comm_evolves s u"
  unfolding comm_evolves_def using follows_trans by (smt (verit, best))

lemma get_msg_same: "same_msgs s t \<Longrightarrow> get_msg i t = get_msg i s"
  by (simp add: same_msgs_def get_msg_def)

lemma evolves_same: "same_msgs s t \<Longrightarrow> comm_evolves s t"
  by (fastforce simp: comm_evolves_def msgs_ok_def same_msgs_def get_msg_def dest: less_le_trans)

lemma comm_evolves_frame: "comm_evolves s t \<Longrightarrow> same_msgs t u \<Longrightarrow> comm_evolves s u"
  using comm_evolves_trans evolves_same by blast

subsection \<open>Writing messages\<close>

lemma index_provider_get:
  "dget (index_provider m d) p = (if truthy_text (g_provider_id m) \<and> g_provider_id m = Some p then Some (g_id m)
     else dget d p)"
  by (auto simp: index_provider_def truthy_text_def split: option.split)

lemma create_evolves:
  assumes "g_id m = new_id ''msg'' s"
  shows "comm_evolves s (create_msg m (tick (tick (mint s))))"
proof -
  have new: "get_msg (g_id m) s = None" if ok: "msgs_ok s"
  proof (rule ccontr)
    assume "get_msg (g_id m) s \<noteq> None"
    then obtain x where "get_msg (g_id m) s = Some x" by blast
    with ok obtain n where "n < minted s" "g_id m = ''msg_'' @ entropy s n"
      unfolding msgs_ok_def by blast
    with ok assms show False unfolding msgs_ok_def new_id_def by (auto simp: inj_eq)
  qed
  then have other: "get_msg i s = Some x \<Longrightarrow> i \<noteq> g_id m" if "msgs_ok s" for i x
    using that by auto
  define t where "t = create_msg m (tick (tick (mint s)))"
  have t: "get_msg i t = (if i = g_id m then Some m else get_msg i s)" "entropy t = entropy s"
    "minted t = Suc (minted s)" "dget (by_provider t) p =
       (if truthy_text (g_provider_id m) \<and> g_provider_id m = Some p then Some (g_id m) else dget (by_provider s) p)"
    for i p by (simp_all add: t_def create_msg_def get_msg_def index_provider_get)
  have "msgs_ok t" if ok: "msgs_ok s"
  proof -
    have "g_id x = i \<and> (\<exists>n<Suc (minted s). i = ''msg_'' @ entropy s n)" if "get_msg i t = Some x" for i x
    proof (cases "i = g_id m")
      case True
      with that assms show ?thesis by (auto simp: t new_id_def)
    next
      case False
      with that ok show ?thesis unfolding msgs_ok_def t by (metis less_SucI)
    qed
    moreover have "get_msg i t \<noteq> None" if "dget (by_provider t) p = Some i" for p i
      using that ok unfolding msgs_ok_def t by (auto split: if_splits)
    ultimately show ?thesis using ok unfolding msgs_ok_def t by blast
  qed
  then show ?thesis unfolding comm_evolves_def t_def [symmetric] using other by (auto simp: t)
qed

text \<open>A message in hand is carried by the store: its stored version may become it.\<close>

definition carried :: "'g comm_state \<Rightarrow> message \<Rightarrow> bool" where
  "carried s m \<longleftrightarrow> (\<exists>m0. get_msg (g_id m) s = Some m0 \<and> g_direction m = g_direction m0 \<and>
     follows (g_status m0) (g_status m))"

lemma carried_same: "carried s m \<Longrightarrow> same_msgs s t \<Longrightarrow> carried t m"
  by (simp add: carried_def get_msg_same)

lemma carried_upd:
  "carried s m \<Longrightarrow> g_id m' = g_id m \<Longrightarrow> g_direction m' = g_direction m \<Longrightarrow> g_status m' = g_status m \<Longrightarrow>
     carried s m'"
  by (simp add: carried_def)

lemma carried_stored: "get_msg (g_id m) s = Some m \<Longrightarrow> carried s m"
  by (auto simp: carried_def)

lemma saved: "save_msg m s = (m', t) \<Longrightarrow> m' = m\<lparr>g_updated := utcnow s\<rparr> \<and> get_msg (g_id m) t = Some m'"
  by (auto simp: save_msg_def get_msg_def Let_def)

lemma save_other: "save_msg m s = (m', t) \<Longrightarrow> i \<noteq> g_id m \<Longrightarrow> get_msg i t = get_msg i s"
  by (auto simp: save_msg_def get_msg_def Let_def)

lemma save_carried: "save_msg m s = (m', t) \<Longrightarrow> carried t m'"
  by (auto dest!: saved intro!: carried_stored)

lemma save_evolves:
  assumes "save_msg m s = (m', t)" "carried s m"
  shows "comm_evolves s t"
proof -
  from assms(2) obtain m0 where m0: "get_msg (g_id m) s = Some m0" "g_direction m = g_direction m0"
    "follows (g_status m0) (g_status m)" by (auto simp: carried_def)
  from assms(1) have t: "t = (tick s)\<lparr>msgs := dput (g_id m) m' (msgs s),
      by_provider := index_provider m' (by_provider s)\<rparr>" and m': "m' = m\<lparr>g_updated := utcnow s\<rparr>"
    by (auto simp: save_msg_def Let_def)
  have "msgs_ok t" if "msgs_ok s"
    using that m0(1) unfolding t m' msgs_ok_def by (auto simp: get_msg_def index_provider_get)
  then show ?thesis
    using m0 unfolding comm_evolves_def t m' by (auto simp: get_msg_def index_provider_get)
qed

lemma msg_transition_cases:
  assumes "msg_transition m st s = (r, t)"
  obtains (refused) "\<not> can_transition (g_status m) st" "r = Inl (InvalidMessageStatusError (g_status m) st)" "t = s"
  | (moved) "can_transition (g_status m) st" "r = Inr (m\<lparr>g_status := st, g_updated := utcnow s\<rparr>)" "t = tick s"
  using assms by (auto simp: msg_transition_def split: if_splits)

lemma carried_move:
  "carried s m \<Longrightarrow> can_transition (g_status m) st \<Longrightarrow> carried s (m\<lparr>g_status := st, g_updated := x\<rparr>)"
  by (auto simp: carried_def intro: follows_step)

subsection \<open>The operations\<close>

lemma mark_sent_evolves:
  assumes "mark_sent m c res s = (r, t)" "carried s m"
  shows "comm_evolves s t"
proof -
  define m1 where "m1 = m\<lparr>g_provider_id := dr_provider_id res, g_last_error := None, g_sent_at := Some (utcnow s)\<rparr>"
  have m1: "carried (tick s) m1" using carried_upd [OF assms(2), of m1]
    by (simp add: m1_def carried_same [of s _ "tick s"])
  obtain r1 s1 where tr: "msg_transition m1 C_SENT (tick s) = (r1, s1)" by force
  then show ?thesis
  proof (cases rule: msg_transition_cases)
    case refused
    with assms(1) tr have "t = tick s" by (simp add: mark_sent_def m1_def Let_def)
    then show ?thesis by (simp add: evolves_same)
  next
    case moved
    obtain m2 where m2: "r1 = Inr m2" "m2 = m1\<lparr>g_status := C_SENT, g_updated := utcnow (tick s)\<rparr>"
      using moved by blast
    obtain m3 s2 where sv: "save_msg m2 s1 = (m3, s2)" by force
    have "carried s1 m2"
      using carried_move [OF m1 moved(1)] m2(2) moved(3) carried_same [of "tick s" m2 s1] by simp
    with sv have "comm_evolves s1 s2" by (rule save_evolves)
    moreover have "same_msgs s s1" using moved(3) by simp
    ultimately have ev: "comm_evolves s s2" using comm_evolves_trans evolves_same by blast
    have "same_msgs s2 t"
      using assms(1) tr m2(1) sv by (auto simp: mark_sent_def m1_def [symmetric] Let_def split_beta)
    with ev show ?thesis by (rule comm_evolves_frame)
  qed
qed

lemma mark_failed_evolves:
  assumes "mark_failed m c s = (r, t)" "carried s m"
  shows "comm_evolves s t"
proof -
  obtain r1 s1 where tr: "msg_transition m C_FAILED s = (r1, s1)" by force
  then show ?thesis
  proof (cases rule: msg_transition_cases)
    case refused
    with assms(1) tr show ?thesis by (simp add: mark_failed_def)
  next
    case moved
    obtain m1 where m1: "r1 = Inr m1" "m1 = m\<lparr>g_status := C_FAILED, g_updated := utcnow s\<rparr>"
      using moved by blast
    obtain m2 s2 where sv: "save_msg m1 s1 = (m2, s2)" by force
    have "carried s1 m1"
      using carried_move [OF assms(2) moved(1)] m1(2) moved(3) carried_same [of s m1 s1] by simp
    with sv have "comm_evolves s1 s2" by (rule save_evolves)
    moreover have "same_msgs s s1" using moved(3) by simp
    ultimately have ev: "comm_evolves s s2" using comm_evolves_trans evolves_same by blast
    have "same_msgs s2 t"
      using assms(1) tr m1(1) sv by (auto simp: mark_failed_def Let_def)
    with ev show ?thesis by (rule comm_evolves_frame)
  qed
qed

text \<open>The ways one round of the attempt loop ends.\<close>

lemma attempts_loop_cases:
  assumes run: "attempts_loop cf c n i m s = (r, t)"
  defines "m1 \<equiv> m\<lparr>g_attempts := g_attempts m + 1\<rparr>"
  obtains
    (unexpected) e d where "cm_send cf m1 (chan s) = (Inl (UnexpectedError e), d)"
      "r = Inl (OtherChannelError e)" "t = s\<lparr>chan := d\<rparr>"
  | (accepted) res d where "cm_send cf m1 (chan s) = (Inr res, d)" "mark_sent m1 c res (s\<lparr>chan := d\<rparr>) = (r, t)"
  | (exhausted) e d m2 s2 where "cm_send cf m1 (chan s) = (Inl (GatewayError e), d)"
      "save_msg (m1\<lparr>g_last_error := Some e\<rparr>) (s\<lparr>chan := d\<rparr>) = (m2, s2)" "n = 0"
      "mark_failed m2 c s2 = (r, t)"
  | (no_delay) e d m2 s2 ex k where "cm_send cf m1 (chan s) = (Inl (GatewayError e), d)"
      "save_msg (m1\<lparr>g_last_error := Some e\<rparr>) (s\<lparr>chan := d\<rparr>) = (m2, s2)" "n = Suc k"
      "compute_backoff (i + 1) (cm_base_delay cf) (cm_max_delay cf) (cm_jitter cf) uniform s2 = (Inl ex, t)"
  | (again) e d m2 s2 k s5 where "cm_send cf m1 (chan s) = (Inl (GatewayError e), d)"
      "save_msg (m1\<lparr>g_last_error := Some e\<rparr>) (s\<lparr>chan := d\<rparr>) = (m2, s2)" "n = Suc k"
      "same_msgs s2 s5" "attempts_loop cf c k (i + 1) m2 s5 = (r, t)"
proof -
  obtain g d where g: "cm_send cf m1 (chan s) = (g, d)" by force
  define s1 where "s1 = s\<lparr>chan := d\<rparr>"
  note unf = run [unfolded attempts_loop.simps [of cf c n], folded m1_def, unfolded g Let_def prod.case, folded s1_def]
  show thesis
  proof (cases g)
    case (Inr res)
    with unf g show thesis by (intro that(2) [of res d]) (simp_all add: s1_def)
  next
    case (Inl e)
    show thesis
    proof (cases e)
      case (UnexpectedError x)
      with Inl unf g show thesis by (intro that(1) [of x d]) (simp_all add: s1_def)
    next
      case (GatewayError x)
      obtain m2 s2 where sv: "save_msg (m1\<lparr>g_last_error := Some x\<rparr>) s1 = (m2, s2)" by force
      obtain b s3 where b: "compute_backoff (i + 1) (cm_base_delay cf) (cm_max_delay cf) (cm_jitter cf)
          uniform s2 = (b, s3)" by force
      have s3: "same_msgs s2 s3" using b by (rule backoff_frame)
      note g' = g [unfolded Inl GatewayError] and sv' = sv [unfolded s1_def]
      show thesis
      proof (cases n)
        case 0
        with unf Inl GatewayError sv show thesis by (intro that(3) [OF g' sv']) simp_all
      next
        case (Suc k)
        show thesis
        proof (cases b)
          case (Inl ex)
          with unf \<open>g = Inl e\<close> GatewayError sv b Suc show thesis by (intro that(4) [OF g' sv' Suc]) auto
        next
          case (Inr delay)
          with unf \<open>g = Inl e\<close> GatewayError sv b Suc s3 show thesis
            by (intro that(5) [OF g' sv' Suc]) (auto simp: Let_def)
        qed
      qed
    qed
  qed
qed

lemma attempts_loop_evolves:
  "attempts_loop cf c n i m s = (r, t) \<Longrightarrow> carried s m \<Longrightarrow> comm_evolves s t"
proof (induction n arbitrary: i m s rule: less_induct)
  case (less n)
  note run = less.prems(1) and m = less.prems(2) and IH = less.IH
  define m1 where "m1 = m\<lparr>g_attempts := g_attempts m + 1\<rparr>"
  have c1: "carried (s\<lparr>chan := d\<rparr>) m1" for d
    using carried_same [OF carried_upd [OF m, of m1]] by (simp add: m1_def)
  have s1: "comm_evolves s (s\<lparr>chan := d\<rparr>)" for d by (simp add: evolves_same)
  have save: "comm_evolves s s2 \<and> carried s2 m2"
    if "save_msg (m1\<lparr>g_last_error := e\<rparr>) (s\<lparr>chan := d\<rparr>) = (m2, s2)" for e d m2 s2
    using save_evolves [OF that] save_carried [OF that] carried_upd [OF c1] s1 comm_evolves_trans by force
  from run show ?case
  proof (cases rule: attempts_loop_cases)
    case (unexpected e d)
    then show ?thesis using s1 by simp
  next
    case (accepted res d)
    then show ?thesis using mark_sent_evolves c1 s1 comm_evolves_trans unfolding m1_def by blast
  next
    case (exhausted e d m2 s2)
    then show ?thesis using save mark_failed_evolves comm_evolves_trans unfolding m1_def by blast
  next
    case (no_delay e d m2 s2 ex k)
    then show ?thesis using save backoff_frame comm_evolves_frame unfolding m1_def by blast
  next
    case (again e d m2 s2 k s5)
    from save [folded m1_def] again(2) have "comm_evolves s s2" "carried s2 m2" unfolding m1_def by blast+
    with again IH [of k] show ?thesis using carried_same comm_evolves_frame comm_evolves_trans by blast
  qed
qed

lemma retry_evolves:
  assumes "dispatch_with_retry cf m c s = (r, t)" "carried s m"
  shows "comm_evolves s t"
proof -
  obtain r1 s1 where tr: "msg_transition m C_SENDING s = (r1, s1)" by force
  then show ?thesis
  proof (cases rule: msg_transition_cases)
    case refused
    with assms(1) tr show ?thesis by (simp add: dispatch_with_retry_def)
  next
    case moved
    define m1 where "m1 = m\<lparr>g_status := C_SENDING, g_updated := utcnow s\<rparr>"
    obtain m2 s2 where sv: "save_msg m1 s1 = (m2, s2)" by force
    have "carried s1 m1"
      using carried_move [OF assms(2) moved(1)] moved(3) carried_same [of s m1 s1] by (simp add: m1_def)
    with sv have "comm_evolves s1 s2" by (rule save_evolves)
    moreover have "same_msgs s s1" using moved(3) by simp
    ultimately have ev: "comm_evolves s s2" using comm_evolves_trans evolves_same by blast
    from assms(1) tr moved(2) sv have
      "attempts_loop cf c (nat (max 1 (cm_max_attempts cf)) - 1) 0 m2 s2 = (r, t)"
      by (simp add: dispatch_with_retry_def m1_def)
    with save_carried [OF sv] ev show ?thesis using attempts_loop_evolves comm_evolves_trans by blast
  qed
qed

text \<open>What \<open>enqueue\<close> does to the store: nothing, or one new queued message.\<close>

lemma enqueue_effect:
  assumes "enqueue cf r s = (x, t)"
  obtains (failed) e where "x = Inl e" "same_msgs s t"
  | (queued) m c u where "x = Inr (m, c)" "same_msgs s u" "g_id m = new_id ''msg'' u"
      "same_msgs (create_msg m (tick (tick (mint u)))) t" "g_status m = C_QUEUED"
      "g_direction m = OUTBOUND" "g_attempts m = 0" "g_last_error m = None" "g_provider_id m = None"
proof -
  obtain c0 s1 where c: "resolve_conversation cf (ro_channel r) (ro_identity r) None None None s = (c0, s1)"
    by force
  have s1: "same_msgs s s1"
    using resolve_frame [OF same_msgs_refl, of s cf "ro_channel r" "ro_identity r" None None None] c by simp
  obtain content where ct: "content =
      (if truthy_text (ro_template r)
       then (case render_with_subject cf (the (ro_template r)) (ro_variables r)
                    (Some (case ro_locale r of Some x \<Rightarrow> x | None \<Rightarrow> n_locale c0)) s1 of
               Inl e \<Rightarrow> Inl e
             | Inr (body, subject) \<Rightarrow> Inr (Some body, subject, T_TEMPLATE))
       else Inr (ro_text r, None, if ro_attachments r \<noteq> [] then T_MEDIA else T_TEXT))" by blast
  note unf = assms [unfolded enqueue_def Let_def c prod.case, folded ct]
  show thesis
  proof (cases content)
    case (Inl e)
    with unf have "x = Inl e" "t = s1" by simp_all
    with s1 show thesis using failed by blast
  next
    case (Inr z)
    obtain tx subject ty where z: "z = (tx, subject, ty)" by (cases z)
    obtain as u where as: "to_attachments OUTBOUND (ro_attachments r) s1 = (as, u)" by force
    have u: "same_msgs s u" using attachments_frame [OF s1, of OUTBOUND "ro_attachments r"] as by simp
    obtain m c where x: "x = Inr (m, c)" using unf Inr z as
      by (auto simp: split_beta)
    have m: "g_id m = new_id ''msg'' u" "g_status m = C_QUEUED" "g_direction m = OUTBOUND"
      "g_attempts m = 0" "g_last_error m = None" "g_provider_id m = None"
      using unf Inr z as x by (auto simp: split_beta)
    have "same_msgs (create_msg m (tick (tick (mint u)))) t"
      using unf Inr z as x by (auto simp: split_beta)
    with u x m show thesis using queued by blast
  qed
qed

lemma enqueue_evolves:
  assumes "enqueue cf r s = (x, t)"
  shows "comm_evolves s t" "x = Inr (m, c) \<Longrightarrow> get_msg (g_id m) t = Some m"
proof -
  from assms show "comm_evolves s t"
  proof (cases rule: enqueue_effect)
    case failed
    then show ?thesis by (simp add: evolves_same)
  next
    case (queued m c u)
    then show ?thesis using create_evolves [OF queued(3)] comm_evolves_frame evolves_same comm_evolves_trans by blast
  qed
  from assms show "x = Inr (m, c) \<Longrightarrow> get_msg (g_id m) t = Some m"
    by (cases rule: enqueue_effect) (auto simp: get_msg_same, simp add: create_msg_def get_msg_def)
qed

lemma send_evolves:
  assumes "send cf r s = (x, t)"
  shows "comm_evolves s t"
proof -
  obtain y s1 where y: "enqueue cf r s = (y, s1)" by force
  show ?thesis
  proof (cases y)
    case (Inl e)
    with assms y show ?thesis using enqueue_evolves(1) [OF y] by (simp add: send_def)
  next
    case (Inr z)
    obtain m c where z: "z = (m, c)" by (cases z)
    obtain d s2 where d: "dispatch_with_retry cf m c s1 = (d, s2)" by force
    with y Inr z have "comm_evolves s1 s2"
      using retry_evolves carried_stored enqueue_evolves(2) by blast
    moreover have "t = s2" using assms y Inr z d by (auto simp: send_def split: sum.splits)
    ultimately show ?thesis using enqueue_evolves(1) [OF y] comm_evolves_trans by blast
  qed
qed

lemma store_inbound_effect:
  assumes "store_inbound cf dto s = (m, t)"
  obtains u where "same_msgs s u" "g_id m = new_id ''msg'' u"
    "same_msgs (create_msg m (tick (tick (mint u)))) t" "g_status m = C_RECEIVED"
    "g_direction m = INBOUND" "g_provider_id m = di_provider_id dto"
proof -
  obtain c s1 where c: "resolve_conversation cf (di_channel dto) (di_identity dto) (di_locale dto)
    (di_subject dto) (di_thread_ref dto) s = (c, s1)" by force
  obtain as u where as: "to_attachments INBOUND (di_attachments dto) s1 = (as, u)" by force
  have "same_msgs s s1"
    using resolve_frame [OF same_msgs_refl, of s cf "di_channel dto" "di_identity dto" "di_locale dto"
        "di_subject dto" "di_thread_ref dto"] c by simp
  then have u: "same_msgs s u"
    using attachments_frame [of s s1 INBOUND "di_attachments dto"] as by simp
  have m: "g_id m = new_id ''msg'' u" "g_status m = C_RECEIVED" "g_direction m = INBOUND"
    "g_provider_id m = di_provider_id dto"
    using assms unfolding store_inbound_def c as Let_def prod.case split_beta by (auto simp: as)
  have "same_msgs (create_msg m (tick (tick (mint u)))) t"
    using assms unfolding store_inbound_def c as Let_def prod.case split_beta by (auto simp: as)
  with u m show thesis using that by blast
qed

lemma ingest_cases:
  assumes "ingest_inbound cf dto s = (r, t)"
  obtains (known) p m where "di_provider_id dto = Some p" "p \<noteq> []" "get_by_provider_id p s = Some m"
      "r = Inr m" "t = s"
  | (stored) m s1 where "\<And>p. di_provider_id dto = Some p \<Longrightarrow> p \<noteq> [] \<Longrightarrow> get_by_provider_id p s = None"
      "store_inbound cf dto s = (m, s1)" "same_msgs s1 t" "\<And>m'. r = Inr m' \<Longrightarrow> m' = m"
proof (cases "\<exists>p m. di_provider_id dto = Some p \<and> p \<noteq> [] \<and> get_by_provider_id p s = Some m")
  case True
  then obtain p m where p: "di_provider_id dto = Some p" "p \<noteq> []" "get_by_provider_id p s = Some m" by blast
  with assms have "r = Inr m" "t = s" by (simp_all add: ingest_inbound_def)
  with p show thesis using known by blast
next
  case False
  obtain m s1 where st: "store_inbound cf dto s = (m, s1)" by force
  have none: "(case di_provider_id dto of None \<Rightarrow> None
      | Some p \<Rightarrow> if p = [] then None else get_by_provider_id p s) = None"
    using False by (auto split: option.split)
  have "same_msgs s1 t \<and> (\<forall>m'. r = Inr m' \<longrightarrow> m' = m)"
    using assms unfolding ingest_inbound_def Let_def none st
    by (auto split: option.splits prod.splits sum.splits)
  with st False show thesis using stored [of m s1] by fastforce
qed

lemma ingest_evolves:
  assumes "ingest_inbound cf dto s = (r, t)"
  shows "comm_evolves s t"
  using assms
proof (cases rule: ingest_cases)
  case (stored m s1)
  then obtain u where "same_msgs s u" "g_id m = new_id ''msg'' u"
    "same_msgs (create_msg m (tick (tick (mint u)))) s1" by (auto elim: store_inbound_effect)
  with stored(3) show ?thesis
    using create_evolves comm_evolves_frame evolves_same comm_evolves_trans by blast
qed simp

lemma get_by_provider_ok:
  assumes "msgs_ok s" "get_by_provider_id p s = Some m"
  shows "get_msg (g_id m) s = Some m"
  using assms by (fastforce simp: get_by_provider_id_def msgs_ok_def get_msg_def split: option.splits)

lemma find_message_ok:
  assumes "msgs_ok s" "find_message u s = Inr m"
  shows "get_msg (g_id m) s = Some m"
proof (cases "truthy_text (du_message_id u)")
  case True
  with assms(2) have "get_msg (the (du_message_id u)) s = Some m"
    by (auto simp: find_message_def split: option.splits)
  with assms(1) show ?thesis unfolding msgs_ok_def by metis
next
  case False
  with assms(2) have "get_by_provider_id (the (du_provider_id u)) s = Some m"
    by (auto simp: find_message_def split: option.splits)
  with assms(1) show ?thesis by (rule get_by_provider_ok)
qed

text \<open>An accepted callback stores the message with its new status and touches nothing else.\<close>

lemma update_effect:
  assumes "find_message u s = Inr m" "can_transition (g_status m) (du_status u)"
  obtains m1 m' s2 t where "update_delivery_status u s = (Inr m', t)"
    "save_msg m1 (tick (tick s)) = (m', s2)" "same_msgs s2 t" "g_id m1 = g_id m"
    "g_direction m1 = g_direction m" "g_status m1 = du_status u"
    "du_status u = C_READ \<Longrightarrow> g_read_at m1 \<noteq> None" "du_status u = C_DELIVERED \<Longrightarrow> g_delivered_at m1 \<noteq> None"
    "du_status u = C_FAILED \<Longrightarrow> g_last_error m1 = du_error u"
proof -
  define m0 where "m0 = m\<lparr>g_status := du_status u, g_updated := utcnow s\<rparr>"
  define m1 where "m1 = (if du_status u = C_DELIVERED then m0\<lparr>g_delivered_at := Some (utcnow (tick s))\<rparr>
    else if du_status u = C_READ then m0\<lparr>g_read_at := Some (utcnow (tick s))\<rparr>
    else if du_status u = C_FAILED then m0\<lparr>g_last_error := du_error u\<rparr> else m0)"
  obtain m' s2 where sv: "save_msg m1 (tick (tick s)) = (m', s2)" by force
  have tr: "msg_transition m (du_status u) s = (Inr m0, tick s)"
    using assms(2) by (simp add: msg_transition_def m0_def)
  obtain t where t: "update_delivery_status u s = (Inr m', t)" and f: "same_msgs s2 t"
    using assms(1) tr sv unfolding update_delivery_status_def m1_def
    by (auto simp: Let_def split: option.split)
  show thesis by (rule that [OF t sv f]) (simp_all add: m1_def m0_def)
qed

lemma update_refused:
  "find_message u s = Inr m \<Longrightarrow> \<not> can_transition (g_status m) (du_status u) \<Longrightarrow>
     update_delivery_status u s = (Inl (InvalidMessageStatusError (g_status m) (du_status u)), s)"
  by (simp add: update_delivery_status_def msg_transition_def)

lemma update_evolves:
  assumes "update_delivery_status u s = (r, t)" "msgs_ok s"
  shows "comm_evolves s t"
proof (cases "find_message u s")
  case (Inl e)
  with assms(1) show ?thesis by (simp add: update_delivery_status_def)
next
  case (Inr m)
  note m = find_message_ok [OF assms(2) Inr]
  show ?thesis
  proof (cases "can_transition (g_status m) (du_status u)")
    case True
    obtain m1 m' s2 t' where up: "update_delivery_status u s = (Inr m', t')"
      and sv: "save_msg m1 (tick (tick s)) = (m', s2)" and f': "same_msgs s2 t'"
      and m1: "g_id m1 = g_id m" "g_direction m1 = g_direction m" "g_status m1 = du_status u"
      by (rule update_effect [OF Inr True]) (rule that)
    from up f' assms(1) have f: "same_msgs s2 t" by simp
    have s1: "same_msgs s (tick (tick s))" by simp
    have "follows (g_status m) (g_status m1)" unfolding m1(3) by (rule follows_step [OF follows_refl True])
    with m m1(1,2) have "carried (tick (tick s)) m1" unfolding carried_def get_msg_same [OF s1] by simp
    with sv f s1 show ?thesis using save_evolves comm_evolves_frame evolves_same comm_evolves_trans by blast
  next
    case False
    with assms(1) Inr show ?thesis by (simp add: update_refused)
  qed
qed

subsection \<open>Runs of the service\<close>

inductive comm_step :: "'g comm_config \<Rightarrow> 'g comm_state \<Rightarrow> 'g comm_state \<Rightarrow> bool" for cf where
  step_ingest: "ingest_inbound cf dto s = (r, t) \<Longrightarrow> comm_step cf s t"
| step_send: "send cf rq s = (r, t) \<Longrightarrow> comm_step cf s t"
| step_update: "update_delivery_status u s = (r, t) \<Longrightarrow> comm_step cf s t"
| step_resolve: "resolve_conversation cf ch i None None None s = (c, t) \<Longrightarrow> comm_step cf s t"
| step_template: "comm_step cf s (add_template key l body s)"

abbreviation comm_steps :: "'g comm_config \<Rightarrow> 'g comm_state \<Rightarrow> 'g comm_state \<Rightarrow> bool" where
  "comm_steps cf \<equiv> (comm_step cf)\<^sup>*\<^sup>*"

definition comm_boot :: "'g comm_state \<Rightarrow> bool" where
  "comm_boot s \<longleftrightarrow> inj (entropy s) \<and> msgs s = [] \<and> by_provider s = []"

lemma comm_boot_ok: "comm_boot s \<Longrightarrow> msgs_ok s"
  by (simp add: comm_boot_def msgs_ok_def get_msg_def)

lemma comm_step_evolves: "comm_step cf s t \<Longrightarrow> msgs_ok s \<Longrightarrow> comm_evolves s t"
proof (induction rule: comm_step.induct)
  case (step_resolve ch i s c t)
  then show ?case
    using resolve_frame [OF same_msgs_refl, of s cf ch i None None None] by (simp add: evolves_same)
next
  case (step_template s key l body)
  then show ?case by (simp add: evolves_same add_template_def same_msgs_def)
qed (blast intro: ingest_evolves send_evolves update_evolves)+

lemma comm_evolves_ok: "comm_evolves s t \<Longrightarrow> msgs_ok s \<Longrightarrow> msgs_ok t"
  by (simp add: comm_evolves_def)

lemma comm_steps_evolve: "comm_steps cf s t \<Longrightarrow> msgs_ok s \<Longrightarrow> comm_evolves s t"
proof (induction rule: rtranclp_induct)
  case (step t u)
  then show ?case using comm_step_evolves comm_evolves_ok comm_evolves_trans by blast
qed simp

lemma comm_reach_ok: "comm_boot s0 \<Longrightarrow> comm_steps cf s0 s \<Longrightarrow> msgs_ok s"
  using comm_steps_evolve comm_evolves_ok comm_boot_ok by blast

end
