(* ===== verification/Comm_Render.thy ===== *)
theory Comm_Render
  imports Communication
begin

section \<open>Templates as pieces\<close>

text \<open>
  A template read as its author writes it: pieces of plain text, each followed by a placeholder,
  and a plain tail. \<open>source\<close> is the text of such a template.
\<close>

record piece =
  pc_text :: string
  pc_left :: string
  pc_name :: string
  pc_right :: string

fun plain_text :: "string \<Rightarrow> bool" where
  "plain_text (c # d # s) = (\<not> (c = CHR ''{'' \<and> d = CHR ''{'') \<and> plain_text (d # s))"
| "plain_text s = True"

definition placeholder :: "piece \<Rightarrow> string" where
  "placeholder p = ''{{'' @ pc_left p @ pc_name p @ pc_right p @ ''}}''"

text \<open>A variable name, spelt out by its alphabet.\<close>

definition letters :: string where
  "letters = ''abcdefghijklmnopqrstuvwxyzABCDEFGHIJKLMNOPQRSTUVWXYZ_''"

definition python_name :: "string \<Rightarrow> bool" where
  "python_name n = (n \<noteq> [] \<and> hd n \<in> set letters \<and> (\<forall>c \<in> set n. c \<in> set letters \<or> c \<in> set ''0123456789''))"

definition good_piece :: "piece \<Rightarrow> bool" where
  "good_piece p = (plain_text (pc_text p) \<and> list_all is_space (pc_left p) \<and>
     list_all is_space (pc_right p) \<and> python_name (pc_name p))"

lemma letters_start: "\<forall>c \<in> set letters. ident_start c"
  by (simp add: letters_def ident_start_def is_alpha_def code_def)

lemma letters_char: "\<forall>c \<in> set letters. ident_char c"
  by (simp add: letters_def ident_char_def is_alnum_def is_alpha_def code_def)

lemma digits_char: "\<forall>c \<in> set ''0123456789''. ident_char c"
  by (simp add: ident_char_def is_alnum_def is_digit_def code_def)

lemma python_name_chars:
  "python_name n \<Longrightarrow> n \<noteq> [] \<and> ident_start (hd n) \<and> (\<forall>c \<in> set n. ident_char c)"
  using letters_start letters_char digits_char unfolding python_name_def by blast

fun source :: "piece list \<Rightarrow> string \<Rightarrow> string" where
  "source [] tail = tail"
| "source (p # ps) tail = pc_text p @ placeholder p @ source ps tail"

fun filled :: "(json \<Rightarrow> string) \<Rightarrow> payload \<Rightarrow> piece list \<Rightarrow> string \<Rightarrow> string" where
  "filled str vars [] tail = tail"
| "filled str vars (p # ps) tail =
     pc_text p @ (case dget vars (pc_name p) of Some v \<Rightarrow> str v | None \<Rightarrow> placeholder p) @
     filled str vars ps tail"

definition unset :: "payload \<Rightarrow> piece list \<Rightarrow> string list" where
  "unset vars ps = filter (\<lambda>n. dget vars n = None) (map pc_name ps)"

lemma ident_not_space: "is_space c \<Longrightarrow> \<not> ident_char c"
  by (auto simp: is_space_def ident_char_def is_alnum_def is_alpha_def is_digit_def code_def)

lemma brace_codes [simp]:
  "\<not> is_space (CHR ''{'')" "\<not> is_space (CHR ''}'')" "\<not> ident_char (CHR ''{'')" "\<not> ident_char (CHR ''}'')"
  by (simp_all add: is_space_def ident_char_def is_alnum_def is_alpha_def is_digit_def code_def)

text \<open>A placeholder is recognised whole; plain text in front of one never starts a match.\<close>

lemma match_placeholder:
  assumes "good_piece p"
  shows "match_var (placeholder p @ rest) = Some (pc_name p, rest)"
proof -
  have nm: "pc_name p \<noteq> []" "ident_start (hd (pc_name p))" "\<forall>x \<in> set (pc_name p). ident_char x"
    using assms python_name_chars by (auto simp: good_piece_def)
  obtain c cs where n: "pc_name p = c # cs" using nm(1) by (cases "pc_name p") auto
  have c: "\<not> is_space c" using nm n ident_not_space by auto
  have r: "dropWhile is_space (pc_right p @ x) = dropWhile is_space x" for x
    using assms by (simp add: good_piece_def list_all_iff)
  have s1: "dropWhile is_space (pc_left p @ pc_name p @ pc_right p @ ''}}'' @ rest)
      = pc_name p @ pc_right p @ ''}}'' @ rest"
    using assms n c by (simp add: good_piece_def list_all_iff)
  have stop: "\<not> ident_char (hd (pc_right p @ ''}}'' @ rest))"
    using assms ident_not_space by (cases "pc_right p") (auto simp: good_piece_def)
  then have t: "takeWhile ident_char (pc_right p @ ''}}'' @ rest) = []"
    "dropWhile ident_char (pc_right p @ ''}}'' @ rest) = pc_right p @ ''}}'' @ rest"
    by (cases "pc_right p"; simp)+
  have s2: "takeWhile ident_char (pc_name p @ pc_right p @ ''}}'' @ rest) = pc_name p"
    "dropWhile ident_char (pc_name p @ pc_right p @ ''}}'' @ rest) = pc_right p @ ''}}'' @ rest"
    using nm(3) t takeWhile_append2 [of "pc_name p" ident_char] dropWhile_append2 [of "pc_name p" ident_char]
    by auto
  have o: "take 2 (placeholder p @ rest) = ''{{''"
    "drop 2 (placeholder p @ rest) = pc_left p @ pc_name p @ pc_right p @ ''}}'' @ rest"
    by (simp_all add: placeholder_def)
  have e: "dropWhile is_space (pc_right p @ ''}}'' @ rest) = ''}}'' @ rest"
    unfolding r by simp
  from nm show ?thesis unfolding match_var_def o s1 s2 e Let_def by simp
qed

lemma match_plain:
  assumes "plain_text q" "q \<noteq> []" "s = [] \<or> (\<exists>p r. s = placeholder p @ r \<and> good_piece p)"
  shows "match_var (q @ s) = None"
proof (cases "\<exists>c d r. q = c # d # r")
  case True
  with assms(1) show ?thesis by (auto simp: match_var_def)
next
  case False
  with assms(2) obtain c where c: "q = [c]" by (cases q rule: plain_text.cases) auto
  show ?thesis
  proof (cases "\<exists>p r. s = placeholder p @ r")
    case True
    with c show ?thesis by (auto simp: match_var_def placeholder_def Let_def)
  next
    case False
    with assms(3) c show ?thesis by (auto simp: match_var_def)
  qed
qed

lemma plain_text_tail: "plain_text (c # q) \<Longrightarrow> plain_text q"
  by (cases q) auto

lemma subst_plain:
  assumes "s = [] \<or> (\<exists>p r. s = placeholder p @ r \<and> good_piece p)"
  shows "plain_text q \<Longrightarrow> subst_vars str vars (q @ s) =
    (q @ fst (subst_vars str vars s), snd (subst_vars str vars s))"
proof (induction q)
  case (Cons c q)
  from Cons.IH plain_text_tail [OF Cons.prems] have
    "subst_vars str vars (q @ s) = (q @ fst (subst_vars str vars s), snd (subst_vars str vars s))" .
  with match_plain [OF Cons.prems _ assms] show ?case
    by (simp add: subst_vars.simps [of _ _ "c # _"])
qed simp

lemma subst_placeholder:
  assumes "good_piece p"
  shows "subst_vars str vars (placeholder p @ s) =
    ((case dget vars (pc_name p) of Some v \<Rightarrow> str v | None \<Rightarrow> placeholder p) @ fst (subst_vars str vars s),
     (if dget vars (pc_name p) = None then [pc_name p] else []) @ snd (subst_vars str vars s))"
  unfolding subst_vars.simps [of _ _ "placeholder p @ s"] match_placeholder [OF assms]
  by (simp add: split_beta split: option.split)

lemma subst_source:
  "list_all good_piece ps \<Longrightarrow> plain_text tail \<Longrightarrow>
     subst_vars str vars (source ps tail) = (filled str vars ps tail, unset vars ps)"
proof (induction ps)
  case Nil
  then show ?case using subst_plain [of "[]" tail str vars]
    by (simp add: unset_def subst_vars.simps [of _ _ "[]"] match_var_def)
next
  case (Cons p ps)
  then have g: "good_piece p" "plain_text (pc_text p)" by (auto simp: good_piece_def)
  have "subst_vars str vars (pc_text p @ placeholder p @ source ps tail) =
    (pc_text p @ fst (subst_vars str vars (placeholder p @ source ps tail)),
     snd (subst_vars str vars (placeholder p @ source ps tail)))"
    using g by (intro subst_plain) auto
  with Cons g show ?case by (simp add: subst_placeholder unset_def)
qed

end
