(* ===== verification/Comm_Gateway.thy ===== *)
theory Comm_Gateway
  imports Communication
begin

section \<open>The gateway to the tool cluster\<close>

text \<open>
  \<open>McpCommunicationGateway\<close> of \<open>communication/gateway.py\<close>: which tool a message calls and with
  which arguments. The tool caller is a port over the channel state; \<open>me_str\<close> is \<open>str\<close> of a value
  that is no string and \<open>me_reply_to\<close> the environment variable.
\<close>

record 'g mcp_env =
  me_str :: "json \<Rightarrow> string"
  me_reply_to :: "string option"
  me_call :: "string \<Rightarrow> payload \<Rightarrow> 'g \<Rightarrow> (string + payload) \<times> 'g"

definition EXT_SEND_EMAIL_TEXT :: string where
  "EXT_SEND_EMAIL_TEXT = ''madad_external_send_email_text''"

definition EXT_SEND_WHATSAPP_TEXT :: string where
  "EXT_SEND_WHATSAPP_TEXT = ''madad_external_send_whatsapp_text''"

definition EXT_SEND_WHATSAPP_TEMPLATE :: string where
  "EXT_SEND_WHATSAPP_TEMPLATE = ''madad_external_send_whatsapp_template''"

definition EXT_SEND_WHATSAPP_INTERACTIVE :: string where
  "EXT_SEND_WHATSAPP_INTERACTIVE = ''madad_external_send_whatsapp_interactive''"

definition EXT_SEND_WHATSAPP_INTERACTIVE_BUTTONS :: string where
  "EXT_SEND_WHATSAPP_INTERACTIVE_BUTTONS = ''madad_external_send_whatsapp_interactive_buttons''"

definition EXT_SEND_WHATSAPP_DOCUMENT :: string where
  "EXT_SEND_WHATSAPP_DOCUMENT = ''madad_external_send_whatsapp_document''"

lemmas tool_names =
  EXT_SEND_EMAIL_TEXT_def EXT_SEND_WHATSAPP_TEXT_def EXT_SEND_WHATSAPP_TEMPLATE_def
  EXT_SEND_WHATSAPP_INTERACTIVE_def EXT_SEND_WHATSAPP_INTERACTIVE_BUTTONS_def
  EXT_SEND_WHATSAPP_DOCUMENT_def

text \<open>The dash of the default subject is its three UTF-8 bytes.\<close>

definition DEFAULT_EMAIL_SUBJECT :: string where
  "DEFAULT_EMAIL_SUBJECT =
     ''Madad Financing '' @ [CHR 0xE2, CHR 0x80, CHR 0x94] @ '' update on your application''"

fun TOOL_BY_CHANNEL :: "channel \<Rightarrow> string" where
  "TOOL_BY_CHANNEL WHATSAPP = EXT_SEND_WHATSAPP_TEXT"
| "TOOL_BY_CHANNEL EMAIL = EXT_SEND_EMAIL_TEXT"

definition text_of :: "'g mcp_env \<Rightarrow> json \<Rightarrow> string" where
  "text_of e v = (case v of JStr x \<Rightarrow> x | _ \<Rightarrow> me_str e v)"

text \<open>\<open>v or d\<close>, and a metadata block that is a dictionary.\<close>

definition py_or :: "json \<Rightarrow> json \<Rightarrow> json" where
  "py_or v d = (if truthy v then v else d)"

definition dict_block :: "payload \<Rightarrow> string \<Rightarrow> payload" where
  "dict_block md k = (case jget md k of JObj d \<Rightarrow> d | _ \<Rightarrow> [])"

text \<open>\<open>payload[k] = block[k]\<close> when the entry of the block is truthy.\<close>

definition copy_if :: "string \<Rightarrow> payload \<Rightarrow> payload \<Rightarrow> payload" where
  "copy_if k block pl = (if truthy (jget block k) then dput k (jget block k) pl else pl)"

definition body_text :: "message \<Rightarrow> json" where
  "body_text m = JStr (case g_text m of None \<Rightarrow> [] | Some t \<Rightarrow> t)"

definition build_outbound_payload :: "'g mcp_env \<Rightarrow> channel \<Rightarrow> message \<Rightarrow> payload" where
  "build_outbound_payload e ch m =
     (case ch of
        WHATSAPP \<Rightarrow> [(''to'', JStr (g_identity m)), (''body'', body_text m)]
      | EMAIL \<Rightarrow>
          let md = g_metadata m;
              subject = py_or (jget md ''subject'') (JStr DEFAULT_EMAIL_SUBJECT);
              p0 = [(''to'', JStr (g_identity m)), (''subject'', JStr (text_of e subject)),
                    (''body_text'', body_text m)];
              in_reply_to = jget md ''in_reply_to'';
              p1 = (if truthy in_reply_to then dput ''in_reply_to'' (JStr (text_of e in_reply_to)) p0 else p0);
              reply_to = py_or (jget md ''reply_to'') (opt_text (me_reply_to e))
          in if truthy reply_to then dput ''reply_to'' (JStr (text_of e reply_to)) p1 else p1)"

text \<open>A button that is no dictionary has no \<open>get\<close>.\<close>

fun button_list :: "'g mcp_env \<Rightarrow> json list \<Rightarrow> json list option" where
  "button_list e [] = Some []"
| "button_list e (JObj b # bs) =
     (case button_list e bs of
        None \<Rightarrow> None
      | Some xs \<Rightarrow>
          Some (JObj [(''id'', JStr (text_of e (jget b ''id''))),
                      (''title'', JStr (take 20 (text_of e (py_or (jget b ''title'') (JStr [])))))] # xs))"
| "button_list e (_ # bs) = None"

text \<open>The tool and its arguments; \<open>Inl\<close> is the exception raised before the call.\<close>

definition mcp_request :: "'g mcp_env \<Rightarrow> message \<Rightarrow> string + (string \<times> payload)" where
  "mcp_request e m =
     (let md = g_metadata m;
          to = JStr (g_identity m);
          wat = dict_block md ''whatsapp_template'';
          doc = dict_block md ''document'';
          cta = dict_block md ''cta'';
          ib = dict_block md ''interactive_buttons'';
          has_doc = truthy (jget doc ''content_base64'')
      in if g_channel m = WHATSAPP \<and> truthy (jget wat ''name'') then
           Inr (EXT_SEND_WHATSAPP_TEMPLATE,
                copy_if ''components'' wat
                  [(''to'', to), (''template_name'', jget wat ''name''),
                   (''language_code'', py_or (jget wat ''language'') (JStr ''en''))])
         else if g_channel m = WHATSAPP \<and> has_doc then
           Inr (EXT_SEND_WHATSAPP_DOCUMENT,
                copy_if ''caption'' doc (copy_if ''mime_type'' doc
                  [(''to'', to), (''filename'', py_or (jget doc ''filename'') (JStr ''document.csv'')),
                   (''content_base64'', jget doc ''content_base64'')]))
         else if g_channel m = EMAIL \<and> has_doc then
           (let p0 = build_outbound_payload e EMAIL m;
                caption = jget doc ''caption'';
                p1 = (if truthy caption \<and> strip (case g_text m of None \<Rightarrow> [] | Some t \<Rightarrow> t) = []
                      then dput ''body_text'' caption p0 else p0);
                file = copy_if ''mime_type'' doc
                         [(''filename'', py_or (jget doc ''filename'') (JStr ''document'')),
                          (''content_base64'', jget doc ''content_base64'')]
            in Inr (EXT_SEND_EMAIL_TEXT, dput ''attachments'' (JList [JObj file]) p1))
         else if g_channel m = WHATSAPP \<and> truthy (jget cta ''button_url'') then
           Inr (EXT_SEND_WHATSAPP_INTERACTIVE,
                copy_if ''footer'' cta (copy_if ''header'' cta
                  [(''to'', to), (''body'', body_text m),
                   (''buttonText'', JStr (take 20 (text_of e (py_or (jget cta ''button_text'') (JStr ''Open''))))),
                   (''buttonUrl'', jget cta ''button_url'')]))
         else if g_channel m = WHATSAPP \<and> truthy (jget ib ''buttons'') then
           (case jget ib ''buttons'' of
              JList bs \<Rightarrow>
                (case button_list e bs of
                   None \<Rightarrow> Inl ''AttributeError''
                 | Some xs \<Rightarrow>
                     Inr (EXT_SEND_WHATSAPP_INTERACTIVE_BUTTONS,
                          copy_if ''footer'' ib (copy_if ''header'' ib
                            [(''to'', to), (''body'', body_text m), (''buttons'', JList (take 3 xs))])))
            | JStr x \<Rightarrow> Inl ''AttributeError''
            | JObj d \<Rightarrow> Inl ''AttributeError''
            | _ \<Rightarrow> Inl ''TypeError'')
         else Inr (TOOL_BY_CHANNEL (g_channel m), build_outbound_payload e (g_channel m) m))"

text \<open>
  The result is validated outside the guarded call: a provider id that is neither text nor absent
  raises.
\<close>

definition outbound_result :: "payload \<Rightarrow> channel_exn + dispatch_result" where
  "outbound_result response =
     (let accepted = (case dget response ''accepted'' of None \<Rightarrow> True | Some v \<Rightarrow> truthy v)
      in case jget response ''provider_message_id'' of
           JNull \<Rightarrow> Inr \<lparr>dr_accepted = accepted, dr_provider_id = None\<rparr>
         | JStr p \<Rightarrow> Inr \<lparr>dr_accepted = accepted, dr_provider_id = Some p\<rparr>
         | _ \<Rightarrow> Inl (UnexpectedError ''ValidationError''))"

definition mcp_send ::
  "'g mcp_env \<Rightarrow> message \<Rightarrow> 'g \<Rightarrow> (channel_exn + dispatch_result) \<times> 'g"
where
  "mcp_send e m g =
     (case mcp_request e m of
        Inl x \<Rightarrow> (Inl (UnexpectedError x), g)
      | Inr (tool, pl) \<Rightarrow>
          (case me_call e tool pl g of
             (Inl x, g1) \<Rightarrow>
               (Inl (GatewayError (''MCP tool '' @ [CHR 0x27] @ tool @ [CHR 0x27] @ '' failed: '' @ x)), g1)
           | (Inr response, g1) \<Rightarrow> (outbound_result response, g1)))"

text \<open>\<open>InMemoryCommunicationGateway\<close>: the messages sent, the failures to simulate, the calls made.
  \<open>show_n\<close> prints a number.\<close>

record memory_gateway =
  mg_sent :: "message list"
  mg_fail_times :: nat
  mg_calls :: nat

definition memory_send ::
  "(nat \<Rightarrow> string) \<Rightarrow> (nat \<Rightarrow> string) \<Rightarrow> message \<Rightarrow> memory_gateway \<Rightarrow> (channel_exn + dispatch_result) \<times> memory_gateway"
where
  "memory_send show_n fresh m g =
     (let g1 = g\<lparr>mg_calls := mg_calls g + 1\<rparr> in
      if mg_calls g1 \<le> mg_fail_times g1
      then (Inl (GatewayError (''simulated transient gateway failure #'' @ show_n (mg_calls g1))), g1)
      else (Inr \<lparr>dr_accepted = True, dr_provider_id = Some (''prov_'' @ fresh (mg_calls g1))\<rparr>,
            g1\<lparr>mg_sent := mg_sent g1 @ [m]\<rparr>))"

end
