(* ===== verification/Comm_Theorems.thy ===== *)
theory Comm_Theorems
  imports Comm_Inv Comm_Render Comm_Gateway
begin

section \<open>Properties of the communication service\<close>

text \<open>
  Rendering fills each placeholder once; a send ends in SENT or FAILED within its attempts;
  inbound redeliveries are dropped; statuses follow the lifecycle. The demonstration gateway fails
  a number of times before it accepts.
\<close>

subsection \<open>The attempt loop\<close>

definition gateway_only :: "'g comm_config \<Rightarrow> bool" where
  "gateway_only cf \<longleftrightarrow> (\<forall>m g e. fst (cm_send cf m g) \<noteq> Inl (UnexpectedError e))"

definition settled_send :: "nat \<Rightarrow> message \<Rightarrow> message \<Rightarrow> bool" where
  "settled_send k m m' \<longleftrightarrow> g_attempts m < g_attempts m' \<and> g_attempts m' \<le> g_attempts m + int k \<and>
     (g_status m' = C_SENT \<and> g_last_error m' = None \<or>
      g_status m' = C_FAILED \<and> g_attempts m' = g_attempts m + int k \<and> g_last_error m' \<noteq> None)"

lemma mark_sent_settles:
  assumes "mark_sent m c res s = (r, t)" "g_status m = C_SENDING"
  shows "r = Inr () \<and> (\<exists>m'. get_msg (g_id m) t = Some m' \<and> g_status m' = C_SENT \<and>
    g_last_error m' = None \<and> g_attempts m' = g_attempts m \<and> g_provider_id m' = dr_provider_id res)"
proof -
  define m1 where "m1 = m\<lparr>g_provider_id := dr_provider_id res, g_last_error := None, g_sent_at := Some (utcnow s)\<rparr>"
  define m2 where "m2 = m1\<lparr>g_status := C_SENT, g_updated := utcnow (tick s)\<rparr>"
  have tr: "msg_transition m1 C_SENT (tick s) = (Inr m2, tick (tick s))"
    using assms(2) by (simp add: msg_transition_def m1_def m2_def can_transition_def)
  obtain m3 s2 where sv: "save_msg m2 (tick (tick s)) = (m3, s2)" by force
  have "r = Inr ()" "same_msgs s2 t"
    using assms(1) tr sv by (auto simp: mark_sent_def m1_def [symmetric] Let_def split_beta)
  with saved [OF sv] show ?thesis by (auto simp: get_msg_same m2_def m1_def)
qed

lemma mark_failed_settles:
  assumes "mark_failed m c s = (r, t)" "g_status m = C_SENDING"
  shows "r = Inr () \<and> (\<exists>m'. get_msg (g_id m) t = Some m' \<and> g_status m' = C_FAILED \<and>
    g_last_error m' = g_last_error m \<and> g_attempts m' = g_attempts m)"
proof -
  define m1 where "m1 = m\<lparr>g_status := C_FAILED, g_updated := utcnow s\<rparr>"
  have tr: "msg_transition m C_FAILED s = (Inr m1, tick s)"
    using assms(2) by (simp add: msg_transition_def m1_def can_transition_def)
  obtain m2 s2 where sv: "save_msg m1 (tick s) = (m2, s2)" by force
  have "r = Inr ()" "same_msgs s2 t"
    using assms(1) tr sv by (auto simp: mark_failed_def Let_def)
  with saved [OF sv] show ?thesis by (auto simp: get_msg_same m1_def)
qed

lemma attempts_loop_settles:
  "attempts_loop cf c n i m s = (r, t) \<Longrightarrow> gateway_only cf \<Longrightarrow> g_status m = C_SENDING \<Longrightarrow> i + n \<le> 1024 \<Longrightarrow>
     r = Inr () \<and> (\<exists>m'. get_msg (g_id m) t = Some m' \<and> settled_send (n + 1) m m')"
proof (induction n arbitrary: i m s rule: less_induct)
  case (less n)
  from less.prems(1) show ?case
  proof (cases rule: attempts_loop_cases)
    case (unexpected e d)
    with less.prems(2) show ?thesis unfolding gateway_only_def by (metis fst_conv)
  next
    case (accepted res d)
    then show ?thesis using mark_sent_settles [OF accepted(2)] less.prems(3)
      by (auto simp: settled_send_def)
  next
    case (exhausted e d m2 s2)
    then show ?thesis using mark_failed_settles [OF exhausted(4)] saved [OF exhausted(2)] less.prems(3)
      by (auto simp: settled_send_def)
  next
    case (no_delay e d m2 s2 ex k)
    with less.prems(4) compute_backoff_no_overflow [of "i + 1"] show ?thesis
      by (metis Inl_Inr_False Suc_eq_plus1 add_Suc_right add_Suc_shift fst_conv le_add1 le_trans)
  next
    case (again e d m2 s2 k s5)
    with less.prems(3) saved [OF again(2)] have m2: "g_status m2 = C_SENDING" "g_id m2 = g_id m"
      "g_attempts m2 = g_attempts m + 1" by auto
    with less.IH [OF _ again(5)] again(3) less.prems show ?thesis by (auto simp: settled_send_def)
  qed
qed

lemma dispatch_settles:
  assumes "dispatch_with_retry cf m c s = (r, t)" "gateway_only cf" "g_status m = C_QUEUED"
    and "cm_max_attempts cf \<le> 1025"
  shows "r = Inr () \<and>
    (\<exists>m'. get_msg (g_id m) t = Some m' \<and> settled_send (nat (max 1 (cm_max_attempts cf))) m m')"
proof -
  define m1 where "m1 = m\<lparr>g_status := C_SENDING, g_updated := utcnow s\<rparr>"
  have tr: "msg_transition m C_SENDING s = (Inr m1, tick s)"
    using assms(3) by (simp add: msg_transition_def m1_def can_transition_def)
  obtain m2 s2 where sv: "save_msg m1 (tick s) = (m2, s2)" by force
  have m2: "g_status m2 = C_SENDING" "g_id m2 = g_id m" "g_attempts m2 = g_attempts m"
    using saved [OF sv] by (auto simp: m1_def)
  have "attempts_loop cf c (nat (max 1 (cm_max_attempts cf)) - 1) 0 m2 s2 = (r, t)"
    using assms(1) tr sv by (simp add: dispatch_with_retry_def)
  from attempts_loop_settles [OF this assms(2) m2(1)] assms(4) m2 show ?thesis
    by (auto simp: settled_send_def)
qed

subsection \<open>A demonstration service\<close>

text \<open>The gateway of this service fails until its counter reaches \<open>k\<close>, then answers \<open>res\<close>.\<close>

definition demo_comm :: "nat \<Rightarrow> dispatch_result \<Rightarrow> nat comm_config" where
  "demo_comm k res =
     \<lparr>cm_max_attempts = 3, cm_base_delay = 1, cm_max_delay = 30, cm_jitter = False, cm_locale = EN,
      cm_renderer_locale = EN, cm_strict = True, cm_str = (\<lambda>v. ''?''),
      cm_send = (\<lambda>m n. (if n < k then Inl (GatewayError ''down'') else Inr res, Suc n)),
      cm_handoff = None\<rparr>"

definition demo_unexpected :: "nat comm_config" where
  "demo_unexpected =
     demo_comm 0 \<lparr>dr_accepted = True, dr_provider_id = None\<rparr> \<lparr>cm_send := (\<lambda>m n. (Inl (UnexpectedError ''bug''), n))\<rparr>"

definition comm_start :: "nat comm_state" where
  "comm_start =
     \<lparr>clock = int, ticks = 0, entropy = (\<lambda>n. replicate n CHR ''x''), minted = 0, dice = (\<lambda>n. 0),
      rolled = 0, convs = [], open_convs = [], msgs = [], by_provider = [], templates = [],
      cevents = [], caudit = [], chan = 0\<rparr>"

definition demo_text :: outbound_request where
  "demo_text =
     \<lparr>ro_channel = WHATSAPP, ro_identity = ''974'', ro_text = Some ''hello'', ro_template = None,
      ro_variables = [], ro_attachments = [], ro_locale = None, ro_in_reply_to = None,
      ro_corr = None, ro_metadata = []\<rparr>"

definition demo_inbound :: inbound_dto where
  "demo_inbound =
     \<lparr>di_channel = WHATSAPP, di_identity = ''974'', di_text = Some ''hi'', di_type = T_TEXT,
      di_attachments = [], di_provider_id = Some ''wamid.1'', di_in_reply_to = None,
      di_locale = None, di_subject = None, di_thread_ref = None, di_corr = None, di_raw = []\<rparr>"

lemma comm_start_boot: "comm_boot comm_start"
proof -
  have "inj (\<lambda>n. replicate n CHR ''x'')" by (rule injI) (metis length_replicate)
  then show ?thesis by (simp add: comm_boot_def comm_start_def)
qed

text \<open>A request without a template is always queued.\<close>

lemma plain_text_queued:
  assumes "\<not> truthy_text (ro_template r)"
  shows "\<exists>m c t. enqueue cf r s = (Inr (m, c), t)"
proof -
  obtain x t where x: "enqueue cf r s = (x, t)" by force
  then have "x \<noteq> Inl e" for e
    using assms by (auto simp: enqueue_def Let_def split_beta split: if_splits)
  with x show ?thesis by (cases x) auto
qed

subsection \<open>Rendering\<close>

text \<open>
  C29. A template written as plain text and placeholders is rendered piece by piece: each
  placeholder whose variable is set is replaced once by the variable's text (which is not scanned
  again), everything else is copied; strict rendering fails exactly when a placeholder's variable
  is missing, with the missing names sorted and without duplicates.
\<close>

theorem render_fills_placeholders:
  assumes "list_all good_piece ps" and "plain_text tail"
  shows "render_text str (source ps tail) vars strict =
    (if strict \<and> (\<exists>n \<in> set (map pc_name ps). dget vars n = None)
     then Inl (MissingTemplateVariableError (sorted_list_of_set {n \<in> set (map pc_name ps). dget vars n = None}))
     else Inr (filled str vars ps tail))"
proof -
  have m: "set (unset vars ps) = {n \<in> set (map pc_name ps). dget vars n = None}"
    by (auto simp: unset_def)
  then have "sort (remdups (unset vars ps)) = sorted_list_of_set {n \<in> set (map pc_name ps). dget vars n = None}"
    using sorted_list_of_set_sort_remdups [of "unset vars ps"] by simp
  moreover have "unset vars ps \<noteq> [] \<longleftrightarrow> (\<exists>n \<in> set (map pc_name ps). dget vars n = None)"
    by (auto simp: unset_def filter_empty_conv)
  ultimately show ?thesis unfolding render_text_def subst_source [OF assms] by simp
qed

theorem render_fills_placeholders_witness:
  "render_text (\<lambda>v. ''{{ x }}'') ''Hi {{ name }}, bye'' [(''name'', JStr ''Ada'')] True = Inr ''Hi {{ x }}, bye''"
proof -
  define p where "p = \<lparr>pc_text = ''Hi '', pc_left = '' '', pc_name = ''name'', pc_right = '' ''\<rparr>"
  have g: "list_all good_piece [p]" "plain_text '', bye''"
    by (simp_all add: p_def good_piece_def is_space_def python_name_def letters_def code_def)
  from render_fills_placeholders [OF g, of "\<lambda>v. ''{{ x }}''" "[(''name'', JStr ''Ada'')]" True]
  show ?thesis by (simp add: p_def placeholder_def)
qed

subsection \<open>Sending\<close>

text \<open>
  C30. If the gateway raises only its own error, a queued message is sent or failed when \<open>send\<close>
  returns: at least one and at most the configured number of attempts were made, SENT carries no
  error, and FAILED means every attempt was used. (From 1026 attempts on the backoff would
  overflow.)
\<close>

theorem send_settles:
  assumes "enqueue cf r s = (Inr (m, c), s1)" and "gateway_only cf" and "cm_max_attempts cf \<le> 1025"
  shows "\<exists>m' t. send cf r s = (Inr m', t) \<and> get_msg (g_id m) t = Some m' \<and>
    1 \<le> g_attempts m' \<and> g_attempts m' \<le> max 1 (cm_max_attempts cf) \<and>
    (g_status m' = C_SENT \<and> g_last_error m' = None \<or>
     g_status m' = C_FAILED \<and> g_attempts m' = max 1 (cm_max_attempts cf) \<and> g_last_error m' \<noteq> None)"
proof -
  obtain d t where d: "dispatch_with_retry cf m c s1 = (d, t)" by force
  from assms(1) have m: "g_status m = C_QUEUED" "g_attempts m = 0" by (auto elim: enqueue_effect)
  from dispatch_settles [OF d assms(2) m(1) assms(3)] obtain m' where "d = Inr ()"
    "get_msg (g_id m) t = Some m'" "settled_send (nat (max 1 (cm_max_attempts cf))) m m'" by blast
  moreover have "int (nat (max 1 (cm_max_attempts cf))) = max 1 (cm_max_attempts cf)" by simp
  ultimately show ?thesis using assms(1) d m(2) unfolding settled_send_def by (simp add: send_def)
qed

theorem send_settles_witness:
  "\<exists>m' t. send (demo_comm 2 \<lparr>dr_accepted = True, dr_provider_id = None\<rparr>) demo_text comm_start = (Inr m', t) \<and>
     1 \<le> g_attempts m' \<and> g_attempts m' \<le> 3"
proof -
  define cf where "cf = demo_comm 2 \<lparr>dr_accepted = True, dr_provider_id = None\<rparr>"
  have "\<not> truthy_text (ro_template demo_text)" by (simp add: demo_text_def truthy_text_def)
  then obtain m c t where q: "enqueue cf demo_text comm_start = (Inr (m, c), t)"
    using plain_text_queued by blast
  have "gateway_only cf" by (simp add: cf_def gateway_only_def demo_comm_def)
  moreover have "cm_max_attempts cf = 3" by (simp add: cf_def demo_comm_def)
  ultimately show ?thesis unfolding cf_def [symmetric] using send_settles [OF q] by auto
qed

text \<open>The message as the gateway first sees it.\<close>

definition first_try :: "message \<Rightarrow> 'g comm_state \<Rightarrow> message" where
  "first_try m s =
     m\<lparr>g_status := C_SENDING, g_updated := utcnow (tick s), g_attempts := g_attempts m + 1\<rparr>"

lemma send_first_try:
  assumes "enqueue cf r s = (Inr (m, c), s1)"
  obtains m0 n s2 where "chan s2 = chan s1" "get_msg (g_id m) s2 = Some m0" "g_status m0 = C_SENDING"
    "g_attempts m0 = 0" "cevents s2 = cevents s1" "m0\<lparr>g_attempts := g_attempts m0 + 1\<rparr> = first_try m s1"
    "dispatch_with_retry cf m c s1 = attempts_loop cf c n 0 m0 s2" "g_id m0 = g_id m"
proof -
  have q: "g_status m = C_QUEUED" "g_attempts m = 0" using assms by (auto elim: enqueue_effect)
  define m1 where "m1 = m\<lparr>g_status := C_SENDING, g_updated := utcnow s1\<rparr>"
  have tr: "msg_transition m C_SENDING s1 = (Inr m1, tick s1)"
    using q by (simp add: msg_transition_def m1_def can_transition_def)
  obtain m0 s2 where sv: "save_msg m1 (tick s1) = (m0, s2)" by force
  have f: "chan s2 = chan s1" "cevents s2 = cevents s1"
    using sv by (auto simp: save_msg_def Let_def tick_def)
  have m0: "m0 = m1\<lparr>g_updated := utcnow (tick s1)\<rparr>" "get_msg (g_id m1) s2 = Some m0"
    using saved [OF sv] by simp_all
  have "dispatch_with_retry cf m c s1 = attempts_loop cf c (nat (max 1 (cm_max_attempts cf)) - 1) 0 m0 s2"
    using tr sv by (simp add: dispatch_with_retry_def)
  from that [OF f(1) _ _ _ f(2) _ this] m0 q show thesis
    by (simp add: m1_def first_try_def)
qed

text \<open>
  The first answer of the gateway decides. Any returned result makes the message SENT, even a
  result that was not accepted; an exception other than the gateway's own escapes \<open>send\<close>
  and leaves the stored message in SENDING with no attempt counted and no event published.
\<close>

theorem first_answer_decides:
  assumes "enqueue cf r s = (Inr (m, c), s1)" and "cm_send cf (first_try m s1) (chan s1) = (a, d)"
  shows "(\<forall>res. a = Inr res \<longrightarrow> (\<exists>m' t. send cf r s = (Inr m', t) \<and> g_status m' = C_SENT \<and>
      g_attempts m' = 1 \<and> g_provider_id m' = dr_provider_id res)) \<and>
    (\<forall>e. a = Inl (UnexpectedError e) \<longrightarrow> (\<exists>m' t. send cf r s = (Inl (OtherChannelError e), t) \<and>
      get_msg (g_id m) t = Some m' \<and> g_status m' = C_SENDING \<and> g_attempts m' = 0 \<and> cevents t = cevents s1))"
proof -
  obtain m0 n s2 where m0: "chan s2 = chan s1" "get_msg (g_id m) s2 = Some m0" "g_status m0 = C_SENDING"
    "g_attempts m0 = 0" "cevents s2 = cevents s1" "m0\<lparr>g_attempts := g_attempts m0 + 1\<rparr> = first_try m s1"
    "dispatch_with_retry cf m c s1 = attempts_loop cf c n 0 m0 s2" "g_id m0 = g_id m"
    by (rule send_first_try [OF assms(1)])
  have f: "g_status (first_try m s1) = C_SENDING" "g_id (first_try m s1) = g_id m" "g_attempts (first_try m s1) = 1"
    using enqueue_effect [OF assms(1)] by (auto simp: first_try_def)
  note lp = attempts_loop.simps [of cf c n 0 m0 s2, unfolded m0(1,6) assms(2) Let_def prod.case]
  show ?thesis
  proof (intro conjI allI impI)
    fix res assume a: "a = Inr res"
    obtain x t where x: "mark_sent (first_try m s1) c res (s2\<lparr>chan := d\<rparr>) = (x, t)" by force
    with mark_sent_settles [OF x f(1)] lp a m0(7) f(2,3) assms(1) show
      "\<exists>m' t. send cf r s = (Inr m', t) \<and> g_status m' = C_SENT \<and> g_attempts m' = 1 \<and> g_provider_id m' = dr_provider_id res"
      by (auto simp: send_def)
  next
    fix e assume a: "a = Inl (UnexpectedError e)"
    have "get_msg (g_id m) (s2\<lparr>chan := d\<rparr>) = Some m0" using m0(2) by (simp add: get_msg_def)
    with lp a m0 assms(1) show "\<exists>m' t. send cf r s = (Inl (OtherChannelError e), t) \<and>
      get_msg (g_id m) t = Some m' \<and> g_status m' = C_SENDING \<and> g_attempts m' = 0 \<and> cevents t = cevents s1"
      by (auto simp: send_def)
  qed
qed

theorem first_answer_decides_witness:
  "(\<exists>m' t. send (demo_comm 0 \<lparr>dr_accepted = False, dr_provider_id = None\<rparr>) demo_text comm_start = (Inr m', t) \<and>
     g_status m' = C_SENT) \<and>
   (\<exists>t. send demo_unexpected demo_text comm_start = (Inl (OtherChannelError ''bug''), t))"
proof
  have t: "\<not> truthy_text (ro_template demo_text)" by (simp add: demo_text_def truthy_text_def)
  define cf where "cf = demo_comm 0 \<lparr>dr_accepted = False, dr_provider_id = None\<rparr>"
  obtain m c s1 where q: "enqueue cf demo_text comm_start = (Inr (m, c), s1)"
    using plain_text_queued [OF t] by blast
  have a: "cm_send cf (first_try m s1) (chan s1) = (Inr \<lparr>dr_accepted = False, dr_provider_id = None\<rparr>, Suc (chan s1))"
    by (simp add: cf_def demo_comm_def)
  from first_answer_decides [OF q a] show
    "\<exists>m' t. send (demo_comm 0 \<lparr>dr_accepted = False, dr_provider_id = None\<rparr>) demo_text comm_start = (Inr m', t) \<and>
       g_status m' = C_SENT" unfolding cf_def by blast
  obtain m c s1 where q': "enqueue demo_unexpected demo_text comm_start = (Inr (m, c), s1)"
    using plain_text_queued [OF t] by blast
  have a': "cm_send demo_unexpected (first_try m s1) (chan s1) = (Inl (UnexpectedError ''bug''), chan s1)"
    by (simp add: demo_unexpected_def)
  from first_answer_decides [OF q' a'] show
    "\<exists>t. send demo_unexpected demo_text comm_start = (Inl (OtherChannelError ''bug''), t)" by blast
qed

subsection \<open>Inbound and lifecycle\<close>

lemma ingest_indexes:
  assumes "ingest_inbound cf dto s = (r, t)" "di_provider_id dto = Some p" "p \<noteq> []"
  shows "dget (by_provider t) p \<noteq> None"
  using assms(1)
proof (cases rule: ingest_cases)
  case (known q m)
  with assms(2) show ?thesis by (auto simp: get_by_provider_id_def split: option.splits)
next
  case (stored m s1)
  from stored(2) obtain u where u: "same_msgs (create_msg m (tick (tick (mint u)))) s1"
    "g_provider_id m = di_provider_id dto" by (auto elim: store_inbound_effect)
  from u stored(3) have "by_provider t = index_provider m (by_provider u)"
    by (simp add: same_msgs_def create_msg_def)
  with u(2) assms(2,3) show ?thesis by (simp add: index_provider_get truthy_text_def)
qed

text \<open>
  Once an inbound message with a provider id was ingested, also when handing it to the
  conversation failed, a redelivery of that id returns a stored message and changes nothing: no
  second message, no event, no second hand-off.
\<close>

theorem redelivered_inbound_is_dropped:
  assumes "comm_boot s0" and "comm_steps cf s0 s" and "ingest_inbound cf dto s = (r, s1)"
    and "di_provider_id dto = Some p" and "p \<noteq> []"
    and "comm_steps cf s1 s2" and "di_provider_id dto' = Some p"
  shows "\<exists>m. ingest_inbound cf dto' s2 = (Inr m, s2) \<and> get_msg (g_id m) s2 = Some m"
proof -
  have ok: "msgs_ok s" using comm_reach_ok assms(1,2) by blast
  have ok1: "msgs_ok s1" using ingest_evolves [OF assms(3)] comm_evolves_ok ok by blast
  have ev: "comm_evolves s1 s2" using comm_steps_evolve assms(6) ok1 by blast
  have ok2: "msgs_ok s2" using comm_evolves_ok ev ok1 by blast
  have "dget (by_provider s2) p \<noteq> None"
    using ingest_indexes [OF assms(3-5)] ev ok1 unfolding comm_evolves_def by blast
  then obtain i where i: "dget (by_provider s2) p = Some i" by blast
  with ok2 obtain m where "get_msg i s2 = Some m" unfolding msgs_ok_def by blast
  with i have m: "get_by_provider_id p s2 = Some m"
    by (simp add: get_by_provider_id_def get_msg_def)
  with assms(5,7) have "ingest_inbound cf dto' s2 = (Inr m, s2)" by (simp add: ingest_inbound_def)
  with get_by_provider_ok [OF ok2 m] show ?thesis by blast
qed

theorem redelivered_inbound_is_dropped_witness:
  "\<exists>s1 m. comm_steps (demo_comm 0 \<lparr>dr_accepted = True, dr_provider_id = None\<rparr>) comm_start s1 \<and>
     ingest_inbound (demo_comm 0 \<lparr>dr_accepted = True, dr_provider_id = None\<rparr>) demo_inbound s1 = (Inr m, s1)"
proof -
  define cf where "cf = demo_comm 0 \<lparr>dr_accepted = True, dr_provider_id = None\<rparr>"
  obtain r s1 where i: "ingest_inbound cf demo_inbound comm_start = (r, s1)" by force
  have p: "di_provider_id demo_inbound = Some ''wamid.1''" "''wamid.1'' \<noteq> []" by (simp_all add: demo_inbound_def)
  have "comm_steps cf comm_start s1" using step_ingest [OF i] by blast
  with redelivered_inbound_is_dropped [OF comm_start_boot rtranclp.rtrancl_refl i p rtranclp.rtrancl_refl p(1)]
  show ?thesis unfolding cf_def by blast
qed

text \<open>
  C31. Messages are never lost and their statuses follow the lifecycle: whatever the service does
  after a state of its own, a stored message is still stored, keeps its direction, and its status
  was reached by allowed transitions only; READ and RECEIVED never change again.
\<close>

theorem messages_follow_lifecycle:
  assumes "comm_boot s0" and "comm_steps cf s0 s" and "comm_steps cf s t" and "get_msg i s = Some m"
  shows "\<exists>m'. get_msg i t = Some m' \<and> g_direction m' = g_direction m \<and>
    can_transition\<^sup>*\<^sup>* (g_status m) (g_status m') \<and>
    (g_status m \<in> {C_READ, C_RECEIVED} \<longrightarrow> g_status m' = g_status m)"
proof -
  have ok: "msgs_ok s" using comm_reach_ok assms(1,2) by blast
  with comm_steps_evolve [OF assms(3)] assms(4) obtain m' where "get_msg i t = Some m'"
    "g_direction m' = g_direction m" "follows (g_status m) (g_status m')"
    unfolding comm_evolves_def by blast
  then show ?thesis using follows_sink unfolding follows_def by blast
qed

theorem messages_follow_lifecycle_witness:
  "\<exists>s m r t m'. ingest_inbound (demo_comm 0 \<lparr>dr_accepted = True, dr_provider_id = None\<rparr>) demo_inbound comm_start = (Inr m, s) \<and>
     update_delivery_status \<lparr>du_status = C_READ, du_provider_id = None, du_message_id = Some (g_id m), du_error = None\<rparr> s = (r, t) \<and>
     get_msg (g_id m) t = Some m' \<and> g_status m' = C_RECEIVED"
proof -
  define cf where "cf = demo_comm 0 \<lparr>dr_accepted = True, dr_provider_id = None\<rparr>"
  obtain m s where st: "store_inbound cf demo_inbound comm_start = (m, s)" by force
  have i: "ingest_inbound cf demo_inbound comm_start = (Inr m, s)"
    using st by (simp add: ingest_inbound_def get_by_provider_id_def comm_start_def demo_inbound_def
        cf_def demo_comm_def)
  from st obtain u where u: "same_msgs (create_msg m (tick (tick (mint u)))) s" "g_status m = C_RECEIVED"
    by (auto elim: store_inbound_effect)
  have g: "get_msg (g_id m) s = Some m"
    unfolding get_msg_same [OF u(1)] by (simp add: create_msg_def get_msg_def)
  obtain r t where up: "update_delivery_status \<lparr>du_status = C_READ, du_provider_id = None,
      du_message_id = Some (g_id m), du_error = None\<rparr> s = (r, t)" by force
  have "comm_steps cf comm_start s" "comm_steps cf s t"
    using step_ingest [OF i] step_update [OF up] by blast+
  with messages_follow_lifecycle [OF comm_start_boot _ _ g] u(2) i up show ?thesis
    unfolding cf_def [symmetric] by (metis insertI1 insertI2)
qed

subsection \<open>The gateway\<close>

lemma copy_if_get: "k \<noteq> k' \<Longrightarrow> dget (copy_if k block pl) k' = dget pl k'"
  by (simp add: copy_if_def)

lemma payload_to: "dget (build_outbound_payload e ch m) ''to'' = Some (JStr (g_identity m))"
  by (simp add: build_outbound_payload_def Let_def split: channel.split)

lemma button_list_shape:
  "button_list e bs = Some xs \<Longrightarrow> length xs = length bs \<and>
     (\<forall>b \<in> set xs. \<exists>i t. b = JObj [(''id'', JStr i), (''title'', JStr t)] \<and> length t \<le> 20)"
  by (induction e bs arbitrary: xs rule: button_list.induct) (auto split: option.splits)

text \<open>The requests one by one, with the guard that selects each.\<close>

lemma mcp_request_cases:
  assumes "mcp_request e m = Inr (tool, pl)"
  obtains (template) "g_channel m = WHATSAPP" "tool = EXT_SEND_WHATSAPP_TEMPLATE"
      "dget pl ''to'' = Some (JStr (g_identity m))"
  | (document) "g_channel m = WHATSAPP" "tool = EXT_SEND_WHATSAPP_DOCUMENT"
      "dget pl ''to'' = Some (JStr (g_identity m))"
  | (email_document) "g_channel m = EMAIL" "tool = EXT_SEND_EMAIL_TEXT"
      "dget pl ''to'' = Some (JStr (g_identity m))"
  | (cta) x where "g_channel m = WHATSAPP" "tool = EXT_SEND_WHATSAPP_INTERACTIVE"
      "dget pl ''to'' = Some (JStr (g_identity m))" "dget pl ''buttonText'' = Some (JStr (take 20 x))"
  | (buttons) bs xs where "g_channel m = WHATSAPP" "tool = EXT_SEND_WHATSAPP_INTERACTIVE_BUTTONS"
      "dget pl ''to'' = Some (JStr (g_identity m))" "dget pl ''buttons'' = Some (JList (take 3 xs))"
      "button_list e bs = Some xs" "bs \<noteq> []"
  | (plain) "tool = TOOL_BY_CHANNEL (g_channel m)" "dget pl ''to'' = Some (JStr (g_identity m))"
  using assms unfolding mcp_request_def Let_def
  by (auto simp: copy_if_get payload_to split: if_splits json.splits option.splits)

text \<open>
  Every request of the gateway is addressed to the message's identity and calls a tool of the
  message's channel; reply buttons come as one to three buttons whose titles have at most twenty
  characters, and the text of a link button has at most twenty. A failing tool call is always the
  gateway's own error, the one \<open>send\<close> retries.
\<close>

theorem gateway_requests_are_bounded:
  assumes "mcp_request e m = Inr (tool, pl)"
  shows "dget pl ''to'' = Some (JStr (g_identity m)) \<and>
    (tool = EXT_SEND_EMAIL_TEXT \<longleftrightarrow> g_channel m = EMAIL) \<and>
    (tool = EXT_SEND_WHATSAPP_INTERACTIVE_BUTTONS \<longrightarrow>
       (\<exists>bs. dget pl ''buttons'' = Some (JList bs) \<and> bs \<noteq> [] \<and> length bs \<le> 3 \<and>
         (\<forall>b \<in> set bs. \<exists>i t. b = JObj [(''id'', JStr i), (''title'', JStr t)] \<and> length t \<le> 20))) \<and>
    (tool = EXT_SEND_WHATSAPP_INTERACTIVE \<longrightarrow>
       (\<exists>t. dget pl ''buttonText'' = Some (JStr t) \<and> length t \<le> 20)) \<and>
    (\<forall>g x g1. me_call e tool pl g = (Inl x, g1) \<longrightarrow>
       (\<exists>y. mcp_send e m g = (Inl (GatewayError y), g1)))"
proof -
  have call: "\<forall>g x g1. me_call e tool pl g = (Inl x, g1) \<longrightarrow>
      (\<exists>y. mcp_send e m g = (Inl (GatewayError y), g1))"
    using assms by (simp add: mcp_send_def)
  from assms show ?thesis
  proof (cases rule: mcp_request_cases)
    case (buttons bs xs)
    from button_list_shape [OF buttons(5)] buttons(6) have "take 3 xs \<noteq> []"
      "\<forall>b \<in> set (take 3 xs). \<exists>i t. b = JObj [(''id'', JStr i), (''title'', JStr t)] \<and> length t \<le> 20"
      by (auto dest: in_set_takeD)
    with buttons call show ?thesis by (simp add: tool_names)
  next
    case plain
    with call show ?thesis by (cases "g_channel m") (simp_all add: tool_names)
  qed (use call in \<open>simp_all add: tool_names\<close>)
qed

theorem gateway_requests_are_bounded_witness:
  "\<exists>m pl bs. g_channel m = WHATSAPP \<and>
     mcp_request \<lparr>me_str = (\<lambda>v. ''None''), me_reply_to = None, me_call = (\<lambda>t p (g :: nat). (Inr [], g))\<rparr> m =
       Inr (EXT_SEND_WHATSAPP_INTERACTIVE_BUTTONS, pl) \<and>
     dget pl ''buttons'' = Some (JList bs) \<and> length bs \<le> 3"
proof -
  define e :: "nat mcp_env" where
    "e = \<lparr>me_str = (\<lambda>v. ''None''), me_reply_to = None, me_call = (\<lambda>t p g. (Inr [], g))\<rparr>"
  define b where "b = JObj [(''id'', JStr ''y''), (''title'', JStr ''Yes'')]"
  define rq where "rq = demo_text\<lparr>ro_metadata := [(''interactive_buttons'', JObj [(''buttons'', JList [b, b, b, b])])]\<rparr>"
  have t: "\<not> truthy_text (ro_template rq)" by (simp add: rq_def demo_text_def truthy_text_def)
  obtain m c t where "enqueue (demo_comm 0 \<lparr>dr_accepted = True, dr_provider_id = None\<rparr>) rq comm_start = (Inr (m, c), t)"
    using plain_text_queued [OF t] by blast
  then have m: "g_channel m = WHATSAPP" "g_metadata m = [(''interactive_buttons'', JObj [(''buttons'', JList [b, b, b, b])])]"
    by (auto simp: rq_def enqueue_def Let_def split_beta demo_text_def truthy_text_def merged_metadata_def)
  then have "\<exists>pl. mcp_request e m = Inr (EXT_SEND_WHATSAPP_INTERACTIVE_BUTTONS, pl)"
    by (simp add: mcp_request_def dict_block_def jget_def b_def Let_def)
  then obtain pl where r: "mcp_request e m = Inr (EXT_SEND_WHATSAPP_INTERACTIVE_BUTTONS, pl)" ..
  from gateway_requests_are_bounded [OF r] m(1) r show ?thesis unfolding e_def by (auto simp: tool_names)
qed

end
