(* ===== verification/Cms.thy ===== *)
theory Cms
  imports Wf_Types I18n Communication
begin

section \<open>The CMS service\<close>

text \<open>
  \<open>app/services/cms\<close>: versioned configuration with validation, a read-through cache with a time to
  live, rollback, deletion, and the typed accessors for templates, checklists and variables. Store,
  cache, event bus and audit log are the in-memory ones. The placeholder pattern of the validators is
  that of \<open>Communication\<close> (the two files have the same regular expression).
\<close>

subsection \<open>Kinds, keys, records\<close>

datatype config_kind = TEMPLATE | WORKFLOW | CHECKLIST | NUDGE | SETTING

fun config_kind_value :: "config_kind \<Rightarrow> string" where
  "config_kind_value TEMPLATE = ''template''"
| "config_kind_value WORKFLOW = ''workflow''"
| "config_kind_value CHECKLIST = ''checklist''"
| "config_kind_value NUDGE = ''nudge''"
| "config_kind_value SETTING = ''setting''"

datatype cms_exn =
    ConfigNotFoundError config_kind string
  | ConfigVersionNotFoundError config_kind string int
  | ConfigValidationError string
  | CmsPyError string

record config_key =
  ck_kind :: config_kind
  ck_name :: string
  ck_channel :: "channel option"
  ck_locale :: "lang option"

definition identity :: "config_key \<Rightarrow> string" where
  "identity k =
     config_kind_value (ck_kind k) @ '':'' @ ck_name k @ '':'' @
     (case ck_channel k of None \<Rightarrow> ''*'' | Some c \<Rightarrow> channel_value c) @ '':'' @
     (case ck_locale k of None \<Rightarrow> ''*'' | Some l \<Rightarrow> lang_value l)"

record config_version =
  cv_id :: string
  cv_key :: config_key
  cv_version :: int
  cv_value :: payload
  cv_comment :: "string option"
  cv_by :: "string option"
  cv_created :: int

record config_record =
  cr_key :: config_key
  cr_version :: int
  cr_value :: payload
  cr_comment :: "string option"
  cr_by :: "string option"
  cr_created :: int
  cr_updated :: int

record checklist_item =
  ci_code :: string
  ci_label :: "(string, string) dict"
  ci_required :: bool
  ci_category :: "string option"

datatype cms_event_type = CONFIG_UPDATED | CONFIG_ROLLED_BACK | CONFIG_DELETED | CONFIG_REFRESHED

record cms_event =
  me_id :: string
  me_type :: cms_event_type
  me_at :: int
  me_key :: "config_key option"
  me_version :: "int option"

record cms_audit =
  ma_id :: string
  ma_at :: int
  ma_action :: string
  ma_kind :: "config_kind option"
  ma_name :: "string option"
  ma_version :: "int option"
  ma_by :: "string option"
  ma_detail :: payload

text \<open>
  The service's settings: the default locale, the cache's time to live, \<open>str\<close> of a value and of an
  integer, and what pydantic makes of a value that is no boolean where a boolean is due.
\<close>

record cms_config =
  cc_locale :: lang
  cc_ttl :: real
  cc_str :: "json \<Rightarrow> string"
  cc_show :: "int \<Rightarrow> string"
  cc_bool :: "json \<Rightarrow> bool option"

text \<open>The cache reads a monotonic clock of its own.\<close>

record cms_state = base +
  mono :: "nat \<Rightarrow> real"
  mono_reads :: nat
  current :: "(string, config_record) dict"
  history :: "(string, config_version list) dict"
  ckeys :: "(string, config_key) dict"
  cache :: "(string, config_record \<times> real) dict"
  cms_events :: "cms_event list"
  cms_trail :: "cms_audit list"

subsection \<open>Validation\<close>

definition require_that :: "bool \<Rightarrow> string \<Rightarrow> cms_exn + unit" where
  "require_that b msg = (if b then Inr () else Inl (ConfigValidationError msg))"

text \<open>\<open>findall\<close> of the placeholder pattern: the names, in order.\<close>

function find_vars :: "string \<Rightarrow> string list" where
  "find_vars s =
     (case match_var s of
        Some (name, rest) \<Rightarrow> name # find_vars rest
      | None \<Rightarrow> (case s of [] \<Rightarrow> [] | c # cs \<Rightarrow> find_vars cs))"
  by pat_completeness auto

termination
  by (relation "measure length") (auto simp: match_var_shorter)

declare find_vars.simps [simp del]

fun is_text :: "json \<Rightarrow> bool" where
  "is_text (JStr s) = True"
| "is_text _ = False"

fun text_val :: "json \<Rightarrow> string" where
  "text_val (JStr s) = s"
| "text_val _ = []"

definition validate_template :: "payload \<Rightarrow> cms_exn + unit" where
  "validate_template v =
     (case jget v ''body'' of
        JStr body \<Rightarrow>
          if strip body = [] then Inl (ConfigValidationError (''Template '' @ quoted ''body'' @ '' must be a non-empty string''))
          else
            (case jget v ''variables'' of
               JNull \<Rightarrow> Inr ()
             | JList ds \<Rightarrow>
                 if \<not> list_all is_text ds
                 then Inl (ConfigValidationError (''Template '' @ quoted ''variables'' @ '' must be a list of strings''))
                 else
                   let unknown = filter (\<lambda>n. n \<notin> set (map text_val ds)) (find_vars body)
                   in require_that (unknown = [])
                        (''Template uses undeclared variables: '' @ join '', '' (sort (remdups unknown)))
             | _ \<Rightarrow> Inl (ConfigValidationError (''Template '' @ quoted ''variables'' @ '' must be a list of strings'')))
      | _ \<Rightarrow> Inl (ConfigValidationError (''Template '' @ quoted ''body'' @ '' must be a non-empty string'')))"

fun validate_items :: "string list \<Rightarrow> json list \<Rightarrow> cms_exn + unit" where
  "validate_items seen [] = Inr ()"
| "validate_items seen (JObj item # items) =
     (case jget item ''code'' of
        JStr cd \<Rightarrow>
          if cd = [] then Inl (ConfigValidationError (''Each checklist item needs a '' @ quoted ''code''))
          else if cd \<in> set seen
          then Inl (ConfigValidationError (''Duplicate checklist item code: '' @ cd))
          else validate_items (cd # seen) items
      | _ \<Rightarrow> Inl (ConfigValidationError (''Each checklist item needs a '' @ quoted ''code'')))"
| "validate_items seen (_ # items) = Inl (ConfigValidationError ''Each checklist item must be an object'')"

definition validate_checklist :: "payload \<Rightarrow> cms_exn + unit" where
  "validate_checklist v =
     (case jget v ''items'' of
        JList items \<Rightarrow> validate_items [] items
      | _ \<Rightarrow> Inl (ConfigValidationError (''Checklist '' @ quoted ''items'' @ '' must be a list'')))"

fun validate_steps :: "json list \<Rightarrow> cms_exn + unit" where
  "validate_steps [] = Inr ()"
| "validate_steps (JObj step # steps) =
     (if dget step ''offset'' = None
      then Inl (ConfigValidationError (''Each nudge schedule step needs an '' @ quoted ''offset''))
      else validate_steps steps)"
| "validate_steps (_ # steps) =
     Inl (ConfigValidationError ''Each nudge schedule step must be an object'')"

definition validate_nudge :: "payload \<Rightarrow> cms_exn + unit" where
  "validate_nudge v =
     (case jget v ''schedule'' of
        JList (step # steps) \<Rightarrow> validate_steps (step # steps)
      | _ \<Rightarrow> Inl (ConfigValidationError (''Nudge '' @ quoted ''schedule'' @ '' must be a non-empty list'')))"

text \<open>A value is a dictionary by its type, so \<open>_validate_any\<close> always passes.\<close>

fun validate :: "config_kind \<Rightarrow> payload \<Rightarrow> cms_exn + unit" where
  "validate TEMPLATE v = validate_template v"
| "validate CHECKLIST v = validate_checklist v"
| "validate NUDGE v = validate_nudge v"
| "validate WORKFLOW v = Inr ()"
| "validate SETTING v = Inr ()"

subsection \<open>The versioned store\<close>

definition get_current :: "config_key \<Rightarrow> cms_state \<Rightarrow> config_record option" where
  "get_current k s = dget (current s) (identity k)"

definition list_versions :: "config_key \<Rightarrow> cms_state \<Rightarrow> config_version list" where
  "list_versions k s = (case dget (history s) (identity k) of None \<Rightarrow> [] | Some vs \<Rightarrow> vs)"

definition get_version :: "config_key \<Rightarrow> int \<Rightarrow> cms_state \<Rightarrow> config_version option" where
  "get_version k n s = find (\<lambda>v. cv_version v = n) (list_versions k s)"

definition save_new_version ::
  "config_key \<Rightarrow> payload \<Rightarrow> string option \<Rightarrow> string option \<Rightarrow> cms_state \<Rightarrow> config_record \<times> cms_state"
where
  "save_new_version k v comment by_whom s =
     (let i = identity k;
          vs = list_versions k s;
          n = (if vs = [] then 1 else cv_version (List.last vs) + 1);
          now = utcnow s;
          r = \<lparr>cr_key = k, cr_version = n, cr_value = v, cr_comment = comment, cr_by = by_whom,
               cr_created = (case dget (current s) i of None \<Rightarrow> now | Some e \<Rightarrow> cr_created e),
               cr_updated = now\<rparr>;
          h = \<lparr>cv_id = new_id ''cfgv'' s, cv_key = k, cv_version = n, cv_value = v,
               cv_comment = comment, cv_by = by_whom, cv_created = now\<rparr>
      in (r, (tick (mint s))\<lparr>current := dput i r (current s), ckeys := dput i k (ckeys s),
                            history := dput i (vs @ [h]) (history s)\<rparr>))"

definition delete_current :: "config_key \<Rightarrow> cms_state \<Rightarrow> bool \<times> cms_state" where
  "delete_current k s =
     (get_current k s \<noteq> None, s\<lparr>current := dpop (identity k) (current s)\<rparr>)"

definition list_keys :: "config_kind option \<Rightarrow> cms_state \<Rightarrow> config_key list" where
  "list_keys kind s =
     (let ks = map (\<lambda>i. the (dget (ckeys s) i)) (dkeys (current s))
      in case kind of None \<Rightarrow> ks | Some c \<Rightarrow> filter (\<lambda>k. ck_kind k = c) ks)"

subsection \<open>The cache\<close>

definition mono_now :: "cms_state \<Rightarrow> real" where
  "mono_now s = mono s (mono_reads s)"

definition mono_tick :: "cms_state \<Rightarrow> cms_state" where
  "mono_tick s = s\<lparr>mono_reads := Suc (mono_reads s)\<rparr>"

definition cache_get :: "string \<Rightarrow> cms_state \<Rightarrow> config_record option \<times> cms_state" where
  "cache_get i s =
     (case dget (cache s) i of
        None \<Rightarrow> (None, s)
      | Some (r, expires) \<Rightarrow>
          if expires \<le> mono_now s then (None, (mono_tick s)\<lparr>cache := dpop i (cache s)\<rparr>)
          else (Some r, mono_tick s))"

definition cache_set :: "cms_config \<Rightarrow> string \<Rightarrow> config_record \<Rightarrow> cms_state \<Rightarrow> cms_state" where
  "cache_set cf i r s = (mono_tick s)\<lparr>cache := dput i (r, mono_now s + cc_ttl cf) (cache s)\<rparr>"

definition cache_invalidate :: "string \<Rightarrow> cms_state \<Rightarrow> cms_state" where
  "cache_invalidate i s = s\<lparr>cache := dpop i (cache s)\<rparr>"

definition cache_clear :: "cms_state \<Rightarrow> cms_state" where
  "cache_clear s = s\<lparr>cache := []\<rparr>"

subsection \<open>Events and audit\<close>

definition cms_publish ::
  "cms_event_type \<Rightarrow> config_key option \<Rightarrow> int option \<Rightarrow> cms_state \<Rightarrow> cms_state"
where
  "cms_publish ty k n s =
     (tick (mint s))\<lparr>cms_events := cms_events s @
        [\<lparr>me_id = new_id ''cmsevt'' s, me_type = ty, me_at = utcnow s, me_key = k, me_version = n\<rparr>]\<rparr>"

definition cms_emit :: "cms_event_type \<Rightarrow> config_record \<Rightarrow> cms_state \<Rightarrow> cms_state" where
  "cms_emit ty r s = cms_publish ty (Some (cr_key r)) (Some (cr_version r)) s"

definition cms_record ::
  "string \<Rightarrow> config_key option \<Rightarrow> int option \<Rightarrow> string option \<Rightarrow> payload \<Rightarrow> cms_state \<Rightarrow> cms_state"
where
  "cms_record action k n by_whom detail s =
     (tick (mint s))\<lparr>cms_trail := cms_trail s @
        [\<lparr>ma_id = new_id ''cmsaud'' s, ma_at = utcnow s, ma_action = action,
          ma_kind = map_option ck_kind k, ma_name = map_option ck_name k, ma_version = n,
          ma_by = by_whom, ma_detail = detail\<rparr>]\<rparr>"

definition list_entries :: "string option \<Rightarrow> cms_state \<Rightarrow> cms_audit list" where
  "list_entries name s =
     (case name of None \<Rightarrow> cms_trail s | Some n \<Rightarrow> filter (\<lambda>e. ma_name e = Some n) (cms_trail s))"

subsection \<open>Configuration\<close>

definition upsert ::
  "config_key \<Rightarrow> payload \<Rightarrow> string option \<Rightarrow> string option \<Rightarrow> cms_state \<Rightarrow>
     (cms_exn + config_record) \<times> cms_state"
where
  "upsert k v comment by_whom s =
     (case validate (ck_kind k) v of
        Inl e \<Rightarrow> (Inl e, s)
      | Inr u \<Rightarrow>
          let (r, s1) = save_new_version k v comment by_whom s;
              s2 = cache_invalidate (identity k) s1;
              s3 = cms_emit CONFIG_UPDATED r s2
          in (Inr r, cms_record ''upsert'' (Some k) (Some (cr_version r)) by_whom [] s3))"

definition get_config ::
  "cms_config \<Rightarrow> config_key \<Rightarrow> bool \<Rightarrow> cms_state \<Rightarrow> config_record option \<times> cms_state"
where
  "get_config cf k use_cache s =
     (let (cached, s1) = (if use_cache then cache_get (identity k) s else (None, s))
      in case cached of
           Some r \<Rightarrow> (Some r, s1)
         | None \<Rightarrow>
             (case get_current k s1 of
                None \<Rightarrow> (None, s1)
              | Some r \<Rightarrow> (Some r, if use_cache then cache_set cf (identity k) r s1 else s1)))"

definition require_config ::
  "cms_config \<Rightarrow> config_key \<Rightarrow> cms_state \<Rightarrow> (cms_exn + config_record) \<times> cms_state"
where
  "require_config cf k s =
     (case get_config cf k True s of
        (None, s1) \<Rightarrow> (Inl (ConfigNotFoundError (ck_kind k) (ck_name k)), s1)
      | (Some r, s1) \<Rightarrow> (Inr r, s1))"

definition rollback ::
  "cms_config \<Rightarrow> config_key \<Rightarrow> int \<Rightarrow> string option \<Rightarrow> cms_state \<Rightarrow>
     (cms_exn + config_record) \<times> cms_state"
where
  "rollback cf k n by_whom s =
     (case get_version k n s of
        None \<Rightarrow> (Inl (ConfigVersionNotFoundError (ck_kind k) (ck_name k) n), s)
      | Some v \<Rightarrow>
          let (r, s1) = save_new_version k (cv_value v) (Some (''rollback to v'' @ cc_show cf n)) by_whom s;
              s2 = cache_invalidate (identity k) s1;
              s3 = cms_emit CONFIG_ROLLED_BACK r s2
          in (Inr r, cms_record ''rollback'' (Some k) (Some (cr_version r)) by_whom
                       [(''restored_from'', JInt n)] s3))"

definition delete_config ::
  "config_key \<Rightarrow> string option \<Rightarrow> cms_state \<Rightarrow> bool \<times> cms_state"
where
  "delete_config k by_whom s =
     (let (existed, s1) = delete_current k s;
          s2 = cache_invalidate (identity k) s1
      in (existed,
          if existed
          then cms_record ''delete'' (Some k) None by_whom [] (cms_publish CONFIG_DELETED (Some k) None s2)
          else s2))"

definition refresh :: "cms_state \<Rightarrow> cms_state" where
  "refresh s =
     cms_record ''refresh'' None None None [] (cms_publish CONFIG_REFRESHED None None (cache_clear s))"

subsection \<open>Templates\<close>

definition put_if :: "string \<Rightarrow> json option \<Rightarrow> payload \<Rightarrow> payload" where
  "put_if k v pl = (case v of None \<Rightarrow> pl | Some x \<Rightarrow> dput k x pl)"

definition template_value ::
  "string \<Rightarrow> string list option \<Rightarrow> string option \<Rightarrow> payload list option \<Rightarrow> payload"
where
  "template_value body vars subject buttons =
     put_if ''buttons'' (map_option (\<lambda>bs. JList (map JObj bs)) buttons)
       (put_if ''subject'' (map_option JStr subject)
         (put_if ''variables'' (map_option (\<lambda>vs. JList (map JStr vs)) vars)
           [(''body'', JStr body)]))"

definition upsert_template ::
  "string \<Rightarrow> lang \<Rightarrow> string \<Rightarrow> channel option \<Rightarrow> string list option \<Rightarrow> string option \<Rightarrow> string option \<Rightarrow>
     string option \<Rightarrow> payload list option \<Rightarrow> cms_state \<Rightarrow> (cms_exn + config_record) \<times> cms_state"
where
  "upsert_template name l body ch vars comment by_whom subject buttons s =
     upsert \<lparr>ck_kind = TEMPLATE, ck_name = name, ck_channel = ch, ck_locale = Some l\<rparr>
       (template_value body vars subject buttons) comment by_whom s"

text \<open>The places a template is looked for, in order.\<close>

definition template_attempts ::
  "cms_config \<Rightarrow> channel option \<Rightarrow> lang \<Rightarrow> (channel option \<times> lang) list"
where
  "template_attempts cf ch l =
     [(ch, l)] @ (if ch \<noteq> None then [(None, l)] else []) @
     (if l \<noteq> cc_locale cf
      then [(ch, cc_locale cf)] @ (if ch \<noteq> None then [(None, cc_locale cf)] else [])
      else [])"

fun first_config ::
  "cms_config \<Rightarrow> string \<Rightarrow> (channel option \<times> lang) list \<Rightarrow> cms_state \<Rightarrow> config_record option \<times> cms_state"
where
  "first_config cf name [] s = (None, s)"
| "first_config cf name ((ch, l) # rest) s =
     (case get_config cf \<lparr>ck_kind = TEMPLATE, ck_name = name, ck_channel = ch, ck_locale = Some l\<rparr> True s of
        (Some r, s1) \<Rightarrow> (Some r, s1)
      | (None, s1) \<Rightarrow> first_config cf name rest s1)"

definition get_template ::
  "cms_config \<Rightarrow> string \<Rightarrow> lang \<Rightarrow> channel option \<Rightarrow> cms_state \<Rightarrow> config_record option \<times> cms_state"
where
  "get_template cf name l ch s = first_config cf name (template_attempts cf ch l) s"

definition cms_text :: "cms_config \<Rightarrow> json \<Rightarrow> string" where
  "cms_text cf v = (case v of JStr x \<Rightarrow> x | _ \<Rightarrow> cc_str cf v)"

definition get_template_body ::
  "cms_config \<Rightarrow> string \<Rightarrow> lang \<Rightarrow> channel option \<Rightarrow> cms_state \<Rightarrow> string option \<times> cms_state"
where
  "get_template_body cf name l ch s =
     (case get_template cf name l ch s of
        (r, s1) \<Rightarrow> (map_option (\<lambda>x. cms_text cf (jget (cr_value x) ''body'')) r, s1))"

subsection \<open>Checklists\<close>

definition item_value :: "checklist_item \<Rightarrow> json" where
  "item_value i =
     JObj [(''code'', JStr (ci_code i)),
           (''label'', JObj (map (\<lambda>(k, v). (k, JStr v)) (ci_label i))),
           (''required'', JBool (ci_required i)),
           (''category'', opt_text (ci_category i))]"

definition checklist_value :: "checklist_item list \<Rightarrow> payload" where
  "checklist_value items = [(''items'', JList (map item_value items))]"

text \<open>\<open>ChecklistItem.model_validate\<close>: a field of another type is a validation error.\<close>

fun text_fields :: "payload \<Rightarrow> (string, string) dict option" where
  "text_fields [] = Some []"
| "text_fields ((k, JStr v) # d) = map_option (\<lambda>r. (k, v) # r) (text_fields d)"
| "text_fields (_ # d) = None"

definition label_of :: "json option \<Rightarrow> (string, string) dict option" where
  "label_of v =
     (case v of None \<Rightarrow> Some [] | Some (JObj d) \<Rightarrow> text_fields d | Some _ \<Rightarrow> None)"

definition required_of :: "cms_config \<Rightarrow> json option \<Rightarrow> bool option" where
  "required_of cf v =
     (case v of None \<Rightarrow> Some True | Some (JBool b) \<Rightarrow> Some b | Some x \<Rightarrow> cc_bool cf x)"

definition category_of :: "json option \<Rightarrow> string option option" where
  "category_of v =
     (case v of None \<Rightarrow> Some None | Some JNull \<Rightarrow> Some None | Some (JStr x) \<Rightarrow> Some (Some x) | Some _ \<Rightarrow> None)"

fun parse_item :: "cms_config \<Rightarrow> json \<Rightarrow> checklist_item option" where
  "parse_item cf (JObj d) =
     (case (dget d ''code'', label_of (dget d ''label''), required_of cf (dget d ''required''),
            category_of (dget d ''category'')) of
        (Some (JStr cd), Some lb, Some rq, Some ct) \<Rightarrow>
          Some \<lparr>ci_code = cd, ci_label = lb, ci_required = rq, ci_category = ct\<rparr>
      | _ \<Rightarrow> None)"
| "parse_item cf _ = None"

fun parse_items :: "cms_config \<Rightarrow> json list \<Rightarrow> checklist_item list option" where
  "parse_items cf [] = Some []"
| "parse_items cf (x # xs) =
     (case parse_item cf x of
        None \<Rightarrow> None
      | Some i \<Rightarrow> map_option (\<lambda>is. i # is) (parse_items cf xs))"

text \<open>What iterating over a value yields; \<open>None\<close> is a \<open>TypeError\<close>.\<close>

fun json_iter :: "json \<Rightarrow> json list option" where
  "json_iter (JList xs) = Some xs"
| "json_iter (JStr x) = Some (map (\<lambda>c. JStr [c]) x)"
| "json_iter (JObj d) = Some (map (JStr \<circ> fst) d)"
| "json_iter _ = None"

definition parse_checklist :: "cms_config \<Rightarrow> payload \<Rightarrow> cms_exn + checklist_item list" where
  "parse_checklist cf v =
     (case json_iter (case dget v ''items'' of None \<Rightarrow> JList [] | Some x \<Rightarrow> x) of
        None \<Rightarrow> Inl (CmsPyError ''TypeError'')
      | Some xs \<Rightarrow>
          (case parse_items cf xs of
             None \<Rightarrow> Inl (CmsPyError ''ValidationError'')
           | Some is \<Rightarrow> Inr is))"

definition plain_key :: "config_kind \<Rightarrow> string \<Rightarrow> config_key" where
  "plain_key kind name = \<lparr>ck_kind = kind, ck_name = name, ck_channel = None, ck_locale = None\<rparr>"

definition upsert_checklist ::
  "string \<Rightarrow> checklist_item list \<Rightarrow> string option \<Rightarrow> string option \<Rightarrow> cms_state \<Rightarrow>
     (cms_exn + config_record) \<times> cms_state"
where
  "upsert_checklist name items comment by_whom s =
     upsert (plain_key CHECKLIST name) (checklist_value items) comment by_whom s"

definition get_checklist ::
  "cms_config \<Rightarrow> string \<Rightarrow> cms_state \<Rightarrow> (cms_exn + checklist_item list) \<times> cms_state"
where
  "get_checklist cf name s =
     (case get_config cf (plain_key CHECKLIST name) True s of
        (None, s1) \<Rightarrow> (Inr [], s1)
      | (Some r, s1) \<Rightarrow> (parse_checklist cf (cr_value r), s1))"

subsection \<open>Runtime variables\<close>

definition GLOBAL_VARIABLES :: string where
  "GLOBAL_VARIABLES = ''global_variables''"

definition set_variables ::
  "payload \<Rightarrow> string \<Rightarrow> string option \<Rightarrow> cms_state \<Rightarrow> (cms_exn + config_record) \<times> cms_state"
where
  "set_variables vars name by_whom s = upsert (plain_key SETTING name) vars None by_whom s"

definition get_variables :: "cms_config \<Rightarrow> string \<Rightarrow> cms_state \<Rightarrow> payload \<times> cms_state" where
  "get_variables cf name s =
     (case get_config cf (plain_key SETTING name) True s of
        (None, s1) \<Rightarrow> ([], s1)
      | (Some r, s1) \<Rightarrow> (cr_value r, s1))"

end
