(* ===== verification/Cms_Inv.thy ===== *)
theory Cms_Inv
  imports Cms
begin

section \<open>The invariant of the CMS\<close>

text \<open>
  Keys are told apart by their identity text; versions are numbered from one without gaps, the
  current record is the last version, every stored value passed its validator, and the cache agrees
  with the store. Every operation keeps this and only appends to the histories.
\<close>

subsection \<open>Identities\<close>

definition channel_part :: "channel option \<Rightarrow> string" where
  "channel_part ch = (case ch of None \<Rightarrow> ''*'' | Some c \<Rightarrow> channel_value c)"

definition locale_part :: "lang option \<Rightarrow> string" where
  "locale_part l = (case l of None \<Rightarrow> ''*'' | Some x \<Rightarrow> lang_value x)"

lemma identity_parts:
  "identity k = config_kind_value (ck_kind k) @ '':'' @ ck_name k @ '':'' @ channel_part (ck_channel k) @
     '':'' @ locale_part (ck_locale k)"
  by (simp add: identity_def channel_part_def locale_part_def)

lemma kind_colon: "CHR '':'' \<notin> set (config_kind_value c)"
  by (cases c) simp_all

lemma channel_colon: "CHR '':'' \<notin> set (channel_part ch)"
proof (cases ch)
  case (Some c)
  then show ?thesis by (cases c) (simp_all add: channel_part_def)
qed (simp add: channel_part_def)

lemma locale_colon: "CHR '':'' \<notin> set (locale_part l)"
proof (cases l)
  case (Some x)
  then show ?thesis by (cases x) (simp_all add: locale_part_def)
qed (simp add: locale_part_def)

lemma kind_inj: "config_kind_value a = config_kind_value b \<Longrightarrow> a = b"
  by (cases a; cases b) simp_all

lemma star_parts:
  "channel_value c \<noteq> ''*''" "''*'' \<noteq> channel_value c" "lang_value l \<noteq> ''*''" "''*'' \<noteq> lang_value l"
  by (cases c; cases l; simp)+

lemma channel_inj: "channel_part a = channel_part b \<Longrightarrow> a = b"
  by (cases a; cases b) (auto simp: channel_part_def star_parts elim!: channel_value.elims)

lemma locale_inj: "locale_part a = locale_part b \<Longrightarrow> a = b"
  by (cases a; cases b) (auto simp: locale_part_def star_parts elim!: lang_value.elims)

lemma split_first:
  "a \<notin> set xs \<Longrightarrow> a \<notin> set us \<Longrightarrow> xs @ a # ys = us @ a # vs \<longleftrightarrow> xs = us \<and> ys = vs"
  by (induction xs arbitrary: us) (case_tac us; auto)+

lemma split_last:
  assumes "a \<notin> set ys" "a \<notin> set vs"
  shows "xs @ a # ys = us @ a # vs \<longleftrightarrow> xs = us \<and> ys = vs"
proof -
  have "rev (xs @ a # ys) = rev (us @ a # vs) \<longleftrightarrow> rev ys = rev vs \<and> rev xs = rev us"
    using split_first [of a "rev ys" "rev vs"] assms by simp
  then show ?thesis by (simp del: rev_append rev.simps) auto
qed

lemma identity_inj [simp]: "identity k = identity k' \<longleftrightarrow> k = k'"
proof
  assume e: "identity k = identity k'"
  have "config_kind_value (ck_kind k) = config_kind_value (ck_kind k') \<and>
    ck_name k @ '':'' @ channel_part (ck_channel k) @ '':'' @ locale_part (ck_locale k) =
    ck_name k' @ '':'' @ channel_part (ck_channel k') @ '':'' @ locale_part (ck_locale k')"
    using e split_first [OF kind_colon kind_colon] unfolding identity_parts by simp
  moreover from this have "(ck_name k @ '':'' @ channel_part (ck_channel k)) @ CHR '':'' # locale_part (ck_locale k) =
    (ck_name k' @ '':'' @ channel_part (ck_channel k')) @ CHR '':'' # locale_part (ck_locale k')" by simp
  then have "ck_name k @ '':'' @ channel_part (ck_channel k) = ck_name k' @ '':'' @ channel_part (ck_channel k')"
    "locale_part (ck_locale k) = locale_part (ck_locale k')"
    unfolding split_last [OF locale_colon locale_colon] by simp_all
  ultimately show "k = k'"
    using split_last [OF channel_colon channel_colon, of "ck_name k" "ck_channel k" "ck_name k'" "ck_channel k'"]
    by (auto dest: kind_inj channel_inj locale_inj intro: config_key.equality)
qed simp

subsection \<open>The invariant\<close>

definition numbered :: "config_version list \<Rightarrow> bool" where
  "numbered vs \<longleftrightarrow> map cv_version vs = map int [1..<Suc (length vs)]"

definition cms_ok :: "cms_state \<Rightarrow> bool" where
  "cms_ok s \<longleftrightarrow>
     (\<forall>k r e. dget (cache s) (identity k) = Some (r, e) \<longrightarrow> get_current k s = Some r) \<and>
     (\<forall>k. numbered (list_versions k s) \<and>
        (\<forall>v \<in> set (list_versions k s). cv_key v = k \<and> validate (ck_kind k) (cv_value v) = Inr ())) \<and>
     (\<forall>k r. get_current k s = Some r \<longrightarrow> cr_key r = k \<and> list_versions k s \<noteq> [] \<and>
        cv_version (List.last (list_versions k s)) = cr_version r \<and>
        cv_value (List.last (list_versions k s)) = cr_value r)"

definition cms_grows :: "cms_state \<Rightarrow> cms_state \<Rightarrow> bool" where
  "cms_grows s t \<longleftrightarrow> (cms_ok s \<longrightarrow> cms_ok t) \<and> (\<forall>k. \<exists>vs. list_versions k t = list_versions k s @ vs)"

lemma cms_grows_refl [simp]: "cms_grows s s"
  by (simp add: cms_grows_def)

lemma cms_grows_trans: "cms_grows s t \<Longrightarrow> cms_grows t u \<Longrightarrow> cms_grows s u"
  unfolding cms_grows_def by (metis append.assoc)

lemma numbered_Nil [simp]: "numbered []"
  by (simp add: numbered_def)

lemma numbered_snoc:
  assumes "numbered vs" "cv_version v = (if vs = [] then 1 else cv_version (List.last vs) + 1)"
  shows "cv_version v = int (length vs) + 1" "numbered (vs @ [v])"
proof -
  have "cv_version (List.last vs) = int (length vs)" if "vs \<noteq> []"
  proof -
    have "List.last (map cv_version vs) = List.last (map int [1..<Suc (length vs)])"
      using assms(1) by (simp add: numbered_def)
    with that show ?thesis by (cases "length vs") (simp_all add: last_map)
  qed
  with assms(2) show n: "cv_version v = int (length vs) + 1" by auto
  with assms(1) show "numbered (vs @ [v])" by (simp add: numbered_def)
qed

subsection \<open>Frames\<close>

definition same_store :: "cms_state \<Rightarrow> cms_state \<Rightarrow> bool" where
  "same_store s t \<longleftrightarrow> current t = current s \<and> history t = history s"

definition same_cms :: "cms_state \<Rightarrow> cms_state \<Rightarrow> bool" where
  "same_cms s t \<longleftrightarrow> same_store s t \<and> cache t = cache s"

lemma same_cms_refl [simp]: "same_cms s s"
  by (simp add: same_cms_def same_store_def)

lemma cms_publish_frame [simp]: "same_cms s (cms_publish ty k n t) = same_cms s t"
  by (simp add: same_cms_def same_store_def cms_publish_def tick_def mint_def)

lemma cms_record_frame [simp]: "same_cms s (cms_record a k n b d t) = same_cms s t"
  by (simp add: same_cms_def same_store_def cms_record_def tick_def mint_def)

lemma cms_emit_frame [simp]: "same_cms s (cms_emit ty r t) = same_cms s t"
  by (simp add: cms_emit_def)

lemma same_store_reads:
  "same_store s t \<Longrightarrow> get_current k t = get_current k s"
  "same_store s t \<Longrightarrow> list_versions k t = list_versions k s"
  by (simp_all add: same_store_def get_current_def list_versions_def)

lemma same_cms_grows: "same_cms s t \<Longrightarrow> cms_grows s t"
proof -
  assume "same_cms s t"
  then have "same_store s t" "cache t = cache s" by (simp_all add: same_cms_def)
  then show ?thesis by (simp add: cms_grows_def cms_ok_def same_store_reads [of s t])
qed

lemma cms_grows_frame: "cms_grows s t \<Longrightarrow> same_cms t u \<Longrightarrow> cms_grows s u"
  using cms_grows_trans same_cms_grows by blast

subsection \<open>Writing\<close>

text \<open>
  A new version with the eviction that follows it, as \<open>upsert\<close> and \<open>rollback\<close> do.
\<close>

lemma write_effect:
  assumes "save_new_version k v c b s = (r, s1)"
  defines "t \<equiv> cache_invalidate (identity k) s1"
  obtains h where "\<And>k'. get_current k' t = (if k' = k then Some r else get_current k' s)"
    "\<And>k'. list_versions k' t = (if k' = k then list_versions k s @ [h] else list_versions k' s)"
    "cache t = dpop (identity k) (cache s)" "cv_key h = k" "cv_value h = v"
    "cv_version h = (if list_versions k s = [] then 1 else cv_version (List.last (list_versions k s)) + 1)"
    "cr_key r = k" "cr_value r = v" "cr_version r = cv_version h"
proof -
  define h where "h = \<lparr>cv_id = new_id ''cfgv'' s, cv_key = k, cv_version =
      (if list_versions k s = [] then 1 else cv_version (List.last (list_versions k s)) + 1),
      cv_value = v, cv_comment = c, cv_by = b, cv_created = utcnow s\<rparr>"
  have t: "t = (tick (mint s))\<lparr>current := dput (identity k) r (current s), ckeys := dput (identity k) k (ckeys s),
      history := dput (identity k) (list_versions k s @ [h]) (history s), cache := dpop (identity k) (cache s)\<rparr>"
    and r: "cr_key r = k" "cr_value r = v" "cr_version r = cv_version h"
    using assms by (auto simp: save_new_version_def Let_def cache_invalidate_def h_def tick_def mint_def)
  show thesis
    by (rule that [of h, OF _ _ _ _ _ _ r])
      (simp_all add: t get_current_def list_versions_def h_def)
qed

lemma write_grows:
  assumes "save_new_version k v c b s = (r, s1)" and "validate (ck_kind k) v = Inr ()"
  shows "cms_grows s (cache_invalidate (identity k) s1)"
proof -
  define t where "t = cache_invalidate (identity k) s1"
  obtain h where h: "\<And>k'. get_current k' t = (if k' = k then Some r else get_current k' s)"
    "\<And>k'. list_versions k' t = (if k' = k then list_versions k s @ [h] else list_versions k' s)"
    "cache t = dpop (identity k) (cache s)" "cv_key h = k" "cv_value h = v"
    "cv_version h = (if list_versions k s = [] then 1 else cv_version (List.last (list_versions k s)) + 1)"
    "cr_key r = k" "cr_value r = v" "cr_version r = cv_version h"
    by (rule write_effect [OF assms(1), folded t_def]) (rule that)
  have "cms_ok t" if ok: "cms_ok s"
  proof -
    have n: "numbered (list_versions k s)" using ok by (simp add: cms_ok_def)
    from ok show ?thesis unfolding cms_ok_def
      using numbered_snoc(2) [OF n h(6)] assms(2) h(4,5,7-9)
      by (auto simp: h(1-3))
  qed
  then show ?thesis by (auto simp: cms_grows_def t_def [symmetric] h(2))
qed

subsection \<open>The operations\<close>

lemma upsert_cases:
  assumes "upsert k v c b s = (x, t)"
  obtains (invalid) e where "validate (ck_kind k) v = Inl e" "x = Inl e" "t = s"
  | (stored) r s1 where "validate (ck_kind k) v = Inr ()" "save_new_version k v c b s = (r, s1)" "x = Inr r"
      "same_cms (cache_invalidate (identity k) s1) t"
proof (cases "validate (ck_kind k) v")
  case (Inl e)
  with assms have "x = Inl e" "t = s" by (auto simp: upsert_def)
  with Inl show thesis by (rule invalid)
next
  case (Inr u)
  obtain r s1 where sv: "save_new_version k v c b s = (r, s1)" by force
  have "x = Inr r" "same_cms (cache_invalidate (identity k) s1) t"
    using assms Inr sv by (auto simp: upsert_def Let_def)
  with Inr sv show thesis using stored by simp
qed

lemma upsert_grows:
  assumes "upsert k v c b s = (x, t)"
  shows "cms_grows s t"
  using assms
proof (cases rule: upsert_cases)
  case (stored r s1)
  then show ?thesis using cms_grows_frame [OF write_grows [OF stored(2,1)]] by blast
qed simp

lemma rollback_cases:
  assumes "rollback cf k n b s = (x, t)"
  obtains (missing) "get_version k n s = None" "x = Inl (ConfigVersionNotFoundError (ck_kind k) (ck_name k) n)"
      "t = s"
  | (stored) v r s1 where "get_version k n s = Some v"
      "save_new_version k (cv_value v) (Some (''rollback to v'' @ cc_show cf n)) b s = (r, s1)" "x = Inr r"
      "same_cms (cache_invalidate (identity k) s1) t"
proof (cases "get_version k n s")
  case None
  with assms have "x = Inl (ConfigVersionNotFoundError (ck_kind k) (ck_name k) n)" "t = s"
    by (auto simp: rollback_def)
  with None show thesis by (rule missing)
next
  case (Some v)
  obtain r s1 where sv: "save_new_version k (cv_value v) (Some (''rollback to v'' @ cc_show cf n)) b s = (r, s1)"
    by force
  have "x = Inr r" "same_cms (cache_invalidate (identity k) s1) t"
    using assms Some sv by (auto simp: rollback_def Let_def)
  with Some sv show thesis using stored by blast
qed

lemma find_in: "find P xs = Some x \<Longrightarrow> x \<in> set xs \<and> P x"
  by (induction xs) (auto split: if_splits)

lemma get_version_in: "get_version k n s = Some v \<Longrightarrow> v \<in> set (list_versions k s) \<and> cv_version v = n"
  unfolding get_version_def by (drule find_in) simp

lemma rollback_grows:
  assumes "rollback cf k n b s = (x, t)" "cms_ok s"
  shows "cms_grows s t"
  using assms(1)
proof (cases rule: rollback_cases)
  case (stored v r s1)
  from get_version_in [OF stored(1)] assms(2) have "validate (ck_kind k) (cv_value v) = Inr ()"
    by (simp add: cms_ok_def)
  with stored show ?thesis using write_grows cms_grows_frame by blast
qed simp

lemma delete_effect:
  assumes "delete_config k b s = (x, t)"
  shows "get_current k' t = (if k' = k then None else get_current k' s)"
    "list_versions k' t = list_versions k' s" "cache t = dpop (identity k) (cache s)"
    "x = (get_current k s \<noteq> None)"
proof -
  define u where "u = cache_invalidate (identity k) (snd (delete_current k s))"
  have "same_cms u t" "x = (get_current k s \<noteq> None)"
    using assms by (auto simp: delete_config_def delete_current_def Let_def u_def split: if_splits)
  then show "get_current k' t = (if k' = k then None else get_current k' s)"
    "list_versions k' t = list_versions k' s" "cache t = dpop (identity k) (cache s)"
    "x = (get_current k s \<noteq> None)"
    by (auto simp: same_cms_def same_store_def u_def delete_current_def cache_invalidate_def
        get_current_def list_versions_def)
qed

lemma delete_grows: "delete_config k b s = (x, t) \<Longrightarrow> cms_grows s t"
  unfolding cms_grows_def cms_ok_def by (simp add: delete_effect)

lemma refresh_grows: "cms_grows s (refresh s)"
proof -
  have "same_cms (cache_clear s) (refresh s)" by (simp add: refresh_def)
  moreover have "cms_grows s (cache_clear s)"
    by (simp add: cms_grows_def cms_ok_def cache_clear_def get_current_def list_versions_def)
  ultimately show ?thesis by (rule cms_grows_frame [rotated])
qed

subsection \<open>Reading\<close>

lemma cache_get_effect:
  assumes "cache_get i s = (x, t)"
  shows "same_store s t" "x = Some r \<Longrightarrow> \<exists>e. dget (cache s) i = Some (r, e)"
    "dget (cache t) j = Some p \<Longrightarrow> dget (cache s) j = Some p"
  using assms by (auto simp: cache_get_def mono_tick_def same_store_def split: option.splits if_splits)

lemma cache_set_effect:
  "same_store s (cache_set cf i r s)"
  "dget (cache (cache_set cf i r s)) j = (if j = i then Some (r, mono_now s + cc_ttl cf) else dget (cache s) j)"
  by (simp_all add: cache_set_def mono_tick_def same_store_def)

lemma cms_ok_cache:
  assumes "same_store s t" "cms_ok s"
    and "\<And>k r e. dget (cache t) (identity k) = Some (r, e) \<Longrightarrow> get_current k s = Some r"
  shows "cms_ok t"
  using assms(2,3) unfolding cms_ok_def same_store_reads [OF assms(1)] by blast

lemma get_config_effect:
  assumes "get_config cf k uc s = (x, t)"
  shows "same_store s t" "cms_ok s \<Longrightarrow> x = get_current k s" "cms_ok s \<Longrightarrow> cms_ok t"
proof -
  obtain c s1 where c: "(if uc then cache_get (identity k) s else (None, s)) = (c, s1)" by force
  have st: "same_store s s1"
    using c cache_get_effect(1) by (cases uc) (auto simp: same_store_def)
  have hit: "c = Some r \<Longrightarrow> cms_ok s \<Longrightarrow> get_current k s = Some r" for r
    using c cache_get_effect(2) by (cases uc) (auto simp: cms_ok_def)
  have sub: "dget (cache s1) j = Some p \<Longrightarrow> dget (cache s) j = Some p" for j p
    using c cache_get_effect(3) by (cases uc) auto
  note reads = same_store_reads [OF st]
  have ok1: "cms_ok s \<Longrightarrow> cms_ok s1" using sub by (auto simp: cms_ok_def reads)
  show "same_store s t" "cms_ok s \<Longrightarrow> x = get_current k s" "cms_ok s \<Longrightarrow> cms_ok t"
  proof (atomize (full), cases c)
    case (Some r)
    with assms c have "x = Some r" "t = s1" by (simp_all add: get_config_def)
    with st hit [OF Some] ok1 show "same_store s t \<and> (cms_ok s \<longrightarrow> x = get_current k s) \<and> (cms_ok s \<longrightarrow> cms_ok t)"
      by simp
  next
    case None
    show "same_store s t \<and> (cms_ok s \<longrightarrow> x = get_current k s) \<and> (cms_ok s \<longrightarrow> cms_ok t)"
    proof (cases "get_current k s1")
      case None
      with \<open>c = None\<close> assms c have "x = None" "t = s1" by (simp_all add: get_config_def)
      with st None ok1 reads show ?thesis by simp
    next
      case (Some r)
      with \<open>c = None\<close> assms c have x: "x = Some r" "t = (if uc then cache_set cf (identity k) r s1 else s1)"
        by (auto simp: get_config_def)
      have s1t: "same_store s1 t" using x(2) cache_set_effect(1) by (simp add: same_store_def)
      have "dget (cache t) (identity k') = Some (r', e) \<Longrightarrow> cms_ok s \<Longrightarrow> get_current k' s1 = Some r'" for k' r' e
        using x(2) ok1 Some by (cases uc) (auto simp: cache_set_effect(2) cms_ok_def split: if_splits)
      then have "cms_ok s \<Longrightarrow> cms_ok t" using cms_ok_cache [OF s1t] ok1 by blast
      moreover have "same_store s t" using st s1t by (simp add: same_store_def)
      moreover have "x = get_current k s" using x(1) Some reads(1) by simp
      ultimately show ?thesis by blast
    qed
  qed
qed

lemma get_config_grows: "get_config cf k uc s = (x, t) \<Longrightarrow> cms_grows s t"
  using get_config_effect same_store_reads(2) unfolding cms_grows_def by (metis append_Nil2)

subsection \<open>Runs\<close>

inductive cms_step :: "cms_config \<Rightarrow> cms_state \<Rightarrow> cms_state \<Rightarrow> bool" for cf where
  step_upsert: "upsert k v c b s = (x, t) \<Longrightarrow> cms_step cf s t"
| step_get: "get_config cf k uc s = (r, t) \<Longrightarrow> cms_step cf s t"
| step_rollback: "rollback cf k n b s = (x, t) \<Longrightarrow> cms_step cf s t"
| step_delete: "delete_config k b s = (ex, t) \<Longrightarrow> cms_step cf s t"
| step_refresh: "cms_step cf s (refresh s)"

abbreviation cms_steps :: "cms_config \<Rightarrow> cms_state \<Rightarrow> cms_state \<Rightarrow> bool" where
  "cms_steps cf \<equiv> (cms_step cf)\<^sup>*\<^sup>*"

definition cms_boot :: "cms_state \<Rightarrow> bool" where
  "cms_boot s \<longleftrightarrow> current s = [] \<and> history s = [] \<and> cache s = []"

lemma cms_boot_ok: "cms_boot s \<Longrightarrow> cms_ok s"
  by (simp add: cms_boot_def cms_ok_def get_current_def list_versions_def)

lemma cms_step_grows: "cms_step cf s t \<Longrightarrow> cms_ok s \<Longrightarrow> cms_grows s t"
  by (induction rule: cms_step.induct)
    (blast intro: upsert_grows get_config_grows rollback_grows delete_grows refresh_grows)+

lemma cms_grows_ok: "cms_grows s t \<Longrightarrow> cms_ok s \<Longrightarrow> cms_ok t"
  by (simp add: cms_grows_def)

lemma cms_steps_grow: "cms_steps cf s t \<Longrightarrow> cms_ok s \<Longrightarrow> cms_grows s t"
proof (induction rule: rtranclp_induct)
  case (step t u)
  then show ?case using cms_step_grows cms_grows_ok cms_grows_trans by blast
qed simp

lemma cms_reach_ok: "cms_boot s0 \<Longrightarrow> cms_steps cf s0 s \<Longrightarrow> cms_ok s"
  using cms_steps_grow cms_grows_ok cms_boot_ok by blast

text \<open>Looking a template up is a run of reads.\<close>

definition template_key :: "string \<Rightarrow> channel option \<times> lang \<Rightarrow> config_key" where
  "template_key name p = \<lparr>ck_kind = TEMPLATE, ck_name = name, ck_channel = fst p, ck_locale = Some (snd p)\<rparr>"

lemma first_config_effect:
  "first_config cf name ps s = (x, t) \<Longrightarrow> cms_ok s \<Longrightarrow>
     same_store s t \<and> cms_ok t \<and> cms_steps cf s t \<and>
     x = (case find (\<lambda>p. get_current (template_key name p) s \<noteq> None) ps of
            None \<Rightarrow> None | Some p \<Rightarrow> get_current (template_key name p) s)"
proof (induction ps arbitrary: s)
  case Nil
  then show ?case by (simp add: same_store_def)
next
  case (Cons p ps)
  obtain y s1 where g: "get_config cf (template_key name p) True s = (y, s1)" by force
  note e = get_config_effect [OF g]
  have st: "cms_steps cf s s1" using step_get [OF g] by blast
  show ?case
  proof (cases y)
    case None
    with Cons.prems(1) g have "first_config cf name ps s1 = (x, t)"
      by (cases p) (simp add: template_key_def)
    with Cons.IH e Cons.prems(2) have IH: "same_store s1 t" "cms_ok t" "cms_steps cf s1 t"
      "x = (case find (\<lambda>p. get_current (template_key name p) s1 \<noteq> None) ps of
            None \<Rightarrow> None | Some p \<Rightarrow> get_current (template_key name p) s1)" by blast+
    have "get_current (template_key name p) s = None" using e(2) Cons.prems(2) None by simp
    with IH(4) have "x = (case find (\<lambda>p. get_current (template_key name p) s \<noteq> None) (p # ps) of
            None \<Rightarrow> None | Some p \<Rightarrow> get_current (template_key name p) s)"
      unfolding same_store_reads(1) [OF e(1)] by simp
    moreover have "same_store s t" using IH(1) e(1) by (simp add: same_store_def)
    moreover have "cms_steps cf s t" using st IH(3) by (rule rtranclp_trans)
    ultimately show ?thesis using IH(2) by blast
  next
    case (Some r)
    with Cons.prems(1) g have "x = Some r" "t = s1"
      by (cases p; simp add: template_key_def)+
    with e Cons.prems(2) Some st show ?thesis by auto
  qed
qed

end
