(* ===== verification/Cms_Bridges.thy ===== *)
theory Cms_Bridges
  imports Cms Nudge Documents
begin

section \<open>The CMS behind the other services' ports\<close>

text \<open>
  The adapters through which communication reads templates, documents reads checklists and nudge
  reads schedules from the CMS: \<open>CmsTemplateProvider\<close>, \<open>CmsChecklistProvider\<close>,
  \<open>CmsNudgeConfigProvider\<close> with \<open>NudgeScheduleConfig.from_cms_value\<close>. \<open>int_text\<close> is Python's \<open>int\<close> of
  a text.
\<close>

subsection \<open>Templates\<close>

definition template_provider_get ::
  "cms_config \<Rightarrow> channel option \<Rightarrow> string \<Rightarrow> lang \<Rightarrow> cms_state \<Rightarrow>
     (cms_exn + template option) \<times> cms_state"
where
  "template_provider_get cf ch key l s =
     (case get_template cf key l ch s of
        (None, s1) \<Rightarrow> (Inr None, s1)
      | (Some r, s1) \<Rightarrow>
          let v = cr_value r;
              subject = (case jget v ''subject'' of JStr x \<Rightarrow> if x = [] then None else Some x | _ \<Rightarrow> None)
          in (case dget v ''body'' of
                None \<Rightarrow> (Inl (CmsPyError ''KeyError''), s1)
              | Some b \<Rightarrow> (Inr (Some \<lparr>tp_body = cms_text cf b, tp_subject = subject\<rparr>), s1)))"

subsection \<open>Checklists\<close>

definition cms_required ::
  "cms_config \<Rightarrow> string \<Rightarrow> cms_state \<Rightarrow> (cms_exn + required_doc list) \<times> cms_state"
where
  "cms_required cf name s =
     (case get_checklist cf name s of
        (Inl e, s1) \<Rightarrow> (Inl e, s1)
      | (Inr is, s1) \<Rightarrow> (Inr (map (\<lambda>i. \<lparr>rq_code = ci_code i, rq_required = ci_required i\<rparr>) is), s1))"

subsection \<open>Schedules\<close>

text \<open>\<open>int(v)\<close>, \<open>Channel(v)\<close>, \<open>v[k]\<close>: the value or the name of the exception.\<close>

definition py_int :: "(string \<Rightarrow> int option) \<Rightarrow> json \<Rightarrow> string + int" where
  "py_int int_text v =
     (case v of
        JInt i \<Rightarrow> Inr i
      | JBool b \<Rightarrow> Inr (if b then 1 else 0)
      | JReal r \<Rightarrow> Inr (if r < 0 then \<lceil>r\<rceil> else \<lfloor>r\<rfloor>)
      | JStr x \<Rightarrow> (case int_text x of Some i \<Rightarrow> Inr i | None \<Rightarrow> Inl ''ValueError'')
      | _ \<Rightarrow> Inl ''TypeError'')"

definition py_channel :: "json \<Rightarrow> string + channel" where
  "py_channel v =
     (if v = JStr ''whatsapp'' then Inr WHATSAPP else if v = JStr ''email'' then Inr EMAIL
      else Inl ''ValueError'')"

definition py_item :: "json \<Rightarrow> string \<Rightarrow> string + json" where
  "py_item v k =
     (case v of
        JObj d \<Rightarrow> (case dget d k of Some x \<Rightarrow> Inr x | None \<Rightarrow> Inl ''KeyError'')
      | _ \<Rightarrow> Inl ''TypeError'')"

fun try_map :: "('a \<Rightarrow> 'e + 'b) \<Rightarrow> 'a list \<Rightarrow> 'e + 'b list" where
  "try_map f [] = Inr []"
| "try_map f (x # xs) =
     (case f x of
        Inl e \<Rightarrow> Inl e
      | Inr y \<Rightarrow> (case try_map f xs of Inl e \<Rightarrow> Inl e | Inr ys \<Rightarrow> Inr (y # ys)))"

definition parse_channels :: "payload \<Rightarrow> string + channel list" where
  "parse_channels d =
     (case json_iter (case dget d ''channels'' of None \<Rightarrow> JList [] | Some x \<Rightarrow> x) of
        None \<Rightarrow> Inl ''TypeError''
      | Some cs \<Rightarrow> try_map py_channel cs)"

text \<open>One step: the offset, the channels, the template, in the order they are evaluated.\<close>

definition parse_step ::
  "cms_config \<Rightarrow> (string \<Rightarrow> int option) \<Rightarrow> json \<Rightarrow> string + nudge_step"
where
  "parse_step cf int_text item =
     (case py_item item ''offset'' of
        Inl e \<Rightarrow> Inl e
      | Inr ov \<Rightarrow>
          (case py_int int_text ov of
             Inl e \<Rightarrow> Inl e
           | Inr offset \<Rightarrow>
               let d = (case item of JObj x \<Rightarrow> x | _ \<Rightarrow> []) in
               (case parse_channels d of
                  Inl e \<Rightarrow> Inl e
                | Inr chs \<Rightarrow>
                    (case py_item item ''template_key'' of
                       Inl e \<Rightarrow> Inl e
                     | Inr key \<Rightarrow>
                         Inr \<lparr>k_offset = offset, k_channels = chs, k_template = cms_text cf key,
                              k_escalate = truthy (jget d ''escalate'')\<rparr>))))"

definition from_cms_value ::
  "cms_config \<Rightarrow> (string \<Rightarrow> int option) \<Rightarrow> string \<Rightarrow> payload \<Rightarrow> string + schedule"
where
  "from_cms_value cf int_text reason v =
     (case json_iter (case dget v ''schedule'' of None \<Rightarrow> JList [] | Some x \<Rightarrow> x) of
        None \<Rightarrow> Inl ''TypeError''
      | Some xs \<Rightarrow>
          (case try_map (parse_step cf int_text) xs of
             Inl e \<Rightarrow> Inl e
           | Inr steps \<Rightarrow>
               (case py_int int_text (case dget v ''max_attempts'' of None \<Rightarrow> JInt 3 | Some x \<Rightarrow> x) of
                  Inl e \<Rightarrow> Inl e
                | Inr n \<Rightarrow> Inr \<lparr>h_reason = reason, h_steps = steps, h_max_attempts = n\<rparr>)))"

definition cms_schedule ::
  "cms_config \<Rightarrow> (string \<Rightarrow> int option) \<Rightarrow> string \<Rightarrow> cms_state \<Rightarrow>
     ((nudge_exn + cms_exn) + schedule) \<times> cms_state"
where
  "cms_schedule cf int_text reason s =
     (case get_config cf (plain_key NUDGE reason) True s of
        (None, s1) \<Rightarrow> (Inl (Inl (ScheduleNotFoundError reason)), s1)
      | (Some r, s1) \<Rightarrow>
          (case from_cms_value cf int_text reason (cr_value r) of
             Inl e \<Rightarrow> (Inl (Inr (CmsPyError e)), s1)
           | Inr h \<Rightarrow> (Inr h, s1)))"

end
