(* ===== verification/Cms_Theorems.thy ===== *)
theory Cms_Theorems
  imports Cms_Inv Cms_Bridges
begin

section \<open>Properties of the CMS\<close>

text \<open>
  The cache never shows in a result, histories only grow, a rollback restores, a template that
  passed validation renders, a checklist is read back as it was written.
\<close>

subsection \<open>A demonstration service\<close>

definition demo_cms :: cms_config where
  "demo_cms =
     \<lparr>cc_locale = EN, cc_ttl = 60, cc_str = (\<lambda>v. ''?''), cc_show = (\<lambda>i. ''n''), cc_bool = (\<lambda>v. None)\<rparr>"

definition cms_start :: cms_state where
  "cms_start =
     \<lparr>clock = int, ticks = 0, entropy = (\<lambda>n. replicate n CHR ''x''), minted = 0, dice = (\<lambda>n. 0),
      rolled = 0, mono = real, mono_reads = 0, current = [], history = [], ckeys = [], cache = [],
      cms_events = [], cms_trail = []\<rparr>"

lemma cms_start_boot: "cms_boot cms_start"
  by (simp add: cms_boot_def cms_start_def)

subsection \<open>Reading\<close>

lemma find_attempts:
  "find P (template_attempts cf ch l) =
     find P [(ch, l), (None, l), (ch, cc_locale cf), (None, cc_locale cf)]"
  by (auto simp: template_attempts_def)

text \<open>
  C32. In every reachable state reading is the same with and without the cache: it returns the
  store's current record. A template is the current record of the first of four places that has one:
  the channel and the locale, any channel and the locale, the channel and the default locale, any
  channel and the default locale.
\<close>

theorem cms_reads_are_transparent:
  assumes "cms_boot s0" and "cms_steps cf s0 s"
  shows "fst (get_config cf k use_cache s) = get_current k s \<and>
    fst (get_template cf name l ch s) =
      (case find (\<lambda>p. get_current (template_key name p) s \<noteq> None)
              [(ch, l), (None, l), (ch, cc_locale cf), (None, cc_locale cf)] of
         None \<Rightarrow> None | Some p \<Rightarrow> get_current (template_key name p) s)"
proof -
  have ok: "cms_ok s" using cms_reach_ok assms by blast
  obtain x t where x: "get_config cf k use_cache s = (x, t)" by force
  obtain y u where y: "get_template cf name l ch s = (y, u)" by force
  from y have "first_config cf name (template_attempts cf ch l) s = (y, u)" by (simp add: get_template_def)
  from first_config_effect [OF this ok] get_config_effect(2) [OF x ok] x y show ?thesis
    by (simp only: find_attempts fst_conv)
qed

theorem cms_reads_are_transparent_witness:
  "fst (get_config demo_cms (plain_key SETTING ''a'') True
      (snd (upsert (plain_key SETTING ''a'') [(''x'', JInt 1)] None None cms_start))) =
   get_current (plain_key SETTING ''a'') (snd (upsert (plain_key SETTING ''a'') [(''x'', JInt 1)] None None cms_start))"
proof -
  obtain x t where u: "upsert (plain_key SETTING ''a'') [(''x'', JInt 1)] None None cms_start = (x, t)" by force
  have "cms_steps demo_cms cms_start t" using step_upsert [OF u] by blast
  from cms_reads_are_transparent [OF cms_start_boot this] show ?thesis unfolding u snd_conv by blast
qed

subsection \<open>Versions\<close>

text \<open>
  C33. The history of an entry only grows, whatever happens to the entry, deletion included; its
  versions are numbered one, two, three and so on; and the current record, if there is one, is the
  last version.
\<close>

theorem cms_history_is_append_only:
  assumes "cms_boot s0" and "cms_steps cf s0 s" and "cms_steps cf s t"
  shows "(\<exists>vs. list_versions k t = list_versions k s @ vs) \<and>
    map cv_version (list_versions k t) = map int [1..<Suc (length (list_versions k t))] \<and>
    (\<forall>r. get_current k t = Some r \<longrightarrow> list_versions k t \<noteq> [] \<and>
       cv_version (List.last (list_versions k t)) = cr_version r \<and>
       cv_value (List.last (list_versions k t)) = cr_value r)"
proof -
  have ok: "cms_ok s" using cms_reach_ok assms(1,2) by blast
  have g: "cms_grows s t" using cms_steps_grow assms(3) ok by blast
  then have okt: "cms_ok t" using cms_grows_ok ok by blast
  have "numbered (list_versions k t)" using okt unfolding cms_ok_def by blast
  moreover have "\<forall>r. get_current k t = Some r \<longrightarrow> list_versions k t \<noteq> [] \<and>
       cv_version (List.last (list_versions k t)) = cr_version r \<and>
       cv_value (List.last (list_versions k t)) = cr_value r"
    using okt unfolding cms_ok_def by blast
  ultimately show ?thesis using g unfolding cms_grows_def numbered_def by blast
qed

theorem cms_history_is_append_only_witness:
  "\<exists>t. cms_steps demo_cms cms_start t \<and>
     map cv_version (list_versions (plain_key SETTING ''a'') t) =
       map int [1..<Suc (length (list_versions (plain_key SETTING ''a'') t))]"
proof -
  obtain x t where u: "upsert (plain_key SETTING ''a'') [(''x'', JInt 1)] None None cms_start = (x, t)" by force
  have st: "cms_steps demo_cms cms_start t" using step_upsert [OF u] by blast
  from cms_history_is_append_only [OF cms_start_boot rtranclp.rtrancl_refl st] st show ?thesis by blast
qed

lemma find_numbered:
  assumes "numbered vs"
  shows "find (\<lambda>v. cv_version v = n) vs = (if 1 \<le> n \<and> n \<le> int (length vs) then Some (vs ! nat (n - 1)) else None)"
proof -
  have v: "cv_version (vs ! i) = int i + 1" if "i < length vs" for i
  proof -
    have "map cv_version vs ! i = map int [1..<Suc (length vs)] ! i" using assms by (simp add: numbered_def)
    with that show ?thesis by (simp del: upt_Suc)
  qed
  show ?thesis
  proof (cases "1 \<le> n \<and> n \<le> int (length vs)")
    case True
    then have i: "nat (n - 1) < length vs" by linarith
    have "find (\<lambda>v. cv_version v = n) vs = Some (vs ! nat (n - 1))"
      unfolding find_Some_iff using i True v by (intro exI [where x = "nat (n - 1)"]) force
    with True show ?thesis by simp
  next
    case False
    have "find (\<lambda>v. cv_version v = n) vs = None"
      unfolding find_None_iff using False v by (fastforce simp: in_set_conv_nth)
    with False show ?thesis by simp
  qed
qed

text \<open>
  C34. Rolling back to an existing version makes its value current again, as a new last version that
  the next cached read returns; the versions before stay, and so do value and history of every other key. Any other version
  number is refused without effect.
\<close>

theorem cms_rollback_restores:
  assumes "cms_boot s0" and "cms_steps cf s0 s" and "rollback cf k n b s = (x, t)"
  shows "if 1 \<le> n \<and> n \<le> int (length (list_versions k s))
    then (\<exists>r h. x = Inr r \<and> cr_value r = cv_value (list_versions k s ! nat (n - 1)) \<and>
        cr_version r = int (length (list_versions k s)) + 1 \<and>
        fst (get_config cf k True t) = Some r \<and> list_versions k t = list_versions k s @ [h] \<and>
        (\<forall>k'. k' = k \<or> get_current k' t = get_current k' s \<and> list_versions k' t = list_versions k' s))
    else x = Inl (ConfigVersionNotFoundError (ck_kind k) (ck_name k) n) \<and> t = s"
proof -
  have ok: "cms_ok s" using cms_reach_ok assms(1,2) by blast
  then have num: "numbered (list_versions k s)" by (simp add: cms_ok_def)
  note fv = find_numbered [OF num, of n, folded get_version_def]
  have okt: "cms_ok t" using rollback_grows [OF assms(3) ok] cms_grows_ok ok by blast
  from assms(3) show ?thesis
  proof (cases rule: rollback_cases)
    case missing
    with fv show ?thesis by (simp split: if_splits)
  next
    case (stored v r s1)
    define u where "u = cache_invalidate (identity k) s1"
    obtain h where h: "\<And>k'. get_current k' u = (if k' = k then Some r else get_current k' s)"
      "\<And>k'. list_versions k' u = (if k' = k then list_versions k s @ [h] else list_versions k' s)"
      "cv_version h = (if list_versions k s = [] then 1 else cv_version (List.last (list_versions k s)) + 1)"
      "cr_value r = cv_value v" "cr_version r = cv_version h"
      by (rule write_effect [OF stored(2), folded u_def]) (rule that)
    have st: "same_store u t" using stored(4) by (simp add: u_def same_cms_def)
    obtain y w where y: "get_config cf k True t = (y, w)" by force
    have "fst (get_config cf k True t) = Some r"
      using get_config_effect(2) [OF y okt] y h(1) same_store_reads(1) [OF st, of k] by simp
    moreover have "v = list_versions k s ! nat (n - 1)" "1 \<le> n \<and> n \<le> int (length (list_versions k s))"
      using fv stored(1) by (auto split: if_splits)
    ultimately show ?thesis
      using stored(3) h numbered_snoc(1) [OF num h(3)] by (auto simp: same_store_reads [OF st])
  qed
qed

theorem cms_rollback_restores_witness:
  "\<exists>s r. cms_steps demo_cms cms_start s \<and> fst (rollback demo_cms (plain_key SETTING ''a'') 1 None s) = Inr r \<and>
     cr_value r = [(''x'', JInt 1)]"
proof -
  obtain x s where u: "upsert (plain_key SETTING ''a'') [(''x'', JInt 1)] None None cms_start = (x, s)" by force
  have st: "cms_steps demo_cms cms_start s" using step_upsert [OF u] by blast
  from u obtain r s1 where sv: "save_new_version (plain_key SETTING ''a'') [(''x'', JInt 1)] None None cms_start = (r, s1)"
    "same_cms (cache_invalidate (identity (plain_key SETTING ''a'')) s1) s"
    by (auto elim: upsert_cases simp: plain_key_def)
  obtain h where h: "\<And>k'. list_versions k' (cache_invalidate (identity (plain_key SETTING ''a'')) s1) =
      (if k' = plain_key SETTING ''a'' then list_versions (plain_key SETTING ''a'') cms_start @ [h]
       else list_versions k' cms_start)" "cv_value h = [(''x'', JInt 1)]"
    by (rule write_effect [OF sv(1)]) (rule that)
  have "list_versions (plain_key SETTING ''a'') s = [h]"
    using h(1) [of "plain_key SETTING ''a''"] sv(2)
      same_store_reads(2) [of "cache_invalidate (identity (plain_key SETTING ''a'')) s1" s]
    by (simp add: same_cms_def list_versions_def cms_start_def)
  moreover obtain y t where "rollback demo_cms (plain_key SETTING ''a'') 1 None s = (y, t)" by force
  ultimately show ?thesis using cms_rollback_restores [OF cms_start_boot st] h(2) st by fastforce
qed

subsection \<open>Validated content\<close>

lemma subst_missing:
  "snd (subst_vars str vars b) = filter (\<lambda>n. dget vars n = None) (find_vars b)"
proof (induction b rule: find_vars.induct)
  case (1 b)
  show ?case
  proof (cases "match_var b")
    case (Some p)
    obtain name rest where p: "p = (name, rest)" by (cases p)
    with 1(2) [OF Some p [symmetric]] Some show ?thesis
      by (simp add: subst_vars.simps [of _ _ b] find_vars.simps [of b] split_beta split: option.split)
  next
    case None
    then have "snd (subst_vars str vars b) = (case b of [] \<Rightarrow> [] | c # cs \<Rightarrow> snd (subst_vars str vars cs))"
      "find_vars b = (case b of [] \<Rightarrow> [] | c # cs \<Rightarrow> find_vars cs)"
      unfolding subst_vars.simps [of _ _ b] find_vars.simps [of b] by (simp_all add: split_beta split: list.split)
    with 1(1) [OF None] show ?thesis by (simp split: list.split)
  qed
qed

lemma valid_template_body:
  assumes "validate_template v = Inr ()"
  obtains body where "dget v ''body'' = Some (JStr body)"
    "\<And>ds. jget v ''variables'' = JList ds \<Longrightarrow> set (find_vars body) \<subseteq> text_val ` set ds"
proof -
  from assms obtain body where b: "jget v ''body'' = JStr body"
    by (auto simp: validate_template_def split: json.splits)
  then have "dget v ''body'' = Some (JStr body)" by (auto simp: jget_def split: option.splits)
  moreover have "set (find_vars body) \<subseteq> text_val ` set ds" if "jget v ''variables'' = JList ds" for ds
    using assms b that
    by (auto simp: validate_template_def require_that_def Let_def filter_empty_conv split: if_splits)
  ultimately show thesis using that by blast
qed

text \<open>
  A template that declares its variables can always be rendered: in every reachable state, if the
  CMS finds a template and every variable it declares has a value, the communication service
  gets its body from the CMS and renders it without a missing variable.
\<close>

theorem declared_template_renders:
  assumes "cms_boot s0" and "cms_steps cf s0 s" and "get_template cf name l ch s = (Some r, s1)"
    and "jget (cr_value r) ''variables'' = JList ds" and "\<forall>d \<in> set ds. dget vars (text_val d) \<noteq> None"
  shows "\<exists>tp out. fst (template_provider_get cf ch name l s) = Inr (Some tp) \<and>
    render_text str (tp_body tp) vars True = Inr out"
proof -
  have ok: "cms_ok s" using cms_reach_ok assms(1,2) by blast
  from assms(3) have "first_config cf name (template_attempts cf ch l) s = (Some r, s1)"
    by (simp add: get_template_def)
  with first_config_effect ok obtain p where "get_current (template_key name p) s = Some r"
    by (fastforce split: option.splits)
  with ok have c: "list_versions (template_key name p) s \<noteq> []"
    "cv_value (List.last (list_versions (template_key name p) s)) = cr_value r"
    unfolding cms_ok_def by blast+
  then have "validate (ck_kind (template_key name p)) (cr_value r) = Inr ()"
    using ok last_in_set [OF c(1)] unfolding cms_ok_def by metis
  then have "validate_template (cr_value r) = Inr ()" by (simp add: template_key_def)
  then obtain body where b: "dget (cr_value r) ''body'' = Some (JStr body)"
    "\<And>ds. jget (cr_value r) ''variables'' = JList ds \<Longrightarrow> set (find_vars body) \<subseteq> text_val ` set ds"
    by (rule valid_template_body) (rule that, assumption, blast)
  obtain tp where tp: "fst (template_provider_get cf ch name l s) = Inr (Some tp)" "tp_body tp = body"
    using assms(3) b(1) by (simp add: template_provider_get_def Let_def cms_text_def)
  have "snd (subst_vars str vars body) = []"
    using b(2) [OF assms(4)] assms(5) by (auto simp: subst_missing filter_empty_conv)
  with tp show ?thesis by (simp add: render_text_def split_beta)
qed

lemma fresh_template_found:
  assumes "upsert_template name l body ch vars c b sj bt s = (Inr r, t)" "cms_ok s"
  shows "\<exists>u. get_template cf name l ch t = (Some r, u)"
proof -
  let ?k = "\<lparr>ck_kind = TEMPLATE, ck_name = name, ck_channel = ch, ck_locale = Some l\<rparr>"
  from assms(1) have up: "upsert ?k (template_value body vars sj bt) c b s = (Inr r, t)"
    by (simp add: upsert_template_def)
  from up obtain s1 where sv: "save_new_version ?k (template_value body vars sj bt) c b s = (r, s1)"
    "same_cms (cache_invalidate (identity ?k) s1) t" by (auto elim: upsert_cases)
  have g: "get_current ?k t = Some r"
    by (rule write_effect [OF sv(1)]) (use sv(2) same_store_reads(1) in \<open>auto simp: same_cms_def\<close>)
  have ok: "cms_ok t" using upsert_grows [OF up] cms_grows_ok assms(2) by blast
  obtain x u where x: "get_template cf name l ch t = (x, u)" by force
  then have "first_config cf name (template_attempts cf ch l) t = (x, u)" by (simp add: get_template_def)
  from first_config_effect [OF this ok] g have "x = Some r"
    by (simp add: template_attempts_def template_key_def)
  with x show ?thesis by blast
qed

theorem declared_template_renders_witness:
  "\<exists>s tp out. cms_steps demo_cms cms_start s \<and>
     fst (template_provider_get demo_cms None ''hello'' EN s) = Inr (Some tp) \<and>
     render_text (\<lambda>v. ''Ada'') (tp_body tp) [(''name'', JStr ''Ada'')] True = Inr out"
proof -
  let ?v = "template_value ''Hi {{name}}'' (Some [''name'']) None None"
  have "match_var ''{{name}}'' = Some (''name'', [])"
    by (simp add: match_var_def is_space_def ident_char_def ident_start_def is_alnum_def is_alpha_def is_digit_def code_def)
  then have "find_vars ''Hi {{name}}'' = [''name'']"
    by (simp add: find_vars.simps match_var_def)
  then have ok: "validate TEMPLATE ?v = Inr ()"
    by (simp add: validate_template_def template_value_def put_if_def jget_def require_that_def strip_def
        is_space_def code_def)
  obtain x s where u: "upsert_template ''hello'' EN ''Hi {{name}}'' None (Some [''name'']) None None None None cms_start = (x, s)"
    by force
  then have up: "upsert \<lparr>ck_kind = TEMPLATE, ck_name = ''hello'', ck_channel = None, ck_locale = Some EN\<rparr> ?v None None cms_start = (x, s)"
    by (simp add: upsert_template_def)
  then have st: "cms_steps demo_cms cms_start s" using step_upsert by blast
  from up ok obtain r where r: "x = Inr r" "cr_value r = ?v"
    by (auto elim!: upsert_cases simp: save_new_version_def Let_def)
  obtain w where g: "get_template demo_cms ''hello'' EN None s = (Some r, w)"
    using fresh_template_found [OF u [unfolded r(1)] cms_boot_ok [OF cms_start_boot]] by blast
  have ds: "jget (cr_value r) ''variables'' = JList [JStr ''name'']"
    by (simp add: r(2) template_value_def put_if_def jget_def)
  from declared_template_renders [OF cms_start_boot st g ds, of "[(''name'', JStr ''Ada'')]" "\<lambda>v. ''Ada''"] st
  show ?thesis by auto
qed

subsection \<open>Checklists\<close>

lemma validate_items_iff:
  "validate_items seen (map item_value items) = Inr () \<longleftrightarrow>
     (\<forall>i \<in> set items. ci_code i \<noteq> [] \<and> ci_code i \<notin> set seen) \<and> distinct (map ci_code items)"
proof (induction items arbitrary: seen)
  case (Cons i items)
  have "validate_items seen (map item_value (i # items)) = Inr () \<longleftrightarrow>
      ci_code i \<noteq> [] \<and> ci_code i \<notin> set seen \<and> validate_items (ci_code i # seen) (map item_value items) = Inr ()"
    by (simp add: item_value_def jget_def)
  then show ?case unfolding Cons.IH by (simp add: image_iff) (metis (no_types))
qed simp

lemma text_fields_map: "text_fields (map (\<lambda>(k, v). (k, JStr v)) d) = Some d"
  by (induction d) auto

lemma parse_items_map: "parse_items cf (map item_value items) = Some items"
  by (induction items)
    (auto simp: item_value_def label_of_def text_fields_map required_of_def category_of_def opt_text_def
      split: option.splits)

text \<open>
  C35. Saving a checklist succeeds exactly when its codes are non-empty and distinct; the checklist
  read next is the one that was saved, and the document service gets its codes in this order.
\<close>

theorem checklist_roundtrip:
  assumes "upsert_checklist name items c b s = (x, t)"
  shows "((\<exists>r. x = Inr r) \<longleftrightarrow> (\<forall>i \<in> set items. ci_code i \<noteq> []) \<and> distinct (map ci_code items)) \<and>
    (\<forall>r. x = Inr r \<longrightarrow> fst (get_checklist cf name t) = Inr items \<and>
       (\<exists>ds. fst (cms_required cf name t) = Inr ds \<and> map rq_code ds = map ci_code items))"
proof -
  let ?k = "plain_key CHECKLIST name"
  have up: "upsert ?k (checklist_value items) c b s = (x, t)"
    using assms by (simp add: upsert_checklist_def)
  have v: "validate (ck_kind ?k) (checklist_value items) = validate_items [] (map item_value items)"
    by (simp add: plain_key_def validate_checklist_def checklist_value_def jget_def)
  have "(\<exists>r. x = Inr r) \<longleftrightarrow> validate_items [] (map item_value items) = Inr ()"
    using up v by (auto elim!: upsert_cases)
  moreover have "fst (get_checklist cf name t) = Inr items" if "x = Inr r" for r
  proof -
    from up that obtain s1 where sv: "save_new_version ?k (checklist_value items) c b s = (r, s1)"
      "same_cms (cache_invalidate (identity ?k) s1) t" by (auto elim: upsert_cases)
    have g: "get_current ?k t = Some r" "cr_value r = checklist_value items"
      "dget (cache t) (identity ?k) = None"
      by (rule write_effect [OF sv(1)]; use sv(2) same_store_reads(1) in \<open>auto simp: same_cms_def\<close>)+
    then have "fst (get_config cf ?k True t) = Some r"
      by (simp add: get_config_def cache_get_def)
    with g(2) show ?thesis
      by (simp add: get_checklist_def parse_checklist_def checklist_value_def parse_items_map split_beta
          split: option.split)
  qed
  ultimately show ?thesis
    by (auto simp: validate_items_iff cms_required_def split_beta comp_def split: sum.split)
qed

theorem checklist_roundtrip_witness:
  "fst (get_checklist demo_cms ''docs'' (snd (upsert_checklist ''docs''
     [\<lparr>ci_code = ''cr'', ci_label = [(''en'', ''CR'')], ci_required = True, ci_category = None\<rparr>] None None cms_start))) =
   Inr [\<lparr>ci_code = ''cr'', ci_label = [(''en'', ''CR'')], ci_required = True, ci_category = None\<rparr>]"
proof -
  let ?is = "[\<lparr>ci_code = ''cr'', ci_label = [(''en'', ''CR'')], ci_required = True, ci_category = None\<rparr>]"
  obtain x t where u: "upsert_checklist ''docs'' ?is None None cms_start = (x, t)" by force
  from checklist_roundtrip [OF u, of demo_cms] show ?thesis unfolding u snd_conv by auto
qed

subsection \<open>What validation lets through\<close>

lemma fresh_config_read:
  assumes "validate (ck_kind k) v = Inr ()" "upsert k v c b s = (x, t)"
  shows "\<exists>r u. get_config cf k True t = (Some r, u) \<and> cr_value r = v"
proof -
  from assms obtain r s1 where sv: "save_new_version k v c b s = (r, s1)"
    "same_cms (cache_invalidate (identity k) s1) t" by (auto elim: upsert_cases)
  have "get_current k t = Some r" "cr_value r = v" "dget (cache t) (identity k) = None"
    by (rule write_effect [OF sv(1)]; use sv(2) same_store_reads(1) in \<open>auto simp: same_cms_def\<close>)+
  then show ?thesis by (simp add: get_config_def cache_get_def)
qed

text \<open>
  A reminder schedule passes validation as soon as its steps have an offset, but it cannot be read
  without the template of each step: the nudge service's lookup of this reason then raises a
  \<open>KeyError\<close>, which is not the error of a missing schedule.
\<close>

lemma valid_schedule_unreadable:
  assumes "upsert (plain_key NUDGE reason) [(''schedule'', JList [JObj [(''offset'', JInt i)]])] c b s = (x, t)"
  shows "fst (cms_schedule cf int_text reason t) = Inl (Inr (CmsPyError ''KeyError''))"
proof -
  let ?v = "[(''schedule'', JList [JObj [(''offset'', JInt i)]])]"
  have "validate (ck_kind (plain_key NUDGE reason)) ?v = Inr ()"
    by (simp add: plain_key_def validate_nudge_def jget_def)
  from fresh_config_read [OF this assms] obtain r u where
    "get_config cf (plain_key NUDGE reason) True t = (Some r, u)" "cr_value r = ?v" by blast
  then show ?thesis
    by (simp add: cms_schedule_def from_cms_value_def parse_step_def py_item_def py_int_def parse_channels_def)
qed

text \<open>A checklist whose label is no dictionary passes validation and cannot be read.\<close>

lemma valid_checklist_unreadable:
  assumes "upsert (plain_key CHECKLIST name) [(''items'', JList [JObj [(''code'', JStr ''cr''), (''label'', JStr ''CR'')]])] c b s = (x, t)"
  shows "fst (get_checklist cf name t) = Inl (CmsPyError ''ValidationError'')"
proof -
  let ?v = "[(''items'', JList [JObj [(''code'', JStr ''cr''), (''label'', JStr ''CR'')]])]"
  have "validate (ck_kind (plain_key CHECKLIST name)) ?v = Inr ()"
    by (simp add: plain_key_def validate_checklist_def jget_def)
  from fresh_config_read [OF this assms] obtain r u where
    "get_config cf (plain_key CHECKLIST name) True t = (Some r, u)" "cr_value r = ?v" by blast
  then show ?thesis by (simp add: get_checklist_def parse_checklist_def label_of_def)
qed

end
