(* ===== verification/Tool_Registry.thy ===== *)
theory Tool_Registry
  imports Prelude
begin

section \<open>The registry of tools\<close>

text \<open>
  \<open>app/shared/mcp/registry.py\<close> and the defaults of \<open>provider.py\<close>: the names of the tools of the
  cluster, which of them a client may call again after a failure, and how long it waits for each.
\<close>

text \<open>\<open>Tools.all()\<close>: the constants of the class and their values, in the order of the class.\<close>

definition all_tools :: "(string \<times> string) list" where
  "all_tools =
     [(''AUTH_SEND_OTP'', ''madad_auth_send_otp''),
      (''AUTH_VERIFY_OTP'', ''madad_auth_verify_otp''),
      (''AUTH_CHECK_CONTACT'', ''madad_auth_check_contact''),
      (''AUTH_ME'', ''madad_auth_me''),
      (''AUTH_ONBOARDING_SEND_EMAIL'', ''madad_auth_onboarding_send_email''),
      (''AUTH_VERIFY_ONBOARDING_EMAIL'', ''madad_auth_verify_onboarding_email''),
      (''AUTH_ONBOARDING_SEND_PHONE'', ''madad_auth_onboarding_send_phone''),
      (''AUTH_ONBOARDING_VERIFY_PHONE'', ''madad_auth_onboarding_verify_phone''),
      (''AUTH_COMPLETE_ONBOARDING'', ''madad_auth_complete_onboarding''),
      (''AUTH_COMPLETE_GOOGLE_ONBOARDING'', ''madad_auth_complete_google_onboarding''),
      (''AUTH_REFRESH'', ''madad_auth_refresh''),
      (''AUTH_LOGOUT'', ''madad_auth_logout''),
      (''AUTH_GOOGLE_OAUTH_URL'', ''madad_auth_google_oauth_url''),
      (''EXT_SEND_SMS_OTP'', ''madad_external_send_sms_otp''),
      (''EXT_SEND_EMAIL_OTP'', ''madad_external_send_email_otp''),
      (''EXT_SEND_EMAIL_TEXT'', ''madad_external_send_email_text''),
      (''EXT_VERIFY_OTP'', ''madad_external_verify_otp''),
      (''EXT_SEND_WHATSAPP_TEXT'', ''madad_external_send_whatsapp_text''),
      (''EXT_SEND_WHATSAPP_TEMPLATE'', ''madad_external_send_whatsapp_template''),
      (''EXT_SEND_WHATSAPP_INTERACTIVE'', ''madad_external_send_whatsapp_interactive''),
      (''EXT_SEND_WHATSAPP_INTERACTIVE_BUTTONS'', ''madad_external_send_whatsapp_interactive_buttons''),
      (''EXT_SEND_WHATSAPP_DOCUMENT'', ''madad_external_send_whatsapp_document''),
      (''MCP_CREATE_CHANNEL_SESSION'', ''madad_mcp_create_channel_session''),
      (''MCP_GET_WEBHOOK_EVENTS'', ''madad_mcp_get_webhook_events''),
      (''MCP_EMIT_WEBHOOK'', ''madad_mcp_emit_webhook''),
      (''MCP_UPDATE_ONBOARDING_PROGRESS'', ''madad_mcp_update_onboarding_progress''),
      (''MCP_GET_ONBOARDING_PROGRESS'', ''madad_mcp_get_onboarding_progress''),
      (''MCP_CHECK_REGISTRATION'', ''madad_mcp_check_registration''),
      (''MCP_SET_BUSINESS_EMAIL'', ''madad_mcp_set_business_email''),
      (''KYC_UPDATE_ELIGIBILITY'', ''madad_kyc_update_eligibility''),
      (''KYC_UPLOAD_DOCUMENT'', ''madad_kyc_upload_document''),
      (''KYC_UPLOAD_DOCUMENT_BASE64'', ''madad_kyc_upload_document_base64''),
      (''KYC_CLASSIFY_AND_UPLOAD_DOCUMENT_BASE64'', ''madad_kyc_classify_and_upload_document_base64''),
      (''KYC_CLASSIFY_DOCUMENT_BASE64'', ''madad_kyc_classify_document_base64''),
      (''KYC_CLASSIFY_AND_UPLOAD_ZIP_BASE64'', ''madad_kyc_classify_and_upload_zip_base64''),
      (''KYC_UPLOAD_INVOICE_BASE64'', ''madad_kyc_upload_invoice_base64''),
      (''KYC_UPLOAD_COMMERCIAL_REGISTRATION'', ''madad_kyc_upload_commercial_registration''),
      (''KYC_UPLOAD_AUDITED_FINANCIAL_REPORT'', ''madad_kyc_upload_audited_financial_report''),
      (''KYC_INSPECT_ZIP'', ''madad_kyc_inspect_zip''),
      (''KYC_UPLOAD_ZIP_DOCUMENTS'', ''madad_kyc_upload_zip_documents''),
      (''KYC_DELETE_DOCUMENT'', ''madad_kyc_delete_document''),
      (''KYC_GET_DOCUMENTS'', ''madad_kyc_get_documents''),
      (''KYC_GET_BUSINESS_DOCUMENTS'', ''madad_kyc_get_business_documents''),
      (''KYC_GET_FINANCIAL_DOCUMENTS'', ''madad_kyc_get_financial_documents''),
      (''KYC_GET_ADMIN_REQUESTED_DOCUMENTS'', ''madad_kyc_get_admin_requested_documents''),
      (''KYC_GET_BUSINESS_DETAILS'', ''madad_kyc_get_business_details''),
      (''KYC_UPDATE_BUSINESS_DETAILS'', ''madad_kyc_update_business_details''),
      (''KYC_UPDATE_PRIMARY_DETAILS'', ''madad_kyc_update_primary_details''),
      (''KYC_UPDATE_SECTOR_DETAIL'', ''madad_kyc_update_sector_detail''),
      (''KYC_ADD_SHAREHOLDERS'', ''madad_kyc_add_shareholders''),
      (''KYC_GET_SHAREHOLDERS'', ''madad_kyc_get_shareholders''),
      (''KYC_GET_SHAREHOLDERS_KYC_STATUS'', ''madad_kyc_get_shareholders_kyc_status''),
      (''KYC_GET_SHAREHOLDERS_CONSENTS'', ''madad_kyc_get_shareholders_consents''),
      (''KYC_UPDATE_SHAREHOLDER'', ''madad_kyc_update_shareholder''),
      (''KYC_DELETE_SHAREHOLDER'', ''madad_kyc_delete_shareholder''),
      (''KYC_UPLOAD_SHAREHOLDER_DOCUMENTS'', ''madad_kyc_upload_shareholder_documents''),
      (''KYC_ADD_BUYER'', ''madad_kyc_add_buyer''),
      (''KYC_GET_BUYERS'', ''madad_kyc_get_buyers''),
      (''KYC_EDIT_BUYER'', ''madad_kyc_edit_buyer''),
      (''KYC_DELETE_BUYER'', ''madad_kyc_delete_buyer''),
      (''KYC_GET_PRIMARY_BANK_DETAIL'', ''madad_kyc_get_primary_bank_detail''),
      (''OFFERS_GET_MY_OFFERS'', ''madad_offers_get_my_offers''),
      (''OFFERS_GET_OFFER'', ''madad_offers_get_offer''),
      (''OFFERS_GET_OFFERS'', ''madad_offers_get_offers''),
      (''OFFERS_GET_EXTENSION_REQUEST'', ''madad_offers_get_extension_request''),
      (''PAYMENTS_LIST_MONETIZATION_PRODUCTS'', ''madad_payments_list_monetization_products''),
      (''PAYMENTS_CREATE_MONETIZATION_PAYMENT'', ''madad_payments_create_monetization_payment''),
      (''PAYMENTS_SEND_MONETIZATION_PAYMENT_LINK'', ''madad_payments_send_monetization_payment_link''),
      (''PAYMENTS_GET_MONETIZATION_PAYMENT'', ''madad_payments_get_monetization_payment''),
      (''PAYMENTS_SYNC_MONETIZATION_PAYMENT_STATUS'', ''madad_payments_sync_monetization_payment_status''),
      (''INVOICES_GET_MY_INVOICES'', ''madad_invoices_get_my_invoices''),
      (''INVOICES_EXTRACT_INVOICE'', ''madad_invoices_extract_invoice''),
      (''INVOICES_EXTRACT_INVOICE_BASE64'', ''madad_invoices_extract_invoice_base64''),
      (''INVOICES_SUBMIT_INVOICE'', ''madad_invoices_submit_invoice''),
      (''INVOICES_SUBMIT_INVOICE_BASE64'', ''madad_invoices_submit_invoice_base64''),
      (''INVOICES_EXTRACT_AND_SUBMIT_INVOICE'', ''madad_invoices_extract_and_submit_invoice''),
      (''INVOICES_EXTRACT_AND_SUBMIT_INVOICE_BASE64'', ''madad_invoices_extract_and_submit_invoice_base64''),
      (''INVOICES_INSPECT_ZIP'', ''madad_invoices_inspect_zip''),
      (''INVOICES_UPLOAD_ZIP'', ''madad_invoices_upload_zip'')]"

definition READ_PREFIXES :: "string list" where
  "READ_PREFIXES =
     [''madad_auth_me'', ''madad_auth_check_contact'', ''madad_auth_google_oauth_url'',
      ''madad_kyc_get_'', ''madad_kyc_inspect_zip'', ''madad_offers_get_'', ''madad_payments_get_'',
      ''madad_payments_list_'', ''madad_invoices_get_'', ''madad_invoices_inspect_zip'',
      ''madad_mcp_get_webhook_events'']"

definition read_only :: "string list" where
  "read_only =
     filter (\<lambda>v. list_ex (\<lambda>p. starts_with p v \<or> v = p) READ_PREFIXES) (map snd all_tools)"

definition payment_idempotent_writes :: "string list" where
  "payment_idempotent_writes =
     [''madad_payments_create_monetization_payment'',
      ''madad_payments_send_monetization_payment_link'']"

definition default_idempotent_tools :: "string list" where
  "default_idempotent_tools = read_only @ payment_idempotent_writes"

text \<open>Seconds.\<close>

definition default_tool_timeouts :: "(string, real) dict" where
  "default_tool_timeouts =
     [(''madad_invoices_extract_and_submit_invoice_base64'', 180),
      (''madad_invoices_extract_and_submit_invoice'', 180),
      (''madad_invoices_upload_zip'', 240),
      (''madad_invoices_extract_invoice_base64'', 180),
      (''madad_invoices_extract_invoice'', 180),
      (''madad_invoices_submit_invoice_base64'', 120),
      (''madad_invoices_submit_invoice'', 120),
      (''madad_kyc_classify_document_base64'', 180),
      (''madad_kyc_classify_and_upload_document_base64'', 240),
      (''madad_kyc_classify_and_upload_zip_base64'', 240)]"

end
