(* ===== verification/Tool_Client.thy ===== *)
theory Tool_Client
  imports Tool_Registry
begin

section \<open>The client of the tool cluster\<close>

text \<open>
  \<open>app/shared/mcp/client.py\<close>: the retrying base client, its in-memory subclass, the client over
  HTTP with its one reconnect, and the token cache of the Cloud Run authentication. The
  \<open>fastmcp\<close> client is not part of the repository: \<open>transport\<close> is what the code calls of it, each
  call with the seconds it takes. Log calls, and the summaries made for them, are left out.
\<close>

subsection \<open>Settings and errors\<close>

record mcp_settings =
  ms_endpoint :: string
  ms_auth_mode :: string
  ms_auth_token :: "string option"
  ms_iam_audience :: "string option"
  ms_timeout :: real
  ms_max_attempts :: int
  ms_base_delay :: real
  ms_max_delay :: real
  ms_idempotent :: "string list"
  ms_tool_timeouts :: "(string, real) dict"

text \<open>
  What the code reads of a raised exception: whether it is a \<open>TimeoutError\<close>, its integer attribute
  \<open>status_code\<close>, its text, \<open>__cause__\<close> and \<open>__context__\<close>.
\<close>

datatype exn = Exn bool "int option" string "exn option" "exn option"

fun exn_text :: "exn \<Rightarrow> string" where
  "exn_text (Exn _ _ msg _ _) = msg"

fun is_timeout_exn :: "exn \<Rightarrow> bool" where
  "is_timeout_exn (Exn t _ _ _ _) = t"

definition plain_exn :: "string \<Rightarrow> exn" where
  "plain_exn msg = Exn False None msg None None"

definition timeout_exn :: exn where
  "timeout_exn = Exn True None [] None None"

text \<open>An exception raised while another one is handled has that one at the end of its chain.\<close>

fun while_handling :: "exn \<Rightarrow> exn \<Rightarrow> exn" where
  "while_handling e (Exn t st msg (Some c) ctx) = Exn t st msg (Some (while_handling e c)) ctx"
| "while_handling e (Exn t st msg None (Some c)) = Exn t st msg None (Some (while_handling e c))"
| "while_handling e (Exn t st msg None None) = Exn t st msg None (Some e)"

text \<open>\<open>re.search(r"HTTP (\d{3})", msg)\<close>, the digits as a number.\<close>

definition digit_value :: "char \<Rightarrow> int" where
  "digit_value c = int (code c) - 48"

definition three_digits :: "string \<Rightarrow> int option" where
  "three_digits s =
     (case s of
        a # b # c # _ \<Rightarrow>
          if is_digit a \<and> is_digit b \<and> is_digit c
          then Some (100 * digit_value a + 10 * digit_value b + digit_value c) else None
      | _ \<Rightarrow> None)"

fun http_code :: "string \<Rightarrow> int option" where
  "http_code [] = None"
| "http_code (c # cs) =
     (case (if starts_with ''HTTP '' (c # cs) then three_digits (drop 5 (c # cs)) else None) of
        Some n \<Rightarrow> Some n
      | None \<Rightarrow> http_code cs)"

fun status_code_from_exception :: "exn \<Rightarrow> int option" where
  "status_code_from_exception (Exn _ st msg cause ctx) =
     (case st of
        Some n \<Rightarrow> Some n
      | None \<Rightarrow>
          (case http_code msg of
             Some n \<Rightarrow> Some n
           | None \<Rightarrow>
               (case cause of
                  Some e \<Rightarrow> status_code_from_exception e
                | None \<Rightarrow>
                    (case ctx of Some e \<Rightarrow> status_code_from_exception e | None \<Rightarrow> None))))"

datatype mcp_class = MCPError | MCPTimeoutError | MCPAuthError | MCPConflictError
  | MCPNotFoundError | MCPBackendError

text \<open>The details of an \<open>MCPError\<close>, and the exception it was raised from.\<close>

record mcp_error =
  xe_class :: mcp_class
  xe_tool :: string
  xe_attempts :: nat
  xe_status :: "int option"
  xe_from :: exn

definition TIMEOUT_MARKERS :: "string list" where
  "TIMEOUT_MARKERS =
     [''timed out'', ''timeout'', ''deadline exceeded'', ''connection closed'', ''connection reset'',
      ''stream closed'', ''transport closed'', ''broken pipe'', ''remote disconnected'']"

definition has_marker :: "string list \<Rightarrow> exn \<Rightarrow> bool" where
  "has_marker ms e = list_ex (\<lambda>m. contains m (lower (exn_text e))) ms"

definition status_class :: "int \<Rightarrow> mcp_class" where
  "status_class n =
     (if n = 401 \<or> n = 403 then MCPAuthError
      else if n = 404 then MCPNotFoundError
      else if n = 409 then MCPConflictError
      else if 500 \<le> n \<and> n < 600 then MCPBackendError
      else MCPError)"

definition classify_mcp_error :: "string \<Rightarrow> nat \<Rightarrow> exn \<Rightarrow> mcp_error" where
  "classify_mcp_error tool attempts e =
     (if is_timeout_exn e \<or> has_marker TIMEOUT_MARKERS e
      then \<lparr>xe_class = MCPTimeoutError, xe_tool = tool, xe_attempts = attempts, xe_status = None, xe_from = e\<rparr>
      else
        (case status_code_from_exception e of
           Some n \<Rightarrow> \<lparr>xe_class = status_class n, xe_tool = tool, xe_attempts = attempts,
                      xe_status = Some n, xe_from = e\<rparr>
         | None \<Rightarrow> \<lparr>xe_class = MCPError, xe_tool = tool, xe_attempts = attempts,
                    xe_status = None, xe_from = e\<rparr>))"

subsection \<open>The base client\<close>

text \<open>
  What one await of a subclass comes to under the time it has left: a value or an exception with the
  time then left, or still running at the deadline and cancelled.
\<close>

datatype 'a step = Done 'a real | Raised exn real | Overrun

definition awaited :: "real \<Rightarrow> (exn + 'a) \<times> real \<Rightarrow> 'a step" where
  "awaited left o' =
     (if left < snd o' then Overrun
      else case fst o' of
             Inl e \<Rightarrow> Raised e (left - snd o')
           | Inr v \<Rightarrow> Done v (left - snd o'))"

type_synonym 's invoke = "string \<Rightarrow> payload \<Rightarrow> real \<Rightarrow> 's \<Rightarrow> json step \<times> 's"

text \<open>A client: the state of the subclass, and the delays it has slept.\<close>

record 's mcp_client =
  mc_self :: 's
  mc_slept :: "real list"

definition is_idempotent :: "mcp_settings \<Rightarrow> string \<Rightarrow> bool" where
  "is_idempotent cfg name = (name \<in> set (ms_idempotent cfg))"

definition unwrap_madad_envelope :: "json \<Rightarrow> payload" where
  "unwrap_madad_envelope resp =
     (case resp of
        JObj d \<Rightarrow>
          (case (dget d ''status_code'', jget d ''body'') of
             (Some _, JObj body) \<Rightarrow> body
           | _ \<Rightarrow> d)
      | _ \<Rightarrow> [])"

text \<open>\<open>asyncio.wait_for\<close>: without time the call is cancelled before it starts.\<close>

definition wait_for :: "real \<Rightarrow> (real \<Rightarrow> 's \<Rightarrow> 'a step \<times> 's) \<Rightarrow> 's \<Rightarrow> (exn + 'a) \<times> 's" where
  "wait_for timeout run s =
     (if timeout \<le> 0 then (Inl timeout_exn, s)
      else
        (case run timeout s of
           (Done v _, s1) \<Rightarrow> (Inr v, s1)
         | (Raised e _, s1) \<Rightarrow> (Inl e, s1)
         | (Overrun, s1) \<Rightarrow> (Inl timeout_exn, s1)))"

text \<open>
  The loop of \<open>call_tool\<close> with \<open>rem\<close> iterations left after this one: \<open>attempt >= attempts\<close> is
  \<open>rem = 0\<close>.
\<close>

fun call_loop ::
  "mcp_settings \<Rightarrow> 's invoke \<Rightarrow> string \<Rightarrow> payload \<Rightarrow> real \<Rightarrow> nat \<Rightarrow> nat \<Rightarrow> real \<Rightarrow> 's mcp_client \<Rightarrow>
     (mcp_error + payload) \<times> 's mcp_client"
where
  "call_loop cfg invoke name pl timeout attempts rem delay c =
     (case wait_for timeout (invoke name pl) (mc_self c) of
        (Inr raw, s1) \<Rightarrow> (Inr (unwrap_madad_envelope raw), c\<lparr>mc_self := s1\<rparr>)
      | (Inl e, s1) \<Rightarrow>
          (case rem of
             0 \<Rightarrow> (Inl (classify_mcp_error name attempts e), c\<lparr>mc_self := s1\<rparr>)
           | Suc rem' \<Rightarrow>
               call_loop cfg invoke name pl timeout attempts rem' (min (delay * 2) (ms_max_delay cfg))
                 (c\<lparr>mc_self := s1, mc_slept := mc_slept c @ [delay]\<rparr>)))"

declare call_loop.simps [simp del]

definition attempts_for :: "mcp_settings \<Rightarrow> string \<Rightarrow> nat" where
  "attempts_for cfg name = (if is_idempotent cfg name then nat (max 1 (ms_max_attempts cfg)) else 1)"

definition tool_timeout :: "mcp_settings \<Rightarrow> string \<Rightarrow> real" where
  "tool_timeout cfg name =
     (case dget (ms_tool_timeouts cfg) name of Some t \<Rightarrow> t | None \<Rightarrow> ms_timeout cfg)"

definition call_tool ::
  "mcp_settings \<Rightarrow> 's invoke \<Rightarrow> string \<Rightarrow> payload \<Rightarrow> 's mcp_client \<Rightarrow>
     (mcp_error + payload) \<times> 's mcp_client"
where
  "call_tool cfg invoke name pl c =
     call_loop cfg invoke name pl (tool_timeout cfg name) (attempts_for cfg name)
       (attempts_for cfg name - 1) (ms_base_delay cfg) c"

end
