(* ===== verification/Tool_Http.thy ===== *)
theory Tool_Http
  imports Tool_Client
begin

section \<open>The clients of the tool cluster over HTTP and in memory\<close>

text \<open>
  The subclasses of \<open>MCPClient\<close> in \<open>app/shared/mcp/client.py\<close>, the token cache, and
  \<open>get_mcp_client\<close> of \<open>provider.py\<close>.
\<close>

subsection \<open>\<open>InMemoryMCPClient\<close>\<close>

text \<open>\<open>show_n\<close> prints a number; a handler may raise.\<close>

record memory_mcp =
  mm_handlers :: "(string, payload \<Rightarrow> exn + json) dict"
  mm_fail_times :: nat
  mm_invocations :: nat
  mm_calls :: "(string \<times> payload) list"

definition memory_invoke :: "(nat \<Rightarrow> string) \<Rightarrow> memory_mcp invoke" where
  "memory_invoke show_n name pl left m =
     (let m1 = m\<lparr>mm_invocations := mm_invocations m + 1, mm_calls := mm_calls m @ [(name, pl)]\<rparr> in
      (if mm_invocations m1 \<le> mm_fail_times m1
       then Raised (plain_exn (''simulated MCP transport failure #'' @ show_n (mm_invocations m1))) left
       else
         (case dget (mm_handlers m1) name of
            None \<Rightarrow> Done (JObj []) left
          | Some handler \<Rightarrow> (case handler pl of Inl e \<Rightarrow> Raised e left | Inr v \<Rightarrow> Done v left)), m1))"

subsection \<open>\<open>HttpMCPClient\<close>\<close>

datatype fastmcp_auth = No_auth | Bearer string | Iam string

record fastmcp_spec =
  fs_endpoint :: string
  fs_auth :: fastmcp_auth
  fs_timeout :: real

definition transport_timeout :: "mcp_settings \<Rightarrow> real" where
  "transport_timeout cfg = fold max (map snd (ms_tool_timeouts cfg)) (ms_timeout cfg)"

definition build_fastmcp_client :: "mcp_settings \<Rightarrow> exn + fastmcp_spec" where
  "build_fastmcp_client cfg =
     (let spec = (\<lambda>auth. \<lparr>fs_endpoint = ms_endpoint cfg, fs_auth = auth,
                         fs_timeout = transport_timeout cfg\<rparr>) in
      if ms_auth_mode cfg = ''bearer'' then
        Inr (spec (case ms_auth_token cfg of
                     Some t \<Rightarrow> if t = [] then No_auth else Bearer t
                   | None \<Rightarrow> No_auth))
      else if ms_auth_mode cfg = ''iam'' then
        (case ms_iam_audience cfg of
           Some a \<Rightarrow>
             if a = []
             then Inl (plain_exn (''MCP auth_mode='' @ quoted ''iam'' @ '' requires settings.iam_audience to be set''))
             else Inr (spec (Iam a))
         | None \<Rightarrow> Inl (plain_exn (''MCP auth_mode='' @ quoted ''iam'' @ '' requires settings.iam_audience to be set'')))
      else Inl (plain_exn (''Unknown MCP auth_mode '' @ quoted (ms_auth_mode cfg))))"

text \<open>
  The \<open>fastmcp\<close> client: entering its context, calling a tool, leaving the context, each with its
  duration in seconds. A missing attribute of a result is \<open>False\<close> or \<open>None\<close>.
\<close>

record call_result =
  cr_is_error :: bool
  cr_data :: json

record 't transport =
  tp_enter :: "fastmcp_spec \<Rightarrow> 't \<Rightarrow> ((exn + unit) \<times> real) \<times> 't"
  tp_call :: "string \<Rightarrow> payload \<Rightarrow> 't \<Rightarrow> ((exn + call_result) \<times> real) \<times> 't"
  tp_close :: "'t \<Rightarrow> ((exn + unit) \<times> real) \<times> 't"

text \<open>
  \<open>h_stack\<close>: the exit stack holds an entered client; \<open>h_client\<close>: \<open>_client\<close> is set; \<open>h_sent\<close>: the
  calls handed to the transport, which no code reads.
\<close>

record 't http_mcp =
  h_net :: 't
  h_stack :: bool
  h_client :: bool
  h_sent :: "(string \<times> payload) list"

definition new_http :: "'t \<Rightarrow> 't http_mcp" where
  "new_http t = \<lparr>h_net = t, h_stack = False, h_client = False, h_sent = []\<rparr>"

definition DISCONNECT_MARKERS :: "string list" where
  "DISCONNECT_MARKERS =
     [''client is not connected'',
      ''use the '' @ quoted ''async with client:'' @ '' context manager'',
      ''connection closed'', ''connection reset'', ''stream closed'', ''transport closed'',
      ''broken pipe'', ''remote disconnected'']"

definition looks_like_disconnect :: "exn \<Rightarrow> bool" where
  "looks_like_disconnect e = has_marker DISCONNECT_MARKERS e"

definition ensure_connected ::
  "mcp_settings \<Rightarrow> 't transport \<Rightarrow> real \<Rightarrow> 't http_mcp \<Rightarrow> unit step \<times> 't http_mcp"
where
  "ensure_connected cfg tp left h =
     (if h_client h then (Done () left, h)
      else
        (case build_fastmcp_client cfg of
           Inl e \<Rightarrow> (Raised e left, h)
         | Inr spec \<Rightarrow>
             let (o', n) = tp_enter tp spec (h_net h); r = awaited left o' in
             (r, case r of
                   Done _ _ \<Rightarrow> h\<lparr>h_net := n, h_stack := True, h_client := True\<rparr>
                 | _ \<Rightarrow> h\<lparr>h_net := n\<rparr>)))"

text \<open>
  \<open>None\<close> when the close was cancelled, which leaves the client in place. The stack gives up its
  callback before it awaits it.
\<close>

definition reset_connection ::
  "'t transport \<Rightarrow> real \<Rightarrow> 't http_mcp \<Rightarrow> real option \<times> 't http_mcp"
where
  "reset_connection tp left h =
     (if h_stack h then
        let (o', n) = tp_close tp (h_net h) in
        (case awaited left o' of
           Overrun \<Rightarrow> (None, h\<lparr>h_net := n, h_stack := False\<rparr>)
         | Raised _ l \<Rightarrow> (Some l, h\<lparr>h_net := n, h_stack := False, h_client := False\<rparr>)
         | Done _ l \<Rightarrow> (Some l, h\<lparr>h_net := n, h_stack := False, h_client := False\<rparr>))
      else (Some left, h\<lparr>h_client := False\<rparr>))"

definition fastmcp_call ::
  "'t transport \<Rightarrow> string \<Rightarrow> payload \<Rightarrow> real \<Rightarrow> 't http_mcp \<Rightarrow> call_result step \<times> 't http_mcp"
where
  "fastmcp_call tp name pl left h =
     (let (o', n) = tp_call tp name pl (h_net h)
      in (awaited left o', h\<lparr>h_net := n, h_sent := h_sent h @ [(name, pl)]\<rparr>))"

definition read_result :: "string \<Rightarrow> call_result \<Rightarrow> real \<Rightarrow> json step" where
  "read_result name r left =
     (if cr_is_error r then Raised (plain_exn (''MCP tool '' @ quoted name @ '' returned is_error'')) left
      else
        (case cr_data r of
           JObj d \<Rightarrow> Done (JObj d) left
         | v \<Rightarrow> Done (JObj [(''result'', v)]) left))"

text \<open>The reconnect in the handler of a first call that failed with \<open>e\<close>, and its replay.\<close>

definition reconnect_and_replay ::
  "mcp_settings \<Rightarrow> 't transport \<Rightarrow> string \<Rightarrow> payload \<Rightarrow> exn \<Rightarrow> real \<Rightarrow> 't http_mcp \<Rightarrow>
     json step \<times> 't http_mcp"
where
  "reconnect_and_replay cfg tp name pl e left h =
     (case reset_connection tp left h of
        (None, h1) \<Rightarrow> (Overrun, h1)
      | (Some l1, h1) \<Rightarrow>
          (case ensure_connected cfg tp l1 h1 of
             (Overrun, h2) \<Rightarrow> (Overrun, h2)
           | (Raised e2 l2, h2) \<Rightarrow> (Raised (while_handling e e2) l2, h2)
           | (Done _ l2, h2) \<Rightarrow>
               (case fastmcp_call tp name pl l2 h2 of
                  (Overrun, h3) \<Rightarrow> (Overrun, h3)
                | (Raised e3 l3, h3) \<Rightarrow> (Raised (while_handling e e3) l3, h3)
                | (Done r l3, h3) \<Rightarrow> (read_result name r l3, h3))))"

definition http_invoke :: "mcp_settings \<Rightarrow> 't transport \<Rightarrow> 't http_mcp invoke" where
  "http_invoke cfg tp name pl left h =
     (case ensure_connected cfg tp left h of
        (Overrun, h1) \<Rightarrow> (Overrun, h1)
      | (Raised e l1, h1) \<Rightarrow> (Raised e l1, h1)
      | (Done _ l1, h1) \<Rightarrow>
          (case fastmcp_call tp name pl l1 h1 of
             (Overrun, h2) \<Rightarrow> (Overrun, h2)
           | (Done r l2, h2) \<Rightarrow> (read_result name r l2, h2)
           | (Raised e l2, h2) \<Rightarrow>
               if looks_like_disconnect e then reconnect_and_replay cfg tp name pl e l2 h2
               else (Raised e l2, h2)))"

text \<open>\<open>aclose\<close>: an exception of the close is passed on and leaves the client set.\<close>

definition http_aclose :: "'t transport \<Rightarrow> 't http_mcp \<Rightarrow> (exn + unit) \<times> 't http_mcp" where
  "http_aclose tp h =
     (if h_stack h then
        let ((o', _), n) = tp_close tp (h_net h); h1 = h\<lparr>h_net := n, h_stack := False\<rparr> in
        (case o' of Inl e \<Rightarrow> (Inl e, h1) | Inr _ \<Rightarrow> (Inr (), h1\<lparr>h_client := False\<rparr>))
      else (Inr (), h\<lparr>h_client := False\<rparr>))"

definition http_call_tool ::
  "mcp_settings \<Rightarrow> 't transport \<Rightarrow> string \<Rightarrow> payload \<Rightarrow> 't http_mcp mcp_client \<Rightarrow>
     (mcp_error + payload) \<times> 't http_mcp mcp_client"
where
  "http_call_tool cfg tp = call_tool cfg (http_invoke cfg tp)"

subsection \<open>\<open>get_mcp_client\<close>\<close>

definition provider_settings :: "mcp_settings \<Rightarrow> mcp_settings" where
  "provider_settings s =
     (let s1 = (if ms_idempotent s = [] then s\<lparr>ms_idempotent := default_idempotent_tools\<rparr> else s)
      in if ms_tool_timeouts s1 = [] then s1\<lparr>ms_tool_timeouts := default_tool_timeouts\<rparr> else s1)"

subsection \<open>\<open>IamIdTokenAuth\<close>\<close>

text \<open>The clock is read in microseconds; \<open>ia_source\<close> is the state of the injected fetcher.\<close>

record 'f iam_auth = base +
  ia_audience :: string
  ia_token :: "string option"
  ia_expires_at :: int
  ia_source :: 'f

definition ID_TOKEN_LIFETIME :: int where
  "ID_TOKEN_LIFETIME = 3300 * 1000000"

definition ID_TOKEN_REFRESH_LEEWAY :: int where
  "ID_TOKEN_REFRESH_LEEWAY = 60 * 1000000"

definition new_iam_auth ::
  "(nat \<Rightarrow> int) \<Rightarrow> string \<Rightarrow> 'f \<Rightarrow> (string + 'f iam_auth)"
where
  "new_iam_auth clk audience f =
     (if audience = [] then Inl ''IamIdTokenAuth requires a non-empty audience''
      else Inr \<lparr>clock = clk, ticks = 0, entropy = (\<lambda>_. []), minted = 0, dice = (\<lambda>_. 0), rolled = 0,
                ia_audience = audience, ia_token = None, ia_expires_at = 0, ia_source = f\<rparr>)"

definition token_is_fresh :: "int \<Rightarrow> 'f iam_auth \<Rightarrow> bool" where
  "token_is_fresh now s = (ia_token s \<noteq> None \<and> now < ia_expires_at s - ID_TOKEN_REFRESH_LEEWAY)"

definition refresh_token ::
  "(string \<Rightarrow> 'f \<Rightarrow> (exn + string) \<times> 'f) \<Rightarrow> 'f iam_auth \<Rightarrow> (exn + string) \<times> 'f iam_auth"
where
  "refresh_token fetch s =
     (let now = utcnow s; s1 = tick s in
      case fetch (ia_audience s1) (ia_source s1) of
        (Inl e, f) \<Rightarrow> (Inl e, s1\<lparr>ia_source := f\<rparr>)
      | (Inr t, f) \<Rightarrow>
          (Inr t, s1\<lparr>ia_source := f, ia_token := Some t, ia_expires_at := now + ID_TOKEN_LIFETIME\<rparr>))"

text \<open>The token the request is sent with.\<close>

definition auth_flow ::
  "(string \<Rightarrow> 'f \<Rightarrow> (exn + string) \<times> 'f) \<Rightarrow> 'f iam_auth \<Rightarrow> (exn + string) \<times> 'f iam_auth"
where
  "auth_flow fetch s =
     (let now = utcnow s; s1 = tick s in
      if token_is_fresh now s1
      then (case ia_token s1 of Some t \<Rightarrow> (Inr t, s1) | None \<Rightarrow> refresh_token fetch s1)
      else refresh_token fetch s1)"

end
