(* ===== verification/Tool_Theorems.thy ===== *)
theory Tool_Theorems
  imports Tool_Http
begin

section \<open>Properties of the tool client\<close>

text \<open>
  What a call of a tool comes to, how often a tool is called, and how old an identity token may be.
\<close>

subsection \<open>The retry loop\<close>

text \<open>The reference: the outcomes of at most \<open>n\<close> calls, up to the first that succeeds.\<close>

fun tries :: "('s \<Rightarrow> (exn + 'a) \<times> 's) \<Rightarrow> nat \<Rightarrow> 's \<Rightarrow> (exn + 'a) list \<times> 's" where
  "tries f 0 s = ([], s)"
| "tries f (Suc n) s =
     (case f s of
        (Inr v, s1) \<Rightarrow> ([Inr v], s1)
      | (Inl e, s1) \<Rightarrow> (case tries f n s1 of (os, s2) \<Rightarrow> (Inl e # os, s2)))"

lemma tries_failures:
  "tries f n s = (os, s') \<Longrightarrow> i < length os - 1 \<Longrightarrow> \<exists>e. os ! i = Inl e"
proof (induction n arbitrary: s os i)
  case (Suc n)
  then show ?case
    by (cases i) (fastforce split: prod.splits sum.splits)+
qed simp

lemma tries_nonempty: "tries f (Suc n) s = (os, s') \<Longrightarrow> os \<noteq> []"
  by (auto split: prod.splits sum.splits)

lemma tries_length: "tries f n s = (os, s') \<Longrightarrow> length os \<le> n"
proof (induction n arbitrary: s os)
  case (Suc n)
  then show ?case by (fastforce split: prod.splits sum.splits)
qed simp

lemma tries_exhausted:
  "tries f (Suc n) s = (os, s') \<Longrightarrow> last os = Inl e \<Longrightarrow> length os = Suc n"
proof (induction n arbitrary: s os)
  case 0
  then show ?case by (auto split: prod.splits sum.splits)
next
  case (Suc n)
  then obtain e1 s1 os1 where "f s = (Inl e1, s1)" "tries f (Suc n) s1 = (os1, s')" "os = Inl e1 # os1"
    by (auto simp del: tries.simps(2) simp: tries.simps(2) [of f "Suc n"] split: prod.splits sum.splits)
  with Suc.IH [of s1 os1] Suc.prems(2) tries_nonempty [of f n s1 os1 s'] show ?case by simp
qed

definition backoff :: "real \<Rightarrow> real \<Rightarrow> nat \<Rightarrow> real" where
  "backoff delay cap i = (if i = 0 then delay else min (delay * 2 ^ i) cap)"

lemma backoff_step: "0 \<le> cap \<Longrightarrow> backoff (min (delay * 2) cap) cap i = backoff delay cap (Suc i)"
proof -
  assume cap: "0 \<le> cap"
  have big: "cap \<le> cap * 2 ^ i" using cap by (simp add: mult_le_cancel_left1)
  have "min (min (delay * 2) cap * 2 ^ i) cap = min (delay * 2 * 2 ^ i) cap"
  proof (cases "delay * 2 \<le> cap")
    case False
    then have "cap * 2 ^ i \<le> delay * 2 * 2 ^ i" by (intro mult_right_mono) auto
    with big have "min (delay * 2 * 2 ^ i) cap = cap" by (intro min_absorb2) linarith
    moreover from False big have "min (min (delay * 2) cap * 2 ^ i) cap = cap" by (simp add: min_absorb2)
    ultimately show ?thesis by simp
  qed (simp add: min_absorb1)
  then show ?thesis by (simp add: backoff_def mult.assoc)
qed

lemma call_loop_tries:
  assumes "0 \<le> ms_max_delay cfg"
    and "tries (wait_for t (invoke name pl)) (Suc rem) (mc_self c) = (os, s')"
  shows "call_loop cfg invoke name pl t attempts rem delay c =
    ((case last os of Inr raw \<Rightarrow> Inr (unwrap_madad_envelope raw)
                    | Inl e \<Rightarrow> Inl (classify_mcp_error name attempts e)),
     c\<lparr>mc_self := s',
       mc_slept := mc_slept c @ map (backoff delay (ms_max_delay cfg)) [0..<length os - 1]\<rparr>)"
  using assms(2)
proof (induction rem arbitrary: delay c os)
  case 0
  then show ?case
    by (subst call_loop.simps) (auto split: prod.splits sum.splits)
next
  case (Suc rem)
  show ?case
  proof (cases "wait_for t (invoke name pl) (mc_self c)")
    case (Pair o1 s1)
    show ?thesis
    proof (cases o1)
      case (Inr raw)
      with Pair Suc.prems show ?thesis by (subst call_loop.simps) auto
    next
      case (Inl e)
      with Pair Suc.prems obtain os1 where
        os1: "tries (wait_for t (invoke name pl)) (Suc rem) s1 = (os1, s')" and os: "os = Inl e # os1"
        by (auto simp del: tries.simps(2) simp: tries.simps(2) [of _ "Suc rem"] split: prod.splits)
      let ?c = "c\<lparr>mc_self := s1, mc_slept := mc_slept c @ [delay]\<rparr>"
      have ne: "os1 \<noteq> []" by (rule tries_nonempty [OF os1])
      then have len: "[0..<length os1] = 0 # map Suc [0..<length os1 - 1]"
        by (cases os1) (simp_all add: map_Suc_upt upt_conv_Cons del: upt_Suc)
      have sched: "map (backoff delay (ms_max_delay cfg)) [0..<length os1] =
        delay # map (backoff (min (delay * 2) (ms_max_delay cfg)) (ms_max_delay cfg)) [0..<length os1 - 1]"
        unfolding len by (simp add: backoff_step [OF assms(1)] o_def) (simp add: backoff_def)
      have ih: "call_loop cfg invoke name pl t attempts rem (min (delay * 2) (ms_max_delay cfg)) ?c =
        ((case last os1 of Inr raw \<Rightarrow> Inr (unwrap_madad_envelope raw)
                         | Inl e \<Rightarrow> Inl (classify_mcp_error name attempts e)),
         ?c\<lparr>mc_self := s', mc_slept := mc_slept ?c @
           map (backoff (min (delay * 2) (ms_max_delay cfg)) (ms_max_delay cfg)) [0..<length os1 - 1]\<rparr>)"
        by (rule Suc.IH) (simp add: os1 del: tries.simps(2))
      show ?thesis
        using ne by (subst call_loop.simps) (simp add: Pair Inl ih sched os)
    qed
  qed
qed

lemma attempts_pos: "attempts_for cfg name = Suc (attempts_for cfg name - 1)"
  by (auto simp: attempts_for_def)

text \<open>
  C37. A call of a tool is what its attempts come to, one after the other, up to the first that
  succeeds: the unwrapped answer of the last attempt, or its exception classified with the tool and
  the number of attempts that were really made. A tool that is not idempotent gets one attempt. Between
  two attempts the client sleeps the base delay, doubled each time and capped from the second on.
\<close>

theorem tool_call_outcome:
  assumes "0 \<le> ms_max_delay cfg"
    and "tries (wait_for (tool_timeout cfg name) (invoke name pl)) (attempts_for cfg name) (mc_self c) = (os, s')"
  shows "call_tool cfg invoke name pl c =
      ((case last os of Inr raw \<Rightarrow> Inr (unwrap_madad_envelope raw)
                      | Inl e \<Rightarrow> Inl (classify_mcp_error name (length os) e)),
       c\<lparr>mc_self := s', mc_slept := mc_slept c @
           map (\<lambda>i. if i = 0 then ms_base_delay cfg
                    else min (ms_base_delay cfg * 2 ^ i) (ms_max_delay cfg)) [0..<length os - 1]\<rparr>) \<and>
    os \<noteq> [] \<and> length os \<le> (if is_idempotent cfg name then nat (max 1 (ms_max_attempts cfg)) else 1) \<and>
    (\<forall>i < length os - 1. \<exists>e. os ! i = Inl e)"
proof -
  have tr: "tries (wait_for (tool_timeout cfg name) (invoke name pl)) (Suc (attempts_for cfg name - 1))
      (mc_self c) = (os, s')"
    using assms(2) attempts_pos [of cfg name] by simp
  have ne: "os \<noteq> []" by (rule tries_nonempty [OF tr])
  have le: "length os \<le> (if is_idempotent cfg name then nat (max 1 (ms_max_attempts cfg)) else 1)"
    using tries_length [OF assms(2)] by (simp add: attempts_for_def)
  have fails: "\<forall>i < length os - 1. \<exists>e. os ! i = Inl e"
    using tries_failures [OF assms(2)] by simp
  have full: "length os = attempts_for cfg name" if "last os = Inl e" for e
    using tries_exhausted [OF tr that] attempts_pos [of cfg name] by simp
  have sched: "(\<lambda>i. if i = 0 then ms_base_delay cfg else min (ms_base_delay cfg * 2 ^ i) (ms_max_delay cfg)) =
      backoff (ms_base_delay cfg) (ms_max_delay cfg)"
    by (simp add: backoff_def fun_eq_iff)
  have "call_tool cfg invoke name pl c =
      ((case last os of Inr raw \<Rightarrow> Inr (unwrap_madad_envelope raw)
                      | Inl e \<Rightarrow> Inl (classify_mcp_error name (length os) e)),
       c\<lparr>mc_self := s', mc_slept := mc_slept c @
           map (\<lambda>i. if i = 0 then ms_base_delay cfg
                    else min (ms_base_delay cfg * 2 ^ i) (ms_max_delay cfg)) [0..<length os - 1]\<rparr>)"
    unfolding call_tool_def sched call_loop_tries [where invoke = invoke, OF assms(1) tr]
    by (cases "last os") (simp_all add: full)
  with ne le fails show ?thesis by blast
qed

text \<open>A read that fails twice and answers the third time, with two sleeps between.\<close>

definition demo_mcp_settings :: mcp_settings where
  "demo_mcp_settings =
     \<lparr>ms_endpoint = ''https://mcp.example'', ms_auth_mode = ''bearer'', ms_auth_token = None,
      ms_iam_audience = None, ms_timeout = 10, ms_max_attempts = 3, ms_base_delay = 1,
      ms_max_delay = 10, ms_idempotent = [''t_read''], ms_tool_timeouts = [(''t_slow'', 60)]\<rparr>"

definition demo_memory :: "memory_mcp mcp_client" where
  "demo_memory =
     \<lparr>mc_self = \<lparr>mm_handlers = [(''t_read'', \<lambda>_. Inr (JObj [(''ok'', JBool True)]))],
                 mm_fail_times = 2, mm_invocations = 0, mm_calls = []\<rparr>, mc_slept = []\<rparr>"

lemmas demo_tool_simps =
  demo_mcp_settings_def demo_memory_def wait_for_def memory_invoke_def tool_timeout_def attempts_for_def
  is_idempotent_def plain_exn_def

lemma tool_call_outcome_witness:
  "fst (call_tool demo_mcp_settings (memory_invoke (\<lambda>_. [])) ''t_read'' [] demo_memory) = Inr [(''ok'', JBool True)] \<and>
   mc_slept (snd (call_tool demo_mcp_settings (memory_invoke (\<lambda>_. [])) ''t_read'' [] demo_memory)) = [1, 2]"
proof -
  let ?f = "wait_for (tool_timeout demo_mcp_settings ''t_read'') (memory_invoke (\<lambda>_. []) ''t_read'' [])"
  have three: "attempts_for demo_mcp_settings ''t_read'' = Suc (Suc (Suc 0))"
    by (simp add: demo_tool_simps)
  obtain os s' where os: "tries ?f (attempts_for demo_mcp_settings ''t_read'') (mc_self demo_memory) = (os, s')"
    by (cases "tries ?f (attempts_for demo_mcp_settings ''t_read'') (mc_self demo_memory)")
  have cap: "0 \<le> ms_max_delay demo_mcp_settings" by (simp add: demo_mcp_settings_def)
  have "length os = 3" and "last os = Inr (JObj [(''ok'', JBool True)])"
    using os unfolding three by (auto simp: demo_tool_simps)
  then show ?thesis
    using conjunct1 [OF tool_call_outcome [where invoke = "memory_invoke (\<lambda>_. [])" and name = "''t_read''" and pl = "[]", OF cap os]]
    by (simp add: demo_mcp_settings_def demo_memory_def unwrap_madad_envelope_def jget_def upt_conv_Cons)
qed

subsection \<open>What reaches the wire\<close>

text \<open>The calls \<open>sent\<close> between two states: the same call, \<open>n\<close> times.\<close>

definition sent_times :: "nat \<Rightarrow> string \<Rightarrow> payload \<Rightarrow> 't http_mcp \<Rightarrow> 't http_mcp \<Rightarrow> bool" where
  "sent_times n name pl h h' = (h_sent h' = h_sent h @ replicate n (name, pl))"

lemma sent_times_0 [simp]: "sent_times 0 name pl h h"
  by (simp add: sent_times_def)

lemma sent_times_trans:
  "sent_times m name pl h h' \<Longrightarrow> sent_times n name pl h' h'' \<Longrightarrow> sent_times (m + n) name pl h h''"
  by (simp add: sent_times_def replicate_add)

lemma ensure_connected_sent: "ensure_connected cfg tp left h = (r, h') \<Longrightarrow> sent_times 0 name pl h h'"
  by (auto simp: ensure_connected_def sent_times_def Let_def split: if_splits sum.splits prod.splits step.splits)

lemma reset_connection_sent: "reset_connection tp left h = (r, h') \<Longrightarrow> sent_times 0 name pl h h'"
  by (auto simp: reset_connection_def sent_times_def Let_def split: if_splits prod.splits step.splits)

lemma fastmcp_call_sent: "fastmcp_call tp name pl left h = (r, h') \<Longrightarrow> sent_times 1 name pl h h'"
  by (auto simp: fastmcp_call_def sent_times_def split: prod.splits)

lemma fastmcp_call_raised:
  "fastmcp_call tp name pl left h = (Raised e l, h') \<Longrightarrow> \<exists>d net. tp_call tp name pl (h_net h) = ((Inl e, d), net)"
  by (auto simp: fastmcp_call_def awaited_def split: prod.splits if_splits sum.splits)

text \<open>The transport answered one of these calls with a disconnect.\<close>

definition disconnects :: "'t transport \<Rightarrow> string \<Rightarrow> payload \<Rightarrow> bool" where
  "disconnects tp name pl =
     (\<exists>net net' e d. tp_call tp name pl net = ((Inl e, d), net') \<and> looks_like_disconnect e)"

lemma reconnect_and_replay_sent:
  assumes "reconnect_and_replay cfg tp name pl e left h = (r, h')"
  shows "\<exists>n \<le> 1. sent_times n name pl h h'"
proof -
  obtain x h1 where r: "reset_connection tp left h = (x, h1)" by (cases "reset_connection tp left h")
  note s1 = reset_connection_sent [OF r, of name pl]
  show ?thesis
  proof (cases x)
    case None
    with assms r s1 show ?thesis by (auto simp: reconnect_and_replay_def)
  next
    case (Some l1)
    obtain y h2 where e: "ensure_connected cfg tp l1 h1 = (y, h2)" by (cases "ensure_connected cfg tp l1 h1")
    note s2 = sent_times_trans [OF s1 ensure_connected_sent [OF e]]
    show ?thesis
    proof (cases y)
      case (Done u l2)
      obtain z h3 where c: "fastmcp_call tp name pl l2 h2 = (z, h3)" by (cases "fastmcp_call tp name pl l2 h2")
      have "h' = h3"
        using assms unfolding reconnect_and_replay_def r Some by (cases z) (simp_all add: e Done c)
      with sent_times_trans [OF s2 fastmcp_call_sent [OF c]] show ?thesis by auto
    qed (use assms r Some e s2 in \<open>auto simp: reconnect_and_replay_def\<close>)
  qed
qed

lemma http_invoke_sent:
  assumes "http_invoke cfg tp name pl left h = (r, h')"
  obtains n where "n \<le> 2" "sent_times n name pl h h'" "n = 2 \<Longrightarrow> disconnects tp name pl"
proof -
  obtain y h1 where e: "ensure_connected cfg tp left h = (y, h1)" by (cases "ensure_connected cfg tp left h")
  note s1 = ensure_connected_sent [OF e, of name pl]
  show ?thesis
  proof (cases y)
    case (Done u l1)
    obtain z h2 where c: "fastmcp_call tp name pl l1 h1 = (z, h2)" by (cases "fastmcp_call tp name pl l1 h1")
    note s2 = sent_times_trans [OF s1 fastmcp_call_sent [OF c]]
    show ?thesis
    proof (cases "\<exists>x l2. z = Raised x l2 \<and> looks_like_disconnect x")
      case True
      then obtain x l2 where z: "z = Raised x l2" and x: "looks_like_disconnect x" by blast
      have "reconnect_and_replay cfg tp name pl x l2 h2 = (r, h')"
        using assms by (simp add: http_invoke_def e Done c z x)
      then obtain n where n: "n \<le> 1" "sent_times n name pl h2 h'" using reconnect_and_replay_sent by blast
      have "disconnects tp name pl"
        using fastmcp_call_raised [OF c [unfolded z]] x by (auto simp: disconnects_def)
      with n show ?thesis by (intro that [of "1 + n"]) (use sent_times_trans [OF s2 n(2)] in auto)
    next
      case False
      then have "h' = h2" using assms by (cases z) (auto simp: http_invoke_def e Done c)
      with s2 show ?thesis by (intro that [of 1]) auto
    qed
  qed (use assms e s1 that [of 0] in \<open>auto simp: http_invoke_def\<close>)
qed

lemma wait_for_http_sent:
  assumes "wait_for t (http_invoke cfg tp name pl) h = (r, h')"
  obtains n where "n \<le> 2" "sent_times n name pl h h'" "n = 2 \<Longrightarrow> disconnects tp name pl"
proof (cases "t \<le> 0")
  case True
  with assms show ?thesis by (intro that [of 0]) (auto simp: wait_for_def)
next
  case False
  then have "\<exists>x. http_invoke cfg tp name pl t h = (x, h')"
    using assms by (auto simp: wait_for_def split: prod.splits step.splits)
  then obtain x where "http_invoke cfg tp name pl t h = (x, h')" ..
  then show ?thesis by (rule http_invoke_sent) (rule that)
qed

lemma tries_http_sent:
  "tries (wait_for t (http_invoke cfg tp name pl)) n h = (os, h') \<Longrightarrow>
     \<exists>k \<le> 2 * n. sent_times k name pl h h' \<and> (n < k \<longrightarrow> disconnects tp name pl)"
proof (induction n arbitrary: h os)
  case (Suc n)
  obtain o1 h1 where o1: "wait_for t (http_invoke cfg tp name pl) h = (o1, h1)"
    by (cases "wait_for t (http_invoke cfg tp name pl) h")
  then obtain a where a: "a \<le> 2" "sent_times a name pl h h1" "a = 2 \<Longrightarrow> disconnects tp name pl"
    by (rule wait_for_http_sent) (rule that)
  show ?case
  proof (cases o1)
    case (Inr v)
    with Suc.prems o1 have "h' = h1" by simp
    with a show ?thesis by (intro exI [of _ a]) auto
  next
    case (Inl e)
    obtain os1 h2 where rest: "tries (wait_for t (http_invoke cfg tp name pl)) n h1 = (os1, h2)"
      by (cases "tries (wait_for t (http_invoke cfg tp name pl)) n h1")
    from Suc.prems o1 Inl rest have h2: "h2 = h'" by simp
    from Suc.IH [OF rest [unfolded h2]] obtain k where
      k: "k \<le> 2 * n" "sent_times k name pl h1 h'" "n < k \<longrightarrow> disconnects tp name pl" by blast
    with sent_times_trans [OF a(2) k(2)] show ?thesis
    proof (intro exI [of _ "a + k"] conjI impI)
      assume "Suc n < a + k"
      with a(1) have "a = 2 \<or> n < k" by linarith
      with a(3) k(3) show "disconnects tp name pl" by blast
    qed (use a(1) k(1) in auto)
  qed
qed simp

definition WRITE_WORDS :: "string list" where
  "WRITE_WORDS =
     [''upload'', ''submit'', ''add_'', ''update'', ''delete'', ''edit'', ''send'', ''emit'',
      ''create'', ''set_'', ''complete'', ''extract'', ''classify'']"

lemma default_retries_are_reads:
  "list_all (\<lambda>t. List.member payment_idempotent_writes t \<or> \<not> list_ex (\<lambda>w. contains w t) WRITE_WORDS)
     default_idempotent_tools"
  by code_simp

text \<open>
  C36. One call of a tool hands the same request to the transport at most twice per attempt, the second
  time only after an answer that looks like a disconnect. A tool outside the idempotent set therefore
  reaches the wire at most twice, and once unless a disconnect was seen. With the default set of the
  provider, the tools that get further attempts are reads by name and the two payment writes.
\<close>

theorem write_reaches_wire_at_most_twice:
  assumes "http_call_tool (provider_settings cfg) tp name pl c = (r, c')"
    and "0 \<le> ms_max_delay cfg"
  shows "(\<exists>n. h_sent (mc_self c') = h_sent (mc_self c) @ replicate n (name, pl) \<and>
      n \<le> 2 * attempts_for (provider_settings cfg) name \<and>
      (attempts_for (provider_settings cfg) name < n \<longrightarrow>
         (\<exists>net net' e d. tp_call tp name pl net = ((Inl e, d), net') \<and> looks_like_disconnect e))) \<and>
    (\<not> is_idempotent (provider_settings cfg) name \<longrightarrow>
      attempts_for (provider_settings cfg) name = 1 \<and> mc_slept c' = mc_slept c) \<and>
    (ms_idempotent cfg = [] \<and> is_idempotent (provider_settings cfg) name \<longrightarrow>
      name \<in> set payment_idempotent_writes \<or> (\<forall>w \<in> set WRITE_WORDS. \<not> contains w name))"
proof -
  let ?s = "provider_settings cfg"
  have cap: "0 \<le> ms_max_delay ?s" using assms(2) by (simp add: provider_settings_def Let_def)
  obtain os h' where os:
    "tries (wait_for (tool_timeout ?s name) (http_invoke ?s tp name pl)) (attempts_for ?s name) (mc_self c) = (os, h')"
    by (cases "tries (wait_for (tool_timeout ?s name) (http_invoke ?s tp name pl)) (attempts_for ?s name) (mc_self c)")
  have tr: "tries (wait_for (tool_timeout ?s name) (http_invoke ?s tp name pl)) (Suc (attempts_for ?s name - 1))
      (mc_self c) = (os, h')"
    using os attempts_pos [of ?s name] by simp
  have c': "c' = c\<lparr>mc_self := h',
      mc_slept := mc_slept c @ map (backoff (ms_base_delay ?s) (ms_max_delay ?s)) [0..<length os - 1]\<rparr>"
    using assms(1) call_loop_tries [where invoke = "http_invoke ?s tp", OF cap tr]
    by (simp add: http_call_tool_def call_tool_def)
  have sent: "\<exists>n. h_sent (mc_self c') = h_sent (mc_self c) @ replicate n (name, pl) \<and>
      n \<le> 2 * attempts_for ?s name \<and>
      (attempts_for ?s name < n \<longrightarrow>
         (\<exists>net net' e d. tp_call tp name pl net = ((Inl e, d), net') \<and> looks_like_disconnect e))"
    using tries_http_sent [OF os] unfolding c' sent_times_def disconnects_def by simp blast
  have single: "attempts_for ?s name = 1 \<and> mc_slept c' = mc_slept c" if "\<not> is_idempotent ?s name"
    using that tries_length [OF os] unfolding c' by (simp add: attempts_for_def)
  have "name \<in> set payment_idempotent_writes \<or>
      (\<forall>w \<in> set WRITE_WORDS. \<not> contains w name)"
    if "ms_idempotent cfg = []" "is_idempotent ?s name"
    using that default_retries_are_reads
    by (auto simp: provider_settings_def Let_def is_idempotent_def list_all_iff list_ex_iff split: if_splits)
  with sent single show ?thesis by blast
qed

text \<open>
  A cluster that carries out each write and loses the connection before its first answer: the write is
  carried out twice.
\<close>

definition losing_cluster :: "nat transport" where
  "losing_cluster =
     \<lparr>tp_enter = (\<lambda>_ n. ((Inr (), 0), n)),
      tp_call = (\<lambda>_ _ n. ((if n = 0 then Inl (plain_exn ''Connection reset by peer'')
                           else Inr \<lparr>cr_is_error = False, cr_data = JObj []\<rparr>, 1), Suc n)),
      tp_close = (\<lambda>n. ((Inr (), 0), n))\<rparr>"

definition demo_http :: "nat http_mcp mcp_client" where
  "demo_http = \<lparr>mc_self = new_http 0, mc_slept = []\<rparr>"

lemma reset_is_disconnect: "looks_like_disconnect (plain_exn ''Connection reset by peer'')"
  by code_simp

lemma write_reaches_wire_at_most_twice_witness:
  "\<exists>c' r n. http_call_tool (provider_settings demo_mcp_settings) losing_cluster ''madad_kyc_add_buyer'' [] demo_http = (r, c') \<and>
     h_net (mc_self c') = 2 \<and> n = length (h_sent (mc_self c')) \<and> 1 < n \<and> n \<le> 2"
proof -
  let ?s = "provider_settings demo_mcp_settings"
  have ni: "\<not> is_idempotent ?s ''madad_kyc_add_buyer''"
    by (simp add: demo_mcp_settings_def provider_settings_def is_idempotent_def Let_def)
  obtain r c' where call:
    "http_call_tool ?s losing_cluster ''madad_kyc_add_buyer'' [] demo_http = (r, c')"
    by (cases "http_call_tool ?s losing_cluster ''madad_kyc_add_buyer'' [] demo_http")
  have "h_net (mc_self c') = 2" and len: "1 < length (h_sent (mc_self c'))"
    using call
    by (auto simp: http_call_tool_def call_tool_def attempts_for_def ni call_loop.simps wait_for_def
        tool_timeout_def provider_settings_def demo_mcp_settings_def demo_http_def new_http_def http_invoke_def
        ensure_connected_def build_fastmcp_client_def Let_def losing_cluster_def awaited_def
        fastmcp_call_def reset_is_disconnect reconnect_and_replay_def reset_connection_def read_result_def
        split: if_splits)
  moreover have "length (h_sent (mc_self c')) \<le> 2"
    using write_reaches_wire_at_most_twice [OF call] ni
    by (auto simp: demo_mcp_settings_def demo_http_def new_http_def)
  ultimately show ?thesis using call by blast
qed

text \<open>
  A 504 whose text is \<open>Gateway Timeout\<close> is an answer of the cluster, and is classified as no answer.
\<close>

lemma gateway_timeout_is_no_backend_error:
  "xe_class (classify_mcp_error tool n (plain_exn ''Madad API returned HTTP 504: Gateway Timeout'')) = MCPTimeoutError"
  "xe_class (classify_mcp_error tool n (plain_exn ''Madad API returned HTTP 504'')) = MCPBackendError"
  by (code_simp, code_simp)

text \<open>The registry has 79 names; the read-only lookups it describes as such are not all retried.\<close>

lemma registry_size: "length all_tools = 79 \<and> distinct (map snd all_tools)"
  by code_simp

lemma read_left_out:
  "''madad_mcp_check_registration'' \<in> set (map snd all_tools)"
  "''madad_mcp_check_registration'' \<notin> set default_idempotent_tools"
  by code_simp+

subsection \<open>Identity tokens\<close>

text \<open>A client that sends \<open>n\<close> requests: the time of each and the token it carried, if any.\<close>

fun requests ::
  "(string \<Rightarrow> 'f \<Rightarrow> (exn + string) \<times> 'f) \<Rightarrow> nat \<Rightarrow> 'f iam_auth \<Rightarrow> (int \<times> (exn + string)) list \<times> 'f iam_auth"
where
  "requests fetch 0 s = ([], s)"
| "requests fetch (Suc n) s =
     (let (r, s1) = auth_flow fetch s; (rs, s2) = requests fetch n s1 in ((utcnow s, r) # rs, s2))"

text \<open>The cached token was fetched for the audience, at a reading of the clock.\<close>

definition token_is_fetched :: "(string \<Rightarrow> 'f \<Rightarrow> (exn + string) \<times> 'f) \<Rightarrow> 'f iam_auth \<Rightarrow> bool" where
  "token_is_fetched fetch s =
     (case ia_token s of
        None \<Rightarrow> True
      | Some t \<Rightarrow> \<exists>i x. ia_expires_at s = clock s i + ID_TOKEN_LIFETIME \<and> fst (fetch (ia_audience s) x) = Inr t)"

lemma auth_flow_fixed:
  "auth_flow fetch s = (r, s') \<Longrightarrow> clock s' = clock s \<and> ia_audience s' = ia_audience s"
  by (auto simp: auth_flow_def refresh_token_def Let_def tick_def split: if_splits option.splits prod.splits sum.splits)

lemma auth_flow_token:
  assumes "token_is_fetched fetch s" and "\<And>i. clock s i \<le> clock s (Suc i)"
    and "auth_flow fetch s = (Inr t, s')"
  shows "\<exists>i x. fst (fetch (ia_audience s) x) = Inr t \<and> utcnow s < clock s i + (3300 - 60) * 1000000"
proof (cases "token_is_fresh (utcnow s) (tick s)")
  case True
  then obtain t' where t': "ia_token s = Some t'" "utcnow s < ia_expires_at s - ID_TOKEN_REFRESH_LEEWAY"
    by (auto simp: token_is_fresh_def tick_def)
  with True assms(3) have "t = t'" by (simp add: auth_flow_def Let_def tick_def)
  moreover from assms(1) t'(1) obtain i x where
    "ia_expires_at s = clock s i + ID_TOKEN_LIFETIME" "fst (fetch (ia_audience s) x) = Inr t'"
    by (auto simp: token_is_fetched_def)
  ultimately show ?thesis using t'(2)
    by (intro exI [of _ i] exI [of _ x]) (simp add: ID_TOKEN_LIFETIME_def ID_TOKEN_REFRESH_LEEWAY_def)
next
  case False
  then have "refresh_token fetch (tick s) = (Inr t, s')"
    using assms(3) by (simp add: auth_flow_def Let_def)
  then have "fst (fetch (ia_audience s) (ia_source s)) = Inr t"
    by (auto simp: refresh_token_def Let_def tick_def split: prod.splits sum.splits)
  with assms(2) [of "ticks s"] show ?thesis
    by (intro exI [of _ "Suc (ticks s)"] exI [of _ "ia_source s"]) (simp add: utcnow_def)
qed

lemma auth_flow_keeps_fetched:
  assumes "token_is_fetched fetch s" and "auth_flow fetch s = (r, s')"
  shows "token_is_fetched fetch s'"
proof -
  have "refresh_token fetch u = (q, u') \<Longrightarrow> token_is_fetched fetch u \<Longrightarrow> token_is_fetched fetch u'" for u q u'
    by (auto simp: refresh_token_def token_is_fetched_def Let_def tick_def utcnow_def
        split: prod.splits sum.splits option.splits) (metis fst_conv)+
  moreover have "token_is_fetched fetch (tick s)"
    using assms(1) by (auto simp: token_is_fetched_def tick_def split: option.splits)
  ultimately show ?thesis
    using assms(2) by (auto simp: auth_flow_def Let_def split: if_splits option.splits)
qed

lemma requests_tokens:
  assumes "token_is_fetched fetch s" and "\<And>i. clock s i \<le> clock s (Suc i)"
    and "requests fetch n s = (rs, s')" and "(now, Inr t) \<in> set rs"
  shows "\<exists>i x. fst (fetch (ia_audience s) x) = Inr t \<and> now < clock s i + (3300 - 60) * 1000000"
  using assms
proof (induction n arbitrary: s rs)
  case (Suc n)
  obtain r s1 where r: "auth_flow fetch s = (r, s1)" by (cases "auth_flow fetch s")
  obtain rs1 s2 where rs1: "requests fetch n s1 = (rs1, s2)" by (cases "requests fetch n s1")
  note fixed = auth_flow_fixed [OF r]
  from Suc.prems(3) r rs1 have rs: "rs = (utcnow s, r) # rs1" by simp
  show ?case
  proof (cases "(now, Inr t) \<in> set rs1")
    case True
    have "requests fetch n s1 = (rs1, s')" using Suc.prems(3) r rs1 by simp
    from Suc.IH [OF auth_flow_keeps_fetched [OF Suc.prems(1) r] _ this True] fixed Suc.prems(2)
    show ?thesis by simp
  next
    case False
    with Suc.prems(4) rs have "r = Inr t" "now = utcnow s" by auto
    with auth_flow_token [OF Suc.prems(1,2) r [unfolded \<open>r = Inr t\<close>]] show ?thesis by simp
  qed
qed simp

text \<open>
  Over any sequence of requests of a new identity-token client, every token that is sent was
  fetched for the configured audience less than 54 minutes before the request, so it has more than
  five minutes of its hour left, whatever the fetcher does.
\<close>

theorem iam_token_is_young:
  assumes "new_iam_auth clk audience f = Inr s" and "\<And>i. clk i \<le> clk (Suc i)"
    and "requests fetch n s = (rs, s')" and "(now, Inr t) \<in> set rs"
  shows "audience \<noteq> [] \<and> (\<exists>i x. fst (fetch audience x) = Inr t \<and> now - clk i < 54 * 60 * 1000000)"
proof -
  from assms(1) have s: "audience \<noteq> []" "clock s = clk" "ia_audience s = audience" "token_is_fetched fetch s"
    by (auto simp: new_iam_auth_def token_is_fetched_def split: if_splits)
  from requests_tokens [OF s(4) _ assms(3,4)] assms(2) s(1-3) show ?thesis by (auto simp: algebra_simps)
qed

text \<open>A token fetched at the start serves a request 50 minutes later and not one 55 minutes later.\<close>

definition demo_clock :: "nat \<Rightarrow> int" where
  "demo_clock n = (if n < 2 then 0 else if n = 2 then 50 * 60 * 1000000 else 55 * 60 * 1000000)"

definition demo_fetch :: "string \<Rightarrow> nat \<Rightarrow> (exn + string) \<times> nat" where
  "demo_fetch audience k = (Inr (audience @ replicate k CHR ''#''), Suc k)"

lemma iam_token_is_young_witness:
  "\<exists>s rs s'. new_iam_auth demo_clock ''aud'' 0 = Inr s \<and> requests demo_fetch 3 s = (rs, s') \<and>
     map snd rs = [Inr ''aud'', Inr ''aud'', Inr ''aud#''] \<and>
     (\<exists>i x. fst (demo_fetch ''aud'' x) = Inr ''aud'' \<and> fst (rs ! 1) - demo_clock i < 54 * 60 * 1000000)"
proof -
  obtain s where s: "new_iam_auth demo_clock ''aud'' (0::nat) = Inr s" by (simp add: new_iam_auth_def)
  obtain rs s' where rs: "requests demo_fetch 3 s = (rs, s')" by (cases "requests demo_fetch 3 s")
  have mono: "\<And>i. demo_clock i \<le> demo_clock (Suc i)" by (simp add: demo_clock_def)
  have vals: "map snd rs = [Inr ''aud'', Inr ''aud'', Inr ''aud#'']"
    using s rs
    by (auto simp: new_iam_auth_def eval_nat_numeral auth_flow_def refresh_token_def token_is_fresh_def Let_def
        utcnow_def tick_def demo_clock_def demo_fetch_def ID_TOKEN_LIFETIME_def ID_TOKEN_REFRESH_LEEWAY_def)
  then have "(fst (rs ! 1), Inr ''aud'') \<in> set rs"
    by (cases rs; cases "tl rs") (auto simp: prod_eq_iff)
  from conjunct2 [OF iam_token_is_young [OF s mono rs this]] show ?thesis
    by (intro exI [of _ s] exI [of _ rs] exI [of _ s'] conjI s rs vals)
qed

end
