(* ===== verification/Broadcast.thy ===== *)
theory Broadcast
  imports Dispatcher Broadcast_Csv
begin

section \<open>Campaign broadcasts\<close>

text \<open>
  The store, the coordinator and the endpoints of \<open>app/services/workflow/broadcast.py\<close> and
  \<open>main.py\<close>: an uploaded list of phone numbers becomes a batch, and a background task starts the
  campaign of each valid row at a bounded rate. The single start is \<open>start_campaign\<close> of
  \<open>Dispatcher\<close>. A batch is a value that each \<open>save_bc_batch\<close> writes to the store, as in the Redis store;
  the in-memory store keeps the object itself, so between two saves its readers are ahead.
\<close>

subsection \<open>Batches\<close>

datatype batch_status = Batch_QUEUED | Batch_IN_PROGRESS | Batch_COMPLETED | Batch_CANCELLED

definition MAX_RATE_PER_MINUTE :: int where
  "MAX_RATE_PER_MINUTE = 60"

definition RECENT_BATCH_LIMIT :: nat where
  "RECENT_BATCH_LIMIT = 50"

record bc_failure =
  bf_number :: nat
  bf_phone :: "string option"
  bf_error :: string

record bc_invalid =
  bi_number :: nat
  bi_raw :: string
  bi_error :: "string option"

record bc_batch =
  bb_id :: string
  bb_key :: string
  bb_channel :: channel
  bb_status :: batch_status
  bb_total :: nat
  bb_valid :: nat
  bb_invalid :: nat
  bb_sent :: nat
  bb_failed :: nat
  bb_rate :: int
  bb_dry_run :: bool
  bb_started_at :: int
  bb_completed_at :: "int option"
  bb_submitted_by :: "string option"
  bb_failures :: "bc_failure list"
  bb_details :: "bc_invalid list"

text \<open>
  \<open>bc_tasks\<close>: the background tasks of the responses sent; \<open>bc_slept\<close>: the pauses of the coordinator,
  in seconds.
\<close>

record ('cp, 'm) bc_state = base +
  bc_platform :: "('cp, 'm) platform"
  bc_idem :: "(string, string) dict"
  bc_batches :: "(string, bc_batch) dict"
  bc_order :: "string list"
  bc_tasks :: "(bc_batch \<times> bc_row list) list"
  bc_slept :: "real list"

subsection \<open>\<open>InMemoryBroadcastStore\<close>\<close>

definition claim_idempotency :: "string \<Rightarrow> string \<Rightarrow> ('cp, 'm) bc_state \<Rightarrow> string \<times> ('cp, 'm) bc_state" where
  "claim_idempotency key bid s =
     (case dget (bc_idem s) key of
        Some b \<Rightarrow> (b, s)
      | None \<Rightarrow> (bid, s\<lparr>bc_idem := dput key bid (bc_idem s)\<rparr>))"

definition save_bc_batch :: "bc_batch \<Rightarrow> ('cp, 'm) bc_state \<Rightarrow> ('cp, 'm) bc_state" where
  "save_bc_batch b s =
     s\<lparr>bc_order := (if dget (bc_batches s) (bb_id b) = None then bc_order s @ [bb_id b] else bc_order s),
       bc_batches := dput (bb_id b) b (bc_batches s)\<rparr>"

definition get_bc_batch :: "string \<Rightarrow> ('cp, 'm) bc_state \<Rightarrow> bc_batch option" where
  "get_bc_batch bid s = dget (bc_batches s) bid"

definition list_recent :: "nat \<Rightarrow> ('cp, 'm) bc_state \<Rightarrow> bc_batch list" where
  "list_recent limit s = List.map_filter (dget (bc_batches s)) (take limit (rev (bc_order s)))"

subsection \<open>\<open>BroadcastCoordinator\<close>\<close>

text \<open>
  \<open>_start_one_for_broadcast\<close> repeats the body of \<open>start_campaign\<close>: the same lock, the same cancellation
  of predecessors, the same start.
\<close>

definition start_one_for_broadcast ::
  "('cp, 'm) dispatch_env \<Rightarrow> channel \<Rightarrow> string \<Rightarrow> string \<Rightarrow> ('cp, 'm) platform \<Rightarrow>
     (wf_exn + (wf_run + exec_result)) \<times> ('cp, 'm) platform"
where
  "start_one_for_broadcast env ch ident loc p =
     (let (claimed, p1) = claim (''campaign_start:'' @ channel_value ch @ '':'' @ ident) p;
          existing = (if claimed then None else find_active_run ch ident (pf_world p1))
      in case existing of
           Some r \<Rightarrow> (Inr (Inl r), p1)
         | None \<Rightarrow>
             let (cancelled, w) = cancel_active_runs_for ch ident (pf_world p1);
                 (r, p2) = runtime_start env ''onboarding'' ch ident
                   (JObj [(''trigger'', JStr ''campaign''), (''locale'', JStr loc)])
                   (p1\<lparr>pf_world := w\<rparr>)
             in (case r of Inl e \<Rightarrow> (Inl e, p2) | Inr res \<Rightarrow> (Inr (Inr res), p2)))"

lemma start_one_is_start_campaign: "start_one_for_broadcast = start_campaign"
  by (simp add: fun_eq_iff start_one_for_broadcast_def start_campaign_def)

text \<open>
  One row: \<open>None\<close> for a start that returned, \<open>Some\<close> the text of its exception. A valid row without a
  phone fails the assertion, outside the guarded call. \<open>err_text\<close> is \<open>str\<close> of an exception.
\<close>

definition dispatch_one ::
  "('cp, 'm) dispatch_env \<Rightarrow> (wf_exn \<Rightarrow> string) \<Rightarrow> bc_batch \<Rightarrow> bc_row \<Rightarrow> ('cp, 'm) bc_state \<Rightarrow>
     (string + string option) \<times> ('cp, 'm) bc_state"
where
  "dispatch_one env err_text b r s =
     (if bb_dry_run b then (Inr None, s)
      else
        (case br_phone r of
           None \<Rightarrow> (Inl ''AssertionError'', s)
         | Some phone \<Rightarrow>
             (case start_one_for_broadcast env (bb_channel b) phone (br_locale r) (bc_platform s) of
                (Inl e, p) \<Rightarrow> (Inr (Some (take 200 (err_text e))), s\<lparr>bc_platform := p\<rparr>)
              | (Inr _, p) \<Rightarrow> (Inr None, s\<lparr>bc_platform := p\<rparr>))))"

definition count_row :: "bc_row \<Rightarrow> string option \<Rightarrow> bc_batch \<Rightarrow> bc_batch" where
  "count_row r outcome b =
     (case outcome of
        None \<Rightarrow> b\<lparr>bb_sent := bb_sent b + 1\<rparr>
      | Some e \<Rightarrow>
          let b1 = b\<lparr>bb_failed := bb_failed b + 1\<rparr> in
          if length (bb_failures b1) < 20
          then b1\<lparr>bb_failures := bb_failures b1 @
                   [\<lparr>bf_number = br_number r, bf_phone = br_phone r, bf_error = e\<rparr>]\<rparr>
          else b1)"

definition interval_seconds :: "bc_batch \<Rightarrow> real" where
  "interval_seconds b = 60 / real_of_int (max 1 (bb_rate b))"

text \<open>The loop over the valid rows, \<open>idx\<close> of which are done.\<close>

fun process_rows ::
  "('cp, 'm) dispatch_env \<Rightarrow> (wf_exn \<Rightarrow> string) \<Rightarrow> nat \<Rightarrow> nat \<Rightarrow> bc_row list \<Rightarrow> bc_batch \<Rightarrow>
     ('cp, 'm) bc_state \<Rightarrow> (string + bc_batch) \<times> ('cp, 'm) bc_state"
where
  "process_rows env err_text every idx [] b s = (Inr b, s)"
| "process_rows env err_text every idx (r # rs) b s =
     (case dispatch_one env err_text b r s of
        (Inl e, s1) \<Rightarrow> (Inl e, s1)
      | (Inr outcome, s1) \<Rightarrow>
          let b1 = count_row r outcome b;
              s2 = (if (idx + 1) mod every = 0 then save_bc_batch b1 s1 else s1);
              s3 = (if rs \<noteq> [] then s2\<lparr>bc_slept := bc_slept s2 @ [interval_seconds b1]\<rparr> else s2)
          in process_rows env err_text every (idx + 1) rs b1 s3)"

definition close_batch :: "bc_batch \<Rightarrow> ('cp, 'm) bc_state \<Rightarrow> ('cp, 'm) bc_state" where
  "close_batch b s =
     save_bc_batch (b\<lparr>bb_status := Batch_COMPLETED, bb_completed_at := Some (utcnow s)\<rparr>) (tick s)"

definition process_batch ::
  "('cp, 'm) dispatch_env \<Rightarrow> (wf_exn \<Rightarrow> string) \<Rightarrow> bc_batch \<Rightarrow> bc_row list \<Rightarrow> ('cp, 'm) bc_state \<Rightarrow>
     (string + unit) \<times> ('cp, 'm) bc_state"
where
  "process_batch env err_text b rows s =
     (let valid = filter br_valid rows;
          b1 = b\<lparr>bb_status := Batch_IN_PROGRESS, bb_total := length rows, bb_valid := length valid,
                 bb_invalid := length rows - length valid\<rparr>;
          s1 = save_bc_batch b1 s
      in if valid = [] then (Inr (), close_batch b1 s1)
         else
           (case process_rows env err_text (max 1 (min 25 (length valid div 10))) 0 valid b1 s1 of
              (Inl e, s2) \<Rightarrow> (Inl e, s2)
            | (Inr b2, s2) \<Rightarrow> (Inr (), close_batch b2 s2)))"

subsection \<open>Endpoints\<close>

text \<open>
  The loop stops when the list is as long as the cap, after it has appended: a cap below one still
  gives one entry.
\<close>

definition summarize_invalid_rows :: "bc_row list \<Rightarrow> nat \<Rightarrow> bc_invalid list" where
  "summarize_invalid_rows rows cap =
     take (max 1 cap)
       (map (\<lambda>r. \<lparr>bi_number = br_number r, bi_raw = br_raw r, bi_error = br_error r\<rparr>)
          (filter (\<lambda>r. \<not> br_valid r) rows))"

datatype bc_exn = Http_422 | Http_400 "fatal_error list" | Http_404 | Csv_error string

record bc_result =
  bs_id :: string
  bs_key :: string
  bs_deduped :: bool
  bs_total :: nat
  bs_valid :: nat
  bs_invalid :: nat
  bs_details :: "bc_invalid list"
  bs_started_at :: int
  bs_status :: batch_status

definition batch_result :: "bool \<Rightarrow> bc_batch \<Rightarrow> bc_invalid list \<Rightarrow> bc_result" where
  "batch_result deduped b details =
     \<lparr>bs_id = bb_id b, bs_key = bb_key b, bs_deduped = deduped, bs_total = bb_total b, bs_valid = bb_valid b,
      bs_invalid = bb_invalid b, bs_details = details, bs_started_at = bb_started_at b,
      bs_status = bb_status b\<rparr>"

text \<open>The form is checked first: a key of 8 to 200 characters, a rate of 1 to 60.\<close>

definition submit_broadcast ::
  "string \<Rightarrow> channel \<Rightarrow> string \<Rightarrow> bool \<Rightarrow> int \<Rightarrow> string option \<Rightarrow> ('cp, 'm) bc_state \<Rightarrow>
     (bc_exn + bc_result) \<times> ('cp, 'm) bc_state"
where
  "submit_broadcast raw ch key dry rate by s =
     (if length key < 8 \<or> 200 < length key \<or> rate < 1 \<or> MAX_RATE_PER_MINUTE < rate then (Inl Http_422, s)
      else
        (case parse_csv raw of
           Inl e \<Rightarrow> (Inl (Csv_error e), s)
         | Inr (rows, fatal) \<Rightarrow>
             if fatal \<noteq> [] then (Inl (Http_400 fatal), s)
             else
               let proposed = new_id ''bcast'' s;
                   (actual, s1) = claim_idempotency key proposed (mint s);
                   existing = (if actual \<noteq> proposed then get_bc_batch actual s1 else None)
               in case existing of
                    Some b \<Rightarrow> (Inr (batch_result True b []), s1)
                  | None \<Rightarrow>
                      let valid = filter br_valid rows;
                          details = summarize_invalid_rows rows 20;
                          b = \<lparr>bb_id = actual, bb_key = key, bb_channel = ch, bb_status = Batch_QUEUED,
                               bb_total = length rows, bb_valid = length valid,
                               bb_invalid = length rows - length valid, bb_sent = 0, bb_failed = 0,
                               bb_rate = rate, bb_dry_run = dry, bb_started_at = utcnow s1,
                               bb_completed_at = None, bb_submitted_by = by, bb_failures = [],
                               bb_details = details\<rparr>;
                          s2 = save_bc_batch b (tick s1)
                      in (Inr (batch_result False b details), s2\<lparr>bc_tasks := bc_tasks s2 @ [(b, rows)]\<rparr>)))"

text \<open>A background task runs once its response is sent; what it raises ends there.\<close>

definition run_task ::
  "('cp, 'm) dispatch_env \<Rightarrow> (wf_exn \<Rightarrow> string) \<Rightarrow> nat \<Rightarrow> ('cp, 'm) bc_state \<Rightarrow> ('cp, 'm) bc_state"
where
  "run_task env err_text i s =
     (if i < length (bc_tasks s)
      then
        let (b, rows) = bc_tasks s ! i
        in snd (process_batch env err_text b rows
                  (s\<lparr>bc_tasks := take i (bc_tasks s) @ drop (Suc i) (bc_tasks s)\<rparr>))
      else s)"

definition get_broadcast :: "string \<Rightarrow> ('cp, 'm) bc_state \<Rightarrow> bc_exn + bc_batch" where
  "get_broadcast bid s = (case get_bc_batch bid s of None \<Rightarrow> Inl Http_404 | Some b \<Rightarrow> Inr b)"

definition list_broadcasts :: "('cp, 'm) bc_state \<Rightarrow> bc_batch list" where
  "list_broadcasts s = list_recent RECENT_BATCH_LIMIT s"

end
