(* ===== verification/Broadcast_Theorems.thy ===== *)
theory Broadcast_Theorems
  imports Broadcast Dispatch_Theorems
begin

section \<open>Properties of campaign broadcasts\<close>

text \<open>
  What a phone number is normalised to, what a processed batch accounts for, and what a repeated
  submission does.
\<close>

subsection \<open>Phone numbers\<close>

definition canonical_phone :: "string \<Rightarrow> bool" where
  "canonical_phone p =
     (\<exists>d ds. p = CHR ''+'' # d # ds \<and> is_digit d \<and> d \<noteq> CHR ''0'' \<and> list_all is_digit ds \<and>
        5 \<le> length ds \<and> length ds \<le> 14)"

abbreviation bare :: "string \<Rightarrow> string" where
  "bare \<equiv> filter (\<lambda>c. \<not> phone_junk c)"

lemma strip_id: "list_all (\<lambda>c. \<not> is_space c) s \<Longrightarrow> strip s = s"
proof -
  have drop: "dropWhile is_space t = t" if "list_all (\<lambda>c. \<not> is_space c) t" for t
    using that by (cases t) auto
  assume "list_all (\<lambda>c. \<not> is_space c) s"
  with drop [of s] drop [of "rev s"] show "strip s = s" by (simp add: strip_def list_all_iff)
qed

lemma strip_bare: "strip (bare raw) = bare raw"
  by (rule strip_id) (auto simp: list_all_iff phone_junk_def)

lemma e164_plus: "e164_match (CHR ''+'' # t) = canonical_phone (CHR ''+'' # t)"
  by (cases t) (simp_all add: e164_match_def canonical_phone_def)

lemma starts_with_plus: "starts_with ''+'' s = (\<exists>t. s = CHR ''+'' # t)"
  by (cases s) (auto simp: starts_with_def)

lemma digit_not_junk: "is_digit c \<Longrightarrow> \<not> phone_junk c"
  by (auto simp: is_digit_def phone_junk_def is_space_def code_def)

lemma plus_not_junk: "\<not> phone_junk CHR ''+''"
  by (simp add: phone_junk_def is_space_def code_def)

lemma bare_canonical:
  assumes "canonical_phone p"
  shows "bare p = p"
proof -
  have "list_all (\<lambda>c. \<not> phone_junk c) p"
    using assms digit_not_junk plus_not_junk unfolding canonical_phone_def list_all_iff by auto
  then show ?thesis by (simp add: list_all_iff)
qed

lemma leading_zeros:
  "(dropWhile (\<lambda>c. c = CHR ''0'') s = t) =
     ((\<exists>k. s = replicate k CHR ''0'' @ t) \<and> (t = [] \<or> hd t \<noteq> CHR ''0''))"
proof
  assume t: "dropWhile (\<lambda>c. c = CHR ''0'') s = t"
  have "takeWhile (\<lambda>c. c = CHR ''0'') s = replicate (length (takeWhile (\<lambda>c. c = CHR ''0'') s)) CHR ''0''"
    by (rule replicate_eqI) (auto dest: set_takeWhileD)
  then have "s = replicate (length (takeWhile (\<lambda>c. c = CHR ''0'') s)) CHR ''0'' @ t"
    using takeWhile_dropWhile_id [of "\<lambda>c. c = CHR ''0''" s] t by metis
  moreover have "t = [] \<or> hd t \<noteq> CHR ''0''"
    using t hd_dropWhile [of "\<lambda>c. c = CHR ''0''" s] by auto
  ultimately show "(\<exists>k. s = replicate k CHR ''0'' @ t) \<and> (t = [] \<or> hd t \<noteq> CHR ''0'')" by blast
next
  assume "(\<exists>k. s = replicate k CHR ''0'' @ t) \<and> (t = [] \<or> hd t \<noteq> CHR ''0'')"
  then obtain k where k: "s = replicate k CHR ''0'' @ t" and t: "t = [] \<or> hd t \<noteq> CHR ''0''" by blast
  show "dropWhile (\<lambda>c. c = CHR ''0'') s = t"
    unfolding k using t by (induction k) (cases t; simp)+
qed

lemma normalize_phone_iff:
  "normalize_phone raw = Some p \<longleftrightarrow>
     canonical_phone p \<and> (bare raw = p \<or> (\<exists>k. bare raw = replicate k CHR ''0'' @ tl p))"
proof (cases "starts_with ''+'' (bare raw)")
  case True
  then obtain t where t: "bare raw = CHR ''+'' # t" by (auto simp: starts_with_plus)
  have no: "\<not> (\<exists>k. bare raw = replicate k CHR ''0'' @ tl p)" if "canonical_phone p"
  proof
    assume "\<exists>k. bare raw = replicate k CHR ''0'' @ tl p"
    then obtain k where k: "CHR ''+'' # t = replicate k CHR ''0'' @ tl p" using t by auto
    from that obtain d ds where d: "tl p = d # ds" "is_digit d" by (auto simp: canonical_phone_def)
    from k d show False by (cases k) (auto simp: is_digit_def code_def)
  qed
  have "normalize_phone raw = (if canonical_phone (bare raw) then Some (bare raw) else None)"
    unfolding normalize_phone_def Let_def strip_bare using True t e164_plus [of t] by simp
  with no show ?thesis by auto
next
  case False
  let ?z = "dropWhile (\<lambda>c. c = CHR ''0'') (bare raw)"
  have "normalize_phone raw = (if bare raw \<noteq> [] \<and> canonical_phone (CHR ''+'' # ?z) then Some (CHR ''+'' # ?z) else None)"
    unfolding normalize_phone_def Let_def strip_bare using False e164_plus [of ?z] by simp
  moreover have "bare raw \<noteq> [] \<and> canonical_phone (CHR ''+'' # ?z) \<and> p = CHR ''+'' # ?z \<longleftrightarrow>
      canonical_phone p \<and> (\<exists>k. bare raw = replicate k CHR ''0'' @ tl p)"
  proof -
    have "p = CHR ''+'' # ?z \<longleftrightarrow> (\<exists>k. bare raw = replicate k CHR ''0'' @ tl p)" if cp: "canonical_phone p"
    proof -
      from cp obtain q where q: "p = CHR ''+'' # q" "q \<noteq> []" "hd q \<noteq> CHR ''0''" by (auto simp: canonical_phone_def)
      then show ?thesis using leading_zeros [of "bare raw" q] by auto
    qed
    moreover have "bare raw \<noteq> []" if "canonical_phone (CHR ''+'' # ?z)"
      using that by (auto simp: canonical_phone_def)
    ultimately show ?thesis by blast
  qed
  moreover have "bare raw \<noteq> p" if "canonical_phone p"
    using that False by (auto simp: canonical_phone_def starts_with_plus)
  ultimately show ?thesis by (auto split: if_splits)
qed

text \<open>
  C40. A phone number is accepted exactly when, without separators, it is an E.164 number or one that
  lacks only the plus, with any number of zeros before it; what is stored is that E.164 number,
  normalising it again changes nothing, and it is the identity under which backend events of the
  number reach its run, unless it has eight digits, which the event router takes for a local number.
\<close>

theorem normalized_phone_is_canonical:
  "(normalize_phone raw = Some p \<longleftrightarrow>
     canonical_phone p \<and> (bare raw = p \<or> (\<exists>k. bare raw = replicate k CHR ''0'' @ tl p))) \<and>
   (normalize_phone raw = Some p \<longrightarrow>
     normalize_phone p = Some p \<and>
     canon_event_identity WHATSAPP p = (if length p = 9 then ''+974'' @ tl p else p))"
proof -
  have iff: "normalize_phone raw = Some p \<longleftrightarrow>
      canonical_phone p \<and> (bare raw = p \<or> (\<exists>k. bare raw = replicate k CHR ''0'' @ tl p))" for raw p
    by (rule normalize_phone_iff)
  have stable: "normalize_phone p = Some p" if "normalize_phone raw = Some p"
    using that bare_canonical unfolding iff by blast
  have "canon_event_identity WHATSAPP p = (if length p = 9 then ''+974'' @ tl p else p)"
    if "normalize_phone raw = Some p"
  proof -
    from that obtain d ds where p: "p = CHR ''+'' # d # ds" "is_digit d" "list_all is_digit ds"
      unfolding iff canonical_phone_def by blast
    have "\<not> is_digit CHR ''+''" by (simp add: is_digit_def code_def)
    then have "filter is_digit p = d # ds" using p by (simp add: list_all_iff)
    then show ?thesis using p by (simp add: canon_event_identity_def Let_def)
  qed
  with iff stable show ?thesis by blast
qed

text \<open>A local number goes out under another identity than its events come in.\<close>

theorem normalized_phone_is_canonical_witness:
  "normalize_phone ''+974 5550-0001'' = Some ''+97455500001'' \<and>
   normalize_phone ''00974 (5) 550.0001'' = Some ''+97455500001'' \<and> normalize_phone ''+9745'' = None \<and>
   canon_event_identity WHATSAPP ''+97455500001'' = ''+97455500001'' \<and>
   normalize_phone ''5550-0001'' = Some ''+55500001'' \<and>
   canon_event_identity WHATSAPP ''+55500001'' = ''+97455500001''"
proof -
  have vals: "normalize_phone ''+974 5550-0001'' = Some ''+97455500001''"
    "normalize_phone ''00974 (5) 550.0001'' = Some ''+97455500001''"
    "normalize_phone ''+9745'' = None" "normalize_phone ''5550-0001'' = Some ''+55500001''"
    by code_simp+
  from vals normalized_phone_is_canonical [of "''+974 5550-0001''" "''+97455500001''"]
    normalized_phone_is_canonical [of "''5550-0001''" "''+55500001''"]
  show ?thesis by simp
qed

subsection \<open>What parsing promises\<close>

lemma parse_row_valid:
  "br_valid (parse_row i cells) \<Longrightarrow>
     \<exists>p. br_phone (parse_row i cells) = Some p \<and> normalize_phone (br_raw (parse_row i cells)) = Some p \<and>
       br_locale (parse_row i cells) \<in> {''en'', ''ar''}"
  by (auto simp: parse_row_def Let_def split: if_splits)

lemma parse_csv_row: "parse_csv raw = Inr (rows, fatal) \<Longrightarrow> r \<in> set rows \<Longrightarrow> \<exists>i cells. r = parse_row i cells"
  by (auto simp: parse_csv_def Let_def simp del: upt_Suc split: option.splits sum.splits prod.splits if_splits) blast+

lemma parse_csv_rows:
  assumes "parse_csv raw = Inr (rows, [])"
  shows "rows \<noteq> []" and "length rows \<le> MAX_ROWS_PER_BATCH"
    and "r \<in> set rows \<Longrightarrow> br_valid r \<Longrightarrow>
      \<exists>p. br_phone r = Some p \<and> normalize_phone (br_raw r) = Some p \<and> br_locale r \<in> {''en'', ''ar''}"
proof -
  show "rows \<noteq> []" "length rows \<le> MAX_ROWS_PER_BATCH"
    using assms by (auto simp: parse_csv_def Let_def simp del: upt_Suc
        split: option.splits sum.splits prod.splits if_splits)
  show "\<exists>p. br_phone r = Some p \<and> normalize_phone (br_raw r) = Some p \<and> br_locale r \<in> {''en'', ''ar''}"
    if "r \<in> set rows" "br_valid r"
    using parse_csv_row [OF assms that(1)] parse_row_valid that(2) by metis
qed

subsection \<open>Processing a batch\<close>

text \<open>The starts of a batch, one after the other.\<close>

definition started ::
  "('cp, 'm) dispatch_env \<Rightarrow> bc_batch \<Rightarrow> bc_row list \<Rightarrow> ('cp, 'm) platform \<Rightarrow> ('cp, 'm) platform"
where
  "started env b rows p =
     (if bb_dry_run b then p
      else fold (\<lambda>r q. snd (start_campaign env (bb_channel b) (the (br_phone r)) (br_locale r) q)) rows p)"

text \<open>Everything but the counts.\<close>

definition plan_of :: "bc_batch \<Rightarrow> bc_batch" where
  "plan_of b = b\<lparr>bb_sent := 0, bb_failed := 0, bb_failures := []\<rparr>"

lemma plan_of_fields:
  assumes "plan_of b' = plan_of b"
  shows "bb_id b' = bb_id b" "bb_key b' = bb_key b" "bb_channel b' = bb_channel b" "bb_total b' = bb_total b"
    "bb_valid b' = bb_valid b" "bb_invalid b' = bb_invalid b" "bb_rate b' = bb_rate b"
    "bb_dry_run b' = bb_dry_run b" "bb_details b' = bb_details b" "bb_started_at b' = bb_started_at b"
  using assms by (cases b; cases b'; simp add: plan_of_def)+

definition tallied :: "bc_batch \<Rightarrow> bool" where
  "tallied b = (length (bb_failures b) = min 20 (bb_failed b))"

lemma count_row_facts:
  "plan_of (count_row r o' b) = plan_of b"
  "bb_sent (count_row r o' b) + bb_failed (count_row r o' b) = Suc (bb_sent b + bb_failed b)"
  "tallied b \<Longrightarrow> tallied (count_row r o' b)"
  by (auto simp: count_row_def plan_of_def tallied_def Let_def split: option.splits)

text \<open>What a batch in progress leaves alone: other batches, keys, tasks and the environment.\<close>

definition store_kept :: "string \<Rightarrow> ('cp, 'm) bc_state \<Rightarrow> ('cp, 'm) bc_state \<Rightarrow> bool" where
  "store_kept bid s s' =
     (bc_idem s' = bc_idem s \<and> bc_tasks s' = bc_tasks s \<and> entropy s' = entropy s \<and> minted s' = minted s \<and>
      (\<forall>k. k \<noteq> bid \<longrightarrow> dget (bc_batches s') k = dget (bc_batches s) k) \<and>
      (\<forall>b. dget (bc_batches s') bid = Some b \<longrightarrow> bb_id b = bid \<or> dget (bc_batches s) bid = Some b) \<and>
      (dget (bc_batches s) bid \<noteq> None \<longrightarrow> dget (bc_batches s') bid \<noteq> None))"

lemma store_kept_refl [simp]: "store_kept bid s s"
  by (simp add: store_kept_def)

lemma store_kept_trans: "store_kept bid s t \<Longrightarrow> store_kept bid t u \<Longrightarrow> store_kept bid s u"
  unfolding store_kept_def by metis

lemma save_bc_batch_kept [simp]: "store_kept (bb_id b) s (save_bc_batch b s)"
  by (simp add: store_kept_def save_bc_batch_def)

lemma save_bc_batch_frame [simp]:
  "bc_platform (save_bc_batch b s) = bc_platform s" "bc_slept (save_bc_batch b s) = bc_slept s"
  "bc_tasks (save_bc_batch b s) = bc_tasks s" "bc_idem (save_bc_batch b s) = bc_idem s"
  "entropy (save_bc_batch b s) = entropy s" "minted (save_bc_batch b s) = minted s"
  by (simp_all add: save_bc_batch_def)

lemma save_bc_batch_read: "get_bc_batch (bb_id b) (save_bc_batch b s) = Some b"
  by (simp add: get_bc_batch_def save_bc_batch_def)

lemma close_batch_facts:
  "get_bc_batch (bb_id b) (close_batch b s) = Some (b\<lparr>bb_status := Batch_COMPLETED, bb_completed_at := Some (utcnow s)\<rparr>)"
  "store_kept (bb_id b) s (close_batch b s)"
  "bc_platform (close_batch b s) = bc_platform s" "bc_slept (close_batch b s) = bc_slept s"
  by (simp_all add: close_batch_def save_bc_batch_def get_bc_batch_def store_kept_def tick_def)

lemma dispatch_one_ok:
  assumes "bb_dry_run b \<or> br_phone r \<noteq> None"
  obtains outcome where "dispatch_one env f b r s =
    (Inr outcome, s\<lparr>bc_platform := started env b [r] (bc_platform s)\<rparr>)"
proof (cases "bb_dry_run b")
  case True
  then show ?thesis by (intro that [of None]) (simp add: dispatch_one_def started_def)
next
  case False
  with assms obtain p where p: "br_phone r = Some p" by blast
  obtain out q where c: "start_campaign env (bb_channel b) p (br_locale r) (bc_platform s) = (out, q)" by force
  show ?thesis
    by (rule that [of "case out of Inl e \<Rightarrow> Some (take 200 (f e)) | Inr _ \<Rightarrow> None"])
      (simp add: dispatch_one_def started_def start_one_is_start_campaign False p c split: sum.split)
qed

lemma started_Cons: "started env b (r # rs) p = started env b rs (started env b [r] p)"
  by (simp add: started_def)

lemma started_plan: "plan_of b' = plan_of b \<Longrightarrow> started env b' rs p = started env b rs p"
  using plan_of_fields(3,8) [of b' b] by (simp add: started_def)

lemma process_rows_outcome:
  assumes "\<forall>r \<in> set rows. bb_dry_run b \<or> br_phone r \<noteq> None" and "tallied b"
  shows "\<exists>b' s'. process_rows env f every idx rows b s = (Inr b', s') \<and> plan_of b' = plan_of b \<and> tallied b' \<and>
    bb_sent b' + bb_failed b' = bb_sent b + bb_failed b + length rows \<and> store_kept (bb_id b) s s' \<and>
    bc_platform s' = started env b rows (bc_platform s) \<and>
    bc_slept s' = bc_slept s @ replicate (length rows - 1) (interval_seconds b)"
  using assms
proof (induction rows arbitrary: idx b s)
  case Nil
  then show ?case by (auto simp: started_def)
next
  case (Cons r rs)
  from Cons.prems(1) have "bb_dry_run b \<or> br_phone r \<noteq> None" by (auto simp del: not_None_eq)
  then obtain out where
    d: "dispatch_one env f b r s = (Inr out, s\<lparr>bc_platform := started env b [r] (bc_platform s)\<rparr>)"
    by (rule dispatch_one_ok) (rule that)
  define b1 where "b1 = count_row r out b"
  define s1 where "s1 = s\<lparr>bc_platform := started env b [r] (bc_platform s)\<rparr>"
  define s2 where "s2 = (if (idx + 1) mod every = 0 then save_bc_batch b1 s1 else s1)"
  define s3 where "s3 = (if rs \<noteq> [] then s2\<lparr>bc_slept := bc_slept s2 @ [interval_seconds b1]\<rparr> else s2)"
  note c = count_row_facts [where r = r and o' = out and b = b, folded b1_def]
  note fields = plan_of_fields [OF c(1)]
  have pre: "\<forall>r \<in> set rs. bb_dry_run b1 \<or> br_phone r \<noteq> None" using Cons.prems(1) fields by auto
  from Cons.IH [OF pre c(3) [OF Cons.prems(2)], of "idx + 1" s3] obtain b' s' where
    ih: "process_rows env f every (idx + 1) rs b1 s3 = (Inr b', s')" "plan_of b' = plan_of b1" "tallied b'"
      "bb_sent b' + bb_failed b' = bb_sent b1 + bb_failed b1 + length rs" "store_kept (bb_id b1) s3 s'"
      "bc_platform s' = started env b1 rs (bc_platform s3)"
      "bc_slept s' = bc_slept s3 @ replicate (length rs - 1) (interval_seconds b1)" by blast
  have run: "process_rows env f every idx (r # rs) b s = (Inr b', s')"
    unfolding process_rows.simps(2) d prod.case sum.case Let_def
    using ih(1) unfolding s3_def s2_def s1_def b1_def .
  have "store_kept (bb_id b) s s1" by (simp add: store_kept_def s1_def)
  moreover have "store_kept (bb_id b) s1 s2"
    using save_bc_batch_kept [of b1 s1] fields by (simp add: s2_def)
  moreover have "store_kept (bb_id b) s2 s3" by (simp add: store_kept_def s3_def)
  ultimately have kept: "store_kept (bb_id b) s s'"
    using ih(5) fields by (metis store_kept_trans)
  have plat: "bc_platform s3 = started env b [r] (bc_platform s)" by (simp add: s3_def s2_def s1_def)
  have slept: "bc_slept s3 = bc_slept s @ (if rs \<noteq> [] then [interval_seconds b] else [])"
    using fields by (simp add: s3_def s2_def s1_def interval_seconds_def)
  have "bc_slept s' = bc_slept s @ replicate (length (r # rs) - 1) (interval_seconds b)"
    using ih(7) slept fields by (cases rs) (simp_all add: interval_seconds_def)
  with run ih(2-4,6) c(1,2) kept plat show ?case
    using started_plan [OF c(1)] started_Cons [of env b r rs] by (intro exI conjI) auto
qed

lemma process_batch_outcome:
  assumes "\<forall>r \<in> set rows. br_valid r \<longrightarrow> bb_dry_run b \<or> br_phone r \<noteq> None" and "tallied b"
    and "process_batch env f b rows s = (out, s')"
  shows "out = Inr () \<and> (\<exists>b'. get_bc_batch (bb_id b) s' = Some b' \<and>
      bb_status b' = Batch_COMPLETED \<and> bb_completed_at b' \<noteq> None \<and> tallied b' \<and>
      bb_id b' = bb_id b \<and> bb_key b' = bb_key b \<and> bb_details b' = bb_details b \<and>
      bb_total b' = length rows \<and> bb_valid b' = length (filter br_valid rows) \<and>
      bb_invalid b' = length (filter (\<lambda>r. \<not> br_valid r) rows) \<and>
      bb_sent b' + bb_failed b' = bb_sent b + bb_failed b + length (filter br_valid rows)) \<and>
    store_kept (bb_id b) s s' \<and> bc_platform s' = started env b (filter br_valid rows) (bc_platform s) \<and>
    bc_slept s' = bc_slept s @ replicate (length (filter br_valid rows) - 1) (interval_seconds b)"
proof -
  define valid where "valid = filter br_valid rows"
  define b1 where "b1 = b\<lparr>bb_status := Batch_IN_PROGRESS, bb_total := length rows, bb_valid := length valid,
      bb_invalid := length rows - length valid\<rparr>"
  define s1 where "s1 = save_bc_batch b1 s"
  have inval: "length rows - length valid = length (filter (\<lambda>r. \<not> br_valid r) rows)"
    using sum_length_filter_compl [of br_valid rows] by (simp add: valid_def)
  have b1: "bb_id b1 = bb_id b" "tallied b1" "interval_seconds b1 = interval_seconds b"
    "bb_sent b1 = bb_sent b" "bb_failed b1 = bb_failed b" "bb_dry_run b1 = bb_dry_run b"
    using assms(2) by (simp_all add: b1_def tallied_def interval_seconds_def)
  have st: "started env b1 rs p = started env b rs p" for rs p by (simp add: started_def b1_def)
  have s1: "store_kept (bb_id b) s s1" "bc_platform s1 = bc_platform s" "bc_slept s1 = bc_slept s"
    using save_bc_batch_kept [of b1 s] b1(1) by (simp_all add: s1_def)
  have phones: "\<forall>r \<in> set valid. bb_dry_run b1 \<or> br_phone r \<noteq> None" using assms(1) b1(6) by (auto simp: valid_def)
  from process_rows_outcome [OF phones b1(2), of env f "max 1 (min 25 (length valid div 10))" 0 s1] obtain b2 s2 where
    p: "process_rows env f (max 1 (min 25 (length valid div 10))) 0 valid b1 s1 = (Inr b2, s2)"
      "plan_of b2 = plan_of b1" "tallied b2" "bb_sent b2 + bb_failed b2 = bb_sent b1 + bb_failed b1 + length valid"
      "store_kept (bb_id b1) s1 s2" "bc_platform s2 = started env b1 valid (bc_platform s1)"
      "bc_slept s2 = bc_slept s1 @ replicate (length valid - 1) (interval_seconds b1)" by blast
  note fields = plan_of_fields [OF p(2)]
  have eq: "process_batch env f b rows s = (Inr (), close_batch b2 s2)"
    unfolding process_batch_def Let_def valid_def [symmetric] b1_def [symmetric] s1_def [symmetric]
    using p(1) by (cases "valid = []") simp_all
  have out: "out = Inr ()" and s': "s' = close_batch b2 s2" using assms(3) eq by simp_all
  have kept: "store_kept (bb_id b) s s'"
    using store_kept_trans [OF s1(1), of s2] store_kept_trans [of "bb_id b" s s2 s'] p(5) close_batch_facts(2) [of b2 s2]
      fields(1) b1(1) s' by simp
  have "get_bc_batch (bb_id b) s' = Some (b2\<lparr>bb_status := Batch_COMPLETED, bb_completed_at := Some (utcnow s2)\<rparr>)"
    using close_batch_facts(1) [of b2 s2] fields(1) b1(1) s' by simp
  moreover have "bb_key b2 = bb_key b" "bb_details b2 = bb_details b" "bb_total b2 = length rows"
    "bb_valid b2 = length valid" "bb_invalid b2 = length (filter (\<lambda>r. \<not> br_valid r) rows)"
    using fields inval by (simp_all add: b1_def)
  moreover have "tallied (b2\<lparr>bb_status := Batch_COMPLETED, bb_completed_at := Some (utcnow s2)\<rparr>)"
    using p(3) by (simp add: tallied_def)
  ultimately show ?thesis
    using out kept p(4,6,7) s1 b1 fields(1) st close_batch_facts(3,4) [of b2 s2] unfolding s' valid_def by simp
qed

subsection \<open>Submitting\<close>

lemma submit_new:
  assumes "submit_broadcast raw ch key dry rate by s = (Inr res, s')" and "\<not> bs_deduped res"
  obtains rows b where "parse_csv raw = Inr (rows, [])" "bc_tasks s' = bc_tasks s @ [(b, rows)]"
    "bs_id res = bb_id b" "bb_id b = fst (claim_idempotency key (new_id ''bcast'' s) (mint s))" "bb_key b = key"
    "bb_channel b = ch" "bb_dry_run b = dry" "bb_rate b = rate" "bb_sent b = 0" "bb_failed b = 0" "bb_failures b = []"
    "get_bc_batch (bb_id b) s' = Some b" "dget (bc_idem s') key = Some (bb_id b)" "bc_platform s' = bc_platform s"
    "bc_slept s' = bc_slept s" "1 \<le> rate" "rate \<le> 60"
    "bs_total res = length rows" "bs_valid res = length (filter br_valid rows)"
    "bs_invalid res = length (filter (\<lambda>r. \<not> br_valid r) rows)"
proof -
  obtain rows fatal where p: "parse_csv raw = Inr (rows, fatal)"
    using assms(1) by (auto simp: submit_broadcast_def split: if_splits sum.splits)
  have inval: "length rows - length (filter br_valid rows) = length (filter (\<lambda>r. \<not> br_valid r) rows)"
    using sum_length_filter_compl [of br_valid rows] by simp
  from p assms have "fatal = []" by (auto simp: submit_broadcast_def split: if_splits)
  obtain actual s1 where c: "claim_idempotency key (new_id ''bcast'' s) (mint s) = (actual, s1)" by force
  have s1: "dget (bc_idem s1) key = Some actual" "bc_platform s1 = bc_platform s" "bc_slept s1 = bc_slept s"
    "bc_tasks s1 = bc_tasks s"
    using c by (auto simp: claim_idempotency_def mint_def split: option.splits)
  let ?v = "filter br_valid rows" and ?d = "summarize_invalid_rows rows 20"
  define b where "b = \<lparr>bb_id = actual, bb_key = key, bb_channel = ch, bb_status = Batch_QUEUED,
      bb_total = length rows, bb_valid = length ?v, bb_invalid = length rows - length ?v, bb_sent = 0,
      bb_failed = 0, bb_rate = rate, bb_dry_run = dry, bb_started_at = utcnow s1, bb_completed_at = None,
      bb_submitted_by = by, bb_failures = [], bb_details = ?d\<rparr>"
  define s2 where "s2 = save_bc_batch b (tick s1)"
  have form: "8 \<le> length key" "length key \<le> 200" "1 \<le> rate" "rate \<le> MAX_RATE_PER_MINUTE"
    using assms(1) by (auto simp: submit_broadcast_def split: if_splits)
  have "(if actual \<noteq> new_id ''bcast'' s then get_bc_batch actual s1 else None) = None"
    using assms p form \<open>fatal = []\<close> c
    by (cases "if actual \<noteq> new_id ''bcast'' s then get_bc_batch actual s1 else None")
      (auto simp: submit_broadcast_def Let_def batch_result_def not_le)
  then have out: "res = batch_result False b ?d" "s' = s2\<lparr>bc_tasks := bc_tasks s2 @ [(b, rows)]\<rparr>"
    using assms(1) p form \<open>fatal = []\<close> c
    unfolding submit_broadcast_def s2_def b_def by (simp_all add: Let_def not_le)
  show ?thesis
  proof (rule that [of rows b])
    show "parse_csv raw = Inr (rows, [])" using p \<open>fatal = []\<close> by simp
    show "bc_tasks s' = bc_tasks s @ [(b, rows)]" using s1(4) by (simp add: out s2_def tick_def)
    show "get_bc_batch (bb_id b) s' = Some b" by (simp add: out s2_def get_bc_batch_def save_bc_batch_def)
    show "dget (bc_idem s') key = Some (bb_id b)" using s1(1) by (simp add: out s2_def b_def tick_def)
    show "bc_platform s' = bc_platform s" "bc_slept s' = bc_slept s"
      using s1(2,3) by (simp_all add: out s2_def tick_def)
    show "rate \<le> 60" using form by (simp add: MAX_RATE_PER_MINUTE_def)
  qed (use form c inval in \<open>simp_all add: out b_def batch_result_def\<close>)
qed

text \<open>
  C38. Once the background task of an accepted submission has run, its batch is COMPLETED and every
  valid row of the file is counted once, as sent or as failed, with the details of the first twenty
  failures; the campaigns of exactly the valid rows were started, in the order of the file and under
  their normalised numbers, none of them when the run is dry; and the coordinator paused between every
  two rows for at least a second.
\<close>

theorem broadcast_accounts_for_rows:
  assumes "submit_broadcast raw ch key dry rate by s = (Inr res, s1)" and "\<not> bs_deduped res"
    and "run_task env f (length (bc_tasks s)) s1 = s2"
  shows "(\<exists>rows b. parse_csv raw = Inr (rows, []) \<and> get_broadcast (bs_id res) s2 = Inr b \<and>
      bb_status b = Batch_COMPLETED \<and> bb_key b = key \<and>
      bb_sent b + bb_failed b = length (filter br_valid rows) \<and> bs_valid res = length (filter br_valid rows) \<and>
      bb_valid b + bb_invalid b = length rows \<and> length (bb_failures b) = min 20 (bb_failed b) \<and>
      (\<forall>r \<in> set rows. br_valid r \<longrightarrow> br_phone r \<noteq> None \<and> normalize_phone (br_raw r) = br_phone r) \<and>
      bc_platform s2 =
        (if dry then bc_platform s
         else fold (\<lambda>r p. snd (start_campaign env ch (the (br_phone r)) (br_locale r) p))
                (filter br_valid rows) (bc_platform s)) \<and>
      bc_slept s2 = bc_slept s @ replicate (length (filter br_valid rows) - 1) (60 / real_of_int rate)) \<and>
    1 \<le> 60 / real_of_int rate"
proof -
  obtain rows b where n: "parse_csv raw = Inr (rows, [])" "bc_tasks s1 = bc_tasks s @ [(b, rows)]"
    "bs_id res = bb_id b" "bb_key b = key" "bb_channel b = ch" "bb_dry_run b = dry" "bb_rate b = rate"
    "bb_sent b = 0" "bb_failed b = 0" "bb_failures b = []" "bc_platform s1 = bc_platform s"
    "bc_slept s1 = bc_slept s" "1 \<le> rate" "rate \<le> 60" "bs_valid res = length (filter br_valid rows)"
    by (rule submit_new [OF assms(1,2)]) (rule that)
  let ?u = "s1\<lparr>bc_tasks := bc_tasks s\<rparr>"
  obtain out s2' where p: "process_batch env f b rows ?u = (out, s2')" by force
  have s2: "s2 = s2'" using assms(3) p n(2) by (simp add: run_task_def)
  have phones: "\<forall>r \<in> set rows. br_valid r \<longrightarrow> bb_dry_run b \<or> br_phone r \<noteq> None"
    using parse_csv_rows(3) [OF n(1)] by fastforce
  have t: "tallied b" using n by (simp add: tallied_def)
  have rows: "length (filter br_valid rows) + length (filter (\<lambda>r. \<not> br_valid r) rows) = length rows"
    by (rule sum_length_filter_compl)
  from process_batch_outcome [OF phones t p] n rows have "\<exists>rows b. parse_csv raw = Inr (rows, []) \<and> get_broadcast (bs_id res) s2 = Inr b \<and>
      bb_status b = Batch_COMPLETED \<and> bb_key b = key \<and>
      bb_sent b + bb_failed b = length (filter br_valid rows) \<and> bs_valid res = length (filter br_valid rows) \<and>
      bb_valid b + bb_invalid b = length rows \<and> length (bb_failures b) = min 20 (bb_failed b) \<and>
      (\<forall>r \<in> set rows. br_valid r \<longrightarrow> br_phone r \<noteq> None \<and> normalize_phone (br_raw r) = br_phone r) \<and>
      bc_platform s2 =
        (if dry then bc_platform s
         else fold (\<lambda>r p. snd (start_campaign env ch (the (br_phone r)) (br_locale r) p))
                (filter br_valid rows) (bc_platform s)) \<and>
      bc_slept s2 = bc_slept s @ replicate (length (filter br_valid rows) - 1) (60 / real_of_int rate)"
  proof (elim conjE exE, intro exI [of _ rows], goal_cases)
    case (1 b')
    then show ?case
      using parse_csv_rows(3) [OF n(1)]
      by (intro exI [of _ b'] conjI)
        (fastforce simp: s2 get_broadcast_def started_def tallied_def interval_seconds_def)+
  qed
  moreover from n(13,14) have "1 \<le> 60 / real_of_int rate" by (simp add: field_simps)
  ultimately show ?thesis by blast
qed

text \<open>A file of three rows: a number without plus, a number with letters, a locale unknown.\<close>

definition demo_file :: string where
  "demo_file =
     ''Phone,locale'' @ [cr, lf] @ ''974 5550-0001,'' @ [cr, lf] @ ''nope,en'' @ [cr, lf] @
     ''+97455500003,fr'' @ [lf]"

definition demo_bc :: "(nat, nat) bc_state" where
  "demo_bc =
     \<lparr>clock = int, ticks = 0, entropy = (\<lambda>n. replicate n CHR ''x''), minted = 0, dice = (\<lambda>_. 0), rolled = 0,
      bc_platform = demo_platform waiting_world, bc_idem = [], bc_batches = [], bc_order = [], bc_tasks = [],
      bc_slept = []\<rparr>"

definition demo_rows :: "bc_row list" where
  "demo_rows =
     [parse_row 2 [(''phone'', ''974 5550-0001''), (''locale'', [])],
      parse_row 3 [(''phone'', ''nope''), (''locale'', ''en'')],
      parse_row 4 [(''phone'', ''+97455500003''), (''locale'', ''fr'')]]"

lemma demo_parsed: "parse_csv demo_file = Inr (demo_rows, [])"
  by code_simp

lemma demo_valid: "map br_valid demo_rows = [True, False, False]"
  by code_simp

lemma demo_submitted:
  obtains res s1 where "submit_broadcast demo_file WHATSAPP ''key-0001'' False 30 None demo_bc = (Inr res, s1)"
    "\<not> bs_deduped res" "bs_id res = ''bcast_''"
  by (simp add: submit_broadcast_def demo_parsed Let_def claim_idempotency_def mint_def demo_bc_def new_id_def
      MAX_RATE_PER_MINUTE_def batch_result_def)

theorem broadcast_accounts_for_rows_witness:
  "\<exists>res s1 b. submit_broadcast demo_file WHATSAPP ''key-0001'' False 30 None demo_bc = (Inr res, s1) \<and>
     get_broadcast (bs_id res) (run_task demo_env (\<lambda>_. ''error'') 0 s1) = Inr b \<and>
     bb_status b = Batch_COMPLETED \<and> bb_sent b + bb_failed b = 1 \<and> bb_valid b + bb_invalid b = 3 \<and>
     (1::real) \<le> 60 / 30"
proof -
  obtain res s1 where s: "submit_broadcast demo_file WHATSAPP ''key-0001'' False 30 None demo_bc = (Inr res, s1)"
    "\<not> bs_deduped res" by (rule demo_submitted) (rule that)
  have "length (filter br_valid demo_rows) = 1"
    using demo_valid by (simp add: demo_rows_def)
  moreover have "length demo_rows = 3" by (simp add: demo_rows_def)
  moreover note broadcast_accounts_for_rows [OF s, of demo_env "\<lambda>_. ''error''"]
  ultimately show ?thesis using s demo_parsed by (fastforce simp: demo_bc_def)
qed

text \<open>
  The end of a line may not be a lone carriage return: the module raises, and nothing turns this into
  a refusal of the file.
\<close>

lemma lone_cr_escapes:
  "submit_broadcast (''phone'' @ [cr] @ ''97455500001'') WHATSAPP ''key-0001'' False 30 None s =
     (Inl (Csv_error NEWLINE_ERROR), s)"
proof -
  have "parse_csv (''phone'' @ [cr] @ ''97455500001'') = Inl NEWLINE_ERROR" by code_simp
  then show ?thesis by (simp add: submit_broadcast_def MAX_RATE_PER_MINUTE_def)
qed

subsection \<open>Submitting twice\<close>

inductive bc_step ::
  "('cp, 'm) dispatch_env \<Rightarrow> (wf_exn \<Rightarrow> string) \<Rightarrow> ('cp, 'm) bc_state \<Rightarrow> ('cp, 'm) bc_state \<Rightarrow> bool"
  for env f
where
  b_submit: "bc_step env f s (snd (submit_broadcast raw ch key dry rate by s))"
| b_task: "bc_step env f s (run_task env f i s)"
| b_platform: "bc_step env f s (s\<lparr>bc_platform := p\<rparr>)"

inductive_cases bc_stepE: "bc_step env f s t"

text \<open>Every claimed key has a batch, under an id that was minted.\<close>

definition minted_id :: "('cp, 'm) bc_state \<Rightarrow> string \<Rightarrow> bool" where
  "minted_id s b = (\<exists>m < minted s. b = ''bcast'' @ ''_'' @ entropy s m)"

lemma minted_id_mono:
  "minted_id s b \<Longrightarrow> entropy s' = entropy s \<Longrightarrow> minted s \<le> minted s' \<Longrightarrow> minted_id s' b"
  unfolding minted_id_def by (metis less_le_trans)

definition claims_held :: "('cp, 'm) bc_state \<Rightarrow> bool" where
  "claims_held s =
     ((\<forall>k b. dget (bc_idem s) k = Some b \<longrightarrow> dget (bc_batches s) b \<noteq> None \<and> minted_id s b) \<and>
      (\<forall>k b. dget (bc_batches s) k = Some b \<longrightarrow> bb_id b = k))"

lemma claims_heldI:
  assumes "\<And>k b. dget (bc_idem s) k = Some b \<Longrightarrow> dget (bc_batches s) b \<noteq> None \<and> minted_id s b"
    and "\<And>k b. dget (bc_batches s) k = Some b \<Longrightarrow> bb_id b = k"
  shows "claims_held s"
  using assms unfolding claims_held_def by blast

definition claims_kept :: "('cp, 'm) bc_state \<Rightarrow> ('cp, 'm) bc_state \<Rightarrow> bool" where
  "claims_kept s s' =
     (entropy s' = entropy s \<and> minted s \<le> minted s' \<and>
      (\<forall>k b. dget (bc_idem s) k = Some b \<longrightarrow> dget (bc_idem s') k = Some b))"

lemma process_rows_kept: "process_rows env f every idx rows b s = (out, s') \<Longrightarrow> store_kept (bb_id b) s s'"
proof (induction rows arbitrary: idx b s)
  case (Cons r rs)
  obtain o1 s1 where d: "dispatch_one env f b r s = (o1, s1)" by force
  then have s1: "store_kept (bb_id b) s s1"
    by (auto simp: dispatch_one_def store_kept_def split: if_splits option.splits prod.splits sum.splits)
  show ?case
  proof (cases o1)
    case (Inl e)
    with Cons.prems d s1 show ?thesis by simp
  next
    case (Inr out1)
    define b1 where "b1 = count_row r out1 b"
    define s2 where "s2 = (if (idx + 1) mod every = 0 then save_bc_batch b1 s1 else s1)"
    define s3 where "s3 = (if rs \<noteq> [] then s2\<lparr>bc_slept := bc_slept s2 @ [interval_seconds b1]\<rparr> else s2)"
    have "process_rows env f every (idx + 1) rs b1 s3 = (out, s')"
      using Cons.prems unfolding process_rows.simps(2) d Inr prod.case sum.case Let_def s3_def s2_def b1_def .
    from Cons.IH [OF this] have "store_kept (bb_id b1) s3 s'" .
    moreover have id: "bb_id b1 = bb_id b"
      by (rule plan_of_fields(1)) (simp add: b1_def count_row_facts)
    moreover have "store_kept (bb_id b) s1 s3"
      using save_bc_batch_kept [of b1 s1] id by (auto simp: s3_def s2_def store_kept_def)
    ultimately show ?thesis using s1 by (metis store_kept_trans)
  qed
qed simp

lemma process_rows_plan: "process_rows env f every idx rows b s = (Inr b', s') \<Longrightarrow> plan_of b' = plan_of b"
proof (induction rows arbitrary: idx b s)
  case (Cons r rs)
  obtain o1 s1 where d: "dispatch_one env f b r s = (o1, s1)" by force
  with Cons.prems obtain out1 where o1: "o1 = Inr out1" by (cases o1) simp_all
  note step = Cons.prems [unfolded process_rows.simps(2) d o1 prod.case sum.case Let_def]
  from Cons.IH [OF step] show ?case by (simp add: count_row_facts)
qed simp

lemma process_batch_kept: "store_kept (bb_id b) s (snd (process_batch env f b rows s))"
proof -
  define valid where "valid = filter br_valid rows"
  define b1 where "b1 = b\<lparr>bb_status := Batch_IN_PROGRESS, bb_total := length rows, bb_valid := length valid,
      bb_invalid := length rows - length valid\<rparr>"
  define s1 where "s1 = save_bc_batch b1 s"
  have id: "bb_id b1 = bb_id b" by (simp add: b1_def)
  have s1: "store_kept (bb_id b) s s1" using save_bc_batch_kept [of b1 s] id by (simp add: s1_def)
  obtain o2 s2 where p: "process_rows env f (max 1 (min 25 (length valid div 10))) 0 valid b1 s1 = (o2, s2)" by force
  note s2 = store_kept_trans [OF s1 process_rows_kept [OF p, unfolded id]]
  have plan: "bb_id b2 = bb_id b" if "o2 = Inr b2" for b2
    using process_rows_plan [OF p [unfolded that]] plan_of_fields(1) id by metis
  have closed: "store_kept (bb_id b) s (close_batch b' t)" if "bb_id b' = bb_id b" "store_kept (bb_id b) s t" for b' t
    using store_kept_trans [OF that(2)] close_batch_facts(2) [of b' t] that(1) by simp
  show ?thesis
  proof (cases "valid = []")
    case True
    then show ?thesis
      unfolding process_batch_def Let_def valid_def [symmetric] b1_def [symmetric] s1_def [symmetric]
      using closed [OF id s1] by simp
  next
    case False
    then show ?thesis
      unfolding process_batch_def Let_def valid_def [symmetric] b1_def [symmetric] s1_def [symmetric]
      using p s2 closed [OF plan s2] by (cases o2) simp_all
  qed
qed

lemma store_kept_claims:
  assumes "claims_held s" and "store_kept bid s s'"
  shows "claims_held s' \<and> claims_kept s s'"
proof
  note k = assms(2) [unfolded store_kept_def]
  show "claims_held s'"
  proof (rule claims_heldI)
    fix x b assume "dget (bc_idem s') x = Some b"
    with assms(1) k have h: "dget (bc_batches s) b \<noteq> None" "minted_id s b" by (auto simp: claims_held_def)
    with k minted_id_mono [OF h(2), of s'] show "dget (bc_batches s') b \<noteq> None \<and> minted_id s' b"
      by (cases "b = bid") auto
  next
    fix x b assume "dget (bc_batches s') x = Some b"
    with assms(1) k show "bb_id b = x" by (cases "x = bid") (auto simp: claims_held_def)
  qed
  show "claims_kept s s'" using k by (simp add: claims_kept_def)
qed

lemma submit_cases:
  "snd (submit_broadcast raw ch key dry rate by s) = s \<or>
   (\<exists>bid s1. claim_idempotency key (new_id ''bcast'' s) (mint s) = (bid, s1) \<and>
      (snd (submit_broadcast raw ch key dry rate by s) = s1 \<and> get_bc_batch bid s1 \<noteq> None \<or>
       (\<exists>b ts. bb_id b = bid \<and>
          snd (submit_broadcast raw ch key dry rate by s) = (save_bc_batch b (tick s1))\<lparr>bc_tasks := ts\<rparr>)))"
proof -
  obtain bid s1 where c: "claim_idempotency key (new_id ''bcast'' s) (mint s) = (bid, s1)" by force
  show ?thesis
  proof (cases "length key < 8 \<or> 200 < length key \<or> rate < 1 \<or> MAX_RATE_PER_MINUTE < rate")
    case True
    then show ?thesis by (simp add: submit_broadcast_def)
  next
    case form: False
    show ?thesis
    proof (cases "parse_csv raw")
      case (Inl e)
      with form show ?thesis by (simp add: submit_broadcast_def)
    next
      case (Inr x)
      obtain rows fatal where x: "x = (rows, fatal)" by force
      note unf = submit_broadcast_def Let_def c prod.case sum.case x Inr
      consider "fatal \<noteq> []"
        | b where "fatal = []" "bid \<noteq> new_id ''bcast'' s" "get_bc_batch bid s1 = Some b"
        | "fatal = []" "(if bid \<noteq> new_id ''bcast'' s then get_bc_batch bid s1 else None) = None"
        by (cases "fatal = []"; cases "bid = new_id ''bcast'' s"; cases "get_bc_batch bid s1") auto
      then show ?thesis
      proof cases
        case 1
        with form show ?thesis unfolding unf by simp
      next
        case 2
        with form have "snd (submit_broadcast raw ch key dry rate by s) = s1" unfolding unf by simp
        with 2(3) c show ?thesis by simp
      next
        case 3
        define b where "b = \<lparr>bb_id = bid, bb_key = key, bb_channel = ch, bb_status = Batch_QUEUED,
          bb_total = length rows, bb_valid = length (filter br_valid rows),
          bb_invalid = length rows - length (filter br_valid rows), bb_sent = 0,
          bb_failed = 0, bb_rate = rate, bb_dry_run = dry, bb_started_at = utcnow s1, bb_completed_at = None,
          bb_submitted_by = by, bb_failures = [], bb_details = summarize_invalid_rows rows 20\<rparr>"
        have "bb_id b = bid" by (simp add: b_def)
        moreover have "snd (submit_broadcast raw ch key dry rate by s) =
            (save_bc_batch b (tick s1))\<lparr>bc_tasks := bc_tasks (save_bc_batch b (tick s1)) @ [(b, rows)]\<rparr>"
          using form 3(1) unfolding unf 3(2) b_def by simp
        ultimately show ?thesis using c by blast
      qed
    qed
  qed
qed

lemma claim_kept:
  assumes "claim_idempotency key (new_id ''bcast'' s) (mint s) = (bid, s1)" and "claims_held s"
  shows "claims_kept s s1" and "dget (bc_idem s1) key = Some bid"
    and "minted_id s1 bid"
    and "bc_batches s1 = bc_batches s" and "entropy s1 = entropy s" and "minted s1 = Suc (minted s)"
    and "dget (bc_idem s1) k = Some b \<Longrightarrow> k \<noteq> key \<Longrightarrow> dget (bc_idem s) k = Some b"
proof -
  have fresh: "minted_id (mint s) (new_id ''bcast'' s)"
    by (auto simp: minted_id_def new_id_def mint_def)
  have old: "minted_id (mint s) b'" if "dget (bc_idem s) k' = Some b'" for k' b'
    using assms(2) that minted_id_mono [of s b' "mint s"] by (auto simp: claims_held_def)
  have ext: "minted_id (s\<lparr>bc_idem := d\<rparr>) = minted_id s" for d and s :: "('a, 'b) bc_state"
    by (simp add: minted_id_def fun_eq_iff)
  have eq: "bc_idem (mint s) = bc_idem s" "bc_batches (mint s) = bc_batches s" by (simp_all add: mint_def)
  note unf = assms(1) [unfolded claim_idempotency_def eq]
  show "claims_kept s s1" "dget (bc_idem s1) key = Some bid" "bc_batches s1 = bc_batches s"
    "entropy s1 = entropy s" "minted s1 = Suc (minted s)"
    "dget (bc_idem s1) k = Some b \<Longrightarrow> k \<noteq> key \<Longrightarrow> dget (bc_idem s) k = Some b"
    using unf eq by (auto simp: claims_kept_def split: option.splits)
  show "minted_id s1 bid"
    using unf fresh old by (cases "dget (bc_idem s) key") (auto simp: ext)
qed

lemma submit_kept:
  assumes "claims_held s"
  shows "claims_held (snd (submit_broadcast raw ch key dry rate by s)) \<and>
    claims_kept s (snd (submit_broadcast raw ch key dry rate by s))"
proof -
  let ?t = "snd (submit_broadcast raw ch key dry rate by s)"
  have refl: "claims_kept s s" by (simp add: claims_kept_def)
  from submit_cases [of raw ch key dry rate "by" s] show ?thesis
  proof (elim disjE exE conjE)
    assume "?t = s"
    with assms refl show ?thesis by simp
  next
    fix bid s1
    assume c: "claim_idempotency key (new_id ''bcast'' s) (mint s) = (bid, s1)" and t: "?t = s1" "get_bc_batch bid s1 \<noteq> None"
    note k = claim_kept [OF c assms]
    have "claims_held s1"
    proof (rule claims_heldI)
      show "bb_id b = k'" if "dget (bc_batches s1) k' = Some b" for k' b
        using that assms k(4) by (simp add: claims_held_def)
    next
      fix k' b assume b: "dget (bc_idem s1) k' = Some b"
      show "dget (bc_batches s1) b \<noteq> None \<and> minted_id s1 b"
      proof (cases "k' = key")
        case True
        with b k(2,3) t(2) show ?thesis by (simp add: get_bc_batch_def)
      next
        case False
        from k(7) [OF b False] assms k(4-6) show ?thesis
          unfolding claims_held_def by (metis minted_id_mono le_Suc_eq order_refl)
      qed
    qed
    with t(1) k(1) show ?thesis by simp
  next
    fix bid s1 b ts
    assume c: "claim_idempotency key (new_id ''bcast'' s) (mint s) = (bid, s1)" and b: "bb_id b = bid"
      and t: "?t = (save_bc_batch b (tick s1))\<lparr>bc_tasks := ts\<rparr>"
    note k = claim_kept [OF c assms]
    have ft: "bc_idem ?t = bc_idem s1" "entropy ?t = entropy s1" "minted ?t = minted s1"
      "bc_batches ?t = dput bid b (bc_batches s)"
      using k(4) b unfolding t by (simp_all add: save_bc_batch_def tick_def)
    have "claims_held ?t"
    proof (rule claims_heldI)
      show "bb_id b' = k'" if "dget (bc_batches ?t) k' = Some b'" for k' b'
        using that assms b ft(4) by (auto simp: claims_held_def split: if_splits)
    next
      fix k' b' assume b': "dget (bc_idem ?t) k' = Some b'"
      show "dget (bc_batches ?t) b' \<noteq> None \<and> minted_id ?t b'"
      proof (cases "k' = key")
        case True
        with b' k(2) ft(1) have "b' = bid" by simp
        with minted_id_mono [OF k(3), of ?t] ft show ?thesis by simp
      next
        case False
        from b' ft(1) have "dget (bc_idem s1) k' = Some b'" by simp
        with k(7) False assms have h: "dget (bc_batches s) b' \<noteq> None" "minted_id s b'"
          unfolding claims_held_def by blast+
        with minted_id_mono [OF h(2), of ?t] k(5,6) ft show ?thesis by simp
      qed
    qed
    moreover have "claims_kept s ?t" using k(1) ft by (simp add: claims_kept_def)
    ultimately show ?thesis by simp
  qed
qed

lemma bc_step_kept: "bc_step env f s t \<Longrightarrow> claims_held s \<Longrightarrow> claims_held t \<and> claims_kept s t"
proof (induction rule: bc_step.induct)
  case (b_submit s raw ch key dry rate "by")
  then show ?case by (rule submit_kept)
next
  case (b_task s i)
  show ?case
  proof (cases "i < length (bc_tasks s)")
    case True
    obtain b rows where br: "bc_tasks s ! i = (b, rows)" by force
    let ?u = "s\<lparr>bc_tasks := take i (bc_tasks s) @ drop (Suc i) (bc_tasks s)\<rparr>"
    have "claims_held ?u" "claims_kept s ?u" using b_task by (simp_all add: claims_held_def claims_kept_def minted_id_def)
    with store_kept_claims [OF _ process_batch_kept [of b ?u env f rows]]
    have "claims_held (snd (process_batch env f b rows ?u)) \<and> claims_kept ?u (snd (process_batch env f b rows ?u))" by simp
    then show ?thesis using True br by (simp add: run_task_def claims_kept_def)
  next
    case False
    with b_task show ?thesis by (simp add: run_task_def claims_kept_def)
  qed
next
  case (b_platform s p)
  then show ?case by (simp add: claims_held_def claims_kept_def minted_id_def)
qed

lemma bc_steps_kept:
  assumes "(bc_step env f)\<^sup>*\<^sup>* s t" and "claims_held s"
  shows "claims_held t \<and> claims_kept s t"
  using assms
proof (induction rule: rtranclp_induct)
  case base
  then show ?case by (simp add: claims_kept_def)
next
  case (step t u)
  with bc_step_kept [OF step.hyps(2)] show ?case by (auto simp: claims_kept_def intro: order_trans)
qed

lemma minted_id_not_next: "minted_id s b \<Longrightarrow> inj (entropy s) \<Longrightarrow> b \<noteq> new_id ''bcast'' s"
  by (auto simp: minted_id_def new_id_def inj_eq)

lemma submit_claims:
  assumes "submit_broadcast raw ch key dry rate by s = (Inr res, s1)" and "claims_held s"
  shows "dget (bc_idem s1) key = Some (bs_id res)"
proof (cases "bs_deduped res")
  case False
  then show ?thesis by (rule submit_new [OF assms(1)]) simp
next
  case True
  obtain rows fatal where p: "parse_csv raw = Inr (rows, fatal)"
    using assms(1) by (auto simp: submit_broadcast_def split: if_splits sum.splits)
  obtain bid t where c: "claim_idempotency key (new_id ''bcast'' s) (mint s) = (bid, t)" by force
  note k = claim_kept [OF c assms(2)]
  from True assms(1) p c obtain b where "get_bc_batch bid t = Some b" "res = batch_result True b []" "s1 = t"
    by (auto simp: submit_broadcast_def Let_def batch_result_def split: if_splits option.splits)
  with k(2,4) assms(2) show ?thesis
    by (auto simp: batch_result_def get_bc_batch_def claims_held_def)
qed

text \<open>
  C39. From an empty store, whatever submissions, background tasks and platform operations come before
  and between: once a submission with a key was accepted, every later accepted submission with that key
  returns the same batch as a duplicate and does nothing else but draw an unused batch id, whatever
  file, channel and options come with it. No file is processed twice under one key.
\<close>

theorem resubmission_schedules_nothing:
  assumes "bc_idem s0 = []" and "bc_batches s0 = []" and "inj (entropy s0)" and "(bc_step env f)\<^sup>*\<^sup>* s0 s"
    and "submit_broadcast raw ch key dry rate by s = (Inr res, s1)" and "(bc_step env f)\<^sup>*\<^sup>* s1 s2"
    and "submit_broadcast raw' ch' key dry' rate' by' s2 = (Inr res', s3)"
  shows "bs_deduped res' \<and> bs_id res' = bs_id res \<and> bs_details res' = [] \<and> s3 = mint s2"
proof -
  have "claims_held s0" using assms(1,2) by (simp add: claims_held_def)
  with bc_steps_kept [OF assms(4)] have s: "claims_held s" "claims_kept s0 s" by auto
  from submit_kept [OF s(1), of raw ch key dry rate "by"] assms(5) have s1: "claims_held s1" "claims_kept s s1" by simp_all
  from bc_steps_kept [OF assms(6) s1(1)] have s2: "claims_held s2" "claims_kept s1 s2" by auto
  have inj: "inj (entropy s2)" using assms(3) s(2) s1(2) s2(2) by (simp add: claims_kept_def)
  have bid: "dget (bc_idem s1) key = Some (bs_id res)"
    by (rule submit_claims [OF assms(5) s(1)])
  with s2(2) have k2: "dget (bc_idem s2) key = Some (bs_id res)" by (simp add: claims_kept_def)
  from s2(1) k2 obtain b where held: "get_bc_batch (bs_id res) s2 = Some b" "bb_id b = bs_id res" "minted_id s2 (bs_id res)"
    unfolding claims_held_def get_bc_batch_def by blast
  have new: "bs_id res \<noteq> new_id ''bcast'' s2" by (rule minted_id_not_next [OF held(3) inj])
  have claim: "claim_idempotency key (new_id ''bcast'' s2) (mint s2) = (bs_id res, mint s2)"
    using k2 by (simp add: claim_idempotency_def mint_def)
  have b: "get_bc_batch (bs_id res) (mint s2) = Some b"
    using held(1) by (simp add: get_bc_batch_def mint_def)
  have "res' = batch_result True b []" "s3 = mint s2"
    using assms(7) new b claim
    by (auto simp: submit_broadcast_def Let_def split: if_splits sum.splits prod.splits)
  then show ?thesis using held(2) by (simp add: batch_result_def)
qed

lemma submit_accepts:
  assumes "parse_csv raw = Inr (rows, [])" and "8 \<le> length key" and "length key \<le> 200" and "1 \<le> rate" and "rate \<le> 60"
  obtains res s' where "submit_broadcast raw ch key dry rate by s = (Inr res, s')"
proof (cases "submit_broadcast raw ch key dry rate by s")
  case (Pair out s')
  with assms have "\<exists>res. out = Inr res"
    by (auto simp: submit_broadcast_def Let_def MAX_RATE_PER_MINUTE_def split: option.splits prod.splits if_splits)
  with Pair that show ?thesis by auto
qed

theorem resubmission_schedules_nothing_witness:
  "\<exists>res s1 res' s3. submit_broadcast demo_file WHATSAPP ''key-0001'' False 30 None demo_bc = (Inr res, s1) \<and>
     submit_broadcast demo_file EMAIL ''key-0001'' True 60 None (run_task demo_env (\<lambda>_. ''error'') 0 s1) = (Inr res', s3) \<and>
     bs_deduped res' \<and> bs_id res' = bs_id res \<and> bc_tasks s3 = []"
proof -
  let ?err = "\<lambda>_. ''error''"
  obtain res s1 where s: "submit_broadcast demo_file WHATSAPP ''key-0001'' False 30 None demo_bc = (Inr res, s1)"
    "\<not> bs_deduped res" by (rule demo_submitted) (rule that)
  define s2 where "s2 = run_task demo_env ?err 0 s1"
  have empty: "bc_idem demo_bc = []" "bc_batches demo_bc = []" "inj (entropy demo_bc)"
    by (simp_all add: demo_bc_def inj_def)
  have no: "(bc_step demo_env ?err)\<^sup>*\<^sup>* demo_bc demo_bc" by simp
  have step: "(bc_step demo_env ?err)\<^sup>*\<^sup>* s1 s2" unfolding s2_def by (rule r_into_rtranclp) (rule b_task)
  obtain res' s3 where again: "submit_broadcast demo_file EMAIL ''key-0001'' True 60 None s2 = (Inr res', s3)"
    by (rule submit_accepts [OF demo_parsed, of "''key-0001''" 60 EMAIL True None s2]) (simp_all add: that)
  note r = resubmission_schedules_nothing [OF empty no s(1) step again]
  obtain b rows where "bc_tasks s1 = [(b, rows)]"
    using s by (auto elim: submit_new simp: demo_bc_def)
  then have "bc_tasks s2 = []"
    using process_batch_kept [of b "s1\<lparr>bc_tasks := []\<rparr>" demo_env ?err rows]
    by (simp add: s2_def run_task_def store_kept_def)
  then have "bc_tasks s3 = []" using r by (simp add: mint_def)
  with s again r show ?thesis unfolding s2_def by blast
qed

end
