(* ===== verification/Conv_Text.thy ===== *)
theory Conv_Text
  imports Prelude
begin

section \<open>What the conversation reads of a reply\<close>

text \<open>
  \<open>reply_text\<close>, \<open>clean_email_quoted_reply\<close> and the token sets of \<open>services/workflow/state.py\<close>, and
  the keyword matchers of \<open>services/workflow/onboarding.py\<close>. A reply is a dynamic value; \<open>sh\<close> is
  \<open>str\<close> of a value that is no text. Texts are ASCII, so the emoji and the Arabic entries of
  the token sets are left out.
\<close>

subsection \<open>Texts\<close>

definition upper_char :: "char \<Rightarrow> char" where
  "upper_char c = (if 97 \<le> code c \<and> code c \<le> 122 then char_of (code c - 32) else c)"

definition upper :: "string \<Rightarrow> string" where
  "upper s = map upper_char s"

definition rstrip_set :: "char set \<Rightarrow> string \<Rightarrow> string" where
  "rstrip_set cs s = rev (dropWhile (\<lambda>c. c \<in> cs) (rev s))"

text \<open>\<open>str(x or "")\<close> of a dynamic value.\<close>

definition text_or_empty :: "(json \<Rightarrow> string) \<Rightarrow> json \<Rightarrow> string" where
  "text_or_empty sh j = (if truthy j then (case j of JStr s \<Rightarrow> s | _ \<Rightarrow> sh j) else [])"

text \<open>\<open>str.splitlines\<close>.\<close>

definition is_break :: "char \<Rightarrow> bool" where
  "is_break c = ((10 \<le> code c \<and> code c \<le> 13) \<or> (28 \<le> code c \<and> code c \<le> 30))"

fun splitlines :: "string \<Rightarrow> string list" where
  "splitlines [] = []"
| "splitlines (c # cs) =
     (if c = cr \<and> (case cs of d # _ \<Rightarrow> d = lf | [] \<Rightarrow> False) then [] # splitlines (tl cs)
      else if is_break c then [] # splitlines cs
      else (case cs of
              [] \<Rightarrow> [[c]]
            | d # _ \<Rightarrow> if is_break d then [c] # tl (splitlines cs)
                     else (case splitlines cs of l # ls \<Rightarrow> (c # l) # ls | [] \<Rightarrow> [[c]])))"

subsection \<open>\<open>clean_email_quoted_reply\<close>\<close>

definition ci_starts :: "string \<Rightarrow> string \<Rightarrow> bool" where
  "ci_starts pre s = starts_with (lower pre) (lower s)"

text \<open>\<open>\r?\n\<close> at the front, and \<open>.{0,n}?\<close> followed by a text.\<close>

definition after_eol :: "string \<Rightarrow> string option" where
  "after_eol s =
     (if starts_with [cr, lf] s then Some (drop 2 s)
      else if starts_with [lf] s then Some (drop 1 s) else None)"

fun ahead :: "nat \<Rightarrow> string \<Rightarrow> string \<Rightarrow> bool" where
  "ahead n pat [] = ci_starts pat []"
| "ahead n pat (c # cs) =
     (ci_starts pat (c # cs) \<or> (case n of 0 \<Rightarrow> False | Suc m \<Rightarrow> ahead m pat cs))"

definition wrote_line :: "string \<Rightarrow> bool" where
  "wrote_line s = (ci_starts ''On '' s \<and> ahead 240 '' wrote:'' (drop 3 s))"

definition header_line :: "string \<Rightarrow> string \<Rightarrow> bool" where
  "header_line name s =
     (case after_eol s of
        None \<Rightarrow> False
      | Some t \<Rightarrow>
          ci_starts name t \<and>
          (case drop (length name) t of c # _ \<Rightarrow> is_space c | [] \<Rightarrow> False))"

definition is_rule :: "char \<Rightarrow> bool" where
  "is_rule c = (c = CHR ''-'' \<or> c = CHR ''_'')"

definition original_message :: "string \<Rightarrow> bool" where
  "original_message s =
     (case after_eol s of
        None \<Rightarrow> False
      | Some t \<Rightarrow>
          let u = dropWhile is_space (dropWhile is_rule t);
              rest = dropWhile is_space (drop 16 u)
          in 2 \<le> length (takeWhile is_rule t) \<and> ci_starts ''Original Message'' u \<and>
             2 \<le> length (takeWhile is_rule rest))"

definition QUOTE_PATTERNS :: "(string \<Rightarrow> bool) list" where
  "QUOTE_PATTERNS =
     [\<lambda>s. (case after_eol s of None \<Rightarrow> False | Some t \<Rightarrow> wrote_line t),
      \<lambda>s. (case s of c # t \<Rightarrow> is_space c \<and> wrote_line t | [] \<Rightarrow> False),
      header_line ''From:'', header_line ''Sent:'', header_line ''To:'', header_line ''Subject:'',
      original_message]"

text \<open>\<open>re.search\<close>: the text before the leftmost match.\<close>

fun before_match :: "(string \<Rightarrow> bool) \<Rightarrow> string \<Rightarrow> string option" where
  "before_match p [] = (if p [] then Some [] else None)"
| "before_match p (c # cs) =
     (if p (c # cs) then Some [] else map_option (Cons c) (before_match p cs))"

fun cut_quote :: "(string \<Rightarrow> bool) list \<Rightarrow> string \<Rightarrow> string" where
  "cut_quote [] s = s"
| "cut_quote (p # ps) s =
     (case before_match p s of Some t \<Rightarrow> strip t | None \<Rightarrow> cut_quote ps s)"

definition quote_line :: "string \<Rightarrow> bool" where
  "quote_line l = (starts_with ''>'' (strip l) \<or> strip l = ''--'')"

definition clean_email_quoted_reply :: "string \<Rightarrow> string" where
  "clean_email_quoted_reply value =
     (let t = strip value in
      if t = [] then []
      else strip (join [lf] (takeWhile (\<lambda>l. \<not> quote_line l)
                               (splitlines (cut_quote QUOTE_PATTERNS t)))))"

definition reply_text :: "(json \<Rightarrow> string) \<Rightarrow> json \<Rightarrow> string" where
  "reply_text sh value =
     (case value of
        JObj d \<Rightarrow> strip (clean_email_quoted_reply (text_or_empty sh (jget d ''text'')))
      | _ \<Rightarrow> strip (clean_email_quoted_reply (text_or_empty sh value)))"

subsection \<open>Yes and no\<close>

definition YES_TOKENS :: "string list" where
  "YES_TOKENS =
     [''YES'', ''Y'', ''YEAH'', ''YEP'', ''YUP'', ''YA'', ''YEAHH'', ''YESS'', ''YESSS'', ''YES!'',
      ''YES PLEASE'', ''YES PLS'', ''OK'', ''OKAY'', ''OKEY'', ''K'', ''KK'', ''KAY'', ''SURE'',
      ''SURELY'', ''ABSOLUTELY'', ''DEFINITELY'', ''OFCOURSE'', ''OF COURSE'', ''FINE'',
      ''ALRIGHT'', ''ALRITE'', ''AGREED'', ''AGREE'', ''DO IT'', ''GO AHEAD'', ''GO ON'',
      ''LET'' @ [CHR 0x27] @ ''S GO'', ''LETS GO'', ''PROCEED'', ''CONTINUE'', ''I AGREE'',
      ''SOUNDS GOOD'', ''GOOD'']"

definition NO_TOKENS :: "string list" where
  "NO_TOKENS =
     [''NO'', ''N'', ''NOPE'', ''NOPES'', ''NAH'', ''NA'', ''NOT NOW'', ''NOT INTERESTED'',
      ''NEVER MIND'', ''NEVERMIND'', ''DON'' @ [CHR 0x27] @ ''T'', ''DONT'', ''STOP'', ''CANCEL'',
      ''DECLINE'', ''REJECT'', ''DISAGREE'', ''I DISAGREE'']"

definition is_yes :: "(json \<Rightarrow> string) \<Rightarrow> json \<Rightarrow> bool" where
  "is_yes sh value = (upper (reply_text sh value) \<in> set YES_TOKENS)"

definition is_no :: "(json \<Rightarrow> string) \<Rightarrow> json \<Rightarrow> bool" where
  "is_no sh value = (upper (reply_text sh value) \<in> set NO_TOKENS)"

subsection \<open>Keyword matchers\<close>

definition HELP_KEYWORDS :: "string list" where
  "HELP_KEYWORDS =
     [''what is madad'', ''who is madad'', ''what'' @ [CHR 0x27] @ ''s madad'', ''about madad'']"

definition SECURITY_KEYWORDS :: "string list" where
  "SECURITY_KEYWORDS = [''scam'', ''scammed'', ''fraud'', ''fake'', ''legit'', ''safe'']"

definition STATUS_KEYWORDS :: "string list" where
  "STATUS_KEYWORDS = [''status'', ''update'', ''where'', ''progress'', ''application'']"

definition PORTAL_KEYWORDS :: "string list" where
  "PORTAL_KEYWORDS =
     [''portal'', ''link'', ''url'', ''madad id'', ''application id'', ''reference'', ''login'',
      ''log in'', ''logging in'', ''sign in'', ''signin'', ''website'', ''madadfintech'',
      ''madad fintech'', ''madad.com'', ''madadfintech.com'']"

definition CASUAL_KEYWORDS :: "string list" where
  "CASUAL_KEYWORDS = [''hi'', ''hello'', ''hey'', ''thanks'', ''thank you'', ''um'']"

definition off_script_template :: "(json \<Rightarrow> string) \<Rightarrow> json \<Rightarrow> string option" where
  "off_script_template sh value =
     (let t = lower (reply_text sh value) in
      if \<exists>k \<in> set SECURITY_KEYWORDS. contains k t then Some ''onboarding.help.security''
      else if \<exists>k \<in> set HELP_KEYWORDS. contains k t then Some ''onboarding.help.what_is_madad''
      else None)"

definition is_status_query :: "(json \<Rightarrow> string) \<Rightarrow> json \<Rightarrow> bool" where
  "is_status_query sh value =
     (\<exists>k \<in> set STATUS_KEYWORDS. contains k (lower (reply_text sh value)))"

definition is_portal_query :: "(json \<Rightarrow> string) \<Rightarrow> json \<Rightarrow> bool" where
  "is_portal_query sh value =
     (\<exists>k \<in> set PORTAL_KEYWORDS. contains k (lower (reply_text sh value)))"

definition is_casual_message :: "(json \<Rightarrow> string) \<Rightarrow> json \<Rightarrow> bool" where
  "is_casual_message sh value =
     (let t = strip (lower (reply_text sh value)) in
      \<exists>k \<in> set CASUAL_KEYWORDS. t = k \<or> starts_with (k @ '' '') t)"

definition PENDING_DOCS_PHRASES :: "string list" where
  "PENDING_DOCS_PHRASES =
     [''what am i still missing'', ''what'' @ [CHR 0x27] @ ''s still missing'',
      ''whats still missing'', ''what is still missing'', ''what'' @ [CHR 0x27] @ ''s missing'',
      ''whats missing'', ''what is missing'', ''what'' @ [CHR 0x27] @ ''s left'', ''whats left'',
      ''what is left'', ''what'' @ [CHR 0x27] @ ''s still needed'', ''whats still needed'',
      ''what'' @ [CHR 0x27] @ ''s needed'', ''whats needed'', ''what do i still need'',
      ''what do i need'', ''still needed'', ''still need'', ''pending documents'',
      ''pending docs'', ''remaining documents'', ''remaining docs'', ''documents checklist'',
      ''docs checklist'']"

definition PENDING_DOCS_SHORT_TOKENS :: "string list" where
  "PENDING_DOCS_SHORT_TOKENS =
     [''list'', ''checklist'', ''status'', ''pending'', ''missing'', ''remaining'', ''left'']"

definition is_pending_docs_query :: "(json \<Rightarrow> string) \<Rightarrow> json \<Rightarrow> bool" where
  "is_pending_docs_query sh value =
     (let t = lower (strip (reply_text sh value)) in
      if t = [] then False
      else t \<in> set PENDING_DOCS_SHORT_TOKENS \<or> (\<exists>k \<in> set PENDING_DOCS_PHRASES. contains k t))"

subsection \<open>The end of the upload phase\<close>

definition DOCS_DONE_PHRASES :: "string list" where
  "DOCS_DONE_PHRASES =
     [''done'', ''all done'', ''im done'', ''i'' @ [CHR 0x27] @ ''m done'',
      ''that'' @ [CHR 0x27] @ ''s all'', ''thats all'', ''that is all'',
      ''that'' @ [CHR 0x27] @ ''s it'', ''thats it'', ''finished'',
      ''i'' @ [CHR 0x27] @ ''m finished'', ''im finished'', ''all sent'', ''sent all'',
      ''sent everything'', ''sent them all'', ''i'' @ [CHR 0x27] @ ''ve sent everything'',
      ''ive sent everything'', ''i sent everything'', ''everything sent'', ''no more'',
      ''no more docs'', ''no more documents'', ''nothing else'', ''nothing more'',
      ''all of them'', ''i have sent all'', ''already sent'', ''i already sent it'',
      ''i sent it already'']"

definition DOCS_DONE_STARTS :: "string list" where
  "DOCS_DONE_STARTS =
     [''done'', ''all done'', ''i'' @ [CHR 0x27] @ ''m done'', ''im done'',
      ''that'' @ [CHR 0x27] @ ''s all'', ''thats all'', ''no more'',
      ''i'' @ [CHR 0x27] @ ''ve sent everything'', ''ive sent everything'', ''i sent everything'',
      ''i already sent'']"

definition trimmed_reply :: "(json \<Rightarrow> string) \<Rightarrow> json \<Rightarrow> string" where
  "trimmed_reply sh value =
     rstrip_set {CHR '' '', CHR ''.'', CHR ''!''} (lower (strip (reply_text sh value)))"

datatype docs_intent = More_Docs | Docs_Done

definition docs_button_intent :: "(json \<Rightarrow> string) \<Rightarrow> json \<Rightarrow> docs_intent option" where
  "docs_button_intent sh value =
     (let t = trimmed_reply sh value in
      if t = [] then None
      else if t \<in> set [''yes, upload more'', ''yes upload more'', ''upload more'',
                      ''yes, i want to upload more documents'', ''i want to upload more'',
                      ''yes upload more documents''] then Some More_Docs
      else if t \<in> set [''no, i'' @ [CHR 0x27] @ ''m done'', ''no im done'', ''no, im done'',
                      ''no i'' @ [CHR 0x27] @ ''m done'', ''no, i am done'', ''no i am done'',
                      ''i'' @ [CHR 0x27] @ ''m done'', ''im done'', ''done''] then Some Docs_Done
      else None)"

definition looks_done_with_docs :: "(json \<Rightarrow> string) \<Rightarrow> json \<Rightarrow> bool" where
  "looks_done_with_docs sh value =
     (let t = trimmed_reply sh value in
      if t = [] then False
      else t \<in> set DOCS_DONE_PHRASES \<or> (\<exists>k \<in> set DOCS_DONE_STARTS. starts_with k t))"

subsection \<open>What the workflow itself resumes with\<close>

definition is_docs_settle :: "json \<Rightarrow> bool" where
  "is_docs_settle value = (case value of JObj d \<Rightarrow> jget d ''type'' = JStr ''docs_settle'' | _ \<Rightarrow> False)"

definition is_inert_system_resume :: "(json \<Rightarrow> string) \<Rightarrow> json \<Rightarrow> bool" where
  "is_inert_system_resume sh value =
     (case value of
        JObj d \<Rightarrow>
          if jget d ''type'' \<notin> {JStr ''status_update'', JStr ''docs_settle''} then False
          else strip (reply_text sh value) = []
      | _ \<Rightarrow> False)"

definition extract_status_source :: "json \<Rightarrow> string" where
  "extract_status_source payload =
     (case payload of
        JObj d \<Rightarrow> (case jget d ''last_status_source'' of JStr s \<Rightarrow> s | _ \<Rightarrow> ''poll'')
      | _ \<Rightarrow> ''poll'')"

end
