(* ===== verification/Conv_State.thy ===== *)
theory Conv_State
  imports Wf_Types Conv_Text
begin

section \<open>State and ports of the onboarding conversation\<close>

text \<open>
  \<open>OnboardingState\<close> of \<open>services/workflow/state.py\<close>, as far as the nodes modelled here read and
  write it, and the ports a node calls. A node is an action: it reads the state, calls ports, and
  ends with its new state or an exception. The ports are not part of the conversation, so an action
  only knows the trace of the calls made so far, newest first; whether the last call fails
  and what it returns are functions of that trace. Message texts are left out: a message is its
  template key, its addressee and the facts its text is made of.
\<close>

subsection \<open>\<open>JourneyStatus\<close>\<close>

datatype journey =
    J_SIGN_UP | J_ONBOARDED | J_IN_ELIGIBLE | J_ELIGIBLE | J_INCOMPLETE | J_UNVERIFIED | J_VERIFIED
  | J_PRE_QUALIFIED | J_QUALIFIED | J_UNQUALIFIED | J_ACCEPTED | J_NOT_ACCEPTED
  | J_OFFER_ACCEPTED | J_OFFER_EXPIRED | J_OPEN | J_ACTIVATED

definition JOURNEY_STATUSES :: "(string \<times> journey) list" where
  "JOURNEY_STATUSES =
     [(''SIGN_UP'', J_SIGN_UP), (''ONBOARDED'', J_ONBOARDED), (''IN_ELIGIBLE'', J_IN_ELIGIBLE),
      (''ELIGIBLE'', J_ELIGIBLE), (''INCOMPLETE'', J_INCOMPLETE), (''UNVERIFIED'', J_UNVERIFIED),
      (''VERIFIED'', J_VERIFIED), (''PRE_QUALIFIED'', J_PRE_QUALIFIED),
      (''QUALIFIED'', J_QUALIFIED), (''UNQUALIFIED'', J_UNQUALIFIED), (''ACCEPTED'', J_ACCEPTED),
      (''NOT_ACCEPTED'', J_NOT_ACCEPTED), (''OFFER_ACCEPTED'', J_OFFER_ACCEPTED),
      (''OFFER_EXPIRED'', J_OFFER_EXPIRED), (''OPEN'', J_OPEN), (''ACTIVATED'', J_ACTIVATED)]"

text \<open>\<open>JourneyStatus(raw)\<close>: \<open>None\<close> for its \<open>ValueError\<close>.\<close>

definition journey_of :: "string \<Rightarrow> journey option" where
  "journey_of raw = map_of JOURNEY_STATUSES raw"

definition extract_journey_status :: "json \<Rightarrow> journey option" where
  "extract_journey_status payload =
     (case payload of
        JObj d \<Rightarrow> (case jget d ''journey_status'' of JStr raw \<Rightarrow> journey_of raw | _ \<Rightarrow> None)
      | _ \<Rightarrow> None)"

text \<open>Acceptance and everything after it: the fee is settled.\<close>

definition post_payment :: "journey option \<Rightarrow> bool" where
  "post_payment s = (s \<in> {Some J_ACCEPTED, Some J_OFFER_ACCEPTED, Some J_ACTIVATED})"

subsection \<open>\<open>OnboardingState\<close>\<close>

record conv_contact =
  cc_exists :: bool
  cc_domain_exists :: bool

text \<open>Identity, session and the steps up to the commercial registration.\<close>

record conv_early =
  v_history :: "string list"
  v_channels :: "channel list"
  v_channel :: channel
  v_identity :: string
  v_access :: "string option"
  v_refresh :: "string option"
  v_expires :: "int option"
  v_user :: "string option"
  v_contact :: "conv_contact option"
  v_reg_route :: "string option"
  v_registration :: payload
  v_journey :: "journey option"
  v_polled_at :: "int option"
  v_source :: "string option"
  v_has_email :: "bool option"
  v_entry_reply :: string
  v_email :: "string option"
  v_email_status :: "string option"
  v_consent :: bool
  v_cr_ref :: "string option"
  v_cr_content :: "string option"
  v_cr_sha :: "string option"
  v_cr_mime :: json
  v_cr_verified :: bool
  v_cr_rejects :: int
  v_cr_reupload :: bool

text \<open>The audited report, the document loop and the two gates.\<close>

record conv_docs = conv_early +
  v_fin_received :: bool
  v_fin_content :: "string option"
  v_fin_filename :: "string option"
  v_fin_mime :: json
  v_ref :: "string option"
  v_extras :: "payload list"
  v_missing :: "string list"
  v_required :: "string list"
  v_docs_received :: bool
  v_uploaded :: int
  v_complete_sent :: bool
  v_docs_proceed :: bool
  v_prompt_at :: "string option"
  v_last_upload_at :: "int option"
  v_acked :: "string list"
  v_settle_prompted :: bool
  v_prompt_sig :: "string option"
  v_ack_at :: "int option"
  v_prequalified :: bool
  v_rejected :: bool
  v_payment_ready :: bool
  v_score :: "int option"
  v_progress :: "int option"

text \<open>The payment, the offers and the ledger of the financed invoices.\<close>

record conv_state = conv_docs +
  v_paid :: bool
  v_confirmed_sent :: bool
  v_offers :: "payload list"
  v_selected :: "payload option"
  v_offer_confirmed_sent :: bool
  v_shown_sig :: "string option"
  v_preview_sig :: "string option"
  v_first_seen :: "int option"
  v_business_id :: json
  v_product_id :: json
  v_amount :: "int option"
  v_payment_id :: json
  v_payment_link :: json
  v_payment_status :: json
  v_provider_ref :: json
  v_idem_keys :: "(string, string) dict"
  v_outcome :: "string option"
  v_disbursements :: "payload list"
  v_repayments :: "payload list"
  v_outstanding :: "int option"

text \<open>The state a run starts with.\<close>

definition fresh_state :: "channel \<Rightarrow> string \<Rightarrow> conv_state" where
  "fresh_state ch ident =
     \<lparr>v_history = [], v_channels = [], v_channel = ch, v_identity = ident, v_access = None,
      v_refresh = None, v_expires = None, v_user = None, v_contact = None, v_reg_route = None,
      v_registration = [], v_journey = None, v_polled_at = None, v_source = None,
      v_has_email = None, v_entry_reply = [], v_email = None, v_email_status = None,
      v_consent = False, v_cr_ref = None, v_cr_content = None, v_cr_sha = None, v_cr_mime = JNull,
      v_cr_verified = False, v_cr_rejects = 0, v_cr_reupload = False,
      v_fin_received = False, v_fin_content = None, v_fin_filename = None, v_fin_mime = JNull,
      v_ref = None, v_extras = [], v_missing = [], v_required = [], v_docs_received = False,
      v_uploaded = 0, v_complete_sent = False, v_docs_proceed = False, v_prompt_at = None,
      v_last_upload_at = None, v_acked = [], v_settle_prompted = False, v_prompt_sig = None,
      v_ack_at = None, v_prequalified = False, v_rejected = False, v_payment_ready = False,
      v_score = None, v_progress = None,
      v_paid = False, v_confirmed_sent = False, v_offers = [], v_selected = None,
      v_offer_confirmed_sent = False, v_shown_sig = None, v_preview_sig = None,
      v_first_seen = None, v_business_id = JNull, v_product_id = JNull, v_amount = None,
      v_payment_id = JNull, v_payment_link = JNull, v_payment_status = JNull,
      v_provider_ref = JNull, v_idem_keys = [], v_outcome = None,
      v_disbursements = [], v_repayments = [], v_outstanding = None\<rparr>"

text \<open>
  What a checkpoint keeps: the tokens are excluded from the dump, so a parked run loses them.
\<close>

definition checkpointed :: "conv_state \<Rightarrow> conv_state" where
  "checkpointed st = st\<lparr>v_access := None, v_refresh := None, v_expires := None\<rparr>"

text \<open>The fields of a \<open>WorkflowContext\<close> the nodes read. A run always has a channel.\<close>

record conv_ctx =
  k_run :: string
  k_session :: string
  k_channel :: channel
  k_identity :: string

text \<open>\<open>_channel_union\<close> and \<open>_step\<close>: every node records its name and the channel of the turn.\<close>

definition channel_union :: "channel list \<Rightarrow> channel list \<Rightarrow> channel list" where
  "channel_union existing incoming =
     fold (\<lambda>ch out. if ch \<in> set out then out else out @ [ch]) incoming existing"

definition conv_step :: "string \<Rightarrow> conv_ctx \<Rightarrow> conv_state \<Rightarrow> conv_state" where
  "conv_step name ctx st =
     st\<lparr>v_history := v_history st @ [name],
        v_channels := channel_union (v_channels st) [k_channel ctx]\<rparr>"

definition target_ref :: "conv_ctx \<Rightarrow> conv_state \<Rightarrow> string" where
  "target_ref ctx st =
     (case v_user st of Some u \<Rightarrow> if u = [] then k_session ctx else u | None \<Rightarrow> k_session ctx)"

subsection \<open>Messages and port calls\<close>

text \<open>
  The facts a message is made of. A contextual answer is a fixed help text, the answer of the model,
  a fixed line, or the status or portal answer.
\<close>

datatype answer = A_Help string | A_Model string | A_Line string | A_Status | A_Portal

datatype row =
    Validated string | Under_Review string | Resend_File string | Unrecognized_File string
  | Still_Needed string | Received_Line | Zip_Line

datatype body =
    B_None
  | B_Answer answer
  | B_Documents "string list" int int
  | B_Rows "row list"
  | B_Payment "int option" "int option" json
  | B_Confirmed "string list" string
  | B_Offers "payload list"
  | B_Lender "string option"
  | B_Ref string
  | B_Affirmed bool
  | B_Activated payload payload

datatype kyc_call = K_Cr | K_Report | K_Extra | K_Classify | K_Classify_Upload | K_Zip

datatype effect =
    E_Now
  | E_Send channel string string body
  | E_Template channel string string body
  | E_Cta channel string string body
  | E_Buttons channel string string body
  | E_Open channel string bool bool
  | E_Check_Contact channel string
  | E_Check_Registration channel string
  | E_Complete string string "string option" string string
  | E_Me string
  | E_Business_Email string "string option"
  | E_Progress "string option" channel string int
  | E_Schedule string string
  | E_Suppress string
  | E_Claim string int
  | E_Kyc kyc_call string string string json
  | E_Checklist string
  | E_Admin_Docs string
  | E_Business string
  | E_Products string
  | E_Pay string json json int string
  | E_Answer string
  | E_Email_Intent string

type_synonym trace = "effect list"

record chan_session =
  cs_access :: "string option"
  cs_onboarding :: "string option"
  cs_refresh :: "string option"
  cs_expires :: "int option"
  cs_ref :: "string option"
  cs_reference :: "string option"

record ports =
  pt_fails :: "trace \<Rightarrow> bool"
  pt_value :: "trace \<Rightarrow> json"
  pt_session :: "trace \<Rightarrow> chan_session"
  pt_contact :: "trace \<Rightarrow> conv_contact"
  pt_now :: "trace \<Rightarrow> int"
  pt_components :: "string \<Rightarrow> body \<Rightarrow> bool"
  pt_str :: "json \<Rightarrow> string"
  pt_sha :: "string \<Rightarrow> string option"
  pt_text_sha :: "string \<Rightarrow> string"
  pt_unzip :: "payload \<Rightarrow> payload list"
  pt_float :: "string \<Rightarrow> real option"
  pt_placeholder :: "string \<Rightarrow> string"
  pt_cr_nudges :: int
  pt_checklist :: "(trace \<Rightarrow> (string \<times> bool) list) option"
  pt_buttons :: bool
  pt_offers_debounce :: int
  pt_offers_sig :: "payload list \<Rightarrow> string"

text \<open>
  Besides the answers of the ports: \<open>str\<close> of a value, \<open>float\<close> of a text, the digests, the members of an archive, the
  placeholder phone of an email lead, the signature of an offer set, whether a message's template
  components can be built, and what is wired or configured. \<open>io_notices\<close> is the process-local table of the failure notices (\<open>_upload_failure_notice_at\<close>).
\<close>

record io =
  io_trace :: trace
  io_notices :: "(string \<times> string, int) dict"

datatype conv_exn = Port_Error effect | Upload_Error string

type_synonym 'a act = "io \<Rightarrow> (conv_exn + 'a) \<times> io"

subsection \<open>Actions\<close>

definition ret :: "'a \<Rightarrow> 'a act" where
  "ret x = (\<lambda>s. (Inr x, s))"

definition raise :: "conv_exn \<Rightarrow> 'a act" where
  "raise e = (\<lambda>s. (Inl e, s))"

definition andthen :: "'a act \<Rightarrow> ('a \<Rightarrow> 'b act) \<Rightarrow> 'b act" where
  "andthen m f = (\<lambda>s. case m s of (Inl e, s') \<Rightarrow> (Inl e, s') | (Inr x, s') \<Rightarrow> f x s')"

text \<open>\<open>try: m except Exception: ...\<close>, the value when it returned.\<close>

definition trying :: "'a act \<Rightarrow> 'a option act" where
  "trying m = (\<lambda>s. case m s of (Inl e, s') \<Rightarrow> (Inr None, s') | (Inr x, s') \<Rightarrow> (Inr (Some x), s'))"

definition call :: "ports \<Rightarrow> effect \<Rightarrow> unit act" where
  "call p e =
     (\<lambda>s. let s' = s\<lparr>io_trace := e # io_trace s\<rparr>
          in (if pt_fails p (io_trace s') then Inl (Port_Error e) else Inr (), s'))"

definition ask :: "ports \<Rightarrow> effect \<Rightarrow> json act" where
  "ask p e = andthen (call p e) (\<lambda>_ s. (Inr (pt_value p (io_trace s)), s))"

definition ask_session :: "ports \<Rightarrow> effect \<Rightarrow> chan_session act" where
  "ask_session p e = andthen (call p e) (\<lambda>_ s. (Inr (pt_session p (io_trace s)), s))"

definition now :: "ports \<Rightarrow> int act" where
  "now p = (\<lambda>s. let s' = s\<lparr>io_trace := E_Now # io_trace s\<rparr>
                in (Inr (pt_now p (io_trace s')), s'))"

text \<open>A loop over a list that collects the results.\<close>

fun each :: "('a \<Rightarrow> 'b act) \<Rightarrow> 'a list \<Rightarrow> 'b list act" where
  "each f [] = ret []"
| "each f (x # xs) = andthen (f x) (\<lambda>y. andthen (each f xs) (\<lambda>ys. ret (y # ys)))"

subsection \<open>Reasoning about actions\<close>

text \<open>
  \<open>emits E m\<close>: every call of \<open>m\<close> lies in \<open>E\<close>. \<open>ends Q m\<close>: the result of \<open>m\<close>, when it returns,
  satisfies \<open>Q\<close>.
\<close>

named_theorems emit_rules and end_rules

definition emits :: "effect set \<Rightarrow> 'a act \<Rightarrow> bool" where
  "emits E m =
     (\<forall>s. \<exists>new. io_trace (snd (m s)) = new @ io_trace s \<and> set new \<subseteq> E)"

definition ends :: "('a \<Rightarrow> bool) \<Rightarrow> 'a act \<Rightarrow> bool" where
  "ends Q m = (\<forall>s. case fst (m s) of Inl e \<Rightarrow> True | Inr x \<Rightarrow> Q x)"

lemma emits_ret [emit_rules]: "emits E (ret x)"
  by (simp add: emits_def ret_def)

lemma emits_raise [emit_rules]: "emits E (raise e)"
  by (simp add: emits_def raise_def)

lemma emits_state: "(\<And>s. snd (m s) = s) \<Longrightarrow> emits E m"
  by (simp add: emits_def)

lemma emits_andthen [emit_rules]:
  assumes "emits E m" and "\<And>x. emits E (f x)"
  shows "emits E (andthen m f)"
  unfolding emits_def
proof
  fix s
  obtain r s' where m: "m s = (r, s')" by (cases "m s")
  with assms(1) obtain n1 where n1: "io_trace s' = n1 @ io_trace s" "set n1 \<subseteq> E"
    unfolding emits_def by (metis snd_conv)
  show "\<exists>new. io_trace (snd (andthen m f s)) = new @ io_trace s \<and> set new \<subseteq> E"
  proof (cases r)
    case (Inl e)
    with m n1 show ?thesis by (simp add: andthen_def)
  next
    case (Inr x)
    from assms(2) obtain n2 where "io_trace (snd (f x s')) = n2 @ io_trace s'" "set n2 \<subseteq> E"
      unfolding emits_def by blast
    with m n1 Inr have "io_trace (snd (andthen m f s)) = (n2 @ n1) @ io_trace s"
      "set (n2 @ n1) \<subseteq> E"
      by (simp_all add: andthen_def)
    then show ?thesis by blast
  qed
qed

lemma emits_trying [emit_rules]: "emits E m \<Longrightarrow> emits E (trying m)"
  unfolding emits_def trying_def by (auto split: prod.split sum.split) (metis snd_conv)+

lemma emits_call [emit_rules]: "e \<in> E \<Longrightarrow> emits E (call p e)"
  unfolding emits_def call_def by (auto simp: Let_def)

lemma emits_now [emit_rules]: "E_Now \<in> E \<Longrightarrow> emits E (now p)"
  unfolding emits_def now_def by (auto simp: Let_def)

lemma emits_ask [emit_rules]: "e \<in> E \<Longrightarrow> emits E (ask p e)"
  unfolding ask_def by (intro emits_andthen emits_call emits_state) simp_all

lemma emits_ask_session [emit_rules]: "e \<in> E \<Longrightarrow> emits E (ask_session p e)"
  unfolding ask_session_def by (intro emits_andthen emits_call emits_state) simp_all

lemma emits_each [emit_rules]: "(\<And>x. x \<in> set xs \<Longrightarrow> emits E (f x)) \<Longrightarrow> emits E (each f xs)"
  by (induction xs) (auto intro!: emits_ret emits_andthen)

lemma emits_if [emit_rules]:
  "(c \<Longrightarrow> emits E a) \<Longrightarrow> (\<not> c \<Longrightarrow> emits E b) \<Longrightarrow> emits E (if c then a else b)"
  by simp

lemma emits_mono: "emits E m \<Longrightarrow> E \<subseteq> F \<Longrightarrow> emits F m"
  unfolding emits_def by blast

lemma emitsD:
  assumes "emits E m" and "m s = (r, s')"
  obtains new where "io_trace s' = new @ io_trace s" and "set new \<subseteq> E"
  using assms unfolding emits_def by (metis snd_conv)

lemma ends_ret [end_rules]: "Q x \<Longrightarrow> ends Q (ret x)"
  by (simp add: ends_def ret_def)

lemma ends_raise [end_rules]: "ends Q (raise e)"
  by (simp add: ends_def raise_def)

lemma ends_andthen: 
  assumes "ends P m" and "\<And>x. P x \<Longrightarrow> ends Q (f x)"
  shows "ends Q (andthen m f)"
  using assms unfolding ends_def andthen_def
  by (auto split: prod.split sum.split) (metis fst_conv old.sum.simps(6))

lemma ends_any: "ends (\<lambda>_. True) m"
  by (simp add: ends_def split: sum.split)

lemma ends_after [end_rules]: "(\<And>x. ends Q (f x)) \<Longrightarrow> ends Q (andthen m f)"
  by (rule ends_andthen [OF ends_any]) simp

lemma ends_if [end_rules]:
  "(c \<Longrightarrow> ends Q a) \<Longrightarrow> (\<not> c \<Longrightarrow> ends Q b) \<Longrightarrow> ends Q (if c then a else b)"
  by simp

lemma endsD: "ends Q m \<Longrightarrow> m s = (Inr x, s') \<Longrightarrow> Q x"
  unfolding ends_def by (auto dest!: spec [of _ s])

lemma ends_mono:
  assumes "ends P m" and "\<And>x. P x \<Longrightarrow> Q x"
  shows "ends Q m"
  unfolding ends_def
proof
  fix s
  show "case fst (m s) of Inl e \<Rightarrow> True | Inr x \<Rightarrow> Q x"
    using assms by (cases "fst (m s)") (auto simp: ends_def dest!: spec [of _ s])
qed

end
