(* ===== verification/Conv_Graph.thy ===== *)
theory Conv_Graph
  imports Conv_State
begin

section \<open>The graph of the onboarding conversation\<close>

text \<open>
  \<open>GraphBuilder\<close> of \<open>shared/workflow/definition.py\<close>, and from \<open>services/workflow/onboarding.py\<close>
  the wiring of \<open>OnboardingWorkflow.build\<close>, the routers, and one step of the wired graph: from a
  node and the state it leaves to the nodes that run next. The debug wrapper of the nodes only logs.
\<close>

subsection \<open>\<open>GraphBuilder\<close>\<close>

datatype router =
    Route_entry_registration_check | Route_entry | Route_check_contact | Route_channel_session
  | Route_resume_by_status | Route_business_email | Route_consent_upload | Route_cr_upload
  | Route_financials_upload | Route_prequalify_wait | Route_documents | Route_payment_wait
  | Route_journey_status | Route_status_resume | Route_payment | Route_invoice_collect

record builder =
  gb_nodes :: "string list"
  gb_edges :: "(string \<times> string) list"
  gb_branches :: "(string \<times> router \<times> (string \<times> string) list) list"

definition START :: string where "START = ''__start__''"

definition END_NODE :: string where "END_NODE = ''__end__''"

definition empty_graph :: builder where
  "empty_graph = \<lparr>gb_nodes = [], gb_edges = [], gb_branches = []\<rparr>"

definition add_node :: "string \<Rightarrow> builder \<Rightarrow> builder" where
  "add_node name g = g\<lparr>gb_nodes := gb_nodes g @ [name]\<rparr>"

definition add_edge :: "string \<Rightarrow> string \<Rightarrow> builder \<Rightarrow> builder" where
  "add_edge src dst g = g\<lparr>gb_edges := gb_edges g @ [(src, dst)]\<rparr>"

definition add_conditional_edges ::
  "string \<Rightarrow> router \<Rightarrow> (string \<times> string) list \<Rightarrow> builder \<Rightarrow> builder"
where
  "add_conditional_edges src r path_map g =
     g\<lparr>gb_branches := gb_branches g @ [(src, r, path_map)]\<rparr>"

definition set_entry :: "string \<Rightarrow> builder \<Rightarrow> builder" where
  "set_entry name = add_edge START name"

definition set_finish :: "string \<Rightarrow> builder \<Rightarrow> builder" where
  "set_finish name = add_edge name END_NODE"

definition compose :: "(builder \<Rightarrow> builder) list \<Rightarrow> builder \<Rightarrow> builder" where
  "compose fs g = fold (\<lambda>f. f) fs g"

subsection \<open>\<open>OnboardingWorkflow.build\<close>\<close>

definition NODES :: "string list" where
  "NODES =
     [''entry_registration_check'', ''campaign_send'', ''campaign_await'', ''declined'',
      ''check_contact_send'', ''check_contact_await'', ''domain_blocked'',
      ''registered_route_send'', ''channel_session_resume'', ''resume_status_fetch'',
      ''resume_rejected'', ''resume_offer_expired'', ''resume_application_open'',
      ''channel_session_first'', ''channel_session_create_user'',
      ''collect_onboarding_details_send'', ''collect_onboarding_details_await'',
      ''complete_onboarding_send'', ''channel_session_second'', ''business_email_send'',
      ''business_email_await'', ''business_email_conflict_send'', ''consent_send'',
      ''consent_await'', ''cr_upload_base64'', ''eligibility_intake_send'',
      ''eligibility_intake_await'', ''eligibility_update'', ''not_eligible'',
      ''financials_send'', ''financials_await'', ''financials_upload_base64'',
      ''documents_list_fetch'', ''buyers_collect_send'', ''buyers_collect_await'',
      ''shareholders_collect_send'', ''shareholders_collect_await'',
      ''documents_upload_loop_send'', ''documents_upload_loop_await'', ''documents_complete'',
      ''prequalify_wait_await'', ''payment_wait_await'', ''status_poll_on_demand'',
      ''journey_wait_await'', ''not_qualified'', ''not_pre_qualified'', ''not_qatar_based'',
      ''business_details_fetch'', ''products_list_fetch'', ''payment_create'',
      ''payment_send_link'', ''payment_await'', ''lender_status_poll'', ''lender_wait_await'',
      ''offers_fetch'', ''offer_view_send'', ''offer_handoff_to_madad'', ''offer_confirmed'',
      ''activated'', ''invoice_collect_await'']"

definition wire_entry :: "builder \<Rightarrow> builder" where
  "wire_entry =
     compose
      [set_entry ''entry_registration_check'',
       add_conditional_edges ''entry_registration_check'' Route_entry_registration_check
        [(''registered'', ''channel_session_resume''), (''fresh'', ''campaign_send'')],
       add_edge ''campaign_send'' ''campaign_await'',
       add_conditional_edges ''campaign_await'' Route_entry
        [(''check_contact'', ''check_contact_send''), (''declined'', ''declined''),
         (''ask_again'', ''campaign_await'')],
       add_edge ''check_contact_send'' ''check_contact_await'',
       add_conditional_edges ''check_contact_await'' Route_check_contact
        [(''existing'', ''channel_session_first''), (''new'', ''complete_onboarding_send''),
         (''new_whatsapp'', ''channel_session_create_user''), (''blocked'', ''domain_blocked''),
         (''registered_routed'', ''channel_session_resume'')],
       add_conditional_edges ''channel_session_first'' Route_channel_session
        [(''consent'', ''consent_send'')],
       add_edge ''channel_session_resume'' ''resume_status_fetch'',
       add_conditional_edges ''resume_status_fetch'' Route_resume_by_status
        [(''email'', ''business_email_send''), (''consent'', ''consent_send''),
         (''financials'', ''financials_send''), (''documents'', ''documents_list_fetch''),
         (''payment'', ''business_details_fetch''), (''offers'', ''offers_fetch''),
         (''offer_confirmed'', ''offer_confirmed''), (''activated'', ''activated''),
         (''rejected'', ''resume_rejected''), (''offer_expired'', ''resume_offer_expired''),
         (''application_open'', ''resume_application_open''),
         (''ineligible'', ''not_eligible''), (''unqualified'', ''not_qualified''),
         (''welcome'', ''registered_route_send'')],
       add_edge ''complete_onboarding_send'' ''channel_session_second'',
       add_conditional_edges ''channel_session_second'' Route_channel_session
        [(''consent'', ''business_email_send'')],
       add_conditional_edges ''channel_session_create_user'' Route_channel_session
        [(''consent'', ''business_email_send'')],
       add_edge ''business_email_send'' ''business_email_await'',
       add_conditional_edges ''business_email_await'' Route_business_email
        [(''proceed'', ''consent_send''), (''conflict'', ''business_email_conflict_send''),
         (''await_again'', ''business_email_await'')],
       add_edge ''business_email_conflict_send'' ''business_email_await'']"

definition wire_uploads :: "builder \<Rightarrow> builder" where
  "wire_uploads =
     compose
      [add_edge ''consent_send'' ''consent_await'',
       add_conditional_edges ''consent_await'' Route_consent_upload
        [(''uploaded'', ''cr_upload_base64''), (''missing'', ''consent_await'')],
       add_conditional_edges ''cr_upload_base64'' Route_cr_upload
        [(''reupload'', ''consent_await''), (''proceed'', ''financials_send'')],
       add_edge ''financials_send'' ''financials_await'',
       add_conditional_edges ''financials_await'' Route_financials_upload
        [(''uploaded'', ''financials_upload_base64''), (''missing'', ''financials_await'')],
       add_edge ''financials_upload_base64'' ''prequalify_wait_await'',
       add_conditional_edges ''prequalify_wait_await'' Route_prequalify_wait
        [(''go'', ''documents_list_fetch''), (''wait'', ''prequalify_wait_await''),
         (''rejected'', ''not_pre_qualified'')],
       add_edge ''not_pre_qualified'' ''__end__'',
       add_edge ''not_qatar_based'' ''__end__'']"

definition wire_waits :: "builder \<Rightarrow> builder" where
  "wire_waits =
     compose
      [add_edge ''documents_list_fetch'' ''documents_upload_loop_send'',
       add_edge ''documents_upload_loop_send'' ''documents_upload_loop_await'',
       add_conditional_edges ''documents_upload_loop_await'' Route_documents
        [(''complete'', ''documents_complete''), (''payment'', ''business_details_fetch''),
         (''lender'', ''lender_status_poll''), (''missing'', ''documents_upload_loop_send''),
         (''await_again'', ''documents_upload_loop_await''),
         (''proceed'', ''payment_wait_await'')],
       add_edge ''documents_complete'' ''documents_upload_loop_await'',
       add_conditional_edges ''payment_wait_await'' Route_payment_wait
        [(''go'', ''business_details_fetch''), (''wait'', ''payment_wait_await''),
         (''lender'', ''lender_status_poll'')],
       add_conditional_edges ''status_poll_on_demand'' Route_journey_status
        [(''payment'', ''business_details_fetch''), (''ineligible'', ''not_eligible''),
         (''unqualified'', ''not_qualified''), (''offers'', ''offers_fetch''),
         (''offer_confirmed'', ''offer_confirmed''), (''activated'', ''activated''),
         (''wait'', ''journey_wait_await'')],
       add_conditional_edges ''journey_wait_await'' Route_status_resume
        [(''poll'', ''status_poll_on_demand''), (''await_again'', ''journey_wait_await'')]]"

definition wire_payment :: "builder \<Rightarrow> builder" where
  "wire_payment =
     compose
      [add_edge ''business_details_fetch'' ''products_list_fetch'',
       add_edge ''products_list_fetch'' ''payment_create'',
       add_edge ''payment_create'' ''payment_send_link'',
       add_edge ''payment_send_link'' ''payment_await'',
       add_conditional_edges ''payment_await'' Route_payment
        [(''paid'', ''lender_status_poll''), (''unpaid'', ''payment_await'')],
       add_conditional_edges ''lender_status_poll'' Route_journey_status
        [(''payment'', ''lender_wait_await''), (''ineligible'', ''not_qualified''),
         (''unqualified'', ''not_qualified''), (''offers'', ''offers_fetch''),
         (''offer_confirmed'', ''offer_confirmed''), (''activated'', ''activated''),
         (''wait'', ''lender_wait_await'')],
       add_conditional_edges ''lender_wait_await'' Route_status_resume
        [(''poll'', ''lender_status_poll''), (''await_again'', ''lender_wait_await'')],
       add_edge ''offers_fetch'' ''offer_view_send'',
       add_edge ''offer_view_send'' ''offer_handoff_to_madad'',
       add_edge ''offer_handoff_to_madad'' ''journey_wait_await'',
       add_edge ''offer_confirmed'' ''journey_wait_await'',
       add_edge ''activated'' ''invoice_collect_await'',
       add_conditional_edges ''invoice_collect_await'' Route_invoice_collect
        [(''loop'', ''invoice_collect_await'')]]"

definition FINISH_NODES :: "string list" where
  "FINISH_NODES =
     [''declined'', ''domain_blocked'', ''not_eligible'', ''not_qualified'',
      ''registered_route_send'', ''resume_rejected'', ''resume_offer_expired'',
      ''resume_application_open'']"

definition build :: "builder \<Rightarrow> builder" where
  "build g =
     compose (map set_finish FINISH_NODES)
       (wire_payment (wire_waits (wire_uploads (wire_entry (compose (map add_node NODES) g)))))"

definition onboarding_graph :: builder where
  "onboarding_graph = build empty_graph"

subsection \<open>Routers\<close>

definition is_set :: "string option \<Rightarrow> bool" where
  "is_set s = (case s of None \<Rightarrow> False | Some t \<Rightarrow> t \<noteq> [])"

definition route_entry_registration_check :: "conv_state \<Rightarrow> string" where
  "route_entry_registration_check st =
     (if v_registration st \<noteq> [] then ''registered'' else ''fresh'')"

definition route_entry :: "conv_state \<Rightarrow> string" where
  "route_entry st =
     (if v_entry_reply st = ''YES'' then ''check_contact''
      else if v_entry_reply st = ''NO'' then ''declined''
      else ''ask_again'')"

definition new_lead_route :: "conv_state \<Rightarrow> string" where
  "new_lead_route st = (if v_channel st = WHATSAPP then ''new_whatsapp'' else ''new'')"

definition route_check_contact :: "conv_state \<Rightarrow> string" where
  "route_check_contact st =
     (if is_set (v_reg_route st) then ''registered_routed''
      else
        (case v_contact st of
           None \<Rightarrow> new_lead_route st
         | Some r \<Rightarrow>
             if cc_exists r then ''existing''
             else if cc_domain_exists r then ''blocked''
             else new_lead_route st))"

definition route_channel_session :: "conv_state \<Rightarrow> string" where
  "route_channel_session st = ''consent''"

definition route_resume_by_status :: "conv_state \<Rightarrow> string" where
  "route_resume_by_status st =
     (case v_journey st of
        None \<Rightarrow> ''welcome''
      | Some s \<Rightarrow>
          if s \<in> {J_SIGN_UP, J_ONBOARDED} then
            (if v_has_email st = Some True then ''consent'' else ''email'')
          else if s = J_ELIGIBLE then ''financials''
          else if s \<in> {J_INCOMPLETE, J_UNVERIFIED, J_VERIFIED, J_PRE_QUALIFIED} then ''documents''
          else if s = J_QUALIFIED then ''payment''
          else if s = J_ACCEPTED then ''offers''
          else if s = J_OFFER_ACCEPTED then ''offer_confirmed''
          else if s = J_OFFER_EXPIRED then ''offer_expired''
          else if s = J_ACTIVATED then ''activated''
          else if s = J_NOT_ACCEPTED then ''rejected''
          else if s = J_OPEN then ''application_open''
          else if s = J_IN_ELIGIBLE then ''ineligible''
          else if s = J_UNQUALIFIED then ''unqualified''
          else ''welcome'')"

definition route_business_email :: "conv_state \<Rightarrow> string" where
  "route_business_email st =
     (let status = lower (case v_email_status st of None \<Rightarrow> [] | Some s \<Rightarrow> s) in
      if status = ''proceed'' then ''proceed''
      else if status = ''conflict'' then ''conflict''
      else ''await_again'')"

definition route_consent_upload :: "conv_state \<Rightarrow> string" where
  "route_consent_upload st =
     (if v_consent st \<and> is_set (v_cr_ref st) then ''uploaded'' else ''missing'')"

definition route_cr_upload :: "conv_state \<Rightarrow> string" where
  "route_cr_upload st = (if v_cr_reupload st then ''reupload'' else ''proceed'')"

definition route_financials_upload :: "conv_state \<Rightarrow> string" where
  "route_financials_upload st = (if v_fin_received st then ''uploaded'' else ''missing'')"

definition route_documents :: "conv_state \<Rightarrow> string" where
  "route_documents st =
     (if v_paid st \<or> post_payment (v_journey st) then ''lender''
      else if v_payment_ready st \<or> v_journey st = Some J_QUALIFIED then ''payment''
      else if v_docs_proceed st then ''proceed''
      else if v_missing st = [] then (if \<not> v_complete_sent st then ''complete'' else ''await_again'')
      else ''await_again'')"

definition route_prequalify_wait :: "conv_state \<Rightarrow> string" where
  "route_prequalify_wait st =
     (if v_rejected st then ''rejected'' else if v_prequalified st then ''go'' else ''wait'')"

definition route_payment_wait :: "conv_state \<Rightarrow> string" where
  "route_payment_wait st =
     (if v_paid st then ''lender''
      else if v_payment_ready st then ''go''
      else if v_journey st = Some J_QUALIFIED \<or> post_payment (v_journey st) then ''go''
      else ''wait'')"

definition route_payment :: "conv_state \<Rightarrow> string" where
  "route_payment st = (if v_paid st then ''paid'' else ''unpaid'')"

definition route_journey_status :: "conv_state \<Rightarrow> string" where
  "route_journey_status st =
     (case v_journey st of
        None \<Rightarrow> ''wait''
      | Some s \<Rightarrow>
          if s \<in> {J_PRE_QUALIFIED, J_QUALIFIED} then (if v_paid st then ''wait'' else ''payment'')
          else if s = J_IN_ELIGIBLE then ''ineligible''
          else if s \<in> {J_UNQUALIFIED, J_NOT_ACCEPTED} then ''unqualified''
          else if s = J_ACCEPTED then ''offers''
          else if s = J_OFFER_ACCEPTED then ''offer_confirmed''
          else if s = J_ACTIVATED then ''activated''
          else ''wait'')"

definition route_status_resume :: "conv_state \<Rightarrow> string" where
  "route_status_resume st = (if v_source st = Some ''chat'' then ''await_again'' else ''poll'')"

definition route_invoice_collect :: "conv_state \<Rightarrow> string" where
  "route_invoice_collect st = ''loop''"

definition run_router :: "router \<Rightarrow> conv_state \<Rightarrow> string" where
  "run_router r st =
     (case r of
        Route_entry_registration_check \<Rightarrow> route_entry_registration_check st
      | Route_entry \<Rightarrow> route_entry st
      | Route_check_contact \<Rightarrow> route_check_contact st
      | Route_channel_session \<Rightarrow> route_channel_session st
      | Route_resume_by_status \<Rightarrow> route_resume_by_status st
      | Route_business_email \<Rightarrow> route_business_email st
      | Route_consent_upload \<Rightarrow> route_consent_upload st
      | Route_cr_upload \<Rightarrow> route_cr_upload st
      | Route_financials_upload \<Rightarrow> route_financials_upload st
      | Route_prequalify_wait \<Rightarrow> route_prequalify_wait st
      | Route_documents \<Rightarrow> route_documents st
      | Route_payment_wait \<Rightarrow> route_payment_wait st
      | Route_journey_status \<Rightarrow> route_journey_status st
      | Route_status_resume \<Rightarrow> route_status_resume st
      | Route_payment \<Rightarrow> route_payment st
      | Route_invoice_collect \<Rightarrow> route_invoice_collect st)"

subsection \<open>One step of the graph\<close>

text \<open>
  A node's plain edges and the answers of its routers; an answer outside the path map is LangGraph's
  \<open>KeyError\<close> and has no successor.
\<close>

fun branch_successors ::
  "(string \<times> router \<times> (string \<times> string) list) list \<Rightarrow> string \<Rightarrow> conv_state \<Rightarrow> string list"
where
  "branch_successors [] n st = []"
| "branch_successors ((src, r, pm) # bs) n st =
     (if src = n then (case map_of pm (run_router r st) of Some d \<Rightarrow> [d] | None \<Rightarrow> []) else []) @
     branch_successors bs n st"

definition successors :: "builder \<Rightarrow> string \<Rightarrow> conv_state \<Rightarrow> string list" where
  "successors g n st =
     map snd (filter (\<lambda>(src, dst). src = n) (gb_edges g)) @ branch_successors (gb_branches g) n st"

text \<open>The node that runs after \<open>n\<close> left the state \<open>st\<close>.\<close>

definition next_node :: "string \<Rightarrow> conv_state \<Rightarrow> string option" where
  "next_node n st = (case successors onboarding_graph n st of [d] \<Rightarrow> Some d | _ \<Rightarrow> None)"

text \<open>The nodes that call \<open>await_input\<close>, and so end a turn.\<close>

definition AWAITING :: "string list" where
  "AWAITING =
     [''campaign_await'', ''collect_onboarding_details_await'', ''business_email_await'',
      ''consent_await'', ''eligibility_intake_await'', ''financials_await'',
      ''buyers_collect_await'', ''shareholders_collect_await'', ''documents_upload_loop_await'',
      ''prequalify_wait_await'', ''payment_wait_await'', ''journey_wait_await'',
      ''payment_await'', ''lender_wait_await'', ''invoice_collect_await'']"

text \<open>The graph, evaluated once.\<close>

lemmas build_defs =
  onboarding_graph_def build_def compose_def NODES_def FINISH_NODES_def wire_entry_def
  wire_uploads_def wire_waits_def wire_payment_def add_node_def add_edge_def
  add_conditional_edges_def set_entry_def set_finish_def empty_graph_def START_def END_NODE_def

end
