(* ===== verification/Conv_Walks.thy ===== *)
theory Conv_Walks
  imports Conv_Graph
begin

section \<open>Walks of the conversation graph\<close>

lemma graph_edges:
  "gb_edges onboarding_graph =
     [(''__start__'', ''entry_registration_check''), (''campaign_send'', ''campaign_await''),
      (''check_contact_send'', ''check_contact_await''),
      (''channel_session_resume'', ''resume_status_fetch''),
      (''complete_onboarding_send'', ''channel_session_second''),
      (''business_email_send'', ''business_email_await''),
      (''business_email_conflict_send'', ''business_email_await''),
      (''consent_send'', ''consent_await''), (''financials_send'', ''financials_await''),
      (''financials_upload_base64'', ''prequalify_wait_await''),
      (''not_pre_qualified'', ''__end__''), (''not_qatar_based'', ''__end__''),
      (''documents_list_fetch'', ''documents_upload_loop_send''),
      (''documents_upload_loop_send'', ''documents_upload_loop_await''),
      (''documents_complete'', ''documents_upload_loop_await''),
      (''business_details_fetch'', ''products_list_fetch''),
      (''products_list_fetch'', ''payment_create''),
      (''payment_create'', ''payment_send_link''), (''payment_send_link'', ''payment_await''),
      (''offers_fetch'', ''offer_view_send''),
      (''offer_view_send'', ''offer_handoff_to_madad''),
      (''offer_handoff_to_madad'', ''journey_wait_await''),
      (''offer_confirmed'', ''journey_wait_await''), (''activated'', ''invoice_collect_await''),
      (''declined'', ''__end__''), (''domain_blocked'', ''__end__''),
      (''not_eligible'', ''__end__''), (''not_qualified'', ''__end__''),
      (''registered_route_send'', ''__end__''), (''resume_rejected'', ''__end__''),
      (''resume_offer_expired'', ''__end__''), (''resume_application_open'', ''__end__'')]"
  by (simp add: build_defs)

lemma graph_branches:
  "gb_branches onboarding_graph =
     [(''entry_registration_check'', Route_entry_registration_check,
       [(''registered'', ''channel_session_resume''), (''fresh'', ''campaign_send'')]),
      (''campaign_await'', Route_entry,
       [(''check_contact'', ''check_contact_send''), (''declined'', ''declined''),
        (''ask_again'', ''campaign_await'')]),
      (''check_contact_await'', Route_check_contact,
       [(''existing'', ''channel_session_first''), (''new'', ''complete_onboarding_send''),
        (''new_whatsapp'', ''channel_session_create_user''), (''blocked'', ''domain_blocked''),
        (''registered_routed'', ''channel_session_resume'')]),
      (''channel_session_first'', Route_channel_session,
       [(''consent'', ''consent_send'')]),
      (''resume_status_fetch'', Route_resume_by_status,
       [(''email'', ''business_email_send''), (''consent'', ''consent_send''),
        (''financials'', ''financials_send''), (''documents'', ''documents_list_fetch''),
        (''payment'', ''business_details_fetch''), (''offers'', ''offers_fetch''),
        (''offer_confirmed'', ''offer_confirmed''), (''activated'', ''activated''),
        (''rejected'', ''resume_rejected''), (''offer_expired'', ''resume_offer_expired''),
        (''application_open'', ''resume_application_open''), (''ineligible'', ''not_eligible''),
        (''unqualified'', ''not_qualified''), (''welcome'', ''registered_route_send'')]),
      (''channel_session_second'', Route_channel_session,
       [(''consent'', ''business_email_send'')]),
      (''channel_session_create_user'', Route_channel_session,
       [(''consent'', ''business_email_send'')]),
      (''business_email_await'', Route_business_email,
       [(''proceed'', ''consent_send''), (''conflict'', ''business_email_conflict_send''),
        (''await_again'', ''business_email_await'')]),
      (''consent_await'', Route_consent_upload,
       [(''uploaded'', ''cr_upload_base64''), (''missing'', ''consent_await'')]),
      (''cr_upload_base64'', Route_cr_upload,
       [(''reupload'', ''consent_await''), (''proceed'', ''financials_send'')]),
      (''financials_await'', Route_financials_upload,
       [(''uploaded'', ''financials_upload_base64''), (''missing'', ''financials_await'')]),
      (''prequalify_wait_await'', Route_prequalify_wait,
       [(''go'', ''documents_list_fetch''), (''wait'', ''prequalify_wait_await''),
        (''rejected'', ''not_pre_qualified'')]),
      (''documents_upload_loop_await'', Route_documents,
       [(''complete'', ''documents_complete''), (''payment'', ''business_details_fetch''),
        (''lender'', ''lender_status_poll''), (''missing'', ''documents_upload_loop_send''),
        (''await_again'', ''documents_upload_loop_await''), (''proceed'', ''payment_wait_await'')]),
      (''payment_wait_await'', Route_payment_wait,
       [(''go'', ''business_details_fetch''), (''wait'', ''payment_wait_await''),
        (''lender'', ''lender_status_poll'')]),
      (''status_poll_on_demand'', Route_journey_status,
       [(''payment'', ''business_details_fetch''), (''ineligible'', ''not_eligible''),
        (''unqualified'', ''not_qualified''), (''offers'', ''offers_fetch''),
        (''offer_confirmed'', ''offer_confirmed''), (''activated'', ''activated''),
        (''wait'', ''journey_wait_await'')]),
      (''journey_wait_await'', Route_status_resume,
       [(''poll'', ''status_poll_on_demand''), (''await_again'', ''journey_wait_await'')]),
      (''payment_await'', Route_payment,
       [(''paid'', ''lender_status_poll''), (''unpaid'', ''payment_await'')]),
      (''lender_status_poll'', Route_journey_status,
       [(''payment'', ''lender_wait_await''), (''ineligible'', ''not_qualified''),
        (''unqualified'', ''not_qualified''), (''offers'', ''offers_fetch''),
        (''offer_confirmed'', ''offer_confirmed''), (''activated'', ''activated''),
        (''wait'', ''lender_wait_await'')]),
      (''lender_wait_await'', Route_status_resume,
       [(''poll'', ''lender_status_poll''), (''await_again'', ''lender_wait_await'')]),
      (''invoice_collect_await'', Route_invoice_collect,
       [(''loop'', ''invoice_collect_await'')])]"
  by (simp add: build_defs)

lemma graph_nodes: "gb_nodes onboarding_graph = NODES"
  by (simp add: build_defs)

subsection \<open>Every node is wired once\<close>

definition DEAD_NODES :: "string list" where
  "DEAD_NODES =
     [''collect_onboarding_details_send'', ''collect_onboarding_details_await'',
      ''eligibility_intake_send'', ''eligibility_intake_await'', ''eligibility_update'',
      ''buyers_collect_send'', ''buyers_collect_await'', ''shareholders_collect_send'',
      ''shareholders_collect_await'', ''not_qatar_based'']"

text \<open>The nodes with a successor, by the number of their plain edge or router.\<close>

definition SOURCES :: "string list" where
  "SOURCES = map fst (gb_edges onboarding_graph) @ map fst (gb_branches onboarding_graph)"

lemma sources_distinct: "distinct SOURCES"
  unfolding SOURCES_def graph_edges graph_branches by code_simp

lemma live_sources: "list_all (\<lambda>n. n \<in> set SOURCES \<or> n \<in> set DEAD_NODES) NODES"
  unfolding SOURCES_def graph_edges graph_branches DEAD_NODES_def by code_simp

lemma branch_successors_none: "n \<notin> fst ` set bs \<Longrightarrow> branch_successors bs n st = []"
  by (induction bs n st rule: branch_successors.induct) auto

lemma branch_successors_one:
  "distinct (map fst bs) \<Longrightarrow> (n, r, pm) \<in> set bs \<Longrightarrow>
     branch_successors bs n st = (case map_of pm (run_router r st) of Some d \<Rightarrow> [d] | None \<Rightarrow> [])"
  by (induction bs n st rule: branch_successors.induct) (auto simp: branch_successors_none image_iff)

lemma edge_successors_one:
  "distinct (map fst es) \<Longrightarrow> (n, d) \<in> set es \<Longrightarrow> map snd (filter (\<lambda>(src, dst). src = n) es) = [d]"
proof (induction es)
  case (Cons e es)
  obtain a b where e: "e = (a, b)" by force
  have "filter (\<lambda>(src, dst). src = a) es = []" if "a \<notin> fst ` set es"
    using that by (force simp: filter_empty_conv)
  with Cons e show ?case by (force simp: rev_image_eqI)
qed simp

lemma edges_lead: "list_all (\<lambda>(n, d). next_node n st = Some d) (gb_edges onboarding_graph)"
proof -
  have "next_node n st = Some d" if e: "(n, d) \<in> set (gb_edges onboarding_graph)" for n d
  proof -
    have "distinct (map fst (gb_edges onboarding_graph))" "n \<notin> fst ` set (gb_branches onboarding_graph)"
      using sources_distinct e by (force simp: SOURCES_def)+
    with e show ?thesis
      by (simp add: next_node_def successors_def edge_successors_one branch_successors_none)
  qed
  then show ?thesis by (auto simp: list_all_iff)
qed

lemma branches_route:
  "list_all (\<lambda>(n, r, pm). next_node n st = map_of pm (run_router r st)) (gb_branches onboarding_graph)"
proof -
  have "next_node n st = map_of pm (run_router r st)"
    if b: "(n, r, pm) \<in> set (gb_branches onboarding_graph)" for n r pm
  proof -
    have d: "distinct (map fst (gb_branches onboarding_graph))" "n \<notin> fst ` set (gb_edges onboarding_graph)"
      using sources_distinct b by (force simp: SOURCES_def)+
    then have "filter (\<lambda>(src, dst). src = n) (gb_edges onboarding_graph) = []"
      by (force simp: filter_empty_conv)
    with d b show ?thesis
      by (simp add: next_node_def successors_def branch_successors_one [OF d(1) b] split: option.split)
  qed
  then show ?thesis by (auto simp: list_all_iff)
qed

text \<open>The successor of each node with an edge, and of each node with a router.\<close>

lemmas next_edge = edges_lead [unfolded graph_edges list.pred_inject prod.case simp_thms]

lemmas next_branch =
  branches_route [unfolded graph_branches list.pred_inject prod.case run_router_def router.case simp_thms]

subsection \<open>Every edge the graph has\<close>

definition ARROWS :: "(string \<times> string) list" where
  "ARROWS =
     gb_edges onboarding_graph @
     concat (map (\<lambda>(src, r, pm). map (\<lambda>(answer, dst). (src, dst)) pm)
       (gb_branches onboarding_graph))"

lemma branch_successors_arrow:
  "d \<in> set (branch_successors bs n st) \<Longrightarrow>
     (n, d) \<in> set (concat (map (\<lambda>(src, r, pm). map (\<lambda>(answer, dst). (src, dst)) pm) bs))"
proof (induction bs n st rule: branch_successors.induct)
  case (2 src r pm bs n st)
  show ?case
  proof (cases "src = n \<and> map_of pm (run_router r st) = Some d")
    case True
    then have "(n, d) \<in> (\<lambda>(answer, dst). (src, dst)) ` set pm"
      using map_of_SomeD by (force simp: image_iff)
    then show ?thesis by simp
  next
    case False
    with "2.prems" have "d \<in> set (branch_successors bs n st)"
      by (cases "src = n"; cases "map_of pm (run_router r st)") simp_all
    from "2.IH" [OF this] show ?thesis by simp
  qed
qed simp

lemma next_arrow: "next_node n st = Some d \<Longrightarrow> (n, d) \<in> set ARROWS"
proof -
  assume "next_node n st = Some d"
  then have "d \<in> set (successors onboarding_graph n st)"
    by (auto simp: next_node_def split: list.splits)
  then show ?thesis
    using branch_successors_arrow [of d "gb_branches onboarding_graph" n st]
    by (auto simp: successors_def ARROWS_def)
qed

subsection \<open>The nodes a conversation can visit\<close>

inductive visited :: "string \<Rightarrow> bool" where
  start: "visited ''entry_registration_check''"
| step: "visited n \<Longrightarrow> next_node n st = Some d \<Longrightarrow> visited d"

definition LIVE_NODES :: "string list" where
  "LIVE_NODES = filter (\<lambda>n. n \<notin> set DEAD_NODES) NODES"

lemma live_nodes:
  "LIVE_NODES =
     [''entry_registration_check'', ''campaign_send'', ''campaign_await'', ''declined'',
      ''check_contact_send'', ''check_contact_await'', ''domain_blocked'',
      ''registered_route_send'', ''channel_session_resume'', ''resume_status_fetch'',
      ''resume_rejected'', ''resume_offer_expired'', ''resume_application_open'',
      ''channel_session_first'', ''channel_session_create_user'', ''complete_onboarding_send'',
      ''channel_session_second'', ''business_email_send'', ''business_email_await'',
      ''business_email_conflict_send'', ''consent_send'', ''consent_await'', ''cr_upload_base64'',
      ''not_eligible'', ''financials_send'', ''financials_await'', ''financials_upload_base64'',
      ''documents_list_fetch'', ''documents_upload_loop_send'', ''documents_upload_loop_await'',
      ''documents_complete'', ''prequalify_wait_await'', ''payment_wait_await'',
      ''status_poll_on_demand'', ''journey_wait_await'', ''not_qualified'', ''not_pre_qualified'',
      ''business_details_fetch'', ''products_list_fetch'', ''payment_create'',
      ''payment_send_link'', ''payment_await'', ''lender_status_poll'', ''lender_wait_await'',
      ''offers_fetch'', ''offer_view_send'', ''offer_handoff_to_madad'', ''offer_confirmed'',
      ''activated'', ''invoice_collect_await'']"
  unfolding LIVE_NODES_def NODES_def DEAD_NODES_def by simp

text \<open>No arrow leads to a dead node, and each arrow ends at a node or at the end.\<close>

lemma arrows_live:
  "list_all (\<lambda>(n, d). d = END_NODE \<or> d \<in> set LIVE_NODES) ARROWS"
  unfolding ARROWS_def graph_edges graph_branches END_NODE_def live_nodes by code_simp

lemma visited_dest: "visited n \<Longrightarrow> n = END_NODE \<or> n \<in> set LIVE_NODES"
proof (induction rule: visited.induct)
  case start
  show ?case by (simp add: LIVE_NODES_def NODES_def DEAD_NODES_def)
next
  case (step n st d)
  with next_arrow [OF step.hyps(2)] arrows_live show ?case by (auto simp: list_all_iff)
qed

text \<open>A tour that visits every live node: from where, in which state, to where.\<close>

definition TOUR :: "(string \<times> conv_state \<times> string) list" where
  "TOUR =
     (let fresh = fresh_state WHATSAPP [] in
      [(''entry_registration_check'', fresh\<lparr>v_registration := [([], JNull)]\<rparr>, ''channel_session_resume''),
       (''entry_registration_check'', fresh\<lparr>v_registration := []\<rparr>, ''campaign_send''),
       (''channel_session_resume'', fresh, ''resume_status_fetch''),
       (''campaign_send'', fresh, ''campaign_await''),
       (''resume_status_fetch'', fresh\<lparr>v_journey := Some J_SIGN_UP\<rparr>, ''business_email_send''),
       (''resume_status_fetch'', fresh\<lparr>v_journey := Some J_ELIGIBLE\<rparr>, ''financials_send''),
       (''resume_status_fetch'', fresh\<lparr>v_journey := Some J_VERIFIED\<rparr>, ''documents_list_fetch''),
       (''resume_status_fetch'', fresh\<lparr>v_journey := Some J_QUALIFIED\<rparr>, ''business_details_fetch''),
       (''resume_status_fetch'', fresh\<lparr>v_journey := Some J_ACCEPTED\<rparr>, ''offers_fetch''),
       (''resume_status_fetch'', fresh\<lparr>v_journey := Some J_OFFER_ACCEPTED\<rparr>, ''offer_confirmed''),
       (''resume_status_fetch'', fresh\<lparr>v_journey := Some J_ACTIVATED\<rparr>, ''activated''),
       (''resume_status_fetch'', fresh\<lparr>v_journey := Some J_NOT_ACCEPTED\<rparr>, ''resume_rejected''),
       (''resume_status_fetch'', fresh\<lparr>v_journey := Some J_OFFER_EXPIRED\<rparr>, ''resume_offer_expired''),
       (''resume_status_fetch'', fresh\<lparr>v_journey := Some J_OPEN\<rparr>, ''resume_application_open''),
       (''resume_status_fetch'', fresh\<lparr>v_journey := Some J_IN_ELIGIBLE\<rparr>, ''not_eligible''),
       (''resume_status_fetch'', fresh\<lparr>v_journey := Some J_UNQUALIFIED\<rparr>, ''not_qualified''),
       (''resume_status_fetch'', fresh\<lparr>v_journey := None\<rparr>, ''registered_route_send''),
       (''campaign_await'', fresh\<lparr>v_entry_reply := ''YES''\<rparr>, ''check_contact_send''),
       (''campaign_await'', fresh\<lparr>v_entry_reply := ''NO''\<rparr>, ''declined''),
       (''business_email_send'', fresh, ''business_email_await''),
       (''financials_send'', fresh, ''financials_await''),
       (''documents_list_fetch'', fresh, ''documents_upload_loop_send''),
       (''business_details_fetch'', fresh, ''products_list_fetch''),
       (''offers_fetch'', fresh, ''offer_view_send''),
       (''offer_confirmed'', fresh, ''journey_wait_await''),
       (''activated'', fresh, ''invoice_collect_await''),
       (''resume_rejected'', fresh, ''__end__''),
       (''check_contact_send'', fresh, ''check_contact_await''),
       (''business_email_await'', fresh\<lparr>v_email_status := Some ''proceed''\<rparr>, ''consent_send''),
       (''business_email_await'', fresh\<lparr>v_email_status := Some ''conflict''\<rparr>, ''business_email_conflict_send''),
       (''financials_await'', fresh\<lparr>v_fin_received := True\<rparr>, ''financials_upload_base64''),
       (''documents_upload_loop_send'', fresh, ''documents_upload_loop_await''),
       (''products_list_fetch'', fresh, ''payment_create''),
       (''offer_view_send'', fresh, ''offer_handoff_to_madad''),
       (''journey_wait_await'', fresh\<lparr>v_source := None\<rparr>, ''status_poll_on_demand''),
       (''check_contact_await'', fresh\<lparr>v_contact := Some \<lparr>cc_exists = True, cc_domain_exists = False\<rparr>\<rparr>, ''channel_session_first''),
       (''check_contact_await'', fresh\<lparr>v_channel := EMAIL\<rparr>, ''complete_onboarding_send''),
       (''check_contact_await'', fresh\<lparr>v_channel := WHATSAPP\<rparr>, ''channel_session_create_user''),
       (''check_contact_await'', fresh\<lparr>v_contact := Some \<lparr>cc_exists = False, cc_domain_exists = True\<rparr>\<rparr>, ''domain_blocked''),
       (''consent_send'', fresh, ''consent_await''),
       (''financials_upload_base64'', fresh, ''prequalify_wait_await''),
       (''documents_upload_loop_await'', fresh\<lparr>v_missing := []\<rparr>, ''documents_complete''),
       (''documents_upload_loop_await'', fresh\<lparr>v_paid := True\<rparr>, ''lender_status_poll''),
       (''documents_upload_loop_await'', fresh\<lparr>v_docs_proceed := True\<rparr>, ''payment_wait_await''),
       (''payment_create'', fresh, ''payment_send_link''),
       (''complete_onboarding_send'', fresh, ''channel_session_second''),
       (''consent_await'', fresh\<lparr>v_consent := True, v_cr_ref := Some ''cr.pdf''\<rparr>, ''cr_upload_base64''),
       (''prequalify_wait_await'', fresh\<lparr>v_rejected := True\<rparr>, ''not_pre_qualified''),
       (''lender_status_poll'', fresh\<lparr>v_journey := None\<rparr>, ''lender_wait_await''),
       (''payment_send_link'', fresh, ''payment_await'')])"

fun tour_from :: "string list \<Rightarrow> (string \<times> 'a \<times> string) list \<Rightarrow> string list" where
  "tour_from seen [] = seen"
| "tour_from seen ((n, _, d) # rest) = tour_from (if n \<in> set seen then d # seen else seen) rest"

lemmas route_defs =
  route_entry_registration_check_def route_entry_def new_lead_route_def route_check_contact_def
  route_channel_session_def route_resume_by_status_def route_business_email_def
  route_consent_upload_def route_cr_upload_def route_financials_upload_def route_documents_def
  route_prequalify_wait_def route_payment_wait_def route_payment_def route_journey_status_def
  route_status_resume_def route_invoice_collect_def is_set_def post_payment_def

lemma lower_words [simp]: "lower ''proceed'' = ''proceed''" "lower ''conflict'' = ''conflict''"
  by code_simp+

lemma tour_steps: "list_all (\<lambda>(n, st, d). next_node n st = Some d) TOUR"
  by (simp add: TOUR_def Let_def next_edge next_branch route_defs fresh_state_def)

lemma tour_complete:
  "list_all (\<lambda>n. n \<in> set (tour_from [''entry_registration_check''] TOUR)) LIVE_NODES"
  unfolding live_nodes by code_simp

lemma visited_tour:
  "list_all visited seen \<Longrightarrow> list_all (\<lambda>(n, st, d). next_node n st = Some d) ps \<Longrightarrow>
     list_all visited (tour_from seen ps)"
proof (induction seen ps rule: tour_from.induct)
  case (2 seen n st d rest)
  let ?seen = "if n \<in> set seen then d # seen else seen"
  have "next_node n st = Some d" and rest: "list_all (\<lambda>(n, st, d). next_node n st = Some d) rest"
    using "2.prems"(2) by simp_all
  moreover have "list_all visited ?seen"
  proof (cases "n \<in> set seen")
    case True
    with "2.prems"(1) have "visited n" unfolding list_all_iff by blast
    with calculation(1) have "visited d" by (rule visited.step [rotated -1])
    with True "2.prems"(1) show ?thesis by simp
  next
    case False
    with "2.prems"(1) show ?thesis by simp
  qed
  ultimately show ?case unfolding tour_from.simps by (intro "2.IH")
qed simp

lemma visited_live:
  assumes "n \<in> set LIVE_NODES"
  shows "visited n"
proof -
  have "list_all visited (tour_from [''entry_registration_check''] TOUR)"
    by (rule visited_tour [OF _ tour_steps]) (simp add: visited.start)
  with tour_complete assms show ?thesis unfolding list_all_iff by blast
qed

subsection \<open>No node is stuck\<close>

text \<open>The answers a router can give.\<close>

fun answers :: "router \<Rightarrow> string list" where
  "answers Route_entry_registration_check =
     [''registered'', ''fresh'']"
| "answers Route_entry =
     [''check_contact'', ''declined'', ''ask_again'']"
| "answers Route_check_contact =
     [''registered_routed'', ''existing'', ''blocked'', ''new_whatsapp'', ''new'']"
| "answers Route_channel_session =
     [''consent'']"
| "answers Route_resume_by_status =
     [''welcome'', ''consent'', ''email'', ''financials'', ''documents'', ''payment'',
      ''offers'', ''offer_confirmed'', ''offer_expired'', ''activated'', ''rejected'',
      ''application_open'', ''ineligible'', ''unqualified'']"
| "answers Route_business_email =
     [''proceed'', ''conflict'', ''await_again'']"
| "answers Route_consent_upload =
     [''uploaded'', ''missing'']"
| "answers Route_cr_upload =
     [''reupload'', ''proceed'']"
| "answers Route_financials_upload =
     [''uploaded'', ''missing'']"
| "answers Route_prequalify_wait =
     [''rejected'', ''go'', ''wait'']"
| "answers Route_documents =
     [''lender'', ''payment'', ''proceed'', ''complete'', ''await_again'']"
| "answers Route_payment_wait =
     [''lender'', ''go'', ''wait'']"
| "answers Route_journey_status =
     [''wait'', ''payment'', ''ineligible'', ''unqualified'', ''offers'', ''offer_confirmed'',
      ''activated'']"
| "answers Route_status_resume =
     [''await_again'', ''poll'']"
| "answers Route_payment =
     [''paid'', ''unpaid'']"
| "answers Route_invoice_collect =
     [''loop'']"

lemma router_answers: "run_router r st \<in> set (answers r)"
  by (cases r) (simp_all add: run_router_def route_defs Let_def split: option.split)

lemma answers_declared:
  "list_all (\<lambda>(n, r, pm). list_all (\<lambda>a. map_of pm a \<noteq> None) (answers r))
     (gb_branches onboarding_graph)"
  by code_simp

lemma branch_progress:
  assumes "(n, r, pm) \<in> set (gb_branches onboarding_graph)"
  shows "\<exists>d. map_of pm (run_router r st) = Some d"
proof -
  have "list_all (\<lambda>a. map_of pm a \<noteq> None) (answers r)"
    using assms answers_declared unfolding list_all_iff by fast
  with router_answers [of r st] show ?thesis unfolding list_all_iff by fast
qed

lemma live_progress:
  assumes "n \<in> set LIVE_NODES"
  shows "\<exists>d. next_node n st = Some d"
proof -
  have "n \<in> set SOURCES" using assms live_sources by (auto simp: LIVE_NODES_def list_all_iff)
  then consider (edge) d where "(n, d) \<in> set (gb_edges onboarding_graph)"
    | (branch) r pm where "(n, r, pm) \<in> set (gb_branches onboarding_graph)"
    by (force simp: SOURCES_def)
  then show ?thesis
  proof cases
    case edge
    with edges_lead [of st] show ?thesis by (force simp: list_all_iff)
  next
    case branch
    with branches_route [of st] branch_progress [OF branch, of st] show ?thesis by (force simp: list_all_iff)
  qed
qed

subsection \<open>Turns\<close>

text \<open>
  The nodes of one turn: from where the run starts or was parked, up to the first node that calls
  \<open>await_input\<close> or the end.
\<close>

inductive turn :: "string list \<Rightarrow> bool" where
  here: "turn [n]"
| park: "next_node n st = Some m \<Longrightarrow> m \<in> set AWAITING \<Longrightarrow> turn [n, m]"
| move: "next_node n st = Some m \<Longrightarrow> m \<notin> set AWAITING \<Longrightarrow> turn (m # ns) \<Longrightarrow> turn (n # m # ns)"

text \<open>How many nodes can still follow before the turn ends.\<close>

definition depth :: "string \<Rightarrow> nat" where
  "depth n =
     (case map_of
        [(''payment_send_link'', 1), (''payment_create'', 2), (''products_list_fetch'', 3),
         (''business_details_fetch'', 4), (''documents_upload_loop_send'', 1),
         (''documents_list_fetch'', 2), (''documents_complete'', 1),
         (''financials_upload_base64'', 1), (''financials_send'', 1), (''cr_upload_base64'', 2),
         (''consent_send'', 1), (''business_email_send'', 1),
         (''business_email_conflict_send'', 1), (''offer_handoff_to_madad'', 1),
         (''offer_view_send'', 2), (''offers_fetch'', 3), (''offer_confirmed'', 1),
         (''activated'', 1), (''not_eligible'', 1), (''not_qualified'', 1),
         (''not_pre_qualified'', 1), (''not_qatar_based'', 1), (''declined'', 1),
         (''domain_blocked'', 1), (''registered_route_send'', 1), (''resume_rejected'', 1),
         (''resume_offer_expired'', 1), (''resume_application_open'', 1),
         (''status_poll_on_demand'', 5), (''lender_status_poll'', 4),
         (''resume_status_fetch'', 5), (''channel_session_resume'', 6),
         (''channel_session_second'', 2), (''channel_session_create_user'', 2),
         (''channel_session_first'', 2), (''complete_onboarding_send'', 3),
         (''check_contact_await'', 7), (''check_contact_send'', 8), (''campaign_send'', 1),
         (''entry_registration_check'', 7), (''__start__'', 8), (''__end__'', 0)] n of
        Some k \<Rightarrow> k
      | None \<Rightarrow> if n \<in> set AWAITING then 9 else 0)"

lemma depth_le: "depth n \<le> 9"
proof -
  have "k \<le> 8" if "map_of ps n = Some k" "list_all (\<lambda>(n, k). k \<le> 8) ps"
    for k and ps :: "(string \<times> nat) list"
    using map_of_SomeD [OF that(1)] that(2) by (auto simp: list_all_iff)
  then show ?thesis
    unfolding depth_def by (auto split: option.split intro: le_trans [of _ "8 :: nat"])
qed

lemma arrows_descend:
  "list_all (\<lambda>(n, m). if m \<in> set AWAITING then 0 < depth n else depth m < depth n) ARROWS"
  unfolding ARROWS_def graph_edges graph_branches by code_simp

lemma next_descends:
  "next_node n st = Some m \<Longrightarrow> if m \<in> set AWAITING then 0 < depth n else depth m < depth n"
  using next_arrow [of n st m] arrows_descend unfolding list_all_iff by blast

lemma turn_length: "turn ns \<Longrightarrow> length ns \<le> Suc (depth (hd ns))"
proof (induction rule: turn.induct)
  case (park n st m)
  then show ?case using next_descends [of n st m] by simp
next
  case (move n st m ns)
  then show ?case using next_descends [of n st m] by simp
qed simp

end
