(* ===== verification/Conv_Ports.thy ===== *)
theory Conv_Ports
  imports Conv_Graph
begin

section \<open>What the nodes share\<close>

text \<open>
  The helpers of \<open>services/workflow/onboarding.py\<close> the nodes call: sending with the cross-channel
  mirror, the live token, polling the journey status, answering off-script chat, keeping documents
  and recording the progress. Times are microseconds. Log calls are left out.
\<close>

subsection \<open>Attachments\<close>

definition att_text :: "ports \<Rightarrow> payload \<Rightarrow> string \<Rightarrow> string" where
  "att_text p a k = text_or_empty (pt_str p) (jget a k)"

text \<open>The attachments of a reply; the inbound endpoint admits dictionaries only.\<close>

fun dict_items :: "json list \<Rightarrow> payload list" where
  "dict_items [] = []"
| "dict_items (JObj d # xs) = d # dict_items xs"
| "dict_items (_ # xs) = dict_items xs"

definition reply_attachments :: "json \<Rightarrow> payload list" where
  "reply_attachments value =
     (case value of
        JObj d \<Rightarrow> (case jget d ''attachments'' of JList xs \<Rightarrow> dict_items xs | _ \<Rightarrow> [])
      | _ \<Rightarrow> [])"

definition valid_upload_attachments :: "ports \<Rightarrow> json \<Rightarrow> payload list" where
  "valid_upload_attachments p value =
     filter (\<lambda>a. strip (att_text p a ''content_base64'') \<noteq> []) (reply_attachments value)"

definition ends_with :: "string \<Rightarrow> string \<Rightarrow> bool" where
  "ends_with suf s = starts_with (rev suf) (rev s)"

definition is_zip_attachment :: "ports \<Rightarrow> payload \<Rightarrow> bool" where
  "is_zip_attachment p a =
     (contains ''zip'' (lower (att_text p a ''mime_type'')) \<or>
      ends_with ''.zip'' (lower (att_text p a ''filename'')))"

text \<open>\<open>pt_sha\<close> is the digest of the decoded bytes; \<open>None\<close> when the text cannot be decoded.\<close>

definition sha_of :: "ports \<Rightarrow> string \<Rightarrow> string option" where
  "sha_of p content = (if content = [] then None else pt_sha p content)"

fun stash :: "ports \<Rightarrow> string option list \<Rightarrow> payload list \<Rightarrow> payload list" where
  "stash p seen [] = []"
| "stash p seen (a # as) =
     (let content = strip (att_text p a ''content_base64''); sha = sha_of p content in
      if content = [] then stash p seen as
      else if sha \<in> set seen then stash p seen as
      else
        [(''filename'', JStr (let f = att_text p a ''filename'' in if f = [] then ''document.pdf'' else f)),
         (''content_base64'', JStr content), (''mime_type'', jget a ''mime_type'')]
        # stash p (sha # seen) as)"

definition extra_documents_to_stash ::
  "ports \<Rightarrow> payload list \<Rightarrow> payload option \<Rightarrow> string option \<Rightarrow> payload list"
where
  "extra_documents_to_stash p atts intended cr_sha =
     (let s1 = (if is_set cr_sha then [cr_sha] else []);
          s2 = (case intended of
                  None \<Rightarrow> []
                | Some a \<Rightarrow> [sha_of p (att_text p a ''content_base64'')])
      in stash p (s1 @ s2) atts)"

subsection \<open>Sending\<close>

definition EMAIL_SUPPRESSED_ACKS :: "string list" where
  "EMAIL_SUPPRESSED_ACKS =
     [''onboarding.cr.received'', ''onboarding.financials.received'',
      ''onboarding.documents.processing'', ''onboarding.invoice.processing'',
      ''onboarding.invoice.bulk.processing'']"

definition MILESTONE_TEMPLATES :: "string list" where
  "MILESTONE_TEMPLATES =
     [''onboarding.documents.checklist'', ''onboarding.not_pre_qualified'',
      ''onboarding.not_qualified'', ''onboarding.qualified.waived'', ''onboarding.activated'',
      ''onboarding.account.created'', ''onboarding.payment.request'',
      ''onboarding.payment.request.button'', ''onboarding.payment.awaiting'',
      ''onboarding.payment.confirmed'', ''onboarding.offers.preview'',
      ''onboarding.offer.confirmed'', ''onboarding.disbursement.received'',
      ''onboarding.repayment.received'', ''onboarding.repayment.partially_paid'',
      ''onboarding.repayment.closed'', ''onboarding.repayment.due_soon'',
      ''onboarding.repayment.overdue'']"

text \<open>The keys of \<open>_STATUS_TEMPLATES\<close>; the Meta name of a template is a function of its key.\<close>

definition STATUS_TEMPLATE_KEYS :: "string list" where
  "STATUS_TEMPLATE_KEYS =
     [''onboarding.documents.checklist'', ''onboarding.payment.request'',
      ''onboarding.payment.confirmed'', ''onboarding.welcome_back'',
      ''onboarding.offers.preview'', ''onboarding.offer.confirmed'', ''onboarding.activated'',
      ''onboarding.disbursement.received'', ''onboarding.repayment.received'',
      ''onboarding.repayment.closed'', ''onboarding.repayment.due_soon'',
      ''onboarding.repayment.overdue'']"

text \<open>
  The other channel of an applicant seen on both. A state's own channel is where its identity lives.
\<close>

definition mirror_target :: "conv_state \<Rightarrow> conv_ctx \<Rightarrow> (channel \<times> string) option" where
  "mirror_target st ctx =
     (if length (remdups (v_channels st)) < 2 then None
      else
        let wa_addr = (if v_channel st = WHATSAPP then Some (v_identity st) else None);
            email_addr = (if is_set (v_email st) then v_email st
                          else if v_channel st = EMAIL then Some (v_identity st) else None)
        in if k_channel ctx = WHATSAPP \<and> is_set email_addr then Some (EMAIL, the email_addr)
           else if k_channel ctx = EMAIL \<and> is_set wa_addr then Some (WHATSAPP, the wa_addr)
           else None)"

definition truth :: "json act \<Rightarrow> bool act" where
  "truth m = andthen m (\<lambda>j. ret (truthy j))"

text \<open>\<open>pt_components\<close>: whether the template's components can be built.\<close>

definition say_on :: "ports \<Rightarrow> channel \<Rightarrow> string \<Rightarrow> string \<Rightarrow> body \<Rightarrow> unit act" where
  "say_on p ch ident key b =
     (if key \<in> set STATUS_TEMPLATE_KEYS \<and> ch = WHATSAPP then
        andthen (trying (if pt_components p key b then truth (ask p (E_Template ch ident key b))
                         else ret False))
          (\<lambda>r. if r = Some True then ret () else call p (E_Send ch ident key b))
      else call p (E_Send ch ident key b))"

definition say :: "ports \<Rightarrow> conv_ctx \<Rightarrow> conv_state \<Rightarrow> string \<Rightarrow> body \<Rightarrow> unit act" where
  "say p ctx st key b =
     (if k_channel ctx = EMAIL \<and> key \<in> set EMAIL_SUPPRESSED_ACKS then ret ()
      else andthen (say_on p (k_channel ctx) (k_identity ctx) key b) (\<lambda>_.
        if key \<in> set MILESTONE_TEMPLATES then
          (case mirror_target st ctx of
             None \<Rightarrow> ret ()
           | Some (ch, ident) \<Rightarrow>
               if ch = EMAIL \<and> key \<in> set EMAIL_SUPPRESSED_ACKS then ret ()
               else andthen (trying (say_on p ch ident key b)) (\<lambda>_. ret ()))
        else ret ()))"

subsection \<open>Tokens, status and progress\<close>

type_synonym creds = "string option \<times> string option \<times> int option"

text \<open>Python's \<open>a or b\<close> on optional texts and numbers.\<close>

definition or_text :: "string option \<Rightarrow> string option \<Rightarrow> string option" where
  "or_text a b = (if is_set a then a else b)"

definition or_int :: "int option \<Rightarrow> int option \<Rightarrow> int option" where
  "or_int a b = (case a of Some i \<Rightarrow> if i = 0 then b else a | None \<Rightarrow> b)"

definition mint_session :: "ports \<Rightarrow> conv_ctx \<Rightarrow> conv_state \<Rightarrow> chan_session act" where
  "mint_session p ctx st =
     (let real_email = strip (case v_email st of Some e \<Rightarrow> e | None \<Rightarrow> []);
          by_channel = ask_session p (E_Open (k_channel ctx) (k_identity ctx) False True)
      in if real_email \<noteq> [] \<and> CHR ''@'' \<in> set real_email \<and> v_email_status st = Some ''proceed''
         then andthen (ask_session p (E_Open EMAIL real_email False False))
                (\<lambda>s. if is_set (cs_access s) then ret s else by_channel)
         else by_channel)"

definition live_token :: "ports \<Rightarrow> conv_state \<Rightarrow> conv_ctx \<Rightarrow> creds act" where
  "live_token p st ctx =
     andthen (now p) (\<lambda>t.
       if is_set (v_access st) \<and> (case v_expires st of None \<Rightarrow> False | Some x \<Rightarrow> x * 1000000 - t > 60 * 1000000)
       then ret (v_access st, v_refresh st, v_expires st)
       else andthen (trying (mint_session p ctx st)) (\<lambda>r.
         case r of
           None \<Rightarrow> ret (v_access st, v_refresh st, v_expires st)
         | Some s \<Rightarrow> ret (or_text (cs_access s) (v_access st), or_text (cs_refresh s) (v_refresh st),
                          or_int (cs_expires s) (v_expires st))))"

definition with_creds :: "creds \<Rightarrow> conv_state \<Rightarrow> conv_state" where
  "with_creds c st =
     (case c of (token, refresh, expires) \<Rightarrow>
        st\<lparr>v_access := token, v_refresh := refresh, v_expires := expires\<rparr>)"

text \<open>\<open>d.get(a) or d.get(b)\<close>, and \<open>info.get("user")\<close> when it is a dictionary.\<close>

definition either_key :: "payload \<Rightarrow> string \<Rightarrow> string \<Rightarrow> json" where
  "either_key d a b = (if truthy (jget d a) then jget d a else jget d b)"

definition user_of :: "json \<Rightarrow> payload option" where
  "user_of info =
     (case info of
        JObj d \<Rightarrow> (case jget d ''user'' of JObj u \<Rightarrow> Some u | _ \<Rightarrow> None)
      | _ \<Rightarrow> None)"

definition raw_status :: "json \<Rightarrow> json" where
  "raw_status info =
     (case info of
        JObj d \<Rightarrow>
          let r = (case user_of info of
                     Some u \<Rightarrow> either_key u ''journeyStatus'' ''journey_status'' | None \<Rightarrow> JNull)
          in if truthy r then r else either_key d ''journeyStatus'' ''journey_status''
      | _ \<Rightarrow> JNull)"

definition poll_journey_status :: "ports \<Rightarrow> conv_state \<Rightarrow> journey option act" where
  "poll_journey_status p st =
     (if v_source st = Some ''webhook'' \<and> v_journey st \<noteq> None then ret (v_journey st)
      else if \<not> is_set (v_access st) then ret (v_journey st)
      else andthen (ask p (E_Me (the (v_access st)))) (\<lambda>info.
        case raw_status info of
          JStr raw \<Rightarrow> ret (case journey_of raw of Some s \<Rightarrow> Some s | None \<Rightarrow> v_journey st)
        | _ \<Rightarrow> ret (v_journey st)))"

definition update_progress :: "ports \<Rightarrow> conv_state \<Rightarrow> conv_ctx \<Rightarrow> int \<Rightarrow> int option act" where
  "update_progress p st ctx n =
     (if k_channel ctx \<noteq> WHATSAPP then ret None
      else if (case v_progress st of None \<Rightarrow> False | Some m \<Rightarrow> n \<le> m) then ret None
      else andthen (trying (call p (E_Progress (v_user st) (k_channel ctx) (k_identity ctx) n)))
             (\<lambda>r. ret (if r = None then None else Some n)))"

definition suppress_reminders :: "ports \<Rightarrow> conv_state \<Rightarrow> conv_ctx \<Rightarrow> unit act" where
  "suppress_reminders p st ctx = call p (E_Suppress (target_ref ctx st))"

subsection \<open>Answers to off-script chat\<close>

text \<open>The text of an answer is the model's; the trace records which kind of answer was given.\<close>

definition smart_contextual ::
  "ports \<Rightarrow> conv_ctx \<Rightarrow> conv_state \<Rightarrow> json \<Rightarrow> string \<Rightarrow> unit act"
where
  "smart_contextual p ctx st reply fallback =
     andthen (trying (ask p (E_Answer (reply_text (pt_str p) reply)))) (\<lambda>r.
       say p ctx st ''onboarding.help.contextual''
         (case r of
            Some (JStr a) \<Rightarrow> if a = [] then B_Answer (A_Line fallback) else B_Answer (A_Model a)
          | _ \<Rightarrow> B_Answer (A_Line fallback)))"

definition safe_status_answer :: "ports \<Rightarrow> conv_state \<Rightarrow> answer act" where
  "safe_status_answer p st =
     (if is_set (v_access st) then
        andthen (trying (ask p (E_Me (the (v_access st))))) (\<lambda>_. ret A_Status)
      else ret A_Status)"

definition safe_portal_answer :: "ports \<Rightarrow> conv_state \<Rightarrow> answer act" where
  "safe_portal_answer p st =
     (if is_set (v_access st) then
        andthen (trying (ask p (E_Me (the (v_access st))))) (\<lambda>_. ret A_Portal)
      else ret A_Portal)"

definition contextual_off_script ::
  "ports \<Rightarrow> conv_ctx \<Rightarrow> conv_state \<Rightarrow> json \<Rightarrow> string \<Rightarrow> unit act"
where
  "contextual_off_script p ctx st reply default_answer =
     (case off_script_template (pt_str p) reply of
        Some t \<Rightarrow> say p ctx st ''onboarding.help.contextual'' (B_Answer (A_Help t))
      | None \<Rightarrow>
          if is_portal_query (pt_str p) reply then
            andthen (safe_portal_answer p st)
              (\<lambda>a. say p ctx st ''onboarding.help.contextual'' (B_Answer a))
          else if is_status_query (pt_str p) reply then
            andthen (safe_status_answer p st)
              (\<lambda>a. say p ctx st ''onboarding.help.contextual'' (B_Answer a))
          else smart_contextual p ctx st reply default_answer)"

subsection \<open>Keeping documents\<close>

definition UPLOAD_FAILURE_NOTICE_TTL :: int where
  "UPLOAD_FAILURE_NOTICE_TTL = 300 * 1000000"

text \<open>\<open>_notify_upload_failure\<close>: an honest notice, at most one per run, site and five minutes.\<close>

definition note_sent :: "string \<times> string \<Rightarrow> int \<Rightarrow> unit act" where
  "note_sent key t = (\<lambda>s. (Inr (), s\<lparr>io_notices := dput key t (io_notices s)\<rparr>))"

definition last_notice :: "string \<times> string \<Rightarrow> int option act" where
  "last_notice key = (\<lambda>s. (Inr (dget (io_notices s) key), s))"

definition notify_upload_failure ::
  "ports \<Rightarrow> conv_ctx \<Rightarrow> conv_state \<Rightarrow> string \<Rightarrow> unit act"
where
  "notify_upload_failure p ctx st site =
     andthen (now p) (\<lambda>t. andthen (last_notice (k_run ctx, site)) (\<lambda>l.
       if (case l of None \<Rightarrow> False | Some l' \<Rightarrow> t - l' < UPLOAD_FAILURE_NOTICE_TTL) then ret ()
       else andthen (note_sent (k_run ctx, site) t) (\<lambda>_.
         andthen (trying (say p ctx st ''onboarding.help.contextual'' (B_Answer (A_Line ''snag''))))
           (\<lambda>_. ret ()))))"

definition file_or :: "string \<Rightarrow> string \<Rightarrow> string" where
  "file_or f d = (if f = [] then d else f)"

text \<open>\<open>_drain_pending_extras\<close>: the extras that still did not persist.\<close>

fun drain :: "ports \<Rightarrow> string \<Rightarrow> payload list \<Rightarrow> payload list act" where
  "drain p token [] = ret []"
| "drain p token (d # ds) =
     (let content = strip (att_text p d ''content_base64'') in
      if content = [] then drain p token ds
      else andthen (trying (call p (E_Kyc K_Extra token content
                     (file_or (att_text p d ''filename'') ''document.pdf'') (jget d ''mime_type''))))
             (\<lambda>r. andthen (drain p token ds)
               (\<lambda>rest. ret (if r = None then d # rest else rest))))"

definition drain_pending_extras ::
  "ports \<Rightarrow> conv_state \<Rightarrow> string option \<Rightarrow> payload list act"
where
  "drain_pending_extras p st token =
     (if v_extras st = [] \<or> \<not> is_set token then ret (v_extras st)
      else drain p (the token) (v_extras st))"

text \<open>The uploads of \<open>_capture_additional_documents\<close>: how many were stored.\<close>

fun store_additional ::
  "ports \<Rightarrow> conv_ctx \<Rightarrow> conv_state \<Rightarrow> string \<Rightarrow> payload list \<Rightarrow> nat act"
where
  "store_additional p ctx st token [] = ret 0"
| "store_additional p ctx st token (a # as) =
     (if att_text p a ''content_base64'' = [] then store_additional p ctx st token as
      else andthen (trying (call p (E_Kyc K_Extra token (att_text p a ''content_base64'')
                     (file_or (att_text p a ''filename'') ''document.pdf'') (jget a ''mime_type''))))
             (\<lambda>r. if r = None then
                    andthen (notify_upload_failure p ctx st ''additional_capture'')
                      (\<lambda>_. raise (Upload_Error ''Additional-document capture failed''))
                  else andthen (store_additional p ctx st token as) (\<lambda>n. ret (Suc n))))"

definition capture_additional_documents ::
  "ports \<Rightarrow> conv_state \<Rightarrow> conv_ctx \<Rightarrow> json \<Rightarrow> conv_state option act"
where
  "capture_additional_documents p st ctx payload =
     (let atts = valid_upload_attachments p payload in
      if atts = [] then ret None
      else andthen (live_token p st ctx) (\<lambda>c.
        if \<not> is_set (fst c) then
          andthen (notify_upload_failure p ctx st ''additional_capture'')
            (\<lambda>_. raise (Upload_Error ''Cannot store additional document without a live access token''))
        else andthen (store_additional p ctx st (the (fst c)) atts) (\<lambda>stored.
          if stored = 0 then ret None
          else andthen (suppress_reminders p st ctx) (\<lambda>_.
            andthen (say p ctx st ''onboarding.help.contextual'' (B_Answer (A_Line ''saved''))) (\<lambda>_.
              andthen (drain_pending_extras p st (fst c)) (\<lambda>rest.
                ret (Some ((with_creds c st)\<lparr>v_extras := rest\<rparr>))))))))"

end
