(* ===== verification/Conv_Entry.thy ===== *)
theory Conv_Entry
  imports Conv_Ports
begin

section \<open>From the first message to the audited report\<close>

text \<open>
  The nodes of \<open>services/workflow/onboarding.py\<close> from the registration check to the upload of the
  audited report. A node that awaits gets the value it is resumed with. The intake fields of
  \<open>complete_onboarding\<close> are written only by nodes that no arrow leads to, so they have their
  defaults here.
\<close>

subsection \<open>Registration, campaign and contact check\<close>

definition registration_of :: "json option \<Rightarrow> string option \<times> payload" where
  "registration_of r =
     (case r of
        Some (JObj d) \<Rightarrow>
          if truthy (jget d ''registered'')
          then ((case jget d ''route'' of JStr s \<Rightarrow> Some s | _ \<Rightarrow> None), d)
          else (None, [])
      | _ \<Rightarrow> (None, []))"

definition entry_registration_check :: "ports \<Rightarrow> conv_ctx \<Rightarrow> conv_state \<Rightarrow> conv_state act" where
  "entry_registration_check p ctx st =
     andthen (trying (ask p (E_Check_Registration (k_channel ctx) (k_identity ctx)))) (\<lambda>r.
       ret ((conv_step ''entry_registration_check'' ctx st)
              \<lparr>v_reg_route := fst (registration_of r), v_registration := snd (registration_of r)\<rparr>))"

definition campaign_send :: "ports \<Rightarrow> conv_ctx \<Rightarrow> conv_state \<Rightarrow> conv_state act" where
  "campaign_send p ctx st =
     andthen (if k_channel ctx = WHATSAPP
              then trying (truth (ask p (E_Template WHATSAPP (k_identity ctx)
                                            ''onboarding.campaign.intro'' B_None)))
              else ret (Some False)) (\<lambda>r.
       andthen (if r = Some True then ret () else say p ctx st ''onboarding.campaign.intro'' B_None)
         (\<lambda>_. ret (conv_step ''campaign_send'' ctx st)))"

text \<open>A resume no applicant caused, and that carries nothing of theirs.\<close>

definition synthetic_resume :: "json \<Rightarrow> bool" where
  "synthetic_resume reply =
     (case reply of
        JObj d \<Rightarrow>
          jget d ''type'' \<in> {JStr ''status_update'', JStr ''docs_settle'', JStr ''phase1b_event''} \<or>
          jget d ''last_status_source'' \<in> {JStr ''poll'', JStr ''webhook''} \<and>
          \<not> truthy (jget d ''text'') \<and> \<not> truthy (jget d ''attachments'')
      | _ \<Rightarrow> False)"

definition campaign_await :: "ports \<Rightarrow> conv_ctx \<Rightarrow> json \<Rightarrow> conv_state \<Rightarrow> conv_state act" where
  "campaign_await p ctx reply st =
     (let st' = conv_step ''campaign_await'' ctx st in
      if synthetic_resume reply then ret st'
      else
        (case off_script_template (pt_str p) reply of
           Some t \<Rightarrow>
             andthen (say p ctx st ''onboarding.help.contextual'' (B_Answer (A_Help t))) (\<lambda>_.
               andthen (say p ctx st ''onboarding.campaign.awaiting_yes_no'' B_None)
                 (\<lambda>_. ret (st'\<lparr>v_entry_reply := ''ASK''\<rparr>)))
         | None \<Rightarrow>
             if is_yes (pt_str p) reply then ret (st'\<lparr>v_entry_reply := ''YES''\<rparr>)
             else if is_no (pt_str p) reply then ret (st'\<lparr>v_entry_reply := ''NO''\<rparr>)
             else andthen (contextual_off_script p ctx st reply ''interested?'')
                    (\<lambda>_. ret (st'\<lparr>v_entry_reply := ''ASK''\<rparr>))))"

definition check_contact_send :: "ports \<Rightarrow> conv_ctx \<Rightarrow> conv_state \<Rightarrow> conv_state act" where
  "check_contact_send p ctx st =
     andthen (call p (E_Check_Contact (k_channel ctx) (k_identity ctx))) (\<lambda>_.
       andthen (\<lambda>s. (Inr (pt_contact p (io_trace s)), s)) (\<lambda>result.
         andthen (if v_reg_route st = None \<and> v_registration st = []
                  then andthen (trying (ask p (E_Check_Registration (k_channel ctx) (k_identity ctx))))
                         (\<lambda>r. ret (registration_of r))
                  else ret (v_reg_route st, v_registration st)) (\<lambda>(route, d).
           ret ((conv_step ''check_contact_send'' ctx st)
                  \<lparr>v_contact := Some result, v_reg_route := route, v_registration := d\<rparr>))))"

definition check_contact_await :: "ports \<Rightarrow> conv_ctx \<Rightarrow> conv_state \<Rightarrow> conv_state act" where
  "check_contact_await p ctx st = ret (conv_step ''check_contact_await'' ctx st)"

text \<open>A node that says one thing and records an outcome.\<close>

definition closing ::
  "string \<Rightarrow> string \<Rightarrow> body \<Rightarrow> string \<Rightarrow> ports \<Rightarrow> conv_ctx \<Rightarrow> conv_state \<Rightarrow> conv_state act"
where
  "closing name key b outcome p ctx st =
     andthen (say p ctx st key b) (\<lambda>_. ret ((conv_step name ctx st)\<lparr>v_outcome := Some outcome\<rparr>))"

definition declined :: "ports \<Rightarrow> conv_ctx \<Rightarrow> conv_state \<Rightarrow> conv_state act" where
  "declined = closing ''declined'' ''onboarding.declined'' B_None ''declined''"

definition domain_blocked :: "ports \<Rightarrow> conv_ctx \<Rightarrow> conv_state \<Rightarrow> conv_state act" where
  "domain_blocked =
     closing ''domain_blocked'' ''onboarding.domain_blocked'' B_None ''domain_blocked''"

subsection \<open>Sessions\<close>

definition with_session :: "chan_session \<Rightarrow> conv_state \<Rightarrow> conv_state" where
  "with_session s st =
     st\<lparr>v_access := cs_access s, v_refresh := cs_refresh s, v_expires := cs_expires s,
        v_user := cs_ref s\<rparr>"

definition channel_session_first :: "ports \<Rightarrow> conv_ctx \<Rightarrow> conv_state \<Rightarrow> conv_state act" where
  "channel_session_first p ctx st =
     andthen (ask_session p (E_Open (k_channel ctx) (k_identity ctx) False False)) (\<lambda>s.
       ret (with_session s ((conv_step ''channel_session_first'' ctx st)
              \<lparr>v_ref := or_text (cs_reference s) (v_ref st)\<rparr>)))"

definition channel_session_second :: "ports \<Rightarrow> conv_ctx \<Rightarrow> conv_state \<Rightarrow> conv_state act" where
  "channel_session_second p ctx st =
     andthen (ask_session p (E_Open (k_channel ctx) (k_identity ctx) False False)) (\<lambda>s.
       ret (with_session s (conv_step ''channel_session_second'' ctx st)))"

definition channel_session_create_user :: "ports \<Rightarrow> conv_ctx \<Rightarrow> conv_state \<Rightarrow> conv_state act" where
  "channel_session_create_user p ctx st =
     andthen (ask_session p (E_Open (k_channel ctx) (k_identity ctx) False True)) (\<lambda>s.
       andthen (update_progress p (st\<lparr>v_user := cs_ref s\<rparr>) ctx 1) (\<lambda>n.
         ret (with_session s ((conv_step ''channel_session_create_user'' ctx st)
                \<lparr>v_ref := or_text (cs_reference s) (v_ref st),
                 v_progress := or_int n (v_progress st)\<rparr>))))"

definition text_field :: "payload \<Rightarrow> string \<Rightarrow> string option" where
  "text_field d k = (case jget d k of JStr s \<Rightarrow> Some s | _ \<Rightarrow> None)"

definition channel_session_resume :: "ports \<Rightarrow> conv_ctx \<Rightarrow> conv_state \<Rightarrow> conv_state act" where
  "channel_session_resume p ctx st =
     andthen (ask_session p (E_Open (k_channel ctx) (k_identity ctx) False False)) (\<lambda>s.
       ret (with_session s ((conv_step ''channel_session_resume'' ctx st)
              \<lparr>v_ref := or_text (text_field (v_registration st) ''referenceNumber'')
                          (or_text (cs_reference s) (v_ref st))\<rparr>)))"

definition complete_onboarding_send :: "ports \<Rightarrow> conv_ctx \<Rightarrow> conv_state \<Rightarrow> conv_state act" where
  "complete_onboarding_send p ctx st =
     andthen (trying (ask_session p (E_Open (k_channel ctx) (k_identity ctx) True False))) (\<lambda>r.
       let token = (case r of Some s \<Rightarrow> cs_onboarding s | None \<Rightarrow> None);
           phone = (if k_channel ctx = WHATSAPP then k_identity ctx
                    else pt_placeholder p (k_identity ctx));
           ds = filter is_digit (file_or phone (k_identity ctx));
           digits = file_or ds ''demo'';
           email = (if k_channel ctx = EMAIL \<and> k_identity ctx \<noteq> [] then k_identity ctx
                    else ''wa'' @ digits @ ''@wa.madadfintech.com'');
           legal = ''Madad SME '' @ drop (length digits - 6) digits;
           crn = ''WA'' @ digits
       in andthen (trying (call p (E_Complete (case token of Some t \<Rightarrow> t | None \<Rightarrow> []) email (Some phone)
                                     legal crn)))
            (\<lambda>_. ret (conv_step ''complete_onboarding_send'' ctx st)))"

subsection \<open>Resuming a returning user\<close>

definition resume_status_fetch :: "ports \<Rightarrow> conv_ctx \<Rightarrow> conv_state \<Rightarrow> conv_state act" where
  "resume_status_fetch p ctx st =
     andthen (poll_journey_status p st) (\<lambda>status.
       andthen (if is_set (v_access st) then trying (ask p (E_Me (the (v_access st)))) else ret None)
         (\<lambda>r.
           let has_email = (case r of
                              Some (JObj d) \<Rightarrow>
                                Some (truthy (jget (case user_of (JObj d) of Some u \<Rightarrow> u | None \<Rightarrow> d) ''email''))
                            | _ \<Rightarrow> None)
           in ret ((conv_step ''resume_status_fetch'' ctx st)
                     \<lparr>v_journey := status, v_has_email := has_email\<rparr>)))"

definition resume_rejected :: "ports \<Rightarrow> conv_ctx \<Rightarrow> conv_state \<Rightarrow> conv_state act" where
  "resume_rejected =
     closing ''resume_rejected'' ''onboarding.help.contextual'' (B_Answer (A_Line ''rejected''))
       ''returning_user''"

definition resume_offer_expired :: "ports \<Rightarrow> conv_ctx \<Rightarrow> conv_state \<Rightarrow> conv_state act" where
  "resume_offer_expired =
     closing ''resume_offer_expired'' ''onboarding.help.contextual''
       (B_Answer (A_Line ''offer expired'')) ''returning_user''"

definition resume_application_open :: "ports \<Rightarrow> conv_ctx \<Rightarrow> conv_state \<Rightarrow> conv_state act" where
  "resume_application_open =
     closing ''resume_application_open'' ''onboarding.help.contextual''
       (B_Answer (A_Line ''application open'')) ''returning_user''"

text \<open>The greeting names the scenario of the route; the reference is the application's.\<close>

definition WELCOME_ROUTES :: "string list" where
  "WELCOME_ROUTES =
     [''portal_login_required'', ''invoice_discounting'', ''offer_accepted_confirmation'',
      ''offers_available'', ''payment_received'', ''payment_link'', ''continue_step'']"

definition registered_route_send :: "ports \<Rightarrow> conv_ctx \<Rightarrow> conv_state \<Rightarrow> conv_state act" where
  "registered_route_send p ctx st =
     (let route = (case v_reg_route st of Some r \<Rightarrow> file_or r ''continue_step'' | None \<Rightarrow> ''continue_step'');
          scenario = (if route \<in> set WELCOME_ROUTES then route else ''continue_step'');
          ref = text_field (v_registration st) ''referenceNumber''
      in andthen (say p ctx st ''onboarding.welcome_back'' (B_Answer (A_Line scenario))) (\<lambda>_.
           ret ((conv_step ''registered_route_send'' ctx st)
                  \<lparr>v_outcome := Some ''returning_user'', v_ref := or_text ref (v_ref st)\<rparr>)))"

subsection \<open>Business email\<close>

definition business_email_send :: "ports \<Rightarrow> conv_ctx \<Rightarrow> conv_state \<Rightarrow> conv_state act" where
  "business_email_send p ctx st =
     andthen (say p ctx st ''onboarding.business_email.ask'' B_None)
       (\<lambda>_. ret ((conv_step ''business_email_send'' ctx st)\<lparr>v_email_status := None\<rparr>))"

text \<open>
  \<open>E_Email_Intent\<close> is \<open>_smart_extract_email\<close>: the address the reply offers, if any. It never raises.
\<close>

definition business_email_await ::
  "ports \<Rightarrow> conv_ctx \<Rightarrow> json \<Rightarrow> conv_state \<Rightarrow> conv_state act"
where
  "business_email_await p ctx reply st =
     (let st' = conv_step ''business_email_await'' ctx st in
      if synthetic_resume reply then ret st'
      else andthen (trying (ask p (E_Email_Intent (reply_text (pt_str p) reply)))) (\<lambda>r.
        let email = (case r of Some (JStr e) \<Rightarrow> e | _ \<Rightarrow> []) in
        if email = [] then
          andthen (smart_contextual p ctx st reply ''email?'')
            (\<lambda>_. ret (st'\<lparr>v_email_status := Some ''await''\<rparr>))
        else andthen (trying (ask p (E_Business_Email email (v_user st)))) (\<lambda>result.
          case result of
            None \<Rightarrow> ret (st'\<lparr>v_email_status := Some ''await''\<rparr>)
          | Some j \<Rightarrow>
              if (case j of JObj d \<Rightarrow> truthy (jget d ''conflict'') | _ \<Rightarrow> False)
              then ret (st'\<lparr>v_email := Some email, v_email_status := Some ''conflict''\<rparr>)
              else andthen (update_progress p st ctx 2)
                     (\<lambda>_. ret (st'\<lparr>v_email := Some email, v_email_status := Some ''proceed''\<rparr>)))))"

definition business_email_conflict_send ::
  "ports \<Rightarrow> conv_ctx \<Rightarrow> conv_state \<Rightarrow> conv_state act"
where
  "business_email_conflict_send p ctx st =
     andthen (say p ctx st ''onboarding.business_email.conflict'' B_None)
       (\<lambda>_. ret ((conv_step ''business_email_conflict_send'' ctx st)\<lparr>v_email_status := None\<rparr>))"

subsection \<open>Consent and the commercial registration\<close>

definition consent_send :: "ports \<Rightarrow> conv_ctx \<Rightarrow> conv_state \<Rightarrow> conv_state act" where
  "consent_send p ctx st =
     andthen (say p ctx st ''onboarding.consent.request'' B_None)
       (\<lambda>_. ret (conv_step ''consent_send'' ctx st))"

text \<open>
  The branch of the source behind its second test for attachments is never reached: the first test
  returns whenever there is one.
\<close>

definition consent_await :: "ports \<Rightarrow> conv_ctx \<Rightarrow> json \<Rightarrow> conv_state \<Rightarrow> conv_state act" where
  "consent_await p ctx reply st =
     (let st' = conv_step ''consent_await'' ctx st; parked = st'\<lparr>v_consent := False\<rparr>;
          line = (\<lambda>b. andthen (say p ctx st ''onboarding.help.contextual'' b) (\<lambda>_. ret parked))
      in
      if synthetic_resume reply then ret parked
      else
        (case valid_upload_attachments p reply of
           first # others \<Rightarrow>
             andthen (trying (say p ctx st ''onboarding.cr.received'' B_None)) (\<lambda>_.
               ret (st'\<lparr>v_consent := True, v_cr_ref := text_field first ''filename'',
                        v_cr_content := Some (att_text p first ''content_base64''),
                        v_cr_sha := sha_of p (att_text p first ''content_base64''),
                        v_cr_mime := jget first ''mime_type'',
                        v_extras := v_extras st @
                          extra_documents_to_stash p (first # others) (Some first) None\<rparr>))
         | [] \<Rightarrow>
             (case off_script_template (pt_str p) reply of
                Some t \<Rightarrow> line (B_Answer (A_Help t))
              | None \<Rightarrow>
                  if is_status_query (pt_str p) reply \<or> is_portal_query (pt_str p) reply
                  then line (B_Answer (A_Line ''still need the CR''))
                  else if is_casual_message (pt_str p) reply then line (B_Answer (A_Line ''here''))
                  else andthen (contextual_off_script p ctx st reply ''share the CR'')
                         (\<lambda>_. ret parked))))"

text \<open>The document types of \<open>mcp_kyc.py\<close>, and \<open>workflow_doc_type\<close>.\<close>

definition DOCUMENT_TYPE_TO_BACKEND :: "(string \<times> string) list" where
  "DOCUMENT_TYPE_TO_BACKEND =
     [(''trade_license'', ''TRADE_LICENSE''),
      (''commercial_registration'', ''COMMERCIAL_REGISTRATION''), (''tax_card'', ''TAX_CARD''),
      (''establishment_card'', ''ESTABLISHMENT_CARD''),
      (''article_of_association'', ''ARTICLE_OF_ASSOCIATION''),
      (''national_address_certificate'', ''BUSINESS_ADDRESS_PROOF''),
      (''vat_certificate'', ''VAT_CERTIFICATE''), (''audited_report'', ''AUDITED_FINANCIAL_REPORT''),
      (''bank_statement'', ''BANK_STATEMENT''),
      (''credit_bureau_report'', ''COMMERCIAL_CREDIT_REPORT''),
      (''payable_ageing'', ''PAYABLE_AGING_REPORT''),
      (''receivable_ageing'', ''RECEIVABLES_AGING_REPORT''),
      (''interim_statement'', ''INTERIM_FINANCIAL_REPORT''), (''qid'', ''SHAREHOLDER_QID''),
      (''passport'', ''SHAREHOLDER_PASSPORT''),
      (''proof_of_address'', ''SHAREHOLDER_PROOF_OF_ADDRESS'')]"

definition workflow_doc_type :: "string \<Rightarrow> string" where
  "workflow_doc_type backend =
     (case map_of (map (\<lambda>(k, v). (v, k)) DOCUMENT_TYPE_TO_BACKEND) backend of
        Some k \<Rightarrow> k | None \<Rightarrow> lower backend)"

text \<open>
  What the classifier says of an uploaded registration: whether it is one, and whether it is
  positively not one. An error or an empty answer is no verdict.
\<close>

definition cr_verdict :: "ports \<Rightarrow> json option \<Rightarrow> bool \<times> bool" where
  "cr_verdict p r =
     (case r of
        Some (JObj d) \<Rightarrow>
          let backend = strip (text_or_empty (pt_str p) (either_key d ''document_type'' ''classification_label''));
              combined = lower (backend @ '' '' @ workflow_doc_type backend);
              verified = (contains ''commercial_registration'' combined \<and>
                          jget d ''classified'' \<noteq> JBool False);
              has_error = (truthy (jget d ''error'') \<or>
                           lower (text_or_empty (pt_str p) (jget d ''status'')) \<in> {''error'', ''failed''})
          in (verified, \<not> verified \<and> \<not> has_error \<and>
                        (backend \<noteq> [] \<or> jget d ''classified'' = JBool False))
      | _ \<Rightarrow> (False, False))"

text \<open>An upload that must not be lost: a failure is announced and raised.\<close>

definition must_persist ::
  "ports \<Rightarrow> conv_ctx \<Rightarrow> conv_state \<Rightarrow> string \<Rightarrow> string \<Rightarrow> effect \<Rightarrow> unit act"
where
  "must_persist p ctx st site msg e =
     andthen (trying (call p e)) (\<lambda>r.
       if r = None then
         andthen (notify_upload_failure p ctx st site) (\<lambda>_. raise (Upload_Error msg))
       else ret ())"

definition cr_upload_base64 :: "ports \<Rightarrow> conv_ctx \<Rightarrow> conv_state \<Rightarrow> conv_state act" where
  "cr_upload_base64 p ctx st =
     andthen (live_token p st ctx) (\<lambda>c.
       let token = (case fst c of Some t \<Rightarrow> t | None \<Rightarrow> []);
           file = (case v_cr_ref st of Some f \<Rightarrow> f | None \<Rightarrow> []);
           content = (case v_cr_content st of Some b \<Rightarrow> b | None \<Rightarrow> []);
           st' = with_creds c (conv_step ''cr_upload_base64'' ctx st)
       in
       if file \<noteq> [] \<and> token = [] then
         andthen (notify_upload_failure p ctx st ''cr_upload'')
           (\<lambda>_. raise (Upload_Error ''Cannot upload CR without a live access token''))
       else andthen (if file \<noteq> [] then trying (ask p (E_Kyc K_Classify token content file (v_cr_mime st)))
                     else ret None) (\<lambda>r.
         let verified = fst (cr_verdict p r); not_cr = snd (cr_verdict p r) in
         if not_cr \<and> \<not> verified \<and> v_cr_rejects st < pt_cr_nudges p then
           andthen (say p ctx st ''onboarding.cr.reupload'' B_None) (\<lambda>_.
             ret (st'\<lparr>v_cr_reupload := True, v_cr_rejects := v_cr_rejects st + 1,
                      v_cr_verified := False\<rparr>))
         else andthen (if file \<noteq> [] then
                         must_persist p ctx st ''cr_upload'' ''CR upload failed''
                           (E_Kyc K_Cr token content file (v_cr_mime st))
                       else ret ()) (\<lambda>_.
           andthen (drain_pending_extras p st (fst c)) (\<lambda>rest.
             andthen (update_progress p st ctx 2) (\<lambda>n.
               ret (st'\<lparr>v_cr_verified := verified, v_cr_reupload := False, v_cr_rejects := 0,
                        v_progress := or_int n (v_progress st), v_extras := rest\<rparr>))))))"

subsection \<open>The audited report\<close>

definition financials_send :: "ports \<Rightarrow> conv_ctx \<Rightarrow> conv_state \<Rightarrow> conv_state act" where
  "financials_send p ctx st =
     andthen (trying (say p ctx st ''onboarding.financials.request'' (B_Affirmed (v_cr_verified st)))) (\<lambda>_.
       andthen (trying (call p (E_Schedule ''financials_pending'' (target_ref ctx st)))) (\<lambda>_.
         ret (conv_step ''financials_send'' ctx st)))"

text \<open>The intended report is the first file that is no byte-identical copy of the registration.\<close>

definition is_sent_cr :: "ports \<Rightarrow> conv_state \<Rightarrow> payload \<Rightarrow> bool" where
  "is_sent_cr p st a =
     (is_set (v_cr_sha st) \<and> sha_of p (att_text p a ''content_base64'') = v_cr_sha st)"

definition financials_await :: "ports \<Rightarrow> conv_ctx \<Rightarrow> json \<Rightarrow> conv_state \<Rightarrow> conv_state act" where
  "financials_await p ctx reply st =
     (let st' = conv_step ''financials_await'' ctx st; parked = st'\<lparr>v_fin_received := False\<rparr>;
          line = (\<lambda>b. andthen (say p ctx st ''onboarding.help.contextual'' b) (\<lambda>_. ret parked));
          atts = valid_upload_attachments p reply
      in
      if atts \<noteq> [] then
        (case filter (\<lambda>a. \<not> is_sent_cr p st a) atts of
           [] \<Rightarrow> line (B_Answer (A_Line ''that is the CR''))
         | first # _ \<Rightarrow>
             andthen (suppress_reminders p st ctx) (\<lambda>_.
               andthen (trying (say p ctx st ''onboarding.financials.received'' B_None)) (\<lambda>_.
                 ret (st'\<lparr>v_fin_received := True,
                          v_fin_content := Some (att_text p first ''content_base64''),
                          v_fin_filename := Some (att_text p first ''filename''),
                          v_fin_mime := jget first ''mime_type'',
                          v_extras := v_extras st @
                            extra_documents_to_stash p atts (Some first) (v_cr_sha st)\<rparr>))))
      else
        (case off_script_template (pt_str p) reply of
           Some t \<Rightarrow> line (B_Answer (A_Help t))
         | None \<Rightarrow>
             if is_status_query (pt_str p) reply \<or> is_portal_query (pt_str p) reply
             then line (B_Answer (A_Line ''still need the report''))
             else if is_casual_message (pt_str p) reply then line (B_Answer (A_Line ''here''))
             else andthen (suppress_reminders p st ctx) (\<lambda>_.
                    andthen (contextual_off_script p ctx st reply ''share the report'')
                      (\<lambda>_. ret parked))))"

definition financials_upload_base64 :: "ports \<Rightarrow> conv_ctx \<Rightarrow> conv_state \<Rightarrow> conv_state act" where
  "financials_upload_base64 p ctx st =
     andthen (live_token p st ctx) (\<lambda>c.
       let token = (case fst c of Some t \<Rightarrow> t | None \<Rightarrow> []);
           file = file_or (case v_fin_filename st of Some f \<Rightarrow> f | None \<Rightarrow> []) ''audited_report.pdf'';
           content = (case v_fin_content st of Some b \<Rightarrow> b | None \<Rightarrow> []);
           st' = with_creds c (conv_step ''financials_upload_base64'' ctx st)
       in
       if v_fin_received st \<and> token = [] then
         andthen (notify_upload_failure p ctx st ''financials_upload'')
           (\<lambda>_. raise (Upload_Error ''Cannot upload audited financials without a live access token''))
       else andthen (if token \<noteq> [] \<and> v_fin_received st then
                       must_persist p ctx st ''financials_upload'' ''Audited financials upload failed''
                         (E_Kyc K_Report token content file (v_fin_mime st))
                     else ret ()) (\<lambda>_.
         andthen (if token \<noteq> [] then trying (ask p (E_Me token)) else ret None) (\<lambda>r.
           let uid = (case r of
                        Some (JObj d) \<Rightarrow>
                          text_or_empty (pt_str p)
                            (either_key (case user_of (JObj d) of Some u \<Rightarrow> u | None \<Rightarrow> d)
                               ''uniqueId'' ''unique_id'')
                      | _ \<Rightarrow> []);
               ds = filter is_digit (k_identity ctx);
               ref = (if uid \<noteq> [] then uid else file_or (drop (length ds - 8) ds) ''MADAD'')
           in andthen (say p ctx st ''onboarding.account.created'' (B_Ref ref)) (\<lambda>_.
                andthen (drain_pending_extras p st (fst c)) (\<lambda>rest.
                  andthen (update_progress p st ctx 3) (\<lambda>n.
                    ret (st'\<lparr>v_progress := or_int n (v_progress st), v_extras := rest\<rparr>)))))))"

end
