(* ===== verification/Conv_Docs.thy ===== *)
theory Conv_Docs
  imports Conv_Entry "HOL-Library.List_Lexorder" "HOL-Library.Char_ord"
begin

section \<open>The document loop\<close>

text \<open>
  The nodes \<open>documents_list_fetch\<close>, \<open>documents_upload_loop_send\<close>, \<open>documents_upload_loop_await\<close> and
  \<open>documents_complete\<close> of \<open>services/workflow/onboarding.py\<close>. The files of a batch that
  are classified concurrently are classified one after the other here; each is guarded on its own.
  Times kept in the state are instants instead of their ISO texts.
\<close>

subsection \<open>Document types\<close>

definition DEFAULT_WHATSAPP_REQUIRED_DOCS :: "string list" where
  "DEFAULT_WHATSAPP_REQUIRED_DOCS =
     [''national_address_certificate'', ''article_of_association'', ''establishment_card'',
      ''credit_bureau_report'', ''payable_ageing'', ''receivable_ageing'', ''interim_statement'',
      ''bank_statement'', ''qid'', ''passport'']"

definition DEFAULT_WHATSAPP_OPTIONAL_DOCS :: "string list" where
  "DEFAULT_WHATSAPP_OPTIONAL_DOCS = [''proof_of_address'']"

definition DOC_TYPE_KEYWORDS :: "(string \<times> string) list" where
  "DOC_TYPE_KEYWORDS =
     [(''trade'', ''trade_license''), (''tax'', ''tax_card''),
      (''national address'', ''national_address_certificate''),
      (''nationaladdress'', ''national_address_certificate''),
      (''address cert'', ''national_address_certificate''),
      (''article'', ''article_of_association''), (''aoa'', ''article_of_association''),
      (''association'', ''article_of_association''), (''establishment'', ''establishment_card''),
      (''credit bureau'', ''credit_bureau_report''), (''creditbureau'', ''credit_bureau_report''),
      (''bureau'', ''credit_bureau_report''), (''payable'', ''payable_ageing''),
      (''receivable'', ''receivable_ageing''), (''interim'', ''interim_statement''),
      (''bank'', ''bank_statement''), (''audited'', ''audited_report''),
      (''audit'', ''audited_report''), (''passport'', ''passport''), (''qid'', ''qid''),
      (''national id'', ''qid''), (''proof of address'', ''proof_of_address''),
      (''proofofaddress'', ''proof_of_address''), (''vat'', ''vat_certificate'')]"

definition infer_doc_type :: "string \<Rightarrow> string option" where
  "infer_doc_type filename =
     (case filter (\<lambda>(k, t). contains k (lower filename)) DOC_TYPE_KEYWORDS of
        [] \<Rightarrow> None | (k, t) # _ \<Rightarrow> Some t)"

fun text_items :: "json \<Rightarrow> string list" where
  "text_items (JList (JStr s # xs)) = s # text_items (JList xs)"
| "text_items (JList (_ # xs)) = text_items (JList xs)"
| "text_items _ = []"

subsection \<open>Asking for the documents\<close>

definition documents_list_fetch :: "ports \<Rightarrow> conv_ctx \<Rightarrow> conv_state \<Rightarrow> conv_state act" where
  "documents_list_fetch p ctx st =
     (let st' = conv_step ''documents_list_fetch'' ctx st in
      if k_channel ctx = WHATSAPP then
        andthen
          (case pt_checklist p of
             None \<Rightarrow> ret []
           | Some items \<Rightarrow>
               andthen (trying (call p (E_Checklist ''onboarding.whatsapp.required_docs''))) (\<lambda>r s.
                 (Inr (if r = None then [] else map fst (filter snd (items (io_trace s)))), s)))
          (\<lambda>cms_required.
             let missing = (if cms_required \<noteq> [] then cms_required else DEFAULT_WHATSAPP_REQUIRED_DOCS)
             in ret (st'\<lparr>v_missing := missing, v_required := missing\<rparr>))
      else if is_set (v_access st) then
        andthen (ask p (E_Admin_Docs (the (v_access st)))) (\<lambda>result.
          ret (st'\<lparr>v_missing := (case result of JObj d \<Rightarrow> text_items (jget d ''missing'') | _ \<Rightarrow> [])\<rparr>))
      else ret (st'\<lparr>v_missing := []\<rparr>))"

text \<open>A claim that raises counts as won.\<close>

definition claimed :: "ports \<Rightarrow> string \<Rightarrow> int \<Rightarrow> bool act" where
  "claimed p key ttl =
     andthen (trying (truth (ask p (E_Claim key ttl)))) (\<lambda>r. ret (r \<noteq> Some False))"

definition documents_upload_loop_send :: "ports \<Rightarrow> conv_ctx \<Rightarrow> conv_state \<Rightarrow> conv_state act" where
  "documents_upload_loop_send p ctx st =
     andthen (claimed p (''docs:checklist:'' @ k_identity ctx) 120) (\<lambda>first_runner.
       let st' = conv_step ''documents_upload_loop_send'' ctx st in
       if \<not> first_runner then ret st'
       else
         let key = (if ''documents_upload_loop_send'' \<in> set (v_history st)
                    then ''onboarding.documents.missing'' else ''onboarding.documents.checklist'');
             total = length (if v_required st \<noteq> [] then v_required st else DEFAULT_WHATSAPP_REQUIRED_DOCS);
             received = max 0 (int total - int (length (v_missing st)))
         in andthen (say p ctx st key (B_Documents (v_missing st) received (int total))) (\<lambda>_.
              andthen (call p (E_Schedule ''incomplete_docs'' (target_ref ctx st))) (\<lambda>_. ret st')))"

subsection \<open>Webhooks and the settle event\<close>

definition is_paid_event :: "json \<Rightarrow> bool" where
  "is_paid_event reply =
     (case reply of JObj d \<Rightarrow> jget d ''type'' = JStr ''payment'' \<and> truthy (jget d ''paid'') | _ \<Rightarrow> False)"

text \<open>\<open>_extract_madad_score\<close>; the text of a number is its digits.\<close>

definition digits_value :: "string \<Rightarrow> int" where
  "digits_value s = foldl (\<lambda>n c. 10 * n + (int (code c) - 48)) 0 s"

definition score_of :: "json \<Rightarrow> int option" where
  "score_of v =
     (case v of
        JInt i \<Rightarrow> Some i
      | JBool b \<Rightarrow> Some (if b then 1 else 0)
      | JReal r \<Rightarrow> Some (if r < 0 then - \<lfloor>- r\<rfloor> else \<lfloor>r\<rfloor>)
      | JStr s \<Rightarrow> if strip s \<noteq> [] \<and> list_all is_digit (strip s) then Some (digits_value (strip s)) else None
      | _ \<Rightarrow> None)"

definition extract_madad_score :: "json \<Rightarrow> int option" where
  "extract_madad_score payload =
     (case payload of
        JObj d \<Rightarrow>
          let inner = (case jget d ''payload'' of
                         JObj i \<Rightarrow> [jget i ''madadScore'', jget i ''madad_score''] | _ \<Rightarrow> [])
          in (case List.map_filter score_of ([jget d ''madadScore'', jget d ''madad_score''] @ inner) of
                [] \<Rightarrow> None | x # _ \<Rightarrow> Some x)
      | _ \<Rightarrow> None)"

definition docs_paid_event :: "ports \<Rightarrow> conv_ctx \<Rightarrow> json \<Rightarrow> conv_state \<Rightarrow> conv_state act" where
  "docs_paid_event p ctx reply st =
     andthen (suppress_reminders p st ctx) (\<lambda>_.
       andthen (update_progress p st ctx 5) (\<lambda>n.
         ret ((conv_step ''documents_upload_loop_await'' ctx st)
                \<lparr>v_docs_received := True, v_paid := True, v_payment_ready := True,
                 v_source := Some (extract_status_source reply),
                 v_progress := (if n = None then v_progress st else n)\<rparr>)))"

definition docs_forced_status ::
  "ports \<Rightarrow> conv_ctx \<Rightarrow> json \<Rightarrow> journey \<Rightarrow> conv_state \<Rightarrow> conv_state act"
where
  "docs_forced_status p ctx reply s st =
     andthen (suppress_reminders p st ctx) (\<lambda>_.
       let st1 = (conv_step ''documents_upload_loop_await'' ctx st)
                   \<lparr>v_docs_received := True, v_journey := Some s,
                    v_source := Some (extract_status_source reply)\<rparr>
       in if s = J_QUALIFIED \<or> post_payment (Some s) then
            andthen (update_progress p st ctx 5) (\<lambda>n.
              ret (st1\<lparr>v_payment_ready := True,
                       v_paid := (if post_payment (Some s) then True else v_paid st),
                       v_score := (case extract_madad_score reply of None \<Rightarrow> v_score st | Some x \<Rightarrow> Some x),
                       v_progress := (if n = None then v_progress st else n)\<rparr>))
          else ret st1)"

definition pending_signature :: "string list \<Rightarrow> string" where
  "pending_signature pending = join ''|'' (sort pending)"

definition docs_settle :: "ports \<Rightarrow> conv_ctx \<Rightarrow> conv_state \<Rightarrow> conv_state act" where
  "docs_settle p ctx st =
     (let pending = v_missing st;
          st' = (conv_step ''documents_upload_loop_await'' ctx st)
                  \<lparr>v_settle_prompted := True, v_docs_received := False\<rparr>;
          sig = pending_signature pending;
          b = B_Documents pending 0 (int (length pending))
      in
      if pending = [] then ret st'
      else if v_prompt_sig st = Some sig then ret st'
      else
        andthen
          (if pt_buttons p
           then trying (truth (ask p (E_Buttons (k_channel ctx) (k_identity ctx)
                                        ''onboarding.documents.more_docs_prompt'' b)))
           else ret (Some False))
          (\<lambda>sent. andthen
             (if sent = Some True then ret None
              else trying (say p ctx st ''onboarding.documents.more_docs_prompt'' b))
             (\<lambda>_. ret (st'\<lparr>v_prompt_sig := Some sig\<rparr>))))"

subsection \<open>Replies without a file\<close>

text \<open>The rows of \<open>_send_pending_docs\<close>, called without a list of received documents.\<close>

definition pending_rows :: "conv_state \<Rightarrow> row list" where
  "pending_rows st =
     (let required = (if v_required st \<noteq> [] then v_required st else DEFAULT_WHATSAPP_REQUIRED_DOCS)
      in map Validated (filter (\<lambda>d. d \<notin> set (v_missing st)) required) @
         map Still_Needed (v_missing st))"

definition send_pending_docs :: "ports \<Rightarrow> conv_ctx \<Rightarrow> conv_state \<Rightarrow> unit act" where
  "send_pending_docs p ctx st =
     (if v_missing st = [] then say p ctx st ''onboarding.help.contextual'' (B_Answer (A_Line ''all in''))
      else say p ctx st ''onboarding.documents.single_received'' (B_Rows (pending_rows st)))"

definition docs_chat :: "ports \<Rightarrow> conv_ctx \<Rightarrow> json \<Rightarrow> conv_state \<Rightarrow> conv_state act" where
  "docs_chat p ctx reply st =
     (let sh = pt_str p;
          st' = (conv_step ''documents_upload_loop_await'' ctx st)\<lparr>v_docs_received := False\<rparr>;
          prompted = (is_set (v_prompt_at st) \<or> 0 < v_uploaded st);
          proceed = andthen (if v_complete_sent st then ret ()
                             else say p ctx st ''onboarding.documents.complete'' B_None)
                      (\<lambda>_. ret (st'\<lparr>v_docs_proceed := True, v_complete_sent := True\<rparr>))
      in
      case docs_button_intent sh reply of
        Some More_Docs \<Rightarrow>
          andthen (say p ctx st ''onboarding.help.contextual'' (B_Answer (A_Line ''send the rest'')))
            (\<lambda>_. ret (st'\<lparr>v_settle_prompted := False\<rparr>))
      | Some Docs_Done \<Rightarrow> proceed
      | None \<Rightarrow>
          if is_pending_docs_query sh reply then
            andthen (send_pending_docs p ctx st) (\<lambda>_. ret st')
          else if (is_no sh reply \<or> looks_done_with_docs sh reply) \<and> prompted then proceed
          else if is_yes sh reply \<and> prompted then
            andthen (say p ctx st ''onboarding.help.contextual'' (B_Answer (A_Line ''send the rest'')))
              (\<lambda>_. ret st')
          else andthen (smart_contextual p ctx st reply ''send any document'') (\<lambda>_. ret st'))"

subsection \<open>A batch of files\<close>

text \<open>What a batch has done so far: its slots, receipts and failures.\<close>

record batch =
  b_pending :: "string list"
  b_validated :: "string list"
  b_unprocessed :: "string list"
  b_failed :: "string list"
  b_unrecognized :: "string list"

text \<open>The entries of a ZIP answer, and the type one of them names.\<close>

definition zip_checklist :: "json \<Rightarrow> payload list" where
  "zip_checklist resp =
     (case resp of
        JObj d \<Rightarrow>
          let inner = (case jget d ''body'' of JObj b \<Rightarrow> b | _ \<Rightarrow> d)
          in (case either_key inner ''checklist'' ''files'' of JList xs \<Rightarrow> dict_items xs | _ \<Rightarrow> [])
      | _ \<Rightarrow> [])"

definition named_type :: "payload \<Rightarrow> string option" where
  "named_type d =
     (let v = (if truthy (jget d ''document_type'') then jget d ''document_type''
               else either_key d ''documentType'' ''resolved_document_type'')
      in case v of JStr s \<Rightarrow> Some s | _ \<Rightarrow> None)"

definition land_member :: "string list \<Rightarrow> payload \<Rightarrow> batch \<Rightarrow> batch" where
  "land_member expected entry b =
     (case named_type entry of
        None \<Rightarrow> b
      | Some backend \<Rightarrow>
          if backend = [] then b
          else
            let t = workflow_doc_type backend in
            if t \<in> set expected then
              b\<lparr>b_pending := remove1 t (b_pending b),
                b_validated := (if t \<in> set (b_validated b) then b_validated b else b_validated b @ [t])\<rparr>
            else if t \<in> set (b_unprocessed b) then b
            else b\<lparr>b_unprocessed := b_unprocessed b @ [t]\<rparr>)"

text \<open>
  The first pass: archives are classified by the backend; one it cannot take is unpacked here and
  joins the single files. The result is the batch, the single files and the archives that persisted.
\<close>

fun zip_pass ::
  "ports \<Rightarrow> string \<Rightarrow> string list \<Rightarrow> payload list \<Rightarrow> batch \<Rightarrow> (batch \<times> payload list \<times> nat) act"
where
  "zip_pass p token expected [] b = ret (b, [], 0)"
| "zip_pass p token expected (a # as) b =
     (if \<not> is_zip_attachment p a \<or> token = [] then
        andthen (zip_pass p token expected as b) (\<lambda>(b', files, n). ret (b', a # files, n))
      else
        andthen (trying (ask p (E_Kyc K_Zip token (att_text p a ''content_base64'')
                                 (att_text p a ''filename'') JNull))) (\<lambda>r.
          case r of
            None \<Rightarrow>
              andthen (zip_pass p token expected as b)
                (\<lambda>(b', files, n). ret (b', pt_unzip p a @ files, n))
          | Some resp \<Rightarrow>
              andthen (zip_pass p token expected as (fold (land_member expected) (zip_checklist resp) b))
                (\<lambda>(b', files, n). ret (b', files, Suc n))))"

text \<open>What the backend says of one file: whether it was saved, and its type.\<close>

definition upload_ok :: "ports \<Rightarrow> json \<Rightarrow> bool" where
  "upload_ok p resp =
     (case resp of
        JObj d \<Rightarrow>
          (case jget d ''upload'' of
             JObj up \<Rightarrow>
               let flag = (case dget up ''success'' of
                             Some v \<Rightarrow> v
                           | None \<Rightarrow> (case dget up ''uploaded'' of Some v \<Rightarrow> v | None \<Rightarrow> JBool True))
               in flag \<noteq> JBool False \<and> \<not> truthy (jget up ''error'') \<and>
                  lower (text_or_empty (pt_str p) (jget up ''status'')) \<notin> {''failed'', ''error'', ''rejected''}
           | _ \<Rightarrow> True)
      | _ \<Rightarrow> True)"

definition classify_one :: "ports \<Rightarrow> string \<Rightarrow> payload \<Rightarrow> (bool \<times> string option) act" where
  "classify_one p token a =
     (if token = [] then ret (False, None)
      else andthen (trying (ask p (E_Kyc K_Classify_Upload token (att_text p a ''content_base64'')
                                    (att_text p a ''filename'') (jget a ''mime_type'')))) (\<lambda>r.
        case r of
          None \<Rightarrow> ret (False, None)
        | Some resp \<Rightarrow>
            ret (upload_ok p resp,
                 (case resp of JObj d \<Rightarrow> map_option workflow_doc_type (named_type d) | _ \<Rightarrow> None))))"

text \<open>The type a saved file gets: the classifier's, else what it is called, else the next slot.\<close>

definition slot_type :: "ports \<Rightarrow> payload \<Rightarrow> string option \<Rightarrow> string list \<Rightarrow> string option" where
  "slot_type p a resolved pending =
     (if is_set resolved \<and> resolved \<noteq> Some ''additional_document'' then resolved
      else
        let declared = att_text p a ''document_type'' in
        if declared \<noteq> [] then Some declared
        else
          (case infer_doc_type (att_text p a ''filename'') of
             Some t \<Rightarrow> Some t
           | None \<Rightarrow> if pending \<noteq> [] then Some (hd pending) else resolved))"

definition land_file ::
  "ports \<Rightarrow> string list \<Rightarrow> payload \<times> bool \<times> string option \<Rightarrow> batch \<Rightarrow> batch"
where
  "land_file p expected f b =
     (case f of (a, ok, resolved) \<Rightarrow>
        let name = file_or (att_text p a ''filename'') ''one of your documents'' in
        if \<not> ok then b\<lparr>b_failed := b_failed b @ [name]\<rparr>
        else
          (case slot_type p a resolved (b_pending b) of
             None \<Rightarrow> b\<lparr>b_unrecognized := b_unrecognized b @ [name]\<rparr>
           | Some t \<Rightarrow>
               if t = [] then b\<lparr>b_unrecognized := b_unrecognized b @ [name]\<rparr>
               else if t \<in> set expected then
                 b\<lparr>b_pending := remove1 t (b_pending b),
                   b_validated := (if t \<in> set (b_validated b) then b_validated b else b_validated b @ [t])\<rparr>
               else if t \<in> set (b_unprocessed b) \<or> t \<in> set (b_validated b) then b
               else b\<lparr>b_unprocessed := b_unprocessed b @ [t]\<rparr>))"

text \<open>\<open>dict.fromkeys\<close>: the first occurrences.\<close>

definition first_occurrences :: "'a list \<Rightarrow> 'a list" where
  "first_occurrences xs = rev (remdups (rev xs))"

subsection \<open>Receipts\<close>

definition acknowledge_uploads ::
  "ports \<Rightarrow> conv_ctx \<Rightarrow> conv_state \<Rightarrow> string list \<Rightarrow> string list \<Rightarrow> bool \<Rightarrow> string list \<Rightarrow> bool \<Rightarrow>
     unit act"
where
  "acknowledge_uploads p ctx st validated unprocessed saw_zip missing_after batch_ok =
     (if validated = [] \<and> unprocessed = [] then
        (if batch_ok then
           andthen (trying (say p ctx st ''onboarding.documents.single_received'' (B_Rows [Received_Line])))
             (\<lambda>_. ret ())
         else if filter (\<lambda>d. d \<notin> set missing_after) DEFAULT_WHATSAPP_REQUIRED_DOCS = [] then
           andthen (trying (say p ctx st ''onboarding.documents.upload_failed'' B_None)) (\<lambda>_. ret ())
         else ret ())
      else say p ctx st
             (if saw_zip then ''onboarding.documents.zip_received''
              else ''onboarding.documents.single_received'')
             (B_Rows (map Validated validated @ map Under_Review unprocessed)))"

definition failure_receipt ::
  "ports \<Rightarrow> conv_ctx \<Rightarrow> conv_state \<Rightarrow> string list \<Rightarrow> string list \<Rightarrow> unit act"
where
  "failure_receipt p ctx st failed unrecognized =
     (if failed = [] \<and> unrecognized = [] then ret ()
      else andthen (trying (say p ctx st ''onboarding.documents.single_received''
                      (B_Rows (map Resend_File (first_occurrences failed) @
                               map Unrecognized_File (first_occurrences unrecognized)))))
             (\<lambda>_. ret ()))"

definition DOCS_PROCESSING_ACK_TTL :: int where
  "DOCS_PROCESSING_ACK_TTL = 120 * 1000000"

text \<open>The immediate acknowledgement, at most one per two minutes; its time when it was sent.\<close>

definition processing_ack ::
  "ports \<Rightarrow> conv_ctx \<Rightarrow> conv_state \<Rightarrow> bool \<Rightarrow> int \<Rightarrow> int option act"
where
  "processing_ack p ctx st has_zip t =
     (if (case v_ack_at st of None \<Rightarrow> True | Some a \<Rightarrow> DOCS_PROCESSING_ACK_TTL \<le> t - a) then
        andthen (trying (if has_zip then say p ctx st ''onboarding.documents.single_received'' (B_Rows [Zip_Line])
                         else say p ctx st ''onboarding.documents.processing'' B_None))
          (\<lambda>r. ret (if r = None then v_ack_at st else Some t))
      else ret (v_ack_at st))"

text \<open>\<open>_invoice_attempt_sig\<close>, the fingerprint of a set of attachments.\<close>

definition attempt_sig :: "ports \<Rightarrow> payload list \<Rightarrow> string" where
  "attempt_sig p atts =
     take 32 (pt_text_sha p (join [lf] (sort (map (\<lambda>a.
       lower (strip (att_text p a ''filename'')) @ ''|'' @ take 4096 (att_text p a ''content_base64'')) atts))))"

subsection \<open>\<open>documents_upload_loop_await\<close>\<close>

definition process_files ::
  "ports \<Rightarrow> conv_ctx \<Rightarrow> conv_state \<Rightarrow> payload list \<Rightarrow> conv_state act"
where
  "process_files p ctx st atts =
     andthen (now p) (\<lambda>t.
     andthen (processing_ack p ctx st (list_ex (is_zip_attachment p) atts) t) (\<lambda>ack_at.
     andthen (live_token p st ctx) (\<lambda>c.
       let token = (case fst c of Some k \<Rightarrow> k | None \<Rightarrow> []);
           expected = v_missing st @ DEFAULT_WHATSAPP_OPTIONAL_DOCS;
           b0 = \<lparr>b_pending = v_missing st, b_validated = [], b_unprocessed = [], b_failed = [],
                 b_unrecognized = []\<rparr>
       in
       andthen (zip_pass p token expected atts b0) (\<lambda>(b1, files, zips).
       andthen (each (classify_one p token) files) (\<lambda>results.
         let b = fold (land_file p expected) (zip files results) b1;
             saved = length (filter fst results);
             new_validated = filter (\<lambda>d. d \<notin> set (v_acked st)) (b_validated b);
             new_unprocessed = filter (\<lambda>d. d \<notin> set (v_acked st) \<and> d \<notin> set new_validated)
                                 (b_unprocessed b)
         in
         andthen (acknowledge_uploads p ctx st new_validated new_unprocessed (0 < zips) (b_pending b)
                    (0 < zips \<or> 0 < saved)) (\<lambda>_.
         andthen (failure_receipt p ctx st (b_failed b) (b_unrecognized b)) (\<lambda>_.
         andthen (if b_pending b = [] then suppress_reminders p st ctx else ret ()) (\<lambda>_.
           ret ((with_creds c (conv_step ''documents_upload_loop_await'' ctx st))
                  \<lparr>v_missing := b_pending b, v_docs_received := True,
                   v_uploaded := v_uploaded st + int (min (length atts) (zips + saved)),
                   v_ack_at := ack_at, v_last_upload_at := Some t,
                   v_acked := first_occurrences (v_acked st @ new_validated @ new_unprocessed),
                   v_settle_prompted := False\<rparr>))))))))) "

definition docs_upload :: "ports \<Rightarrow> conv_ctx \<Rightarrow> conv_state \<Rightarrow> payload list \<Rightarrow> conv_state act" where
  "docs_upload p ctx st atts =
     (let sig = attempt_sig p atts in
      andthen (if sig = [] then ret True
               else claimed p (''docs:inflight:'' @ k_identity ctx @ '':'' @ sig) 60) (\<lambda>first_runner.
        if \<not> first_runner
        then ret ((conv_step ''documents_upload_loop_await'' ctx st)\<lparr>v_docs_received := False\<rparr>)
        else process_files p ctx st atts))"

definition documents_upload_loop_await ::
  "ports \<Rightarrow> conv_ctx \<Rightarrow> json \<Rightarrow> conv_state \<Rightarrow> conv_state act"
where
  "documents_upload_loop_await p ctx reply st =
     (if is_paid_event reply then docs_paid_event p ctx reply st
      else
        (case extract_journey_status reply of
           Some s \<Rightarrow> docs_forced_status p ctx reply s st
         | None \<Rightarrow>
             if is_docs_settle reply then docs_settle p ctx st
             else
               let atts = valid_upload_attachments p reply in
               if atts = [] then docs_chat p ctx reply st else docs_upload p ctx st atts))"

definition documents_complete :: "ports \<Rightarrow> conv_ctx \<Rightarrow> conv_state \<Rightarrow> conv_state act" where
  "documents_complete p ctx st =
     (let st' = conv_step ''documents_complete'' ctx st in
      if v_complete_sent st then ret st'
      else andthen (say p ctx st ''onboarding.documents.complete'' B_None) (\<lambda>_.
        andthen (update_progress p st ctx 5) (\<lambda>n.
          ret (st'\<lparr>v_complete_sent := True, v_progress := or_int n (v_progress st)\<rparr>))))"

end
