(* ===== verification/Conv_Gates.thy ===== *)
theory Conv_Gates
  imports Conv_Docs
begin

section \<open>The gates, the payment and the offers\<close>

text \<open>
  The nodes of \<open>services/workflow/onboarding.py\<close> from the pre-qualification gate to the activation:
  the wait nodes and what releases them, the payment chain, the lender phase and its terminals.
\<close>

subsection \<open>The two gates\<close>

definition event_of :: "payload \<Rightarrow> json" where
  "event_of d = either_key d ''event'' ''event_type''"

definition is_prequalify_trigger :: "json \<Rightarrow> bool" where
  "is_prequalify_trigger payload =
     (extract_journey_status payload \<noteq> None \<or>
      (case payload of
         JObj d \<Rightarrow> event_of d \<in> {JStr ''prequalification.completed'', JStr ''eligibility.updated'',
                                    JStr ''documents.completed''}
       | _ \<Rightarrow> False))"

definition is_payment_trigger :: "json \<Rightarrow> bool" where
  "is_payment_trigger payload =
     ((case payload of
         JObj d \<Rightarrow> event_of d \<in> {JStr ''madad_score.ready'', JStr ''payment.requested''}
       | _ \<Rightarrow> False) \<or>
      extract_journey_status payload \<in> {Some J_QUALIFIED, Some J_PRE_QUALIFIED})"

definition is_rejection :: "json \<Rightarrow> bool" where
  "is_rejection payload =
     (case payload of JObj d \<Rightarrow> truthy (jget d ''prequalification_rejected'') | _ \<Rightarrow> False)"

text \<open>A gate that stays shut: a tick is silent, a document is kept, chat is answered.\<close>

definition stay_parked ::
  "ports \<Rightarrow> conv_ctx \<Rightarrow> json \<Rightarrow> conv_state \<Rightarrow> string \<Rightarrow> (conv_state \<Rightarrow> conv_state) \<Rightarrow> conv_state act"
where
  "stay_parked p ctx payload st line shut =
     (if is_inert_system_resume (pt_str p) payload then ret (shut st)
      else andthen (capture_additional_documents p st ctx payload) (\<lambda>captured.
        case captured of
          Some st' \<Rightarrow> ret (shut st')
        | None \<Rightarrow> andthen (contextual_off_script p ctx st payload line) (\<lambda>_. ret (shut st))))"

definition prequalify_wait_await ::
  "ports \<Rightarrow> conv_ctx \<Rightarrow> json \<Rightarrow> conv_state \<Rightarrow> conv_state act"
where
  "prequalify_wait_await p ctx payload st =
     (let here = conv_step ''prequalify_wait_await'' ctx in
      if is_rejection payload then
        andthen (suppress_reminders p st ctx) (\<lambda>_. ret ((here st)\<lparr>v_rejected := True\<rparr>))
      else if is_prequalify_trigger payload then
        andthen (update_progress p st ctx 4) (\<lambda>n.
          ret ((here st)\<lparr>v_prequalified := True, v_progress := or_int n (v_progress st)\<rparr>))
      else stay_parked p ctx payload st ''result will be ready soon''
             (\<lambda>x. (here x)\<lparr>v_prequalified := False\<rparr>))"

definition payment_wait_await ::
  "ports \<Rightarrow> conv_ctx \<Rightarrow> json \<Rightarrow> conv_state \<Rightarrow> conv_state act"
where
  "payment_wait_await p ctx payload st =
     (let here = conv_step ''payment_wait_await'' ctx;
          advanced = extract_journey_status payload
      in
      if v_payment_ready st \<or> v_paid st then ret (here st)
      else if is_paid_event payload then
        ret ((here st)\<lparr>v_paid := True, v_payment_ready := True,
                       v_source := Some (extract_status_source payload)\<rparr>)
      else if post_payment advanced then
        ret ((here st)\<lparr>v_paid := True, v_payment_ready := True, v_journey := advanced,
                       v_source := Some (extract_status_source payload)\<rparr>)
      else if is_payment_trigger payload then
        ret ((here st)\<lparr>v_payment_ready := True,
                       v_score := (case extract_madad_score payload of
                                     None \<Rightarrow> v_score st | Some x \<Rightarrow> Some x)\<rparr>)
      else stay_parked p ctx payload st ''all set'' (\<lambda>x. (here x)\<lparr>v_payment_ready := False\<rparr>))"

subsection \<open>Polling the journey\<close>

definition status_poll :: "string \<Rightarrow> ports \<Rightarrow> conv_ctx \<Rightarrow> conv_state \<Rightarrow> conv_state act" where
  "status_poll name p ctx st =
     andthen (live_token p st ctx) (\<lambda>c.
       andthen (poll_journey_status p (st\<lparr>v_access := fst c\<rparr>)) (\<lambda>status.
         andthen (now p) (\<lambda>t.
           ret (with_creds c ((conv_step name ctx st)
                  \<lparr>v_journey := status, v_source := or_text (v_source st) (Some ''poll''),
                   v_polled_at := Some t\<rparr>)))))"

definition status_poll_on_demand :: "ports \<Rightarrow> conv_ctx \<Rightarrow> conv_state \<Rightarrow> conv_state act" where
  "status_poll_on_demand = status_poll ''status_poll_on_demand''"

definition lender_status_poll :: "ports \<Rightarrow> conv_ctx \<Rightarrow> conv_state \<Rightarrow> conv_state act" where
  "lender_status_poll = status_poll ''lender_status_poll''"

subsection \<open>The financing ledger\<close>

text \<open>\<open>_get\<close>: the first key whose value is neither \<open>None\<close> nor empty.\<close>

definition first_field :: "payload \<Rightarrow> string list \<Rightarrow> json" where
  "first_field d ks =
     (case filter (\<lambda>k. jget d k \<noteq> JNull \<and> jget d k \<noteq> JStr []) ks of
        [] \<Rightarrow> JNull | k # _ \<Rightarrow> jget d k)"

definition currency_of :: "payload \<Rightarrow> json" where
  "currency_of d = (let c = first_field d [''currency''] in if truthy c then c else JStr ''QAR'')"

definition invoice_ref_of :: "payload \<Rightarrow> json" where
  "invoice_ref_of d =
     first_field d [''invoiceNumber'', ''invoice_number'', ''invoice_id'', ''invoiceId'',
                    ''reference_number'', ''referenceNumber'', ''ref'']"

definition disbursement_entry :: "payload \<Rightarrow> payload" where
  "disbursement_entry d =
     [(''amount'', first_field d [''disbursedAmount'', ''disbursed_amount'', ''amount'', ''amount_qar'',
                                  ''amountQar'', ''total_amount'', ''totalAmount'']),
      (''currency'', currency_of d), (''invoice_ref'', invoice_ref_of d),
      (''utr'', first_field d [''utr'', ''UTR'', ''transaction_id'', ''transactionId'']),
      (''due_date'', first_field d [''dueDate'', ''due_date'']),
      (''lender'', first_field d [''lenderName'', ''lender_name'', ''lender'']),
      (''available_limit'', first_field d [''availableLimit'', ''available_limit'',
                                           ''credit_limit_available'']),
      (''credit_limit'', first_field d [''creditLimit'', ''credit_limit'', ''total_credit_limit''])]"

definition is_closed :: "payload \<Rightarrow> bool" where
  "is_closed d =
     (if jget d ''closed'' \<noteq> JNull then truthy (jget d ''closed'')
      else jget d ''event'' = JStr ''repayment.closed'')"

definition outstanding_of :: "payload \<Rightarrow> int option" where
  "outstanding_of d =
     (if is_closed d then Some 0
      else
        (case first_field d [''outstandingAmount'', ''outstanding_amount'', ''outstanding'',
                             ''outstanding_qar'', ''outstandingQar'', ''remaining''] of
           JInt i \<Rightarrow> Some i
         | JBool b \<Rightarrow> Some (if b then 1 else 0)
         | JReal r \<Rightarrow> Some (if r < 0 then - \<lfloor>- r\<rfloor> else \<lfloor>r\<rfloor>)
         | _ \<Rightarrow> None))"

definition repayment_entry :: "payload \<Rightarrow> payload" where
  "repayment_entry d =
     [(''amount'', first_field d [''amount'', ''amount_qar'', ''amountQar'']),
      (''currency'', currency_of d), (''invoice_ref'', invoice_ref_of d),
      (''total_repaid'', first_field d [''totalRepaid'', ''total_repaid'']),
      (''outstanding'', case outstanding_of d of Some i \<Rightarrow> JInt i | None \<Rightarrow> JNull),
      (''emis_total'', first_field d [''emisTotal'', ''emis_total'']),
      (''emis_paid'', first_field d [''emisPaid'', ''emis_paid'']),
      (''emis_remaining'', first_field d [''emisRemaining'', ''emis_remaining'']),
      (''paymaster_name'', first_field d [''paymasterName'', ''paymaster_name'', ''paymaster'']),
      (''lender_name'', first_field d [''lenderName'', ''lender_name'', ''lender'']),
      (''available_limit'', first_field d [''availableLimit'', ''available_limit'',
                                           ''credit_limit_available'']),
      (''due_date'', first_field d [''dueDate'', ''due_date'']),
      (''kind'', JStr (if is_closed d then ''closed'' else ''received''))]"

text \<open>
  \<open>_apply_phase1b_event_to_state\<close>. The time stamps of the entries and the texts made of them are
  left out. An alert names the first invoice of the payload.
\<close>

definition apply_phase1b_event ::
  "ports \<Rightarrow> conv_ctx \<Rightarrow> payload \<Rightarrow> string \<Rightarrow> conv_state \<Rightarrow> conv_state act"
where
  "apply_phase1b_event p ctx d target_step st =
     (let event = text_or_empty (pt_str p) (jget d ''event'');
          st' = (conv_step target_step ctx st)\<lparr>v_source := Some (extract_status_source (JObj d))\<rparr>
      in andthen (now p) (\<lambda>_.
        if event = ''transaction.disbursed'' then
          andthen (say p ctx st ''onboarding.disbursement.received'' (B_Activated (disbursement_entry d) []))
            (\<lambda>_. ret (st'\<lparr>v_disbursements := v_disbursements st @ [disbursement_entry d]\<rparr>))
        else if event \<in> {''repayment.received'', ''repayment.partially_paid'', ''repayment.closed''} then
          andthen (say p ctx st (if is_closed d then ''onboarding.repayment.closed''
                                 else ''onboarding.repayment.received'')
                     (B_Activated (repayment_entry d) []))
            (\<lambda>_. ret (st'\<lparr>v_repayments := v_repayments st @ [repayment_entry d],
                          v_outstanding := outstanding_of d\<rparr>))
        else if event = ''repayment.due_soon'' \<or> event = ''repayment.overdue'' then
          andthen (say p ctx st (if event = ''repayment.overdue'' then ''onboarding.repayment.overdue''
                                 else ''onboarding.repayment.due_soon'')
                     (B_Activated (case jget d ''invoices'' of JList (JObj i # _) \<Rightarrow> i | _ \<Rightarrow> d) []))
            (\<lambda>_. ret st')
        else ret st'))"

subsection \<open>The wait nodes of the journey\<close>

definition is_phase1b :: "json \<Rightarrow> payload option" where
  "is_phase1b payload =
     (case payload of
        JObj d \<Rightarrow> if jget d ''type'' = JStr ''phase1b_event'' then Some d else None
      | _ \<Rightarrow> None)"

definition is_synthetic_type :: "json \<Rightarrow> bool" where
  "is_synthetic_type payload =
     (case payload of
        JObj d \<Rightarrow> jget d ''type'' \<in> {JStr ''status_update'', JStr ''docs_settle'', JStr ''phase1b_event''}
      | _ \<Rightarrow> False)"

definition selected_offer_from_payload :: "json \<Rightarrow> payload option" where
  "selected_offer_from_payload payload =
     (case payload of
        JObj d \<Rightarrow>
          let name = either_key d ''lenderName'' ''bankName'' in
          if \<not> truthy name then None
          else Some [(''lenderName'', name), (''creditLimit'', jget d ''creditLimit''),
                     (''interestRate'', jget d ''interestRate''), (''tenureDays'', jget d ''tenureDays''),
                     (''currency'', jget d ''currency'')]
      | _ \<Rightarrow> None)"

text \<open>
  \<open>journey_wait_await\<close> and \<open>lender_wait_await\<close> treat a resume alike; only the former notes the
  selected offer.
\<close>

definition status_wait ::
  "string \<Rightarrow> bool \<Rightarrow> ports \<Rightarrow> conv_ctx \<Rightarrow> json \<Rightarrow> conv_state \<Rightarrow> conv_state act"
where
  "status_wait name notes_offer p ctx payload st =
     (let sh = pt_str p; here = conv_step name ctx st;
          chatted = here\<lparr>v_source := Some ''chat''\<rparr>
      in
      case is_phase1b payload of
        Some d \<Rightarrow> apply_phase1b_event p ctx d name st
      | None \<Rightarrow>
          (case off_script_template sh payload of
             Some t \<Rightarrow>
               andthen (say p ctx st ''onboarding.help.contextual'' (B_Answer (A_Help t))) (\<lambda>_. ret chatted)
           | None \<Rightarrow>
               if is_casual_message sh payload then
                 andthen (smart_contextual p ctx st payload ''tracking'') (\<lambda>_. ret chatted)
               else if is_portal_query sh payload then
                 andthen (safe_portal_answer p st) (\<lambda>a.
                   andthen (say p ctx st ''onboarding.help.contextual'' (B_Answer a)) (\<lambda>_. ret chatted))
               else if is_status_query sh payload then
                 andthen (safe_status_answer p st) (\<lambda>a.
                   andthen (say p ctx st ''onboarding.help.contextual'' (B_Answer a)) (\<lambda>_. ret chatted))
               else if extract_journey_status payload = None \<and> \<not> is_synthetic_type payload \<and>
                       strip (reply_text sh payload) \<noteq> [] then
                 andthen (smart_contextual p ctx st payload ''tracking'') (\<lambda>_. ret chatted)
               else ret (here\<lparr>v_source := Some (extract_status_source payload),
                              v_journey := (case extract_journey_status payload of
                                              None \<Rightarrow> v_journey st | Some s \<Rightarrow> Some s),
                              v_selected := (case (if notes_offer then selected_offer_from_payload payload
                                                   else None) of
                                               None \<Rightarrow> v_selected st | Some o' \<Rightarrow> Some o')\<rparr>)))"

definition journey_wait_await ::
  "ports \<Rightarrow> conv_ctx \<Rightarrow> json \<Rightarrow> conv_state \<Rightarrow> conv_state act"
where
  "journey_wait_await = status_wait ''journey_wait_await'' True"

definition lender_wait_await ::
  "ports \<Rightarrow> conv_ctx \<Rightarrow> json \<Rightarrow> conv_state \<Rightarrow> conv_state act"
where
  "lender_wait_await = status_wait ''lender_wait_await'' False"

subsection \<open>Terminals\<close>

definition not_eligible :: "ports \<Rightarrow> conv_ctx \<Rightarrow> conv_state \<Rightarrow> conv_state act" where
  "not_eligible = closing ''not_eligible'' ''onboarding.not_eligible'' B_None ''not_eligible''"

definition not_qualified :: "ports \<Rightarrow> conv_ctx \<Rightarrow> conv_state \<Rightarrow> conv_state act" where
  "not_qualified = closing ''not_qualified'' ''onboarding.not_qualified'' B_None ''not_qualified''"

definition not_pre_qualified :: "ports \<Rightarrow> conv_ctx \<Rightarrow> conv_state \<Rightarrow> conv_state act" where
  "not_pre_qualified =
     closing ''not_pre_qualified'' ''onboarding.not_pre_qualified'' B_None ''not_pre_qualified''"

definition not_qatar_based :: "ports \<Rightarrow> conv_ctx \<Rightarrow> conv_state \<Rightarrow> conv_state act" where
  "not_qatar_based =
     closing ''not_qatar_based'' ''onboarding.not_qatar'' B_None ''not_qatar_based''"

end
