(* ===== verification/Conv_Pay.thy ===== *)
theory Conv_Pay
  imports Conv_Gates
begin

section \<open>The payment, the offers and the activation\<close>

text \<open>
  The payment chain, \<open>payment_await\<close>, and the offer and activation nodes of
  \<open>services/workflow/onboarding.py\<close>. Amounts are whole riyals; \<open>int\<close> of a text accepts a sign and
  digits.
\<close>

subsection \<open>Numbers\<close>

definition trunc :: "real \<Rightarrow> int" where
  "trunc r = (if r < 0 then - \<lfloor>- r\<rfloor> else \<lfloor>r\<rfloor>)"

definition int_text :: "string \<Rightarrow> int option" where
  "int_text s =
     (let t = strip s;
          neg = starts_with ''-'' t;
          ds = (if neg \<or> starts_with ''+'' t then tl t else t)
      in if ds \<noteq> [] \<and> list_all is_digit ds then Some (if neg then - digits_value ds else digits_value ds)
         else None)"

text \<open>\<open>int(x)\<close> and \<open>int(float(x))\<close>: \<open>None\<close> for their \<open>TypeError\<close> and \<open>ValueError\<close>.\<close>

definition int_of_json :: "json \<Rightarrow> int option" where
  "int_of_json v =
     (case v of
        JInt i \<Rightarrow> Some i
      | JBool b \<Rightarrow> Some (if b then 1 else 0)
      | JReal r \<Rightarrow> Some (trunc r)
      | JStr s \<Rightarrow> int_text s
      | _ \<Rightarrow> None)"

definition int_float_of_json :: "ports \<Rightarrow> json \<Rightarrow> int option" where
  "int_float_of_json p v =
     (case v of JStr s \<Rightarrow> map_option trunc (pt_float p s) | _ \<Rightarrow> int_of_json v)"

text \<open>\<open>d.get(a) or d.get(b) or ...\<close>.\<close>

fun any_key :: "payload \<Rightarrow> string list \<Rightarrow> json" where
  "any_key d [] = JNull"
| "any_key d [k] = jget d k"
| "any_key d (k # k' # ks) = (if truthy (jget d k) then jget d k else any_key d (k' # ks))"

subsection \<open>The payment chain\<close>

definition business_details_fetch :: "ports \<Rightarrow> conv_ctx \<Rightarrow> conv_state \<Rightarrow> conv_state act" where
  "business_details_fetch p ctx st =
     andthen (live_token p st ctx) (\<lambda>c.
       let st' = with_creds c (conv_step ''business_details_fetch'' ctx st) in
       if \<not> is_set (fst c) then ret st'
       else andthen (ask p (E_Business (the (fst c)))) (\<lambda>result.
         ret (st'\<lparr>v_business_id := (case result of JObj d \<Rightarrow> jget d ''business_details_id'' | _ \<Rightarrow> JNull)\<rparr>)))"

text \<open>
  Only an active product charged to the applicant is picked, the credit assessment first. Without
  one there is no product.
\<close>

definition upper_field :: "ports \<Rightarrow> payload \<Rightarrow> string \<Rightarrow> string" where
  "upper_field p d k = upper (case jget d k of JStr s \<Rightarrow> s | v \<Rightarrow> pt_str p v)"

definition sme_product :: "ports \<Rightarrow> payload \<Rightarrow> bool" where
  "sme_product p d = (upper_field p d ''status'' = ''ACTIVE'' \<and> upper_field p d ''chargedParty'' = ''SME'')"

definition pick_product :: "ports \<Rightarrow> payload list \<Rightarrow> payload" where
  "pick_product p products =
     (let sme_active = filter (sme_product p) products in
      case filter (\<lambda>d. lower (case jget d ''code'' of JStr s \<Rightarrow> s | v \<Rightarrow> pt_str p v) = ''credit-assessment'')
             sme_active of
        d # _ \<Rightarrow> d
      | [] \<Rightarrow> (case sme_active of d # _ \<Rightarrow> d | [] \<Rightarrow> []))"

definition products_of :: "json \<Rightarrow> payload list" where
  "products_of result =
     (case result of
        JObj d \<Rightarrow> (case either_key d ''products'' ''data'' of JList xs \<Rightarrow> dict_items xs | _ \<Rightarrow> [])
      | JList xs \<Rightarrow> dict_items xs
      | _ \<Rightarrow> [])"

definition product_amount :: "payload \<Rightarrow> int option" where
  "product_amount d =
     int_of_json (any_key d [''amount'', ''amount_qar'', ''amountQar'', ''value'', ''valueQar'',
                             ''feeAmount'', ''priceAmount''])"

definition products_list_fetch :: "ports \<Rightarrow> conv_ctx \<Rightarrow> conv_state \<Rightarrow> conv_state act" where
  "products_list_fetch p ctx st =
     andthen (live_token p st ctx) (\<lambda>c.
       let st' = with_creds c (conv_step ''products_list_fetch'' ctx st) in
       if \<not> is_set (fst c) then ret st'
       else andthen (ask p (E_Products (the (fst c)))) (\<lambda>result.
         let product = pick_product p (products_of result) in
         ret (st'\<lparr>v_product_id := any_key product [''product_id'', ''productId'', ''id''],
                  v_amount := product_amount product\<rparr>)))"

definition payment_key :: "conv_ctx \<Rightarrow> string" where
  "payment_key ctx = k_run ctx @ '':create_monetization_payment''"

definition payment_create :: "ports \<Rightarrow> conv_ctx \<Rightarrow> conv_state \<Rightarrow> conv_state act" where
  "payment_create p ctx st =
     andthen (live_token p st ctx) (\<lambda>c.
       let st' = with_creds c (conv_step ''payment_create'' ctx st);
           amount = (case v_amount st of Some i \<Rightarrow> i | None \<Rightarrow> 0)
       in
       if \<not> (is_set (fst c) \<and> truthy (v_business_id st) \<and> truthy (v_product_id st) \<and> amount \<noteq> 0)
       then ret st'
       else andthen (ask p (E_Pay (the (fst c)) (v_business_id st) (v_product_id st) amount
                              (payment_key ctx))) (\<lambda>result.
         let d = (case result of JObj d \<Rightarrow> d | _ \<Rightarrow> []);
             actual = int_float_of_json p (any_key d [''payableAmount'', ''payable_amount'', ''amount'',
                                                      ''amount_qar''])
         in ret (st'\<lparr>v_payment_id := jget d ''payment_id'', v_payment_status := jget d ''status'',
                     v_payment_link := either_key d ''paymentLink'' ''payment_link'',
                     v_provider_ref := jget d ''providerOrderNumber'',
                     v_amount := or_int actual (v_amount st),
                     v_idem_keys := dput ''create_monetization_payment'' (payment_key ctx)
                                      (v_idem_keys st)\<rparr>)))"

definition payment_send_link :: "ports \<Rightarrow> conv_ctx \<Rightarrow> conv_state \<Rightarrow> conv_state act" where
  "payment_send_link p ctx st =
     (let b = B_Payment (or_int (v_amount st) None) (v_score st) (v_payment_link st) in
      andthen (if k_channel ctx = WHATSAPP \<and> truthy (v_payment_link st)
               then trying (truth (ask p (E_Cta WHATSAPP (k_identity ctx)
                                            ''onboarding.payment.request.button'' b)))
               else ret (Some False)) (\<lambda>sent.
      andthen (if sent = Some True then ret () else say p ctx st ''onboarding.payment.request'' b) (\<lambda>_.
      andthen (update_progress p st ctx 6) (\<lambda>_.
      andthen (call p (E_Schedule ''payment_pending'' (target_ref ctx st))) (\<lambda>_.
      andthen (live_token p st ctx) (\<lambda>c.
        ret (with_creds c (conv_step ''payment_send_link'' ctx st))))))))"

subsection \<open>\<open>payment_await\<close>\<close>

definition truthy_field :: "json \<Rightarrow> string \<Rightarrow> bool" where
  "truthy_field v k = (case v of JObj d \<Rightarrow> truthy (jget d k) | _ \<Rightarrow> False)"

text \<open>What the account says of a waived fee.\<close>

definition fee_cleared :: "json \<Rightarrow> bool" where
  "fee_cleared info =
     (case user_of info of
        None \<Rightarrow> False
      | Some u \<Rightarrow>
          truthy (either_key u ''onboardingFeePaid'' ''onboarding_fee_paid'') \<or>
          (case either_key u ''journeyStatus'' ''journey_status'' of
             JStr s \<Rightarrow> upper s \<in> {''ACCEPTED'', ''OFFER_ACCEPTED'', ''ACTIVATED'', ''OPEN''}
           | _ \<Rightarrow> False))"

definition poll_waiver :: "ports \<Rightarrow> conv_ctx \<Rightarrow> json \<Rightarrow> conv_state \<Rightarrow> bool act" where
  "poll_waiver p ctx result st =
     (if \<not> truthy_field result ''paid'' \<and>
         (case result of JObj d \<Rightarrow> jget d ''type'' \<in> {JStr ''status_update'', JStr ''phase1b_event''}
                       | _ \<Rightarrow> False)
      then andthen (live_token p st ctx) (\<lambda>c.
        if \<not> is_set (fst c) then ret False
        else andthen (trying (ask p (E_Me (the (fst c))))) (\<lambda>r.
          ret (case r of Some info \<Rightarrow> fee_cleared info | None \<Rightarrow> False)))
      else ret False)"

fun split_commas :: "string \<Rightarrow> string list" where
  "split_commas [] = [[]]"
| "split_commas (c # cs) =
     (if c = CHR '','' then [] # split_commas cs
      else (case split_commas cs of l # ls \<Rightarrow> (c # l) # ls | [] \<Rightarrow> [[c]]))"

fun bank_names :: "ports \<Rightarrow> json list \<Rightarrow> string list" where
  "bank_names p [] = []"
| "bank_names p (JList xs # rest) =
     map (\<lambda>b. case b of JStr s \<Rightarrow> s | v \<Rightarrow> pt_str p v) (filter truthy xs)"
| "bank_names p (JStr s # rest) =
     (if strip s \<noteq> [] then filter (\<lambda>b. b \<noteq> []) (map strip (split_commas s)) else bank_names p rest)"
| "bank_names p (_ # rest) = bank_names p rest"

definition banks_of :: "ports \<Rightarrow> json \<Rightarrow> string list" where
  "banks_of p result =
     (case result of
        JObj d \<Rightarrow>
          let own = either_key d ''banksToSend'' ''banks_to_send'';
              nested = map (\<lambda>k. case jget d k of
                                  JObj n \<Rightarrow> either_key n ''banksToSend'' ''banks_to_send'' | _ \<Rightarrow> JNull)
                         [''businessDetails'', ''business_details'']
          in bank_names p (filter (\<lambda>v. v \<noteq> JNull) (own # nested))
      | _ \<Rightarrow> [])"

definition fetch_banks_to_send :: "ports \<Rightarrow> conv_state \<Rightarrow> string list act" where
  "fetch_banks_to_send p st =
     (if \<not> is_set (v_access st) then ret []
      else andthen (trying (ask p (E_Business (the (v_access st))))) (\<lambda>r.
        ret (case r of Some result \<Rightarrow> banks_of p result | None \<Rightarrow> [])))"

definition reference_keys :: "string list" where
  "reference_keys =
     [''referenceNumber'', ''reference_number'', ''uniqueId'', ''unique_id'', ''applicationRef'',
      ''application_ref'']"

definition extract_reference_from_me :: "json \<Rightarrow> string option" where
  "extract_reference_from_me info =
     (let owners = (case info of
                      JObj d \<Rightarrow> d # (case user_of info of Some u \<Rightarrow> [u] | None \<Rightarrow> [])
                    | _ \<Rightarrow> []);
          found = filter (\<lambda>s. s \<noteq> [])
                    (List.map_filter (\<lambda>(d, k). text_field d k) (List.product owners reference_keys))
      in case found of [] \<Rightarrow> None | s # _ \<Rightarrow> Some s)"

definition confirm_payment :: "ports \<Rightarrow> conv_ctx \<Rightarrow> conv_state \<Rightarrow> conv_state act" where
  "confirm_payment p ctx st =
     (let st' = (conv_step ''payment_await'' ctx st)\<lparr>v_paid := True\<rparr> in
      andthen (suppress_reminders p st ctx) (\<lambda>_.
        if v_confirmed_sent st then ret st'
        else
          andthen (update_progress p st ctx 7) (\<lambda>_.
          andthen (fetch_banks_to_send p st) (\<lambda>banks.
          andthen (if is_set (v_ref st) then ret (v_ref st)
                   else andthen (live_token p st ctx) (\<lambda>c.
                     if \<not> is_set (fst c) then ret (v_ref st)
                     else andthen (trying (ask p (E_Me (the (fst c))))) (\<lambda>r.
                       ret (case r of Some info \<Rightarrow> extract_reference_from_me info | None \<Rightarrow> v_ref st))))
            (\<lambda>ref.
              andthen (say p ctx st ''onboarding.payment.confirmed''
                         (B_Confirmed banks (case ref of Some s \<Rightarrow> s | None \<Rightarrow> []))) (\<lambda>_.
                ret (st'\<lparr>v_confirmed_sent := True, v_ref := or_text ref (v_ref st)\<rparr>)))))))"

definition payment_await :: "ports \<Rightarrow> conv_ctx \<Rightarrow> json \<Rightarrow> conv_state \<Rightarrow> conv_state act" where
  "payment_await p ctx result st =
     (let sh = pt_str p; here = conv_step ''payment_await'' ctx st;
          remind = andthen (say p ctx st ''onboarding.payment.awaiting'' B_None)
                     (\<lambda>_. ret (here\<lparr>v_paid := False\<rparr>));
          advanced = extract_journey_status result;
          paid = truthy_field result ''paid''
      in
      case off_script_template sh result of
        Some t \<Rightarrow>
          andthen (say p ctx st ''onboarding.help.contextual'' (B_Answer (A_Help t))) (\<lambda>_. remind)
      | None \<Rightarrow>
          if is_status_query sh result then remind
          else if post_payment advanced then
            ret (here\<lparr>v_paid := True, v_journey := advanced,
                      v_source := Some (extract_status_source result)\<rparr>)
          else andthen (poll_waiver p ctx result st) (\<lambda>waived.
            if waived then ret (here\<lparr>v_paid := True, v_source := Some ''poll''\<rparr>)
            else if paid \<and> (case result of JObj d \<Rightarrow> jget d ''event'' = JStr ''qualified.waived'' | _ \<Rightarrow> False)
            then ret (here\<lparr>v_paid := True, v_source := Some ''webhook''\<rparr>)
            else if paid then confirm_payment p ctx st
            else if (case result of JObj d \<Rightarrow> strip (text_or_empty sh (jget d ''text'')) \<noteq> [] | _ \<Rightarrow> False)
            then andthen (smart_contextual p ctx st result ''the fee'') (\<lambda>_. remind)
            else ret (here\<lparr>v_paid := False\<rparr>)))"

subsection \<open>Offers\<close>

definition extract_list :: "json \<Rightarrow> string list \<Rightarrow> json list option" where
  "extract_list info ks =
     (let owners = (case info of
                      JObj d \<Rightarrow> d # (case user_of info of Some u \<Rightarrow> [u] | None \<Rightarrow> [])
                    | _ \<Rightarrow> []);
          found = List.map_filter (\<lambda>(d, k). case jget d k of JList xs \<Rightarrow> Some xs | _ \<Rightarrow> None)
                    (List.product owners ks)
      in case found of [] \<Rightarrow> None | xs # _ \<Rightarrow> Some xs)"

definition offer_date :: "payload \<Rightarrow> string option" where
  "offer_date d =
     (case filter (\<lambda>s. s \<noteq> []) (List.map_filter (text_field d)
        [''createdAt'', ''created_at'', ''offeredAt'', ''offered_at'', ''createdDate'',
         ''created_date'', ''submittedAt'', ''submitted_at'']) of
        [] \<Rightarrow> None | s # _ \<Rightarrow> Some s)"

text \<open>Oldest first; an offer without a date comes after all dated ones.\<close>

definition sort_offers :: "payload list \<Rightarrow> payload list" where
  "sort_offers offers =
     sort_key (\<lambda>d. the (offer_date d)) (filter (\<lambda>d. offer_date d \<noteq> None) offers) @
     filter (\<lambda>d. offer_date d = None) offers"

definition extract_offers_from_me :: "json \<Rightarrow> payload list" where
  "extract_offers_from_me info =
     (case extract_list info [''offersReceived'', ''offers'', ''offer_list''] of
        None \<Rightarrow> [] | Some xs \<Rightarrow> sort_offers (dict_items xs))"

definition offers_fetch :: "ports \<Rightarrow> conv_ctx \<Rightarrow> conv_state \<Rightarrow> conv_state act" where
  "offers_fetch p ctx st =
     (let known = (case jget (v_registration st) ''offers'' of JList xs \<Rightarrow> dict_items xs | _ \<Rightarrow> []) in
      andthen (live_token p st ctx) (\<lambda>c.
      andthen (if known = [] \<and> is_set (fst c) then trying (ask p (E_Me (the (fst c)))) else ret None) (\<lambda>r.
      andthen (update_progress p st ctx 8) (\<lambda>n.
        ret (with_creds c ((conv_step ''offers_fetch'' ctx st)
               \<lparr>v_offers := (case r of Some info \<Rightarrow> extract_offers_from_me info | None \<Rightarrow> known),
                v_progress := or_int n (v_progress st)\<rparr>))))))"

definition offer_view_send :: "ports \<Rightarrow> conv_ctx \<Rightarrow> conv_state \<Rightarrow> conv_state act" where
  "offer_view_send p ctx st =
     (let here = conv_step ''offer_view_send'' ctx st; sig = pt_offers_sig p (v_offers st);
          show_offers = andthen (say p ctx st ''onboarding.offers.preview'' (B_Offers (v_offers st)))
                          (\<lambda>_. ret (here\<lparr>v_preview_sig := Some sig\<rparr>))
      in
      if v_preview_sig st = Some sig then ret here
      else if 0 < pt_offers_debounce p then
        andthen (now p) (\<lambda>t.
          case v_first_seen st of
            None \<Rightarrow> ret (here\<lparr>v_first_seen := Some t\<rparr>)
          | Some t0 \<Rightarrow> if t - t0 < pt_offers_debounce p then ret here else show_offers)
      else show_offers)"

definition offer_handoff_to_madad :: "ports \<Rightarrow> conv_ctx \<Rightarrow> conv_state \<Rightarrow> conv_state act" where
  "offer_handoff_to_madad p ctx st =
     ret ((conv_step ''offer_handoff_to_madad'' ctx st)
            \<lparr>v_outcome := Some ''offer_handoff'', v_shown_sig := Some (pt_offers_sig p (v_offers st))\<rparr>)"

text \<open>\<open>_lender_name\<close>: a non-blank text, or the name inside a nested lender.\<close>

definition nonblank :: "json \<Rightarrow> string option" where
  "nonblank v = (case v of JStr s \<Rightarrow> if strip s = [] then None else Some (strip s) | _ \<Rightarrow> None)"

definition lender_name :: "payload \<Rightarrow> string option" where
  "lender_name d =
     (let flat = List.map_filter (\<lambda>k. nonblank (jget d k))
                   [''lenderName'', ''bankName'', ''lender_name'', ''bank_name''];
          deep = List.map_filter (\<lambda>k. case jget d k of
                     JObj n \<Rightarrow> nonblank (either_key n ''name'' ''displayName'') | v \<Rightarrow> nonblank v)
                   [''lender'', ''financialInstitution'', ''bank'']
      in case flat @ deep of [] \<Rightarrow> None | s # _ \<Rightarrow> Some s)"

definition offer_confirmed :: "ports \<Rightarrow> conv_ctx \<Rightarrow> conv_state \<Rightarrow> conv_state act" where
  "offer_confirmed p ctx st =
     (let here = conv_step ''offer_confirmed'' ctx st in
      if v_offer_confirmed_sent st then ret here
      else andthen (say p ctx st ''onboarding.offer.confirmed''
                      (B_Lender (lender_name (case v_selected st of Some d \<Rightarrow> d | None \<Rightarrow> []))))
             (\<lambda>_. ret (here\<lparr>v_offer_confirmed_sent := True\<rparr>)))"

subsection \<open>Activation\<close>

definition extract_credit_line_from_me :: "ports \<Rightarrow> json \<Rightarrow> payload" where
  "extract_credit_line_from_me p info =
     (let owners = (case info of
                      JObj d \<Rightarrow> d # (case user_of info of Some u \<Rightarrow> [u] | None \<Rightarrow> [])
                    | _ \<Rightarrow> []);
          active = (\<lambda>e. let s = upper (text_or_empty (pt_str p) (either_key e ''status'' ''state''))
                        in s = [] \<or> contains ''ACTIVE'' s);
          pick = (\<lambda>d. case either_key d ''creditLines'' ''credit_lines'' of
                         JList xs \<Rightarrow>
                           (case filter active (dict_items xs) of
                              e # _ \<Rightarrow> Some e
                            | [] \<Rightarrow> (case xs of JObj e # _ \<Rightarrow> Some e | _ \<Rightarrow> None))
                       | _ \<Rightarrow> None)
      in case List.map_filter pick owners of [] \<Rightarrow> [] | e # _ \<Rightarrow> e)"

definition accepted_offer :: "ports \<Rightarrow> payload list \<Rightarrow> payload" where
  "accepted_offer p offers =
     (case filter (\<lambda>d. contains ''ACCEPT''
                         (upper (text_or_empty (pt_str p) (either_key d ''status'' ''offerStatus''))))
             offers of
        d # _ \<Rightarrow> d
      | [] \<Rightarrow> (case offers of d # _ \<Rightarrow> d | [] \<Rightarrow> []))"

definition activated :: "ports \<Rightarrow> conv_ctx \<Rightarrow> conv_state \<Rightarrow> conv_state act" where
  "activated p ctx st =
     (let offer = (case v_selected st of Some d \<Rightarrow> d | None \<Rightarrow> []);
          line = (case jget (v_registration st) ''creditLine'' of JObj d \<Rightarrow> d | _ \<Rightarrow> [])
      in
      andthen (live_token p st ctx) (\<lambda>c.
      andthen (if offer = [] \<and> line = [] \<and> is_set (fst c)
               then trying (ask p (E_Me (the (fst c)))) else ret None) (\<lambda>r.
        let line' = (case r of Some info \<Rightarrow> extract_credit_line_from_me p info | None \<Rightarrow> line);
            offers = (case r of
                        Some info \<Rightarrow> if v_offers st = [] then extract_offers_from_me info else v_offers st
                      | None \<Rightarrow> v_offers st);
            offer' = (if offer = [] then accepted_offer p offers else offer)
        in
        andthen (if v_offer_confirmed_sent st then ret None
                 else trying (say p ctx st ''onboarding.offer.confirmed'' (B_Activated line' offer'))) (\<lambda>back.
        andthen (say p ctx st ''onboarding.activated'' (B_Activated line' offer')) (\<lambda>_.
          ret (with_creds c ((conv_step ''activated'' ctx st)
                 \<lparr>v_outcome := Some ''completed'',
                  v_offer_confirmed_sent := (v_offer_confirmed_sent st \<or> back \<noteq> None)\<rparr>)))))))"

end
