(* ===== verification/Conv_Run.thy ===== *)
theory Conv_Run
  imports Conv_Walks Conv_Pay
begin

section \<open>Runs of the conversation\<close>

text \<open>
  The nodes under their names, and the configurations of one run: the calls made so far, the node
  that runs next and the state it is entered with. A node runs to its end and the graph picks the
  next; it raises and will run again with the same state; the run is parked and comes back from its
  checkpoint. Other runs show only in what the ports answer. A run is followed until the collection
  of invoices begins.
\<close>

definition node_table ::
  "ports \<Rightarrow> conv_ctx \<Rightarrow> json \<Rightarrow> conv_state \<Rightarrow> (string \<times> conv_state act) list"
where
  "node_table p ctx reply st =
     [(''entry_registration_check'', entry_registration_check p ctx st),
      (''campaign_send'', campaign_send p ctx st),
      (''campaign_await'', campaign_await p ctx reply st), (''declined'', declined p ctx st),
      (''check_contact_send'', check_contact_send p ctx st),
      (''check_contact_await'', check_contact_await p ctx st),
      (''domain_blocked'', domain_blocked p ctx st),
      (''registered_route_send'', registered_route_send p ctx st),
      (''channel_session_resume'', channel_session_resume p ctx st),
      (''resume_status_fetch'', resume_status_fetch p ctx st),
      (''resume_rejected'', resume_rejected p ctx st),
      (''resume_offer_expired'', resume_offer_expired p ctx st),
      (''resume_application_open'', resume_application_open p ctx st),
      (''channel_session_first'', channel_session_first p ctx st),
      (''channel_session_create_user'', channel_session_create_user p ctx st),
      (''complete_onboarding_send'', complete_onboarding_send p ctx st),
      (''channel_session_second'', channel_session_second p ctx st),
      (''business_email_send'', business_email_send p ctx st),
      (''business_email_await'', business_email_await p ctx reply st),
      (''business_email_conflict_send'', business_email_conflict_send p ctx st),
      (''consent_send'', consent_send p ctx st),
      (''consent_await'', consent_await p ctx reply st),
      (''cr_upload_base64'', cr_upload_base64 p ctx st),
      (''not_eligible'', not_eligible p ctx st),
      (''financials_send'', financials_send p ctx st),
      (''financials_await'', financials_await p ctx reply st),
      (''financials_upload_base64'', financials_upload_base64 p ctx st),
      (''documents_list_fetch'', documents_list_fetch p ctx st),
      (''documents_upload_loop_send'', documents_upload_loop_send p ctx st),
      (''documents_upload_loop_await'', documents_upload_loop_await p ctx reply st),
      (''documents_complete'', documents_complete p ctx st),
      (''prequalify_wait_await'', prequalify_wait_await p ctx reply st),
      (''payment_wait_await'', payment_wait_await p ctx reply st),
      (''status_poll_on_demand'', status_poll_on_demand p ctx st),
      (''journey_wait_await'', journey_wait_await p ctx reply st),
      (''not_qualified'', not_qualified p ctx st),
      (''not_pre_qualified'', not_pre_qualified p ctx st),
      (''not_qatar_based'', not_qatar_based p ctx st),
      (''business_details_fetch'', business_details_fetch p ctx st),
      (''products_list_fetch'', products_list_fetch p ctx st),
      (''payment_create'', payment_create p ctx st),
      (''payment_send_link'', payment_send_link p ctx st),
      (''payment_await'', payment_await p ctx reply st),
      (''lender_status_poll'', lender_status_poll p ctx st),
      (''lender_wait_await'', lender_wait_await p ctx reply st),
      (''offers_fetch'', offers_fetch p ctx st),
      (''offer_view_send'', offer_view_send p ctx st),
      (''offer_handoff_to_madad'', offer_handoff_to_madad p ctx st),
      (''offer_confirmed'', offer_confirmed p ctx st), (''activated'', activated p ctx st)]"

definition run_node ::
  "ports \<Rightarrow> string \<Rightarrow> conv_ctx \<Rightarrow> json \<Rightarrow> conv_state \<Rightarrow> conv_state act option"
where
  "run_node p n ctx reply st = map_of (node_table p ctx reply st) n"

type_synonym config = "trace \<times> string \<times> conv_state"

inductive advances :: "ports \<Rightarrow> string \<Rightarrow> config \<Rightarrow> config \<Rightarrow> bool"
  for p :: ports and run :: string
where
  ran: "k_run ctx = run \<Longrightarrow> run_node p n ctx reply st = Some m \<Longrightarrow> m s = (Inr st', s') \<Longrightarrow>
     next_node n st' = Some n' \<Longrightarrow> advances p run (io_trace s, n, st) (io_trace s', n', st')"
| raised: "k_run ctx = run \<Longrightarrow> run_node p n ctx reply st = Some m \<Longrightarrow> m s = (Inl e, s') \<Longrightarrow>
     advances p run (io_trace s, n, st) (io_trace s', n, st)"
| slept: "advances p run (tr, n, st) (tr, n, checkpointed st)"

inductive_cases advancesE: "advances p run (tr, n, st) c"

definition reaches :: "ports \<Rightarrow> channel \<Rightarrow> string \<Rightarrow> string \<Rightarrow> config \<Rightarrow> bool" where
  "reaches p ch ident run c =
     rtranclp (advances p run) ([], ''entry_registration_check'', fresh_state ch ident) c"

text \<open>
  An invariant of a run: a property of the configurations that holds at the start and that every step
  keeps, and so of all configurations the run reaches.
\<close>

locale run_invariant =
  fixes p :: ports and ch :: channel and ident :: string and run :: string
    and I :: "config \<Rightarrow> bool"
  assumes start: "I ([], ''entry_registration_check'', fresh_state ch ident)"
    and step: "I c \<Longrightarrow> advances p run c d \<Longrightarrow> I d"
begin

lemma reached: "reaches p ch ident run c \<Longrightarrow> I c"
  unfolding reaches_def by (induction rule: rtranclp_induct) (auto intro: start step)

lemma later: "I c \<Longrightarrow> rtranclp (advances p run) c d \<Longrightarrow> I d"
  by (rotate_tac, induction rule: rtranclp_induct) (auto intro: step)

end

interpretation at: run_invariant p ch ident run "\<lambda>c. visited (fst (snd c))" for p ch ident run
proof
  show "visited (fst (snd ([], ''entry_registration_check'', fresh_state ch ident)))"
    by (simp add: visited.start)
next
  fix c d :: config
  assume "visited (fst (snd c))" and m: "advances p run c d"
  from m this show "visited (fst (snd d))" by cases (auto intro: visited.step)
qed

lemma reaches_visited: "reaches p ch ident run c \<Longrightarrow> visited (fst (snd c))"
  by (rule at.reached)

end
