(* ===== verification/Conv_Keep.thy ===== *)
theory Conv_Keep
  imports Conv_Run
begin

section \<open>What the nodes leave alone\<close>

text \<open>
  For every node of the conversation: whether it writes the paid flag, and that only
  \<open>payment_create\<close> asks for a payment. Both follow the structure of the actions, by the rules
  for \<open>ends\<close> and \<open>emits\<close>.
\<close>

subsection \<open>More rules\<close>

lemma ends_option [end_rules]:
  "(x = None \<Longrightarrow> ends Q a) \<Longrightarrow> (\<And>y. x = Some y \<Longrightarrow> ends Q (b y)) \<Longrightarrow>
     ends Q (case x of None \<Rightarrow> a | Some y \<Rightarrow> b y)"
  by (cases x) simp_all

lemma ends_list [end_rules]:
  "(x = [] \<Longrightarrow> ends Q a) \<Longrightarrow> (\<And>y ys. x = y # ys \<Longrightarrow> ends Q (b y ys)) \<Longrightarrow>
     ends Q (case x of [] \<Rightarrow> a | y # ys \<Rightarrow> b y ys)"
  by (cases x) simp_all

lemma ends_prod [end_rules]: "(\<And>a b. x = (a, b) \<Longrightarrow> ends Q (f a b)) \<Longrightarrow> ends Q (case x of (a, b) \<Rightarrow> f a b)"
  by (cases x) simp

lemma ends_let [end_rules]: "ends Q (f x) \<Longrightarrow> ends Q (Let x f)"
  by (simp add: Let_def)

lemma ends_intent [end_rules]:
  "ends Q a \<Longrightarrow> ends Q b \<Longrightarrow> ends Q (case x of More_Docs \<Rightarrow> a | Docs_Done \<Rightarrow> b)"
  by (cases x) simp_all

lemma emits_option [emit_rules]:
  "(x = None \<Longrightarrow> emits E a) \<Longrightarrow> (\<And>y. x = Some y \<Longrightarrow> emits E (b y)) \<Longrightarrow>
     emits E (case x of None \<Rightarrow> a | Some y \<Rightarrow> b y)"
  by (cases x) simp_all

lemma emits_list [emit_rules]:
  "(x = [] \<Longrightarrow> emits E a) \<Longrightarrow> (\<And>y ys. x = y # ys \<Longrightarrow> emits E (b y ys)) \<Longrightarrow>
     emits E (case x of [] \<Rightarrow> a | y # ys \<Rightarrow> b y ys)"
  by (cases x) simp_all

lemma emits_prod [emit_rules]: "(\<And>a b. x = (a, b) \<Longrightarrow> emits E (f a b)) \<Longrightarrow> emits E (case x of (a, b) \<Rightarrow> f a b)"
  by (cases x) simp

lemma emits_let [emit_rules]: "emits E (f x) \<Longrightarrow> emits E (Let x f)"
  by (simp add: Let_def)

lemma emits_intent [emit_rules]:
  "emits E a \<Longrightarrow> emits E b \<Longrightarrow> emits E (case x of More_Docs \<Rightarrow> a | Docs_Done \<Rightarrow> b)"
  by (cases x) simp_all

lemma emits_json [emit_rules]:
  "emits E n \<Longrightarrow> (\<And>x. emits E (bo x)) \<Longrightarrow> (\<And>x. emits E (i x)) \<Longrightarrow> (\<And>x. emits E (r x)) \<Longrightarrow>
   (\<And>x. emits E (s x)) \<Longrightarrow> (\<And>x. emits E (l x)) \<Longrightarrow> (\<And>x. emits E (ob x)) \<Longrightarrow>
     emits E (case x of JNull \<Rightarrow> n | JBool x \<Rightarrow> bo x | JInt x \<Rightarrow> i x | JReal x \<Rightarrow> r x
              | JStr x \<Rightarrow> s x | JList x \<Rightarrow> l x | JObj x \<Rightarrow> ob x)"
  by (cases x) simp_all

lemma emits_read [emit_rules]: "emits E (\<lambda>s. (r s, s))"
  by (rule emits_state) simp

lemma emits_note [emit_rules]: "emits E (note_sent k t)"
  by (simp add: emits_def note_sent_def)

lemma emits_last [emit_rules]: "emits E (last_notice k)"
  by (simp add: emits_def last_notice_def)

subsection \<open>The paid flag\<close>

lemma step_paid [simp]: "v_paid (conv_step n ctx st) = v_paid st"
  by (simp add: conv_step_def)

lemma creds_paid [simp]: "v_paid (with_creds c st) = v_paid st"
  by (simp add: with_creds_def split: prod.split)

lemma session_paid [simp]: "v_paid (with_session s st) = v_paid st"
  by (simp add: with_session_def)

lemma capture_paid:
  "ends (\<lambda>r. \<forall>st'. r = Some st' \<longrightarrow> v_paid st' = v_paid st) (capture_additional_documents p st ctx j)"
  unfolding capture_additional_documents_def by (intro end_rules) simp_all

lemma closing_paid [end_rules]:
  "ends (\<lambda>st'. v_paid st' = v_paid st) (closing n k b o' p ctx st)"
  unfolding closing_def by (intro end_rules) simp_all

lemma parked_paid [end_rules]:
  assumes "\<And>x. v_paid (shut x) = v_paid x"
  shows "ends (\<lambda>st'. v_paid st' = v_paid st) (stay_parked p ctx j st l shut)"
  unfolding stay_parked_def
  by (intro ends_if ends_ret ends_andthen [OF capture_paid] end_rules) (simp_all add: assms)

lemma phase1b_paid [end_rules]:
  "ends (\<lambda>st'. v_paid st' = v_paid st) (apply_phase1b_event p ctx d n st)"
  unfolding apply_phase1b_event_def by (intro end_rules) simp_all

lemma entry_nodes_paid [end_rules]:
  "ends (\<lambda>st'. v_paid st' = v_paid st) (entry_registration_check p ctx st)"
  "ends (\<lambda>st'. v_paid st' = v_paid st) (campaign_send p ctx st)"
  "ends (\<lambda>st'. v_paid st' = v_paid st) (campaign_await p ctx reply st)"
  "ends (\<lambda>st'. v_paid st' = v_paid st) (check_contact_send p ctx st)"
  "ends (\<lambda>st'. v_paid st' = v_paid st) (check_contact_await p ctx st)"
  "ends (\<lambda>st'. v_paid st' = v_paid st) (registered_route_send p ctx st)"
  "ends (\<lambda>st'. v_paid st' = v_paid st) (channel_session_resume p ctx st)"
  "ends (\<lambda>st'. v_paid st' = v_paid st) (resume_status_fetch p ctx st)"
  "ends (\<lambda>st'. v_paid st' = v_paid st) (channel_session_first p ctx st)"
  "ends (\<lambda>st'. v_paid st' = v_paid st) (channel_session_second p ctx st)"
  "ends (\<lambda>st'. v_paid st' = v_paid st) (channel_session_create_user p ctx st)"
  "ends (\<lambda>st'. v_paid st' = v_paid st) (complete_onboarding_send p ctx st)"
  "ends (\<lambda>st'. v_paid st' = v_paid st) (business_email_send p ctx st)"
  "ends (\<lambda>st'. v_paid st' = v_paid st) (business_email_await p ctx reply st)"
  "ends (\<lambda>st'. v_paid st' = v_paid st) (business_email_conflict_send p ctx st)"
  "ends (\<lambda>st'. v_paid st' = v_paid st) (consent_send p ctx st)"
  "ends (\<lambda>st'. v_paid st' = v_paid st) (consent_await p ctx reply st)"
  "ends (\<lambda>st'. v_paid st' = v_paid st) (cr_upload_base64 p ctx st)"
  "ends (\<lambda>st'. v_paid st' = v_paid st) (financials_send p ctx st)"
  "ends (\<lambda>st'. v_paid st' = v_paid st) (financials_await p ctx reply st)"
  "ends (\<lambda>st'. v_paid st' = v_paid st) (financials_upload_base64 p ctx st)"
  unfolding entry_registration_check_def campaign_send_def campaign_await_def
    check_contact_send_def check_contact_await_def registered_route_send_def
    channel_session_resume_def resume_status_fetch_def channel_session_first_def
    channel_session_second_def channel_session_create_user_def complete_onboarding_send_def
    business_email_send_def business_email_await_def business_email_conflict_send_def
    consent_send_def consent_await_def cr_upload_base64_def financials_send_def
    financials_await_def financials_upload_base64_def Let_def
  by (intro end_rules; simp)+

lemma late_nodes_paid [end_rules]:
  "ends (\<lambda>st'. v_paid st' = v_paid st) (documents_list_fetch p ctx st)"
  "ends (\<lambda>st'. v_paid st' = v_paid st) (documents_upload_loop_send p ctx st)"
  "ends (\<lambda>st'. v_paid st' = v_paid st) (documents_complete p ctx st)"
  "ends (\<lambda>st'. v_paid st' = v_paid st) (prequalify_wait_await p ctx reply st)"
  "ends (\<lambda>st'. v_paid st' = v_paid st) (status_poll n p ctx st)"
  "ends (\<lambda>st'. v_paid st' = v_paid st) (status_wait n b p ctx reply st)"
  "ends (\<lambda>st'. v_paid st' = v_paid st) (business_details_fetch p ctx st)"
  "ends (\<lambda>st'. v_paid st' = v_paid st) (products_list_fetch p ctx st)"
  "ends (\<lambda>st'. v_paid st' = v_paid st) (payment_create p ctx st)"
  "ends (\<lambda>st'. v_paid st' = v_paid st) (payment_send_link p ctx st)"
  "ends (\<lambda>st'. v_paid st' = v_paid st) (offers_fetch p ctx st)"
  "ends (\<lambda>st'. v_paid st' = v_paid st) (offer_view_send p ctx st)"
  "ends (\<lambda>st'. v_paid st' = v_paid st) (offer_handoff_to_madad p ctx st)"
  "ends (\<lambda>st'. v_paid st' = v_paid st) (offer_confirmed p ctx st)"
  "ends (\<lambda>st'. v_paid st' = v_paid st) (activated p ctx st)"
  unfolding documents_list_fetch_def documents_upload_loop_send_def documents_complete_def
    prequalify_wait_await_def status_poll_def status_wait_def business_details_fetch_def
    products_list_fetch_def payment_create_def payment_send_link_def offers_fetch_def
    offer_view_send_def offer_handoff_to_madad_def offer_confirmed_def activated_def Let_def
  by (intro end_rules; simp)+

subsection \<open>Payments\<close>

text \<open>Every call but the creation of a payment.\<close>

definition free :: "effect set" where
  "free = {e. case e of E_Pay _ _ _ _ _ \<Rightarrow> False | _ \<Rightarrow> True}"

lemma free_simps [simp]:
  "E_Now \<in> free" "E_Send c i k b \<in> free" "E_Template c i k b \<in> free" "E_Cta c i k b \<in> free"
  "E_Buttons c i k b \<in> free" "E_Open c i f g \<in> free" "E_Check_Contact c i \<in> free"
  "E_Check_Registration c i \<in> free" "E_Complete t e ph l r \<in> free" "E_Me t \<in> free"
  "E_Business_Email e u \<in> free" "E_Progress u c i n \<in> free" "E_Schedule w t \<in> free"
  "E_Suppress t \<in> free" "E_Claim k n \<in> free" "E_Kyc kind t co nm m \<in> free" "E_Checklist k \<in> free"
  "E_Admin_Docs t \<in> free" "E_Business t \<in> free" "E_Products t \<in> free" "E_Answer t \<in> free"
  "E_Email_Intent t \<in> free" "E_Pay t bi pr a k \<notin> free"
  by (simp_all add: free_def)

lemma say_on_free [emit_rules]: "emits free (say_on p ch i k b)"
  unfolding say_on_def truth_def by (intro emit_rules) simp_all

lemma say_free [emit_rules]: "emits free (say p ctx st k b)"
  unfolding say_def by (intro emit_rules)

lemma mint_free [emit_rules]: "emits free (mint_session p ctx st)"
  unfolding mint_session_def Let_def by (intro emit_rules) simp_all

lemma token_free [emit_rules]: "emits free (live_token p st ctx)"
  unfolding live_token_def by (intro emit_rules) simp_all

lemma poll_free [emit_rules]: "emits free (poll_journey_status p st)"
  unfolding poll_journey_status_def by (intro emit_rules) simp_all

lemma progress_free [emit_rules]: "emits free (update_progress p st ctx n)"
  unfolding update_progress_def by (intro emit_rules) simp_all

lemma answers_free [emit_rules]:
  "emits free (suppress_reminders p st ctx)"
  "emits free (smart_contextual p ctx st reply l)"
  "emits free (safe_status_answer p st)" "emits free (safe_portal_answer p st)"
  unfolding suppress_reminders_def smart_contextual_def safe_status_answer_def safe_portal_answer_def
  by (intro emit_rules; simp)+

lemma off_script_free [emit_rules]: "emits free (contextual_off_script p ctx st reply l)"
  unfolding contextual_off_script_def by (intro emit_rules)

lemma notify_free [emit_rules]: "emits free (notify_upload_failure p ctx st site)"
  unfolding notify_upload_failure_def by (intro emit_rules) simp_all

lemma drain_free [emit_rules]: "emits free (drain p token ds)"
  by (induction ds) (auto simp: Let_def intro!: emit_rules)

lemma store_free [emit_rules]: "emits free (store_additional p ctx st token as)"
  by (induction as) (auto intro!: emit_rules)

lemma capture_free [emit_rules]:
  "emits free (drain_pending_extras p st tk)" "emits free (capture_additional_documents p st ctx j)"
  unfolding drain_pending_extras_def capture_additional_documents_def Let_def
  by (intro emit_rules)+

lemma closing_free [emit_rules]: "emits free (closing n k b o' p ctx st)"
  unfolding closing_def by (intro emit_rules)

lemma persist_free [emit_rules]: "e \<in> free \<Longrightarrow> emits free (must_persist p ctx st site msg e)"
  unfolding must_persist_def by (intro emit_rules)

lemma parked_free [emit_rules]:
  "emits free (stay_parked p ctx j st l shut)" "emits free (apply_phase1b_event p ctx d n st)"
  unfolding stay_parked_def apply_phase1b_event_def Let_def by (intro emit_rules; simp)+

lemma claimed_free [emit_rules]: "emits free (claimed p k n)"
  unfolding claimed_def truth_def by (intro emit_rules) simp_all

lemma entry_nodes_free:
  "emits free (entry_registration_check p ctx st)"
  "emits free (campaign_send p ctx st)"
  "emits free (campaign_await p ctx reply st)"
  "emits free (check_contact_send p ctx st)"
  "emits free (check_contact_await p ctx st)"
  "emits free (registered_route_send p ctx st)"
  "emits free (channel_session_resume p ctx st)"
  "emits free (resume_status_fetch p ctx st)"
  "emits free (channel_session_first p ctx st)"
  "emits free (channel_session_second p ctx st)"
  "emits free (channel_session_create_user p ctx st)"
  "emits free (complete_onboarding_send p ctx st)"
  "emits free (business_email_send p ctx st)"
  "emits free (business_email_await p ctx reply st)"
  "emits free (business_email_conflict_send p ctx st)"
  "emits free (consent_send p ctx st)"
  "emits free (consent_await p ctx reply st)"
  "emits free (cr_upload_base64 p ctx st)"
  "emits free (financials_send p ctx st)"
  "emits free (financials_await p ctx reply st)"
  "emits free (financials_upload_base64 p ctx st)"
  unfolding entry_registration_check_def campaign_send_def campaign_await_def truth_def
    check_contact_send_def check_contact_await_def registered_route_send_def
    channel_session_resume_def resume_status_fetch_def channel_session_first_def
    channel_session_second_def channel_session_create_user_def complete_onboarding_send_def
    business_email_send_def business_email_await_def business_email_conflict_send_def
    consent_send_def consent_await_def cr_upload_base64_def financials_send_def
    financials_await_def financials_upload_base64_def Let_def
  by (intro emit_rules; simp)+

lemma zip_free [emit_rules]: "emits free (zip_pass p token expected as b)"
proof (induction as arbitrary: b)
  case (Cons a as)
  show ?case by (auto simp: Let_def intro!: emit_rules Cons)
qed (simp add: emit_rules)

lemma batch_free [emit_rules]:
  "emits free (classify_one p token a)"
  "emits free (acknowledge_uploads p ctx st v u z m ok)"
  "emits free (failure_receipt p ctx st f u)"
  "emits free (processing_ack p ctx st z t)"
  unfolding classify_one_def acknowledge_uploads_def failure_receipt_def processing_ack_def
  by (intro emit_rules; simp)+

lemma docs_free [emit_rules]:
  "emits free (process_files p ctx st as)" "emits free (docs_paid_event p ctx reply st)"
  "emits free (docs_forced_status p ctx reply j st)" "emits free (docs_settle p ctx st)"
  "emits free (send_pending_docs p ctx st)"
  unfolding process_files_def docs_paid_event_def docs_forced_status_def docs_settle_def
    send_pending_docs_def truth_def Let_def
  by (intro emit_rules; simp)+

lemma docs_parts_free [emit_rules]:
  "emits free (docs_chat p ctx reply st)" "emits free (docs_upload p ctx st as)"
  unfolding docs_chat_def docs_upload_def Let_def by (intro emit_rules; simp)+

lemma money_free [emit_rules]:
  "emits free (poll_waiver p ctx j st)" "emits free (fetch_banks_to_send p st)"
  unfolding poll_waiver_def fetch_banks_to_send_def by (intro emit_rules; simp)+

lemma confirm_free [emit_rules]: "emits free (confirm_payment p ctx st)"
  unfolding confirm_payment_def Let_def by (intro emit_rules; simp)

lemma late_nodes_free:
  "emits free (documents_list_fetch p ctx st)"
  "emits free (documents_upload_loop_send p ctx st)"
  "emits free (documents_upload_loop_await p ctx reply st)"
  "emits free (documents_complete p ctx st)"
  "emits free (prequalify_wait_await p ctx reply st)"
  "emits free (payment_wait_await p ctx reply st)"
  "emits free (status_poll n p ctx st)"
  "emits free (status_wait n b p ctx reply st)"
  "emits free (business_details_fetch p ctx st)"
  "emits free (products_list_fetch p ctx st)"
  "emits free (payment_send_link p ctx st)"
  "emits free (payment_await p ctx reply st)"
  "emits free (offers_fetch p ctx st)"
  "emits free (offer_view_send p ctx st)"
  "emits free (offer_handoff_to_madad p ctx st)"
  "emits free (offer_confirmed p ctx st)"
  "emits free (activated p ctx st)"
  unfolding documents_list_fetch_def documents_upload_loop_send_def documents_upload_loop_await_def
    documents_complete_def prequalify_wait_await_def payment_wait_await_def status_poll_def
    status_wait_def business_details_fetch_def products_list_fetch_def payment_send_link_def
    payment_await_def offers_fetch_def offer_view_send_def offer_handoff_to_madad_def
    offer_confirmed_def activated_def truth_def Let_def
  by (intro emit_rules; simp)+

end
