(* ===== verification/Conv_Demo.thy ===== *)
theory Conv_Demo
  imports Conv_Run
begin

section \<open>A run, evaluated\<close>

text \<open>
  An executable step of a run, and the ports of one applicant, on which the theorems about runs are
  shown to apply.
\<close>

text \<open>The table as a cascade of tests, so that only the node that runs is evaluated.\<close>

lemma run_node_code [code]:
  "run_node p n ctx reply st =
     (if n = ''entry_registration_check'' then Some (entry_registration_check p ctx st)
      else if n = ''campaign_send'' then Some (campaign_send p ctx st)
      else if n = ''campaign_await'' then Some (campaign_await p ctx reply st)
      else if n = ''declined'' then Some (declined p ctx st)
      else if n = ''check_contact_send'' then Some (check_contact_send p ctx st)
      else if n = ''check_contact_await'' then Some (check_contact_await p ctx st)
      else if n = ''domain_blocked'' then Some (domain_blocked p ctx st)
      else if n = ''registered_route_send'' then Some (registered_route_send p ctx st)
      else if n = ''channel_session_resume'' then Some (channel_session_resume p ctx st)
      else if n = ''resume_status_fetch'' then Some (resume_status_fetch p ctx st)
      else if n = ''resume_rejected'' then Some (resume_rejected p ctx st)
      else if n = ''resume_offer_expired'' then Some (resume_offer_expired p ctx st)
      else if n = ''resume_application_open'' then Some (resume_application_open p ctx st)
      else if n = ''channel_session_first'' then Some (channel_session_first p ctx st)
      else if n = ''channel_session_create_user'' then Some (channel_session_create_user p ctx st)
      else if n = ''complete_onboarding_send'' then Some (complete_onboarding_send p ctx st)
      else if n = ''channel_session_second'' then Some (channel_session_second p ctx st)
      else if n = ''business_email_send'' then Some (business_email_send p ctx st)
      else if n = ''business_email_await'' then Some (business_email_await p ctx reply st)
      else if n = ''business_email_conflict_send'' then Some (business_email_conflict_send p ctx st)
      else if n = ''consent_send'' then Some (consent_send p ctx st)
      else if n = ''consent_await'' then Some (consent_await p ctx reply st)
      else if n = ''cr_upload_base64'' then Some (cr_upload_base64 p ctx st)
      else if n = ''not_eligible'' then Some (not_eligible p ctx st)
      else if n = ''financials_send'' then Some (financials_send p ctx st)
      else if n = ''financials_await'' then Some (financials_await p ctx reply st)
      else if n = ''financials_upload_base64'' then Some (financials_upload_base64 p ctx st)
      else if n = ''documents_list_fetch'' then Some (documents_list_fetch p ctx st)
      else if n = ''documents_upload_loop_send'' then Some (documents_upload_loop_send p ctx st)
      else if n = ''documents_upload_loop_await'' then Some (documents_upload_loop_await p ctx reply st)
      else if n = ''documents_complete'' then Some (documents_complete p ctx st)
      else if n = ''prequalify_wait_await'' then Some (prequalify_wait_await p ctx reply st)
      else if n = ''payment_wait_await'' then Some (payment_wait_await p ctx reply st)
      else if n = ''status_poll_on_demand'' then Some (status_poll_on_demand p ctx st)
      else if n = ''journey_wait_await'' then Some (journey_wait_await p ctx reply st)
      else if n = ''not_qualified'' then Some (not_qualified p ctx st)
      else if n = ''not_pre_qualified'' then Some (not_pre_qualified p ctx st)
      else if n = ''not_qatar_based'' then Some (not_qatar_based p ctx st)
      else if n = ''business_details_fetch'' then Some (business_details_fetch p ctx st)
      else if n = ''products_list_fetch'' then Some (products_list_fetch p ctx st)
      else if n = ''payment_create'' then Some (payment_create p ctx st)
      else if n = ''payment_send_link'' then Some (payment_send_link p ctx st)
      else if n = ''payment_await'' then Some (payment_await p ctx reply st)
      else if n = ''lender_status_poll'' then Some (lender_status_poll p ctx st)
      else if n = ''lender_wait_await'' then Some (lender_wait_await p ctx reply st)
      else if n = ''offers_fetch'' then Some (offers_fetch p ctx st)
      else if n = ''offer_view_send'' then Some (offer_view_send p ctx st)
      else if n = ''offer_handoff_to_madad'' then Some (offer_handoff_to_madad p ctx st)
      else if n = ''offer_confirmed'' then Some (offer_confirmed p ctx st)
      else if n = ''activated'' then Some (activated p ctx st)
      else None)"
  unfolding run_node_def node_table_def map_of.simps fun_upd_apply fst_conv snd_conv by (rule refl)

text \<open>One step of a run with fresh notices, as a function.\<close>

definition drive_node :: "ports \<Rightarrow> conv_ctx \<Rightarrow> json \<Rightarrow> config \<Rightarrow> config option" where
  "drive_node p ctx reply c =
     (case c of (tr, n, st) \<Rightarrow>
        (case run_node p n ctx reply st of
           None \<Rightarrow> None
         | Some m \<Rightarrow>
             (case m \<lparr>io_trace = tr, io_notices = []\<rparr> of
                (Inl e, s') \<Rightarrow> Some (io_trace s', n, st)
              | (Inr st', s') \<Rightarrow> map_option (\<lambda>n'. (io_trace s', n', st')) (next_node n st'))))"

lemma drive_advances:
  assumes "drive_node p ctx reply c = Some d" "k_run ctx = run"
  shows "advances p run c d"
proof -
  obtain tr n st where c: "c = (tr, n, st)" by (cases c)
  let ?s = "\<lparr>io_trace = tr, io_notices = []\<rparr>"
  from assms(1) obtain m where m: "run_node p n ctx reply st = Some m"
    unfolding drive_node_def c by (auto split: option.splits)
  obtain r s' where r: "m ?s = (r, s')" by (cases "m ?s")
  show ?thesis
  proof (cases r)
    case (Inl e)
    then show ?thesis
      using assms(1) m r advances.raised [OF assms(2) m, of ?s e s'] by (simp add: drive_node_def c)
  next
    case (Inr st')
    then show ?thesis
      using assms(1) m r advances.ran [OF assms(2) m, of ?s st' s'] by (auto simp: drive_node_def c)
  qed
qed

text \<open>
  A returning applicant whose account has the given status: the business, a product of 500 riyals, and a
  payment whose first attempt fails.
\<close>

definition demo_value :: "string \<Rightarrow> trace \<Rightarrow> json" where
  "demo_value status tr =
     (case tr of
        E_Check_Registration ch i # _ \<Rightarrow>
          JObj [(''registered'', JBool True), (''route'', JStr ''payment_link'')]
      | E_Me t # _ \<Rightarrow> JObj [(''user'', JObj [(''journeyStatus'', JStr status)])]
      | E_Business t # _ \<Rightarrow> JObj [(''business_details_id'', JStr ''B7'')]
      | E_Products t # _ \<Rightarrow>
          JObj [(''products'', JList [JObj [(''id'', JStr ''P9''), (''code'', JStr ''credit-assessment''),
                  (''status'', JStr ''active''), (''chargedParty'', JStr ''sme''), (''amount'', JInt 500)]])]
      | E_Pay t b pr a k # _ \<Rightarrow>
          JObj [(''payment_id'', JStr ''M1''), (''paymentLink'', JStr ''https://pay''), (''status'', JStr ''OPEN'')]
      | _ \<Rightarrow> JNull)"

definition demo_ports :: "string \<Rightarrow> ports" where
  "demo_ports status =
     \<lparr>pt_fails = \<lambda>tr.
        (case tr of
           E_Pay t b pr a k # rest \<Rightarrow>
             \<not> list_ex (\<lambda>e. case e of E_Pay _ _ _ _ _ \<Rightarrow> True | _ \<Rightarrow> False) rest
         | _ \<Rightarrow> False), pt_value = demo_value status,
      pt_session = \<lambda>_. \<lparr>cs_access = Some ''tok'', cs_onboarding = None, cs_refresh = None,
                         cs_expires = Some 1000, cs_ref = Some ''u1'', cs_reference = None\<rparr>,
      pt_contact = \<lambda>_. \<lparr>cc_exists = False, cc_domain_exists = False\<rparr>, pt_now = \<lambda>_. 0,
      pt_components = \<lambda>_ _. True, pt_str = \<lambda>_. [], pt_sha = \<lambda>s. Some s, pt_text_sha = \<lambda>s. s,
      pt_unzip = \<lambda>_. [], pt_float = \<lambda>_. None, pt_placeholder = \<lambda>s. s, pt_cr_nudges = 2,
      pt_checklist = None, pt_buttons = False, pt_offers_debounce = 0, pt_offers_sig = \<lambda>_. ''sig''\<rparr>"

definition demo_ctx :: conv_ctx where
  "demo_ctx = \<lparr>k_run = ''R'', k_session = ''S'', k_channel = EMAIL, k_identity = ''a@b.c''\<rparr>"

definition demo_start :: config where
  "demo_start = ([], ''entry_registration_check'', fresh_state EMAIL ''a@b.c'')"

fun drive_nodes :: "ports \<Rightarrow> conv_ctx \<Rightarrow> json list \<Rightarrow> config \<Rightarrow> config option" where
  "drive_nodes p ctx [] c = Some c"
| "drive_nodes p ctx (reply # rs) c =
     (case drive_node p ctx reply c of None \<Rightarrow> None | Some d \<Rightarrow> drive_nodes p ctx rs d)"

lemma drives_advances:
  "drive_nodes p ctx rs c = Some d \<Longrightarrow> k_run ctx = run \<Longrightarrow> rtranclp (advances p run) c d"
  by (induction p ctx rs c rule: drive_nodes.induct)
     (auto split: option.splits intro: converse_rtranclp_into_rtranclp drive_advances)

end
