(* ===== verification/Conv_Charge.thy ===== *)
theory Conv_Charge
  imports Conv_Keep Conv_Demo
begin

section \<open>A run charges at most once\<close>

text \<open>
  The payments a run asks for, the nodes a paid run can be at, and the invariant of a run's steps that
  ties the two.
\<close>

text \<open>What is asked for in a payment: the business, the product, the amount and the key.\<close>

type_synonym charge = "json \<times> json \<times> int \<times> string"

fun charges :: "trace \<Rightarrow> charge list" where
  "charges [] = []"
| "charges (E_Pay t b pr a k # tr) = (b, pr, a, k) # charges tr"
| "charges (_ # tr) = charges tr"

lemma charges_append: "charges (xs @ ys) = charges xs @ charges ys"
  by (induction xs rule: charges.induct) simp_all

lemma charges_free: "set xs \<subseteq> free \<Longrightarrow> charges xs = []"
  by (induction xs rule: charges.induct) auto

lemma free_keeps_charges:
  assumes "emits free m" and "m s = (r, s')"
  shows "charges (io_trace s') = charges (io_trace s)"
proof -
  obtain new where "io_trace s' = new @ io_trace s" "set new \<subseteq> free"
    using emitsD [OF assms] .
  then show ?thesis by (simp add: charges_append charges_free)
qed

text \<open>The one charge a state stands for.\<close>

definition due :: "string \<Rightarrow> conv_state \<Rightarrow> charge" where
  "due run st =
     (v_business_id st, v_product_id st, case v_amount st of Some a \<Rightarrow> a | None \<Rightarrow> 0,
      run @ '':create_monetization_payment'')"

lemma due_checkpointed [simp]: "due run (checkpointed st) = due run st"
  by (simp add: due_def checkpointed_def)

lemma paid_checkpointed [simp]: "v_paid (checkpointed st) = v_paid st"
  by (simp add: checkpointed_def)

definition payable :: "charge \<Rightarrow> bool" where
  "payable c = (case c of (b, pr, a, k) \<Rightarrow> truthy b \<and> truthy pr \<and> a \<noteq> 0)"

lemma create_emits:
  "emits (free \<union> {e. \<exists>t. payable (due (k_run ctx) st) \<and>
      e = E_Pay t (v_business_id st) (v_product_id st)
            (case v_amount st of Some a \<Rightarrow> a | None \<Rightarrow> 0) (payment_key ctx)})
     (payment_create p ctx st)"
  unfolding payment_create_def Let_def
  by (intro emit_rules emits_mono [OF token_free])
     (auto simp: payable_def due_def split: option.splits)

lemma charges_of_due:
  assumes "set new \<subseteq> free \<union> {e. \<exists>t. payable (b, pr, a, k) \<and> e = E_Pay t b pr a k}"
  shows "set (charges new) \<subseteq> {c. c = (b, pr, a, k) \<and> payable c}"
  using assms by (induction new rule: charges.induct) auto

lemma create_charges:
  assumes "payment_create p ctx st s = (r, s')"
  shows "set (charges (io_trace s')) \<subseteq>
           set (charges (io_trace s)) \<union> {c. c = due (k_run ctx) st \<and> payable c}"
proof -
  obtain new where "io_trace s' = new @ io_trace s"
    "set new \<subseteq> free \<union> {e. \<exists>t. payable (due (k_run ctx) st) \<and>
      e = E_Pay t (v_business_id st) (v_product_id st)
            (case v_amount st of Some a \<Rightarrow> a | None \<Rightarrow> 0) (payment_key ctx)}"
    using emitsD [OF create_emits assms] .
  then show ?thesis
    using charges_of_due unfolding due_def payment_key_def by (simp add: charges_append) blast
qed

lemma node_cases:
  assumes "run_node p n ctx reply st = Some m"
  shows "(n, m) \<in> set (node_table p ctx reply st)"
  using assms unfolding run_node_def by (rule map_of_SomeD)

lemma table_free:
  "list_all (\<lambda>(n, m). n = ''payment_create'' \<or> emits free m) (node_table p ctx reply st)"
  unfolding node_table_def declined_def domain_blocked_def resume_rejected_def
    resume_offer_expired_def resume_application_open_def not_eligible_def not_qualified_def
    not_pre_qualified_def not_qatar_based_def status_poll_on_demand_def lender_status_poll_def
    journey_wait_await_def lender_wait_await_def
  by (simp add: entry_nodes_free late_nodes_free closing_free)

lemma node_free:
  "run_node p n ctx reply st = Some m \<Longrightarrow> n \<noteq> ''payment_create'' \<Longrightarrow> emits free m"
  using node_cases [of p n ctx reply st m] table_free [of p ctx reply st]
  unfolding list_all_iff by blast

text \<open>The nodes that can set the paid flag.\<close>

definition PAYERS :: "string list" where
  "PAYERS = [''documents_upload_loop_await'', ''payment_wait_await'', ''payment_await'']"

lemma table_paid:
  "list_all (\<lambda>(n, m). n \<in> set PAYERS \<or> ends (\<lambda>st'. v_paid st' = v_paid st) m)
     (node_table p ctx reply st)"
  unfolding node_table_def declined_def domain_blocked_def resume_rejected_def
    resume_offer_expired_def resume_application_open_def not_eligible_def not_qualified_def
    not_pre_qualified_def not_qatar_based_def status_poll_on_demand_def lender_status_poll_def
    journey_wait_await_def lender_wait_await_def
  by (simp add: entry_nodes_paid late_nodes_paid closing_paid PAYERS_def)

lemma node_paid:
  "run_node p n ctx reply st = Some m \<Longrightarrow> n \<notin> set PAYERS \<Longrightarrow> m s = (Inr st', s') \<Longrightarrow>
     v_paid st' = v_paid st"
  using node_cases [of p n ctx reply st m] table_paid [of st p ctx reply]
  unfolding list_all_iff by (blast dest: endsD)

text \<open>Where a paid run can be, and where a payment has been asked for and not yet made.\<close>

definition SETTLED :: "string list" where
  "SETTLED =
     [''status_poll_on_demand'', ''journey_wait_await'', ''lender_status_poll'',
      ''lender_wait_await'', ''offers_fetch'', ''offer_view_send'', ''offer_handoff_to_madad'',
      ''offer_confirmed'', ''activated'', ''invoice_collect_await'', ''not_qualified'',
      ''not_eligible'', ''__end__'']"

definition PAYING :: "string list" where
  "PAYING = [''payment_create'', ''payment_send_link'', ''payment_await'']"

lemma payer_paid:
  assumes "n \<in> set PAYERS" "next_node n st = Some m" "v_paid st"
  shows "m \<in> set SETTLED"
  using assms unfolding PAYERS_def SETTLED_def
  by (auto simp: next_branch route_defs)

lemma settled_arrows:
  "list_all (\<lambda>(n, m). n \<in> set SETTLED \<longrightarrow> m \<in> set SETTLED \<or> n = ''status_poll_on_demand'' \<and> m = ''business_details_fetch'') ARROWS"
  by code_simp

lemma settled_stays:
  assumes "n \<in> set SETTLED" "next_node n st = Some m" "v_paid st"
  shows "m \<in> set SETTLED"
proof (cases "n = ''status_poll_on_demand''")
  case True
  with assms show ?thesis
    by (auto simp: next_branch route_defs SETTLED_def split: option.splits if_splits)
next
  case False
  with assms next_arrow [OF assms(2)] settled_arrows show ?thesis unfolding list_all_iff by blast
qed

lemma to_create:
  assumes "next_node n st = Some ''payment_create''"
  shows "n = ''products_list_fetch''"
proof -
  have "list_all (\<lambda>(n, m). m = ''payment_create'' \<longrightarrow> n = ''products_list_fetch'') ARROWS"
    by code_simp
  with next_arrow [OF assms] show ?thesis unfolding list_all_iff by blast
qed

lemma paying_next:
  assumes "n \<in> set PAYING" "next_node n st = Some m"
  shows "m \<in> set PAYING \<and> m \<noteq> ''payment_create'' \<or> m \<in> set SETTLED \<and> v_paid st"
proof -
  consider "n = ''payment_create''" | "n = ''payment_send_link''" | "n = ''payment_await''"
    using assms(1) by (auto simp: PAYING_def)
  then show ?thesis
  proof cases
    case 1
    with assms(2) have "m = ''payment_send_link''" by (simp add: next_edge)
    then show ?thesis by (simp add: PAYING_def)
  next
    case 2
    with assms(2) have "m = ''payment_await''" by (simp add: next_edge)
    then show ?thesis by (simp add: PAYING_def)
  next
    case 3
    with assms(2) have "m = ''payment_await'' \<or> m = ''lender_status_poll'' \<and> v_paid st"
      by (simp add: next_branch route_payment_def split: if_splits)
    then show ?thesis by (auto simp: PAYING_def SETTLED_def)
  qed
qed

text \<open>
  The invariant: a paid run is past the payment, and a run asks for one payment only, the one its
  state stands for while it is being created.
\<close>

definition charge_inv :: "string \<Rightarrow> config \<Rightarrow> bool" where
  "charge_inv run c =
     (case c of (tr, n, st) \<Rightarrow>
        (v_paid st \<longrightarrow> n \<in> set SETTLED) \<and>
        (charges tr \<noteq> [] \<longrightarrow> n \<in> set PAYING \<or> n \<in> set SETTLED \<and> v_paid st) \<and>
        (n = ''payment_create'' \<longrightarrow> set (charges tr) \<subseteq> {due run st}) \<and>
        (\<exists>st0. set (charges tr) \<subseteq> {c. c = due run st0 \<and> payable c}))"

lemma payer_apart: "n \<in> set PAYERS \<Longrightarrow> n \<notin> set SETTLED" "n \<in> set PAYING \<Longrightarrow> n \<notin> set SETTLED"
  by (auto simp: PAYERS_def SETTLED_def PAYING_def)

lemma charge_step:
  assumes inv: "charge_inv (k_run ctx) (io_trace s, n, st)"
    and m: "run_node p n ctx reply st = Some m" "m s = (r, s')"
  shows "n \<noteq> ''payment_create'' \<Longrightarrow> charges (io_trace s') = charges (io_trace s)"
    and "n = ''payment_create'' \<Longrightarrow>
           set (charges (io_trace s')) \<subseteq> {c. c = due (k_run ctx) st \<and> payable c}"
proof -
  show "charges (io_trace s') = charges (io_trace s)" if "n \<noteq> ''payment_create''"
    using free_keeps_charges [OF node_free [OF m(1) that] m(2)] .
next
  assume n: "n = ''payment_create''"
  then have "m = payment_create p ctx st"
    using m(1) by (simp add: run_node_def node_table_def)
  then have "set (charges (io_trace s')) \<subseteq>
      set (charges (io_trace s)) \<union> {c. c = due (k_run ctx) st \<and> payable c}"
    using create_charges [of p ctx st s r s'] m(2) by simp
  moreover have "set (charges (io_trace s)) \<subseteq> {c. c = due (k_run ctx) st \<and> payable c}"
    using inv n unfolding charge_inv_def by auto
  ultimately show "set (charges (io_trace s')) \<subseteq> {c. c = due (k_run ctx) st \<and> payable c}"
    by blast
qed

lemma charge_inv_step:
  assumes "charge_inv run c" "advances p run c d"
  shows "charge_inv run d"
  using assms(2,1)
proof cases
  case (ran ctx n reply st m s st' s' n')
  have inv: "charge_inv (k_run ctx) (io_trace s, n, st)" using assms(1) ran by simp
  note step = charge_step [OF inv ran(4,5)]
  have paid: "v_paid st' \<Longrightarrow> n' \<in> set SETTLED"
  proof (cases "n \<in> set PAYERS")
    case True
    then show "v_paid st' \<Longrightarrow> n' \<in> set SETTLED" using payer_paid [OF _ ran(6)] by blast
  next
    case False
    then have "v_paid st' = v_paid st" using node_paid [OF ran(4) _ ran(5)] by blast
    then show "v_paid st' \<Longrightarrow> n' \<in> set SETTLED"
      using settled_stays [OF _ ran(6)] inv unfolding charge_inv_def by auto
  qed
  show ?thesis
  proof (cases "n = ''payment_create''")
    case True
    with step(2) paid paying_next [OF _ ran(6)] to_create ran(6) show ?thesis
      unfolding charge_inv_def ran(2) by (auto simp: PAYING_def ran(3) [symmetric])
  next
    case False
    have at: "n' \<in> set PAYING \<or> n' \<in> set SETTLED \<and> v_paid st'" if "charges (io_trace s) \<noteq> []"
    proof (cases "n \<in> set PAYING")
      case True
      then show ?thesis using paying_next [OF _ ran(6)] by blast
    next
      case False
      then have n: "n \<in> set SETTLED" "v_paid st"
        using inv that unfolding charge_inv_def by auto
      then have "v_paid st'" using node_paid [OF ran(4) _ ran(5)] payer_apart by blast
      then show ?thesis using settled_stays [OF n(1) ran(6)] by blast
    qed
    have "charges (io_trace s) = []" if "n' = ''payment_create''"
    proof -
      have "n = ''products_list_fetch''" using to_create ran(6) that by simp
      then show ?thesis using inv unfolding charge_inv_def by (auto simp: PAYING_def SETTLED_def)
    qed
    with False step(1) paid at inv show ?thesis
      unfolding charge_inv_def ran(2) by (auto simp: ran(3) [symmetric])
  qed
next
  case (raised ctx n reply st m s e s')
  have inv: "charge_inv (k_run ctx) (io_trace s, n, st)" using assms(1) raised by simp
  note step = charge_step [OF inv raised(4,5)]
  show ?thesis
  proof (cases "n = ''payment_create''")
    case True
    with step(2) inv show ?thesis
      unfolding charge_inv_def raised(2) by (auto simp: PAYING_def raised(3) [symmetric])
  next
    case False
    with step(1) inv show ?thesis
      unfolding charge_inv_def raised(2) by (auto simp: raised(3) [symmetric])
  qed
next
  case (slept tr n st)
  with assms(1) show ?thesis by (simp add: charge_inv_def)
qed

interpretation charging: run_invariant p ch ident run "charge_inv run" for p ch ident run
proof
  show "charge_inv run ([], ''entry_registration_check'', fresh_state ch ident)"
    by (simp add: charge_inv_def fresh_state_def)
qed (rule charge_inv_step)

lemma settled_step:
  assumes "advances p run (tr, n, st) (tr', n', st')" "n \<in> set SETTLED" "v_paid st"
  shows "v_paid st' \<and> n' \<in> set SETTLED \<and> charges tr' = charges tr"
  using assms(1)
proof cases
  case (ran ctx reply m s s')
  have "n \<notin> set PAYERS" "n \<noteq> ''payment_create''"
    using assms(2) by (auto simp: PAYERS_def SETTLED_def)
  moreover from this have "v_paid st'" using node_paid [OF ran(4) _ ran(5)] assms(3) by blast
  ultimately show ?thesis
    using settled_stays [OF assms(2) ran(6)] free_keeps_charges [OF node_free [OF ran(4)] ran(5)] ran
    by simp
next
  case (raised ctx reply m s e s')
  have "n \<noteq> ''payment_create''" using assms(2) by (auto simp: SETTLED_def)
  then show ?thesis
    using free_keeps_charges [OF node_free [OF raised(6)] raised(7)] raised assms(2,3) by simp
next
  case slept
  then show ?thesis using assms(2,3) by simp
qed

text \<open>
  C1. A run asks for one payment at most. A failed attempt is repeated with the same business, product,
  amount and idempotency key, however the calls fail, the chat goes and the run is parked
  and revived, and no attempt is made without a business, a product and an amount.
\<close>

theorem one_charge_per_run:
  assumes "reaches p ch ident run (tr, n, st)" "c \<in> set (charges tr)" "c' \<in> set (charges tr)"
  shows "c' = c \<and> payable c \<and> snd (snd (snd c)) = run @ '':create_monetization_payment''"
proof -
  from charging.reached [OF assms(1)] obtain st0
    where "set (charges tr) \<subseteq> {c. c = due run st0 \<and> payable c}"
    unfolding charge_inv_def by auto
  with assms(2,3) show ?thesis by (auto simp: due_def)
qed

lemma demo_charged:
  "map_option (\<lambda>c. charges (fst c)) (drive_nodes (demo_ports ''QUALIFIED'') demo_ctx (replicate 7 JNull) demo_start) =
   Some [(JStr ''B7'', JStr ''P9'', 500, ''R:create_monetization_payment''),
         (JStr ''B7'', JStr ''P9'', 500, ''R:create_monetization_payment'')]"
  by code_simp

lemma demo_reaches:
  assumes "drive_nodes (demo_ports status) demo_ctx rs demo_start = Some c"
  shows "reaches (demo_ports status) EMAIL ''a@b.c'' ''R'' c"
  unfolding reaches_def
  using drives_advances [OF assms, of "''R''"] by (simp add: demo_ctx_def demo_start_def)

theorem one_charge_per_run_witness:
  "\<exists>tr n st c. reaches (demo_ports ''QUALIFIED'') EMAIL ''a@b.c'' ''R'' (tr, n, st) \<and> charges tr = [c, c] \<and> payable c"
proof -
  let ?c = "(JStr ''B7'', JStr ''P9'', 500, ''R:create_monetization_payment'')"
  obtain tr n st where run: "drive_nodes (demo_ports ''QUALIFIED'') demo_ctx (replicate 7 JNull) demo_start = Some (tr, n, st)"
    and ch: "charges tr = [?c, ?c]"
    using demo_charged by (auto split: option.splits)
  note r = demo_reaches [OF run]
  have "payable ?c" using one_charge_per_run [OF r, of ?c ?c] ch by simp
  with r ch show ?thesis by blast
qed

text \<open>
  C2. Once the fee is settled, by a payment, a waiver or a later status of the journey, the run never asks for it again: it
  stays among the lender's nodes, the flag is never cleared, and no further payment is created, whatever the backend says next.
\<close>

theorem paid_run_settled:
  assumes "reaches p ch ident run (tr, n, st)" "v_paid st"
    and "rtranclp (advances p run) (tr, n, st) (tr', n', st')"
  shows "v_paid st' \<and> n' \<in> set SETTLED \<and> charges tr' = charges tr"
  using assms(3)
proof (induction "(tr', n', st')" arbitrary: tr' n' st' rule: rtranclp_induct)
  case base
  show ?case using charging.reached [OF assms(1)] assms(2) unfolding charge_inv_def by simp
next
  case (step d)
  obtain tr1 n1 st1 where d: "d = (tr1, n1, st1)" by (cases d)
  from step.hyps(3) [OF d] show ?case
    using settled_step [of p run tr1 n1 st1] step.hyps(2) d by simp
qed

lemma demo_paid:
  "map_option (\<lambda>(tr, n, st). (v_paid st,
       map_option (\<lambda>c. fst (snd c)) (drive_nodes (demo_ports ''QUALIFIED'') demo_ctx [JNull] (tr, n, st))))
     (drive_nodes (demo_ports ''QUALIFIED'') demo_ctx (replicate 8 JNull @ [JObj [(''paid'', JBool True)]]) demo_start) =
   Some (True, Some ''lender_wait_await'')"
  by code_simp

theorem paid_run_settled_witness:
  "\<exists>tr n st tr' st'. reaches (demo_ports ''QUALIFIED'') EMAIL ''a@b.c'' ''R'' (tr, n, st) \<and> v_paid st \<and>
     rtranclp (advances (demo_ports ''QUALIFIED'') ''R'') (tr, n, st) (tr', ''lender_wait_await'', st') \<and>
     v_paid st' \<and> charges tr' = charges tr"
proof -
  obtain tr n st tr' st' where run:
      "drive_nodes (demo_ports ''QUALIFIED'') demo_ctx (replicate 8 JNull @ [JObj [(''paid'', JBool True)]]) demo_start =
         Some (tr, n, st)" "v_paid st"
      "drive_nodes (demo_ports ''QUALIFIED'') demo_ctx [JNull] (tr, n, st) = Some (tr', ''lender_wait_await'', st')"
    using demo_paid by (auto split: option.splits)
  have go: "rtranclp (advances (demo_ports ''QUALIFIED'') ''R'') (tr, n, st) (tr', ''lender_wait_await'', st')"
    using drives_advances [OF run(3)] by (simp add: demo_ctx_def)
  show ?thesis
    using paid_run_settled [OF demo_reaches [OF run(1)] run(2) go] demo_reaches [OF run(1)] run(2) go
    by blast
qed

end
