(* ===== verification/Conv_Uploads.thy ===== *)
theory Conv_Uploads
  imports Conv_Charge
begin

section \<open>Uploads that must not be lost\<close>

text \<open>
  The commercial registration and the audited report: when the nodes that store them let the run go
  on, the backend has taken the file. A calculus over actions carries the fact that a call was made
  and did not fail from the call to the end of the node, and an invariant of the run from the node to
  the gate behind it.
\<close>

lemma andthenE:
  assumes "andthen m f s = (Inr y, s')"
  obtains x s1 where "m s = (Inr x, s1)" "f x s1 = (Inr y, s')"
  using assms unfolding andthen_def by (auto split: prod.splits sum.splits)

text \<open>A call of the given kind that did not fail, after \<open>tr0\<close> and up to \<open>tr\<close>.\<close>

definition persisted :: "ports \<Rightarrow> trace \<Rightarrow> trace \<Rightarrow> effect \<Rightarrow> bool" where
  "persisted p tr0 tr e =
     (\<exists>post mid. tr = post @ e # mid @ tr0 \<and> \<not> pt_fails p (e # mid @ tr0))"

text \<open>
  \<open>secures\<close>: when the action returns a value with \<open>Q\<close>, one of the calls in \<open>E\<close> has been made and did
  not fail.
\<close>

named_theorems secure_rules

definition secures :: "ports \<Rightarrow> effect set \<Rightarrow> ('a \<Rightarrow> bool) \<Rightarrow> 'a act \<Rightarrow> bool" where
  "secures p E Q m =
     (\<forall>s x s'. m s = (Inr x, s') \<longrightarrow> Q x \<longrightarrow> (\<exists>e\<in>E. persisted p (io_trace s) (io_trace s') e))"

lemma secures_ret [secure_rules]: "\<not> Q x \<Longrightarrow> secures p E Q (ret x)"
  by (simp add: secures_def ret_def)

lemma secures_raise [secure_rules]: "secures p E Q (raise e)"
  by (simp add: secures_def raise_def)

lemma secures_if [secure_rules]:
  "(c \<Longrightarrow> secures p E Q a) \<Longrightarrow> (\<not> c \<Longrightarrow> secures p E Q b) \<Longrightarrow> secures p E Q (if c then a else b)"
  by simp

lemma secures_later [secure_rules]:
  assumes "emits free m" and "\<And>x. secures p E Q (f x)"
  shows "secures p E Q (andthen m f)"
  unfolding secures_def
proof (intro allI impI)
  fix s y s'
  assume "andthen m f s = (Inr y, s')" "Q y"
  then obtain x s1 where m: "m s = (Inr x, s1)" and f: "f x s1 = (Inr y, s')" by (elim andthenE)
  obtain new where "io_trace s1 = new @ io_trace s" using emitsD [OF assms(1) m] .
  with assms(2) f \<open>Q y\<close> show "\<exists>e\<in>E. persisted p (io_trace s) (io_trace s') e"
    unfolding secures_def persisted_def by (metis append_assoc)
qed

lemma secures_now:
  assumes "secures p E (\<lambda>_. True) m" and "\<And>x. emits free (f x)"
  shows "secures p E Q (andthen m f)"
  unfolding secures_def
proof (intro allI impI)
  fix s y s'
  assume "andthen m f s = (Inr y, s')" "Q y"
  then obtain x s1 where m: "m s = (Inr x, s1)" and f: "f x s1 = (Inr y, s')" by (elim andthenE)
  obtain new where "io_trace s' = new @ io_trace s1" using emitsD [OF assms(2) f] .
  with assms(1) m show "\<exists>e\<in>E. persisted p (io_trace s) (io_trace s') e"
    unfolding secures_def persisted_def by (metis append_assoc)
qed

lemma secures_persist: "e \<in> E \<Longrightarrow> secures p E Q (must_persist p ctx st site msg e)"
  unfolding secures_def persisted_def must_persist_def
  by (auto elim!: andthenE simp: trying_def call_def ret_def raise_def Let_def
      split: if_splits prod.splits sum.splits intro!: bexI [of _ e] exI [of _ "[]"])

lemma cr_secures:
  assumes "v_cr_ref st = Some f" "f \<noteq> []"
  shows "secures p {E_Kyc K_Cr token content f (v_cr_mime st) | token content.
                      token \<noteq> [] \<and> content = (case v_cr_content st of Some b \<Rightarrow> b | None \<Rightarrow> [])}
           (\<lambda>st'. \<not> v_cr_reupload st') (cr_upload_base64 p ctx st)"
  unfolding cr_upload_base64_def Let_def
  by (intro secures_if secures_raise secures_ret secures_now [OF secures_if [OF secures_persist]]
        secures_later emit_rules)
     (use assms in auto)

lemma report_secures:
  assumes "v_fin_received st"
  shows "secures p {E_Kyc K_Report token content f m | token content f m.
                      token \<noteq> [] \<and> content = (case v_fin_content st of Some b \<Rightarrow> b | None \<Rightarrow> [])}
           (\<lambda>_. True) (financials_upload_base64 p ctx st)"
  unfolding financials_upload_base64_def Let_def
  by (intro secures_if secures_raise secures_ret secures_now [OF secures_if [OF secures_persist]]
        secures_later emit_rules)
     (use assms in auto)

lemma report_advances_persisted:
  assumes "financials_upload_base64 p ctx st s = (Inr st', s')" "v_fin_received st"
  shows "\<exists>token name mime. token \<noteq> [] \<and> persisted p (io_trace s) (io_trace s')
           (E_Kyc K_Report token (case v_fin_content st of Some b \<Rightarrow> b | None \<Rightarrow> []) name mime)"
  using report_secures [OF assms(2), of p ctx] assms(1) unfolding secures_def by blast

lemma node_extends:
  assumes "run_node p n ctx reply st = Some m" "m s = (r, s')"
  shows "\<exists>new. io_trace s' = new @ io_trace s"
proof (cases "n = ''payment_create''")
  case True
  then have "m = payment_create p ctx st" using assms(1) by (simp add: run_node_def node_table_def)
  with emitsD [OF create_emits] assms(2) show ?thesis by metis
next
  case False
  with emitsD [OF node_free [OF assms(1)]] assms(2) show ?thesis by metis
qed

definition kept_upload :: "ports \<Rightarrow> kyc_call \<Rightarrow> trace \<Rightarrow> bool" where
  "kept_upload p kind tr =
     (\<exists>post token content name mime pre.
        tr = post @ E_Kyc kind token content name mime # pre \<and> token \<noteq> [] \<and>
        \<not> pt_fails p (E_Kyc kind token content name mime # pre))"

lemma stored_extends: "kept_upload p kind tr \<Longrightarrow> kept_upload p kind (new @ tr)"
  unfolding kept_upload_def by (metis append_assoc)

definition report_inv :: "ports \<Rightarrow> config \<Rightarrow> bool" where
  "report_inv p c =
     (case c of (tr, n, st) \<Rightarrow>
        (n = ''financials_upload_base64'' \<longrightarrow> v_fin_received st) \<and>
        (n = ''prequalify_wait_await'' \<longrightarrow> kept_upload p K_Report tr))"

lemma to_report:
  assumes "next_node n st = Some ''financials_upload_base64''"
  shows "v_fin_received st"
proof -
  have "list_all (\<lambda>(n, m). m = ''financials_upload_base64'' \<longrightarrow> n = ''financials_await'') ARROWS"
    by code_simp
  with next_arrow [OF assms] have "n = ''financials_await''" unfolding list_all_iff by blast
  with assms show ?thesis by (simp add: next_branch route_financials_upload_def split: if_splits)
qed

lemma to_gate:
  assumes "next_node n st = Some ''prequalify_wait_await''"
  shows "n = ''financials_upload_base64'' \<or> n = ''prequalify_wait_await''"
proof -
  have "list_all (\<lambda>(n, m). m = ''prequalify_wait_await'' \<longrightarrow>
          n = ''financials_upload_base64'' \<or> n = ''prequalify_wait_await'') ARROWS"
    by code_simp
  with next_arrow [OF assms] show ?thesis unfolding list_all_iff by blast
qed

lemma report_stored:
  assumes "financials_upload_base64 p ctx st s = (Inr st', s')" "v_fin_received st"
  shows "kept_upload p K_Report (io_trace s')"
  using report_advances_persisted [OF assms] unfolding kept_upload_def persisted_def by blast

lemma report_inv_step:
  assumes "report_inv p c" "advances p run c d"
  shows "report_inv p d"
  using assms(2,1)
proof cases
  case (ran ctx n reply st m s st' s' n')
  have "kept_upload p K_Report (io_trace s')" if n': "n' = ''prequalify_wait_await''"
  proof (cases "n = ''financials_upload_base64''")
    case True
    then have "financials_upload_base64 p ctx st s = (Inr st', s')"
      using ran(4,5) by (simp add: run_node_def node_table_def)
    moreover have "v_fin_received st" using assms(1) ran(1) True by (simp add: report_inv_def)
    ultimately show ?thesis by (rule report_stored)
  next
    case False
    then have "kept_upload p K_Report (io_trace s)"
      using to_gate [of n st'] ran n' assms(1) by (auto simp: report_inv_def)
    then show ?thesis using node_extends [OF ran(4,5)] stored_extends by metis
  qed
  then show ?thesis using to_report [of n st'] ran(2,6) by (auto simp: report_inv_def)
next
  case (raised ctx n reply st m s e s')
  then show ?thesis
    using assms(1) node_extends [OF raised(4,5)] stored_extends
    by (auto simp: report_inv_def)
next
  case (slept tr n st)
  then show ?thesis using assms(1) by (simp add: report_inv_def checkpointed_def)
qed

interpretation reporting: run_invariant p ch ident run "report_inv p" for p ch ident run
proof
  show "report_inv p ([], ''entry_registration_check'', fresh_state ch ident)"
    by (simp add: report_inv_def)
qed (rule report_inv_step)

text \<open>
  C5. No run waits for its pre-qualification unless its audited report is stored: somewhere before there
  is an upload of a report, under a token, that the backend did not refuse. A failing upload leaves
  the run where it was, whatever the applicant sends meanwhile.
\<close>

theorem gate_needs_report:
  assumes "reaches p ch ident run (tr, ''prequalify_wait_await'', st)"
  shows "kept_upload p K_Report tr"
  using reporting.reached [OF assms] by (simp add: report_inv_def)

lemma demo_at_gate:
  "map_option (\<lambda>(tr, n, st). n)
     (drive_nodes (demo_ports ''ELIGIBLE'') demo_ctx
        [JNull, JNull, JNull, JNull,
         JObj [(''attachments'', JList [JObj [(''filename'', JStr ''r.pdf''), (''content_base64'', JStr ''AAAA'')]])],
         JNull] demo_start) = Some ''prequalify_wait_await''"
  by code_simp

theorem gate_needs_report_witness:
  "\<exists>tr st. reaches (demo_ports ''ELIGIBLE'') EMAIL ''a@b.c'' ''R'' (tr, ''prequalify_wait_await'', st) \<and>
     kept_upload (demo_ports ''ELIGIBLE'') K_Report tr"
proof -
  obtain tr st where "drive_nodes (demo_ports ''ELIGIBLE'') demo_ctx
        [JNull, JNull, JNull, JNull,
         JObj [(''attachments'', JList [JObj [(''filename'', JStr ''r.pdf''), (''content_base64'', JStr ''AAAA'')]])],
         JNull] demo_start = Some (tr, ''prequalify_wait_await'', st)"
    using demo_at_gate by (auto simp del: drive_nodes.simps)
  then have "reaches (demo_ports ''ELIGIBLE'') EMAIL ''a@b.c'' ''R'' (tr, ''prequalify_wait_await'', st)"
    by (rule demo_reaches)
  with gate_needs_report [OF this] show ?thesis by blast
qed

text \<open>
  C6. A run leaves the upload of its registration for the audited report only after that very file, with its
  content and type, was uploaded under a token and the upload did not fail.
\<close>

theorem cr_advances_persisted:
  assumes "cr_upload_base64 p ctx st s = (Inr st', s')"
    and "next_node ''cr_upload_base64'' st' = Some ''financials_send''"
    and "v_cr_ref st = Some f" "f \<noteq> []"
  shows "\<exists>token. token \<noteq> [] \<and> persisted p (io_trace s) (io_trace s')
           (E_Kyc K_Cr token (case v_cr_content st of Some b \<Rightarrow> b | None \<Rightarrow> []) f (v_cr_mime st))"
proof -
  have "\<not> v_cr_reupload st'"
    using assms(2) by (auto simp: next_branch route_cr_upload_def split: if_splits)
  with cr_secures [OF assms(3,4), of p ctx] assms(1) show ?thesis
    unfolding secures_def by blast
qed

definition demo_cr :: conv_state where
  "demo_cr = (fresh_state EMAIL ''a@b.c'')
     \<lparr>v_consent := True, v_cr_ref := Some ''cr.pdf'', v_cr_content := Some ''AAAA''\<rparr>"

lemma demo_cr_uploaded:
  "(case cr_upload_base64 (demo_ports ''ELIGIBLE'') demo_ctx demo_cr \<lparr>io_trace = [], io_notices = []\<rparr> of
      (Inl e, s') \<Rightarrow> False
    | (Inr st', s') \<Rightarrow> next_node ''cr_upload_base64'' st' = Some ''financials_send'')"
  by code_simp

theorem cr_advances_persisted_witness:
  "\<exists>token s'. snd (cr_upload_base64 (demo_ports ''ELIGIBLE'') demo_ctx demo_cr
                 \<lparr>io_trace = [], io_notices = []\<rparr>) = s' \<and> token \<noteq> [] \<and>
     persisted (demo_ports ''ELIGIBLE'') [] (io_trace s')
       (E_Kyc K_Cr token ''AAAA'' ''cr.pdf'' JNull)"
proof -
  let ?s = "\<lparr>io_trace = [], io_notices = []\<rparr>"
  obtain st' s' where r: "cr_upload_base64 (demo_ports ''ELIGIBLE'') demo_ctx demo_cr ?s = (Inr st', s')"
    and n: "next_node ''cr_upload_base64'' st' = Some ''financials_send''"
    using demo_cr_uploaded by (auto split: prod.splits sum.splits)
  have "v_cr_ref demo_cr = Some ''cr.pdf''" "v_cr_content demo_cr = Some ''AAAA''" "v_cr_mime demo_cr = JNull"
    by (simp_all add: demo_cr_def fresh_state_def)
  with cr_advances_persisted [OF r n, of "''cr.pdf''"] r show ?thesis by simp
qed

end
