(* ===== verification/Conv_Batch.thy ===== *)
theory Conv_Batch
  imports Conv_Charge "HOL-Library.Multiset"
begin

section \<open>Accounting of the documents\<close>

text \<open>
  What a batch of files may change: the open slots, the counter and the acknowledged types; what it may
  say when nothing could be stored; and what becomes of a batch whose processing was
  interrupted.
\<close>

subsection \<open>Slots and counter\<close>

text \<open>What may happen to the slots, the counter and the receipts while documents are collected.\<close>

definition docs_progress :: "conv_state \<Rightarrow> nat \<Rightarrow> conv_state \<Rightarrow> bool" where
  "docs_progress st n st' =
     (mset (v_missing st') \<subseteq># mset (v_missing st) \<and> v_uploaded st \<le> v_uploaded st' \<and>
      v_uploaded st' \<le> v_uploaded st + int n \<and> set (v_acked st) \<subseteq> set (v_acked st'))"

lemma docs_fields [simp]:
  "v_missing (conv_step n ctx st) = v_missing st" "v_uploaded (conv_step n ctx st) = v_uploaded st"
  "v_acked (conv_step n ctx st) = v_acked st"
  "v_missing (with_creds c st) = v_missing st" "v_uploaded (with_creds c st) = v_uploaded st"
  "v_acked (with_creds c st) = v_acked st"
  by (simp_all add: conv_step_def with_creds_def split: prod.split)

lemma land_member_pending: "mset (b_pending (land_member ex e b)) \<subseteq># mset (b_pending b)"
  by (auto simp: land_member_def Let_def split: option.split)

lemma fold_pending:
  assumes "\<And>x b. mset (b_pending (g x b)) \<subseteq># mset (b_pending b)"
  shows "mset (b_pending (fold g xs b)) \<subseteq># mset (b_pending b)"
proof (induction xs arbitrary: b)
  case (Cons x xs)
  have "mset (b_pending (fold g xs (g x b))) \<subseteq># mset (b_pending (g x b))" by (rule Cons)
  then show ?case using assms [of x b] by simp
qed simp

lemma land_file_pending: "mset (b_pending (land_file p ex f b)) \<subseteq># mset (b_pending b)"
proof -
  obtain a ok res where f: "f = (a, ok, res)" by (cases f)
  show ?thesis
    unfolding land_file_def f Let_def prod.case
    by (cases "slot_type p a res (b_pending b)") simp_all
qed

lemma zip_pass_pending:
  "ends (\<lambda>x. mset (b_pending (fst x)) \<subseteq># mset (b_pending b)) (zip_pass p token ex as b)"
proof (induction as arbitrary: b)
  case (Cons a as)
  have go: "ends (\<lambda>x. mset (b_pending (fst x)) \<subseteq># mset (b_pending b))
      (andthen (zip_pass p token ex as (fold (land_member ex) es b)) (\<lambda>(b', files, n). ret (b', f files, g n)))"
    for es f and g :: "nat \<Rightarrow> nat"
  proof (rule ends_andthen [OF Cons])
    fix x :: "batch \<times> payload list \<times> nat"
    obtain b' fs n where x: "x = (b', fs, n)" by (cases x)
    assume "mset (b_pending (fst x)) \<subseteq># mset (b_pending (fold (land_member ex) es b))"
    moreover have "mset (b_pending (fold (land_member ex) es b)) \<subseteq># mset (b_pending b)"
      by (intro fold_pending land_member_pending)
    ultimately show "ends (\<lambda>x. mset (b_pending (fst x)) \<subseteq># mset (b_pending b))
        ((\<lambda>(b', files, n). ret (b', f files, g n)) x)"
      by (simp add: x ends_ret)
  qed
  have stay: "ends (\<lambda>x. mset (b_pending (fst x)) \<subseteq># mset (b_pending b))
      (andthen (zip_pass p token ex as b) (\<lambda>(b', files, n). ret (b', f files, n)))" for f
    using go [of "[]" f "\<lambda>n. n"] by simp
  have zipped: "ends (\<lambda>x. mset (b_pending (fst x)) \<subseteq># mset (b_pending b))
      (andthen (zip_pass p token ex as (fold (land_member ex) es b)) (\<lambda>(b', files, n). ret (b', files, Suc n)))" for es
    using go [of es "\<lambda>fs. fs" Suc] by simp
  show ?case
    unfolding zip_pass.simps
    by (intro ends_if ends_after ends_option stay zipped)
qed (simp add: ends_ret)

lemma set_first_occurrences [simp]: "set (first_occurrences xs) = set xs"
  by (simp add: first_occurrences_def)

lemma batch_progress: "ends (docs_progress st (length atts)) (process_files p ctx st atts)"
  unfolding process_files_def Let_def
  by (rule ends_after, rule ends_after, rule ends_after, rule ends_andthen [OF zip_pass_pending],
      rule ends_prod, rule ends_prod, rule ends_after, rule ends_after, rule ends_after, rule ends_after, rule ends_ret)
     (simp add: docs_progress_def subset_mset.order_trans [OF fold_pending [OF land_file_pending]])

lemma docs_unchanged:
  "v_missing st' = v_missing st \<Longrightarrow> v_uploaded st' = v_uploaded st \<Longrightarrow> v_acked st' = v_acked st \<Longrightarrow>
     docs_progress st n st'"
  by (simp add: docs_progress_def)

lemma docs_await_progress:
  "ends (docs_progress st (length (valid_upload_attachments p reply)))
     (documents_upload_loop_await p ctx reply st)"
  unfolding documents_upload_loop_await_def docs_paid_event_def docs_forced_status_def
    docs_settle_def docs_chat_def docs_upload_def Let_def
  by (intro ends_if ends_option ends_intent ends_ret batch_progress ends_after)
     (simp_all add: docs_unchanged)

text \<open>
  C7. Whatever arrives while the documents are collected, a slot is only ever closed, each at most once,
  the counter never falls and grows by no more than the files of the reply, and no receipt is taken back.
\<close>

theorem documents_accounted:
  assumes "documents_upload_loop_await p ctx reply st s = (Inr st', s')"
  shows "mset (v_missing st') \<subseteq># mset (v_missing st) \<and> v_uploaded st \<le> v_uploaded st' \<and>
         v_uploaded st' \<le> v_uploaded st + int (length (valid_upload_attachments p reply)) \<and>
         set (v_acked st) \<subseteq> set (v_acked st')"
  using endsD [OF docs_await_progress assms] by (simp add: docs_progress_def)

definition demo_files :: "payload list" where
  "demo_files = [[(''filename'', JStr ''qid.pdf''), (''content_base64'', JStr ''AAAA'')]]"

definition claim_ports :: "(trace \<Rightarrow> bool) \<Rightarrow> ports" where
  "claim_ports fails =
     (demo_ports ''VERIFIED'')\<lparr>pt_fails := fails,
        pt_value := \<lambda>tr. (case tr of
          E_Claim k n # rest \<Rightarrow>
            JBool (\<not> list_ex (\<lambda>e. case e of E_Claim k' _ \<Rightarrow> k' = k | _ \<Rightarrow> False) rest)
        | E_Kyc kind t c f m # _ \<Rightarrow> JObj [(''document_type'', JStr ''SHAREHOLDER_QID'')]
        | _ \<Rightarrow> JNull)\<rparr>"

definition demo_collecting :: conv_state where
  "demo_collecting = (fresh_state EMAIL ''a@b.c'')\<lparr>v_missing := [''qid''], v_required := [''qid'']\<rparr>"

definition demo_io :: io where
  "demo_io = \<lparr>io_trace = [], io_notices = []\<rparr>"

lemma demo_batch:
  "(case documents_upload_loop_await (claim_ports (\<lambda>_. False)) demo_ctx
           (JObj [(''attachments'', JList [JObj (hd demo_files)])]) demo_collecting demo_io of
      (Inl e, s1) \<Rightarrow> False
    | (Inr st', s1) \<Rightarrow> v_missing st' = [] \<and> v_uploaded st' = 1 \<and> v_acked st' = [''qid''])"
  by code_simp

theorem documents_accounted_witness:
  "\<exists>st' s'. documents_upload_loop_await (claim_ports (\<lambda>_. False)) demo_ctx
       (JObj [(''attachments'', JList [JObj (hd demo_files)])]) demo_collecting demo_io = (Inr st', s') \<and>
     v_missing st' = [] \<and> v_uploaded st' = 1 \<and> mset (v_missing st') \<subseteq># mset (v_missing demo_collecting)"
proof -
  obtain st' s' where r: "documents_upload_loop_await (claim_ports (\<lambda>_. False)) demo_ctx
       (JObj [(''attachments'', JList [JObj (hd demo_files)])]) demo_collecting demo_io = (Inr st', s')"
    "v_missing st' = []" "v_uploaded st' = 1"
    using demo_batch by (auto split: prod.splits sum.splits)
  with documents_accounted [OF r(1)] show ?thesis by blast
qed

subsection \<open>A backend that takes nothing\<close>

text \<open>
  Nothing is stored: every archive call fails, and every file's call fails or is answered with an
  upload that was refused.
\<close>

definition nothing_stored :: "ports \<Rightarrow> bool" where
  "nothing_stored p =
     (\<forall>t c f m tr.
        pt_fails p (E_Kyc K_Zip t c f m # tr) \<and>
        (pt_fails p (E_Kyc K_Classify_Upload t c f m # tr) \<or>
         \<not> upload_ok p (pt_value p (E_Kyc K_Classify_Upload t c f m # tr))))"

lemma zip_refused:
  assumes "nothing_stored p"
  shows "ends (\<lambda>x. fst x = b \<and> snd (snd x) = 0) (zip_pass p token ex as b)"
proof (induction as)
  case (Cons a as)
  have z: "ends (\<lambda>r. r = None) (trying (ask p (E_Kyc K_Zip token c f m)))" for c f m
    using assms by (auto simp: ends_def trying_def ask_def andthen_def call_def Let_def nothing_stored_def)
  have "ends (\<lambda>x. fst x = b \<and> snd (snd x) = 0)
      (andthen (zip_pass p token ex as b) (\<lambda>(b', files, n). ret (b', f files, n)))" for f
    by (rule ends_andthen [OF Cons]) (auto intro: ends_ret)
  then show ?case
    unfolding zip_pass.simps by (intro ends_if ends_andthen [OF z]) simp_all
qed (simp add: ends_ret)

lemma classify_refused: "nothing_stored p \<Longrightarrow> ends (\<lambda>r. \<not> fst r) (classify_one p token a)"
  unfolding nothing_stored_def
  by (auto simp: classify_one_def ends_def trying_def ask_def andthen_def call_def ret_def Let_def;
      metis)

lemma ends_each:
  assumes "\<And>x. ends P (f x)"
  shows "ends (list_all P) (each f xs)"
proof (induction xs)
  case (Cons x xs)
  show ?case
    by (simp, rule ends_andthen [OF assms], rule ends_andthen [OF Cons], rule ends_ret) simp
qed (simp add: ends_ret)

lemma fold_refused:
  assumes "list_all (\<lambda>r. \<not> fst r) rs"
  shows "b_pending (fold (land_file p ex) (zip fs rs) b) = b_pending b \<and>
         b_validated (fold (land_file p ex) (zip fs rs) b) = b_validated b \<and>
         b_unprocessed (fold (land_file p ex) (zip fs rs) b) = b_unprocessed b \<and>
         b_unrecognized (fold (land_file p ex) (zip fs rs) b) = b_unrecognized b"
  using assms
proof (induction rs arbitrary: fs b)
  case (Cons r rs)
  then show ?case by (cases fs; cases r) (simp_all add: land_file_def)
qed simp

lemma saved_refused: "list_all (\<lambda>r. \<not> fst r) rs \<Longrightarrow> filter fst rs = []"
  by (induction rs) auto

text \<open>
  The messages of such a batch: the acknowledgement that work has begun, sent before the backend is
  asked, the notice that nothing could be processed, and the requests to send files again.
\<close>

definition failure_message :: "string \<Rightarrow> body \<Rightarrow> bool" where
  "failure_message k b =
     (k \<in> {''onboarding.documents.processing'', ''onboarding.documents.upload_failed''} \<and> b = B_None \<or>
      k = ''onboarding.documents.single_received'' \<and>
      (b = B_Rows [Zip_Line] \<or> (\<exists>fs. fs \<noteq> [] \<and> b = B_Rows (map Resend_File fs))))"

lemma failure_messageI:
  "failure_message ''onboarding.documents.processing'' B_None"
  "failure_message ''onboarding.documents.upload_failed'' B_None"
  "failure_message ''onboarding.documents.single_received'' (B_Rows [Zip_Line])"
  "fs \<noteq> [] \<Longrightarrow> failure_message ''onboarding.documents.single_received'' (B_Rows (map Resend_File fs))"
  unfolding failure_message_def by blast+

definition failure_notices :: "effect set" where
  "failure_notices =
     {e. case e of
           E_Send ch i k b \<Rightarrow> failure_message k b | E_Template ch i k b \<Rightarrow> failure_message k b
         | E_Cta ch i k b \<Rightarrow> False | E_Buttons ch i k b \<Rightarrow> False | _ \<Rightarrow> True}"

lemma failure_notices_simps [simp]:
  "E_Now \<in> failure_notices" "E_Send ch i k b \<in> failure_notices \<longleftrightarrow> failure_message k b"
  "E_Template ch i k b \<in> failure_notices \<longleftrightarrow> failure_message k b" "E_Open ch i x y \<in> failure_notices"
  "E_Suppress t \<in> failure_notices" "E_Kyc kind t c nm m \<in> failure_notices"
  "E_Claim key n \<in> failure_notices"
  by (simp_all add: failure_notices_def)

lemma say_notice: "failure_message k b \<Longrightarrow> emits failure_notices (say p ctx st k b)"
  unfolding say_def say_on_def truth_def by (intro emit_rules) simp_all

lemma token_notices: "emits failure_notices (live_token p st ctx)"
  unfolding live_token_def mint_session_def Let_def by (intro emit_rules) simp_all

lemma zip_notices: "emits failure_notices (zip_pass p token ex as b)"
proof (induction as arbitrary: b)
  case (Cons a as)
  show ?case by (auto simp: Let_def intro!: emit_rules Cons)
qed (simp add: emit_rules)

lemma classify_notices: "emits failure_notices (classify_one p token a)"
  unfolding classify_one_def by (intro emit_rules) simp_all

lemma ack_notices: "emits failure_notices (processing_ack p ctx st z t)"
  unfolding processing_ack_def by (intro emit_rules say_notice failure_messageI)

lemma acknowledge_notices: "emits failure_notices (acknowledge_uploads p ctx st [] [] z m False)"
  unfolding acknowledge_uploads_def by (simp, intro conjI impI emit_rules say_notice failure_messageI)

lemma receipt_notices: "emits failure_notices (failure_receipt p ctx st failed [])"
proof (cases "failed = []")
  case False
  then have "first_occurrences failed \<noteq> []" by (simp add: first_occurrences_def)
  then have "failure_message ''onboarding.documents.single_received''
      (B_Rows (map Resend_File (first_occurrences failed) @ map Unrecognized_File (first_occurrences [])))"
    using failure_messageI(4) by (simp add: first_occurrences_def)
  with False show ?thesis unfolding failure_receipt_def by (simp, intro emit_rules say_notice)
qed (simp add: failure_receipt_def emit_rules)

lemma emits_ends:
  assumes "emits E m" "ends P m" "\<And>x. P x \<Longrightarrow> emits E (f x)"
  shows "emits E (andthen m f)"
  unfolding emits_def
proof
  fix s
  obtain r s' where m: "m s = (r, s')" by (cases "m s")
  obtain n1 where n1: "io_trace s' = n1 @ io_trace s" "set n1 \<subseteq> E" using emitsD [OF assms(1) m] .
  show "\<exists>new. io_trace (snd (andthen m f s)) = new @ io_trace s \<and> set new \<subseteq> E"
  proof (cases r)
    case (Inl e)
    with m n1 show ?thesis by (simp add: andthen_def)
  next
    case (Inr x)
    obtain r2 s2 where f: "f x s' = (r2, s2)" by (cases "f x s'")
    have "P x" using endsD [OF assms(2)] m Inr by blast
    then obtain n2 where "io_trace s2 = n2 @ io_trace s'" "set n2 \<subseteq> E"
      using emitsD [OF assms(3) f] by blast
    with m n1 Inr f show ?thesis by (auto simp: andthen_def intro: exI [of _ "n2 @ n1"])
  qed
qed

lemma batch_refused:
  assumes "nothing_stored p"
  shows "ends (\<lambda>st'. v_missing st' = v_missing st \<and> v_uploaded st' = v_uploaded st \<and>
                set (v_acked st') = set (v_acked st)) (process_files p ctx st atts)"
  unfolding process_files_def Let_def
  by (rule ends_after, rule ends_after, rule ends_after, rule ends_andthen [OF zip_refused [OF assms]],
      rule ends_prod, rule ends_prod,
      rule ends_andthen [OF ends_each [OF classify_refused [OF assms]]],
      rule ends_after, rule ends_after, rule ends_after, rule ends_ret)
     (simp add: fold_refused saved_refused)

lemma batch_notices:
  assumes "nothing_stored p"
  shows "emits failure_notices (process_files p ctx st atts)"
  unfolding process_files_def Let_def
  by (rule emits_andthen [OF emits_now], simp, rule emits_andthen [OF ack_notices],
      rule emits_andthen [OF token_notices], rule emits_ends [OF zip_notices zip_refused [OF assms]],
      rule emits_prod, rule emits_prod,
      rule emits_ends [OF emits_each [OF classify_notices] ends_each [OF classify_refused [OF assms]]],
      rule emits_andthen, simp add: fold_refused saved_refused acknowledge_notices,
      rule emits_andthen, simp add: fold_refused receipt_notices,
      intro emit_rules) (simp_all add: suppress_reminders_def emit_rules)

text \<open>
  C8. A batch of which nothing is stored, be it that the calls fail or that the answers report a refused upload,
  changes neither the open slots nor the counter nor the acknowledged types. It sends only the acknowledgement
  that processing begins, the notice that nothing could be processed and the requests to resend: no file
  of it is listed as validated, under review or received.
\<close>

theorem failed_batch_counts_nothing:
  assumes "nothing_stored p" "docs_upload p ctx st atts s = (r, s')"
  shows "(case r of
            Inl e \<Rightarrow> True
          | Inr st' \<Rightarrow> v_missing st' = v_missing st \<and> v_uploaded st' = v_uploaded st \<and>
                       set (v_acked st') = set (v_acked st)) \<and>
         (\<exists>new. io_trace s' = new @ io_trace s \<and> set new \<subseteq> failure_notices)"
proof -
  let ?Q = "\<lambda>st'. v_missing st' = v_missing st \<and> v_uploaded st' = v_uploaded st \<and>
              set (v_acked st') = set (v_acked st)"
  have "ends ?Q (docs_upload p ctx st atts)"
    unfolding docs_upload_def Let_def
    by (intro ends_after ends_if ends_ret batch_refused assms(1)) simp
  moreover have "emits failure_notices (docs_upload p ctx st atts)"
    unfolding docs_upload_def claimed_def truth_def Let_def
    by (intro emit_rules batch_notices assms(1)) simp_all
  ultimately show ?thesis
    using assms(2) by (auto split: sum.split dest: endsD elim: emitsD)
qed

text \<open>The archive call raises; the file's call is answered with status 200 and an upload that failed.\<close>

definition refusing_ports :: ports where
  "refusing_ports =
     (claim_ports (\<lambda>tr. case tr of E_Kyc K_Zip t c f m # _ \<Rightarrow> True | _ \<Rightarrow> False))
       \<lparr>pt_value := \<lambda>tr. (case tr of
          E_Claim k n # _ \<Rightarrow> JBool True
        | E_Kyc kind t c f m # _ \<Rightarrow>
            JObj [(''document_type'', JStr ''SHAREHOLDER_QID''),
                  (''upload'', JObj [(''success'', JBool False)])]
        | _ \<Rightarrow> JNull)\<rparr>"

lemma demo_refused:
  "(case docs_upload refusing_ports demo_ctx demo_collecting demo_files demo_io of
      (Inl e, s1) \<Rightarrow> False
    | (Inr st', s1) \<Rightarrow>
        v_missing st' = [''qid''] \<and> v_uploaded st' = 0 \<and>
        list_ex (\<lambda>e. case e of E_Send c i k b \<Rightarrow> b = B_Rows [Resend_File ''qid.pdf''] | _ \<Rightarrow> False)
          (io_trace s1))"
  by code_simp

theorem failed_batch_counts_nothing_witness:
  "\<exists>st' s'. docs_upload refusing_ports demo_ctx demo_collecting demo_files demo_io = (Inr st', s') \<and>
     v_missing st' = [''qid''] \<and> v_uploaded st' = 0 \<and> set (io_trace s') \<subseteq> failure_notices"
proof -
  obtain st' s' where r:
    "docs_upload refusing_ports demo_ctx demo_collecting demo_files demo_io = (Inr st', s')"
    "v_missing st' = [''qid'']" "v_uploaded st' = 0"
    using demo_refused by (auto split: prod.splits sum.splits)
  have "nothing_stored refusing_ports"
    by (simp add: nothing_stored_def refusing_ports_def claim_ports_def upload_ok_def jget_def)
  from failed_batch_counts_nothing [OF this r(1)] r show ?thesis by (auto simp: demo_io_def)
qed

subsection \<open>An interrupted batch\<close>

text \<open>A claim is won once: later claims of the key are refused, and a claim itself never fails.\<close>

definition exclusive_claims :: "ports \<Rightarrow> bool" where
  "exclusive_claims p =
     (\<forall>k n tr. \<not> pt_fails p (E_Claim k n # tr) \<and>
        pt_value p (E_Claim k n # tr) =
          JBool (\<not> list_ex (\<lambda>e. case e of E_Claim k' _ \<Rightarrow> k' = k | _ \<Rightarrow> False) tr))"

definition claim_of :: "ports \<Rightarrow> conv_ctx \<Rightarrow> payload list \<Rightarrow> effect" where
  "claim_of p ctx atts = E_Claim (''docs:inflight:'' @ k_identity ctx @ '':'' @ attempt_sig p atts) 60"

lemma claimed_refused:
  assumes "exclusive_claims p" "E_Claim k n \<in> set (io_trace s)"
  shows "claimed p k m s = (Inr False, s\<lparr>io_trace := E_Claim k m # io_trace s\<rparr>)"
proof -
  have "list_ex (\<lambda>e. case e of E_Claim k' _ \<Rightarrow> k' = k | _ \<Rightarrow> False) (io_trace s)"
    using assms(2) by (force simp: list_ex_iff)
  then show ?thesis
    using assms(1)
    by (simp add: claimed_def trying_def truth_def ask_def andthen_def call_def ret_def Let_def
        exclusive_claims_def)
qed

lemma claimed_asks: "\<exists>b. claimed p k n s = (Inr b, s\<lparr>io_trace := E_Claim k n # io_trace s\<rparr>)"
  by (cases "pt_fails p (E_Claim k n # io_trace s)")
     (auto simp add: claimed_def trying_def truth_def ask_def andthen_def call_def ret_def Let_def)

lemma raised_after_claim:
  assumes "docs_upload p ctx st atts s = (Inl e, s1)" "attempt_sig p atts \<noteq> []"
  shows "claim_of p ctx atts \<in> set (io_trace s1)"
proof -
  let ?k = "''docs:inflight:'' @ k_identity ctx @ '':'' @ attempt_sig p atts"
  obtain b s0 where c: "claimed p ?k 60 s = (Inr b, s0)" "io_trace s0 = E_Claim ?k 60 # io_trace s"
    using claimed_asks [of p ?k 60 s] by auto
  then have "process_files p ctx st atts s0 = (Inl e, s1)"
    using assms unfolding docs_upload_def Let_def
    by (auto simp: andthen_def ret_def split: if_splits)
  with emitsD [OF docs_free(1)] obtain new where "io_trace s1 = new @ io_trace s0" by metis
  with c(2) show ?thesis by (simp add: claim_of_def)
qed

text \<open>
  C9. A batch is claimed before it is processed and the claim is not given back: when the processing
  raises, the second attempt within the claim's time finds it taken, answers nothing, and ends as if no file had come.
\<close>

theorem interrupted_batch_dropped:
  assumes "docs_upload p ctx st atts s = (Inl e, s1)"
    and "exclusive_claims p" "attempt_sig p atts \<noteq> []" "k_identity ctx' = k_identity ctx"
  shows "docs_upload p ctx' st atts s1 =
           (Inr ((conv_step ''documents_upload_loop_await'' ctx' st)\<lparr>v_docs_received := False\<rparr>),
            s1\<lparr>io_trace := claim_of p ctx atts # io_trace s1\<rparr>)"
  using claimed_refused [OF assms(2) raised_after_claim [OF assms(1,3), unfolded claim_of_def]] assms(3,4)
  unfolding docs_upload_def Let_def claim_of_def by (simp add: andthen_def ret_def)

lemma demo_interrupted:
  "(case docs_upload (claim_ports (\<lambda>tr. case tr of E_Suppress t # _ \<Rightarrow> True | _ \<Rightarrow> False)) demo_ctx demo_collecting
           demo_files demo_io of
      (Inl e, s1) \<Rightarrow> list_ex (\<lambda>e. case e of E_Send c i k b \<Rightarrow> b = B_Rows [Validated ''qid''] | _ \<Rightarrow> False) (io_trace s1)
    | _ \<Rightarrow> False)"
  by code_simp

theorem interrupted_batch_dropped_witness:
  "\<exists>e s1. let p = claim_ports (\<lambda>tr. case tr of E_Suppress t # _ \<Rightarrow> True | _ \<Rightarrow> False) in
     docs_upload p demo_ctx demo_collecting demo_files demo_io = (Inl e, s1) \<and>
     fst (docs_upload p demo_ctx demo_collecting demo_files s1) =
       Inr ((conv_step ''documents_upload_loop_await'' demo_ctx demo_collecting)\<lparr>v_docs_received := False\<rparr>)"
proof -
  let ?p = "claim_ports (\<lambda>tr. case tr of E_Suppress t # _ \<Rightarrow> True | _ \<Rightarrow> False)"
  obtain e s1 where r: "docs_upload ?p demo_ctx demo_collecting demo_files demo_io = (Inl e, s1)"
    using demo_interrupted by (auto split: prod.splits sum.splits)
  have "exclusive_claims ?p" by (simp add: exclusive_claims_def claim_ports_def)
  moreover have "attempt_sig ?p demo_files \<noteq> []" by code_simp
  ultimately show ?thesis
    using interrupted_batch_dropped [OF r] r by (simp add: Let_def)
qed

end
