(* ===== verification/Conv_Theorems.thy ===== *)
theory Conv_Theorems
  imports Conv_Uploads Conv_Batch Dispatch_Props
begin

section \<open>The conversation as a whole\<close>

text \<open>
  The graph is total and its turns are short; what the backend's webhooks do to a run that waits at a
  gate, through the dispatcher's translation; and the payment request without a product.
\<close>

subsection \<open>The graph\<close>

text \<open>
  C3. The conversation cannot wedge: the nodes a run visits are the end and exactly the live nodes, and from a live one,
  whatever state the node leaves, the wiring gives one successor, which is again one of them. No router answers outside its map.
\<close>

theorem conversation_total:
  "visited n \<longleftrightarrow> n = END_NODE \<or>
     n \<in> set LIVE_NODES \<and> (\<forall>st. \<exists>d. next_node n st = Some d \<and> visited d)"
proof
  assume n: "visited n"
  show "n = END_NODE \<or> n \<in> set LIVE_NODES \<and> (\<forall>st. \<exists>d. next_node n st = Some d \<and> visited d)"
    using visited_dest [OF n] live_progress visited.step [OF n] by blast
next
  have "visited ''__end__''"
  proof (rule visited.step)
    show "visited ''declined''"
      by (rule visited_live) (simp add: LIVE_NODES_def NODES_def DEAD_NODES_def)
    show "next_node ''declined'' (fresh_state EMAIL []) = Some ''__end__''" by (simp add: next_edge)
  qed
  moreover assume "n = END_NODE \<or>
    n \<in> set LIVE_NODES \<and> (\<forall>st. \<exists>d. next_node n st = Some d \<and> visited d)"
  ultimately show "visited n" using visited_live by (auto simp: END_NODE_def)
qed

text \<open>
  C4. A turn, from where a run starts or was parked to the next node that awaits a reply, runs at most ten
  nodes, so no turn loops and none comes near the step limit of the graph runtime.
\<close>

theorem turn_bounded: "turn ns \<Longrightarrow> length ns \<le> 10"
  using turn_length [of ns] depth_le [of "hd ns"] by linarith

theorem turn_bounded_witness:
  "\<exists>ns. turn ns \<and> length ns = 10 \<and> length ns \<le> 10"
proof -
  let ?st = "fresh_state WHATSAPP []"
  let ?ns = "[''campaign_await'', ''check_contact_send'', ''check_contact_await'', ''channel_session_resume'', 
     ''resume_status_fetch'', ''business_details_fetch'', ''products_list_fetch'', ''payment_create'',
     ''payment_send_link'', ''payment_await'']"
  have "turn ?ns"
    by (rule turn.move [where st = "?st\<lparr>v_entry_reply := ''YES''\<rparr>"], (simp add: next_edge next_branch route_defs fresh_state_def AWAITING_def), (simp add: next_edge next_branch route_defs fresh_state_def AWAITING_def),
        rule turn.move [where st = "?st"], (simp add: next_edge next_branch route_defs fresh_state_def AWAITING_def), (simp add: next_edge next_branch route_defs fresh_state_def AWAITING_def),
        rule turn.move [where st = "?st\<lparr>v_reg_route := Some ''payment_link''\<rparr>"], (simp add: next_edge next_branch route_defs fresh_state_def AWAITING_def), (simp add: next_edge next_branch route_defs fresh_state_def AWAITING_def),
        rule turn.move [where st = "?st"], (simp add: next_edge next_branch route_defs fresh_state_def AWAITING_def), (simp add: next_edge next_branch route_defs fresh_state_def AWAITING_def),
        rule turn.move [where st = "?st\<lparr>v_journey := Some J_QUALIFIED\<rparr>"], (simp add: next_edge next_branch route_defs fresh_state_def AWAITING_def), (simp add: next_edge next_branch route_defs fresh_state_def AWAITING_def),
        rule turn.move [where st = "?st"], (simp add: next_edge next_branch route_defs fresh_state_def AWAITING_def), (simp add: next_edge next_branch route_defs fresh_state_def AWAITING_def),
        rule turn.move [where st = "?st"], (simp add: next_edge next_branch route_defs fresh_state_def AWAITING_def), (simp add: next_edge next_branch route_defs fresh_state_def AWAITING_def),
        rule turn.move [where st = "?st"], (simp add: next_edge next_branch route_defs fresh_state_def AWAITING_def), (simp add: next_edge next_branch route_defs fresh_state_def AWAITING_def),
        rule turn.park [where st = ?st], (simp add: next_edge next_branch route_defs fresh_state_def AWAITING_def), (simp add: next_edge next_branch route_defs fresh_state_def AWAITING_def))
  moreover from this have "length ?ns \<le> 10" by (rule turn_bounded)
  ultimately show ?thesis by fastforce
qed

subsection \<open>Webhooks at the gates\<close>

text \<open>
  A payload that overrides nothing the dispatcher derives.
\<close>

definition plain :: "payload \<Rightarrow> bool" where
  "plain pl =
     (distinct (dkeys pl) \<and>
      list_all (\<lambda>k. dget pl k = None)
        [''type'', ''event'', ''event_type'', ''paid'', ''journey_status'', ''prequalification_rejected'',
         ''last_status_source''])"

definition hook :: "string \<Rightarrow> payload \<Rightarrow> json" where
  "hook et pl = JObj (translate_backend_event et pl)"

lemma hook_get:
  assumes "plain pl" "dget pl k = None"
  shows "jget (translate_backend_event et pl) k = (case event_base et k of Some v \<Rightarrow> v | None \<Rightarrow> JNull)"
proof -
  obtain b where "translate_backend_event et pl = merge b pl" "dget b = event_base et"
    by (rule translate_base)
  moreover have "distinct (dkeys pl)" using assms(1) by (simp add: plain_def)
  ultimately show ?thesis using assms(2) by (simp add: jget_def dget_merge)
qed

text \<open>The journey status an event implies.\<close>

definition event_status :: "string \<Rightarrow> journey option" where
  "event_status et = (case dget EVENT_TO_JOURNEY_STATUS et of Some s \<Rightarrow> journey_of s | None \<Rightarrow> None)"

lemma hook_status: "plain pl \<Longrightarrow> extract_journey_status (hook et pl) = event_status et"
  by (simp add: extract_journey_status_def hook_def hook_get plain_def event_base_def event_status_def
      split: option.split)

lemma hook_event: "plain pl \<Longrightarrow> et \<noteq> [] \<Longrightarrow> event_of (translate_backend_event et pl) = JStr et"
  by (simp add: event_of_def either_key_def hook_get plain_def event_base_def)

lemma hook_rejection: "plain pl \<Longrightarrow> is_rejection (hook et pl) \<longleftrightarrow> et = ''prequalification.rejected''"
  by (simp add: is_rejection_def hook_def hook_get plain_def event_base_def)

lemma hook_paid:
  "plain pl \<Longrightarrow> is_paid_event (hook et pl) \<longleftrightarrow> et \<in> {''payment.completed'', ''qualified.waived''}"
  by (auto simp: is_paid_event_def hook_def hook_get plain_def event_base_def PHASE1B_BACKEND_EVENTS_def)

definition PAID_EVENTS :: "string list" where
  "PAID_EVENTS = [''payment.completed'', ''qualified.waived'']"

text \<open>
  What each event implies: the status of a stage before the payment, of one past it, or none.
\<close>

definition BEFORE_PAYMENT_EVENTS :: "string list" where
  "BEFORE_PAYMENT_EVENTS =
     [''eligibility.updated'', ''documents.completed'', ''prequalification.completed'',
      ''madad_score.ready'']"

definition PAST_PAYMENT_EVENTS :: "string list" where
  "PAST_PAYMENT_EVENTS =
     [''offers.available'', ''offer.accepted'', ''offer.selected'', ''credit_line.activated'']"

definition SILENT_EVENTS :: "string list" where
  "SILENT_EVENTS = PAID_EVENTS @ PHASE1B_BACKEND_EVENTS"

lemma event_table:
  "list_all (\<lambda>et. et \<noteq> [] \<and>
      (et \<in> set BEFORE_PAYMENT_EVENTS \<longrightarrow>
         event_status et \<in> {Some J_QUALIFIED, Some J_PRE_QUALIFIED} \<and> et \<notin> set PAID_EVENTS \<and>
         et \<notin> set SILENT_EVENTS \<and> et \<noteq> ''prequalification.rejected'') \<and>
      (et \<in> set PAST_PAYMENT_EVENTS \<longrightarrow> post_payment (event_status et) \<and> et \<notin> set PAID_EVENTS \<and>
         et \<notin> set SILENT_EVENTS \<and> et \<noteq> ''prequalification.rejected'') \<and>
      (et \<notin> set BEFORE_PAYMENT_EVENTS \<and> et \<notin> set PAST_PAYMENT_EVENTS \<longrightarrow>
         event_status et = None \<and> (et = ''prequalification.rejected'' \<or> et \<in> set SILENT_EVENTS) \<and>
         et \<notin> {''prequalification.completed'', ''eligibility.updated'', ''documents.completed'',
                 ''madad_score.ready'', ''payment.requested''}))
     ALL_BACKEND_EVENTS"
  by code_simp

lemmas event_row = bspec [OF event_table [unfolded list_all_iff]]

lemma event_cases:
  assumes "et \<in> set ALL_BACKEND_EVENTS"
  obtains (before) "et \<in> set BEFORE_PAYMENT_EVENTS" "event_status et \<in> {Some J_QUALIFIED, Some J_PRE_QUALIFIED}"
      "et \<notin> set SILENT_EVENTS" "et \<notin> set PAID_EVENTS" "et \<noteq> ''prequalification.rejected''"
    | (past) "et \<in> set PAST_PAYMENT_EVENTS" "post_payment (event_status et)"
      "et \<notin> set SILENT_EVENTS" "et \<notin> set PAID_EVENTS" "et \<noteq> ''prequalification.rejected''"
    | (none) "et \<notin> set BEFORE_PAYMENT_EVENTS" "et \<notin> set PAST_PAYMENT_EVENTS" "event_status et = None"
      "et = ''prequalification.rejected'' \<or> et \<in> set SILENT_EVENTS"
      "et \<notin> {''prequalification.completed'', ''eligibility.updated'', ''documents.completed'',
               ''madad_score.ready'', ''payment.requested''}"
  using event_row [OF assms] by metis

lemma event_name: "et \<in> set ALL_BACKEND_EVENTS \<Longrightarrow> et \<noteq> []"
  using event_row by blast

lemma event_none_table:
  "list_all (\<lambda>et. event_status et = None \<longleftrightarrow> et = ''prequalification.rejected'' \<or> et \<in> set SILENT_EVENTS)
     ALL_BACKEND_EVENTS"
  by code_simp

lemmas event_none = bspec [OF event_none_table [unfolded list_all_iff]]

lemma event_untriggered_table:
  "list_all (\<lambda>et. event_status et \<noteq> None \<or>
      et \<notin> {''prequalification.completed'', ''eligibility.updated'', ''documents.completed''})
     ALL_BACKEND_EVENTS"
  by code_simp

lemmas event_untriggered = bspec [OF event_untriggered_table [unfolded list_all_iff]]

text \<open>What the gates ask of a payload, for a webhook.\<close>

lemma prequalify_trigger_hook:
  assumes "plain pl" "et \<in> set ALL_BACKEND_EVENTS"
  shows "is_prequalify_trigger (hook et pl) \<longleftrightarrow> event_status et \<noteq> None"
proof -
  have "is_prequalify_trigger (hook et pl) \<longleftrightarrow> event_status et \<noteq> None \<or>
      et \<in> {''prequalification.completed'', ''eligibility.updated'', ''documents.completed''}"
    using hook_event [OF assms(1) event_name [OF assms(2)]]
    unfolding is_prequalify_trigger_def hook_status [OF assms(1)]
    by (simp only: hook_def json.case insert_iff empty_iff json.inject simp_thms)
  moreover have "event_status et \<noteq> None \<or>
      et \<notin> {''prequalification.completed'', ''eligibility.updated'', ''documents.completed''}"
    using assms(2) by (rule event_untriggered)
  ultimately show ?thesis by blast
qed

lemma payment_trigger_hook:
  assumes "plain pl" "et \<in> set ALL_BACKEND_EVENTS"
  shows "is_payment_trigger (hook et pl) \<longleftrightarrow>
    et \<in> {''madad_score.ready'', ''payment.requested''} \<or>
    event_status et \<in> {Some J_QUALIFIED, Some J_PRE_QUALIFIED}"
  using hook_event [OF assms(1) event_name [OF assms(2)]]
  unfolding is_payment_trigger_def hook_status [OF assms(1)]
  by (simp only: hook_def json.case insert_iff empty_iff json.inject simp_thms)

lemma paid_hook: "plain pl \<Longrightarrow> is_paid_event (hook et pl) \<longleftrightarrow> et \<in> set PAID_EVENTS"
  using hook_paid by (simp add: PAID_EVENTS_def)

text \<open>A gate that stays shut changes none of the flags its router reads but its own.\<close>

lemma capture_gates:
  "ends (\<lambda>r. \<forall>st'. r = Some st' \<longrightarrow> v_rejected st' = v_rejected st \<and> v_journey st' = v_journey st \<and>
           v_paid st' = v_paid st)
     (capture_additional_documents p st ctx j)"
  unfolding capture_additional_documents_def
  by (intro end_rules) (simp_all add: with_creds_def split: prod.split)

lemma parked_gates:
  assumes "\<And>x. v_rejected x = v_rejected st \<Longrightarrow> v_journey x = v_journey st \<Longrightarrow> v_paid x = v_paid st \<Longrightarrow>
      Q (shut x)"
  shows "ends Q (stay_parked p ctx j st line shut)"
  unfolding stay_parked_def
  by (intro ends_if ends_ret ends_andthen [OF capture_gates] end_rules) (simp_all add: assms)

definition after_prequalify :: "conv_state \<Rightarrow> string \<Rightarrow> string" where
  "after_prequalify st et =
     (if v_rejected st \<or> et = ''prequalification.rejected'' then ''not_pre_qualified''
      else if et \<in> set SILENT_EVENTS then ''prequalify_wait_await''
      else ''documents_list_fetch'')"

lemma prequalify_hook:
  assumes "plain pl" "et \<in> set ALL_BACKEND_EVENTS"
  shows "ends (\<lambda>st'. next_node ''prequalify_wait_await'' st' = Some (after_prequalify st et))
           (prequalify_wait_await p ctx (hook et pl) st)"
proof -
  note route = next_branch route_prequalify_wait_def conv_step_def
  note rejection = hook_rejection [OF assms(1)]
  note trigger = prequalify_trigger_hook [OF assms]
  consider (rej) "et = ''prequalification.rejected''"
    | (open_up) "et \<noteq> ''prequalification.rejected''" "et \<notin> set SILENT_EVENTS" "event_status et \<noteq> None"
    | (silent) "et \<noteq> ''prequalification.rejected''" "et \<in> set SILENT_EVENTS" "event_status et = None"
    using event_none [OF assms(2)] by argo
  then show ?thesis
  proof cases
    case rej
    then have "is_rejection (hook et pl)" using rejection by blast
    moreover have "after_prequalify st et = ''not_pre_qualified''" using rej by (simp add: after_prequalify_def)
    ultimately show ?thesis
      unfolding prequalify_wait_await_def Let_def
      by (simp only: if_True) (intro ends_after ends_ret, simp add: route)
  next
    case open_up
    then have "\<not> is_rejection (hook et pl)" "is_prequalify_trigger (hook et pl)"
      using rejection trigger by blast+
    moreover have "after_prequalify st et = (if v_rejected st then ''not_pre_qualified'' else ''documents_list_fetch'')"
      using open_up by (simp add: after_prequalify_def)
    ultimately show ?thesis
      unfolding prequalify_wait_await_def Let_def
      by (simp only: if_True if_False) (intro ends_after ends_ret, simp add: route)
  next
    case silent
    then have "\<not> is_rejection (hook et pl)" "\<not> is_prequalify_trigger (hook et pl)"
      using rejection trigger by blast+
    moreover have "after_prequalify st et = (if v_rejected st then ''not_pre_qualified'' else ''prequalify_wait_await'')"
      using silent by (simp add: after_prequalify_def)
    ultimately show ?thesis
      unfolding prequalify_wait_await_def Let_def
      by (simp only: if_False) (rule parked_gates, simp add: route)
  qed
qed

definition after_payment_gate :: "conv_state \<Rightarrow> string \<Rightarrow> string" where
  "after_payment_gate st et =
     (if v_paid st then ''lender_status_poll''
      else if v_payment_ready st then ''business_details_fetch''
      else if et \<in> set PAID_EVENTS \<or> et \<in> set PAST_PAYMENT_EVENTS then ''lender_status_poll''
      else if et \<in> set BEFORE_PAYMENT_EVENTS \<or> v_journey st = Some J_QUALIFIED \<or> post_payment (v_journey st)
      then ''business_details_fetch''
      else ''payment_wait_await'')"

lemma payment_hook:
  assumes "plain pl" "et \<in> set ALL_BACKEND_EVENTS"
  shows "ends (\<lambda>st'. next_node ''payment_wait_await'' st' = Some (after_payment_gate st et))
           (payment_wait_await p ctx (hook et pl) st)"
proof (cases "v_payment_ready st \<or> v_paid st")
  case True
  then have n: "after_payment_gate st et = (if v_paid st then ''lender_status_poll'' else ''business_details_fetch'')"
    by (auto simp: after_payment_gate_def)
  from True show ?thesis
    unfolding payment_wait_await_def Let_def n
    by (simp only: if_True) (intro ends_ret, auto simp: next_branch route_payment_wait_def conv_step_def)
next
  case fresh: False
  note route = next_branch route_payment_wait_def conv_step_def
  note paid = paid_hook [OF assms(1)] and status = hook_status [OF assms(1), of et]
    and trigger = payment_trigger_hook [OF assms]
  show ?thesis
  proof (cases "et \<in> set PAID_EVENTS")
    case True
    then have "is_paid_event (hook et pl)" "after_payment_gate st et = ''lender_status_poll''"
      using paid fresh by (simp_all add: after_payment_gate_def)
    then show ?thesis
      unfolding payment_wait_await_def Let_def using fresh
      by (simp only: if_True if_False) (intro ends_ret, simp add: route)
  next
    case False
    then have unpaid: "\<not> is_paid_event (hook et pl)" using paid by blast
    from assms(2) show ?thesis
    proof (cases rule: event_cases)
      case past
      then have "post_payment (extract_journey_status (hook et pl))"
        "after_payment_gate st et = ''lender_status_poll''"
        using status fresh by (simp_all add: after_payment_gate_def)
      then show ?thesis
        unfolding payment_wait_await_def Let_def using fresh unpaid
        by (simp only: if_True if_False) (intro ends_ret, simp add: route)
    next
      case before
      have np: "\<not> post_payment (event_status et)" using before(2) by (auto simp: post_payment_def)
      then have far: "et \<notin> set PAST_PAYMENT_EVENTS" using event_row [OF assms(2)] by blast
      have "\<not> post_payment (extract_journey_status (hook et pl))" "is_payment_trigger (hook et pl)"
        unfolding status trigger using np before(2) by blast+
      moreover have "after_payment_gate st et = ''business_details_fetch''"
        using fresh before(1,4) far by (simp add: after_payment_gate_def)
      ultimately show ?thesis
        unfolding payment_wait_await_def Let_def using fresh unpaid
        by (simp only: if_True if_False) (intro ends_ret, use fresh in \<open>simp add: route\<close>)
    next
      case none
      have "\<not> post_payment (extract_journey_status (hook et pl))" "\<not> is_payment_trigger (hook et pl)"
        unfolding status trigger none(3) post_payment_def using none(5) by simp_all
      moreover have "after_payment_gate st et =
          (if v_journey st = Some J_QUALIFIED \<or> post_payment (v_journey st) then ''business_details_fetch''
           else ''payment_wait_await'')"
        using fresh False none(1,2) by (simp add: after_payment_gate_def)
      ultimately show ?thesis
        unfolding payment_wait_await_def Let_def using fresh unpaid
        by (simp only: if_False) (rule parked_gates, use fresh in \<open>simp add: route\<close>)
    qed
  qed
qed

text \<open>
  C10. What each of the seventeen backend events does to a run at the pre-qualification gate, in
  whatever state: a rejection ends it, a payment, a waiver and the invoice events of the second phase leave it where
  it is, and every other event opens the document collection. A run already rejected ends. The payload
  sets none of the keys the dispatcher derives, and the node does not raise.
\<close>

theorem webhooks_at_prequalify_gate:
  assumes "plain pl" "et \<in> set ALL_BACKEND_EVENTS"
    and "prequalify_wait_await p ctx (JObj (translate_backend_event et pl)) st s = (Inr st', s')"
  shows "next_node ''prequalify_wait_await'' st' =
    Some (if v_rejected st \<or> et = ''prequalification.rejected'' then ''not_pre_qualified''
          else if et \<in> {''payment.completed'', ''qualified.waived'', ''transaction.disbursed'',
                        ''repayment.received'', ''repayment.partially_paid'', ''repayment.closed'',
                        ''repayment.due_soon'', ''repayment.overdue''}
          then ''prequalify_wait_await''
          else ''documents_list_fetch'')"
  using endsD [OF prequalify_hook [OF assms(1,2)], unfolded hook_def, OF assms(3)]
  by (simp only: after_prequalify_def SILENT_EVENTS_def PAID_EVENTS_def PHASE1B_BACKEND_EVENTS_def
      append.simps list.set)

theorem webhooks_at_prequalify_gate_witness:
  "\<exists>st' s'. prequalify_wait_await (demo_ports ''VERIFIED'') demo_ctx
       (JObj (translate_backend_event ''prequalification.completed'' [(''score'', JInt 7)]))
       (fresh_state EMAIL ''a@b.c'') demo_io = (Inr st', s') \<and>
     next_node ''prequalify_wait_await'' st' = Some ''documents_list_fetch''"
proof -
  let ?pl = "[(''score'', JInt 7)]"
  have run: "case prequalify_wait_await (demo_ports ''VERIFIED'') demo_ctx
       (JObj (translate_backend_event ''prequalification.completed'' ?pl))
       (fresh_state EMAIL ''a@b.c'') demo_io of (Inl e, s') \<Rightarrow> False | (Inr st', s') \<Rightarrow> True"
    by code_simp
  then obtain st' s' where r: "prequalify_wait_await (demo_ports ''VERIFIED'') demo_ctx
       (JObj (translate_backend_event ''prequalification.completed'' ?pl))
       (fresh_state EMAIL ''a@b.c'') demo_io = (Inr st', s')"
    by (auto split: prod.splits sum.splits)
  have "plain ?pl" "''prequalification.completed'' \<in> set ALL_BACKEND_EVENTS" by code_simp+
  from webhooks_at_prequalify_gate [OF this r] r show ?thesis
    by (simp add: fresh_state_def)
qed

text \<open>
  C11. What each of the seventeen backend events does to a run at the payment gate, in whatever state. A run already
  paid goes to the lender, and one whose payment is due to the payment. Else a payment, a waiver and any
  status past the payment move it to the lender without charging; an eligibility, a document set, a
  pre-qualification or a score starts the payment; and a late rejection or an invoice event leaves it waiting,
  unless the journey it already has is qualified or beyond, which starts the payment. The payload
  sets none of the keys the dispatcher derives, and the node does not raise.
\<close>

theorem webhooks_at_payment_gate:
  assumes "plain pl" "et \<in> set ALL_BACKEND_EVENTS"
    and "payment_wait_await p ctx (JObj (translate_backend_event et pl)) st s = (Inr st', s')"
  shows "next_node ''payment_wait_await'' st' =
    Some (if v_paid st then ''lender_status_poll''
          else if v_payment_ready st then ''business_details_fetch''
          else if et \<in> {''payment.completed'', ''qualified.waived'', ''offers.available'', ''offer.accepted'',
                        ''offer.selected'', ''credit_line.activated''}
          then ''lender_status_poll''
          else if et \<in> {''eligibility.updated'', ''documents.completed'', ''prequalification.completed'',
                        ''madad_score.ready''} \<or>
               v_journey st \<in> {Some J_QUALIFIED, Some J_ACCEPTED, Some J_OFFER_ACCEPTED, Some J_ACTIVATED}
          then ''business_details_fetch''
          else ''payment_wait_await'')"
proof -
  have "v_journey st \<in> {Some J_QUALIFIED, Some J_ACCEPTED, Some J_OFFER_ACCEPTED, Some J_ACTIVATED} \<longleftrightarrow>
      v_journey st = Some J_QUALIFIED \<or> post_payment (v_journey st)"
    unfolding post_payment_def by blast
  moreover have "et \<in> {''payment.completed'', ''qualified.waived'', ''offers.available'', ''offer.accepted'',
                        ''offer.selected'', ''credit_line.activated''} \<longleftrightarrow>
      et \<in> set PAID_EVENTS \<or> et \<in> set PAST_PAYMENT_EVENTS"
    by (simp only: PAID_EVENTS_def PAST_PAYMENT_EVENTS_def list.set insert_iff empty_iff simp_thms disj_assoc)
  moreover have "et \<in> {''eligibility.updated'', ''documents.completed'', ''prequalification.completed'',
                        ''madad_score.ready''} \<longleftrightarrow> et \<in> set BEFORE_PAYMENT_EVENTS"
    by (simp only: BEFORE_PAYMENT_EVENTS_def list.set)
  ultimately show ?thesis
    using endsD [OF payment_hook [OF assms(1,2)], unfolded hook_def, OF assms(3)]
    by (simp only: after_payment_gate_def)
qed

theorem webhooks_at_payment_gate_witness:
  "\<exists>st' s'. payment_wait_await (demo_ports ''VERIFIED'') demo_ctx
       (JObj (translate_backend_event ''offers.available'' [])) (fresh_state EMAIL ''a@b.c'') demo_io = (Inr st', s') \<and>
     next_node ''payment_wait_await'' st' = Some ''lender_status_poll''"
proof -
  have run: "case payment_wait_await (demo_ports ''VERIFIED'') demo_ctx
       (JObj (translate_backend_event ''offers.available'' [])) (fresh_state EMAIL ''a@b.c'') demo_io of
       (Inl e, s') \<Rightarrow> False | (Inr st', s') \<Rightarrow> True"
    by code_simp
  then obtain st' s' where r: "payment_wait_await (demo_ports ''VERIFIED'') demo_ctx
       (JObj (translate_backend_event ''offers.available'' [])) (fresh_state EMAIL ''a@b.c'') demo_io = (Inr st', s')"
    by (auto split: prod.splits sum.splits)
  have pl: "plain []" "''offers.available'' \<in> set ALL_BACKEND_EVENTS"
    by code_simp+
  from webhooks_at_payment_gate [OF pl r] r show ?thesis
    by (simp add: fresh_state_def)
qed

subsection \<open>A payment without a product\<close>

definition has_announced :: "string \<Rightarrow> body \<Rightarrow> trace \<Rightarrow> bool" where
  "has_announced key b tr =
     list_ex (\<lambda>e. case e of
        E_Send ch i k b' \<Rightarrow> k = key \<and> b' = b | E_Template ch i k b' \<Rightarrow> k = key \<and> b' = b | _ \<Rightarrow> False) tr"

lemma has_announced_append: "has_announced k b (xs @ ys) \<longleftrightarrow> has_announced k b xs \<or> has_announced k b ys"
  by (simp add: has_announced_def)

lemma say_on_announces:
  assumes "say_on p ch i key b s = (Inr (), s')"
  shows "has_announced key b (io_trace s')"
  using assms unfolding say_on_def truth_def has_announced_def
  by (auto simp: andthen_def trying_def call_def ask_def ret_def Let_def
      split: if_splits prod.splits sum.splits option.splits)

lemma say_announces:
  assumes "say p ctx st key b s = (Inr (), s')" "key \<notin> set EMAIL_SUPPRESSED_ACKS"
  shows "has_announced key b (io_trace s')"
proof -
  let ?f = "if key \<in> set MILESTONE_TEMPLATES then
      (case mirror_target st ctx of
         None \<Rightarrow> ret ()
       | Some (ch, ident) \<Rightarrow>
           if ch = EMAIL \<and> key \<in> set EMAIL_SUPPRESSED_ACKS then ret ()
           else andthen (trying (say_on p ch ident key b)) (\<lambda>_. ret ())) else ret ()"
  have f: "emits free ?f" by (intro emit_rules)
  have "andthen (say_on p (k_channel ctx) (k_identity ctx) key b) (\<lambda>_. ?f) s = (Inr (), s')"
    using assms unfolding say_def by simp
  then obtain s1 where on: "say_on p (k_channel ctx) (k_identity ctx) key b s = (Inr (), s1)"
    and rest: "?f s1 = (Inr (), s')"
    by (rule andthenE) auto
  from emitsD [OF f rest] obtain new where "io_trace s' = new @ io_trace s1" by metis
  with say_on_announces [OF on] show ?thesis by (simp add: has_announced_append)
qed

text \<open>No product of the catalogue can be charged to the applicant.\<close>

definition unpriced :: "ports \<Rightarrow> bool" where
  "unpriced p = (\<forall>t tr. list_all (\<lambda>d. \<not> sme_product p d) (products_of (pt_value p (E_Products t # tr))))"

lemma jget_Nil: "jget [] k = JNull"
  by (simp add: jget_def)

lemma pick_nothing: "list_all (\<lambda>d. \<not> sme_product p d) ds \<Longrightarrow> pick_product p ds = []"
  unfolding pick_product_def by (simp add: list_all_iff Let_def cong: filter_cong)

definition no_product :: "conv_state \<Rightarrow> bool" where
  "no_product st = (v_product_id st = JNull \<and> v_amount st = None \<and> v_payment_link st = JNull)"

lemma ends_ask_value:
  assumes "\<And>tr. Q (pt_value p (e # tr))"
  shows "ends Q (ask p e)"
  using assms by (auto simp: ends_def ask_def andthen_def call_def Let_def)

lemma no_product_simps [simp]:
  "no_product (with_creds c st) = no_product st" "no_product (conv_step n ctx st) = no_product st"
  by (simp_all add: no_product_def with_creds_def conv_step_def split: prod.split)

lemma fetch_no_product:
  assumes "unpriced p" "no_product st"
  shows "ends no_product (products_list_fetch p ctx st)"
  unfolding products_list_fetch_def Let_def
proof (rule ends_after, rule ends_if, rule ends_ret)
  fix c :: creds
  let ?st = "with_creds c (conv_step ''products_list_fetch'' ctx st)"
  show "no_product ?st" using assms(2) by simp
  show "ends no_product (andthen (ask p (E_Products (the (fst c)))) (\<lambda>result.
         ret (?st\<lparr>v_product_id := any_key (pick_product p (products_of result)) [''product_id'', ''productId'', ''id''],
                  v_amount := product_amount (pick_product p (products_of result))\<rparr>)))"
  proof (rule ends_andthen [where P = "\<lambda>j. pick_product p (products_of j) = []"])
    show "ends (\<lambda>j. pick_product p (products_of j) = []) (ask p (E_Products (the (fst c))))"
      using assms(1) pick_nothing unfolding unpriced_def by (blast intro: ends_ask_value)
    show "ends no_product (ret (?st\<lparr>v_product_id := any_key (pick_product p (products_of j)) [''product_id'', ''productId'', ''id''],
                  v_amount := product_amount (pick_product p (products_of j))\<rparr>))"
      if "pick_product p (products_of j) = []" for j
      using that assms(2)
      by (intro ends_ret) (simp add: no_product_def product_amount_def int_of_json_def jget_Nil with_creds_def
          conv_step_def split: prod.split)
  qed
qed

lemma create_no_product:
  assumes "no_product st"
  shows "ends no_product (payment_create p ctx st)" "emits free (payment_create p ctx st)"
  using assms unfolding payment_create_def Let_def no_product_def
  by (intro end_rules emit_rules; simp add: with_creds_def conv_step_def split: prod.splits)+

lemma send_link_schedules:
  assumes "payment_send_link p ctx st s = (Inr st', s')"
  shows "\<exists>target. E_Schedule ''payment_pending'' target \<in> set (io_trace s')"
proof -
  from assms obtain c s1 s2 where call: "call p (E_Schedule ''payment_pending'' (target_ref ctx st)) s1 = (Inr (), s2)"
    and token: "live_token p st ctx s2 = (Inr c, s')"
    unfolding payment_send_link_def Let_def by (auto elim!: andthenE simp: ret_def)
  obtain new where "io_trace s' = new @ io_trace s2" using emitsD [OF token_free token] .
  with call show ?thesis by (auto simp: call_def Let_def)
qed

lemma send_link_announces:
  assumes "payment_send_link p ctx st s = (Inr st', s')" "v_payment_link st = JNull"
  shows "has_announced ''onboarding.payment.request''
           (B_Payment (or_int (v_amount st) None) (v_score st) JNull) (io_trace s')"
proof -
  let ?b = "B_Payment (or_int (v_amount st) None) (v_score st) JNull"
  let ?f = "\<lambda>_. andthen (update_progress p st ctx 6) (\<lambda>_.
      andthen (call p (E_Schedule ''payment_pending'' (target_ref ctx st))) (\<lambda>_.
      andthen (live_token p st ctx) (\<lambda>c. ret (with_creds c (conv_step ''payment_send_link'' ctx st)))))"
  have "andthen (say p ctx st ''onboarding.payment.request'' ?b) ?f s = (Inr st', s')"
    using assms unfolding payment_send_link_def Let_def by (simp add: andthen_def ret_def)
  then obtain s1 where said: "say p ctx st ''onboarding.payment.request'' ?b s = (Inr (), s1)"
    and rest: "?f () s1 = (Inr st', s')"
    by (rule andthenE) auto
  have "emits free (?f ())" by (intro emit_rules) simp_all
  from emitsD [OF this rest] obtain new where "io_trace s' = new @ io_trace s1" by metis
  moreover have "has_announced ''onboarding.payment.request'' ?b (io_trace s1)"
    by (rule say_announces [OF said]) (simp add: EMAIL_SUPPRESSED_ACKS_def)
  ultimately show ?thesis by (simp add: has_announced_append)
qed

text \<open>
  C12. When the catalogue holds no product charged to the applicant, no payment is created, and yet the
  applicant is sent a payment request, without amount and link, a payment reminder is scheduled, and
  the run goes on to wait for the payment.
\<close>

theorem unpriced_payment_still_requested:
  assumes "unpriced p" "no_product st"
    and "products_list_fetch p ctx st s = (Inr st1, s1)"
    and "payment_create p ctx st1 s1 = (Inr st2, s2)"
    and "payment_send_link p ctx st2 s2 = (Inr st3, s3)"
  shows "charges (io_trace s3) = charges (io_trace s) \<and>
         has_announced ''onboarding.payment.request'' (B_Payment None (v_score st2) JNull) (io_trace s3) \<and>
         (\<exists>target. E_Schedule ''payment_pending'' target \<in> set (io_trace s3)) \<and>
         next_node ''payment_send_link'' st3 = Some ''payment_await''"
proof -
  have st1: "no_product st1" using endsD [OF fetch_no_product [OF assms(1,2)] assms(3)] .
  have st2: "no_product st2" using endsD [OF create_no_product(1) [OF st1] assms(4)] .
  have "charges (io_trace s3) = charges (io_trace s)"
    using free_keeps_charges [OF late_nodes_free(10) assms(3)]
      free_keeps_charges [OF create_no_product(2) [OF st1] assms(4)]
      free_keeps_charges [OF late_nodes_free(11) assms(5)] by simp
  moreover have "has_announced ''onboarding.payment.request'' (B_Payment None (v_score st2) JNull) (io_trace s3)"
    using send_link_announces [OF assms(5)] st2 by (simp add: no_product_def or_int_def)
  ultimately show ?thesis using send_link_schedules [OF assms(5)] by (simp add: next_edge)
qed

definition bare_ports :: ports where
  "bare_ports = (demo_ports [])\<lparr>pt_value := \<lambda>_. JNull\<rparr>"

lemma returned:
  "(case x of (Inl e, s) \<Rightarrow> False | (Inr y, s) \<Rightarrow> P y s) \<Longrightarrow> \<exists>y s. x = (Inr y, s) \<and> P y s"
  by (auto split: prod.splits sum.splits)

lemma demo_unpriced:
  "(case products_list_fetch bare_ports demo_ctx (fresh_state EMAIL ''a@b.c'') demo_io of
      (Inl e, s1) \<Rightarrow> False
    | (Inr st1, s1) \<Rightarrow>
        (case payment_create bare_ports demo_ctx st1 s1 of
           (Inl e, s2) \<Rightarrow> False
         | (Inr st2, s2) \<Rightarrow>
             (case payment_send_link bare_ports demo_ctx st2 s2 of
                (Inl e, s3) \<Rightarrow> False | (Inr st3, s3) \<Rightarrow> True)))"
  by code_simp

theorem unpriced_payment_still_requested_witness:
  "\<exists>st1 s1 st2 s2 st3 s3.
     products_list_fetch bare_ports demo_ctx (fresh_state EMAIL ''a@b.c'') demo_io = (Inr st1, s1) \<and>
     payment_create bare_ports demo_ctx st1 s1 = (Inr st2, s2) \<and>
     payment_send_link bare_ports demo_ctx st2 s2 = (Inr st3, s3) \<and> charges (io_trace s3) = [] \<and>
     has_announced ''onboarding.payment.request'' (B_Payment None (v_score st2) JNull) (io_trace s3)"
proof -
  obtain st1 s1 where r1:
      "products_list_fetch bare_ports demo_ctx (fresh_state EMAIL ''a@b.c'') demo_io = (Inr st1, s1)"
    and rest: "(case payment_create bare_ports demo_ctx st1 s1 of
           (Inl e, s2) \<Rightarrow> False
         | (Inr st2, s2) \<Rightarrow>
             (case payment_send_link bare_ports demo_ctx st2 s2 of
                (Inl e, s3) \<Rightarrow> False | (Inr st3, s3) \<Rightarrow> True))"
    using returned [OF demo_unpriced] by (elim exE conjE)
  obtain st2 s2 where r2: "payment_create bare_ports demo_ctx st1 s1 = (Inr st2, s2)"
    and last: "(case payment_send_link bare_ports demo_ctx st2 s2 of
                (Inl e, s3) \<Rightarrow> False | (Inr st3, s3) \<Rightarrow> True)"
    using returned [OF rest] by (elim exE conjE)
  obtain st3 s3 where "payment_send_link bare_ports demo_ctx st2 s2 = (Inr st3, s3)"
    using returned [OF last] by (elim exE conjE)
  note r = r1 r2 this
  have "unpriced bare_ports" by (simp add: unpriced_def bare_ports_def products_of_def)
  moreover have "no_product (fresh_state EMAIL ''a@b.c'')" by (simp add: no_product_def fresh_state_def)
  ultimately show ?thesis
    using unpriced_payment_still_requested [OF _ _ r] r by (simp add: demo_io_def)
qed

end
