(* ===== verification/Spec2Isabelle.thy ===== *)
theory Spec2Isabelle
  imports Wf_Theorems Nudge_Theorems Poller_Theorems Documents_Theorems Comm_Theorems Cms_Theorems
    Tool_Theorems Broadcast_Theorems Conv_Theorems
begin

text \<open>
  A verification of the Madad agent: its onboarding conversation and the services around it.

  The program. An inbound message or a backend webhook reaches the \<^emph>\<open>dispatcher\<close>
  (\<open>services/workflow/dispatcher.py\<close>), which finds the run of the sender and drives it through the
  \<^emph>\<open>workflow runtime\<close> (\<open>shared/workflow\<close>): sessions, a registry of workflows, an executor
  with retries and timeouts, crash recovery, a transition manager with an audit trail. A
  \<^emph>\<open>status poller\<close> (\<open>workers/status_poller.py\<close>) wakes parked runs. The \<^emph>\<open>communication\<close>
  service stores, renders, sends and receives messages, the \<^emph>\<open>document\<close> service routes uploads to
  extraction and keeps checklists, the \<^emph>\<open>nudge\<close> service sends reminder campaigns, and the
  \<^emph>\<open>CMS\<close> holds the versioned templates, checklists and schedules the others read. Tools of the
  backend are called through one \<^emph>\<open>tool client\<close>; a \<^emph>\<open>broadcast\<close> starts campaigns from a file.
  What a run does is the \<^emph>\<open>conversation\<close> (\<open>services/workflow/onboarding.py\<close>): a graph of nodes that
  register an applicant, collect documents, charge the fee and follow the offers.

  How the code is modelled. Every service is explicit state passing over a record that extends
  \<open>base\<close> (\<open>Prelude\<close>): a clock read by index, a source of fresh suffixes for \<open>new_id\<close>, and a source
  of random numbers, so that each call of \<open>utcnow\<close>, \<open>new_id\<close> and \<open>uniform\<close> is a step. Errors are the
  left of a sum, whose state is the state at the raise. Stores are the in-memory adapters, which
  copy on read and on write, hence values of association lists in insertion order (\<open>dict\<close>). Dynamic
  values are \<open>json\<close>. What the repository does not contain is a parameter: the LangGraph graph
  and its checkpointer, the tool caller, the extraction gateway, the delivery port, \<open>str\<close> of a
  value, the ZIP reader. Python integers are \<open>int\<close>, times are microseconds, floats are reals
  (the one overflow that matters, that of the backoff's power, is a branch of \<open>compute_backoff\<close>).
  An \<open>asyncio\<close> operation is one step: the model interleaves whole operations, not their awaits.

  Theories, in the order of the code.

  \<^item> \<open>Prelude\<close>: dictionaries, dynamic values, strings, the base state, the interface
    \<open>entity_store\<close> of a keyed store (read your create and save, other keys untouched).
  \<^item> \<open>Wf_Types\<close>, \<open>Wf_Utils\<close>, \<open>Wf_Store\<close>, \<open>Wf_Transitions\<close>, \<open>Wf_Sessions\<close>, \<open>Wf_Registry\<close>,
    \<open>Wf_Retry\<close>, \<open>Wf_Executor\<close>, \<open>Wf_Recovery\<close>: \<open>shared/workflow\<close>, one theory per group of files
    (enums, errors, utils; persistence, audit, events; transitions; session; registry, loader;
    retry, timeout; context, state, executor; recovery, runtime). \<open>lifecycle\<close> is the interface of a
    status machine with sinks, interpreted for runs and for messages.
  \<^item> \<open>Wf_Invariant\<close>, \<open>Wf_Safety\<close>, \<open>Wf_Reach\<close>, \<open>Wf_Steps\<close>, \<open>Wf_Theorems\<close>: the invariant
    (each run's status is the end of its audit trail, keys are ids, ids are minted, sessions point at
    runs), its preservation by every runtime operation as an inductive step relation, what one
    operation does, and the properties; \<open>Wf_Example\<close> is a world for the witnesses.
  \<^item> \<open>Nudge\<close>, \<open>Nudge_Inv\<close>, \<open>Nudge_Steps\<close>, \<open>Nudge_Theorems\<close>: \<open>services/nudge\<close>; the invariant is
    one pending reminder per active sequence, none per closed one, and one active sequence per
    reason and target; it holds at boot and is kept by every operation.
  \<^item> \<open>Dispatcher\<close>, \<open>Poller\<close>, \<open>Dispatch_Props\<close>, \<open>Dispatch_Theorems\<close>, \<open>Poller_Theorems\<close>: the
    dispatcher, the campaign endpoints of \<open>services/workflow/main.py\<close>, the webhook dedupe and
    the poller over one platform state; every platform step lets the runtime's world evolve
    and the set of claimed keys grow.
  \<^item> \<open>I18n\<close>: \<open>shared/i18n.py\<close>.
  \<^item> \<open>Documents\<close>, \<open>Documents_Theorems\<close>: \<open>services/document\<close>; routing with retries, checklists,
    archives, and the review CSV, which the reader of \<open>Broadcast_Csv\<close> reads back.
  \<^item> \<open>Communication\<close>, \<open>Comm_Gateway\<close>, \<open>Comm_Inv\<close>, \<open>Comm_Render\<close>, \<open>Comm_Theorems\<close>:
    \<open>services/communication\<close>; \<open>Comm_Inv\<close> has the invariant of the message store and the relation
    every operation keeps, \<open>Comm_Render\<close> reads a template as pieces.
  \<^item> \<open>Cms\<close>, \<open>Cms_Bridges\<close>, \<open>Cms_Inv\<close>, \<open>Cms_Theorems\<close>: \<open>services/cms\<close> and the adapters through
    which communication, document and nudge read it; \<open>Cms_Inv\<close> has the invariant of store,
    history and cache. The cache reads its own monotonic clock. A key's identity
    determines the key (\<open>identity_inj\<close>).
  \<^item> \<open>Tool_Registry\<close>, \<open>Tool_Client\<close>, \<open>Tool_Http\<close>, \<open>Tool_Theorems\<close>: \<open>shared/mcp\<close>; the retrying base
    client over an abstract \<open>invoke\<close>, its two subclasses, the token cache. An await is given the
    time it has left and ends with a value, an exception or its cancellation.
  \<^item> \<open>Broadcast_Csv\<close>, \<open>Broadcast\<close>, \<open>Broadcast_Theorems\<close>: \<open>services/workflow/broadcast.py\<close> and its
    endpoints; the states of Python's \<open>csv\<close> reader, the parsed rows, the store and the coordinator.

  \<^item> \<open>Conv_Text\<close>, \<open>Conv_State\<close>, \<open>Conv_Graph\<close>, \<open>Conv_Ports\<close>: the words of a reply, \<open>OnboardingState\<close>
    with the ports and the actions over them, the wiring of \<open>OnboardingWorkflow.build\<close> with its
    routers, and the helpers the nodes share.
  \<^item> \<open>Conv_Entry\<close>, \<open>Conv_Docs\<close>, \<open>Conv_Gates\<close>, \<open>Conv_Pay\<close>: the nodes in the order of the journey, one
    definition per node method.
  \<^item> \<open>Conv_Walks\<close>, \<open>Conv_Run\<close>: the paths through the graph, and the configurations of a run, that
    is the calls made, the next node and the state. \<open>run_invariant\<close> is the interface of an invariant of a run.
  \<^item> \<open>Conv_Keep\<close>, \<open>Conv_Charge\<close>, \<open>Conv_Uploads\<close>, \<open>Conv_Batch\<close>, \<open>Conv_Theorems\<close>: what nodes leave alone, by the
    calculi \<open>emits\<close> (the calls an action can make), \<open>ends\<close> (its results) and \<open>secures\<close> (a call it cannot return
    without); the payment, the uploads, the documents, the graph and the webhooks. \<open>Conv_Demo\<close> evaluates a run for the witnesses.

  Loops and bounds. The retry loops recurse on the attempts that are left, so they end by structure:
  \<open>retry_loop\<close>, \<open>route\<close>, \<open>attempts_loop\<close> and \<open>call_loop\<close> get \<open>max(1, max_attempts) - 1\<close> further attempts, the
  number the code computes. The template scan ends because each match consumes text
  (\<open>match_var_shorter\<close>), the CSV reader because each record consumes a line. No definition uses fuel. Backoffs overflow from exponent 1024 on, which the
  bounds of the sending property keep out.

  Hypotheses. \<open>random()\<close> lies in the unit interval; \<open>new_id\<close> never repeats a suffix
  (\<open>inj (entropy s)\<close>); a gateway raises only its own error where a property says so. Each is named in
  the statement that uses it and has a witness.

  The conversation in detail. A node is an action: it makes calls and ends with the new state or an exception.
  The ports (backend tools, messenger, claims, language model, the digest and the
  archive reader) are functions of the calls made so far, so they may answer and fail in any way; nothing is
  assumed of them but where a property names it. A node that raises runs again with the state it
  was entered with, and a parked run loses its tokens. Files that the code classifies concurrently are classified one after the
  other; each is guarded on its own. Message texts are left out: a message is its key, addressee and
  facts. Words are ASCII: the Arabic and emoji words of the yes and no tokens are left out.

  Not modelled. The collection of invoices (\<open>_invoice_collect_await\<close> and what it calls), where a run is followed
  no further: its drafts, cards and tables are texts read by a language model, and an extractor that is not
  in the repository decides their content. The nodes no arrow leads to (details, eligibility, buyers, shareholders
  intake). The unpacking of archives by \<open>zipfile\<close>. The adapters of the ports
  (\<open>mcp_identity.py\<close>, \<open>mcp_payments.py\<close>, \<open>mcp_invoices.py\<close>, most of \<open>mcp_kyc.py\<close>): they rename fields around remote calls.
  The visibility service, the inbound email and the shared event stream: projections of an activity log for
  dashboards, the translation of a mail provider's webhook, and Redis streams. The SQL and Redis adapters: twins of the in-memory ones. FastAPI
  and Celery wiring, logging, metrics, settings. Subscribers of event buses: a bus keeps its history. The field
  size limit of the \<open>csv\<close> module.
\<close>

end
